(* ===== verification/Prelude.thy ===== *)
theory Prelude
  imports Main "HOL-Library.Product_Lexorder" "HOL-Library.Option_ord"
begin

text \<open>
  Shared vocabulary of the development: Go error values, the computation type that every
  service method and handler is modelled in, and the generic lemmas about both.

  A Go function of the repository returns \<open>(value, error)\<close> and acts on the outside world
  (database, object store, queues, clock, random source).  Its model is a function from a
  read-only environment and a world to a result and the next world; the result is
  \<open>Inl\<close> of the error value or \<open>Inr\<close> of the value.
\<close>

section \<open>Hint collections\<close>

named_theorems keeps_intros \<open>rules that show that a computation keeps a predicate on the world\<close>
named_theorems go_run \<open>rules that run a computation one step\<close>

section \<open>Go error values\<close>

text \<open>
  \<open>Errorf s\<close> is \<open>errors.New\<close>/\<open>fmt.Errorf\<close> with text \<open>s\<close>; \<open>Wrap p e\<close> is
  \<open>fmt.Errorf(p + ": %w", e)\<close>; \<open>ErrNoRows\<close> is pgx's sentinel, \<open>PgError c\<close> a server
  error with SQLSTATE \<open>c\<close>, \<open>ExternalError s\<close> an error of a client library (network, AWS);
  the other two are the sentinel and the error struct of \<open>services/inbox/service\<close>.
\<close>

datatype go_error =
    Errorf string
  | Wrap string go_error
  | ErrNoRows
  | PgError string
  | ExternalError string
  | ErrInvalidReviewStatus
  | SeatLimitExceededError int int

text \<open>\<open>errors.Is\<close>/\<open>errors.As\<close> look through the wrappers.\<close>

fun root_cause :: "go_error \<Rightarrow> go_error" where
  "root_cause (Wrap p e) = root_cause e"
| "root_cause e = e"

lemma root_cause_idem [simp]: "root_cause (root_cause e) = root_cause e"
  by (induction e) auto

section \<open>Computations\<close>

type_synonym ('e, 's, 'a) gocomp = "'e \<Rightarrow> 's \<Rightarrow> (go_error + 'a) \<times> 's"

definition ret :: "'a \<Rightarrow> ('e, 's, 'a) gocomp" where
  "ret x = (\<lambda>E w. (Inr x, w))"

definition throw :: "go_error \<Rightarrow> ('e, 's, 'a) gocomp" where
  "throw e = (\<lambda>E w. (Inl e, w))"

text \<open>\<open>x, err := m; if err != nil { return err }; f(x)\<close>\<close>

definition go_bind :: "('e, 's, 'a) gocomp \<Rightarrow> ('a \<Rightarrow> ('e, 's, 'b) gocomp) \<Rightarrow> ('e, 's, 'b) gocomp" where
  "go_bind m f = (\<lambda>E w. case m E w of (Inl e, w') \<Rightarrow> (Inl e, w') | (Inr x, w') \<Rightarrow> f x E w')"

text \<open>\<open>x, err := m\<close> with the error inspected by the continuation.\<close>

definition attempt :: "('e, 's, 'a) gocomp \<Rightarrow> ('e, 's, go_error + 'a) gocomp" where
  "attempt m = (\<lambda>E w. case m E w of (r, w') \<Rightarrow> (Inr r, w'))"

text \<open>\<open>_ = m\<close>: the error is dropped.\<close>

definition ignore_err :: "('e, 's, 'a) gocomp \<Rightarrow> ('e, 's, unit) gocomp" where
  "ignore_err m = (\<lambda>E w. (Inr (), snd (m E w)))"

text \<open>\<open>if err != nil { return fmt.Errorf(p + ": %w", err) }\<close>\<close>

definition wrap_err :: "string \<Rightarrow> ('e, 's, 'a) gocomp \<Rightarrow> ('e, 's, 'a) gocomp" where
  "wrap_err p m = (\<lambda>E w. case m E w of (Inl e, w') \<Rightarrow> (Inl (Wrap p e), w') | (Inr x, w') \<Rightarrow> (Inr x, w'))"

text \<open>\<open>if b { return e }\<close>\<close>

definition fail_if :: "bool \<Rightarrow> go_error \<Rightarrow> ('e, 's, unit) gocomp" where
  "fail_if b e = (if b then throw e else ret ())"

definition asks :: "('e \<Rightarrow> 'a) \<Rightarrow> ('e, 's, 'a) gocomp" where
  "asks f = (\<lambda>E w. (Inr (f E), w))"

text \<open>A loop \<open>for _, x := range xs { if err := f(x); err != nil { return err } }\<close>, and the
  variant that appends each result to a slice.\<close>

fun for_each :: "('a \<Rightarrow> ('e, 's, unit) gocomp) \<Rightarrow> 'a list \<Rightarrow> ('e, 's, unit) gocomp" where
  "for_each f [] = ret ()"
| "for_each f (x # xs) = go_bind (f x) (\<lambda>_. for_each f xs)"

fun collect :: "('a \<Rightarrow> ('e, 's, 'b) gocomp) \<Rightarrow> 'a list \<Rightarrow> ('e, 's, 'b list) gocomp" where
  "collect f [] = ret []"
| "collect f (x # xs) = go_bind (f x) (\<lambda>y. go_bind (collect f xs) (\<lambda>ys. ret (y # ys)))"

subsection \<open>Running a computation\<close>

lemma ret_run [go_run]: "ret x E w = (Inr x, w)"
  by (simp add: ret_def)

lemma throw_run [go_run]: "throw e E w = (Inl e, w)"
  by (simp add: throw_def)

lemma asks_run [go_run]: "asks f E w = (Inr (f E), w)"
  by (simp add: asks_def)

lemma fail_if_run [go_run]: "fail_if b e E w = (if b then Inl e else Inr (), w)"
  by (simp add: fail_if_def go_run)

lemma ignore_err_run [go_run]: "ignore_err m E w = (Inr (), snd (m E w))"
  by (simp add: ignore_err_def)

lemma go_bind_Inl [go_run]: "m E w = (Inl e, w') \<Longrightarrow> go_bind m f E w = (Inl e, w')"
  by (simp add: go_bind_def)

lemma go_bind_Inr [go_run]: "m E w = (Inr x, w') \<Longrightarrow> go_bind m f E w = f x E w'"
  by (simp add: go_bind_def)

lemma wrap_err_Inl [go_run]: "m E w = (Inl e, w') \<Longrightarrow> wrap_err p m E w = (Inl (Wrap p e), w')"
  by (simp add: wrap_err_def)

lemma wrap_err_Inr [go_run]: "m E w = (Inr x, w') \<Longrightarrow> wrap_err p m E w = (Inr x, w')"
  by (simp add: wrap_err_def)

lemma attempt_run [go_run]: "m E w = (r, w') \<Longrightarrow> attempt m E w = (Inr r, w')"
  by (simp add: attempt_def)

text \<open>What a successful or a failed run says about its parts.\<close>

lemma go_bind_eq_Inr:
  "go_bind m f E w = (Inr y, w') \<longleftrightarrow> (\<exists>x w1. m E w = (Inr x, w1) \<and> f x E w1 = (Inr y, w'))"
  by (auto simp: go_bind_def split: prod.splits sum.splits)

lemma go_bind_eq_Inl:
  "go_bind m f E w = (Inl e, w') \<longleftrightarrow>
     m E w = (Inl e, w') \<or> (\<exists>x w1. m E w = (Inr x, w1) \<and> f x E w1 = (Inl e, w'))"
  by (auto simp: go_bind_def split: prod.splits sum.splits)

lemma go_bind_InrE:
  assumes "go_bind m f E w = (Inr y, w')"
  obtains x w1 where "m E w = (Inr x, w1)" "f x E w1 = (Inr y, w')"
  using assms by (auto simp: go_bind_eq_Inr)

lemma wrap_err_eq_Inr: "wrap_err p m E w = (Inr y, w') \<longleftrightarrow> m E w = (Inr y, w')"
  by (auto simp: wrap_err_def split: prod.splits sum.splits)

lemma wrap_err_eq_Inl:
  "wrap_err p m E w = (Inl e, w') \<longleftrightarrow> (\<exists>e'. m E w = (Inl e', w') \<and> e = Wrap p e')"
  by (auto simp: wrap_err_def split: prod.splits sum.splits)

lemma attempt_eq_Inr: "attempt m E w = (Inr r, w') \<longleftrightarrow> m E w = (r, w')"
  by (auto simp: attempt_def split: prod.splits)

lemma attempt_not_Inl: "attempt m E w \<noteq> (Inl e, w')"
  by (auto simp: attempt_def split: prod.splits)

lemma wrap_err_snd [simp]: "snd (wrap_err p m E w) = snd (m E w)"
  by (auto simp: wrap_err_def split: prod.splits sum.splits)

lemma attempt_snd [simp]: "snd (attempt m E w) = snd (m E w)"
  by (auto simp: attempt_def split: prod.splits)

lemma fail_if_eq_Inr: "fail_if b e E w = (Inr u, w') \<longleftrightarrow> \<not> b \<and> w' = w"
  by (auto simp: go_run)

lemma ret_eq_Inr: "ret x E w = (Inr y, w') \<longleftrightarrow> y = x \<and> w' = w"
  by (auto simp: go_run)

lemma asks_eq_Inr: "asks f E w = (Inr y, w') \<longleftrightarrow> y = f E \<and> w' = w"
  by (auto simp: go_run)

lemma ignore_err_eq_Inr: "ignore_err m E w = (Inr u, w') \<longleftrightarrow> w' = snd (m E w)"
  by (auto simp: go_run)

lemma throw_eq_Inr: "throw e E w = (Inr y, w') \<longleftrightarrow> False"
  by (simp add: go_run)

lemmas go_success = go_bind_eq_Inr wrap_err_eq_Inr attempt_eq_Inr fail_if_eq_Inr ret_eq_Inr throw_eq_Inr
  asks_eq_Inr ignore_err_eq_Inr

subsection \<open>Predicates on the world that a computation keeps\<close>

definition keeps :: "('s \<Rightarrow> bool) \<Rightarrow> ('e, 's, 'a) gocomp \<Rightarrow> bool" where
  "keeps P m \<longleftrightarrow> (\<forall>E w. P w \<longrightarrow> P (snd (m E w)))"

lemma keepsD: "keeps P m \<Longrightarrow> P w \<Longrightarrow> P (snd (m E w))"
  by (simp add: keeps_def)

lemma keeps_ret [keeps_intros]: "keeps P (ret x)"
  by (simp add: keeps_def go_run)

lemma keeps_throw [keeps_intros]: "keeps P (throw e)"
  by (simp add: keeps_def go_run)

lemma keeps_asks [keeps_intros]: "keeps P (asks f)"
  by (simp add: keeps_def go_run)

lemma keeps_fail_if [keeps_intros]: "keeps P (fail_if b e)"
  by (simp add: keeps_def go_run)

lemma keeps_bind [keeps_intros]:
  assumes "keeps P m" and "\<And>x. keeps P (f x)"
  shows "keeps P (go_bind m f)"
  unfolding keeps_def
proof (intro allI impI)
  fix E w assume "P w"
  with assms(1) have 1: "P (snd (m E w))" by (rule keepsD)
  show "P (snd (go_bind m f E w))"
    using 1 assms(2) by (auto simp: go_bind_def keeps_def split: prod.splits sum.splits)
qed

lemma keeps_attempt [keeps_intros]: "keeps P m \<Longrightarrow> keeps P (attempt m)"
  by (simp add: keeps_def)

lemma keeps_ignore_err [keeps_intros]: "keeps P m \<Longrightarrow> keeps P (ignore_err m)"
  by (simp add: keeps_def go_run)

lemma keeps_wrap_err [keeps_intros]: "keeps P m \<Longrightarrow> keeps P (wrap_err p m)"
  by (simp add: keeps_def)

lemma keeps_for_each [keeps_intros]: "(\<And>x. keeps P (f x)) \<Longrightarrow> keeps P (for_each f xs)"
  by (induction xs) (auto intro: keeps_intros)

lemma keeps_collect [keeps_intros]: "(\<And>x. keeps P (f x)) \<Longrightarrow> keeps P (collect f xs)"
  by (induction xs) (auto intro!: keeps_intros)

lemma keeps_if [keeps_intros]: "(b \<Longrightarrow> keeps P m) \<Longrightarrow> (\<not> b \<Longrightarrow> keeps P m') \<Longrightarrow> keeps P (if b then m else m')"
  by simp

lemma keeps_case_option [keeps_intros]:
  "(x = None \<Longrightarrow> keeps P m) \<Longrightarrow> (\<And>y. x = Some y \<Longrightarrow> keeps P (f y)) \<Longrightarrow> keeps P (case x of None \<Rightarrow> m | Some y \<Rightarrow> f y)"
  by (cases x) auto

lemma keeps_case_sum [keeps_intros]:
  "(\<And>y. x = Inl y \<Longrightarrow> keeps P (f y)) \<Longrightarrow> (\<And>y. x = Inr y \<Longrightarrow> keeps P (g y)) \<Longrightarrow> keeps P (case x of Inl y \<Rightarrow> f y | Inr y \<Rightarrow> g y)"
  by (cases x) auto

lemma keeps_case_prod [keeps_intros]:
  "(\<And>a b. x = (a, b) \<Longrightarrow> keeps P (f a b)) \<Longrightarrow> keeps P (case x of (a, b) \<Rightarrow> f a b)"
  by (cases x) auto

lemma keeps_Let [keeps_intros]: "(\<And>x. x = v \<Longrightarrow> keeps P (f x)) \<Longrightarrow> keeps P (let x = v in f x)"
  by simp

lemma for_each_success_length:
  "collect f xs E w = (Inr ys, w') \<Longrightarrow> length ys = length xs"
  by (induction xs arbitrary: w ys w') (auto simp: go_success)

section \<open>Lists as SQL tables\<close>

text \<open>
  A table is the list of its rows.  \<open>upd_where\<close> is \<open>UPDATE ... WHERE\<close>, \<open>del_where\<close> is
  \<open>DELETE ... WHERE\<close>, \<open>filter\<close> is \<open>SELECT ... WHERE\<close>; \<open>order_asc\<close> and
  \<open>order_desc\<close> are \<open>ORDER BY\<close>.
\<close>

definition upd_where :: "('r \<Rightarrow> bool) \<Rightarrow> ('r \<Rightarrow> 'r) \<Rightarrow> 'r list \<Rightarrow> 'r list" where
  "upd_where p f rs = map (\<lambda>r. if p r then f r else r) rs"

definition del_where :: "('r \<Rightarrow> bool) \<Rightarrow> 'r list \<Rightarrow> 'r list" where
  "del_where p rs = filter (\<lambda>r. \<not> p r) rs"

definition order_asc :: "('r \<Rightarrow> 'k::linorder) \<Rightarrow> 'r list \<Rightarrow> 'r list" where
  "order_asc k rs = sort_key k rs"

definition order_desc :: "('r \<Rightarrow> 'k::linorder) \<Rightarrow> 'r list \<Rightarrow> 'r list" where
  "order_desc k rs = rev (sort_key k rs)"

lemma set_order_asc [simp]: "set (order_asc k rs) = set rs"
  by (simp add: order_asc_def)

lemma set_order_desc [simp]: "set (order_desc k rs) = set rs"
  by (simp add: order_desc_def)

lemma length_upd_where [simp]: "length (upd_where p f rs) = length rs"
  by (simp add: upd_where_def)

lemma set_del_where [simp]: "set (del_where p rs) = {r \<in> set rs. \<not> p r}"
  by (auto simp: del_where_def)

lemma in_upd_where:
  "r \<in> set (upd_where p f rs) \<longleftrightarrow> (\<exists>r0 \<in> set rs. r = (if p r0 then f r0 else r0))"
  by (auto simp: upd_where_def)

lemma map_upd_where_inv [simp]: "(\<And>r. k (f r) = k r) \<Longrightarrow> map k (upd_where p f rs) = map k rs"
  by (simp add: upd_where_def)

lemma upd_where_none: "(\<And>r. r \<in> set rs \<Longrightarrow> \<not> p r) \<Longrightarrow> upd_where p f rs = rs"
  by (induction rs) (auto simp: upd_where_def)

lemma filter_upd_where_other:
  "(\<And>r. r \<in> set rs \<Longrightarrow> p r \<Longrightarrow> \<not> q r) \<Longrightarrow> (\<And>r. r \<in> set rs \<Longrightarrow> p r \<Longrightarrow> \<not> q (f r)) \<Longrightarrow>
   filter q (upd_where p f rs) = filter q rs"
  by (induction rs) (auto simp: upd_where_def)

lemma filter_del_where_other:
  "(\<And>r. r \<in> set rs \<Longrightarrow> p r \<Longrightarrow> \<not> q r) \<Longrightarrow> filter q (del_where p rs) = filter q rs"
  by (induction rs) (auto simp: del_where_def)

lemma upd_where_twice:
  assumes "\<And>r. k (f r) = k r"
  shows "upd_where (\<lambda>r. k r = i) g (upd_where (\<lambda>r. k r = i) f rs) = upd_where (\<lambda>r. k r = i) (\<lambda>r. g (f r)) rs"
  using assms by (simp add: upd_where_def)

lemma upd_where_last:
  assumes "k x = i" "i \<notin> set (map k rs)"
  shows "upd_where (\<lambda>r. k r = i) f (rs @ [x]) = rs @ [f x]"
proof -
  have "upd_where (\<lambda>r. k r = i) f rs = rs" using assms(2) by (intro upd_where_none) auto
  with assms(1) show ?thesis by (simp add: upd_where_def)
qed

lemma upd_where_hit:
  assumes "m \<in> set (upd_where (\<lambda>r. k r = i) f rs)" "k m = i" "\<And>r. k (f r) = k r"
  shows "\<exists>r \<in> set rs. k r = i \<and> m = f r"
  using assms by (auto simp: in_upd_where split: if_splits)

lemma distinct_map_filter_le: "distinct (map k rs) \<Longrightarrow> distinct (map k (filter p rs))"
  by (rule distinct_map_filter)

lemma distinct_map_eq: "distinct (map k rs) \<Longrightarrow> r \<in> set rs \<Longrightarrow> r' \<in> set rs \<Longrightarrow> k r = k r' \<Longrightarrow> r = r'"
  by (induction rs) (auto simp: image_iff)

end
