(* ===== verification/Go_Strings.thy ===== *)
theory Go_Strings
  imports Prelude
begin

text \<open>
  The part of Go's standard library (\<open>strings\<close>, \<open>strconv\<close>, \<open>fmt\<close>,
  \<open>encoding/base64\<close>, \<open>encoding/hex\<close>) that the modelled code calls, on byte strings.
  A Go string is its list of bytes.  Case folding and white space are those of ASCII.
\<close>

section \<open>strings\<close>

fun has_prefix :: "string \<Rightarrow> string \<Rightarrow> bool" where
  "has_prefix s [] = True"
| "has_prefix [] (p # ps) = False"
| "has_prefix (c # cs) (p # ps) = (c = p \<and> has_prefix cs ps)"

fun contains :: "string \<Rightarrow> string \<Rightarrow> bool" where
  "contains [] sub = (sub = [])"
| "contains (c # cs) sub = (has_prefix (c # cs) sub \<or> contains cs sub)"

definition is_space :: "char \<Rightarrow> bool" where
  "is_space c = (of_char c \<in> {9, 10, 11, 12, 13, 32 :: nat})"

definition trim_space :: "string \<Rightarrow> string" where
  "trim_space s = rev (dropWhile is_space (rev (dropWhile is_space s)))"

definition trim_cutset :: "string \<Rightarrow> string \<Rightarrow> string" where
  "trim_cutset s cutset = rev (dropWhile (\<lambda>c. c \<in> set cutset) (rev (dropWhile (\<lambda>c. c \<in> set cutset) s)))"

definition lower_char :: "char \<Rightarrow> char" where
  "lower_char c = (if 65 \<le> (of_char c :: nat) \<and> (of_char c :: nat) \<le> 90 then char_of ((of_char c :: nat) + 32) else c)"

definition to_lower :: "string \<Rightarrow> string" where
  "to_lower s = map lower_char s"

fun split_on :: "char \<Rightarrow> string \<Rightarrow> string list" where
  "split_on sep [] = [[]]"
| "split_on sep (c # cs) =
     (if c = sep then [] # split_on sep cs
      else case split_on sep cs of [] \<Rightarrow> [[c]] | w # ws \<Rightarrow> (c # w) # ws)"

fun join :: "string \<Rightarrow> string list \<Rightarrow> string" where
  "join sep [] = []"
| "join sep [w] = w"
| "join sep (w # ws) = w @ sep @ join sep ws"

definition replace_char :: "char \<Rightarrow> string \<Rightarrow> string \<Rightarrow> string" where
  "replace_char c r s = concat (map (\<lambda>x. if x = c then r else [x]) s)"

text \<open>\<open>strings.Fields\<close>: the maximal runs of non-space bytes.\<close>

fun fields_acc :: "string \<Rightarrow> string \<Rightarrow> string list" where
  "fields_acc acc [] = (if acc = [] then [] else [rev acc])"
| "fields_acc acc (c # cs) =
     (if is_space c then (if acc = [] then fields_acc [] cs else rev acc # fields_acc [] cs)
      else fields_acc (c # acc) cs)"

definition fields :: "string \<Rightarrow> string list" where
  "fields s = fields_acc [] s"

lemma split_on_not_Nil [simp]: "split_on sep s \<noteq> []"
  by (induction s) (auto split: list.splits)

lemma split_on_append_sep: "split_on sep (a @ sep # b) = split_on sep a @ split_on sep b"
  by (induction a) (auto split: list.splits)

lemma split_on_no_sep: "sep \<notin> set s \<Longrightarrow> split_on sep s = [s]"
  by (induction s) auto

lemma split_on_pieces: "w \<in> set (split_on sep s) \<Longrightarrow> sep \<notin> set w"
  by (induction s arbitrary: w) (auto split: if_splits list.splits)

text \<open>Splitting undoes joining when no piece contains the separator.\<close>

lemma split_join:
  "ws \<noteq> [] \<Longrightarrow> (\<And>w. w \<in> set ws \<Longrightarrow> sep \<notin> set w) \<Longrightarrow> split_on sep (join [sep] ws) = ws"
proof (induction ws rule: induct_list012)
  case (3 x y zs)
  then have "split_on sep (join [sep] (y # zs)) = y # zs" by simp
  with "3.prems" show ?case by (simp add: split_on_append_sep split_on_no_sep)
qed (auto simp: split_on_no_sep)

lemma lower_char_idem [simp]: "lower_char (lower_char c) = lower_char c"
proof -
  have "(of_char c :: nat) + 32 < 256" if "(of_char c :: nat) \<le> 90" using that by simp
  then show ?thesis by (auto simp: lower_char_def)
qed

lemma to_lower_idem [simp]: "to_lower (to_lower s) = to_lower s"
  by (simp add: to_lower_def)

lemma to_lower_append [simp]: "to_lower (s @ t) = to_lower s @ to_lower t"
  by (simp add: to_lower_def)

lemma has_prefix_append [simp]: "has_prefix (p @ s) p"
  by (induction p) auto

lemma contains_append: "contains (p @ s) s"
proof (induction p)
  case Nil
  then show ?case using has_prefix_append [of s "[]"] by (cases s) auto
qed simp

section \<open>strconv and fmt\<close>

definition is_digit :: "char \<Rightarrow> bool" where
  "is_digit c = (48 \<le> (of_char c :: nat) \<and> (of_char c :: nat) \<le> 57)"

definition digit_val :: "char \<Rightarrow> int" where
  "digit_val c = of_char c - 48"

fun digits_val :: "int \<Rightarrow> string \<Rightarrow> int" where
  "digits_val acc [] = acc"
| "digits_val acc (c # cs) = digits_val (10 * acc + digit_val c) cs"

definition in_int64 :: "int \<Rightarrow> bool" where
  "in_int64 n = (- (2 ^ 63) \<le> n \<and> n < 2 ^ 63)"

text \<open>\<open>strconv.Atoi\<close>: an optional sign, one or more decimal digits, within \<open>int64\<close>.\<close>

definition atoi_unsigned :: "bool \<Rightarrow> string \<Rightarrow> int option" where
  "atoi_unsigned neg ds =
     (if ds = [] \<or> \<not> list_all is_digit ds then None
      else let n = (if neg then - digits_val 0 ds else digits_val 0 ds)
           in if in_int64 n then Some n else None)"

definition atoi :: "string \<Rightarrow> int option" where
  "atoi s = (case s of
       [] \<Rightarrow> None
     | c # cs \<Rightarrow> if c = CHR ''-'' then atoi_unsigned True cs
                 else if c = CHR ''+'' then atoi_unsigned False cs
                 else atoi_unsigned False s)"

text \<open>\<open>fmt.Sscanf(s, "%d", &n)\<close>: leading blanks are skipped, the longest signed decimal
  prefix is read, the rest of the input is not looked at; on an error \<open>n\<close> keeps the
  value \<open>dflt\<close> it had.\<close>

definition sscanf_d :: "string \<Rightarrow> int \<Rightarrow> int" where
  "sscanf_d s dflt =
     (let t = dropWhile (\<lambda>c. c = CHR '' '' \<or> c = CHR 0x09) s;
          neg = (case t of c # _ \<Rightarrow> c = CHR ''-'' | [] \<Rightarrow> False);
          u = (case t of c # cs \<Rightarrow> (if c = CHR ''-'' \<or> c = CHR ''+'' then cs else t) | [] \<Rightarrow> [])
      in case atoi_unsigned neg (takeWhile is_digit u) of None \<Rightarrow> dflt | Some n \<Rightarrow> n)"

fun nat_digits :: "nat \<Rightarrow> string" where
  "nat_digits n = (if n < 10 then [char_of (48 + n)] else nat_digits (n div 10) @ [char_of (48 + n mod 10)])"

declare nat_digits.simps [simp del]

definition itoa :: "int \<Rightarrow> string" where
  "itoa n = (if n < 0 then CHR ''-'' # nat_digits (nat (- n)) else nat_digits (nat n))"

text \<open>Numbers survive their text.\<close>

lemma digits_val_append: "digits_val a (xs @ [c]) = 10 * digits_val a xs + digit_val c"
  by (induction xs arbitrary: a) auto

lemma nat_digits_props: "nat_digits n \<noteq> [] \<and> list_all is_digit (nat_digits n) \<and> digits_val 0 (nat_digits n) = int n"
proof (induction n rule: nat_digits.induct)
  case (1 n)
  have d: "is_digit (char_of (48 + k :: nat)) \<and> digit_val (char_of (48 + k)) = int k" if "k < 10" for k
  proof -
    have "int (of_char (char_of (48 + k) :: char)) = int (48 + k)" using that by (simp only: of_char_of) simp
    then have "(of_char (char_of (48 + k) :: char) :: int) = 48 + int k" by (simp only: of_nat_of_char of_nat_add of_nat_numeral)
    moreover have "(of_char (char_of (48 + k) :: char) :: nat) = 48 + k" using that by (simp only: of_char_of) simp
    ultimately show ?thesis using that unfolding is_digit_def digit_val_def by simp
  qed
  show ?case
  proof (cases "n < 10")
    case True
    with d [of n] show ?thesis by (subst (1 2 3) nat_digits.simps) simp
  next
    case False
    have "10 * int (n div 10) + int (n mod 10) = int n" using mult_div_mod_eq [of 10 n] by linarith
    with False 1 d [of "n mod 10"] show ?thesis
      by (subst (1 2 3) nat_digits.simps) (simp add: digits_val_append)
  qed
qed

lemma atoi_itoa:
  assumes "in_int64 n"
  shows "atoi (itoa n) = Some n"
proof -
  have plain: "c \<noteq> CHR ''-'' \<and> c \<noteq> CHR ''+''" if "is_digit c" for c
    using that by (auto simp: is_digit_def)
  show ?thesis
  proof (cases "n < 0")
    case True
    with nat_digits_props [of "nat (- n)"] assms show ?thesis
      by (simp add: itoa_def atoi_def atoi_unsigned_def)
  next
    case False
    obtain c cs where s: "nat_digits (nat n) = c # cs" using nat_digits_props by (cases "nat_digits (nat n)") blast+
    with nat_digits_props [of "nat n"] False assms plain [of c] show ?thesis
      by (auto simp: itoa_def atoi_def atoi_unsigned_def)
  qed
qed

lemma itoa_not_Nil: "itoa n \<noteq> []"
  using nat_digits_props by (auto simp: itoa_def)

section \<open>encoding/hex\<close>

definition hex_digits :: string where
  "hex_digits = ''0123456789abcdef''"

definition hex_byte :: "char \<Rightarrow> string" where
  "hex_byte c = [hex_digits ! (of_char c div 16), hex_digits ! (of_char c mod 16)]"

definition hex_encode :: "string \<Rightarrow> string" where
  "hex_encode s = concat (map hex_byte s)"

definition hex_val :: "char \<Rightarrow> nat option" where
  "hex_val c = (let n = of_char c in
     if 48 \<le> n \<and> n \<le> 57 then Some (n - 48)
     else if 97 \<le> n \<and> n \<le> 102 then Some (n - 87)
     else if 65 \<le> n \<and> n \<le> 70 then Some (n - 55) else None)"

fun hex_decode :: "string \<Rightarrow> string option" where
  "hex_decode [] = Some []"
| "hex_decode [c] = None"
| "hex_decode (a # b # cs) =
     (case (hex_val a, hex_val b, hex_decode cs) of
        (Some x, Some y, Some r) \<Rightarrow> Some (char_of (16 * x + y) # r)
      | _ \<Rightarrow> None)"

lemma hex_encode_length [simp]: "length (hex_encode s) = 2 * length s"
  by (induction s) (auto simp: hex_encode_def hex_byte_def)

text \<open>\<open>%q\<close>: double quotes around the text, with the escapes of \<open>strconv.Quote\<close>.\<close>

definition quote_char :: "char \<Rightarrow> string" where
  "quote_char c = (let n = (of_char c :: nat) in
     if c = CHR 0x22 \<or> c = CHR 0x5C then [CHR 0x5C, c]
     else if n = 7 then [CHR 0x5C, CHR ''a''] else if n = 8 then [CHR 0x5C, CHR ''b'']
     else if n = 12 then [CHR 0x5C, CHR ''f''] else if n = 10 then [CHR 0x5C, CHR ''n'']
     else if n = 13 then [CHR 0x5C, CHR ''r''] else if n = 9 then [CHR 0x5C, CHR ''t'']
     else if n = 11 then [CHR 0x5C, CHR ''v'']
     else if n < 32 \<or> n = 127 then [CHR 0x5C, CHR ''x''] @ hex_byte c
     else [c])"

definition go_quote :: "string \<Rightarrow> string" where
  "go_quote s = [CHR 0x22] @ concat (map quote_char s) @ [CHR 0x22]"

section \<open>encoding/base64, the standard alphabet with padding\<close>

definition b64_alphabet :: string where
  "b64_alphabet = ''ABCDEFGHIJKLMNOPQRSTUVWXYZabcdefghijklmnopqrstuvwxyz0123456789+/''"

definition b64_char :: "nat \<Rightarrow> char" where
  "b64_char n = b64_alphabet ! n"

definition b64_val :: "char \<Rightarrow> nat option" where
  "b64_val c = map_of (zip b64_alphabet [0..<64]) c"

fun b64_encode :: "string \<Rightarrow> string" where
  "b64_encode [] = []"
| "b64_encode [a] =
     (let n = of_char a in [b64_char (n div 4), b64_char (n mod 4 * 16), CHR ''='', CHR ''=''])"
| "b64_encode [a, b] =
     (let m = of_char a; n = of_char b
      in [b64_char (m div 4), b64_char (m mod 4 * 16 + n div 16), b64_char (n mod 16 * 4), CHR ''=''])"
| "b64_encode (a # b # c # cs) =
     (let l = of_char a; m = of_char b; n = of_char c
      in [b64_char (l div 4), b64_char (l mod 4 * 16 + m div 16),
          b64_char (m mod 16 * 4 + n div 64), b64_char (n mod 64)] @ b64_encode cs)"

text \<open>Decoding by quanta of four characters; trailing bits are not required to be zero.\<close>

definition b64_two :: "char \<Rightarrow> char \<Rightarrow> string option" where
  "b64_two w x = (case (b64_val w, b64_val x) of
       (Some p, Some q) \<Rightarrow> Some [char_of (p * 4 + q div 16)] | _ \<Rightarrow> None)"

definition b64_three :: "char \<Rightarrow> char \<Rightarrow> char \<Rightarrow> string option" where
  "b64_three w x y = (case (b64_val w, b64_val x, b64_val y) of
       (Some p, Some q, Some r) \<Rightarrow> Some [char_of (p * 4 + q div 16), char_of (q mod 16 * 16 + r div 4)]
     | _ \<Rightarrow> None)"

definition b64_four :: "char \<Rightarrow> char \<Rightarrow> char \<Rightarrow> char \<Rightarrow> string option" where
  "b64_four w x y z = (case (b64_val w, b64_val x, b64_val y, b64_val z) of
       (Some p, Some q, Some r, Some s) \<Rightarrow>
          Some [char_of (p * 4 + q div 16), char_of (q mod 16 * 16 + r div 4), char_of (r mod 4 * 64 + s)]
     | _ \<Rightarrow> None)"

fun b64_quanta :: "string \<Rightarrow> string option" where
  "b64_quanta [] = Some []"
| "b64_quanta (w # x # y # z # rest) =
     (if z = CHR ''='' then
        (if rest \<noteq> [] then None
         else if y = CHR ''='' then b64_two w x else b64_three w x y)
      else (case (b64_four w x y z, b64_quanta rest) of
              (Some bs, Some r) \<Rightarrow> Some (bs @ r) | _ \<Rightarrow> None))"
| "b64_quanta _ = None"

text \<open>\<open>base64.StdEncoding.DecodeString\<close> skips carriage returns and line feeds.\<close>

definition b64_decode :: "string \<Rightarrow> string option" where
  "b64_decode s = b64_quanta (filter (\<lambda>c. of_char c \<noteq> (10::nat) \<and> of_char c \<noteq> (13::nat)) s)"

lemma b64_val_char [simp]: "n < 64 \<Longrightarrow> b64_val (b64_char n) = Some n"
proof -
  have "list_all (\<lambda>n. b64_val (b64_char n) = Some n) [0..<64]"
    by code_simp
  then show "n < 64 \<Longrightarrow> b64_val (b64_char n) = Some n"
    by (simp add: list_all_iff)
qed

lemma b64_char_plain: "n < 64 \<Longrightarrow>
   b64_char n \<noteq> CHR ''='' \<and> of_char (b64_char n) \<noteq> (10::nat) \<and> of_char (b64_char n) \<noteq> (13::nat)"
proof -
  have "list_all (\<lambda>n. b64_char n \<noteq> CHR ''='' \<and> of_char (b64_char n) \<noteq> (10::nat) \<and> of_char (b64_char n) \<noteq> (13::nat)) [0..<64]"
    by code_simp
  then show "n < 64 \<Longrightarrow> b64_char n \<noteq> CHR ''='' \<and> of_char (b64_char n) \<noteq> (10::nat) \<and> of_char (b64_char n) \<noteq> (13::nat)"
    by (simp add: list_all_iff)
qed

lemmas b64_char_simps [simp] =
  b64_char_plain [THEN conjunct1] b64_char_plain [THEN conjunct2, THEN conjunct1]
  b64_char_plain [THEN conjunct2, THEN conjunct2]

lemma byte_div [simp]:
  "of_char c div 4 < (64::nat)" "of_char c div 16 < (16::nat)" "of_char c div 64 < (4::nat)"
  by (simp_all add: less_mult_imp_div_less)

lemma sextet_bounds [simp]:
  "of_char a mod 4 * 16 < (64::nat)" "of_char a mod 16 * 4 < (64::nat)"
  "of_char a mod 4 * 16 + of_char b div 16 < (64::nat)"
  "of_char a mod 16 * 4 + of_char b div 64 < (64::nat)"
proof -
  have m: "of_char a mod 4 < (4::nat)" "of_char a mod 16 < (16::nat)" by simp_all
  show "of_char a mod 4 * 16 < (64::nat)" "of_char a mod 16 * 4 < (64::nat)"
    using m by linarith+
  show "of_char a mod 4 * 16 + of_char b div 16 < (64::nat)"
    using m(1) byte_div(2) [of b] by linarith
  show "of_char a mod 16 * 4 + of_char b div 64 < (64::nat)"
    using m(2) byte_div(3) [of b] by linarith
qed

lemma b64_encode_plain: "c \<in> set (b64_encode s) \<Longrightarrow> of_char c \<noteq> (10::nat) \<and> of_char c \<noteq> (13::nat)"
  by (induction s rule: b64_encode.induct) (auto simp: Let_def)

text \<open>Reassembling one byte from the two sextets that carry its bits.\<close>

lemma byte_parts [simp]:
  "of_char c div 16 * 16 + of_char c mod 16 = (of_char c :: nat)"
  "of_char c div 64 * 64 + of_char c mod 64 = (of_char c :: nat)"
  "of_char c div 4 * 4 + of_char c mod 4 = (of_char c :: nat)"
  by simp_all

lemma b64_quanta_encode: "b64_quanta (b64_encode s) = Some s"
  by (induction s rule: b64_encode.induct)
    (simp_all add: Let_def b64_two_def b64_three_def b64_four_def)

lemma b64_roundtrip: "b64_decode (b64_encode s) = Some s"
proof -
  have "filter (\<lambda>c. of_char c \<noteq> (10::nat) \<and> of_char c \<noteq> (13::nat)) (b64_encode s) = b64_encode s"
    by (rule filter_True) (auto dest: b64_encode_plain)
  then show ?thesis by (simp add: b64_decode_def b64_quanta_encode)
qed

lemma b64_encode_Nil_iff [simp]: "b64_encode s = [] \<longleftrightarrow> s = []"
  by (induction s rule: b64_encode.induct) (auto simp: Let_def)

end
