(* ===== verification/Models.thy ===== *)
theory Models
  imports Go_Strings
begin

text \<open>
  The domain structs of \<open>pkg/models\<close>.  A \<open>uuid.UUID\<close> is its 128-bit number, read as a
  natural number (the order of SQL's \<open>uuid\<close> is the order of the numbers); \<open>uuid.Nil\<close> is 0.
  A \<open>time.Time\<close> is a number of nanoseconds since the epoch, a \<open>float32\<close> its bits, and the rank of a
  search result a number that orders as the server orders ranks.  A pointer field is an option; the
  string-typed status fields stay strings, as in the code, because callers may supply any text
  and the database decides what it accepts.  A nil slice and an empty slice are the same list,
  except in the patch requests, where nil means "not supplied" and the field is an option.
\<close>

type_synonym uuid = nat
type_synonym time = int
type_synonym float32 = nat
type_synonym rank = int

abbreviation uuid_Nil :: uuid where
  "uuid_Nil \<equiv> 0"

text \<open>\<open>map[string]any\<close> values, as decoded by \<open>encoding/json\<close>.\<close>

datatype json = JNull | JBool bool | JNum int | JStr string | JArr "json list" | JObj "(string \<times> json) list"

type_synonym json_map = "(string \<times> json) list"

section \<open>pkg/models/types.go\<close>

record email_address =
  ea_Email :: string
  ea_Name :: string

abbreviation DirectionInbound :: string where "DirectionInbound \<equiv> ''inbound''"
abbreviation DirectionOutbound :: string where "DirectionOutbound \<equiv> ''outbound''"

abbreviation MessageStatusReceived :: string where "MessageStatusReceived \<equiv> ''received''"
abbreviation MessageStatusSending :: string where "MessageStatusSending \<equiv> ''sending''"
abbreviation MessageStatusSent :: string where "MessageStatusSent \<equiv> ''sent''"
abbreviation MessageStatusFailed :: string where "MessageStatusFailed \<equiv> ''failed''"
abbreviation MessageStatusBounced :: string where "MessageStatusBounced \<equiv> ''bounced''"

abbreviation ThreadStatusOpen :: string where "ThreadStatusOpen \<equiv> ''open''"
abbreviation ThreadStatusClosed :: string where "ThreadStatusClosed \<equiv> ''closed''"
abbreviation ThreadStatusSpam :: string where "ThreadStatusSpam \<equiv> ''spam''"
abbreviation ThreadStatusTrash :: string where "ThreadStatusTrash \<equiv> ''trash''"

abbreviation DraftReviewStatusPending :: string where "DraftReviewStatusPending \<equiv> ''pending''"
abbreviation DraftReviewStatusApproved :: string where "DraftReviewStatusApproved \<equiv> ''approved''"
abbreviation DraftReviewStatusRejected :: string where "DraftReviewStatusRejected \<equiv> ''rejected''"
abbreviation DraftReviewStatusSent :: string where "DraftReviewStatusSent \<equiv> ''sent''"

abbreviation InboxStatusActive :: string where "InboxStatusActive \<equiv> ''active''"
abbreviation InboxStatusSuspended :: string where "InboxStatusSuspended \<equiv> ''suspended''"
abbreviation InboxStatusDeleted :: string where "InboxStatusDeleted \<equiv> ''deleted''"

section \<open>pkg/models/inbox.go, attachment.go, label.go, thread.go\<close>

record inbox =
  ib_ID :: uuid
  ib_OrgID :: uuid
  ib_PodID :: "uuid option"
  ib_Email :: string
  ib_DisplayName :: string
  ib_Status :: string
  ib_Settings :: json_map
  ib_CreatedAt :: time
  ib_UpdatedAt :: time

record attachment =
  at_ID :: uuid
  at_OrgID :: uuid
  at_MessageID :: "uuid option"
  at_DraftID :: "uuid option"
  at_Filename :: string
  at_ContentType :: string
  at_ContentID :: string
  at_Inline :: bool
  at_SizeBytes :: int
  at_S3Key :: string
  at_CreatedAt :: time

record label =
  lb_ID :: uuid
  lb_OrgID :: uuid
  lb_Name :: string
  lb_Color :: string
  lb_Description :: string
  lb_CreatedAt :: time

record thread_label =
  tl_ThreadID :: uuid
  tl_LabelID :: uuid
  tl_AppliedAt :: time

record thread =
  th_ID :: uuid
  th_OrgID :: uuid
  th_InboxID :: uuid
  th_Subject :: string
  th_Snippet :: string
  th_Status :: string
  th_IsRead :: bool
  th_IsStarred :: bool
  th_MessageCount :: int
  th_Participants :: "email_address list"
  th_LastMessageAt :: "time option"
  th_Labels :: "label list"
  th_CreatedAt :: time
  th_UpdatedAt :: time

section \<open>pkg/models/message.go, draft.go\<close>

record message =
  m_ID :: uuid
  m_OrgID :: uuid
  m_InboxID :: uuid
  m_ThreadID :: uuid
  m_MessageID :: string
  m_InReplyTo :: string
  m_References :: "string list"
  m_Direction :: string
  m_Status :: string
  m_Subject :: string
  m_From :: email_address
  m_To :: "email_address list"
  m_Cc :: "email_address list"
  m_Bcc :: "email_address list"
  m_ReplyTo :: string
  m_RawS3Key :: string
  m_HtmlS3Key :: string
  m_TextS3Key :: string
  m_SizeBytes :: int
  m_Headers :: "(string \<times> string list) list"
  m_Metadata :: json_map
  m_IsRead :: bool
  m_IsStarred :: bool
  m_HasAttachments :: bool
  m_Snippet :: string
  m_SentAt :: "time option"
  m_ReceivedAt :: "time option"
  m_Attachments :: "attachment list"
  m_CreatedAt :: time
  m_UpdatedAt :: time

record draft =
  d_ID :: uuid
  d_OrgID :: uuid
  d_InboxID :: uuid
  d_ThreadID :: "uuid option"
  d_Subject :: string
  d_From :: email_address
  d_To :: "email_address list"
  d_Cc :: "email_address list"
  d_Bcc :: "email_address list"
  d_ReplyTo :: "email_address list"
  d_InReplyTo :: string
  d_References :: "string list"
  d_TextBody :: string
  d_HtmlBody :: string
  d_ReviewStatus :: string
  d_ReviewNote :: string
  d_ReviewedAt :: "time option"
  d_ReviewedBy :: "uuid option"
  d_ScheduledAt :: "time option"
  d_SentAt :: "time option"
  d_MessageID :: "uuid option"
  d_Attachments :: "attachment list"
  d_Metadata :: json_map
  d_CreatedAt :: time
  d_UpdatedAt :: time

definition zero_address :: email_address where
  "zero_address = \<lparr>ea_Email = [], ea_Name = []\<rparr>"

section \<open>pkg/models/webhook.go\<close>

text \<open>A nil list of events differs from an empty one: the driver sends it as NULL.\<close>

record webhook =
  wh_ID :: uuid
  wh_OrgID :: uuid
  wh_URL :: string
  wh_Secret :: string
  wh_Events :: "string list option"
  wh_PodID :: "uuid option"
  wh_InboxID :: "uuid option"
  wh_IsActive :: bool
  wh_FailureCount :: int
  wh_LastSuccessAt :: "time option"
  wh_LastFailureAt :: "time option"
  wh_CreatedAt :: time
  wh_UpdatedAt :: time
  wh_AuthHeaderName :: "string option"
  wh_AuthHeaderValueEnc :: string
  wh_AuthHeaderValue :: string

abbreviation DeliveryStatusPending :: string where "DeliveryStatusPending \<equiv> ''pending''"
abbreviation DeliveryStatusSuccess :: string where "DeliveryStatusSuccess \<equiv> ''success''"
abbreviation DeliveryStatusFailed :: string where "DeliveryStatusFailed \<equiv> ''failed''"
abbreviation DeliveryStatusRetrying :: string where "DeliveryStatusRetrying \<equiv> ''retrying''"

record webhook_delivery =
  wd_ID :: uuid
  wd_WebhookID :: uuid
  wd_EventID :: string
  wd_EventType :: string
  wd_Payload :: json_map
  wd_Status :: string
  wd_AttemptCount :: int
  wd_NextAttemptAt :: "time option"
  wd_LastAttemptAt :: "time option"
  wd_ResponseStatus :: "int option"
  wd_ResponseBody :: string
  wd_ErrorMessage :: string
  wd_CreatedAt :: time
  wd_UpdatedAt :: time

section \<open>pkg/models/organization.go, pod.go, apikey.go, domain.go\<close>

record organization =
  o_ID :: uuid
  o_Name :: string
  o_Slug :: string
  o_Plan :: string
  o_Settings :: json_map
  o_CreatedAt :: time
  o_UpdatedAt :: time

text \<open>A NULL description of a pod is read as the empty string.\<close>

record pod =
  p_ID :: uuid
  p_OrgID :: uuid
  p_Name :: string
  p_Slug :: string
  p_Description :: string
  p_Settings :: json_map
  p_CreatedAt :: time
  p_UpdatedAt :: time

record api_key =
  k_ID :: uuid
  k_OrgID :: uuid
  k_Name :: string
  k_KeyPrefix :: string
  k_KeyHash :: string
  k_Scopes :: "string list"
  k_PodID :: "uuid option"
  k_LastUsedAt :: "time option"
  k_ExpiresAt :: "time option"
  k_RevokedAt :: "time option"
  k_CreatedAt :: time

record domain_config =
  dc_ID :: uuid
  dc_OrgID :: uuid
  dc_PodID :: "uuid option"
  dc_Domain :: string
  dc_Status :: string
  dc_DKIMSelector :: string
  dc_VerifiedAt :: "time option"
  dc_CreatedAt :: time
  dc_UpdatedAt :: time

record dns_record =
  dns_Type :: string
  dns_Name :: string
  dns_Value :: string
  dns_Purpose :: string

section \<open>The licence token of lambdas/authorizer/license.go\<close>

record license_claims =
  lc_ExpiresAt :: "time option"
  lc_TokenVersion :: int
  lc_OrgID :: string
  lc_AWSAccountIDs :: "string list"
  lc_LicenseKey :: string
  lc_Plan :: string
  lc_Features :: "string list"
  lc_SeatLimit :: int
  lc_RenewalDue :: int

end
