(* ===== verification/Events.thy ===== *)
theory Events
  imports Models
begin

text \<open>
  \<open>pkg/events\<close>: the domain events and the message snapshot they carry, and the outbound job of
  \<open>services/inbox/service/message_service.go\<close> that travels on the outbound queue.
\<close>

section \<open>types.go\<close>

abbreviation EventMessageReceived :: string where "EventMessageReceived \<equiv> ''message.received''"
abbreviation EventMessageSent :: string where "EventMessageSent \<equiv> ''message.sent''"
abbreviation EventMessageBounced :: string where "EventMessageBounced \<equiv> ''message.bounced''"
abbreviation EventMessageEngagement :: string where "EventMessageEngagement \<equiv> ''message.engagement''"
abbreviation EventThreadCreated :: string where "EventThreadCreated \<equiv> ''thread.created''"
abbreviation EventThreadStatusChanged :: string where "EventThreadStatusChanged \<equiv> ''thread.status_changed''"
abbreviation EventDraftCreated :: string where "EventDraftCreated \<equiv> ''draft.created''"
abbreviation EventDraftApproved :: string where "EventDraftApproved \<equiv> ''draft.approved''"
abbreviation EventDraftRejected :: string where "EventDraftRejected \<equiv> ''draft.rejected''"
abbreviation EventInboxCreated :: string where "EventInboxCreated \<equiv> ''inbox.created''"
abbreviation EventLabelApplied :: string where "EventLabelApplied \<equiv> ''label.applied''"

record base_event =
  be_ID :: string
  be_Type :: string
  be_OrgID :: string
  be_OccurredAt :: time
  be_CorrelationID :: string

section \<open>email\_events.go\<close>

record attachment_info =
  ai_ID :: string
  ai_Filename :: string
  ai_ContentType :: string
  ai_SizeBytes :: int
  ai_ContentID :: string
  ai_Inline :: bool

record message_payload =
  mp_ID :: string
  mp_MessageID :: string
  mp_InboxID :: uuid
  mp_ThreadID :: uuid
  mp_Direction :: string
  mp_Status :: string
  mp_Subject :: string
  mp_From :: email_address
  mp_To :: "email_address list"
  mp_Cc :: "email_address list"
  mp_Bcc :: "email_address list"
  mp_ReplyTo :: string
  mp_BodyText :: string
  mp_BodyHTML :: string
  mp_Preview :: string
  mp_Headers :: "(string \<times> string list) list"
  mp_Attachments :: "attachment_info list"
  mp_SentAt :: "time option"
  mp_ReceivedAt :: "time option"
  mp_CreatedAt :: time
  mp_UpdatedAt :: time

definition convertAddrs :: "email_address list \<Rightarrow> email_address list" where
  "convertAddrs xs = map (\<lambda>a. \<lparr>ea_Email = ea_Email a, ea_Name = ea_Name a\<rparr>) xs"

text \<open>\<open>fmt_uuid\<close> is \<open>UUID.String\<close> of the uuid package.\<close>

definition attachment_info_of :: "(uuid \<Rightarrow> string) \<Rightarrow> attachment \<Rightarrow> attachment_info" where
  "attachment_info_of fmt_uuid a =
     \<lparr>ai_ID = fmt_uuid (at_ID a), ai_Filename = at_Filename a, ai_ContentType = at_ContentType a,
      ai_SizeBytes = at_SizeBytes a, ai_ContentID = at_ContentID a, ai_Inline = at_Inline a\<rparr>"

definition MessagePayloadFromModel ::
  "(uuid \<Rightarrow> string) \<Rightarrow> message \<Rightarrow> string \<Rightarrow> string \<Rightarrow> string \<Rightarrow> attachment list \<Rightarrow> message_payload" where
  "MessagePayloadFromModel fmt_uuid msg bodyText bodyHTML preview atts =
     \<lparr>mp_ID = fmt_uuid (m_ID msg), mp_MessageID = m_MessageID msg, mp_InboxID = m_InboxID msg,
      mp_ThreadID = m_ThreadID msg, mp_Direction = m_Direction msg, mp_Status = m_Status msg,
      mp_Subject = m_Subject msg,
      mp_From = \<lparr>ea_Email = ea_Email (m_From msg), ea_Name = ea_Name (m_From msg)\<rparr>,
      mp_To = convertAddrs (m_To msg), mp_Cc = convertAddrs (m_Cc msg), mp_Bcc = convertAddrs (m_Bcc msg),
      mp_ReplyTo = m_ReplyTo msg, mp_BodyText = bodyText, mp_BodyHTML = bodyHTML, mp_Preview = preview,
      mp_Headers = m_Headers msg, mp_Attachments = map (attachment_info_of fmt_uuid) atts,
      mp_SentAt = m_SentAt msg, mp_ReceivedAt = m_ReceivedAt msg,
      mp_CreatedAt = m_CreatedAt msg, mp_UpdatedAt = m_UpdatedAt msg\<rparr>"

definition BuildPreview :: "string \<Rightarrow> nat \<Rightarrow> string" where
  "BuildPreview text maxLen =
     (let s = trim_space text;
          s = replace_char (CHR 0x0A) '' '' s;
          s = replace_char (CHR 0x0D) [] s
      in if length s > maxLen then take maxLen s else s)"

text \<open>The concrete event structs; each carries its envelope.\<close>

datatype event =
    MessageReceivedEvent base_event message_payload string
  | MessageSentEvent base_event message_payload
  | MessageBouncedEvent base_event message_payload string string
  | MessageEngagementEvent base_event message_payload string string string string
  | ThreadCreatedEvent base_event uuid uuid string string
  | ThreadStatusChangedEvent base_event uuid uuid string string
  | DraftCreatedEvent base_event uuid uuid uuid
  | DraftApprovedEvent base_event uuid uuid uuid
  | DraftRejectedEvent base_event uuid uuid uuid string
  | InboxCreatedEvent base_event uuid string uuid
  | LabelAppliedEvent base_event uuid uuid string

fun GetBase :: "event \<Rightarrow> base_event" where
  "GetBase (MessageReceivedEvent b p k) = b"
| "GetBase (MessageSentEvent b p) = b"
| "GetBase (MessageBouncedEvent b p c r) = b"
| "GetBase (MessageEngagementEvent b p t l i u) = b"
| "GetBase (ThreadCreatedEvent b t i s m) = b"
| "GetBase (ThreadStatusChangedEvent b t i old new) = b"
| "GetBase (DraftCreatedEvent b d t i) = b"
| "GetBase (DraftApprovedEvent b d t i) = b"
| "GetBase (DraftRejectedEvent b d t i r) = b"
| "GetBase (InboxCreatedEvent b i e p) = b"
| "GetBase (LabelAppliedEvent b t l n) = b"

section \<open>The outbound job of message\_service.go\<close>

text \<open>There is no BCC field: the pipeline reads BCC from the message row.\<close>

record outbound_job =
  oj_MessageID :: string
  oj_OrgID :: string
  oj_InboxID :: string
  oj_ThreadID :: string
  oj_From :: email_address
  oj_To :: "email_address list"
  oj_CC :: "email_address list"
  oj_Subject :: string
  oj_BodyText :: string
  oj_BodyHTML :: string
  oj_InReplyTo :: string
  oj_References :: "string list"

lemma convertAddrs_id [simp]: "convertAddrs xs = xs"
  unfolding convertAddrs_def by (rule map_idI) simp

lemma replace_char_drop: "c \<notin> set (replace_char c [] s)"
  by (auto simp: replace_char_def)

lemma replace_char_other: "d \<notin> set s \<Longrightarrow> d \<notin> set r \<Longrightarrow> d \<notin> set (replace_char c r s)"
  by (auto simp: replace_char_def)

text \<open>A preview is bounded and is a single line.\<close>

lemma BuildPreview_length: "length (BuildPreview s n) \<le> n"
  by (simp add: BuildPreview_def Let_def)

lemma BuildPreview_one_line:
  "CHR 0x0A \<notin> set (BuildPreview s n)" "CHR 0x0D \<notin> set (BuildPreview s n)"
proof -
  have "CHR 0x0A \<notin> set (replace_char (CHR 0x0A) '' '' t)" for t
    by (auto simp: replace_char_def)
  then have "CHR 0x0A \<notin> set (replace_char (CHR 0x0D) [] (replace_char (CHR 0x0A) '' '' t))" for t
    by (rule replace_char_other) simp_all
  then show "CHR 0x0A \<notin> set (BuildPreview s n)"
    by (auto simp: BuildPreview_def Let_def dest: in_set_takeD)
  show "CHR 0x0D \<notin> set (BuildPreview s n)"
    by (auto simp: BuildPreview_def Let_def replace_char_drop dest: in_set_takeD)
qed

end
