(* ===== verification/Mime.thy ===== *)
theory Mime
  imports Models
begin

text \<open>
  \<open>pkg/mime\<close>: parsing of a raw message into the fields, bodies and parts the e-mail pipeline
  stores.  The primitives of Go's net/mail, mime, mime/multipart and mime/quotedprintable are the
  record \<open>mail_lib\<close>; what the code does with them is modelled.  Nested multiparts make the
  parser recursive on data that the library hands out, so it runs on fuel, and the fuel given by \<open>Parse\<close>
  is shown to be enough for a library whose parts are shorter than what they are cut from.
\<close>

section \<open>The library\<close>

type_synonym mail_header = "(string \<times> string list) list"

record mime_part =
  mi_Header :: mail_header
  mi_Body :: string

text \<open>\<open>read_message\<close> is \<open>mail.ReadMessage\<close> (headers by canonical name, rest of the text);
  \<open>parse_media_type\<close> gives media type, parameters and whether there was no error;
  \<open>multipart_parts boundary data\<close> the parts that \<open>NextPart\<close> returns and the error that ended them,
  if it was not the end of the data; \<open>read_quoted_printable\<close> is \<open>ReadAll\<close> of that reader.\<close>

record mail_lib =
  read_message :: "string \<Rightarrow> go_error + mail_header \<times> string"
  decode_words :: "string \<Rightarrow> string option"
  parse_date :: "string \<Rightarrow> time option"
  parse_one_address :: "string \<Rightarrow> email_address option"
  parse_address_list :: "string \<Rightarrow> email_address list option"
  parse_media_type :: "string \<Rightarrow> string \<times> (string \<times> string) list \<times> bool"
  multipart_parts :: "string \<Rightarrow> string \<Rightarrow> mime_part list \<times> go_error option"
  read_quoted_printable :: "string \<Rightarrow> go_error + string"

section \<open>types.go\<close>

record parsed_part =
  pp_ContentType :: string
  pp_Filename :: string
  pp_ContentID :: string
  pp_IsInline :: bool
  pp_Data :: string

record parsed_email =
  pe_MessageID :: string
  pe_InReplyTo :: string
  pe_References :: "string list"
  pe_From :: email_address
  pe_To :: "email_address list"
  pe_CC :: "email_address list"
  pe_ReplyTo :: string
  pe_Subject :: string
  pe_Date :: time
  pe_BodyText :: string
  pe_BodyHTML :: string
  pe_Headers :: "mail_header option"
  pe_Parts :: "parsed_part list"

definition zero_time :: time where
  "zero_time = - 62135596800000000000"

definition empty_email :: parsed_email where
  "empty_email = \<lparr>pe_MessageID = [], pe_InReplyTo = [], pe_References = [], pe_From = zero_address, pe_To = [],
     pe_CC = [], pe_ReplyTo = [], pe_Subject = [], pe_Date = zero_time, pe_BodyText = [], pe_BodyHTML = [],
     pe_Headers = None, pe_Parts = []\<rparr>"

section \<open>Helpers\<close>

text \<open>\<open>Header.Get\<close> with a canonical name: the first value, or the empty string.\<close>

definition header_get :: "mail_header \<Rightarrow> string \<Rightarrow> string" where
  "header_get h name = (case map_of h name of Some (v # _) \<Rightarrow> v | _ \<Rightarrow> [])"

definition decodeHeader :: "mail_lib \<Rightarrow> string \<Rightarrow> string" where
  "decodeHeader lib s = (case decode_words lib s of None \<Rightarrow> s | Some d \<Rightarrow> d)"

definition parseAddressList :: "mail_lib \<Rightarrow> string \<Rightarrow> email_address list" where
  "parseAddressList lib s =
     (if s = [] then [] else case parse_address_list lib s of None \<Rightarrow> [] | Some as \<Rightarrow> as)"

fun remove_crlf :: "string \<Rightarrow> string" where
  "remove_crlf (c # d # s) =
     (if c = CHR 0x0D \<and> d = CHR 0x0A then remove_crlf s else c # remove_crlf (d # s))"
| "remove_crlf s = s"

definition strip_newlines :: "string \<Rightarrow> string" where
  "strip_newlines s = replace_char (CHR 0x0A) [] (remove_crlf s)"

definition decodePartContent :: "mail_lib \<Rightarrow> string \<Rightarrow> string \<Rightarrow> go_error + string" where
  "decodePartContent lib data cte =
     (let enc = to_lower (trim_space cte) in
      if enc = ''quoted-printable'' then read_quoted_printable lib data
      else if enc = ''base64'' then
        (case b64_decode (strip_newlines data) of None \<Rightarrow> Inl (Errorf ''illegal base64 data'') | Some d \<Rightarrow> Inr d)
      else Inr data)"

section \<open>Parsing\<close>

definition param_get :: "(string \<times> string) list \<Rightarrow> string \<Rightarrow> string" where
  "param_get ps k = (case map_of ps k of None \<Rightarrow> [] | Some v \<Rightarrow> v)"

text \<open>The loop over \<open>NextPart\<close>: each part is handled, then the error that ended the parts counts.
  \<open>None\<close> is running out of fuel.\<close>

fun each_part :: "(mime_part \<Rightarrow> parsed_email \<Rightarrow> (go_error + parsed_email) option) \<Rightarrow> mime_part list \<Rightarrow> go_error option
    \<Rightarrow> parsed_email \<Rightarrow> (go_error + parsed_email) option" where
  "each_part f [] err parsed = Some (case err of None \<Rightarrow> Inr parsed | Some e \<Rightarrow> Inl e)"
| "each_part f (x # xs) err parsed =
     (case f x parsed of Some (Inr parsed') \<Rightarrow> each_part f xs err parsed' | r \<Rightarrow> r)"

definition part_filename :: "mail_lib \<Rightarrow> mime_part \<Rightarrow> string" where
  "part_filename lib part =
     (let (mediaType, params, _) = parse_media_type lib (header_get (mi_Header part) ''Content-Type'');
          (dispType, dispParams, _) = parse_media_type lib (header_get (mi_Header part) ''Content-Disposition'');
          filename = param_get dispParams ''filename'';
          filename = (if filename = [] then param_get params ''name'' else filename)
      in decodeHeader lib filename)"

definition part_content_id :: "mime_part \<Rightarrow> string" where
  "part_content_id part = trim_cutset (header_get (mi_Header part) ''Content-Id'') ''<>''"

definition part_inline :: "mail_lib \<Rightarrow> mime_part \<Rightarrow> bool" where
  "part_inline lib part =
     (fst (parse_media_type lib (header_get (mi_Header part) ''Content-Disposition'')) = ''inline'' \<or> part_content_id part \<noteq> [])"

primrec parsePart :: "nat \<Rightarrow> mail_lib \<Rightarrow> mime_part \<Rightarrow> parsed_email \<Rightarrow> (go_error + parsed_email) option" where
  "parsePart 0 lib part parsed = None"
| "parsePart (Suc fuel) lib part parsed =
     (let (mediaType, params, _) = parse_media_type lib (header_get (mi_Header part) ''Content-Type'');
          filename = part_filename lib part; contentID = part_content_id part; isInline = part_inline lib part
      in case decodePartContent lib (mi_Body part) (header_get (mi_Header part) ''Content-Transfer-Encoding'') of
           Inl e \<Rightarrow> Some (Inl e)
         | Inr data \<Rightarrow>
             if mediaType = ''text/plain'' \<and> filename = [] \<and> \<not> isInline then Some (Inr (parsed\<lparr>pe_BodyText := data\<rparr>))
             else if mediaType = ''text/html'' \<and> filename = [] \<and> \<not> isInline then Some (Inr (parsed\<lparr>pe_BodyHTML := data\<rparr>))
             else if has_prefix mediaType ''multipart/'' then
               (let (parts, err) = multipart_parts lib (param_get params ''boundary'') data
                in each_part (parsePart fuel lib) parts err parsed)
             else Some (Inr (parsed\<lparr>pe_Parts := pe_Parts parsed @
               [\<lparr>pp_ContentType = mediaType, pp_Filename = filename, pp_ContentID = contentID,
                 pp_IsInline = isInline, pp_Data = data\<rparr>]\<rparr>)))"

definition parseBody :: "nat \<Rightarrow> mail_lib \<Rightarrow> string \<Rightarrow> string \<Rightarrow> parsed_email \<Rightarrow> (go_error + parsed_email) option" where
  "parseBody fuel lib body contentType parsed =
     (let (mediaType, params, ok) = parse_media_type lib contentType
      in if \<not> ok then Some (Inr (parsed\<lparr>pe_BodyText := body\<rparr>))
         else if mediaType = ''text/plain'' then Some (Inr (parsed\<lparr>pe_BodyText := body\<rparr>))
         else if mediaType = ''text/html'' then Some (Inr (parsed\<lparr>pe_BodyHTML := body\<rparr>))
         else if has_prefix mediaType ''multipart/'' then
           (let boundary = param_get params ''boundary''
            in if boundary = [] then Some (Inl (Errorf ''multipart missing boundary''))
               else let (parts, err) = multipart_parts lib boundary body
                    in each_part (parsePart fuel lib) parts err parsed)
         else Some (Inr (parsed\<lparr>pe_Parts := pe_Parts parsed @
           [\<lparr>pp_ContentType = mediaType, pp_Filename = [], pp_ContentID = [], pp_IsInline = False, pp_Data = body\<rparr>]\<rparr>)))"

definition parse_headers :: "mail_lib \<Rightarrow> mail_header \<Rightarrow> parsed_email" where
  "parse_headers lib h =
     \<lparr>pe_MessageID = trim_cutset (header_get h ''Message-Id'') ''<>'',
      pe_InReplyTo = trim_cutset (header_get h ''In-Reply-To'') ''<>'',
      pe_References = map (\<lambda>ref. trim_cutset ref ''<>'') (Go_Strings.fields (header_get h ''References'')),
      pe_From = (case parse_one_address lib (header_get h ''From'') of None \<Rightarrow> zero_address | Some a \<Rightarrow> a),
      pe_To = parseAddressList lib (header_get h ''To''), pe_CC = parseAddressList lib (header_get h ''Cc''),
      pe_ReplyTo = (let rt = header_get h ''Reply-To'' in
         if rt = [] then [] else case parse_one_address lib rt of None \<Rightarrow> [] | Some a \<Rightarrow> ea_Email a),
      pe_Subject = decodeHeader lib (header_get h ''Subject''),
      pe_Date = (let dateStr = header_get h ''Date'' in
         if dateStr = [] then zero_time else case parse_date lib dateStr of None \<Rightarrow> zero_time | Some t \<Rightarrow> t),
      pe_BodyText = [], pe_BodyHTML = [], pe_Headers = Some h, pe_Parts = []\<rparr>"

definition mime_Parse :: "mail_lib \<Rightarrow> string \<Rightarrow> (go_error + parsed_email) option" where
  "mime_Parse lib raw =
     (case read_message lib raw of
        Inl e \<Rightarrow> Some (Inl (Wrap ''read message'' e))
      | Inr (h, body) \<Rightarrow>
          (case parseBody (length body) lib body (header_get h ''Content-Type'') (parse_headers lib h) of
             None \<Rightarrow> None
           | Some (Inl e) \<Rightarrow> Some (Inl (Wrap ''parse body'' e))
           | Some (Inr parsed) \<Rightarrow> Some (Inr parsed)))"

section \<open>The parser returns\<close>

text \<open>What the library documents: a part is cut out of the data, and decoding does not lengthen it.\<close>

definition mail_lib_shrinks :: "mail_lib \<Rightarrow> bool" where
  "mail_lib_shrinks lib \<longleftrightarrow>
     (\<forall>b data. \<forall>part \<in> set (fst (multipart_parts lib b data)). length (mi_Body part) < length data) \<and>
     (\<forall>data d. read_quoted_printable lib data = Inr d \<longrightarrow> length d \<le> length data)"

lemma b64_quanta_length: "b64_quanta s = Some d \<Longrightarrow> length d \<le> length s"
proof (induction s arbitrary: d rule: b64_quanta.induct)
  case (2 w x y z rest)
  have four: "b64_four w x y z = Some bs \<Longrightarrow> length bs = 3" for bs
    by (auto simp: b64_four_def split: option.splits)
  have two: "b64_two w x = Some bs \<Longrightarrow> length bs = 1" "b64_three w x y = Some bs \<Longrightarrow> length bs = 2" for bs
    by (auto simp: b64_two_def b64_three_def split: option.splits)
  show ?case
  proof (cases "z = CHR ''=''")
    case True
    with 2(2) two show ?thesis by (fastforce split: if_splits)
  next
    case False
    with 2(2) obtain bs r where "b64_four w x y z = Some bs" "b64_quanta rest = Some r" "d = bs @ r"
      by (auto split: option.splits)
    with 2(1) [OF False, of r] four show ?thesis by simp
  qed
qed simp_all

lemma remove_crlf_length: "length (remove_crlf s) \<le> length s"
  by (induction s rule: remove_crlf.induct) auto

lemma strip_newlines_length: "length (strip_newlines s) \<le> length s"
proof -
  have "length (replace_char c [] s) \<le> length s" for c s
    by (induction s) (auto simp: replace_char_def)
  then show ?thesis using remove_crlf_length [of s] unfolding strip_newlines_def by (rule order_trans)
qed

lemma b64_decode_length: "b64_decode s = Some d \<Longrightarrow> length d \<le> length s"
  unfolding b64_decode_def using b64_quanta_length length_filter_le by (metis order_trans)

lemma decodePartContent_length:
  "mail_lib_shrinks lib \<Longrightarrow> decodePartContent lib data cte = Inr d \<Longrightarrow> length d \<le> length data"
  by (auto simp: decodePartContent_def Let_def mail_lib_shrinks_def split: if_splits option.splits
      dest!: b64_decode_length intro: order_trans [OF _ strip_newlines_length])

lemma each_part_returns:
  "(\<And>x q. x \<in> set parts \<Longrightarrow> f x q \<noteq> None) \<Longrightarrow> each_part f parts err parsed \<noteq> None"
  by (induction parts arbitrary: parsed) (auto split: option.splits sum.splits)

lemma parsePart_returns:
  assumes "mail_lib_shrinks lib"
  shows "length (mi_Body part) < fuel \<Longrightarrow> parsePart fuel lib part parsed \<noteq> None"
proof (induction fuel arbitrary: part parsed)
  case (Suc fuel)
  have "each_part (parsePart fuel lib) parts err parsed \<noteq> None"
    if "decodePartContent lib (mi_Body part) cte = Inr d" "multipart_parts lib b d = (parts, err)" for cte d b parts err
  proof (rule each_part_returns)
    fix x q assume "x \<in> set parts"
    with assms that(2) have "length (mi_Body x) < length d" unfolding mail_lib_shrinks_def by (metis fst_conv)
    with decodePartContent_length [OF assms that(1)] Suc.prems have "length (mi_Body x) < fuel" by simp
    then show "parsePart fuel lib x q \<noteq> None" by (rule Suc.IH)
  qed
  then show ?case by (simp add: Let_def split: prod.splits sum.splits)
qed simp

text \<open>C19. Parsing a raw message returns (a parsed message or an error), however deep its multiparts are
  nested, because every part is shorter than the data it is cut from.\<close>

theorem mime_Parse_returns:
  assumes "mail_lib_shrinks lib"
  shows "\<exists>r. mime_Parse lib raw = Some r"
proof -
  have "each_part (parsePart (length body) lib) parts err parsed \<noteq> None"
    if "multipart_parts lib b body = (parts, err)" for b body parts err parsed
    using that assms by (intro each_part_returns parsePart_returns) (auto simp: mail_lib_shrinks_def, metis fst_conv)
  then have "parseBody (length body) lib body ct parsed \<noteq> None" for body ct parsed
    by (simp add: parseBody_def Let_def split: prod.splits)
  then have body: "\<exists>r. parseBody (length body) lib body ct parsed = Some r" for body ct parsed by simp
  show ?thesis
  proof (cases "read_message lib raw")
    case (Inr hb)
    obtain h b where "hb = (h, b)" by (rule prod.exhaust)
    moreover from body obtain r where "parseBody (length b) lib b (header_get h ''Content-Type'') (parse_headers lib h) = Some r"
      by blast
    ultimately show ?thesis using Inr by (cases r) (simp_all add: mime_Parse_def)
  qed (simp add: mime_Parse_def)
qed

text \<open>A small library: every message has the same headers and its text is cut at bars.\<close>

definition demo_mail_lib :: mail_lib where
  "demo_mail_lib =
     \<lparr>read_message = (\<lambda>raw. Inr ([(''Content-Type'', [''multipart/mixed'']), (''From'', [''b@y'']), (''To'', [''a@x'']),
         (''Message-Id'', [''<m77>'']), (''In-Reply-To'', [''<m9>''])], raw)),
      decode_words = Some, parse_date = (\<lambda>s. None),
      parse_one_address = (\<lambda>s. Some \<lparr>ea_Email = s, ea_Name = []\<rparr>),
      parse_address_list = (\<lambda>s. Some [\<lparr>ea_Email = s, ea_Name = []\<rparr>]),
      parse_media_type = (\<lambda>s. (s, [(''boundary'', ''b'')], s \<noteq> [])),
      multipart_parts = (\<lambda>b data. case data of [] \<Rightarrow> ([], None)
        | c # d \<Rightarrow> (map (\<lambda>x. \<lparr>mi_Header = [(''Content-Type'', [''text/plain''])], mi_Body = x\<rparr>) (split_on (CHR ''|'') d), None)),
      read_quoted_printable = Inr\<rparr>"

lemma split_on_length: "w \<in> set (split_on sep s) \<Longrightarrow> length w \<le> length s"
  by (induction s arbitrary: w rule: split_on.induct) (auto split: list.splits if_splits, fastforce+)

lemma demo_mail_lib_shrinks: "mail_lib_shrinks demo_mail_lib"
  by (auto simp: mail_lib_shrinks_def demo_mail_lib_def less_Suc_eq_le dest: split_on_length split: list.splits)

theorem mime_Parse_returns_witness:
  "(\<exists>r. mime_Parse demo_mail_lib ''|hello|again'' = Some r) \<and>
   map_option (map_sum id pe_BodyText) (mime_Parse demo_mail_lib ''|hello|again'') = Some (Inr ''again'')"
proof
  show "\<exists>r. mime_Parse demo_mail_lib ''|hello|again'' = Some r" by (rule mime_Parse_returns [OF demo_mail_lib_shrinks])
  show "map_option (map_sum id pe_BodyText) (mime_Parse demo_mail_lib ''|hello|again'') = Some (Inr ''again'')" by code_simp
qed

end
