(* ===== verification/Database.thy ===== *)
theory Database
  imports Events Mime
begin

text \<open>
  The world the program acts on and its access paths: the PostgreSQL tables of
  \<open>migrations/\<close>, the transaction helpers of \<open>pkg/db\<close>, the object store client of
  \<open>pkg/s3\<close> and the queue publisher of \<open>pkg/sqs\<close>.

  Every call that leaves the process (a statement, BEGIN, COMMIT, an upload, a send) draws the
  next number of the world's call counter and fails when the environment says that call fails, so
  that each \<open>if err != nil\<close> branch of the code is reachable.  The environment also holds the
  sources of randomness and time and the third-party parsers and printers.
\<close>

section \<open>Rows\<close>

text \<open>Tables whose columns differ from the struct's fields have their own row type: a draft has no
  from, reply-to, in-reply-to, references or sent-at column, a message no snippet.\<close>

record draft_row =
  dr_id :: uuid
  dr_org_id :: uuid
  dr_inbox_id :: uuid
  dr_thread_id :: "uuid option"
  dr_to_addresses :: "email_address list"
  dr_cc_addresses :: "email_address list"
  dr_bcc_addresses :: "email_address list"
  dr_subject :: string
  dr_body_text :: string
  dr_body_html :: string
  dr_metadata :: json_map
  dr_review_status :: string
  dr_review_note :: string
  dr_reviewed_by :: "string option"
  dr_reviewed_at :: "time option"
  dr_scheduled_at :: "time option"
  dr_message_id :: "uuid option"
  dr_created_at :: time
  dr_updated_at :: time

record message_row =
  mr_id :: uuid
  mr_org_id :: uuid
  mr_inbox_id :: uuid
  mr_thread_id :: uuid
  mr_message_id_header :: string
  mr_in_reply_to :: string
  mr_references_header :: "string list"
  mr_direction :: string
  mr_status :: string
  mr_from_address :: string
  mr_from_name :: string
  mr_to_addresses :: "email_address list"
  mr_cc_addresses :: "email_address list"
  mr_bcc_addresses :: "email_address list"
  mr_reply_to :: string
  mr_subject :: string
  mr_body_text_key :: string
  mr_body_html_key :: string
  mr_raw_key :: string
  mr_size_bytes :: int
  mr_is_read :: bool
  mr_is_starred :: bool
  mr_has_attachments :: bool
  mr_headers :: "(string \<times> string list) list"
  mr_metadata :: json_map
  mr_sent_at :: "time option"
  mr_received_at :: "time option"
  mr_created_at :: time
  mr_updated_at :: time
  mr_embedding :: "float32 list option"
  mr_embedded_at :: "time option"

record thread_row =
  tr_id :: uuid
  tr_org_id :: uuid
  tr_inbox_id :: uuid
  tr_subject :: string
  tr_snippet :: string
  tr_status :: string
  tr_is_read :: bool
  tr_is_starred :: bool
  tr_message_count :: int
  tr_participants :: "email_address list"
  tr_last_message_at :: "time option"
  tr_created_at :: time
  tr_updated_at :: time

record websocket_connection =
  wsc_connection_id :: string
  wsc_org_id :: uuid
  wsc_connected_at :: time
  wsc_ttl :: time

record database =
  t_organizations :: "organization list"
  t_pods :: "pod list"
  t_inboxes :: "inbox list"
  t_threads :: "thread_row list"
  t_messages :: "message_row list"
  t_attachments :: "attachment list"
  t_labels :: "label list"
  t_thread_labels :: "thread_label list"
  t_drafts :: "draft_row list"
  t_webhooks :: "webhook list"
  t_webhook_deliveries :: "webhook_delivery list"
  t_api_keys :: "api_key list"
  t_domain_configs :: "domain_config list"
  t_websocket_connections :: "websocket_connection list"

section \<open>The environment and the world\<close>

datatype sqs_body = EventBody event | JobBody string outbound_job

text \<open>What leaves the process over HTTP and through SES.\<close>

record http_request =
  hr_Method :: string
  hr_URL :: string
  hr_Header :: "(string \<times> string) list"
  hr_Body :: string

record ses_email =
  se_Data :: string
  se_ConfigurationSet :: string
  se_ToAddresses :: "string list"

text \<open>The calls of the SES client that manage the domains of customers, with the rule set, rule, domain and bucket they
  name, and the answers of the service to them.\<close>

datatype ses_domain_call =
    VerifyDomainIdentity string
  | VerifyDomainDkim string
  | CreateReceiptRule string string string string
  | DeleteReceiptRule string string
  | DeleteIdentity string
  | GetIdentityVerificationAttributes string
  | GetIdentityDkimAttributes string

record ses_domain_answers =
  sda_Token :: "nat \<Rightarrow> string \<Rightarrow> go_error + string"
  sda_DkimTokens :: "nat \<Rightarrow> string \<Rightarrow> go_error + string list"
  sda_Done :: "nat \<Rightarrow> ses_domain_call \<Rightarrow> go_error + unit"
  sda_Verification :: "nat \<Rightarrow> string \<Rightarrow> go_error + (string \<times> string) option"
  sda_Dkim :: "nat \<Rightarrow> string \<Rightarrow> go_error + string list option"

text \<open>Full text search (a query against subject, sender address and sender name) and the distance of embeddings.\<close>

record search_engine =
  se_matches :: "string \<Rightarrow> string \<times> string \<times> string \<Rightarrow> bool"
  se_rank :: "string \<Rightarrow> string \<times> string \<times> string \<Rightarrow> rank"
  se_distance :: "float32 list \<Rightarrow> float32 list \<Rightarrow> rank"
  se_similarity :: "rank \<Rightarrow> rank"

record env =
  new_uuid :: "nat \<Rightarrow> uuid"
  clock :: "nat \<Rightarrow> time"
  fault :: "nat \<Rightarrow> string option"
  fmt_uuid :: "uuid \<Rightarrow> string"
  parse_uuid :: "string \<Rightarrow> uuid option"
  uuid_on_error :: "string \<Rightarrow> uuid"
  fmt_time :: "time \<Rightarrow> string"
  parse_time :: "string \<Rightarrow> time option"
  cast_time :: "string \<Rightarrow> time option"
  cast_uuid :: "string \<Rightarrow> uuid option"
  parse_address :: "string \<Rightarrow> string option"
  pg_text :: "string \<Rightarrow> string"
  any_row :: "nat \<Rightarrow> nat"
  scan_order :: "nat \<Rightarrow> uuid \<Rightarrow> nat"
  jsonb_merge :: "(email_address list \<Rightarrow> email_address list \<Rightarrow> email_address list) option"
  mail_lib :: mail_lib
  fmt_address :: "email_address \<Rightarrow> string"
  rand_bytes :: "nat \<Rightarrow> nat \<Rightarrow> string"
  gcm_seal :: "string \<Rightarrow> string \<Rightarrow> string \<Rightarrow> string"
  gcm_open :: "string \<Rightarrow> string \<Rightarrow> string \<Rightarrow> string option"
  hmac_sha256 :: "string \<Rightarrow> string \<Rightarrow> string"
  event_json :: "event \<Rightarrow> string"
  event_map :: "event \<Rightarrow> json_map"
  url_error :: "string \<Rightarrow> string option"
  http_do :: "nat \<Rightarrow> http_request \<Rightarrow> go_error + int \<times> string"
  ses_answer :: "nat \<Rightarrow> ses_email \<Rightarrow> string option"
  ses_domains :: ses_domain_answers
  sha256_sum :: "string \<Rightarrow> string"
  jwt_verify :: "time \<Rightarrow> string \<Rightarrow> go_error + license_claims"
  validate_reply :: "string \<Rightarrow> (bool \<times> string) option"
  expired_reply :: "string \<Rightarrow> (bool \<times> string) option"
  renew_reply :: "string \<Rightarrow> string option"
  trial_reply :: "string \<Rightarrow> string option"
  search_lib :: search_engine
  cast_vector :: "string \<Rightarrow> float32 list option"
  fmt_float32 :: "float32 \<Rightarrow> string"
  embed_json :: "string \<Rightarrow> string \<Rightarrow> string"
  embed_reply :: "string \<Rightarrow> float32 list list option"
  ws_post :: "nat \<Rightarrow> string \<Rightarrow> string option"

record world =
  w_db :: database
  w_s3 :: "(string \<times> string) \<rightharpoonup> string"
  w_sent :: "(string \<times> sqs_body) list"
  w_http :: "http_request list"
  w_ses :: "ses_email list"
  w_ses_calls :: "ses_domain_call list"
  w_ssm :: "string \<rightharpoonup> string"
  w_pushed :: "(string \<times> event) list"
  w_org :: string
  w_pod :: string
  w_failed :: bool
  w_now :: time
  w_tick :: nat

type_synonym 'a io = "(env, world, 'a) gocomp"

text \<open>\<open>fault n\<close> is the error text when external call number \<open>n\<close> fails; \<open>fmt_uuid\<close>/\<open>parse_uuid\<close>
  are \<open>UUID.String\<close>/\<open>uuid.Parse\<close>, \<open>uuid_on_error\<close> is the value that \<open>uuid.Parse\<close>
  returns beside an error, \<open>fmt_time\<close> is \<open>Format(time.RFC3339Nano)\<close>, \<open>parse_time\<close> the
  JSON reading of a time,
  \<open>cast_time\<close>/\<open>cast_uuid\<close> are the SQL casts \<open>::timestamptz\<close>/\<open>::uuid\<close>,
  \<open>parse_address\<close> is the error text of \<open>mail.ParseAddress\<close>, if any, \<open>pg_text\<close> the
  text of a server error with the given SQLSTATE, \<open>any_row\<close> says which row a query without ORDER BY
  returns first, and \<open>scan_order\<close> in which order of ids it returns many.  \<open>jsonb_merge\<close> is
  what the server computes for the aggregate of \<open>MergeThreadParticipants\<close>, or nothing if it rejects the
  expression.  \<open>mail_lib\<close> are the mail
  parsers, \<open>fmt_address\<close> is \<open>mail.Address.String\<close>; \<open>rand_bytes\<close>, \<open>gcm_seal\<close>, \<open>gcm_open\<close> (key,
  nonce, text) and \<open>hmac_sha256\<close> (key, text) are crypto/rand, AES-GCM and HMAC; \<open>event_json\<close> and \<open>event_map\<close> are the JSON
  of an event; \<open>url_error\<close> is the error of \<open>http.NewRequest\<close>, \<open>http_do\<close> the answer of the remote
  server (status and the part of the body that the caller reads), \<open>ses_answer\<close> the error of SES, if any, and
  \<open>ses_domains\<close> its answers to the calls that manage domains; \<open>jwt_verify\<close> is what the JWT library makes of a token at
  a time with the embedded public key, \<open>validate_reply\<close>, \<open>expired_reply\<close>, \<open>renew_reply\<close> and \<open>trial_reply\<close> are
  the members that are read of the JSON
  answers of the licence server.  \<open>search_lib\<close> is the text search of the server and the distance of vectors,
  \<open>cast_vector\<close> the SQL cast \<open>::vector\<close>, \<open>fmt_float32\<close> is \<open>strconv.FormatFloat\<close>, \<open>embed_json\<close> (model, text) the JSON
  of a request to the embedding server, \<open>embed_reply\<close> the embeddings in its answer, \<open>ws_post\<close> the error, if any, of a push to a
  web socket connection.\<close>

text \<open>The text of an error, \<open>err.Error()\<close>.\<close>

fun err_text :: "env \<Rightarrow> go_error \<Rightarrow> string" where
  "err_text E (Errorf s) = s"
| "err_text E (Wrap p e) = p @ '': '' @ err_text E e"
| "err_text E ErrNoRows = ''no rows in result set''"
| "err_text E (PgError c) = pg_text E c"
| "err_text E (ExternalError s) = s"
| "err_text E ErrInvalidReviewStatus = ''draft is not in the required review status''"
| "err_text E (SeatLimitExceededError l c) =
     ''seat_limit_exceeded: license allows up to '' @ itoa l @ '' active inboxes, currently at '' @ itoa c"

definition tick_world :: "world \<Rightarrow> world" where
  "tick_world w = w\<lparr>w_tick := Suc (w_tick w)\<rparr>"

definition uuid_New :: "uuid io" where
  "uuid_New = (\<lambda>E w. (Inr (new_uuid E (w_tick w)), tick_world w))"

definition time_Now :: "time io" where
  "time_Now = (\<lambda>E w. (Inr (clock E (w_tick w)), tick_world w))"

definition external :: "'a io \<Rightarrow> 'a io" where
  "external m = (\<lambda>E w. case fault E (w_tick w) of
       Some s \<Rightarrow> (Inl (ExternalError s), tick_world w)
     | None \<Rightarrow> m E (tick_world w))"

section \<open>Statements\<close>

text \<open>A statement maps the value of NOW() and the tables to an error or a result and the new tables.
  NOW() is the start of the transaction.  After a failed statement the transaction is aborted:
  PostgreSQL rejects every further statement with SQLSTATE 25P02 until the transaction ends.  That a
  query has no row is no failure of the statement.  \<open>pool_exec\<close> runs a statement on a pool
  connection, outside any transaction.\<close>

type_synonym 'a stmt = "time \<Rightarrow> database \<Rightarrow> go_error + ('a \<times> database)"

definition run_stmt :: "time \<Rightarrow> 'a stmt \<Rightarrow> 'a io" where
  "run_stmt now st = (\<lambda>E w. case st now (w_db w) of
       Inl e \<Rightarrow> (Inl e, w) | Inr (x, d) \<Rightarrow> (Inr x, w\<lparr>w_db := d\<rparr>))"

definition pool_exec :: "'a stmt \<Rightarrow> 'a io" where
  "pool_exec st = external (\<lambda>E w. run_stmt (clock E (w_tick w)) st E w)"

definition tx_exec :: "'a stmt \<Rightarrow> 'a io" where
  "tx_exec st = (\<lambda>E w.
     if w_failed w then (Inl (PgError ''25P02''), tick_world w)
     else case external (run_stmt (w_now w) st) E w of
            (Inl e, w') \<Rightarrow> (Inl e, if e = ErrNoRows then w' else w'\<lparr>w_failed := True\<rparr>)
          | (Inr x, w') \<Rightarrow> (Inr x, w'))"

text \<open>The constraints a statement checks, with the SQLSTATE of each: CHECK and NOT NULL, then the
  unique indexes, then the foreign keys.\<close>

fun require :: "(bool \<times> string) list \<Rightarrow> 'a \<Rightarrow> go_error + 'a" where
  "require [] x = Inr x"
| "require ((ok, code) # rest) x = (if ok then require rest x else Inl (PgError code))"

lemma require_eq_Inr: "require cs x = Inr y \<longleftrightarrow> y = x \<and> (\<forall>c \<in> set cs. fst c)"
  by (induction cs x rule: require.induct) auto

declare require.simps [simp del]

definition has_key :: "('r \<Rightarrow> 'k) \<Rightarrow> 'k \<Rightarrow> 'r list \<Rightarrow> bool" where
  "has_key k i rs = (i \<in> set (map k rs))"

definition query :: "(database \<Rightarrow> 'a) \<Rightarrow> 'a stmt" where
  "query f = (\<lambda>now d. Inr (f d, d))"

text \<open>\<open>QueryRow(...).Scan(...)\<close>: the first row, or \<open>ErrNoRows\<close>.\<close>

definition first_row :: "'r list \<Rightarrow> go_error + 'r" where
  "first_row rs = (case rs of [] \<Rightarrow> Inl ErrNoRows | r # _ \<Rightarrow> Inr r)"

definition query_row :: "(database \<Rightarrow> 'r list) \<Rightarrow> 'r stmt" where
  "query_row f = (\<lambda>now d. case first_row (f d) of Inl e \<Rightarrow> Inl e | Inr r \<Rightarrow> Inr (r, d))"

section \<open>pkg/db\<close>

definition SetOrgContext :: "uuid \<Rightarrow> unit io" where
  "SetOrgContext orgID = (\<lambda>E w.
     go_bind (tx_exec (query (\<lambda>_. ()))) (\<lambda>_ E w. (Inr (), w\<lparr>w_org := fmt_uuid E orgID\<rparr>)) E w)"

definition SetPodContext :: "uuid option \<Rightarrow> unit io" where
  "SetPodContext podID = (\<lambda>E w.
     let val = (case podID of None \<Rightarrow> [] | Some p \<Rightarrow> fmt_uuid E p)
     in go_bind (tx_exec (query (\<lambda>_. ()))) (\<lambda>_ E w. (Inr (), w\<lparr>w_pod := val\<rparr>)) E w)"

text \<open>\<open>WithTx\<close>: BEGIN, the body, then COMMIT, or ROLLBACK when the body fails.  The settings
  made with \<open>set_config(..., TRUE)\<close> are local to the transaction.  COMMIT of an aborted
  transaction rolls back and reports an error.\<close>

definition end_tx :: "world \<Rightarrow> world \<Rightarrow> world" where
  "end_tx w0 w =
     (tick_world w)\<lparr>w_org := w_org w0, w_pod := w_pod w0, w_failed := w_failed w0, w_now := w_now w0\<rparr>"

definition WithTx :: "'a io \<Rightarrow> 'a io" where
  "WithTx fn = (\<lambda>E w0.
     case external (ret ()) E w0 of
       (Inl e, w1) \<Rightarrow> (Inl (Wrap ''begin tx'' e), w1)
     | (Inr _, w1) \<Rightarrow>
         (case fn E (w1\<lparr>w_failed := False, w_now := clock E (w_tick w0)\<rparr>) of
            (Inl e, w2) \<Rightarrow> (Inl e, (end_tx w0 w2)\<lparr>w_db := w_db w0\<rparr>)
          | (Inr x, w2) \<Rightarrow>
              (if w_failed w2 then
                 (Inl (ExternalError ''commit unexpectedly resulted in rollback''), (end_tx w0 w2)\<lparr>w_db := w_db w0\<rparr>)
               else case fault E (w_tick w2) of
                 Some s \<Rightarrow> (Inl (ExternalError s), (end_tx w0 w2)\<lparr>w_db := w_db w0\<rparr>)
               | None \<Rightarrow> (Inr x, end_tx w0 w2))))"

definition WithOrgTx :: "uuid \<Rightarrow> 'a io \<Rightarrow> 'a io" where
  "WithOrgTx orgID fn = WithTx (go_bind (SetOrgContext orgID) (\<lambda>_. fn))"

definition WithOrgPodTx :: "uuid \<Rightarrow> uuid option \<Rightarrow> 'a io \<Rightarrow> 'a io" where
  "WithOrgPodTx orgID podID fn =
     WithTx (go_bind (SetOrgContext orgID) (\<lambda>_. go_bind (SetPodContext podID) (\<lambda>_. fn)))"

definition IsDuplicateKey :: "go_error \<Rightarrow> bool" where
  "IsDuplicateKey err = (root_cause err = PgError ''23505'')"

definition IsNotFound :: "go_error \<Rightarrow> bool" where
  "IsNotFound err = (root_cause err = ErrNoRows)"

definition IsConstraintViolation :: "go_error \<Rightarrow> bool" where
  "IsConstraintViolation err = (root_cause err = PgError ''23503'')"

definition IsForeignKeyViolation :: "go_error \<Rightarrow> bool" where
  "IsForeignKeyViolation err = (root_cause err = PgError ''23503'')"

section \<open>pkg/s3\<close>

text \<open>A client is its bucket name.\<close>

definition S3_Upload :: "string \<Rightarrow> string \<Rightarrow> string \<Rightarrow> string \<Rightarrow> unit io" where
  "S3_Upload bucket key data ct =
     external (\<lambda>E w. (Inr (), w\<lparr>w_s3 := (w_s3 w)((bucket, key) \<mapsto> data)\<rparr>))"

definition S3_Download :: "string \<Rightarrow> string \<Rightarrow> string io" where
  "S3_Download bucket key = external (\<lambda>E w. case w_s3 w (bucket, key) of
       None \<Rightarrow> (Inl (ExternalError ''NoSuchKey''), w) | Some data \<Rightarrow> (Inr data, w))"

section \<open>pkg/sqs\<close>

record publisher =
  webhookDeliveryURL :: string
  wsDispatchURL :: string
  embedderURL :: string
  emailOutboundURL :: string

definition SendMessage :: "string \<Rightarrow> sqs_body \<Rightarrow> unit io" where
  "SendMessage qURL body = external (\<lambda>E w. (Inr (), w\<lparr>w_sent := w_sent w @ [(qURL, body)]\<rparr>))"

text \<open>The loop over the queues collects the errors of the sends.\<close>

fun send_all :: "event \<Rightarrow> string list \<Rightarrow> go_error list io" where
  "send_all e [] = ret []"
| "send_all e (q # qs) =
     (if q = [] then send_all e qs
      else go_bind (attempt (wrap_err (''sqs: send to '' @ q) (SendMessage q (EventBody e))))
        (\<lambda>r. go_bind (send_all e qs) (\<lambda>errs.
           ret (case r of Inl err \<Rightarrow> err # errs | Inr _ \<Rightarrow> errs))))"

definition event_queues :: "publisher \<Rightarrow> event \<Rightarrow> string list" where
  "event_queues p e =
     (let t = be_Type (GetBase e)
      in [webhookDeliveryURL p, wsDispatchURL p] @
         (if t = EventMessageReceived \<or> t = EventMessageSent then [embedderURL p] else []))"

definition PublishEvent :: "publisher \<Rightarrow> event \<Rightarrow> unit io" where
  "PublishEvent p e =
     go_bind (send_all e (event_queues p e)) (\<lambda>errs.
       case errs of [] \<Rightarrow> ret () | err # _ \<Rightarrow> throw err)"

definition Publish :: "publisher \<Rightarrow> string \<Rightarrow> outbound_job \<Rightarrow> unit io" where
  "Publish p key job =
     (if emailOutboundURL p = [] then throw (Errorf ''sqs: EMAIL_OUTBOUND_QUEUE_URL is not set'')
      else wrap_err ''sqs: send outbound job'' (SendMessage (emailOutboundURL p) (JobBody key job)))"

text \<open>\<open>events.NewBase\<close>\<close>

definition NewBase :: "string \<Rightarrow> uuid \<Rightarrow> base_event io" where
  "NewBase t orgID =
     go_bind uuid_New (\<lambda>u. go_bind time_Now (\<lambda>now. go_bind (asks fmt_uuid) (\<lambda>fmt.
       ret \<lparr>be_ID = fmt u, be_Type = t, be_OrgID = fmt orgID, be_OccurredAt = now, be_CorrelationID = []\<rparr>)))"

section \<open>HTTP and SES\<close>

text \<open>A request counts as made also when its answer is an error.\<close>

definition http_Do :: "http_request \<Rightarrow> (int \<times> string) io" where
  "http_Do req = (\<lambda>E w. (http_do E (w_tick w) req, (tick_world w)\<lparr>w_http := w_http w @ [req]\<rparr>))"

definition SendEmail :: "ses_email \<Rightarrow> unit io" where
  "SendEmail email = (\<lambda>E w. case ses_answer E (w_tick w) email of
       Some s \<Rightarrow> (Inl (ExternalError s), tick_world w)
     | None \<Rightarrow> (Inr (), (tick_world w)\<lparr>w_ses := w_ses w @ [email]\<rparr>))"

section \<open>The parameter store and the domains of SES\<close>

definition GetParameter :: "string \<Rightarrow> string io" where
  "GetParameter name = external (\<lambda>E w. case w_ssm w name of
       None \<Rightarrow> (Inl (ExternalError ''ParameterNotFound''), w) | Some v \<Rightarrow> (Inr v, w))"

definition PutParameter :: "string \<Rightarrow> string \<Rightarrow> unit io" where
  "PutParameter name v = external (\<lambda>E w. (Inr (), w\<lparr>w_ssm := (w_ssm w)(name \<mapsto> v)\<rparr>))"

definition ses_call :: "ses_domain_call \<Rightarrow> (ses_domain_answers \<Rightarrow> nat \<Rightarrow> go_error + 'a) \<Rightarrow> 'a io" where
  "ses_call c answer = (\<lambda>E w. (answer (ses_domains E) (w_tick w), (tick_world w)\<lparr>w_ses_calls := w_ses_calls w @ [c]\<rparr>))"

section \<open>Web socket connections\<close>

definition PostToConnection :: "string \<Rightarrow> event \<Rightarrow> unit io" where
  "PostToConnection connID evt = (\<lambda>E w.
     (case ws_post E (w_tick w) connID of None \<Rightarrow> Inr () | Some s \<Rightarrow> Inl (ExternalError s),
      (tick_world w)\<lparr>w_pushed := w_pushed w @ [(connID, evt)]\<rparr>))"

section \<open>Batches of queue records\<close>

text \<open>A queue handler reports the records that failed, so that the queue delivers them again.\<close>

fun batch_failures :: "('r \<Rightarrow> unit io) \<Rightarrow> ('r \<Rightarrow> string) \<Rightarrow> 'r list \<Rightarrow> string list io" where
  "batch_failures f key [] = ret []"
| "batch_failures f key (r # rs) =
     go_bind (attempt (f r)) (\<lambda>x. go_bind (batch_failures f key rs) (\<lambda>fs.
     ret (case x of Inl _ \<Rightarrow> key r # fs | Inr _ \<Rightarrow> fs)))"

section \<open>What a computation leaves alone\<close>

lemma tick_world_simps [simp]:
  "w_db (tick_world w) = w_db w" "w_s3 (tick_world w) = w_s3 w" "w_sent (tick_world w) = w_sent w"
  "w_http (tick_world w) = w_http w" "w_ses (tick_world w) = w_ses w"
  "w_ses_calls (tick_world w) = w_ses_calls w" "w_ssm (tick_world w) = w_ssm w" "w_pushed (tick_world w) = w_pushed w"
  "w_org (tick_world w) = w_org w" "w_pod (tick_world w) = w_pod w"
  "w_failed (tick_world w) = w_failed w" "w_now (tick_world w) = w_now w" "w_tick (tick_world w) = Suc (w_tick w)"
  by (simp_all add: tick_world_def)

lemma end_tx_simps [simp]:
  "w_db (end_tx w0 w) = w_db w" "w_s3 (end_tx w0 w) = w_s3 w" "w_sent (end_tx w0 w) = w_sent w"
  "w_http (end_tx w0 w) = w_http w" "w_ses (end_tx w0 w) = w_ses w"
  "w_ses_calls (end_tx w0 w) = w_ses_calls w" "w_ssm (end_tx w0 w) = w_ssm w" "w_pushed (end_tx w0 w) = w_pushed w"
  "w_org (end_tx w0 w) = w_org w0" "w_pod (end_tx w0 w) = w_pod w0" "w_failed (end_tx w0 w) = w_failed w0"
  "w_now (end_tx w0 w) = w_now w0"
  "w_tick (end_tx w0 w) = Suc (w_tick w)"
  by (simp_all add: end_tx_def)

text \<open>\<open>keeps_db Q m\<close>: whatever happens, \<open>m\<close> keeps \<open>Q\<close> of the committed tables.\<close>

definition keeps_db :: "(database \<Rightarrow> bool) \<Rightarrow> 'a io \<Rightarrow> bool" where
  "keeps_db Q m = keeps (\<lambda>w. Q (w_db w)) m"

lemma keeps_db_iff: "keeps_db Q m \<longleftrightarrow> (\<forall>E w. Q (w_db w) \<longrightarrow> Q (w_db (snd (m E w))))"
  by (simp add: keeps_db_def keeps_def)

lemma keeps_dbD: "keeps_db Q m \<Longrightarrow> Q (w_db w) \<Longrightarrow> Q (w_db (snd (m E w)))"
  by (simp add: keeps_db_iff)

lemma keeps_db_ctl [keeps_intros]:
  "keeps_db Q (ret x)" "keeps_db Q (throw e)" "keeps_db Q (asks f)" "keeps_db Q (fail_if b e)"
  by (simp_all add: keeps_db_iff go_run)

lemma keeps_db_bind [keeps_intros]:
  "keeps_db Q m \<Longrightarrow> (\<And>x. keeps_db Q (f x)) \<Longrightarrow> keeps_db Q (go_bind m f)"
  unfolding keeps_db_def by (rule keeps_bind)

lemma keeps_db_attempt [keeps_intros]: "keeps_db Q m \<Longrightarrow> keeps_db Q (attempt m)"
  unfolding keeps_db_def by (rule keeps_attempt)

lemma keeps_db_ignore [keeps_intros]: "keeps_db Q m \<Longrightarrow> keeps_db Q (ignore_err m)"
  unfolding keeps_db_def by (rule keeps_ignore_err)

lemma keeps_db_wrap [keeps_intros]: "keeps_db Q m \<Longrightarrow> keeps_db Q (wrap_err p m)"
  unfolding keeps_db_def by (rule keeps_wrap_err)

lemma keeps_db_for_each [keeps_intros]: "(\<And>x. keeps_db Q (f x)) \<Longrightarrow> keeps_db Q (for_each f xs)"
  unfolding keeps_db_def by (rule keeps_for_each)

lemma keeps_db_collect [keeps_intros]: "(\<And>x. keeps_db Q (f x)) \<Longrightarrow> keeps_db Q (collect f xs)"
  unfolding keeps_db_def by (rule keeps_collect)

lemma keeps_db_if [keeps_intros]:
  "(b \<Longrightarrow> keeps_db Q m) \<Longrightarrow> (\<not> b \<Longrightarrow> keeps_db Q m') \<Longrightarrow> keeps_db Q (if b then m else m')"
  by simp

lemma keeps_db_option [keeps_intros]:
  "(x = None \<Longrightarrow> keeps_db Q m) \<Longrightarrow> (\<And>y. x = Some y \<Longrightarrow> keeps_db Q (f y)) \<Longrightarrow>
   keeps_db Q (case x of None \<Rightarrow> m | Some y \<Rightarrow> f y)"
  by (cases x) auto

lemma keeps_db_sum [keeps_intros]:
  "(\<And>y. x = Inl y \<Longrightarrow> keeps_db Q (f y)) \<Longrightarrow> (\<And>y. x = Inr y \<Longrightarrow> keeps_db Q (g y)) \<Longrightarrow>
   keeps_db Q (case x of Inl y \<Rightarrow> f y | Inr y \<Rightarrow> g y)"
  by (cases x) auto

lemma keeps_db_prod [keeps_intros]:
  "(\<And>a b. x = (a, b) \<Longrightarrow> keeps_db Q (f a b)) \<Longrightarrow> keeps_db Q (case x of (a, b) \<Rightarrow> f a b)"
  by (cases x) auto

lemma keeps_db_list [keeps_intros]:
  "(x = [] \<Longrightarrow> keeps_db Q m) \<Longrightarrow> (\<And>y ys. x = y # ys \<Longrightarrow> keeps_db Q (f y ys)) \<Longrightarrow>
   keeps_db Q (case x of [] \<Rightarrow> m | y # ys \<Rightarrow> f y ys)"
  by (cases x) auto

lemma keeps_db_Let [keeps_intros]: "(\<And>x. x = v \<Longrightarrow> keeps_db Q (f x)) \<Longrightarrow> keeps_db Q (let x = v in f x)"
  by simp

lemma keeps_db_source [keeps_intros]: "keeps_db Q uuid_New" "keeps_db Q time_Now"
  by (simp_all add: keeps_db_iff uuid_New_def time_Now_def)

lemma keeps_db_external [keeps_intros]: "keeps_db Q m \<Longrightarrow> keeps_db Q (external m)"
  by (auto simp: keeps_db_iff external_def split: option.splits)

text \<open>A statement keeps \<open>Q\<close> when its successful runs do.\<close>

definition stmt_keeps :: "(database \<Rightarrow> bool) \<Rightarrow> 'a stmt \<Rightarrow> bool" where
  "stmt_keeps Q st \<longleftrightarrow> (\<forall>now d x d'. Q d \<longrightarrow> st now d = Inr (x, d') \<longrightarrow> Q d')"

lemma keeps_db_run: "stmt_keeps Q st \<Longrightarrow> keeps_db Q (run_stmt now st)"
  by (fastforce simp: keeps_db_iff run_stmt_def stmt_keeps_def split: sum.splits)

lemma keeps_db_pool_exec [keeps_intros]:
  assumes "stmt_keeps Q st" shows "keeps_db Q (pool_exec st)"
proof -
  have "keeps_db Q (\<lambda>E w. run_stmt (clock E (w_tick w)) st E w)"
    using keeps_db_run [OF assms] by (auto simp: keeps_db_iff)
  then show ?thesis by (simp only: pool_exec_def keeps_db_external)
qed

lemma keeps_db_tx_exec [keeps_intros]:
  assumes "stmt_keeps Q st" shows "keeps_db Q (tx_exec st)"
proof -
  have "keeps_db Q (external (run_stmt now st))" for now
    using assms by (simp add: keeps_db_external keeps_db_run)
  then have "Q (w_db w) \<Longrightarrow> Q (w_db (snd (external (run_stmt now st) E w)))" for E now and w :: world
    by (rule keeps_dbD)
  then show ?thesis
    by (auto simp: keeps_db_iff tx_exec_def split: prod.splits sum.splits) (metis snd_conv)+
qed

lemma stmt_keeps_query [keeps_intros]: "stmt_keeps Q (query f)"
  by (simp add: stmt_keeps_def query_def)

lemma stmt_keeps_query_row [keeps_intros]: "stmt_keeps Q (query_row f)"
  by (auto simp: stmt_keeps_def query_row_def split: sum.splits)

lemma keeps_db_SetOrgContext [keeps_intros]: "keeps_db Q (SetOrgContext orgID)"
  unfolding SetOrgContext_def
  by (intro keeps_db_bind keeps_intros) (simp add: keeps_db_iff)

lemma keeps_db_SetPodContext [keeps_intros]: "keeps_db Q (SetPodContext podID)"
proof -
  have "keeps_db Q (go_bind (tx_exec (query (\<lambda>_. ()))) (\<lambda>_ E w. (Inr (), w\<lparr>w_pod := val\<rparr>)))" for val
    by (intro keeps_db_bind keeps_intros) (simp add: keeps_db_iff)
  then show ?thesis
    by (simp add: SetPodContext_def keeps_db_iff Let_def)
qed

lemma external_ret: "external (ret x) E w =
    (case fault E (w_tick w) of Some s \<Rightarrow> (Inl (ExternalError s), tick_world w) | None \<Rightarrow> (Inr x, tick_world w))"
  by (simp add: external_def go_run split: option.splits)

lemma keeps_db_WithTx [keeps_intros]:
  assumes "keeps_db Q fn" shows "keeps_db Q (WithTx fn)"
  unfolding keeps_db_iff
proof (intro allI impI)
  fix E and w :: world assume q: "Q (w_db w)"
  have "Q (w_db (snd (fn E (w'\<lparr>w_failed := False, w_now := n\<rparr>))))" if "w_db w' = w_db w" for n and w' :: world
    using keeps_dbD [OF assms, of "w'\<lparr>w_failed := False, w_now := n\<rparr>" E] that q by simp
  from this [of "tick_world w" "clock E (w_tick w)"] q show "Q (w_db (snd (WithTx fn E w)))"
    by (auto simp: WithTx_def external_ret split: option.splits prod.splits sum.splits)
qed

lemma keeps_db_WithOrgTx [keeps_intros]: "keeps_db Q fn \<Longrightarrow> keeps_db Q (WithOrgTx orgID fn)"
  unfolding WithOrgTx_def by (intro keeps_intros)

lemma keeps_db_WithOrgPodTx [keeps_intros]: "keeps_db Q fn \<Longrightarrow> keeps_db Q (WithOrgPodTx orgID podID fn)"
  unfolding WithOrgPodTx_def by (intro keeps_intros)

lemma keeps_db_S3 [keeps_intros]:
  "keeps_db Q (S3_Upload b k x ct)" "keeps_db Q (S3_Download b k)"
  unfolding S3_Upload_def S3_Download_def
  by (intro keeps_db_external; auto simp: keeps_db_iff split: option.splits)+

lemma keeps_db_SendMessage [keeps_intros]: "keeps_db Q (SendMessage q b)"
  unfolding SendMessage_def by (intro keeps_db_external) (simp add: keeps_db_iff)

lemma keeps_db_http [keeps_intros]: "keeps_db Q (http_Do req)" "keeps_db Q (SendEmail m)"
  by (simp_all add: keeps_db_iff http_Do_def SendEmail_def split: option.splits)

lemma keeps_db_push [keeps_intros]: "keeps_db Q (PostToConnection i e)"
  by (simp add: keeps_db_iff PostToConnection_def)

lemma keeps_db_ssm [keeps_intros]: "keeps_db Q (GetParameter n)" "keeps_db Q (PutParameter n v)" "keeps_db Q (ses_call c answer)"
proof -
  show "keeps_db Q (ses_call c answer)" by (simp add: keeps_db_iff ses_call_def)
qed (unfold GetParameter_def PutParameter_def, (intro keeps_db_external; auto simp: keeps_db_iff split: option.splits)+)

lemma keeps_db_send_all [keeps_intros]: "keeps_db Q (send_all e qs)"
proof (induction qs)
  case (Cons q qs)
  show ?case unfolding send_all.simps
    by (intro keeps_intros Cons.IH)
qed (simp only: send_all.simps keeps_intros)

lemma keeps_db_publish [keeps_intros]:
  "keeps_db Q (PublishEvent p e)" "keeps_db Q (Publish p k j)" "keeps_db Q (NewBase t orgID)"
  unfolding PublishEvent_def Publish_def NewBase_def by (intro keeps_intros)+

section \<open>Atomicity\<close>

text \<open>A transaction that reports an error has changed no table.\<close>

lemma WithTx_error_rollback: "WithTx fn E w = (Inl e, w') \<Longrightarrow> w_db w' = w_db w"
  by (auto simp: WithTx_def external_ret split: option.splits prod.splits sum.splits if_splits)

lemma WithOrgTx_error_rollback: "WithOrgTx orgID fn E w = (Inl e, w') \<Longrightarrow> w_db w' = w_db w"
  unfolding WithOrgTx_def by (rule WithTx_error_rollback)

lemma WithOrgPodTx_error_rollback: "WithOrgPodTx orgID podID fn E w = (Inl e, w') \<Longrightarrow> w_db w' = w_db w"
  unfolding WithOrgPodTx_def by (rule WithTx_error_rollback)

text \<open>The session settings of a transaction do not outlive it.\<close>

lemma WithTx_settings:
  "w_org (snd (WithTx fn E w)) = w_org w \<and> w_pod (snd (WithTx fn E w)) = w_pod w
   \<and> w_failed (snd (WithTx fn E w)) = w_failed w"
  by (auto simp: WithTx_def external_ret split: option.splits prod.splits sum.splits)

text \<open>What a committed transaction says about its body.\<close>

lemma WithTx_success:
  assumes "WithTx fn E w = (Inr x, w')"
  obtains w2 where "fn E ((tick_world w)\<lparr>w_failed := False, w_now := clock E (w_tick w)\<rparr>) = (Inr x, w2)" "w' = end_tx w w2"
    "\<not> w_failed w2"
  using assms by (auto simp: WithTx_def external_ret split: option.splits prod.splits sum.splits if_splits)

lemma tx_exec_eq_Inr:
  "tx_exec st E w = (Inr x, w') \<longleftrightarrow>
     \<not> w_failed w \<and> fault E (w_tick w) = None \<and>
     (\<exists>d. st (w_now w) (w_db w) = Inr (x, d) \<and> w' = (tick_world w)\<lparr>w_db := d\<rparr>)"
  by (auto simp: tx_exec_def external_def run_stmt_def split: option.splits prod.splits sum.splits)

text \<open>A statement inside a transaction that is not aborted afterwards has succeeded or found no row.\<close>

lemma tx_exec_not_failed:
  assumes "tx_exec st E w = (r, w')" "\<not> w_failed w'"
  shows "\<not> w_failed w \<and> fault E (w_tick w) = None \<and>
    (case st (w_now w) (w_db w) of
       Inl e \<Rightarrow> e = ErrNoRows \<and> r = Inl e \<and> w' = tick_world w
     | Inr (x, d) \<Rightarrow> r = Inr x \<and> w' = (tick_world w)\<lparr>w_db := d\<rparr>)"
  using assms
  by (auto simp: tx_exec_def external_def run_stmt_def split: option.splits prod.splits sum.splits if_splits)

lemma pool_exec_eq_Inr:
  "pool_exec st E w = (Inr x, w') \<longleftrightarrow>
     fault E (w_tick w) = None \<and>
     (\<exists>d. st (clock E (Suc (w_tick w))) (w_db w) = Inr (x, d) \<and> w' = (tick_world w)\<lparr>w_db := d\<rparr>)"
  by (auto simp: pool_exec_def external_def run_stmt_def split: option.splits prod.splits sum.splits)

lemma pool_exec_eq_Inl:
  "pool_exec st E w = (Inl e, w') \<Longrightarrow> w_db w' = w_db w"
  by (auto simp: pool_exec_def external_def run_stmt_def split: option.splits prod.splits sum.splits)

lemma SetOrgContext_eq_Inr:
  "SetOrgContext orgID E w = (Inr u, w') \<longleftrightarrow>
     \<not> w_failed w \<and> fault E (w_tick w) = None \<and> w' = (tick_world w)\<lparr>w_org := fmt_uuid E orgID\<rparr>"
  by (auto simp: SetOrgContext_def go_bind_eq_Inr tx_exec_eq_Inr query_def)

lemma SetPodContext_eq_Inr:
  "SetPodContext podID E w = (Inr u, w') \<longleftrightarrow>
     \<not> w_failed w \<and> fault E (w_tick w) = None \<and>
     w' = (tick_world w)\<lparr>w_pod := (case podID of None \<Rightarrow> [] | Some p \<Rightarrow> fmt_uuid E p)\<rparr>"
  by (auto simp: SetPodContext_def go_bind_eq_Inr tx_exec_eq_Inr query_def Let_def)

lemma WithOrgTx_success:
  assumes "WithOrgTx orgID fn E w = (Inr x, w')"
  obtains w1 w2 where "fn E w1 = (Inr x, w2)" "w_db w1 = w_db w" "w_sent w1 = w_sent w" "w_s3 w1 = w_s3 w"
    "\<not> w_failed w1" "w' = end_tx w w2" "w_org w1 = fmt_uuid E orgID" "\<not> w_failed w2"
  using assms unfolding WithOrgTx_def
  by (elim WithTx_success) (auto simp: go_bind_eq_Inr SetOrgContext_eq_Inr)

lemma WithOrgPodTx_success:
  assumes "WithOrgPodTx orgID podID fn E w = (Inr x, w')"
  obtains w1 w2 where "fn E w1 = (Inr x, w2)" "w_db w1 = w_db w" "w_sent w1 = w_sent w" "w_s3 w1 = w_s3 w"
    "\<not> w_failed w1" "w' = end_tx w w2"
  using assms unfolding WithOrgPodTx_def
  by (elim WithTx_success) (auto simp: go_bind_eq_Inr SetOrgContext_eq_Inr SetPodContext_eq_Inr)

section \<open>Reasoning about transactions\<close>

text \<open>A computation that keeps every predicate leaves the tables as they are.\<close>

lemma keeps_db_same: "(\<And>Q. keeps_db Q m) \<Longrightarrow> m E w = (r, w') \<Longrightarrow> w_db w' = w_db w"
  using keeps_dbD [of "\<lambda>d. d = w_db w" m w E] by simp

text \<open>\<open>leaves P m E w\<close>: \<open>P\<close> holds of the tables after running \<open>m\<close>, whatever its result.  After a
  transaction it holds when it held before and holds after every successful run of the body.\<close>

definition leaves :: "(database \<Rightarrow> bool) \<Rightarrow> 'a io \<Rightarrow> env \<Rightarrow> world \<Rightarrow> bool" where
  "leaves P m E w \<longleftrightarrow> P (w_db (snd (m E w)))"

lemma leaves_keeps: "keeps_db P m \<Longrightarrow> P (w_db w) \<Longrightarrow> leaves P m E w"
  by (simp add: leaves_def keeps_dbD)

lemma leaves_wrap: "leaves P m E w \<Longrightarrow> leaves P (wrap_err p m) E w"
  by (simp add: leaves_def)

lemma leaves_bind:
  assumes "\<And>Q. keeps_db Q m" and "P (w_db w)"
    and "\<And>x w1. m E w = (Inr x, w1) \<Longrightarrow> w_db w1 = w_db w \<Longrightarrow> leaves P (f x) E w1"
  shows "leaves P (go_bind m f) E w"
proof (cases "m E w")
  case (Pair r w1)
  then have "w_db w1 = w_db w" by (rule keeps_db_same [OF assms(1)])
  with Pair assms(2,3) show ?thesis by (cases r) (auto simp: go_run leaves_def)
qed

lemma leaves_then:
  assumes "leaves P m E w" and "\<And>x. keeps_db P (f x)"
  shows "leaves P (go_bind m f) E w"
proof (cases "m E w")
  case (Pair r w1)
  with assms(1) have "P (w_db w1)" by (simp add: leaves_def)
  with Pair keeps_dbD [OF assms(2)] show ?thesis by (cases r) (auto simp: go_run leaves_def)
qed

lemma leaves_OrgTx:
  assumes "P (w_db w)"
    and "\<And>w1 x w2. fn E w1 = (Inr x, w2) \<Longrightarrow> w_db w1 = w_db w \<Longrightarrow> P (w_db w2)"
  shows "leaves P (WithOrgTx orgID fn) E w"
proof (cases "WithOrgTx orgID fn E w")
  case (Pair r w')
  show ?thesis
  proof (cases r)
    case (Inl e)
    with Pair assms(1) show ?thesis by (simp add: WithOrgTx_error_rollback leaves_def)
  next
    case (Inr x)
    with Pair obtain w1 w2 where "fn E w1 = (Inr x, w2)" "w_db w1 = w_db w" "w' = end_tx w w2"
      by (metis WithOrgTx_success)
    with assms(2) Pair show ?thesis by (simp add: leaves_def)
  qed
qed

lemma leaves_OrgPodTx:
  assumes "P (w_db w)"
    and "\<And>w1 x w2. fn E w1 = (Inr x, w2) \<Longrightarrow> w_db w1 = w_db w \<Longrightarrow> P (w_db w2)"
  shows "leaves P (WithOrgPodTx orgID podID fn) E w"
proof (cases "WithOrgPodTx orgID podID fn E w")
  case (Pair r w')
  show ?thesis
  proof (cases r)
    case (Inl e)
    with Pair assms(1) show ?thesis by (simp add: WithOrgPodTx_error_rollback leaves_def)
  next
    case (Inr x)
    with Pair obtain w1 w2 where "fn E w1 = (Inr x, w2)" "w_db w1 = w_db w" "w' = end_tx w w2"
      by (metis WithOrgPodTx_success)
    with assms(2) Pair show ?thesis by (simp add: leaves_def)
  qed
qed

section \<open>Failed calls change no table\<close>

definition rolls_back :: "'a io \<Rightarrow> bool" where
  "rolls_back m \<longleftrightarrow> (\<forall>E w e w'. m E w = (Inl e, w') \<longrightarrow> w_db w' = w_db w)"

definition never_fails :: "'a io \<Rightarrow> bool" where
  "never_fails m \<longleftrightarrow> (\<forall>E w e w'. m E w \<noteq> (Inl e, w'))"

lemma rolls_backD: "rolls_back m \<Longrightarrow> m E w = (Inl e, w') \<Longrightarrow> w_db w' = w_db w"
  by (simp add: rolls_back_def)

lemma rolls_back_keeps: "(\<And>Q. keeps_db Q m) \<Longrightarrow> rolls_back m"
  unfolding rolls_back_def by (intro allI impI) (rule keeps_db_same)

lemma rolls_back_tx:
  "rolls_back (WithTx fn)" "rolls_back (WithOrgTx orgID fn)" "rolls_back (WithOrgPodTx orgID podID fn)"
  by (simp_all add: rolls_back_def WithTx_error_rollback WithOrgTx_error_rollback WithOrgPodTx_error_rollback)

lemma rolls_back_wrap: "rolls_back m \<Longrightarrow> rolls_back (wrap_err p m)"
  by (auto simp: rolls_back_def wrap_err_eq_Inl)

lemma rolls_back_bind:
  assumes "\<And>Q. keeps_db Q m" and "\<And>x. rolls_back (f x)"
  shows "rolls_back (go_bind m f)"
  unfolding rolls_back_def
proof (intro allI impI)
  fix E and w :: world and e w'
  assume "go_bind m f E w = (Inl e, w')"
  then consider "m E w = (Inl e, w')" | x w1 where "m E w = (Inr x, w1)" "f x E w1 = (Inl e, w')"
    by (auto simp: go_bind_eq_Inl)
  then show "w_db w' = w_db w"
  proof cases
    case 1
    then show ?thesis by (rule keeps_db_same [OF assms(1)])
  next
    case 2
    then show ?thesis
      using keeps_db_same [OF assms(1) 2(1)] rolls_backD [OF assms(2) 2(2)] by simp
  qed
qed

lemma rolls_back_then: "rolls_back m \<Longrightarrow> (\<And>x. never_fails (f x)) \<Longrightarrow> rolls_back (go_bind m f)"
  by (auto simp: rolls_back_def never_fails_def go_bind_eq_Inl)

lemma never_fails_intros:
  "never_fails (ret x)" "never_fails uuid_New" "never_fails time_Now" "never_fails (asks g)"
  "never_fails (ignore_err m)"
  by (simp_all add: never_fails_def go_run uuid_New_def time_Now_def)

lemma never_fails_bind: "never_fails m \<Longrightarrow> (\<And>x. never_fails (f x)) \<Longrightarrow> never_fails (go_bind m f)"
  by (auto simp: never_fails_def go_bind_eq_Inl)

lemma never_fails_NewBase: "never_fails (NewBase t orgID)"
  unfolding NewBase_def by (intro never_fails_bind never_fails_intros)

lemma never_fails_run:
  assumes "never_fails m"
  obtains x w1 where "m E w = (Inr x, w1)" "\<And>f. go_bind m f E w = f x E w1"
proof -
  obtain r w1 where m: "m E w = (r, w1)" by (rule prod.exhaust)
  with assms obtain x where "r = Inr x" by (cases r) (auto simp: never_fails_def)
  with m show thesis by (intro that) (simp_all add: go_bind_Inr)
qed

lemma never_fails_cases:
  "(b \<Longrightarrow> never_fails m) \<Longrightarrow> (\<not> b \<Longrightarrow> never_fails m') \<Longrightarrow> never_fails (if b then m else m')"
  "(\<And>e. never_fails (g e)) \<Longrightarrow> (\<And>z. never_fails (h z)) \<Longrightarrow> never_fails (case s of Inl e \<Rightarrow> g e | Inr z \<Rightarrow> h z)"
  "never_fails (attempt k)"
  "never_fails u \<Longrightarrow> (\<And>y. never_fails (q y)) \<Longrightarrow> never_fails (case t of None \<Rightarrow> u | Some y \<Rightarrow> q y)"
  "(\<And>a c. never_fails (l a c)) \<Longrightarrow> never_fails (case p of (a, c) \<Rightarrow> l a c)"
  by (simp, simp split: sum.split, simp add: never_fails_def attempt_not_Inl, simp split: option.split, simp split: prod.split)

lemma uuid_time_run:
  "go_bind uuid_New f E w = f (new_uuid E (w_tick w)) E (tick_world w)"
  "go_bind time_Now g E w = g (clock E (w_tick w)) E (tick_world w)"
  "go_bind (asks k) h E w = h (k E) E w"
  by (simp_all add: go_bind_def uuid_New_def time_Now_def asks_run)

lemma w_tick_of_tick: "w_tick (tick_world w) = Suc (w_tick w)"
  by (simp add: tick_world_def)

section \<open>Runs without faults\<close>

definition no_faults :: "env \<Rightarrow> bool" where
  "no_faults E \<longleftrightarrow> (\<forall>n. fault E n = None)"

lemma tx_exec_run:
  "no_faults E \<Longrightarrow> \<not> w_failed w \<Longrightarrow> tx_exec st E w =
     (case st (w_now w) (w_db w) of
        Inl e \<Rightarrow> (Inl e, if e = ErrNoRows then tick_world w else (tick_world w)\<lparr>w_failed := True\<rparr>)
      | Inr (x, d) \<Rightarrow> (Inr x, (tick_world w)\<lparr>w_db := d\<rparr>))"
  by (auto simp: tx_exec_def external_def run_stmt_def no_faults_def split: sum.splits)

definition org_tx_start :: "env \<Rightarrow> uuid \<Rightarrow> world \<Rightarrow> world" where
  "org_tx_start E orgID w =
     (tick_world ((tick_world w)\<lparr>w_failed := False, w_now := clock E (w_tick w)\<rparr>))\<lparr>w_org := fmt_uuid E orgID\<rparr>"

lemma org_tx_start_simps [simp]:
  "w_db (org_tx_start E orgID w) = w_db w" "w_failed (org_tx_start E orgID w) = False"
  "w_sent (org_tx_start E orgID w) = w_sent w" "w_s3 (org_tx_start E orgID w) = w_s3 w"
  by (simp_all add: org_tx_start_def)

lemma WithOrgTx_run:
  assumes "no_faults E" "fn E (org_tx_start E orgID w) = (r, w2)"
  shows "WithOrgTx orgID fn E w = (case r of
      Inl e \<Rightarrow> (Inl e, (end_tx w w2)\<lparr>w_db := w_db w\<rparr>)
    | Inr x \<Rightarrow> if w_failed w2
        then (Inl (ExternalError ''commit unexpectedly resulted in rollback''), (end_tx w w2)\<lparr>w_db := w_db w\<rparr>)
        else (Inr x, end_tx w w2))"
proof -
  have f: "fault E n = None" for n using assms(1) by (simp add: no_faults_def)
  have "SetOrgContext orgID E ((tick_world w)\<lparr>w_failed := False, w_now := clock E (w_tick w)\<rparr>) =
      (Inr (), org_tx_start E orgID w)"
    by (simp add: SetOrgContext_eq_Inr f org_tx_start_def)
  then have "go_bind (SetOrgContext orgID) (\<lambda>_. fn) E ((tick_world w)\<lparr>w_failed := False, w_now := clock E (w_tick w)\<rparr>) =
      (r, w2)"
    using assms(2) by (simp add: go_bind_Inr)
  then show ?thesis
    by (simp add: WithOrgTx_def WithTx_def external_ret f split: sum.split)
qed

lemma WithOrgTx_run_error:
  assumes "no_faults E" "fn E (org_tx_start E orgID w) = (Inl e, w2)"
  shows "WithOrgTx orgID fn E w = (Inl e, (end_tx w w2)\<lparr>w_db := w_db w\<rparr>)"
  using WithOrgTx_run [of E fn orgID w "Inl e" w2, OF assms] by simp

text \<open>Without faults an event reaches every configured queue, in the order of the loop.\<close>

lemma send_all_run:
  assumes "no_faults E"
  shows "\<exists>w'. send_all e qs E w = (Inr [], w') \<and>
    w_sent w' = w_sent w @ map (\<lambda>q. (q, EventBody e)) (filter (\<lambda>q. q \<noteq> []) qs)"
proof (induction qs arbitrary: w)
  case (Cons q qs)
  have f: "fault E n = None" for n using assms by (simp add: no_faults_def)
  let ?w1 = "(tick_world w)\<lparr>w_sent := w_sent w @ [(q, EventBody e)]\<rparr>"
  have "wrap_err (''sqs: send to '' @ q) (SendMessage q (EventBody e)) E w = (Inr (), ?w1)"
    by (simp add: wrap_err_eq_Inr SendMessage_def external_def f)
  then have s: "attempt (wrap_err (''sqs: send to '' @ q) (SendMessage q (EventBody e))) E w = (Inr (Inr ()), ?w1)"
    by (simp only: attempt_eq_Inr)
  obtain w' where "send_all e qs E ?w1 = (Inr [], w')"
    "w_sent w' = w_sent ?w1 @ map (\<lambda>q. (q, EventBody e)) (filter (\<lambda>q. q \<noteq> []) qs)"
    using Cons.IH by blast
  moreover from this(1) have "send_all e (q # qs) E w = (Inr [], w')" if "q \<noteq> []"
    using that s by (simp add: go_bind_def ret_run)
  moreover obtain w'' where "send_all e qs E w = (Inr [], w'')"
    "w_sent w'' = w_sent w @ map (\<lambda>q. (q, EventBody e)) (filter (\<lambda>q. q \<noteq> []) qs)"
    using Cons.IH by blast
  ultimately show ?case by (cases "q = []") auto
qed (simp add: ret_run)

lemma PublishEvent_run:
  assumes "no_faults E"
  shows "w_sent (snd (PublishEvent p e E w)) =
    w_sent w @ map (\<lambda>q. (q, EventBody e)) (filter (\<lambda>q. q \<noteq> []) (event_queues p e))"
proof -
  obtain w' where "send_all e (event_queues p e) E w = (Inr [], w')"
    "w_sent w' = w_sent w @ map (\<lambda>q. (q, EventBody e)) (filter (\<lambda>q. q \<noteq> []) (event_queues p e))"
    using send_all_run [OF assms] by blast
  then show ?thesis by (simp add: PublishEvent_def go_bind_Inr ret_run)
qed

lemma NewBase_success:
  "NewBase t orgID E w = (Inr b, w') \<Longrightarrow>
   be_Type b = t \<and> be_OrgID b = fmt_uuid E orgID \<and> w_sent w' = w_sent w \<and> w_db w' = w_db w"
  by (auto simp: NewBase_def go_bind_eq_Inr uuid_New_def time_Now_def asks_eq_Inr ret_eq_Inr)

end
