(* ===== verification/Auth.thy ===== *)
theory Auth
  imports Database
begin

text \<open>
  \<open>pkg/auth\<close> (scopes, claims, context, API keys) and the request/response helpers of
  \<open>lambdas/shared\<close>.  SHA-256 is a parameter; the random source is the environment's.
\<close>

section \<open>scopes.go\<close>

abbreviation ScopeOrgAdmin :: string where "ScopeOrgAdmin \<equiv> ''org:admin''"
abbreviation ScopePodAdmin :: string where "ScopePodAdmin \<equiv> ''pod:admin''"
abbreviation ScopeInboxRead :: string where "ScopeInboxRead \<equiv> ''inbox:read''"
abbreviation ScopeInboxWrite :: string where "ScopeInboxWrite \<equiv> ''inbox:write''"
abbreviation ScopeWebhookRead :: string where "ScopeWebhookRead \<equiv> ''webhook:read''"
abbreviation ScopeWebhookWrite :: string where "ScopeWebhookWrite \<equiv> ''webhook:write''"
abbreviation ScopeDraftRead :: string where "ScopeDraftRead \<equiv> ''draft:read''"
abbreviation ScopeDraftWrite :: string where "ScopeDraftWrite \<equiv> ''draft:write''"
abbreviation ScopeSearchRead :: string where "ScopeSearchRead \<equiv> ''search:read''"

definition AllScopes :: "string list" where
  "AllScopes = [ScopeOrgAdmin, ScopePodAdmin, ScopeInboxRead, ScopeInboxWrite,
     ScopeWebhookRead, ScopeWebhookWrite, ScopeDraftRead, ScopeDraftWrite, ScopeSearchRead]"

section \<open>claims.go\<close>

record claims =
  cl_OrgID :: uuid
  cl_KeyID :: uuid
  cl_Scopes :: "string list"
  cl_PodID :: "uuid option"
  cl_Plan :: string
  cl_Features :: "string list"
  cl_SeatLimit :: int

fun has_scope_in :: "string list \<Rightarrow> string \<Rightarrow> bool" where
  "has_scope_in [] s = False"
| "has_scope_in (scope # rest) s = (if scope = ScopeOrgAdmin \<or> scope = s then True else has_scope_in rest s)"

definition HasScope :: "claims \<Rightarrow> string \<Rightarrow> bool" where
  "HasScope c s = has_scope_in (cl_Scopes c) s"

fun has_feature_in :: "string list \<Rightarrow> string \<Rightarrow> bool" where
  "has_feature_in [] f = False"
| "has_feature_in (x # rest) f = (if x = f then True else has_feature_in rest f)"

definition HasFeature :: "claims \<Rightarrow> string \<Rightarrow> bool" where
  "HasFeature c f = has_feature_in (cl_Features c) f"

definition CanAccessPod :: "claims \<Rightarrow> uuid \<Rightarrow> bool" where
  "CanAccessPod c podID = (case cl_PodID c of None \<Rightarrow> True | Some p \<Rightarrow> p = podID)"

section \<open>context.go\<close>

type_synonym ctx = "string \<rightharpoonup> claims"

definition claimsKey :: string where "claimsKey = ''claims''"

definition WithClaims :: "ctx \<Rightarrow> claims \<Rightarrow> ctx" where
  "WithClaims ctx c = ctx(claimsKey \<mapsto> c)"

definition ClaimsFromCtx :: "ctx \<Rightarrow> claims option" where
  "ClaimsFromCtx ctx = ctx claimsKey"

definition OrgIDFromCtx :: "ctx \<Rightarrow> uuid" where
  "OrgIDFromCtx ctx = (case ClaimsFromCtx ctx of Some c \<Rightarrow> cl_OrgID c | None \<Rightarrow> uuid_Nil)"

section \<open>apikey.go\<close>

definition keyPrefix :: string where "keyPrefix = ''am_live_''"

definition b64_raw_url :: "string \<Rightarrow> string" where
  "b64_raw_url s = map (\<lambda>c. if c = CHR ''+'' then CHR ''-'' else if c = CHR ''/'' then CHR ''_'' else c)
     (takeWhile (\<lambda>c. c \<noteq> CHR ''='') (b64_encode s))"

definition HashAPIKey :: "(string \<Rightarrow> string) \<Rightarrow> string \<Rightarrow> string" where
  "HashAPIKey sha256 plaintext = hex_encode (sha256 plaintext)"

text \<open>\<open>rnd\<close> is the result of \<open>rand.Read\<close> on a 32-byte buffer.\<close>

definition GenerateAPIKey :: "(string \<Rightarrow> string) \<Rightarrow> go_error + string \<Rightarrow> go_error + string \<times> string \<times> string" where
  "GenerateAPIKey sha256 rnd = (case rnd of
       Inl e \<Rightarrow> Inl (Wrap ''generate random bytes'' e)
     | Inr b \<Rightarrow>
         (let plaintext = keyPrefix @ b64_raw_url b;
              hash = hex_encode (sha256 plaintext);
              displayPrefix = (if length plaintext \<ge> 16 then take 16 plaintext else plaintext)
          in Inr (plaintext, hash, displayPrefix)))"

definition VerifyAPIKey :: "(string \<Rightarrow> string) \<Rightarrow> string \<Rightarrow> string \<Rightarrow> bool" where
  "VerifyAPIKey sha256 plaintext hash = (HashAPIKey sha256 plaintext = hash)"

section \<open>lambdas/shared\<close>

record request =
  rq_Resource :: string
  rq_HTTPMethod :: string
  rq_PathParameters :: "(string \<times> string) list"
  rq_QueryStringParameters :: "(string \<times> string) list"
  rq_Authorizer :: "(string \<times> json) list"
  rq_Body :: "json option"

text \<open>The body is kept as the JSON value it parses to, \<open>None\<close> when it is not JSON.\<close>

text \<open>A read of a Go map with string values: the empty string for a missing key.\<close>

definition map_get :: "(string \<times> string) list \<Rightarrow> string \<Rightarrow> string" where
  "map_get m k = (case map_of m k of None \<Rightarrow> [] | Some v \<Rightarrow> v)"

text \<open>\<open>v, _ := auth[k].(string)\<close>\<close>

definition string_at :: "(string \<times> json) list \<Rightarrow> string \<Rightarrow> string" where
  "string_at m k = (case map_of m k of Some (JStr s) \<Rightarrow> s | _ \<Rightarrow> [])"

definition comma_list :: "string \<Rightarrow> string list" where
  "comma_list s = filter (\<lambda>w. w \<noteq> []) (map trim_space (split_on (CHR '','') s))"

definition ExtractClaims :: "env \<Rightarrow> request \<Rightarrow> go_error + claims" where
  "ExtractClaims E event =
     (let auth = rq_Authorizer event;
          orgIDStr = string_at auth ''org_id'';
          keyIDStr = string_at auth ''key_id'';
          scopesStr = string_at auth ''scopes'';
          podIDStr = string_at auth ''pod_id'';
          featuresStr = string_at auth ''features'';
          seatLimitStr = string_at auth ''seat_limit''
      in case parse_uuid E orgIDStr of
           None \<Rightarrow> Inl (Wrap ''invalid org_id'' (Errorf ''invalid UUID''))
         | Some orgID \<Rightarrow>
             (case parse_uuid E keyIDStr of
                None \<Rightarrow> Inl (Wrap ''invalid key_id'' (Errorf ''invalid UUID''))
              | Some keyID \<Rightarrow> Inr
                  \<lparr>cl_OrgID = orgID, cl_KeyID = keyID,
                   cl_Scopes = comma_list scopesStr,
                   cl_PodID = (if podIDStr \<noteq> [] then parse_uuid E podIDStr else None),
                   cl_Plan = string_at auth ''plan'',
                   cl_Features = comma_list featuresStr,
                   cl_SeatLimit = (if seatLimitStr \<noteq> [] then
                       (case atoi seatLimitStr of Some n \<Rightarrow> n | None \<Rightarrow> - 1) else - 1)\<rparr>))"

text \<open>The members of \<open>webhookResponse\<close>: the secret and the header value are not among them.\<close>

record webhook_view =
  wv_id :: uuid
  wv_org_id :: uuid
  wv_url :: string
  wv_events :: "string list option"
  wv_pod_id :: "uuid option"
  wv_inbox_id :: "uuid option"
  wv_is_active :: bool
  wv_failure_count :: int
  wv_last_success_at :: "time option"
  wv_last_failure_at :: "time option"
  wv_created_at :: time
  wv_updated_at :: time
  wv_auth_header_name :: "string option"

text \<open>The JSON of \<open>models.APIKey\<close>: the hash is hidden by its tag.\<close>

record key_view =
  kv_id :: uuid
  kv_org_id :: uuid
  kv_name :: string
  kv_key_prefix :: string
  kv_scopes :: "string list"
  kv_pod_id :: "uuid option"
  kv_last_used_at :: "time option"
  kv_expires_at :: "time option"
  kv_revoked_at :: "time option"
  kv_created_at :: time

definition key_json :: "api_key \<Rightarrow> key_view" where
  "key_json k =
     \<lparr>kv_id = k_ID k, kv_org_id = k_OrgID k, kv_name = k_Name k, kv_key_prefix = k_KeyPrefix k, kv_scopes = k_Scopes k,
      kv_pod_id = k_PodID k, kv_last_used_at = k_LastUsedAt k, kv_expires_at = k_ExpiresAt k,
      kv_revoked_at = k_RevokedAt k, kv_created_at = k_CreatedAt k\<rparr>"

text \<open>\<open>searchResult\<close> of \<open>lambdas/search\<close>.\<close>

record search_result =
  sx_MessageID :: uuid
  sx_ThreadID :: uuid
  sx_InboxID :: uuid
  sx_Subject :: string
  sx_Snippet :: string
  sx_From :: email_address
  sx_ReceivedAt :: "time option"
  sx_SentAt :: "time option"
  sx_Direction :: string
  sx_Rank :: rank

text \<open>The value a response body is the JSON text of, or the text itself.\<close>

datatype resp_value =
    VEmpty
  | VError string
  | VBytes string
  | VDraft draft | VDrafts "draft list" string
  | VMessage message | VMessages "message list" string
  | VThread thread | VThreads "thread list" string
  | VLabel label | VLabels "label list"
  | VInbox inbox | VInboxes "inbox list" string
  | VSeatLimit int int
  | VWebhook webhook_view | VWebhooks "webhook_view list"
  | VDeliveries "webhook_delivery list" string
  | VOrganization organization
  | VPod pod | VPods "pod list"
  | VKey key_view | VKeys "key_view list" string | VNewKey key_view string
  | VSearch "search_result list" string
  | VText string
  | VDomain domain_config | VDomains "domain_config list" | VDomainRecords domain_config "dns_record list"

record response =
  rs_StatusCode :: int
  rs_Headers :: "(string \<times> string) list"
  rs_Body :: resp_value
  rs_IsBase64Encoded :: bool

definition JSON :: "int \<Rightarrow> resp_value \<Rightarrow> response" where
  "JSON statusCode body =
     \<lparr>rs_StatusCode = statusCode,
      rs_Headers = [(''Content-Type'', ''application/json''), (''Access-Control-Allow-Origin'', ''*'')],
      rs_Body = body, rs_IsBase64Encoded = False\<rparr>"

definition Binary :: "int \<Rightarrow> string \<Rightarrow> string \<Rightarrow> string \<Rightarrow> response" where
  "Binary statusCode data contentType contentDisposition =
     \<lparr>rs_StatusCode = statusCode,
      rs_Headers = [(''Content-Type'', contentType), (''Access-Control-Allow-Origin'', ''*'')] @
        (if contentDisposition \<noteq> [] then [(''Content-Disposition'', contentDisposition)] else []),
      rs_Body = VBytes (b64_encode data), rs_IsBase64Encoded = True\<rparr>"

definition Error :: "int \<Rightarrow> string \<Rightarrow> response" where
  "Error statusCode message = JSON statusCode (VError message)"

definition NoContent :: response where
  "NoContent = \<lparr>rs_StatusCode = 204, rs_Headers = [], rs_Body = VEmpty, rs_IsBase64Encoded = False\<rparr>"

definition PathParam :: "request \<Rightarrow> string \<Rightarrow> string" where
  "PathParam event name = map_get (rq_PathParameters event) name"

definition ParseUUID :: "env \<Rightarrow> string \<Rightarrow> uuid option" where
  "ParseUUID E s = parse_uuid E s"

text \<open>\<open>id, _ := uuid.Parse(event.PathParameters[name])\<close>\<close>

definition path_uuid :: "env \<Rightarrow> request \<Rightarrow> string \<Rightarrow> uuid" where
  "path_uuid E event name = (case parse_uuid E (PathParam event name) of None \<Rightarrow> uuid_on_error E (PathParam event name) | Some u \<Rightarrow> u)"

text \<open>\<open>limit := 0; if l := query["limit"]; l != "" { fmt.Sscanf(l, "%d", &limit) }\<close>\<close>

definition query_limit :: "request \<Rightarrow> int" where
  "query_limit event =
     (let l = map_get (rq_QueryStringParameters event) ''limit''
      in if l \<noteq> [] then sscanf_d l 0 else 0)"

text \<open>A handler runs in the world and always returns a response (its Go error is nil).\<close>

type_synonym handler = "env \<Rightarrow> world \<Rightarrow> response \<times> world"

definition respond :: "response \<Rightarrow> handler" where
  "respond r = (\<lambda>E w. (r, w))"

text \<open>\<open>x, err := m; if err != nil { return onErr(err) }; return onOk(x)\<close>\<close>

definition handle :: "'a io \<Rightarrow> (go_error \<Rightarrow> handler) \<Rightarrow> ('a \<Rightarrow> handler) \<Rightarrow> handler" where
  "handle m on_err on_ok = (\<lambda>E w. case m E w of
       (Inl e, w') \<Rightarrow> on_err e E w' | (Inr x, w') \<Rightarrow> on_ok x E w')"

text \<open>\<open>shared.Error(code, err.Error())\<close>\<close>

definition error_text :: "int \<Rightarrow> go_error \<Rightarrow> handler" where
  "error_text code e = (\<lambda>E w. (Error code (err_text E e), w))"

definition cursor_error :: "go_error \<Rightarrow> handler" where
  "cursor_error e = (\<lambda>E w.
     (if contains (err_text E e) ''invalid cursor'' then Error 400 ''invalid cursor''
      else Error 500 (err_text E e), w))"

section \<open>Properties\<close>

lemma has_scope_in_iff: "has_scope_in ss s \<longleftrightarrow> ScopeOrgAdmin \<in> set ss \<or> s \<in> set ss"
  by (induction ss) auto

text \<open>A key has a scope exactly when it lists the scope or is an organisation admin.\<close>

lemma HasScope_iff: "HasScope c s \<longleftrightarrow> ScopeOrgAdmin \<in> set (cl_Scopes c) \<or> s \<in> set (cl_Scopes c)"
  by (simp add: HasScope_def has_scope_in_iff)

lemma HasFeature_iff: "HasFeature c f \<longleftrightarrow> f \<in> set (cl_Features c)"
proof -
  have "has_feature_in fs f \<longleftrightarrow> f \<in> set fs" for fs by (induction fs) auto
  then show ?thesis by (simp add: HasFeature_def)
qed

lemma ClaimsFromCtx_WithClaims [simp]: "ClaimsFromCtx (WithClaims ctx c) = Some c"
  by (simp add: ClaimsFromCtx_def WithClaims_def)

lemma OrgIDFromCtx_WithClaims: "OrgIDFromCtx (WithClaims ctx c) = cl_OrgID c"
  by (simp add: OrgIDFromCtx_def)

text \<open>A generated key verifies against the stored hash, carries the product prefix, and the
  prefix shown to users is the first 16 characters of the key.\<close>

lemma GenerateAPIKey_verifies:
  assumes "GenerateAPIKey sha256 rnd = Inr (plaintext, hash, shown)"
  shows "VerifyAPIKey sha256 plaintext hash \<and> has_prefix plaintext keyPrefix \<and> shown = take 16 plaintext"
  using assms by (auto simp: GenerateAPIKey_def VerifyAPIKey_def HashAPIKey_def Let_def split: sum.splits)

lemma GenerateAPIKey_verifies_at_demo:
  "VerifyAPIKey (\<lambda>s. take 32 (s @ s)) ''am_live_QUJDREVGR0g'' (hex_encode (take 32 (''am_live_QUJDREVGR0g'' @ ''am_live_QUJDREVGR0g'')))
   \<and> has_prefix ''am_live_QUJDREVGR0g'' keyPrefix \<and> ''am_live_QUJDREVG'' = take 16 ''am_live_QUJDREVGR0g''"
proof -
  have "GenerateAPIKey (\<lambda>s. take 32 (s @ s)) (Inr ''ABCDEFGH'') =
      Inr (''am_live_QUJDREVGR0g'', hex_encode (take 32 (''am_live_QUJDREVGR0g'' @ ''am_live_QUJDREVGR0g'')), ''am_live_QUJDREVG'')"
    by code_simp
  from GenerateAPIKey_verifies [OF this] show ?thesis .
qed

text \<open>Rebuilding a list that was joined with commas.\<close>

lemma trim_space_id: "(\<forall>c \<in> set w. \<not> is_space c) \<Longrightarrow> trim_space w = w"
proof -
  assume a: "\<forall>c \<in> set w. \<not> is_space c"
  have d: "dropWhile is_space v = v" if "\<forall>c \<in> set v. \<not> is_space c" for v
    using that by (cases v) auto
  from a d [of w] d [of "rev w"] show "trim_space w = w"
    by (simp add: trim_space_def)
qed

lemma comma_list_join:
  assumes "\<And>w. w \<in> set ws \<Longrightarrow> w \<noteq> [] \<and> CHR '','' \<notin> set w \<and> (\<forall>c \<in> set w. \<not> is_space c)"
  shows "comma_list (join '','' ws) = ws"
proof (cases "ws = []")
  case True
  then show ?thesis by (simp add: comma_list_def trim_space_def)
next
  case False
  then have "split_on (CHR '','') (join '','' ws) = ws"
    using assms by (intro split_join) auto
  moreover have "map trim_space ws = ws" using assms by (intro map_idI) (simp add: trim_space_id)
  moreover have "filter (\<lambda>w. w \<noteq> []) ws = ws" using assms by (intro filter_True) auto
  ultimately show ?thesis by (simp add: comma_list_def)
qed

end
