(* ===== verification/Pagination.thy ===== *)
theory Pagination
  imports Database
begin

text \<open>
  \<open>pkg/pagination\<close> and the keyset pagination that every \<open>List\<close> of the stores follows: an opaque
  cursor names the sort key of the last row of a page, the next page holds the rows after it.
  The locale \<open>keyset_list\<close> is the contract of such a listing; inside it is proved that following
  the cursors visits every row exactly once, in order, and stops.
\<close>

section \<open>pagination.go\<close>

definition defaultLimit :: int where "defaultLimit = 20"
definition maxLimit :: int where "maxLimit = 100"

definition EncodeCursor :: "string list \<Rightarrow> string" where
  "EncodeCursor parts = (let raw = join ''|'' parts in b64_encode raw)"

definition DecodeCursor :: "string \<Rightarrow> go_error + string list" where
  "DecodeCursor cursor =
     (if cursor = [] then Inr []
      else case b64_decode cursor of
             None \<Rightarrow> Inl (Wrap ''invalid cursor'' (Errorf ''illegal base64 data''))
           | Some b \<Rightarrow> Inr (split_on (CHR ''|'') b))"

definition ClampLimit :: "int \<Rightarrow> int" where
  "ClampLimit limit =
     (if limit \<le> 0 then defaultLimit else if limit > maxLimit then maxLimit else limit)"

text \<open>A cursor made of parts without a bar decodes to the same parts, unless all of it is
  the empty text, which encodes to the empty cursor.\<close>

lemma cursor_roundtrip:
  assumes "parts \<noteq> []" and "parts \<noteq> [[]]" and "\<forall>p \<in> set parts. CHR ''|'' \<notin> set p"
  shows "DecodeCursor (EncodeCursor parts) = Inr parts"
proof -
  have "join ''|'' parts \<noteq> []"
    using assms(1,2) by (cases parts rule: join.cases [of "(''|'', parts)" for parts, simplified]) auto
  moreover have "split_on (CHR ''|'') (join ''|'' parts) = parts"
    using assms by (intro split_join) auto
  ultimately show ?thesis
    by (simp add: EncodeCursor_def DecodeCursor_def Let_def b64_roundtrip)
qed

lemma cursor_roundtrip_at_demo:
  "DecodeCursor (EncodeCursor [''2024-01-02T03:04:05Z'', ''6f1c'']) = Inr [''2024-01-02T03:04:05Z'', ''6f1c'']"
  by (rule cursor_roundtrip) simp_all

text \<open>A page size is always between 1 and 100, whatever the caller asks for, and a
  request within the bounds is honoured.\<close>

lemma ClampLimit_bounds:
  "1 \<le> ClampLimit limit \<and> ClampLimit limit \<le> 100 \<and> (ClampLimit limit = limit \<longleftrightarrow> 1 \<le> limit \<and> limit \<le> 100)"
  by (simp add: ClampLimit_def defaultLimit_def maxLimit_def)

lemma ClampLimit_pos [simp]: "0 < nat (ClampLimit limit)"
  by (simp add: ClampLimit_def defaultLimit_def maxLimit_def)

section \<open>One page\<close>

text \<open>The end of every \<open>List\<close>: the query has asked for one row more than the page holds; when it
  is there the page is cut and the cursor of its last row is returned.\<close>

definition cut_page :: "nat \<Rightarrow> ('r \<Rightarrow> string) \<Rightarrow> 'r list \<Rightarrow> 'r list \<times> string" where
  "cut_page limit cursor_of rows =
     (if length rows > limit
      then (take limit rows, cursor_of (last (take limit rows)))
      else (rows, []))"

text \<open>The start of every \<open>List\<close>: the two parts of a non-empty cursor.\<close>

definition cursor_parts :: "string \<Rightarrow> go_error + (string \<times> string) option" where
  "cursor_parts cursor =
     (if cursor = [] then Inr None
      else case DecodeCursor cursor of
             Inl e \<Rightarrow> Inl (Errorf ''invalid cursor'')
           | Inr parts \<Rightarrow> if length parts < 2 then Inl (Errorf ''invalid cursor'')
                          else Inr (Some (parts ! 0, parts ! 1)))"

text \<open>The casts \<open>($n::timestamptz, $m::uuid)\<close> in the query's row comparison.\<close>

definition cursor_key :: "env \<Rightarrow> (string \<times> string) option \<Rightarrow> go_error + (time \<times> uuid) option" where
  "cursor_key E parts = (case parts of
       None \<Rightarrow> Inr None
     | Some (t, u) \<Rightarrow> (case cast_time E t of
           None \<Rightarrow> Inl (PgError ''22007'')
         | Some ts \<Rightarrow> (case cast_uuid E u of
               None \<Rightarrow> Inl (PgError ''22P02'')
             | Some i \<Rightarrow> Inr (Some (ts, i)))))"

definition row_cursor :: "env \<Rightarrow> time \<Rightarrow> uuid \<Rightarrow> string" where
  "row_cursor E t u = EncodeCursor [fmt_time E t, fmt_uuid E u]"

text \<open>What the code relies on of the formatters and the casts: they are inverse to each other and
  print no bar.\<close>

definition cursor_codec :: "env \<Rightarrow> bool" where
  "cursor_codec E \<longleftrightarrow>
     (\<forall>t. cast_time E (fmt_time E t) = Some t \<and> CHR ''|'' \<notin> set (fmt_time E t)) \<and>
     (\<forall>u. cast_uuid E (fmt_uuid E u) = Some u \<and> CHR ''|'' \<notin> set (fmt_uuid E u))"

lemma row_cursor_not_Nil [simp]: "row_cursor E t u \<noteq> []"
  by (simp add: row_cursor_def EncodeCursor_def Let_def)

lemma DecodeCursor_row:
  assumes "cursor_codec E"
  shows "DecodeCursor (row_cursor E t u) = Inr [fmt_time E t, fmt_uuid E u]"
proof -
  have "split_on (CHR ''|'') (join ''|'' [fmt_time E t, fmt_uuid E u]) = [fmt_time E t, fmt_uuid E u]"
    using assms by (intro split_join) (auto simp: cursor_codec_def)
  moreover have "b64_encode (join ''|'' [fmt_time E t, fmt_uuid E u]) \<noteq> []"
    by simp
  ultimately show ?thesis
    unfolding row_cursor_def EncodeCursor_def DecodeCursor_def Let_def
    by (simp only: if_False b64_roundtrip option.case)
qed

lemma cursor_parts_row:
  "cursor_codec E \<Longrightarrow> cursor_parts (row_cursor E t u) = Inr (Some (fmt_time E t, fmt_uuid E u))"
  by (simp add: cursor_parts_def DecodeCursor_row)

lemma cursor_key_row:
  "cursor_codec E \<Longrightarrow> cursor_key E (Some (fmt_time E t, fmt_uuid E u)) = Inr (Some (t, u))"
  by (simp add: cursor_key_def cursor_codec_def)

section \<open>The contract of a keyset listing\<close>

text \<open>Following the cursors: at most \<open>fuel\<close> pages, \<open>None\<close> when there are more.\<close>

fun walk :: "nat \<Rightarrow> (string \<Rightarrow> 'r list \<times> string) \<Rightarrow> string \<Rightarrow> 'r list option" where
  "walk 0 listing cursor = None"
| "walk (Suc fuel) listing cursor =
     (case listing cursor of (page, next) \<Rightarrow>
        if next = [] then Some page else map_option ((@) page) (walk fuel listing next))"

text \<open>\<open>ok x\<close> says when a listing in the context \<open>x\<close> (environment, tables, filter, page size)
  behaves; \<open>rows x\<close> are the rows it is to visit, in its order \<open>before\<close>.\<close>

locale keyset_list =
  fixes ok :: "'x \<Rightarrow> bool"
    and limit :: "'x \<Rightarrow> nat"
    and rows :: "'x \<Rightarrow> 'r list"
    and before :: "'r \<Rightarrow> 'r \<Rightarrow> bool"
    and cursor_of :: "'x \<Rightarrow> 'r \<Rightarrow> string"
    and listing :: "'x \<Rightarrow> string \<Rightarrow> 'r list \<times> string"
  assumes limit_pos: "ok x \<Longrightarrow> 0 < limit x"
    and rows_sorted: "ok x \<Longrightarrow> sorted_wrt before (rows x)"
    and before_asym: "before r s \<Longrightarrow> \<not> before s r"
    and cursor_not_Nil: "cursor_of x r \<noteq> []"
    and first_page: "ok x \<Longrightarrow> listing x [] = cut_page (limit x) (cursor_of x) (take (Suc (limit x)) (rows x))"
    and next_page: "ok x \<Longrightarrow> r \<in> set (rows x) \<Longrightarrow>
      listing x (cursor_of x r) =
        cut_page (limit x) (cursor_of x) (take (Suc (limit x)) (filter (before r) (rows x)))"
begin

lemma filter_after:
  assumes "ok x" "rows x = pre @ r # post"
  shows "filter (before r) (rows x) = post"
proof -
  have s: "sorted_wrt before (pre @ r # post)"
    using rows_sorted [OF assms(1)] assms(2) by simp
  then have "\<forall>p \<in> set pre. \<not> before r p" "\<not> before r r" "\<forall>p \<in> set post. before r p"
    by (auto simp: sorted_wrt_append dest: before_asym)
  with assms(2) show ?thesis by simp
qed

lemma cut_page_long:
  "limit x < length rs \<Longrightarrow>
   cut_page (limit x) c (take (Suc (limit x)) rs) = (take (limit x) rs, c (last (take (limit x) rs)))"
  by (simp add: cut_page_def min_def)

lemma walk_suffix:
  assumes "ok x" "rows x = pre @ suf" "length suf < fuel"
    "listing x c = cut_page (limit x) (cursor_of x) (take (Suc (limit x)) suf)"
  shows "walk fuel (listing x) c = Some suf"
  using assms(2-4)
proof (induction fuel arbitrary: pre suf c)
  case (Suc fuel)
  show ?case
  proof (cases "length suf \<le> limit x")
    case True
    with Suc.prems(3) show ?thesis by (simp add: cut_page_def)
  next
    case False
    let ?page = "take (limit x) suf" and ?rest = "drop (limit x) suf"
    have ne: "?page \<noteq> []" using limit_pos [OF assms(1)] False by auto
    have split: "rows x = (pre @ butlast ?page) @ last ?page # ?rest"
      using ne Suc.prems(1) by (metis append.assoc append_Cons append_Nil append_butlast_last_id append_take_drop_id)
    have "last ?page \<in> set (rows x)" by (subst split) simp
    from next_page [OF assms(1) this]
    have "listing x (cursor_of x (last ?page)) =
        cut_page (limit x) (cursor_of x) (take (Suc (limit x)) ?rest)"
      by (simp only: filter_after [OF assms(1) split])
    moreover have "length ?rest < fuel"
      using Suc.prems(2) limit_pos [OF assms(1)] False by simp
    moreover have "rows x = (pre @ ?page) @ ?rest" using Suc.prems(1) by simp
    ultimately have "walk fuel (listing x) (cursor_of x (last ?page)) = Some ?rest"
      using Suc.IH [of "pre @ ?page" ?rest] by blast
    then show ?thesis
      using False Suc.prems(3) by (simp add: cut_page_long cursor_not_Nil)
  qed
qed simp

text \<open>Following the cursors from the start visits every row once, in order, and stops.\<close>

lemma walk_complete: "ok x \<Longrightarrow> walk (Suc (length (rows x))) (listing x) [] = Some (rows x)"
  by (rule walk_suffix [where pre = "[]"]) (simp_all add: first_page)

lemma page_bounded: "ok x \<Longrightarrow> length (fst (listing x [])) \<le> limit x"
  by (simp add: first_page cut_page_def)

end

section \<open>Order of rows\<close>

lemma sorted_wrt_order_desc:
  assumes "distinct (map k rs)"
  shows "sorted_wrt (\<lambda>r s. k s < k r) (order_desc k rs)"
proof -
  have "sorted_wrt (\<lambda>r s. k r < k s) (sort_key k rs)"
    using assms by (simp add: strict_sorted_iff [symmetric] sorted_wrt_map [symmetric] strict_sorted_iff distinct_map)
  then show ?thesis by (simp add: order_desc_def sorted_wrt_rev)
qed

lemma sorted_wrt_order_asc:
  assumes "distinct (map k rs)"
  shows "sorted_wrt (\<lambda>r s. k r < k s) (order_asc k rs)"
  using assms
  by (simp add: order_asc_def strict_sorted_iff [symmetric] sorted_wrt_map [symmetric] strict_sorted_iff distinct_map)

lemma filter_order_desc: "filter p (order_desc k rs) = order_desc k (filter p rs)"
  by (simp add: order_desc_def rev_filter [symmetric] filter_sort)

lemma filter_order_asc: "filter p (order_asc k rs) = order_asc k (filter p rs)"
  by (simp add: order_asc_def filter_sort)

end
