(* ===== verification/Tables.thy ===== *)
theory Tables
  imports Pagination "HOL-Library.List_Lexorder" "HOL-Library.Char_ord"
begin

text \<open>
  What the stores of \<open>services/inbox/store\<close> and of the webhook service share: the page query of
  every \<open>List\<close>, and the contract \<open>org_table\<close> of a table whose rows belong to an organisation
  and are read, patched and deleted by organisation and id.  The client lemmas of the contract say
  that a row of another organisation cannot be seen or changed through it.
\<close>

section \<open>SELECT ... ORDER BY ... LIMIT with a keyset condition\<close>

definition keyset_select_desc ::
  "('r \<Rightarrow> time \<times> uuid) \<Rightarrow> ('r \<Rightarrow> bool) \<Rightarrow> nat \<Rightarrow> (time \<times> uuid) option \<Rightarrow> 'r list \<Rightarrow> 'r list" where
  "keyset_select_desc k p n after rs =
     take n (order_desc k (filter (\<lambda>r. p r \<and> (case after of None \<Rightarrow> True | Some c \<Rightarrow> k r < c)) rs))"

definition keyset_select_asc ::
  "('r \<Rightarrow> time \<times> uuid) \<Rightarrow> ('r \<Rightarrow> bool) \<Rightarrow> nat \<Rightarrow> (time \<times> uuid) option \<Rightarrow> 'r list \<Rightarrow> 'r list" where
  "keyset_select_asc k p n after rs =
     take n (order_asc k (filter (\<lambda>r. p r \<and> (case after of None \<Rightarrow> True | Some c \<Rightarrow> c < k r)) rs))"

lemma keyset_select_subset:
  "set (keyset_select_desc k p n after rs) \<subseteq> {r \<in> set rs. p r}"
  "set (keyset_select_asc k p n after rs) \<subseteq> {r \<in> set rs. p r}"
  by (auto simp: keyset_select_desc_def keyset_select_asc_def dest: in_set_takeD)

text \<open>The pages of scanned rows, as the listing contract states them.\<close>

lemma keyset_desc_first:
  "map sc (keyset_select_desc k p n None rs) = take n (map sc (order_desc k (filter p rs)))"
  by (simp add: keyset_select_desc_def take_map)

lemma keyset_desc_next:
  assumes "\<And>r. kk (sc r) = k r"
  shows "map sc (keyset_select_desc k p n (Some c) rs) =
    take n (filter (\<lambda>m. kk m < c) (map sc (order_desc k (filter p rs))))"
  by (simp add: keyset_select_desc_def take_map filter_map comp_def assms filter_order_desc conj_commute)

lemma keyset_asc_first:
  "map sc (keyset_select_asc k p n None rs) = take n (map sc (order_asc k (filter p rs)))"
  by (simp add: keyset_select_asc_def take_map)

lemma keyset_asc_next:
  assumes "\<And>r. kk (sc r) = k r"
  shows "map sc (keyset_select_asc k p n (Some c) rs) =
    take n (filter (\<lambda>m. c < kk m) (map sc (order_asc k (filter p rs))))"
  by (simp add: keyset_select_asc_def take_map filter_map comp_def assms filter_order_asc conj_commute)

lemma distinct_key_pair:
  "distinct (map i rs) \<Longrightarrow> distinct (map (\<lambda>r. (t r, i r)) (filter p rs))"
  by (induction rs) (auto simp: image_iff)

lemma sorted_scanned_desc:
  assumes "distinct (map k rs)" and "\<And>r. kk (sc r) = k r"
  shows "sorted_wrt (\<lambda>a b. kk b < kk a) (map sc (order_desc k rs))"
  using sorted_wrt_order_desc [OF assms(1)] by (simp add: sorted_wrt_map assms(2))

lemma sorted_scanned_asc:
  assumes "distinct (map k rs)" and "\<And>r. kk (sc r) = k r"
  shows "sorted_wrt (\<lambda>a b. kk a < kk b) (map sc (order_asc k rs))"
  using sorted_wrt_order_asc [OF assms(1)] by (simp add: sorted_wrt_map assms(2))

lemma ClampLimit_gt_0 [simp]: "0 < ClampLimit limit"
  by (simp add: ClampLimit_def defaultLimit_def maxLimit_def)

section \<open>Patches\<close>

text \<open>The SET clauses of a patch: \<open>supplied p x\<close> is the patch's value when there is one.\<close>

definition supplied :: "'a option \<Rightarrow> 'a \<Rightarrow> 'a" where
  "supplied p x = (case p of None \<Rightarrow> x | Some v \<Rightarrow> v)"

lemma supplied_simps [simp]: "supplied None x = x" "supplied (Some v) x = v"
  by (simp_all add: supplied_def)

section \<open>The page of a successful listing\<close>

definition listed :: "'a list \<times> string \<Rightarrow> go_error + 'a list \<times> string \<Rightarrow> 'a list \<times> string" where
  "listed dflt r = (case r of Inl e \<Rightarrow> dflt | Inr p \<Rightarrow> p)"

lemma listed_Inr [simp]: "listed d (Inr p) = p"
  by (simp add: listed_def)

section \<open>The contract of an organisation's table\<close>

text \<open>\<open>get org i\<close> selects and \<open>upd org i p\<close> patches and returns the row with organisation \<open>org\<close> and
  id \<open>i\<close>; in a table with deletion, \<open>del org i\<close> deletes it and counts.\<close>

locale org_rows =
  fixes rows :: "database \<Rightarrow> 'r list"
    and org_of :: "'r \<Rightarrow> uuid"
    and id_of :: "'r \<Rightarrow> uuid"
    and apply_patch :: "'p \<Rightarrow> time \<Rightarrow> 'r \<Rightarrow> 'r"
    and get :: "uuid \<Rightarrow> uuid \<Rightarrow> 'r stmt"
    and upd :: "uuid \<Rightarrow> uuid \<Rightarrow> 'p \<Rightarrow> 'r stmt"
  assumes get_law: "get org i now d =
      (case filter (\<lambda>r. org_of r = org \<and> id_of r = i) (rows d) of [] \<Rightarrow> Inl ErrNoRows | r # _ \<Rightarrow> Inr (r, d))"
    and upd_none: "filter (\<lambda>r. org_of r = org \<and> id_of r = i) (rows d) = [] \<Longrightarrow> upd org i p now d = Inl ErrNoRows"
    and upd_some: "upd org i p now d = Inr (r, d') \<Longrightarrow>
      \<exists>r0 rest. filter (\<lambda>r. org_of r = org \<and> id_of r = i) (rows d) = r0 # rest \<and> r = apply_patch p now r0 \<and>
        rows d' = upd_where (\<lambda>r. org_of r = org \<and> id_of r = i) (apply_patch p now) (rows d)"
    and patch_org: "org_of (apply_patch p now r) = org_of r"
    and patch_id: "id_of (apply_patch p now r) = id_of r"
begin

text \<open>A row of another organisation is as absent as a missing one.\<close>

lemma foreign_get:
  assumes "\<And>r. r \<in> set (rows d) \<Longrightarrow> id_of r = i \<Longrightarrow> org_of r \<noteq> org"
  shows "get org i now d = Inl ErrNoRows"
proof -
  have "filter (\<lambda>r. org_of r = org \<and> id_of r = i) (rows d) = []"
    using assms by (auto simp: filter_empty_conv)
  then show ?thesis by (simp add: get_law)
qed

lemma foreign_upd:
  assumes "\<And>r. r \<in> set (rows d) \<Longrightarrow> id_of r = i \<Longrightarrow> org_of r \<noteq> org"
  shows "upd org i p now d = Inl ErrNoRows"
  using assms by (intro upd_none) (auto simp: filter_empty_conv)

lemma get_success:
  "get org i now d = Inr (r, d') \<Longrightarrow> d' = d \<and> r \<in> set (rows d) \<and> org_of r = org \<and> id_of r = i"
  using filter_is_subset [of "\<lambda>r. org_of r = org \<and> id_of r = i" "rows d"]
  by (auto simp: get_law split: list.splits dest: Cons_eq_filterD)
     (metis (mono_tags, lifting) list.set_intros(1) mem_Collect_eq set_filter)+

lemma upd_others: "upd org i p now d = Inr (r, d') \<Longrightarrow>
  filter (\<lambda>r. org_of r \<noteq> org) (rows d') = filter (\<lambda>r. org_of r \<noteq> org) (rows d)"
  by (auto dest!: upd_some intro!: filter_upd_where_other simp: patch_org)

lemma upd_ids: "upd org i p now d = Inr (r, d') \<Longrightarrow> map id_of (rows d') = map id_of (rows d)"
  by (auto dest!: upd_some simp: upd_where_def patch_id)

text \<open>What was patched is what is read back.\<close>

lemma get_after_upd: "upd org i p now d = Inr (r, d') \<Longrightarrow> get org i now' d' = Inr (r, d')"
proof -
  assume "upd org i p now d = Inr (r, d')"
  from upd_some [OF this] obtain r0 rest where
    f: "filter (\<lambda>r. org_of r = org \<and> id_of r = i) (rows d) = r0 # rest" and r: "r = apply_patch p now r0"
    and d': "rows d' = upd_where (\<lambda>r. org_of r = org \<and> id_of r = i) (apply_patch p now) (rows d)" by blast
  have "filter q (upd_where q f rs) = map f (filter q rs)" if "\<And>r. q (f r) = q r" for q f and rs :: "'r list"
    using that by (induction rs) (auto simp: upd_where_def)
  then have "filter (\<lambda>r. org_of r = org \<and> id_of r = i) (rows d') = map (apply_patch p now) (r0 # rest)"
    using f by (simp add: d' patch_org patch_id)
  then show ?thesis by (simp add: get_law r)
qed

end

locale org_table = org_rows rows org_of id_of apply_patch get upd
  for rows :: "database \<Rightarrow> 'r list" and org_of :: "'r \<Rightarrow> uuid" and id_of :: "'r \<Rightarrow> uuid"
    and apply_patch :: "'p \<Rightarrow> time \<Rightarrow> 'r \<Rightarrow> 'r" and get :: "uuid \<Rightarrow> uuid \<Rightarrow> 'r stmt"
    and upd :: "uuid \<Rightarrow> uuid \<Rightarrow> 'p \<Rightarrow> 'r stmt" +
  fixes del :: "uuid \<Rightarrow> uuid \<Rightarrow> nat stmt"
  assumes del_law: "del org i now d = Inr (n, d') \<Longrightarrow>
      n = length (filter (\<lambda>r. org_of r = org \<and> id_of r = i) (rows d)) \<and>
      filter (\<lambda>r. \<not> (org_of r = org \<and> id_of r = i)) (rows d) = rows d'"
begin

lemma del_others: "del org i now d = Inr (n, d') \<Longrightarrow>
  filter (\<lambda>r. org_of r \<noteq> org) (rows d') = filter (\<lambda>r. org_of r \<noteq> org) (rows d)"
proof -
  assume "del org i now d = Inr (n, d')"
  from conjunct2 [OF del_law [OF this]] have e: "rows d' = filter (\<lambda>r. \<not> (org_of r = org \<and> id_of r = i)) (rows d)"
    by (rule sym)
  show ?thesis unfolding e filter_filter by (rule filter_cong) auto
qed

lemma get_after_del: "del org i now d = Inr (n, d') \<Longrightarrow> get org i now' d' = Inl ErrNoRows"
proof (rule foreign_get)
  assume "del org i now d = Inr (n, d')"
  from conjunct2 [OF del_law [OF this]] show "\<And>r. r \<in> set (rows d') \<Longrightarrow> id_of r = i \<Longrightarrow> org_of r \<noteq> org"
    by (metis (mono_tags, lifting) mem_Collect_eq set_filter)
qed

end

end
