(* ===== verification/Inbox_Store.thy ===== *)
theory Inbox_Store
  imports Tables
begin

text \<open>
  \<open>services/inbox/store/inbox_store.go\<close>: the inboxes table (migrations 3, 4, 5, 6, 9, 10, 19, 20 for
  its constraints and for what a deletion cascades to).  The address is unique across
  organisations.
\<close>

section \<open>Patches and statements\<close>

record inbox_patch =
  ip_DisplayName :: "string option"
  ip_Status :: "string option"
  ip_Settings :: "json_map option"

definition empty_inbox_patch :: inbox_patch where
  "empty_inbox_patch = \<lparr>ip_DisplayName = None, ip_Status = None, ip_Settings = None\<rparr>"

definition inbox_statuses :: "string list" where
  "inbox_statuses = [InboxStatusActive, InboxStatusSuspended, InboxStatusDeleted]"

definition inbox_insert :: "inbox \<Rightarrow> unit stmt" where
  "inbox_insert ib now d = require
     [(ib_Status ib \<in> set inbox_statuses, ''23514''),
      (\<not> has_key ib_ID (ib_ID ib) (t_inboxes d), ''23505''),
      (\<not> has_key ib_Email (ib_Email ib) (t_inboxes d), ''23505''),
      (has_key o_ID (ib_OrgID ib) (t_organizations d), ''23503''),
      (case ib_PodID ib of None \<Rightarrow> True | Some p \<Rightarrow> has_key p_ID p (t_pods d), ''23503'')]
     ((), d\<lparr>t_inboxes := t_inboxes d @ [ib]\<rparr>)"

definition inbox_select :: "uuid \<Rightarrow> uuid \<Rightarrow> inbox stmt" where
  "inbox_select orgID inboxID = query_row (\<lambda>d. filter (\<lambda>r. ib_OrgID r = orgID \<and> ib_ID r = inboxID) (t_inboxes d))"

definition inbox_select_address :: "string \<Rightarrow> inbox stmt" where
  "inbox_select_address address = query_row (\<lambda>d. filter (\<lambda>r. ib_Email r = address) (t_inboxes d))"

definition inbox_set :: "inbox_patch \<Rightarrow> time \<Rightarrow> inbox \<Rightarrow> inbox" where
  "inbox_set patch now r = r
     \<lparr>ib_DisplayName := supplied (ip_DisplayName patch) (ib_DisplayName r),
      ib_Status := supplied (ip_Status patch) (ib_Status r),
      ib_Settings := supplied (ip_Settings patch) (ib_Settings r),
      ib_UpdatedAt := now\<rparr>"

definition inbox_update :: "uuid \<Rightarrow> uuid \<Rightarrow> inbox_patch \<Rightarrow> inbox stmt" where
  "inbox_update orgID inboxID patch now d =
     (let hit = (\<lambda>r. ib_OrgID r = orgID \<and> ib_ID r = inboxID)
      in case filter hit (t_inboxes d) of
           [] \<Rightarrow> Inl ErrNoRows
         | r # _ \<Rightarrow> require
             [(case ip_Status patch of None \<Rightarrow> True | Some s \<Rightarrow> s \<in> set inbox_statuses, ''23514'')]
             (inbox_set patch now r, d\<lparr>t_inboxes := upd_where hit (inbox_set patch now) (t_inboxes d)\<rparr>))"

text \<open>The rows that go with a set of inboxes: their threads, the messages of either, their drafts,
  the attachments of those messages and drafts, and the labels on those threads.  References that
  are ON DELETE SET NULL are cleared, and the update trigger runs on the rows that hold them.\<close>

definition unlink :: "(uuid \<Rightarrow> bool) \<Rightarrow> uuid option \<Rightarrow> uuid option" where
  "unlink gone ref = (case ref of None \<Rightarrow> None | Some i \<Rightarrow> if gone i then None else Some i)"

definition refers :: "(uuid \<Rightarrow> bool) \<Rightarrow> uuid option \<Rightarrow> bool" where
  "refers gone ref = (case ref of None \<Rightarrow> False | Some i \<Rightarrow> gone i)"

definition inbox_cascade :: "(uuid \<Rightarrow> bool) \<Rightarrow> time \<Rightarrow> database \<Rightarrow> database" where
  "inbox_cascade gone_inbox now d =
     (let gone_thread = (\<lambda>i. \<exists>t \<in> set (t_threads d). tr_id t = i \<and> gone_inbox (tr_inbox_id t));
          gone_message = (\<lambda>i. \<exists>m \<in> set (t_messages d). mr_id m = i \<and>
             (gone_inbox (mr_inbox_id m) \<or> gone_thread (mr_thread_id m)));
          gone_draft = (\<lambda>i. \<exists>r \<in> set (t_drafts d). dr_id r = i \<and> gone_inbox (dr_inbox_id r))
      in d\<lparr>t_threads := del_where (\<lambda>t. gone_thread (tr_id t)) (t_threads d),
           t_messages := del_where (\<lambda>m. gone_message (mr_id m)) (t_messages d),
           t_attachments := del_where (\<lambda>a. refers gone_message (at_MessageID a) \<or> refers gone_draft (at_DraftID a))
             (t_attachments d),
           t_thread_labels := del_where (\<lambda>l. gone_thread (tl_ThreadID l)) (t_thread_labels d),
           t_drafts := upd_where (\<lambda>r. refers gone_thread (dr_thread_id r) \<or> refers gone_message (dr_message_id r))
             (\<lambda>r. r\<lparr>dr_thread_id := unlink gone_thread (dr_thread_id r),
                    dr_message_id := unlink gone_message (dr_message_id r), dr_updated_at := now\<rparr>)
             (del_where (\<lambda>r. gone_draft (dr_id r)) (t_drafts d)),
           t_webhooks := upd_where (\<lambda>h. refers gone_inbox (wh_InboxID h))
             (\<lambda>h. h\<lparr>wh_InboxID := None, wh_UpdatedAt := now\<rparr>) (t_webhooks d)\<rparr>)"

definition inbox_delete :: "uuid \<Rightarrow> uuid \<Rightarrow> nat stmt" where
  "inbox_delete orgID inboxID now d =
     (let hit = (\<lambda>r. ib_OrgID r = orgID \<and> ib_ID r = inboxID);
          gone = filter hit (t_inboxes d)
      in Inr (length gone,
           (inbox_cascade (\<lambda>i. i \<in> set (map ib_ID gone)) now d)\<lparr>t_inboxes := del_where hit (t_inboxes d)\<rparr>))"

section \<open>The store's methods\<close>

definition InboxStore_Create :: "inbox \<Rightarrow> unit io" where
  "InboxStore_Create inbox = wrap_err ''insert inbox'' (tx_exec (inbox_insert inbox))"

definition InboxStore_GetByID :: "uuid \<Rightarrow> uuid \<Rightarrow> inbox io" where
  "InboxStore_GetByID orgID inboxID = wrap_err ''scan inbox'' (tx_exec (inbox_select orgID inboxID))"

definition InboxStore_GetByAddress :: "string \<Rightarrow> inbox io" where
  "InboxStore_GetByAddress address = wrap_err ''scan inbox'' (pool_exec (inbox_select_address address))"

definition inbox_page_where :: "uuid \<Rightarrow> uuid option \<Rightarrow> inbox \<Rightarrow> bool" where
  "inbox_page_where orgID podID r =
     (ib_OrgID r = orgID \<and> (case podID of None \<Rightarrow> True | Some p \<Rightarrow> ib_PodID r = Some p))"

definition inbox_page :: "env \<Rightarrow> uuid \<Rightarrow> uuid option \<Rightarrow> nat \<Rightarrow> (string \<times> string) option \<Rightarrow> inbox list stmt" where
  "inbox_page E orgID podID n parts now d =
     (case cursor_key E parts of
        Inl e \<Rightarrow> Inl e
      | Inr after \<Rightarrow> Inr (keyset_select_desc (\<lambda>r. (ib_CreatedAt r, ib_ID r))
          (inbox_page_where orgID podID) n after (t_inboxes d), d))"

definition InboxStore_List :: "uuid \<Rightarrow> uuid option \<Rightarrow> int \<Rightarrow> string \<Rightarrow> (inbox list \<times> string) io" where
  "InboxStore_List orgID podID limit cursor =
     (let limit = nat (ClampLimit limit)
      in case cursor_parts cursor of
           Inl e \<Rightarrow> throw e
         | Inr parts \<Rightarrow>
             go_bind (asks (\<lambda>E. E)) (\<lambda>E.
             go_bind (wrap_err ''list inboxes'' (tx_exec (inbox_page E orgID podID (Suc limit) parts))) (\<lambda>rows.
             ret (cut_page limit (\<lambda>ib. row_cursor E (ib_CreatedAt ib) (ib_ID ib)) rows))))"

definition InboxStore_Update :: "uuid \<Rightarrow> uuid \<Rightarrow> inbox_patch \<Rightarrow> inbox io" where
  "InboxStore_Update orgID inboxID patch =
     (if patch = empty_inbox_patch then InboxStore_GetByID orgID inboxID
      else go_bind time_Now (\<lambda>_. wrap_err ''scan inbox'' (tx_exec (inbox_update orgID inboxID patch))))"

definition InboxStore_Delete :: "uuid \<Rightarrow> uuid \<Rightarrow> unit io" where
  "InboxStore_Delete orgID inboxID =
     go_bind (wrap_err ''delete inbox'' (tx_exec (inbox_delete orgID inboxID))) (\<lambda>n.
     fail_if (n = 0) ErrNoRows)"

section \<open>The inboxes table as an organisation's table\<close>

lemma inbox_set_keys [simp]:
  "ib_ID (inbox_set p now r) = ib_ID r" "ib_OrgID (inbox_set p now r) = ib_OrgID r"
  "ib_Email (inbox_set p now r) = ib_Email r" "ib_PodID (inbox_set p now r) = ib_PodID r"
  "ib_CreatedAt (inbox_set p now r) = ib_CreatedAt r"
  by (simp_all add: inbox_set_def)

lemma inbox_update_eq_Inr:
  "inbox_update orgID i p now d = Inr (r, d') \<longleftrightarrow>
     (\<exists>r0 rest. filter (\<lambda>r. ib_OrgID r = orgID \<and> ib_ID r = i) (t_inboxes d) = r0 # rest \<and>
        r = inbox_set p now r0 \<and>
        d' = d\<lparr>t_inboxes := upd_where (\<lambda>r. ib_OrgID r = orgID \<and> ib_ID r = i) (inbox_set p now) (t_inboxes d)\<rparr> \<and>
        (\<forall>s. ip_Status p = Some s \<longrightarrow> s \<in> set inbox_statuses))"
  by (auto simp: inbox_update_def Let_def require_eq_Inr split: list.splits option.splits)

interpretation inboxes: org_table t_inboxes ib_OrgID ib_ID inbox_set inbox_select inbox_update inbox_delete
proof (unfold_locales, goal_cases)
  case (1 org i now d)
  then show ?case
    by (simp add: inbox_select_def query_row_def first_row_def split: list.splits)
next
  case (2 org i d p now)
  then show ?case by (simp add: inbox_update_def)
next
  case (3 org i p now d r d')
  then show ?case by (auto simp: inbox_update_eq_Inr)
next
  case (6 org i now d n d')
  then show ?case by (auto simp: inbox_delete_def Let_def del_where_def)
qed simp_all

section \<open>Runs of the store's methods\<close>

lemma inbox_insert_eq_Inr:
  "inbox_insert ib now d = Inr (u, d') \<longleftrightarrow>
     ib_Status ib \<in> set inbox_statuses \<and> \<not> has_key ib_ID (ib_ID ib) (t_inboxes d) \<and>
     \<not> has_key ib_Email (ib_Email ib) (t_inboxes d) \<and> has_key o_ID (ib_OrgID ib) (t_organizations d) \<and>
     (\<forall>p. ib_PodID ib = Some p \<longrightarrow> has_key p_ID p (t_pods d)) \<and>
     d' = d\<lparr>t_inboxes := t_inboxes d @ [ib]\<rparr>"
  by (auto simp: inbox_insert_def require_eq_Inr split: option.splits)

lemma InboxStore_Create_eq_Inr:
  "InboxStore_Create ib E w = (Inr u, w') \<longleftrightarrow>
     \<not> w_failed w \<and> fault E (w_tick w) = None \<and>
     (\<exists>d'. inbox_insert ib (w_now w) (w_db w) = Inr ((), d') \<and> w' = (tick_world w)\<lparr>w_db := d'\<rparr>)"
  by (auto simp: InboxStore_Create_def go_success tx_exec_eq_Inr)

lemma inbox_select_eq_Inr:
  "inbox_select orgID i now d = Inr (r, d') \<Longrightarrow>
   d' = d \<and> r \<in> set (t_inboxes d) \<and> ib_OrgID r = orgID \<and> ib_ID r = i"
  by (rule inboxes.get_success)

lemma InboxStore_GetByID_eq_Inr:
  "InboxStore_GetByID orgID i E w = (Inr x, w') \<longleftrightarrow>
     \<not> w_failed w \<and> fault E (w_tick w) = None \<and> w' = tick_world w \<and>
     inbox_select orgID i (w_now w) (w_db w) = Inr (x, w_db w)"
  by (auto simp: InboxStore_GetByID_def go_success tx_exec_eq_Inr dest: inbox_select_eq_Inr)

lemma InboxStore_GetByID_success:
  assumes "InboxStore_GetByID orgID i E w = (Inr x, w')"
  shows "x \<in> set (t_inboxes (w_db w)) \<and> ib_OrgID x = orgID \<and> ib_ID x = i \<and> w' = tick_world w"
  using assms by (auto simp: InboxStore_GetByID_eq_Inr dest: inbox_select_eq_Inr)

lemma InboxStore_Update_success:
  assumes "InboxStore_Update orgID i p E w = (Inr x, w')" "p \<noteq> empty_inbox_patch"
  obtains d' where "inbox_update orgID i p (w_now w) (w_db w) = Inr (x, d')"
    "w' = (tick_world (tick_world w))\<lparr>w_db := d'\<rparr>"
  using assms by (auto simp: InboxStore_Update_def go_success tx_exec_eq_Inr time_Now_def)

lemma inbox_page_keeps [keeps_intros]: "stmt_keeps Q (inbox_page E orgID podID n parts)"
  by (auto simp: stmt_keeps_def inbox_page_def split: sum.splits)

lemma InboxStore_reads [keeps_intros]:
  "keeps_db Q (InboxStore_GetByID orgID i)" "keeps_db Q (InboxStore_List orgID podID limit cursor)"
  "keeps_db Q (InboxStore_GetByAddress a)"
  unfolding InboxStore_GetByID_def InboxStore_List_def InboxStore_GetByAddress_def inbox_select_def
    inbox_select_address_def Let_def
  by (intro keeps_intros)+

section \<open>Listing\<close>

type_synonym inbox_listing = "env \<times> world \<times> uuid \<times> uuid option \<times> int"

definition inbox_listing_ok :: "inbox_listing \<Rightarrow> bool" where
  "inbox_listing_ok = (\<lambda>(E, w, orgID, podID, limit).
     cursor_codec E \<and> \<not> w_failed w \<and> fault E (w_tick w) = None \<and> distinct (map ib_ID (t_inboxes (w_db w))))"

definition listed_inboxes :: "inbox_listing \<Rightarrow> inbox list" where
  "listed_inboxes = (\<lambda>(E, w, orgID, podID, limit).
     map (\<lambda>r. r) (order_desc (\<lambda>r. (ib_CreatedAt r, ib_ID r)) (filter (inbox_page_where orgID podID) (t_inboxes (w_db w)))))"

definition inbox_listing_run :: "inbox_listing \<Rightarrow> string \<Rightarrow> inbox list \<times> string" where
  "inbox_listing_run = (\<lambda>(E, w, orgID, podID, limit) cursor.
     listed ([], []) (fst (InboxStore_List orgID podID limit cursor E w)))"

lemma InboxStore_List_run:
  assumes "\<not> w_failed w" "fault E (w_tick w) = None" "cursor_parts cursor = Inr parts" "cursor_key E parts = Inr after"
  shows "fst (InboxStore_List orgID podID limit cursor E w) =
    Inr (cut_page (nat (ClampLimit limit)) (\<lambda>d. row_cursor E (ib_CreatedAt d) (ib_ID d))
      (map (\<lambda>r. r) (keyset_select_desc (\<lambda>r. (ib_CreatedAt r, ib_ID r)) (inbox_page_where orgID podID)
        (Suc (nat (ClampLimit limit))) after (t_inboxes (w_db w)))))"
  using assms
  by (simp add: InboxStore_List_def Let_def go_bind_def asks_def wrap_err_def tx_exec_def external_def
      run_stmt_def inbox_page_def ret_def)

interpretation inbox_lists: keyset_list inbox_listing_ok "\<lambda>(E, w, orgID, podID, limit). nat (ClampLimit limit)"
  listed_inboxes "\<lambda>a b. (ib_CreatedAt b, ib_ID b) < (ib_CreatedAt a, ib_ID a)"
  "\<lambda>(E, w, orgID, podID, limit) d. row_cursor E (ib_CreatedAt d) (ib_ID d)" inbox_listing_run
proof (unfold_locales, goal_cases)
  case (1 x)
  then show ?case by (cases x) simp
next
  case (2 x)
  obtain E w orgID podID limit where x: "x = (E, w, orgID, podID, limit)" by (cases x)
  with 2 have "distinct (map (\<lambda>r. (ib_CreatedAt r, ib_ID r)) (filter (inbox_page_where orgID podID) (t_inboxes (w_db w))))"
    by (intro distinct_key_pair) (simp add: inbox_listing_ok_def)
  from sorted_scanned_desc [OF this, of "\<lambda>d. (ib_CreatedAt d, ib_ID d)" "\<lambda>r. r"] show ?case
    unfolding x listed_inboxes_def by (simp del: less_prod_simp)
next
  case (3 r s)
  then show ?case by auto
next
  case (4 x r)
  then show ?case by (cases x) simp
next
  case (5 x)
  then show ?case
    by (cases x) (simp add: inbox_listing_ok_def inbox_listing_run_def listed_inboxes_def
        keyset_desc_first [where sc = "\<lambda>r. r", simplified]
        InboxStore_List_run [where after = None and parts = None] cursor_parts_def cursor_key_def)
next
  case (6 x r)
  then show ?case
    by (cases x) (simp add: inbox_listing_ok_def inbox_listing_run_def listed_inboxes_def
        keyset_desc_next [where sc = "\<lambda>r. r" and kk = "\<lambda>d. (ib_CreatedAt d, ib_ID d)", simplified]
        InboxStore_List_run [OF _ _ cursor_parts_row cursor_key_row])
qed

end
