(* ===== verification/Thread_Store.thy ===== *)
theory Thread_Store
  imports Tables
begin

text \<open>
  \<open>services/inbox/store/thread_store.go\<close>: the threads and thread\_labels tables (migrations 4 and
  7).  A thread without messages has a NULL \<open>last_message_at\<close>, which sorts last.
\<close>

section \<open>Rows and structs\<close>

record thread_list_query =
  tq_InboxID :: uuid
  tq_Status :: "string option"
  tq_LabelID :: "uuid option"
  tq_IsRead :: "bool option"
  tq_IsStarred :: "bool option"
  tq_Cursor :: string
  tq_Limit :: int

record thread_patch =
  tp_Status :: "string option"
  tp_IsRead :: "bool option"
  tp_IsStarred :: "bool option"

definition empty_thread_patch :: thread_patch where
  "empty_thread_patch = \<lparr>tp_Status = None, tp_IsRead = None, tp_IsStarred = None\<rparr>"

definition scanThread :: "thread_row \<Rightarrow> thread" where
  "scanThread r =
     \<lparr>th_ID = tr_id r, th_OrgID = tr_org_id r, th_InboxID = tr_inbox_id r, th_Subject = tr_subject r,
      th_Snippet = tr_snippet r, th_Status = tr_status r, th_IsRead = tr_is_read r,
      th_IsStarred = tr_is_starred r, th_MessageCount = tr_message_count r,
      th_Participants = tr_participants r, th_LastMessageAt = tr_last_message_at r,
      th_Labels = [], th_CreatedAt = tr_created_at r, th_UpdatedAt = tr_updated_at r\<rparr>"

definition scanThreadRows :: "thread_row list \<Rightarrow> thread list" where
  "scanThreadRows rows = map scanThread rows"

definition thread_insert_row :: "thread \<Rightarrow> thread_row" where
  "thread_insert_row t =
     \<lparr>tr_id = th_ID t, tr_org_id = th_OrgID t, tr_inbox_id = th_InboxID t, tr_subject = th_Subject t,
      tr_snippet = th_Snippet t, tr_status = th_Status t, tr_is_read = th_IsRead t,
      tr_is_starred = th_IsStarred t, tr_message_count = th_MessageCount t,
      tr_participants = th_Participants t, tr_last_message_at = th_LastMessageAt t,
      tr_created_at = th_CreatedAt t, tr_updated_at = th_UpdatedAt t\<rparr>"

section \<open>Statements\<close>

definition thread_statuses :: "string list" where
  "thread_statuses = [ThreadStatusOpen, ThreadStatusClosed, ThreadStatusSpam, ThreadStatusTrash]"

definition thread_insert :: "thread_row \<Rightarrow> unit stmt" where
  "thread_insert r now d = require
     [(tr_status r \<in> set thread_statuses, ''23514''),
      (\<not> has_key tr_id (tr_id r) (t_threads d), ''23505''),
      (has_key o_ID (tr_org_id r) (t_organizations d), ''23503''),
      (has_key ib_ID (tr_inbox_id r) (t_inboxes d), ''23503'')]
     ((), d\<lparr>t_threads := t_threads d @ [r]\<rparr>)"

definition thread_select :: "uuid \<Rightarrow> uuid \<Rightarrow> thread_row stmt" where
  "thread_select orgID threadID = query_row (\<lambda>d. filter (\<lambda>r. tr_org_id r = orgID \<and> tr_id r = threadID) (t_threads d))"

text \<open>\<open>SELECT DISTINCT ... LIMIT 1\<close> without an order: any of the rows, chosen by the server.\<close>

definition rotate_to :: "nat \<Rightarrow> 'r list \<Rightarrow> 'r list" where
  "rotate_to n rs = (if rs = [] then [] else [rs ! (n mod length rs)])"

definition thread_select_by_headers :: "nat \<Rightarrow> uuid \<Rightarrow> uuid \<Rightarrow> string list \<Rightarrow> thread_row stmt" where
  "thread_select_by_headers pick orgID inboxID msgIDs = query_row (\<lambda>d. rotate_to pick
     (filter (\<lambda>t. tr_org_id t = orgID \<and> tr_inbox_id t = inboxID \<and>
        (\<exists>m \<in> set (t_messages d). mr_thread_id m = tr_id t \<and> mr_message_id_header m \<in> set msgIDs))
       (t_threads d)))"

definition thread_set :: "thread_patch \<Rightarrow> time \<Rightarrow> thread_row \<Rightarrow> thread_row" where
  "thread_set patch now r = r
     \<lparr>tr_status := supplied (tp_Status patch) (tr_status r),
      tr_is_read := supplied (tp_IsRead patch) (tr_is_read r),
      tr_is_starred := supplied (tp_IsStarred patch) (tr_is_starred r),
      tr_updated_at := now\<rparr>"

definition thread_update :: "uuid \<Rightarrow> uuid \<Rightarrow> thread_patch \<Rightarrow> thread_row stmt" where
  "thread_update orgID threadID patch now d =
     (let hit = (\<lambda>r. tr_org_id r = orgID \<and> tr_id r = threadID)
      in case filter hit (t_threads d) of
           [] \<Rightarrow> Inl ErrNoRows
         | r # _ \<Rightarrow> require
             [(case tp_Status patch of None \<Rightarrow> True | Some s \<Rightarrow> s \<in> set thread_statuses, ''23514'')]
             (thread_set patch now r, d\<lparr>t_threads := upd_where hit (thread_set patch now) (t_threads d)\<rparr>))"

definition thread_incr :: "uuid \<Rightarrow> time \<Rightarrow> string \<Rightarrow> unit stmt" where
  "thread_incr threadID lastMsgAt snippet now d = Inr ((), d\<lparr>t_threads :=
     upd_where (\<lambda>r. tr_id r = threadID)
       (\<lambda>r. r\<lparr>tr_message_count := tr_message_count r + 1, tr_last_message_at := Some lastMsgAt,
              tr_snippet := snippet, tr_updated_at := now\<rparr>) (t_threads d)\<rparr>)"

definition thread_label_insert :: "uuid \<Rightarrow> uuid \<Rightarrow> unit stmt" where
  "thread_label_insert threadID labelID now d =
     (if \<exists>l \<in> set (t_thread_labels d). tl_ThreadID l = threadID \<and> tl_LabelID l = labelID then Inr ((), d)
      else require
        [(has_key tr_id threadID (t_threads d), ''23503''), (has_key lb_ID labelID (t_labels d), ''23503'')]
        ((), d\<lparr>t_thread_labels := t_thread_labels d @
           [\<lparr>tl_ThreadID = threadID, tl_LabelID = labelID, tl_AppliedAt = now\<rparr>]\<rparr>))"

definition thread_label_delete :: "uuid \<Rightarrow> uuid \<Rightarrow> unit stmt" where
  "thread_label_delete threadID labelID now d = Inr ((), d\<lparr>t_thread_labels :=
     del_where (\<lambda>l. tl_ThreadID l = threadID \<and> tl_LabelID l = labelID) (t_thread_labels d)\<rparr>)"

definition thread_labels_of :: "uuid \<Rightarrow> uuid \<Rightarrow> database \<Rightarrow> label list" where
  "thread_labels_of orgID threadID d = order_asc lb_Name
     (filter (\<lambda>l. lb_OrgID l = orgID \<and>
        (\<exists>x \<in> set (t_thread_labels d). tl_LabelID x = lb_ID l \<and> tl_ThreadID x = threadID)) (t_labels d))"

section \<open>The store's methods\<close>

definition ThreadStore_Create :: "thread \<Rightarrow> unit io" where
  "ThreadStore_Create thread = wrap_err ''insert thread'' (tx_exec (thread_insert (thread_insert_row thread)))"

definition ThreadStore_GetByID :: "uuid \<Rightarrow> uuid \<Rightarrow> thread io" where
  "ThreadStore_GetByID orgID threadID =
     go_bind (wrap_err ''scan thread'' (tx_exec (thread_select orgID threadID))) (\<lambda>r. ret (scanThread r))"

definition ThreadStore_FindByMessageIDHeaders :: "uuid \<Rightarrow> uuid \<Rightarrow> string list \<Rightarrow> thread io" where
  "ThreadStore_FindByMessageIDHeaders orgID inboxID msgIDs =
     go_bind (wrap_err ''scan thread'' (\<lambda>E w.
       tx_exec (thread_select_by_headers (any_row E (w_tick w)) orgID inboxID msgIDs) E w)) (\<lambda>r.
     ret (scanThread r))"

definition thread_page_where :: "database \<Rightarrow> uuid \<Rightarrow> thread_list_query \<Rightarrow> thread_row \<Rightarrow> bool" where
  "thread_page_where d orgID q t =
     (tr_org_id t = orgID \<and> tr_inbox_id t = tq_InboxID q \<and>
      (case tq_Status q of None \<Rightarrow> True | Some s \<Rightarrow> tr_status t = s) \<and>
      (case tq_IsRead q of None \<Rightarrow> True | Some b \<Rightarrow> tr_is_read t = b) \<and>
      (case tq_IsStarred q of None \<Rightarrow> True | Some b \<Rightarrow> tr_is_starred t = b) \<and>
      (case tq_LabelID q of None \<Rightarrow> True | Some l \<Rightarrow>
         (\<exists>x \<in> set (t_thread_labels d). tl_ThreadID x = tr_id t \<and> tl_LabelID x = l)))"

text \<open>The row comparison with a NULL \<open>last_message_at\<close> is NULL, so the row is left out.\<close>

definition thread_after :: "(time \<times> uuid) option \<Rightarrow> thread_row \<Rightarrow> bool" where
  "thread_after after t = (case after of None \<Rightarrow> True | Some c \<Rightarrow>
     (case tr_last_message_at t of None \<Rightarrow> False | Some x \<Rightarrow> (x, tr_id t) < c))"

definition thread_page :: "env \<Rightarrow> uuid \<Rightarrow> thread_list_query \<Rightarrow> nat \<Rightarrow> (string \<times> string) option \<Rightarrow> thread_row list stmt" where
  "thread_page E orgID q n parts now d =
     (case cursor_key E parts of
        Inl e \<Rightarrow> Inl e
      | Inr after \<Rightarrow> Inr (take n (order_desc (\<lambda>t. (tr_last_message_at t, tr_id t))
          (filter (\<lambda>t. thread_page_where d orgID q t \<and> thread_after after t) (t_threads d))), d))"

definition thread_cursor :: "env \<Rightarrow> thread \<Rightarrow> string" where
  "thread_cursor E t =
     (let ts = (case th_LastMessageAt t of None \<Rightarrow> [] | Some x \<Rightarrow> fmt_time E x)
      in EncodeCursor [ts, fmt_uuid E (th_ID t)])"

definition ThreadStore_List :: "uuid \<Rightarrow> thread_list_query \<Rightarrow> (thread list \<times> string) io" where
  "ThreadStore_List orgID q =
     (let limit = nat (ClampLimit (tq_Limit q))
      in case cursor_parts (tq_Cursor q) of
           Inl e \<Rightarrow> throw e
         | Inr parts \<Rightarrow>
             go_bind (asks (\<lambda>E. E)) (\<lambda>E.
             go_bind (wrap_err ''list threads'' (tx_exec (thread_page E orgID q (Suc limit) parts))) (\<lambda>rows.
             ret (cut_page limit (thread_cursor E) (scanThreadRows rows)))))"

definition ThreadStore_Update :: "uuid \<Rightarrow> uuid \<Rightarrow> thread_patch \<Rightarrow> thread io" where
  "ThreadStore_Update orgID threadID patch =
     (if patch = empty_thread_patch then ThreadStore_GetByID orgID threadID
      else go_bind time_Now (\<lambda>_.
           go_bind (wrap_err ''scan thread'' (tx_exec (thread_update orgID threadID patch))) (\<lambda>r. ret (scanThread r))))"

definition ThreadStore_IncrMessageCount :: "uuid \<Rightarrow> time \<Rightarrow> string \<Rightarrow> unit io" where
  "ThreadStore_IncrMessageCount threadID lastMsgAt snippet =
     wrap_err ''incr message count'' (tx_exec (thread_incr threadID lastMsgAt snippet))"

definition ThreadStore_ApplyLabel :: "uuid \<Rightarrow> uuid \<Rightarrow> unit io" where
  "ThreadStore_ApplyLabel threadID labelID =
     wrap_err ''apply label'' (tx_exec (thread_label_insert threadID labelID))"

definition ThreadStore_RemoveLabel :: "uuid \<Rightarrow> uuid \<Rightarrow> unit io" where
  "ThreadStore_RemoveLabel threadID labelID =
     wrap_err ''remove label'' (tx_exec (thread_label_delete threadID labelID))"

definition ThreadStore_GetLabels :: "uuid \<Rightarrow> uuid \<Rightarrow> label list io" where
  "ThreadStore_GetLabels orgID threadID =
     wrap_err ''get labels'' (tx_exec (query (thread_labels_of orgID threadID)))"

section \<open>The threads table as an organisation's table\<close>

lemma thread_set_keys [simp]:
  "tr_id (thread_set p now r) = tr_id r" "tr_org_id (thread_set p now r) = tr_org_id r"
  "tr_inbox_id (thread_set p now r) = tr_inbox_id r" "tr_message_count (thread_set p now r) = tr_message_count r"
  "tr_last_message_at (thread_set p now r) = tr_last_message_at r"
  "tr_participants (thread_set p now r) = tr_participants r"
  by (simp_all add: thread_set_def)

lemma scanThread_simps [simp]:
  "th_ID (scanThread r) = tr_id r" "th_OrgID (scanThread r) = tr_org_id r"
  "th_InboxID (scanThread r) = tr_inbox_id r" "th_Status (scanThread r) = tr_status r"
  "th_LastMessageAt (scanThread r) = tr_last_message_at r" "th_IsRead (scanThread r) = tr_is_read r"
  "th_IsStarred (scanThread r) = tr_is_starred r" "th_Labels (scanThread r) = []"
  "th_Participants (scanThread r) = tr_participants r"
  by (simp_all add: scanThread_def)

lemma thread_insert_row_simps [simp]:
  "tr_id (thread_insert_row t) = th_ID t" "tr_org_id (thread_insert_row t) = th_OrgID t"
  "tr_inbox_id (thread_insert_row t) = th_InboxID t" "tr_status (thread_insert_row t) = th_Status t"
  "tr_message_count (thread_insert_row t) = th_MessageCount t"
  "tr_participants (thread_insert_row t) = th_Participants t" "tr_subject (thread_insert_row t) = th_Subject t"
  by (simp_all add: thread_insert_row_def)

lemma thread_update_eq_Inr:
  "thread_update orgID i p now d = Inr (r, d') \<longleftrightarrow>
     (\<exists>r0 rest. filter (\<lambda>r. tr_org_id r = orgID \<and> tr_id r = i) (t_threads d) = r0 # rest \<and>
        r = thread_set p now r0 \<and>
        d' = d\<lparr>t_threads := upd_where (\<lambda>r. tr_org_id r = orgID \<and> tr_id r = i) (thread_set p now) (t_threads d)\<rparr> \<and>
        (\<forall>s. tp_Status p = Some s \<longrightarrow> s \<in> set thread_statuses))"
  by (auto simp: thread_update_def Let_def require_eq_Inr split: list.splits option.splits)

interpretation threads: org_rows t_threads tr_org_id tr_id thread_set thread_select thread_update
proof (unfold_locales, goal_cases)
  case (1 org i now d)
  then show ?case
    by (simp add: thread_select_def query_row_def first_row_def split: list.splits)
next
  case (2 org i d p now)
  then show ?case by (simp add: thread_update_def)
next
  case (3 org i p now d r d')
  then show ?case by (auto simp: thread_update_eq_Inr)
qed simp_all

section \<open>Runs of the store's methods\<close>

lemma thread_insert_eq_Inr:
  "thread_insert r now d = Inr (u, d') \<longleftrightarrow>
     tr_status r \<in> set thread_statuses \<and> \<not> has_key tr_id (tr_id r) (t_threads d) \<and>
     has_key o_ID (tr_org_id r) (t_organizations d) \<and> has_key ib_ID (tr_inbox_id r) (t_inboxes d) \<and>
     d' = d\<lparr>t_threads := t_threads d @ [r]\<rparr>"
  by (auto simp: thread_insert_def require_eq_Inr)

lemma ThreadStore_Create_eq_Inr:
  "ThreadStore_Create t E w = (Inr u, w') \<longleftrightarrow>
     \<not> w_failed w \<and> fault E (w_tick w) = None \<and>
     (\<exists>d'. thread_insert (thread_insert_row t) (w_now w) (w_db w) = Inr ((), d') \<and> w' = (tick_world w)\<lparr>w_db := d'\<rparr>)"
  by (auto simp: ThreadStore_Create_def go_success tx_exec_eq_Inr)

lemma thread_select_eq_Inr:
  "thread_select orgID i now d = Inr (r, d') \<Longrightarrow>
   d' = d \<and> r \<in> set (t_threads d) \<and> tr_org_id r = orgID \<and> tr_id r = i"
  by (rule threads.get_success)

lemma ThreadStore_GetByID_eq_Inr:
  "ThreadStore_GetByID orgID i E w = (Inr x, w') \<longleftrightarrow>
     \<not> w_failed w \<and> fault E (w_tick w) = None \<and> w' = tick_world w \<and>
     (\<exists>r. thread_select orgID i (w_now w) (w_db w) = Inr (r, w_db w) \<and> x = scanThread r)"
  by (auto simp: ThreadStore_GetByID_def go_success tx_exec_eq_Inr dest: thread_select_eq_Inr)

lemma ThreadStore_GetByID_success:
  assumes "ThreadStore_GetByID orgID i E w = (Inr x, w')"
  obtains r where "r \<in> set (t_threads (w_db w))" "tr_org_id r = orgID" "tr_id r = i" "x = scanThread r"
    "w' = tick_world w"
  using assms by (auto simp: ThreadStore_GetByID_eq_Inr dest: thread_select_eq_Inr)

lemma ThreadStore_Update_success:
  assumes "ThreadStore_Update orgID i p E w = (Inr x, w')" "p \<noteq> empty_thread_patch"
  obtains r d' where "thread_update orgID i p (w_now w) (w_db w) = Inr (r, d')" "x = scanThread r"
    "w' = (tick_world (tick_world w))\<lparr>w_db := d'\<rparr>"
  using assms by (auto simp: ThreadStore_Update_def go_success tx_exec_eq_Inr time_Now_def)

definition counted :: "uuid \<Rightarrow> time \<Rightarrow> string \<Rightarrow> time \<Rightarrow> thread_row list \<Rightarrow> thread_row list" where
  "counted i t s now rs = upd_where (\<lambda>r. tr_id r = i)
     (\<lambda>r. r\<lparr>tr_message_count := tr_message_count r + 1, tr_last_message_at := Some t,
            tr_snippet := s, tr_updated_at := now\<rparr>) rs"

lemma ThreadStore_IncrMessageCount_eq_Inr:
  "ThreadStore_IncrMessageCount i t s E w = (Inr u, w') \<longleftrightarrow>
     \<not> w_failed w \<and> fault E (w_tick w) = None \<and>
     w' = (tick_world w)\<lparr>w_db := (w_db w)\<lparr>t_threads := counted i t s (w_now w) (t_threads (w_db w))\<rparr>\<rparr>"
  by (auto simp: ThreadStore_IncrMessageCount_def go_success tx_exec_eq_Inr thread_incr_def counted_def)

lemma thread_label_insert_eq_Inr:
  "thread_label_insert t l now d = Inr (u, d') \<Longrightarrow>
     (\<exists>x \<in> set (t_thread_labels d'). tl_ThreadID x = t \<and> tl_LabelID x = l) \<and>
     t_threads d' = t_threads d \<and> t_labels d' = t_labels d"
  by (auto simp: thread_label_insert_def require_eq_Inr split: if_splits)

lemma thread_reads [keeps_intros]:
  "stmt_keeps Q (thread_page E orgID q n parts)"
  "keeps_db Q (ThreadStore_GetByID orgID i)" "keeps_db Q (ThreadStore_GetLabels orgID i)"
  unfolding ThreadStore_GetByID_def ThreadStore_GetLabels_def thread_select_def
  by (auto simp: stmt_keeps_def thread_page_def split: sum.splits intro!: keeps_intros)

lemma ThreadStore_List_reads [keeps_intros]: "keeps_db Q (ThreadStore_List orgID q)"
  unfolding ThreadStore_List_def Let_def by (intro keeps_intros)

section \<open>Listing\<close>

type_synonym thread_listing = "env \<times> world \<times> uuid \<times> thread_list_query"

text \<open>The listing visits every thread provided that none of them is without messages.\<close>

definition thread_listing_ok :: "thread_listing \<Rightarrow> bool" where
  "thread_listing_ok = (\<lambda>(E, w, orgID, q).
     cursor_codec E \<and> \<not> w_failed w \<and> fault E (w_tick w) = None \<and> distinct (map tr_id (t_threads (w_db w))) \<and>
     (\<forall>t \<in> set (t_threads (w_db w)). thread_page_where (w_db w) orgID q t \<longrightarrow> tr_last_message_at t \<noteq> None))"

definition listed_threads :: "thread_listing \<Rightarrow> thread list" where
  "listed_threads = (\<lambda>(E, w, orgID, q).
     map scanThread (order_desc (\<lambda>t. (tr_last_message_at t, tr_id t))
       (filter (thread_page_where (w_db w) orgID q) (t_threads (w_db w)))))"

definition thread_listing_run :: "thread_listing \<Rightarrow> string \<Rightarrow> thread list \<times> string" where
  "thread_listing_run = (\<lambda>(E, w, orgID, q) cursor.
     listed ([], []) (fst (ThreadStore_List orgID (q\<lparr>tq_Cursor := cursor\<rparr>) E w)))"

lemma thread_page_where_cursor [simp]:
  "thread_page_where d orgID (q\<lparr>tq_Cursor := c\<rparr>) = thread_page_where d orgID q"
  by (rule ext) (simp add: thread_page_where_def)

lemma ThreadStore_List_run:
  assumes "\<not> w_failed w" "fault E (w_tick w) = None" "cursor_parts cursor = Inr parts" "cursor_key E parts = Inr after"
  shows "fst (ThreadStore_List orgID (q\<lparr>tq_Cursor := cursor\<rparr>) E w) =
    Inr (cut_page (nat (ClampLimit (tq_Limit q))) (thread_cursor E)
      (map scanThread (take (Suc (nat (ClampLimit (tq_Limit q)))) (order_desc (\<lambda>t. (tr_last_message_at t, tr_id t))
          (filter (\<lambda>t. thread_page_where (w_db w) orgID q t \<and> thread_after after t) (t_threads (w_db w)))))))"
  using assms
  by (simp add: ThreadStore_List_def Let_def go_bind_def asks_def wrap_err_def tx_exec_def external_def
      run_stmt_def thread_page_def ret_def scanThreadRows_def)

lemma listed_threads_after:
  assumes "\<forall>t \<in> set rs. p t \<longrightarrow> tr_last_message_at t \<noteq> None"
  shows "map scanThread (take n (order_desc (\<lambda>t. (tr_last_message_at t, tr_id t))
          (filter (\<lambda>t. p t \<and> thread_after (Some (x, i)) t) rs))) =
    take n (filter (\<lambda>m. (th_LastMessageAt m, th_ID m) < (Some x, i))
      (map scanThread (order_desc (\<lambda>t. (tr_last_message_at t, tr_id t)) (filter p rs))))"
proof -
  have "filter (\<lambda>t. p t \<and> thread_after (Some (x, i)) t) rs =
      filter (\<lambda>t. (tr_last_message_at t, tr_id t) < (Some x, i) \<and> p t) rs"
    using assms by (intro filter_cong) (auto simp: thread_after_def)
  then show ?thesis
    by (simp add: take_map filter_map comp_def filter_order_desc conj_commute)
qed

interpretation thread_lists: keyset_list thread_listing_ok "\<lambda>(E, w, orgID, q). nat (ClampLimit (tq_Limit q))"
  listed_threads "\<lambda>a b. (th_LastMessageAt b, th_ID b) < (th_LastMessageAt a, th_ID a)"
  "\<lambda>(E, w, orgID, q). thread_cursor E" thread_listing_run
proof (unfold_locales, goal_cases)
  case (1 x)
  then show ?case by (cases x) simp
next
  case (2 x)
  then show ?case
    by (cases x) (auto simp: thread_listing_ok_def listed_threads_def simp del: less_prod_simp
        intro!: sorted_scanned_desc [where kk = "\<lambda>d. (th_LastMessageAt d, th_ID d)"]
        distinct_key_pair)
next
  case (3 r s)
  then show ?case by auto
next
  case (4 x r)
  then show ?case by (cases x) (simp add: thread_cursor_def EncodeCursor_def Let_def)
next
  case (5 x)
  then show ?case
    by (cases x) (auto simp: thread_listing_ok_def thread_listing_run_def listed_threads_def take_map
        ThreadStore_List_run cursor_parts_def cursor_key_def thread_after_def)
next
  case (6 x r)
  obtain E w orgID q where x: "x = (E, w, orgID, q)" by (cases x)
  from 6 obtain t where t: "th_LastMessageAt r = Some t"
    by (auto simp: x thread_listing_ok_def listed_threads_def)
  then have c: "thread_cursor E r = row_cursor E t (th_ID r)"
    by (simp add: thread_cursor_def row_cursor_def)
  from 6 show ?case
    by (simp add: x c t thread_listing_ok_def thread_listing_run_def listed_threads_def listed_threads_after
        ThreadStore_List_run [OF _ _ cursor_parts_row cursor_key_row] del: less_prod_simp)
qed

end
