(* ===== verification/Message_Store.thy ===== *)
theory Message_Store
  imports Tables
begin

text \<open>
  \<open>services/inbox/store/message_store.go\<close>: the messages and attachments tables (migrations 5, 6,
  19, 21 and 22).  A new message is unread and not starred by the columns' defaults, whatever the
  struct says; the snippet has no column.
\<close>

section \<open>Rows and structs\<close>

record message_patch =
  mp_IsRead :: "bool option"
  mp_IsStarred :: "bool option"
  mp_Metadata :: "json_map option"

definition empty_message_patch :: message_patch where
  "empty_message_patch = \<lparr>mp_IsRead = None, mp_IsStarred = None, mp_Metadata = None\<rparr>"

definition scanMessage :: "message_row \<Rightarrow> message" where
  "scanMessage r =
     \<lparr>m_ID = mr_id r, m_OrgID = mr_org_id r, m_InboxID = mr_inbox_id r, m_ThreadID = mr_thread_id r,
      m_MessageID = mr_message_id_header r, m_InReplyTo = mr_in_reply_to r,
      m_References = mr_references_header r, m_Direction = mr_direction r, m_Status = mr_status r,
      m_Subject = mr_subject r, m_From = \<lparr>ea_Email = mr_from_address r, ea_Name = mr_from_name r\<rparr>,
      m_To = mr_to_addresses r, m_Cc = mr_cc_addresses r, m_Bcc = mr_bcc_addresses r,
      m_ReplyTo = mr_reply_to r, m_RawS3Key = mr_raw_key r, m_HtmlS3Key = mr_body_html_key r,
      m_TextS3Key = mr_body_text_key r, m_SizeBytes = mr_size_bytes r, m_Headers = mr_headers r,
      m_Metadata = mr_metadata r, m_IsRead = mr_is_read r, m_IsStarred = mr_is_starred r,
      m_HasAttachments = mr_has_attachments r, m_Snippet = [], m_SentAt = mr_sent_at r,
      m_ReceivedAt = mr_received_at r, m_Attachments = [],
      m_CreatedAt = mr_created_at r, m_UpdatedAt = mr_updated_at r\<rparr>"

definition scanMessageRows :: "message_row list \<Rightarrow> message list" where
  "scanMessageRows rows = map scanMessage rows"

definition message_insert_row :: "message \<Rightarrow> message_row" where
  "message_insert_row msg =
     \<lparr>mr_id = m_ID msg, mr_org_id = m_OrgID msg, mr_inbox_id = m_InboxID msg, mr_thread_id = m_ThreadID msg,
      mr_message_id_header = m_MessageID msg, mr_in_reply_to = m_InReplyTo msg,
      mr_references_header = m_References msg, mr_direction = m_Direction msg, mr_status = m_Status msg,
      mr_from_address = ea_Email (m_From msg), mr_from_name = ea_Name (m_From msg),
      mr_to_addresses = m_To msg, mr_cc_addresses = m_Cc msg, mr_bcc_addresses = m_Bcc msg,
      mr_reply_to = m_ReplyTo msg, mr_subject = m_Subject msg,
      mr_body_text_key = m_TextS3Key msg, mr_body_html_key = m_HtmlS3Key msg, mr_raw_key = m_RawS3Key msg,
      mr_size_bytes = m_SizeBytes msg, mr_is_read = False, mr_is_starred = False,
      mr_has_attachments = m_HasAttachments msg, mr_headers = m_Headers msg, mr_metadata = m_Metadata msg,
      mr_sent_at = m_SentAt msg, mr_received_at = m_ReceivedAt msg,
      mr_created_at = m_CreatedAt msg, mr_updated_at = m_UpdatedAt msg,
      mr_embedding = None, mr_embedded_at = None\<rparr>"

section \<open>Statements\<close>

definition message_directions :: "string list" where
  "message_directions = [DirectionInbound, DirectionOutbound]"

definition message_statuses :: "string list" where
  "message_statuses = [MessageStatusReceived, MessageStatusSending, MessageStatusSent, MessageStatusFailed,
     MessageStatusBounced, ''draft'']"

definition message_insert :: "message_row \<Rightarrow> unit stmt" where
  "message_insert r now d = require
     [(mr_direction r \<in> set message_directions, ''23514''),
      (mr_status r \<in> set message_statuses, ''23514''),
      (\<not> has_key mr_id (mr_id r) (t_messages d), ''23505''),
      (has_key o_ID (mr_org_id r) (t_organizations d), ''23503''),
      (has_key ib_ID (mr_inbox_id r) (t_inboxes d), ''23503''),
      (has_key tr_id (mr_thread_id r) (t_threads d), ''23503'')]
     ((), d\<lparr>t_messages := t_messages d @ [r]\<rparr>)"

definition message_select :: "uuid \<Rightarrow> uuid \<Rightarrow> message_row stmt" where
  "message_select orgID messageID =
     query_row (\<lambda>d. filter (\<lambda>r. mr_org_id r = orgID \<and> mr_id r = messageID) (t_messages d))"

definition message_set_status :: "uuid \<Rightarrow> uuid \<Rightarrow> string \<Rightarrow> unit stmt" where
  "message_set_status orgID messageID status now d =
     (let hit = (\<lambda>r. mr_org_id r = orgID \<and> mr_id r = messageID)
      in require [(filter hit (t_messages d) = [] \<or> status \<in> set message_statuses, ''23514'')]
           ((), d\<lparr>t_messages := upd_where hit (\<lambda>r. r\<lparr>mr_status := status, mr_updated_at := now\<rparr>) (t_messages d)\<rparr>))"

definition message_set :: "message_patch \<Rightarrow> time \<Rightarrow> message_row \<Rightarrow> message_row" where
  "message_set patch now r = r
     \<lparr>mr_is_read := supplied (mp_IsRead patch) (mr_is_read r),
      mr_is_starred := supplied (mp_IsStarred patch) (mr_is_starred r),
      mr_metadata := supplied (mp_Metadata patch) (mr_metadata r),
      mr_updated_at := now\<rparr>"

definition message_update :: "uuid \<Rightarrow> uuid \<Rightarrow> message_patch \<Rightarrow> message_row stmt" where
  "message_update orgID messageID patch now d =
     (let hit = (\<lambda>r. mr_org_id r = orgID \<and> mr_id r = messageID)
      in case filter hit (t_messages d) of
           [] \<Rightarrow> Inl ErrNoRows
         | r # _ \<Rightarrow> Inr (message_set patch now r, d\<lparr>t_messages := upd_where hit (message_set patch now) (t_messages d)\<rparr>))"

definition attachment_insert :: "attachment \<Rightarrow> unit stmt" where
  "attachment_insert a now d = require
     [(at_MessageID a \<noteq> None \<or> at_DraftID a \<noteq> None, ''23514''),
      (\<not> has_key at_ID (at_ID a) (t_attachments d), ''23505''),
      (has_key o_ID (at_OrgID a) (t_organizations d), ''23503''),
      (case at_MessageID a of None \<Rightarrow> True | Some m \<Rightarrow> has_key mr_id m (t_messages d), ''23503''),
      (case at_DraftID a of None \<Rightarrow> True | Some r \<Rightarrow> has_key dr_id r (t_drafts d), ''23503'')]
     ((), d\<lparr>t_attachments := t_attachments d @ [a]\<rparr>)"

definition draft_attachments :: "uuid \<Rightarrow> uuid \<Rightarrow> database \<Rightarrow> attachment list" where
  "draft_attachments orgID draftID d = order_asc at_CreatedAt
     (filter (\<lambda>a. at_OrgID a = orgID \<and> at_DraftID a = Some draftID) (t_attachments d))"

definition message_attachments :: "uuid \<Rightarrow> uuid \<Rightarrow> database \<Rightarrow> attachment list" where
  "message_attachments orgID messageID d = order_asc at_CreatedAt
     (filter (\<lambda>a. at_OrgID a = orgID \<and> at_MessageID a = Some messageID) (t_attachments d))"

definition attachments_link :: "uuid \<Rightarrow> uuid \<Rightarrow> attachment list \<Rightarrow> attachment list" where
  "attachments_link draftID msgID as = upd_where (\<lambda>a. at_DraftID a = Some draftID)
     (\<lambda>a. a\<lparr>at_MessageID := Some msgID, at_DraftID := None\<rparr>) as"

definition link_draft_attachments :: "uuid \<Rightarrow> uuid \<Rightarrow> unit stmt" where
  "link_draft_attachments draftID msgID now d = require
     [((\<forall>a \<in> set (t_attachments d). at_DraftID a \<noteq> Some draftID) \<or> has_key mr_id msgID (t_messages d), ''23503'')]
     ((), d\<lparr>t_attachments := attachments_link draftID msgID (t_attachments d)\<rparr>)"

definition delete_draft_attachments :: "uuid \<Rightarrow> uuid \<Rightarrow> unit stmt" where
  "delete_draft_attachments orgID draftID now d = Inr ((), d\<lparr>t_attachments :=
     del_where (\<lambda>a. at_OrgID a = orgID \<and> at_DraftID a = Some draftID) (t_attachments d)\<rparr>)"

section \<open>The store's methods\<close>

definition MessageStore_Create :: "message \<Rightarrow> unit io" where
  "MessageStore_Create msg = wrap_err ''insert message'' (tx_exec (message_insert (message_insert_row msg)))"

definition MessageStore_GetByID :: "uuid \<Rightarrow> uuid \<Rightarrow> message io" where
  "MessageStore_GetByID orgID messageID =
     go_bind (wrap_err ''scan message'' (tx_exec (message_select orgID messageID))) (\<lambda>r. ret (scanMessage r))"

definition message_page_where :: "uuid \<Rightarrow> uuid \<Rightarrow> message_row \<Rightarrow> bool" where
  "message_page_where orgID threadID r = (mr_org_id r = orgID \<and> mr_thread_id r = threadID)"

definition message_page :: "env \<Rightarrow> uuid \<Rightarrow> uuid \<Rightarrow> nat \<Rightarrow> (string \<times> string) option \<Rightarrow> message_row list stmt" where
  "message_page E orgID threadID n parts now d =
     (case cursor_key E parts of
        Inl e \<Rightarrow> Inl e
      | Inr after \<Rightarrow> Inr (keyset_select_asc (\<lambda>r. (mr_created_at r, mr_id r))
          (message_page_where orgID threadID) n after (t_messages d), d))"

definition MessageStore_List :: "uuid \<Rightarrow> uuid \<Rightarrow> int \<Rightarrow> string \<Rightarrow> (message list \<times> string) io" where
  "MessageStore_List orgID threadID limit cursor =
     (let limit = nat (ClampLimit limit)
      in case cursor_parts cursor of
           Inl e \<Rightarrow> throw e
         | Inr parts \<Rightarrow>
             go_bind (asks (\<lambda>E. E)) (\<lambda>E.
             go_bind (wrap_err ''list messages'' (tx_exec (message_page E orgID threadID (Suc limit) parts))) (\<lambda>rows.
             ret (cut_page limit (\<lambda>m. row_cursor E (m_CreatedAt m) (m_ID m)) (scanMessageRows rows)))))"

definition MessageStore_UpdateStatus :: "uuid \<Rightarrow> uuid \<Rightarrow> string \<Rightarrow> unit io" where
  "MessageStore_UpdateStatus orgID messageID status =
     wrap_err ''update message status'' (tx_exec (message_set_status orgID messageID status))"

definition MessageStore_UpdateMessage :: "uuid \<Rightarrow> uuid \<Rightarrow> message_patch \<Rightarrow> message io" where
  "MessageStore_UpdateMessage orgID messageID patch =
     (if patch = empty_message_patch then MessageStore_GetByID orgID messageID
      else go_bind (wrap_err ''scan message'' (tx_exec (message_update orgID messageID patch))) (\<lambda>r.
           ret (scanMessage r)))"

definition MessageStore_CreateAttachment :: "attachment \<Rightarrow> unit io" where
  "MessageStore_CreateAttachment att = wrap_err ''insert attachment'' (tx_exec (attachment_insert att))"

definition MessageStore_GetAttachmentByID :: "uuid \<Rightarrow> uuid \<Rightarrow> uuid \<Rightarrow> attachment io" where
  "MessageStore_GetAttachmentByID orgID messageID attachmentID =
     wrap_err ''get attachment'' (tx_exec (query_row (\<lambda>d.
       filter (\<lambda>a. at_OrgID a = orgID \<and> at_MessageID a = Some messageID \<and> at_ID a = attachmentID) (t_attachments d))))"

definition MessageStore_ListAttachments :: "uuid \<Rightarrow> uuid \<Rightarrow> attachment list io" where
  "MessageStore_ListAttachments orgID messageID =
     wrap_err ''list attachments'' (tx_exec (query (message_attachments orgID messageID)))"

definition MessageStore_CreateDraftAttachment :: "attachment \<Rightarrow> unit io" where
  "MessageStore_CreateDraftAttachment att =
     wrap_err ''insert draft attachment'' (tx_exec (attachment_insert (att\<lparr>at_MessageID := None\<rparr>)))"

definition MessageStore_ListDraftAttachments :: "uuid \<Rightarrow> uuid \<Rightarrow> attachment list io" where
  "MessageStore_ListDraftAttachments orgID draftID =
     wrap_err ''list draft attachments'' (tx_exec (query (draft_attachments orgID draftID)))"

definition MessageStore_LinkDraftAttachments :: "uuid \<Rightarrow> uuid \<Rightarrow> unit io" where
  "MessageStore_LinkDraftAttachments draftID msgID =
     wrap_err ''link draft attachments'' (tx_exec (link_draft_attachments draftID msgID))"

definition MessageStore_DeleteDraftAttachments :: "uuid \<Rightarrow> uuid \<Rightarrow> unit io" where
  "MessageStore_DeleteDraftAttachments orgID draftID =
     wrap_err ''delete draft attachments'' (tx_exec (delete_draft_attachments orgID draftID))"

section \<open>The messages table as an organisation's table\<close>

lemma message_set_keys [simp]:
  "mr_id (message_set p now r) = mr_id r" "mr_org_id (message_set p now r) = mr_org_id r"
  "mr_thread_id (message_set p now r) = mr_thread_id r" "mr_status (message_set p now r) = mr_status r"
  by (simp_all add: message_set_def)

lemma scanMessage_simps [simp]:
  "m_ID (scanMessage r) = mr_id r" "m_OrgID (scanMessage r) = mr_org_id r" "m_CreatedAt (scanMessage r) = mr_created_at r"
  "m_ThreadID (scanMessage r) = mr_thread_id r" "m_MessageID (scanMessage r) = mr_message_id_header r"
  "m_References (scanMessage r) = mr_references_header r" "m_Subject (scanMessage r) = mr_subject r"
  "m_To (scanMessage r) = mr_to_addresses r" "m_Cc (scanMessage r) = mr_cc_addresses r"
  "m_Status (scanMessage r) = mr_status r" "m_InboxID (scanMessage r) = mr_inbox_id r"
  "m_IsRead (scanMessage r) = mr_is_read r" "m_IsStarred (scanMessage r) = mr_is_starred r"
  "m_Metadata (scanMessage r) = mr_metadata r" "m_RawS3Key (scanMessage r) = mr_raw_key r"
  by (simp_all add: scanMessage_def)

lemma message_update_eq_Inr:
  "message_update orgID i p now d = Inr (r, d') \<longleftrightarrow>
     (\<exists>r0 rest. filter (\<lambda>r. mr_org_id r = orgID \<and> mr_id r = i) (t_messages d) = r0 # rest \<and>
        r = message_set p now r0 \<and>
        d' = d\<lparr>t_messages := upd_where (\<lambda>r. mr_org_id r = orgID \<and> mr_id r = i) (message_set p now) (t_messages d)\<rparr>)"
  by (auto simp: message_update_def Let_def split: list.splits)

interpretation messages: org_rows t_messages mr_org_id mr_id message_set message_select message_update
proof (unfold_locales, goal_cases)
  case (1 org i now d)
  then show ?case
    by (simp add: message_select_def query_row_def first_row_def split: list.splits)
next
  case (2 org i d p now)
  then show ?case by (simp add: message_update_def)
next
  case (3 org i p now d r d')
  then show ?case by (auto simp: message_update_eq_Inr)
qed simp_all

section \<open>Runs of the store's methods\<close>

lemma message_insert_eq_Inr:
  "message_insert r now d = Inr (u, d') \<longleftrightarrow>
     mr_direction r \<in> set message_directions \<and> mr_status r \<in> set message_statuses \<and>
     \<not> has_key mr_id (mr_id r) (t_messages d) \<and> has_key o_ID (mr_org_id r) (t_organizations d) \<and>
     has_key ib_ID (mr_inbox_id r) (t_inboxes d) \<and> has_key tr_id (mr_thread_id r) (t_threads d) \<and>
     d' = d\<lparr>t_messages := t_messages d @ [r]\<rparr>"
  by (auto simp: message_insert_def require_eq_Inr)

lemma MessageStore_Create_eq_Inr:
  "MessageStore_Create m E w = (Inr u, w') \<longleftrightarrow>
     \<not> w_failed w \<and> fault E (w_tick w) = None \<and>
     (\<exists>d'. message_insert (message_insert_row m) (w_now w) (w_db w) = Inr ((), d') \<and> w' = (tick_world w)\<lparr>w_db := d'\<rparr>)"
  by (auto simp: MessageStore_Create_def go_success tx_exec_eq_Inr)

lemma message_select_eq_Inr:
  "message_select orgID i now d = Inr (r, d') \<Longrightarrow>
   d' = d \<and> r \<in> set (t_messages d) \<and> mr_org_id r = orgID \<and> mr_id r = i"
  by (rule messages.get_success)

lemma MessageStore_GetByID_eq_Inr:
  "MessageStore_GetByID orgID i E w = (Inr x, w') \<longleftrightarrow>
     \<not> w_failed w \<and> fault E (w_tick w) = None \<and> w' = tick_world w \<and>
     (\<exists>r. message_select orgID i (w_now w) (w_db w) = Inr (r, w_db w) \<and> x = scanMessage r)"
  by (auto simp: MessageStore_GetByID_def go_success tx_exec_eq_Inr dest: message_select_eq_Inr)

lemma MessageStore_GetByID_success:
  assumes "MessageStore_GetByID orgID i E w = (Inr x, w')"
  obtains r where "r \<in> set (t_messages (w_db w))" "mr_org_id r = orgID" "mr_id r = i" "x = scanMessage r"
    "w' = tick_world w"
  using assms by (auto simp: MessageStore_GetByID_eq_Inr dest: message_select_eq_Inr)

lemma attachment_insert_eq_Inr:
  "attachment_insert a now d = Inr (u, d') \<Longrightarrow>
     d' = d\<lparr>t_attachments := t_attachments d @ [a]\<rparr>"
  by (auto simp: attachment_insert_def require_eq_Inr)

lemma MessageStore_ListDraftAttachments_eq_Inr:
  "MessageStore_ListDraftAttachments orgID i E w = (Inr x, w') \<longleftrightarrow>
     \<not> w_failed w \<and> fault E (w_tick w) = None \<and> w' = tick_world w \<and> x = draft_attachments orgID i (w_db w)"
  by (auto simp: MessageStore_ListDraftAttachments_def go_success tx_exec_eq_Inr query_def)

lemma MessageStore_LinkDraftAttachments_success:
  assumes "MessageStore_LinkDraftAttachments i m E w = (Inr u, w')"
  shows "w' = (tick_world w)\<lparr>w_db := (w_db w)\<lparr>t_attachments := attachments_link i m (t_attachments (w_db w))\<rparr>\<rparr>"
  using assms by (auto simp: MessageStore_LinkDraftAttachments_def go_success tx_exec_eq_Inr
      link_draft_attachments_def require_eq_Inr)

lemma MessageStore_CreateAttachment_success:
  assumes "MessageStore_CreateAttachment a E w = (Inr u, w')"
  shows "w' = (tick_world w)\<lparr>w_db := (w_db w)\<lparr>t_attachments := t_attachments (w_db w) @ [a]\<rparr>\<rparr>"
  using assms by (auto simp: MessageStore_CreateAttachment_def go_success tx_exec_eq_Inr
      dest!: attachment_insert_eq_Inr)

lemma message_reads [keeps_intros]:
  "stmt_keeps Q (message_page E orgID threadID n parts)"
  "keeps_db Q (MessageStore_GetByID orgID i)" "keeps_db Q (MessageStore_ListAttachments orgID i)"
  "keeps_db Q (MessageStore_ListDraftAttachments orgID i)" "keeps_db Q (MessageStore_GetAttachmentByID orgID i j)"
  unfolding MessageStore_GetByID_def MessageStore_ListAttachments_def MessageStore_ListDraftAttachments_def
    MessageStore_GetAttachmentByID_def message_select_def
  by (auto simp: stmt_keeps_def message_page_def split: sum.splits intro!: keeps_intros)

lemma MessageStore_List_reads [keeps_intros]: "keeps_db Q (MessageStore_List orgID threadID limit cursor)"
  unfolding MessageStore_List_def Let_def by (intro keeps_intros)

lemma attachment_insert_keeps [keeps_intros]:
  assumes "\<And>d. Q d \<Longrightarrow> Q (d\<lparr>t_attachments := t_attachments d @ [a]\<rparr>)"
  shows "stmt_keeps Q (attachment_insert a)"
  using assms by (auto simp: stmt_keeps_def dest!: attachment_insert_eq_Inr)

text \<open>Linking moves the draft's attachments, all of them, to the message.\<close>

lemma attachments_link_empties: "filter (\<lambda>a. at_DraftID a = Some i) (attachments_link i m as) = []"
  by (auto simp: attachments_link_def upd_where_def filter_empty_conv)

lemma attachments_link_moves:
  "(\<And>a. a \<in> set as \<Longrightarrow> at_MessageID a \<noteq> Some m) \<Longrightarrow>
   filter (\<lambda>a. at_MessageID a = Some m) (attachments_link i m as) =
   map (\<lambda>a. a\<lparr>at_MessageID := Some m, at_DraftID := None\<rparr>) (filter (\<lambda>a. at_DraftID a = Some i) as)"
  by (induction as) (auto simp: attachments_link_def upd_where_def)

section \<open>Listing\<close>

type_synonym message_listing = "env \<times> world \<times> uuid \<times> uuid \<times> int"

definition message_listing_ok :: "message_listing \<Rightarrow> bool" where
  "message_listing_ok = (\<lambda>(E, w, orgID, threadID, limit).
     cursor_codec E \<and> \<not> w_failed w \<and> fault E (w_tick w) = None \<and> distinct (map mr_id (t_messages (w_db w))))"

definition listed_messages :: "message_listing \<Rightarrow> message list" where
  "listed_messages = (\<lambda>(E, w, orgID, threadID, limit).
     map scanMessage (order_asc (\<lambda>r. (mr_created_at r, mr_id r))
       (filter (message_page_where orgID threadID) (t_messages (w_db w)))))"

definition message_listing_run :: "message_listing \<Rightarrow> string \<Rightarrow> message list \<times> string" where
  "message_listing_run = (\<lambda>(E, w, orgID, threadID, limit) cursor.
     listed ([], []) (fst (MessageStore_List orgID threadID limit cursor E w)))"

lemma MessageStore_List_run:
  assumes "\<not> w_failed w" "fault E (w_tick w) = None" "cursor_parts cursor = Inr parts" "cursor_key E parts = Inr after"
  shows "fst (MessageStore_List orgID threadID limit cursor E w) =
    Inr (cut_page (nat (ClampLimit limit)) (\<lambda>d. row_cursor E (m_CreatedAt d) (m_ID d))
      (map scanMessage (keyset_select_asc (\<lambda>r. (mr_created_at r, mr_id r)) (message_page_where orgID threadID)
        (Suc (nat (ClampLimit limit))) after (t_messages (w_db w)))))"
  using assms
  by (simp add: MessageStore_List_def Let_def go_bind_def asks_def wrap_err_def tx_exec_def external_def
      run_stmt_def message_page_def ret_def scanMessageRows_def)

interpretation message_lists: keyset_list message_listing_ok "\<lambda>(E, w, orgID, threadID, limit). nat (ClampLimit limit)"
  listed_messages "\<lambda>a b. (m_CreatedAt a, m_ID a) < (m_CreatedAt b, m_ID b)"
  "\<lambda>(E, w, orgID, threadID, limit) d. row_cursor E (m_CreatedAt d) (m_ID d)" message_listing_run
proof (unfold_locales, goal_cases)
  case (1 x)
  then show ?case by (cases x) simp
next
  case (2 x)
  then show ?case
    by (cases x) (auto simp: message_listing_ok_def listed_messages_def simp del: less_prod_simp
        intro!: sorted_scanned_asc [where kk = "\<lambda>d. (m_CreatedAt d, m_ID d)"] distinct_key_pair)
next
  case (3 r s)
  then show ?case by auto
next
  case (4 x r)
  then show ?case by (cases x) simp
next
  case (5 x)
  then show ?case
    by (cases x) (auto simp: message_listing_ok_def message_listing_run_def listed_messages_def keyset_asc_first
        MessageStore_List_run cursor_parts_def cursor_key_def)
next
  case (6 x r)
  then show ?case
    by (cases x) (simp add: message_listing_ok_def message_listing_run_def listed_messages_def
        keyset_asc_next [where kk = "\<lambda>d. (m_CreatedAt d, m_ID d)"]
        MessageStore_List_run [OF _ _ cursor_parts_row cursor_key_row])
qed

end
