(* ===== verification/Draft_Store.thy ===== *)
theory Draft_Store
  imports Tables
begin

text \<open>
  \<open>services/inbox/store/draft_store.go\<close>: the drafts table.  A draft is stored without its sender,
  reply-to, in-reply-to and references, which have no column.  Every UPDATE of the table runs the
  trigger \<open>set_updated_at\<close>.  The table's constraints come from migrations 9, 17 and 20.
\<close>

section \<open>Rows and structs\<close>

record draft_patch =
  dp_Subject :: "string option"
  dp_To :: "email_address list option"
  dp_Cc :: "email_address list option"
  dp_Bcc :: "email_address list option"
  dp_TextBody :: "string option"
  dp_HtmlBody :: "string option"
  dp_ScheduledAt :: "time option"
  dp_ReviewStatus :: "string option"
  dp_ReviewNote :: "string option"
  dp_ReviewedAt :: "time option"
  dp_ReviewedBy :: "uuid option"
  dp_MessageID :: "uuid option"
  dp_Metadata :: "json_map option"

definition empty_draft_patch :: draft_patch where
  "empty_draft_patch =
     \<lparr>dp_Subject = None, dp_To = None, dp_Cc = None, dp_Bcc = None, dp_TextBody = None, dp_HtmlBody = None,
      dp_ScheduledAt = None, dp_ReviewStatus = None, dp_ReviewNote = None, dp_ReviewedAt = None,
      dp_ReviewedBy = None, dp_MessageID = None, dp_Metadata = None\<rparr>"

definition scanDraft :: "env \<Rightarrow> draft_row \<Rightarrow> draft" where
  "scanDraft E r =
     \<lparr>d_ID = dr_id r, d_OrgID = dr_org_id r, d_InboxID = dr_inbox_id r, d_ThreadID = dr_thread_id r,
      d_Subject = dr_subject r, d_From = zero_address,
      d_To = dr_to_addresses r, d_Cc = dr_cc_addresses r, d_Bcc = dr_bcc_addresses r,
      d_ReplyTo = [], d_InReplyTo = [], d_References = [],
      d_TextBody = dr_body_text r, d_HtmlBody = dr_body_html r,
      d_ReviewStatus = dr_review_status r, d_ReviewNote = dr_review_note r,
      d_ReviewedAt = dr_reviewed_at r,
      d_ReviewedBy = (case dr_reviewed_by r of None \<Rightarrow> None | Some s \<Rightarrow> parse_uuid E s),
      d_ScheduledAt = dr_scheduled_at r, d_SentAt = None, d_MessageID = dr_message_id r,
      d_Attachments = [], d_Metadata = dr_metadata r,
      d_CreatedAt = dr_created_at r, d_UpdatedAt = dr_updated_at r\<rparr>"

definition scanDraftRows :: "env \<Rightarrow> draft_row list \<Rightarrow> draft list" where
  "scanDraftRows E rows = map (scanDraft E) rows"

definition draft_insert_row :: "env \<Rightarrow> draft \<Rightarrow> draft_row" where
  "draft_insert_row E draft =
     \<lparr>dr_id = d_ID draft, dr_org_id = d_OrgID draft, dr_inbox_id = d_InboxID draft,
      dr_thread_id = d_ThreadID draft,
      dr_to_addresses = d_To draft, dr_cc_addresses = d_Cc draft, dr_bcc_addresses = d_Bcc draft,
      dr_subject = d_Subject draft, dr_body_text = d_TextBody draft, dr_body_html = d_HtmlBody draft,
      dr_metadata = d_Metadata draft, dr_review_status = d_ReviewStatus draft,
      dr_review_note = d_ReviewNote draft,
      dr_reviewed_by = (case d_ReviewedBy draft of None \<Rightarrow> None | Some u \<Rightarrow> Some (fmt_uuid E u)),
      dr_reviewed_at = d_ReviewedAt draft, dr_scheduled_at = d_ScheduledAt draft,
      dr_message_id = None,
      dr_created_at = d_CreatedAt draft, dr_updated_at = d_UpdatedAt draft\<rparr>"

section \<open>Statements\<close>

definition review_statuses :: "string list" where
  "review_statuses = [DraftReviewStatusPending, DraftReviewStatusApproved, DraftReviewStatusRejected, DraftReviewStatusSent]"

definition draft_insert :: "draft_row \<Rightarrow> unit stmt" where
  "draft_insert r now d = require
     [(dr_review_status r \<in> set review_statuses, ''23514''),
      (\<not> has_key dr_id (dr_id r) (t_drafts d), ''23505''),
      (has_key o_ID (dr_org_id r) (t_organizations d), ''23503''),
      (has_key ib_ID (dr_inbox_id r) (t_inboxes d), ''23503''),
      (case dr_thread_id r of None \<Rightarrow> True | Some t \<Rightarrow> has_key tr_id t (t_threads d), ''23503'')]
     ((), d\<lparr>t_drafts := t_drafts d @ [r]\<rparr>)"

definition draft_select :: "uuid \<Rightarrow> uuid \<Rightarrow> draft_row stmt" where
  "draft_select orgID draftID = query_row (\<lambda>d. filter (\<lambda>r. dr_org_id r = orgID \<and> dr_id r = draftID) (t_drafts d))"

definition draft_set :: "env \<Rightarrow> draft_patch \<Rightarrow> time \<Rightarrow> draft_row \<Rightarrow> draft_row" where
  "draft_set E patch now r = r
     \<lparr>dr_subject := supplied (dp_Subject patch) (dr_subject r),
      dr_to_addresses := supplied (dp_To patch) (dr_to_addresses r),
      dr_cc_addresses := supplied (dp_Cc patch) (dr_cc_addresses r),
      dr_bcc_addresses := supplied (dp_Bcc patch) (dr_bcc_addresses r),
      dr_body_text := supplied (dp_TextBody patch) (dr_body_text r),
      dr_body_html := supplied (dp_HtmlBody patch) (dr_body_html r),
      dr_scheduled_at := (case dp_ScheduledAt patch of None \<Rightarrow> dr_scheduled_at r | Some t \<Rightarrow> Some t),
      dr_review_status := supplied (dp_ReviewStatus patch) (dr_review_status r),
      dr_review_note := supplied (dp_ReviewNote patch) (dr_review_note r),
      dr_reviewed_at := (case dp_ReviewedAt patch of None \<Rightarrow> dr_reviewed_at r | Some t \<Rightarrow> Some t),
      dr_reviewed_by := (case dp_ReviewedBy patch of None \<Rightarrow> dr_reviewed_by r | Some u \<Rightarrow> Some (fmt_uuid E u)),
      dr_message_id := (case dp_MessageID patch of None \<Rightarrow> dr_message_id r | Some m \<Rightarrow> Some m),
      dr_metadata := supplied (dp_Metadata patch) (dr_metadata r),
      dr_updated_at := now\<rparr>"

definition draft_update :: "env \<Rightarrow> uuid \<Rightarrow> uuid \<Rightarrow> draft_patch \<Rightarrow> draft_row stmt" where
  "draft_update E orgID draftID patch now d =
     (let hit = (\<lambda>r. dr_org_id r = orgID \<and> dr_id r = draftID)
      in case filter hit (t_drafts d) of
           [] \<Rightarrow> Inl ErrNoRows
         | r # _ \<Rightarrow> require
             [(case dp_ReviewStatus patch of None \<Rightarrow> True | Some s \<Rightarrow> s \<in> set review_statuses, ''23514''),
              (case dp_MessageID patch of None \<Rightarrow> True | Some m \<Rightarrow> has_key mr_id m (t_messages d), ''23503'')]
             (draft_set E patch now r, d\<lparr>t_drafts := upd_where hit (draft_set E patch now) (t_drafts d)\<rparr>))"

text \<open>Deleting a draft deletes its attachments (ON DELETE CASCADE).\<close>

definition draft_delete :: "uuid \<Rightarrow> uuid \<Rightarrow> nat stmt" where
  "draft_delete orgID draftID now d =
     (let hit = (\<lambda>r. dr_org_id r = orgID \<and> dr_id r = draftID);
          gone = filter hit (t_drafts d)
      in Inr (length gone,
           d\<lparr>t_drafts := del_where hit (t_drafts d),
             t_attachments := del_where (\<lambda>a. \<exists>r \<in> set gone. at_DraftID a = Some (dr_id r)) (t_attachments d)\<rparr>))"

section \<open>The store's methods\<close>

definition DraftStore_Create :: "draft \<Rightarrow> unit io" where
  "DraftStore_Create draft =
     go_bind (asks (\<lambda>E. draft_insert_row E draft)) (\<lambda>row.
     wrap_err ''insert draft'' (tx_exec (draft_insert row)))"

definition DraftStore_GetByID :: "uuid \<Rightarrow> uuid \<Rightarrow> draft io" where
  "DraftStore_GetByID orgID draftID =
     go_bind (wrap_err ''scan draft'' (tx_exec (draft_select orgID draftID))) (\<lambda>row.
     asks (\<lambda>E. scanDraft E row))"

definition draft_page_where :: "uuid \<Rightarrow> uuid \<Rightarrow> draft_row \<Rightarrow> bool" where
  "draft_page_where orgID inboxID r =
     (dr_org_id r = orgID \<and> dr_inbox_id r = inboxID \<and> dr_review_status r = ''pending'')"

definition draft_page :: "env \<Rightarrow> uuid \<Rightarrow> uuid \<Rightarrow> nat \<Rightarrow> (string \<times> string) option \<Rightarrow> draft_row list stmt" where
  "draft_page E orgID inboxID n parts now d =
     (case cursor_key E parts of
        Inl e \<Rightarrow> Inl e
      | Inr after \<Rightarrow> Inr (keyset_select_desc (\<lambda>r. (dr_created_at r, dr_id r))
          (draft_page_where orgID inboxID) n after (t_drafts d), d))"

definition DraftStore_List :: "uuid \<Rightarrow> uuid \<Rightarrow> int \<Rightarrow> string \<Rightarrow> (draft list \<times> string) io" where
  "DraftStore_List orgID inboxID limit cursor =
     (let limit = nat (ClampLimit limit)
      in case cursor_parts cursor of
           Inl e \<Rightarrow> throw e
         | Inr parts \<Rightarrow>
             go_bind (asks (\<lambda>E. E)) (\<lambda>E.
             go_bind (wrap_err ''list drafts'' (tx_exec (draft_page E orgID inboxID (Suc limit) parts))) (\<lambda>rows.
             ret (cut_page limit (\<lambda>d. row_cursor E (d_CreatedAt d) (d_ID d)) (scanDraftRows E rows)))))"

definition DraftStore_Update :: "uuid \<Rightarrow> uuid \<Rightarrow> draft_patch \<Rightarrow> draft io" where
  "DraftStore_Update orgID draftID patch =
     (if patch = empty_draft_patch then DraftStore_GetByID orgID draftID
      else go_bind time_Now (\<lambda>_.
           go_bind (asks (\<lambda>E. E)) (\<lambda>E.
           go_bind (wrap_err ''scan draft'' (tx_exec (draft_update E orgID draftID patch))) (\<lambda>row.
           ret (scanDraft E row)))))"

definition DraftStore_Delete :: "uuid \<Rightarrow> uuid \<Rightarrow> unit io" where
  "DraftStore_Delete orgID draftID =
     go_bind (wrap_err ''delete draft'' (tx_exec (draft_delete orgID draftID))) (\<lambda>n.
     fail_if (n = 0) ErrNoRows)"

section \<open>The drafts table as an organisation's table\<close>

lemma draft_set_keys [simp]:
  "dr_id (draft_set E p now r) = dr_id r" "dr_org_id (draft_set E p now r) = dr_org_id r"
  "dr_inbox_id (draft_set E p now r) = dr_inbox_id r" "dr_thread_id (draft_set E p now r) = dr_thread_id r"
  "dr_created_at (draft_set E p now r) = dr_created_at r"
  by (simp_all add: draft_set_def)

lemma scanDraft_simps [simp]:
  "d_ID (scanDraft E r) = dr_id r" "d_OrgID (scanDraft E r) = dr_org_id r"
  "d_InboxID (scanDraft E r) = dr_inbox_id r" "d_ThreadID (scanDraft E r) = dr_thread_id r"
  "d_ReviewStatus (scanDraft E r) = dr_review_status r" "d_CreatedAt (scanDraft E r) = dr_created_at r"
  "d_MessageID (scanDraft E r) = dr_message_id r" "d_InReplyTo (scanDraft E r) = []"
  "d_To (scanDraft E r) = dr_to_addresses r" "d_Cc (scanDraft E r) = dr_cc_addresses r"
  "d_Bcc (scanDraft E r) = dr_bcc_addresses r" "d_Subject (scanDraft E r) = dr_subject r"
  "d_TextBody (scanDraft E r) = dr_body_text r" "d_HtmlBody (scanDraft E r) = dr_body_html r"
  "d_Metadata (scanDraft E r) = dr_metadata r"
  by (simp_all add: scanDraft_def)

lemma draft_update_eq_Inr:
  "draft_update E orgID draftID p now d = Inr (r, d') \<longleftrightarrow>
     (\<exists>r0 rest. filter (\<lambda>r. dr_org_id r = orgID \<and> dr_id r = draftID) (t_drafts d) = r0 # rest \<and>
        r = draft_set E p now r0 \<and>
        d' = d\<lparr>t_drafts := upd_where (\<lambda>r. dr_org_id r = orgID \<and> dr_id r = draftID) (draft_set E p now) (t_drafts d)\<rparr> \<and>
        (\<forall>s. dp_ReviewStatus p = Some s \<longrightarrow> s \<in> set review_statuses) \<and>
        (\<forall>m. dp_MessageID p = Some m \<longrightarrow> has_key mr_id m (t_messages d)))"
  by (auto simp: draft_update_def Let_def require_eq_Inr split: list.splits option.splits)

interpretation drafts: org_table t_drafts dr_org_id dr_id "draft_set E" draft_select "draft_update E" draft_delete for E
proof (unfold_locales, goal_cases)
  case (1 org i now d)
  then show ?case
    by (simp add: draft_select_def query_row_def first_row_def split: list.splits)
next
  case (2 org i d p now)
  then show ?case by (simp add: draft_update_def)
next
  case (3 org i p now d r d')
  then show ?case by (auto simp: draft_update_eq_Inr)
next
  case (6 org i now d n d')
  then show ?case by (auto simp: draft_delete_def Let_def del_where_def)
qed simp_all

section \<open>Runs of the store's methods\<close>

lemma DraftStore_Create_eq_Inr:
  "DraftStore_Create draft E w = (Inr u, w') \<longleftrightarrow>
     \<not> w_failed w \<and> fault E (w_tick w) = None \<and>
     (\<exists>d'. draft_insert (draft_insert_row E draft) (w_now w) (w_db w) = Inr ((), d') \<and>
       w' = (tick_world w)\<lparr>w_db := d'\<rparr>)"
  by (auto simp: DraftStore_Create_def go_success tx_exec_eq_Inr)

lemma draft_insert_eq_Inr:
  "draft_insert r now d = Inr (u, d') \<longleftrightarrow>
     dr_review_status r \<in> set review_statuses \<and> \<not> has_key dr_id (dr_id r) (t_drafts d) \<and>
     has_key o_ID (dr_org_id r) (t_organizations d) \<and> has_key ib_ID (dr_inbox_id r) (t_inboxes d) \<and>
     (\<forall>t. dr_thread_id r = Some t \<longrightarrow> has_key tr_id t (t_threads d)) \<and>
     d' = d\<lparr>t_drafts := t_drafts d @ [r]\<rparr>"
  by (auto simp: draft_insert_def require_eq_Inr split: option.splits)

lemma draft_select_eq_Inr:
  "draft_select orgID i now d = Inr (r, d') \<Longrightarrow>
   d' = d \<and> r \<in> set (t_drafts d) \<and> dr_org_id r = orgID \<and> dr_id r = i"
  by (rule drafts.get_success)

lemma DraftStore_GetByID_eq_Inr:
  "DraftStore_GetByID orgID i E w = (Inr x, w') \<longleftrightarrow>
     \<not> w_failed w \<and> fault E (w_tick w) = None \<and> w' = tick_world w \<and>
     (\<exists>r. draft_select orgID i (w_now w) (w_db w) = Inr (r, w_db w) \<and> x = scanDraft E r)"
  by (auto simp: DraftStore_GetByID_def go_success tx_exec_eq_Inr dest: draft_select_eq_Inr)

lemma DraftStore_GetByID_success:
  assumes "DraftStore_GetByID orgID i E w = (Inr x, w')"
  obtains r where "r \<in> set (t_drafts (w_db w))" "dr_org_id r = orgID" "dr_id r = i" "x = scanDraft E r"
    "w' = tick_world w"
  using assms by (auto simp: DraftStore_GetByID_eq_Inr dest: draft_select_eq_Inr)

lemma DraftStore_Update_success:
  assumes "DraftStore_Update orgID i p E w = (Inr x, w')" "p \<noteq> empty_draft_patch"
  obtains r d' where "draft_update E orgID i p (w_now w) (w_db w) = Inr (r, d')" "x = scanDraft E r"
    "w' = (tick_world (tick_world w))\<lparr>w_db := d'\<rparr>"
  using assms by (auto simp: DraftStore_Update_def go_success tx_exec_eq_Inr time_Now_def)

section \<open>Footprint: only rows of the given organisation change\<close>

lemma draft_insert_keeps [keeps_intros]:
  "(\<And>d. Q d \<Longrightarrow> Q (d\<lparr>t_drafts := t_drafts d @ [r]\<rparr>)) \<Longrightarrow> stmt_keeps Q (draft_insert r)"
  by (auto simp: stmt_keeps_def draft_insert_eq_Inr)

lemma draft_page_keeps [keeps_intros]: "stmt_keeps Q (draft_page E orgID inboxID n parts)"
  by (auto simp: stmt_keeps_def draft_page_def split: sum.splits)

lemma draft_update_keeps:
  assumes "\<And>now d. Q d \<Longrightarrow>
    Q (d\<lparr>t_drafts := upd_where (\<lambda>r. dr_org_id r = orgID \<and> dr_id r = i) (draft_set E p now) (t_drafts d)\<rparr>)"
  shows "stmt_keeps Q (draft_update E orgID i p)"
  using assms by (auto simp: stmt_keeps_def draft_update_eq_Inr)

lemma DraftStore_reads [keeps_intros]:
  "keeps_db Q (DraftStore_GetByID orgID i)" "keeps_db Q (DraftStore_List orgID inboxID limit cursor)"
  unfolding DraftStore_GetByID_def DraftStore_List_def draft_select_def Let_def
  by (intro keeps_intros)+

section \<open>Listing\<close>

text \<open>A listing context: environment, world, organisation, inbox and requested page size.\<close>

type_synonym draft_listing = "env \<times> world \<times> uuid \<times> uuid \<times> int"

definition draft_listing_ok :: "draft_listing \<Rightarrow> bool" where
  "draft_listing_ok = (\<lambda>(E, w, orgID, inboxID, limit).
     cursor_codec E \<and> \<not> w_failed w \<and> fault E (w_tick w) = None \<and> distinct (map dr_id (t_drafts (w_db w))))"

definition listed_drafts :: "draft_listing \<Rightarrow> draft list" where
  "listed_drafts = (\<lambda>(E, w, orgID, inboxID, limit).
     map (scanDraft E) (order_desc (\<lambda>r. (dr_created_at r, dr_id r))
       (filter (draft_page_where orgID inboxID) (t_drafts (w_db w)))))"

definition draft_listing_run :: "draft_listing \<Rightarrow> string \<Rightarrow> draft list \<times> string" where
  "draft_listing_run = (\<lambda>(E, w, orgID, inboxID, limit) cursor.
     listed ([], []) (fst (DraftStore_List orgID inboxID limit cursor E w)))"

lemma DraftStore_List_run:
  assumes "\<not> w_failed w" "fault E (w_tick w) = None" "cursor_parts cursor = Inr parts" "cursor_key E parts = Inr after"
  shows "fst (DraftStore_List orgID inboxID limit cursor E w) =
    Inr (cut_page (nat (ClampLimit limit)) (\<lambda>d. row_cursor E (d_CreatedAt d) (d_ID d))
      (map (scanDraft E) (keyset_select_desc (\<lambda>r. (dr_created_at r, dr_id r)) (draft_page_where orgID inboxID)
        (Suc (nat (ClampLimit limit))) after (t_drafts (w_db w)))))"
  using assms
  by (simp add: DraftStore_List_def Let_def go_bind_def asks_def wrap_err_def tx_exec_def external_def
      run_stmt_def draft_page_def ret_def scanDraftRows_def)

interpretation draft_lists: keyset_list draft_listing_ok "\<lambda>(E, w, orgID, inboxID, limit). nat (ClampLimit limit)"
  listed_drafts "\<lambda>a b. (d_CreatedAt b, d_ID b) < (d_CreatedAt a, d_ID a)"
  "\<lambda>(E, w, orgID, inboxID, limit) d. row_cursor E (d_CreatedAt d) (d_ID d)" draft_listing_run
proof (unfold_locales, goal_cases)
  case (1 x)
  then show ?case by (cases x) simp
next
  case (2 x)
  then show ?case
    by (cases x) (auto simp: draft_listing_ok_def listed_drafts_def simp del: less_prod_simp
        intro!: sorted_scanned_desc [where kk = "\<lambda>d. (d_CreatedAt d, d_ID d)"] distinct_key_pair)
next
  case (3 r s)
  then show ?case by auto
next
  case (4 x r)
  then show ?case by (cases x) simp
next
  case (5 x)
  then show ?case
    by (cases x) (auto simp: draft_listing_ok_def draft_listing_run_def listed_drafts_def keyset_desc_first
        DraftStore_List_run cursor_parts_def cursor_key_def)
next
  case (6 x r)
  then show ?case
    by (cases x) (simp add: draft_listing_ok_def draft_listing_run_def listed_drafts_def
        keyset_desc_next [where kk = "\<lambda>d. (d_CreatedAt d, d_ID d)"]
        DraftStore_List_run [OF _ _ cursor_parts_row cursor_key_row])
qed

end
