(* ===== verification/Outbound.thy ===== *)
theory Outbound
  imports Auth Inbox_Store Thread_Store Message_Store Draft_Store
begin

text \<open>
  What the draft and the message service of \<open>services/inbox/service\<close> share: inline attachments,
  participants of a new thread, snippets and Message-IDs.
\<close>

record attachment_request =
  ar_Filename :: string
  ar_ContentType :: string
  ar_Content :: string

record att_upload =
  au_s3Key :: string
  au_filename :: string
  au_contentType :: string
  au_sizeBytes :: int

definition of_result :: "go_error + 'a \<Rightarrow> 'a io" where
  "of_result r = (case r of Inl e \<Rightarrow> throw e | Inr x \<Rightarrow> ret x)"

definition generateMessageID :: "string io" where
  "generateMessageID = go_bind uuid_New (\<lambda>u. go_bind (asks fmt_uuid) (\<lambda>fmt. ret (fmt u @ ''@nGX'')))"

definition snippetFrom :: "string \<Rightarrow> string" where
  "snippetFrom body = (let maxLen = 200 in if length body \<le> maxLen then body else take maxLen body)"

text \<open>The closure \<open>addParticipant\<close> over \<open>seen\<close> and \<open>participants\<close>.\<close>

definition addParticipant :: "email_address \<Rightarrow> string list \<times> email_address list \<Rightarrow> string list \<times> email_address list" where
  "addParticipant addr = (\<lambda>(seen, participants).
     if ea_Email addr \<noteq> [] \<and> ea_Email addr \<notin> set seen
     then (ea_Email addr # seen, participants @ [addr]) else (seen, participants))"

definition participants_of :: "email_address \<Rightarrow> email_address list \<Rightarrow> email_address list \<Rightarrow> email_address list" where
  "participants_of sender to cc = snd (fold addParticipant ([sender] @ to @ cc) ([], []))"

definition decode_attachment :: "attachment_request \<Rightarrow> go_error + string" where
  "decode_attachment a = (case b64_decode (ar_Content a) of
       None \<Rightarrow> Inl (Wrap (''decode attachment '' @ go_quote (ar_Filename a)) (Errorf ''illegal base64 data''))
     | Some data \<Rightarrow> Inr data)"

definition content_type_of :: "attachment_request \<Rightarrow> string" where
  "content_type_of a = (if ar_ContentType a = [] then ''application/octet-stream'' else ar_ContentType a)"

text \<open>The upload of one attachment: nothing is uploaded when no bucket is configured.\<close>

definition upload_to :: "string option \<Rightarrow> string \<Rightarrow> attachment_request \<Rightarrow> string \<Rightarrow> unit io" where
  "upload_to bucket key a data = (case bucket of
       None \<Rightarrow> ret ()
     | Some b \<Rightarrow> wrap_err (''upload attachment '' @ go_quote (ar_Filename a))
         (S3_Upload b key data (content_type_of a)))"

definition emptyThread :: "uuid \<Rightarrow> uuid \<Rightarrow> uuid \<Rightarrow> string \<Rightarrow> string \<Rightarrow> email_address list \<Rightarrow> time \<Rightarrow> thread" where
  "emptyThread i orgID inboxID subject snippet participants now =
     \<lparr>th_ID = i, th_OrgID = orgID, th_InboxID = inboxID, th_Subject = subject, th_Snippet = snippet,
      th_Status = ThreadStatusOpen, th_IsRead = True, th_IsStarred = False, th_MessageCount = 0,
      th_Participants = participants, th_LastMessageAt = None, th_Labels = [],
      th_CreatedAt = now, th_UpdatedAt = now\<rparr>"

section \<open>Participants\<close>

lemma addParticipant_step:
  "addParticipant a (seen, ps) =
    (if ea_Email a \<noteq> [] \<and> ea_Email a \<notin> set seen then (ea_Email a # seen, ps @ [a]) else (seen, ps))"
  by (simp add: addParticipant_def)

lemma fold_addParticipant:
  assumes "fold addParticipant as (seen, ps) = (s, qs)"
    and "set seen = set (map ea_Email ps)" "distinct (map ea_Email ps)"
  shows "distinct (map ea_Email qs) \<and> set (map ea_Email qs) = set (map ea_Email ps) \<union> (set (map ea_Email as) - {[]}) \<and>
     set qs \<subseteq> set ps \<union> set as"
  using assms
proof (induction as arbitrary: seen ps)
  case (Cons a as)
  show ?case
  proof (cases "ea_Email a \<noteq> [] \<and> ea_Email a \<notin> set seen")
    case True
    then have "fold addParticipant as (ea_Email a # seen, ps @ [a]) = (s, qs)"
      using Cons.prems(1) by (simp add: addParticipant_step)
    from Cons.IH [OF this] True Cons.prems(2,3)
    have "distinct (map ea_Email qs)" "set qs \<subseteq> set (ps @ [a]) \<union> set as"
      "set (map ea_Email qs) = set (map ea_Email (ps @ [a])) \<union> (set (map ea_Email as) - {[]})" by simp_all
    moreover from True have "set (map ea_Email (ps @ [a])) \<union> (set (map ea_Email as) - {[]}) =
        set (map ea_Email ps) \<union> (set (map ea_Email (a # as)) - {[]})" by auto
    ultimately show ?thesis by simp
  next
    case False
    then have "fold addParticipant as (seen, ps) = (s, qs)"
      using Cons.prems(1) by (simp add: addParticipant_step split: if_splits)
    from Cons.IH [OF this Cons.prems(2,3)]
    have "distinct (map ea_Email qs)" "set qs \<subseteq> set ps \<union> set as"
      "set (map ea_Email qs) = set (map ea_Email ps) \<union> (set (map ea_Email as) - {[]})" by simp_all
    moreover from False Cons.prems(2) have "set (map ea_Email ps) \<union> (set (map ea_Email as) - {[]}) =
        set (map ea_Email ps) \<union> (set (map ea_Email (a # as)) - {[]})" by auto
    ultimately show ?thesis by auto
  qed
qed simp

lemma participants_of_emails:
  "distinct (map ea_Email (participants_of s to cc))"
  "set (map ea_Email (participants_of s to cc)) = set (map ea_Email (s # to @ cc)) - {[]}"
  "set (participants_of s to cc) \<subseteq> set (s # to @ cc)"
proof -
  obtain seen qs where f: "fold addParticipant ([s] @ to @ cc) ([], []) = (seen, qs)"
    by (rule prod.exhaust)
  then have p: "participants_of s to cc = qs" unfolding participants_of_def by (simp only: snd_conv)
  from fold_addParticipant [OF f]
  show "distinct (map ea_Email (participants_of s to cc))"
    "set (map ea_Email (participants_of s to cc)) = set (map ea_Email (s # to @ cc)) - {[]}"
    "set (participants_of s to cc) \<subseteq> set (s # to @ cc)"
    unfolding p by simp_all
qed

lemma snippetFrom_length: "length (snippetFrom s) \<le> 200"
  by (simp add: snippetFrom_def)

section \<open>Footprints\<close>

lemma keeps_db_common [keeps_intros]:
  "keeps_db Q generateMessageID" "keeps_db Q (of_result r)" "keeps_db Q (upload_to b k a x)"
  unfolding generateMessageID_def of_result_def upload_to_def by (intro keeps_intros)+

lemma of_result_eq_Inr [simp]: "of_result r E w = (Inr x, w') \<longleftrightarrow> r = Inr x \<and> w' = w"
  by (auto simp: of_result_def go_run split: sum.splits)

lemma uuid_New_eq_Inr: "uuid_New E w = (Inr u, w') \<longleftrightarrow> u = new_uuid E (w_tick w) \<and> w' = tick_world w"
  by (auto simp: uuid_New_def)

lemma time_Now_eq_Inr: "time_Now E w = (Inr t, w') \<longleftrightarrow> t = clock E (w_tick w) \<and> w' = tick_world w"
  by (auto simp: time_Now_def)

lemma generateMessageID_eq_Inr:
  "generateMessageID E w = (Inr s, w') \<longleftrightarrow> s = fmt_uuid E (new_uuid E (w_tick w)) @ ''@nGX'' \<and> w' = tick_world w"
  by (auto simp: generateMessageID_def go_success uuid_New_eq_Inr)

end
