(* ===== verification/Requests.thy ===== *)
theory Requests
  imports Outbound
begin

text \<open>
  \<open>shared.Decode\<close>: \<open>json.Unmarshal\<close> of a request body into a struct.  A decoder takes a JSON
  value and the current Go value; it gives the new value, or nothing for a type error.  As in
  encoding/json, null leaves a plain value alone and makes a pointer, slice or map nil, member
  names are compared without regard to case, and unknown members are skipped.  Repeated members are
  taken in order.
\<close>

section \<open>Values\<close>

definition dec_string :: "json \<Rightarrow> string \<Rightarrow> string option" where
  "dec_string v cur = (case v of JStr s \<Rightarrow> Some s | JNull \<Rightarrow> Some cur | _ \<Rightarrow> None)"

definition dec_bool :: "json \<Rightarrow> bool \<Rightarrow> bool option" where
  "dec_bool v cur = (case v of JBool b \<Rightarrow> Some b | JNull \<Rightarrow> Some cur | _ \<Rightarrow> None)"

definition dec_uuid :: "env \<Rightarrow> json \<Rightarrow> uuid \<Rightarrow> uuid option" where
  "dec_uuid E v cur = (case v of JStr s \<Rightarrow> parse_uuid E s | JNull \<Rightarrow> Some cur | _ \<Rightarrow> None)"

definition dec_time :: "env \<Rightarrow> json \<Rightarrow> time \<Rightarrow> time option" where
  "dec_time E v cur = (case v of JStr s \<Rightarrow> parse_time E s | JNull \<Rightarrow> Some cur | _ \<Rightarrow> None)"

definition dec_ptr :: "(json \<Rightarrow> 'a \<Rightarrow> 'a option) \<Rightarrow> 'a \<Rightarrow> json \<Rightarrow> 'a option \<Rightarrow> 'a option option" where
  "dec_ptr d zero v cur =
     (if v = JNull then Some None
      else map_option Some (d v (case cur of None \<Rightarrow> zero | Some x \<Rightarrow> x)))"

fun dec_elems :: "(json \<Rightarrow> 'a \<Rightarrow> 'a option) \<Rightarrow> 'a \<Rightarrow> json list \<Rightarrow> 'a list option" where
  "dec_elems d zero [] = Some []"
| "dec_elems d zero (v # vs) =
     (case d v zero of
        None \<Rightarrow> None
      | Some x \<Rightarrow> (case dec_elems d zero vs of None \<Rightarrow> None | Some xs \<Rightarrow> Some (x # xs)))"

definition dec_slice :: "(json \<Rightarrow> 'a \<Rightarrow> 'a option) \<Rightarrow> 'a \<Rightarrow> json \<Rightarrow> 'a list option option" where
  "dec_slice d zero v =
     (case v of JNull \<Rightarrow> Some None | JArr vs \<Rightarrow> map_option Some (dec_elems d zero vs) | _ \<Rightarrow> None)"

definition dec_map :: "json \<Rightarrow> json_map option option" where
  "dec_map v = (case v of JNull \<Rightarrow> Some None | JObj m \<Rightarrow> Some (Some m) | _ \<Rightarrow> None)"

text \<open>Where the code does not tell nil from empty.\<close>

definition or_empty :: "'a list option \<Rightarrow> 'a list" where
  "or_empty xs = (case xs of None \<Rightarrow> [] | Some ys \<Rightarrow> ys)"

section \<open>Structs\<close>

text \<open>\<open>f name v r\<close> decodes the member \<open>name\<close> (in lower case) into the struct \<open>r\<close>.\<close>

fun dec_members :: "(string \<Rightarrow> json \<Rightarrow> 'r \<Rightarrow> 'r option) \<Rightarrow> (string \<times> json) list \<Rightarrow> 'r \<Rightarrow> 'r option" where
  "dec_members f [] r = Some r"
| "dec_members f ((k, v) # ms) r =
     (case f (to_lower k) v r of None \<Rightarrow> None | Some r' \<Rightarrow> dec_members f ms r')"

definition dec_struct :: "(string \<Rightarrow> json \<Rightarrow> 'r \<Rightarrow> 'r option) \<Rightarrow> json \<Rightarrow> 'r \<Rightarrow> 'r option" where
  "dec_struct f v r = (case v of JNull \<Rightarrow> Some r | JObj ms \<Rightarrow> dec_members f ms r | _ \<Rightarrow> None)"

definition Decode :: "(json \<Rightarrow> 'r \<Rightarrow> 'r option) \<Rightarrow> request \<Rightarrow> 'r \<Rightarrow> 'r option" where
  "Decode d event r = (case rq_Body event of None \<Rightarrow> None | Some v \<Rightarrow> d v r)"

text \<open>\<open>_ = shared.Decode(event, &req)\<close> for a struct with one string: after a type error the other
  members are still decoded.\<close>

definition decode_string_lenient :: "string \<Rightarrow> request \<Rightarrow> string" where
  "decode_string_lenient name event =
     (case rq_Body event of
        Some (JObj ms) \<Rightarrow> fold (\<lambda>(k, v) cur. if to_lower k = name
           then (case dec_string v cur of Some s \<Rightarrow> s | None \<Rightarrow> cur) else cur) ms []
      | _ \<Rightarrow> [])"

section \<open>Structs shared by requests\<close>

definition dec_address :: "json \<Rightarrow> email_address \<Rightarrow> email_address option" where
  "dec_address = dec_struct (\<lambda>name v r.
     if name = ''email'' then map_option (\<lambda>x. r\<lparr>ea_Email := x\<rparr>) (dec_string v (ea_Email r))
     else if name = ''name'' then map_option (\<lambda>x. r\<lparr>ea_Name := x\<rparr>) (dec_string v (ea_Name r))
     else Some r)"

definition zero_attachment_request :: attachment_request where
  "zero_attachment_request = \<lparr>ar_Filename = [], ar_ContentType = [], ar_Content = []\<rparr>"

definition dec_attachment :: "json \<Rightarrow> attachment_request \<Rightarrow> attachment_request option" where
  "dec_attachment = dec_struct (\<lambda>name v r.
     if name = ''filename'' then map_option (\<lambda>x. r\<lparr>ar_Filename := x\<rparr>) (dec_string v (ar_Filename r))
     else if name = ''content_type'' then map_option (\<lambda>x. r\<lparr>ar_ContentType := x\<rparr>) (dec_string v (ar_ContentType r))
     else if name = ''content'' then map_option (\<lambda>x. r\<lparr>ar_Content := x\<rparr>) (dec_string v (ar_Content r))
     else Some r)"

definition dec_addresses :: "json \<Rightarrow> email_address list option option" where
  "dec_addresses = dec_slice dec_address zero_address"

definition dec_attachments :: "json \<Rightarrow> attachment_request list option option" where
  "dec_attachments = dec_slice dec_attachment zero_attachment_request"

section \<open>Guards shared by handlers\<close>

text \<open>\<open>if !claims.HasScope(s) { return 403 }\<close>\<close>

definition require_scope :: "claims \<Rightarrow> string \<Rightarrow> handler \<Rightarrow> handler" where
  "require_scope c s h = (if \<not> HasScope c s then respond (Error 403 ''insufficient scope'') else h)"

text \<open>\<open>claims, err := shared.ExtractClaims(event); if err != nil { return 401 }\<close>\<close>

definition with_claims :: "request \<Rightarrow> (claims \<Rightarrow> handler) \<Rightarrow> handler" where
  "with_claims event h = (\<lambda>E w. case ExtractClaims E event of
       Inl e \<Rightarrow> (Error 401 ''unauthorized'', w) | Inr c \<Rightarrow> h c E w)"

text \<open>\<open>if err := shared.Decode(event, &req); err != nil { return 400 }\<close>\<close>

definition with_body :: "(env \<Rightarrow> json \<Rightarrow> 'r \<Rightarrow> 'r option) \<Rightarrow> request \<Rightarrow> 'r \<Rightarrow> ('r \<Rightarrow> handler) \<Rightarrow> handler" where
  "with_body d event zero h = (\<lambda>E w. case Decode (d E) event zero of
       None \<Rightarrow> (Error 400 ''invalid request body'', w) | Some r \<Rightarrow> h r E w)"

abbreviation not_found :: "string \<Rightarrow> handler" where
  "not_found what \<equiv> respond (Error 404 (what @ '' not found''))"

section \<open>What a handler leaves alone\<close>

text \<open>\<open>changes_nothing h\<close>: whatever it answers, \<open>h\<close> leaves every table as it was.\<close>

definition changes_nothing :: "handler \<Rightarrow> bool" where
  "changes_nothing h \<longleftrightarrow> (\<forall>E w. w_db (snd (h E w)) = w_db w)"

named_theorems nothing_intros

lemma changes_nothing_respond [nothing_intros]: "changes_nothing (respond r)"
  by (simp add: changes_nothing_def respond_def)

lemma changes_nothing_errors [nothing_intros]: "changes_nothing (error_text code e)" "changes_nothing (cursor_error e)"
  by (simp_all add: changes_nothing_def error_text_def cursor_error_def)

lemma changes_nothing_handle [nothing_intros]:
  assumes "\<And>Q. keeps_db Q m" and "\<And>e. changes_nothing (f e)" and "\<And>x. changes_nothing (g x)"
  shows "changes_nothing (handle m f g)"
  unfolding changes_nothing_def
proof (intro allI)
  fix E and w :: world
  obtain r w1 where m: "m E w = (r, w1)" by (rule prod.exhaust)
  with keeps_db_same [OF assms(1)] have "w_db w1 = w_db w" by blast
  with m assms(2,3) show "w_db (snd (handle m f g E w)) = w_db w"
    by (cases r) (simp_all add: handle_def changes_nothing_def)
qed

lemma changes_nothing_if [nothing_intros]:
  "(b \<Longrightarrow> changes_nothing h) \<Longrightarrow> (\<not> b \<Longrightarrow> changes_nothing h') \<Longrightarrow> changes_nothing (if b then h else h')"
  by simp

lemma changes_nothing_body [nothing_intros]:
  "(\<And>r. changes_nothing (h r)) \<Longrightarrow> changes_nothing (with_body d event zero h)"
  by (auto simp: changes_nothing_def with_body_def split: option.splits)

text \<open>A computation that rolls back when it fails changes nothing under a handler that reports failures.\<close>

lemma handle_error:
  assumes "rolls_back m" and "m E w = (Inl e, w')" and "changes_nothing (f e)"
  shows "w_db (snd (handle m f g E w)) = w_db w"
  using assms by (simp add: handle_def changes_nothing_def rolls_back_def)

section \<open>Honest answers\<close>

text \<open>\<open>honest h\<close>: when \<open>h\<close> answers with an error status, no table has changed.\<close>

definition honest :: "handler \<Rightarrow> bool" where
  "honest h \<longleftrightarrow> (\<forall>E w. 400 \<le> rs_StatusCode (fst (h E w)) \<longrightarrow> w_db (snd (h E w)) = w_db w)"

definition accepts :: "handler \<Rightarrow> bool" where
  "accepts h \<longleftrightarrow> (\<forall>E w. rs_StatusCode (fst (h E w)) < 400)"

named_theorems honest_intros

lemma honest_nothing: "changes_nothing h \<Longrightarrow> honest h"
  by (simp add: honest_def changes_nothing_def)

lemma honest_respond [honest_intros]: "honest (respond r)"
  by (rule honest_nothing) (intro nothing_intros)

lemma status_simps [simp]:
  "rs_StatusCode (JSON code v) = code" "rs_StatusCode (Error code m) = code" "rs_StatusCode (Binary code d ct cd) = code"
  "rs_StatusCode NoContent = 204"
  by (simp_all add: JSON_def Error_def Binary_def NoContent_def)

lemma accepts_respond: "rs_StatusCode r < 400 \<Longrightarrow> accepts (respond r)"
  by (simp add: accepts_def respond_def)

lemma honest_if [honest_intros]:
  "(b \<Longrightarrow> honest h) \<Longrightarrow> (\<not> b \<Longrightarrow> honest h') \<Longrightarrow> honest (if b then h else h')"
  by simp

lemma honest_body [honest_intros]: "(\<And>r. honest (h r)) \<Longrightarrow> honest (with_body d event zero h)"
  by (auto simp: honest_def with_body_def split: option.splits)

lemma honest_scope [honest_intros]: "honest h \<Longrightarrow> honest (require_scope c s h)"
  unfolding require_scope_def by (intro honest_intros)

lemma honest_read [honest_intros]:
  assumes "\<And>Q. keeps_db Q m" and "\<And>e. honest (f e)" and "\<And>x. honest (g x)"
  shows "honest (handle m f g)"
  unfolding honest_def
proof (intro allI impI)
  fix E and w :: world assume err: "400 \<le> rs_StatusCode (fst (handle m f g E w))"
  obtain r w1 where m: "m E w = (r, w1)" by (rule prod.exhaust)
  with keeps_db_same [OF assms(1)] have "w_db w1 = w_db w" by blast
  with m err assms(2,3) show "w_db (snd (handle m f g E w)) = w_db w"
    by (cases r) (auto simp: handle_def honest_def)
qed

lemma honest_write:
  assumes "rolls_back m" and "\<And>e. changes_nothing (f e)" and "\<And>x. accepts (g x)"
  shows "honest (handle m f g)"
  unfolding honest_def
proof (intro allI impI)
  fix E and w :: world assume err: "400 \<le> rs_StatusCode (fst (handle m f g E w))"
  obtain r w1 where m: "m E w = (r, w1)" by (rule prod.exhaust)
  show "w_db (snd (handle m f g E w)) = w_db w"
  proof (cases r)
    case (Inl e)
    with m have "m E w = (Inl e, w1)" by simp
    from handle_error [of m E w e w1 f g, OF assms(1) this assms(2)] show ?thesis .
  next
    case (Inr x)
    with m err assms(3) show ?thesis by (auto simp: handle_def accepts_def not_le [symmetric])
  qed
qed

lemma honest_errors [honest_intros]: "honest (error_text code e)" "honest (cursor_error e)"
  by (rule honest_nothing, intro nothing_intros)+

lemma honest_prod [honest_intros]: "(\<And>a b. honest (h a b)) \<Longrightarrow> honest (case x of (a, b) \<Rightarrow> h a b)"
  by (cases x) simp

lemma honest_claims:
  assumes "\<And>c E. honest (\<lambda>_. h c E)"
  shows "honest (with_claims event h)"
  using assms by (auto simp: honest_def with_claims_def split: sum.splits)

text \<open>A caller who lacks the scope is refused before anything happens.\<close>

lemma require_scope_refused: "\<not> HasScope c s \<Longrightarrow> require_scope c s h = respond (Error 403 ''insufficient scope'')"
  by (simp add: require_scope_def)

end
