(* ===== verification/Draft_Service.thy ===== *)
theory Draft_Service
  imports Outbound
begin

text \<open>
  \<open>services/inbox/service/draft_service.go\<close>: drafts are created pending and are edited, approved
  (which sends them) or rejected only while pending.
\<close>

section \<open>Requests and the service\<close>

record create_draft_request =
  cr_InboxID :: uuid
  cr_ThreadID :: "uuid option"
  cr_Subject :: string
  cr_To :: "email_address list"
  cr_Cc :: "email_address list"
  cr_Bcc :: "email_address list"
  cr_TextBody :: string
  cr_HtmlBody :: string
  cr_InReplyTo :: string
  cr_ScheduledAt :: "time option"
  cr_Metadata :: json_map
  cr_Attachments :: "attachment_request list"

text \<open>In an update a nil slice or map is "not supplied".\<close>

record update_draft_request =
  ur_Subject :: "string option"
  ur_To :: "email_address list option"
  ur_Cc :: "email_address list option"
  ur_Bcc :: "email_address list option"
  ur_TextBody :: "string option"
  ur_HtmlBody :: "string option"
  ur_ScheduledAt :: "time option"
  ur_Metadata :: "json_map option"
  ur_Attachments :: "attachment_request list option"

record draft_service =
  ds_eventProducer :: publisher
  ds_outboundProducer :: publisher
  ds_attachmentsS3 :: "string option"

fun validateEmailAddresses :: "env \<Rightarrow> email_address list \<Rightarrow> go_error + unit" where
  "validateEmailAddresses E [] = Inr ()"
| "validateEmailAddresses E (a # addrs) =
     (if ea_Email a = [] then Inl (Errorf ''email address must not be empty'')
      else case parse_address E (ea_Email a) of
             Some err \<Rightarrow> Inl (Wrap (''invalid email address '' @ go_quote (ea_Email a)) (Errorf err))
           | None \<Rightarrow> validateEmailAddresses E addrs)"

definition check_addresses :: "email_address list \<Rightarrow> unit io" where
  "check_addresses addrs = (\<lambda>E w. of_result (validateEmailAddresses E addrs) E w)"

definition nil_slice :: "'a list option \<Rightarrow> 'a list" where
  "nil_slice xs = (case xs of None \<Rightarrow> [] | Some ys \<Rightarrow> ys)"

section \<open>Operations\<close>

definition uploadAttachment ::
  "draft_service \<Rightarrow> uuid \<Rightarrow> uuid \<Rightarrow> string \<Rightarrow> attachment_request \<Rightarrow> att_upload io" where
  "uploadAttachment s orgID parentID prefix a =
     go_bind (of_result (decode_attachment a)) (\<lambda>data.
     go_bind (asks fmt_uuid) (\<lambda>fmt.
     let key = fmt orgID @ ''/'' @ prefix @ ''/'' @ fmt parentID @ ''/'' @ ar_Filename a in
     go_bind (upload_to (ds_attachmentsS3 s) key a data) (\<lambda>_.
     ret \<lparr>au_s3Key = key, au_filename = ar_Filename a, au_contentType = content_type_of a,
          au_sizeBytes = int (length data)\<rparr>)))"

definition uploadAttachments ::
  "draft_service \<Rightarrow> uuid \<Rightarrow> uuid \<Rightarrow> string \<Rightarrow> attachment_request list \<Rightarrow> att_upload list io" where
  "uploadAttachments s orgID parentID prefix atts = collect (uploadAttachment s orgID parentID prefix) atts"

text \<open>The loop that records the uploads as attachments of a draft.\<close>

definition create_draft_attachment :: "uuid \<Rightarrow> uuid \<Rightarrow> time \<Rightarrow> att_upload \<Rightarrow> unit io" where
  "create_draft_attachment orgID draftID now a =
     go_bind uuid_New (\<lambda>i.
     wrap_err ''create draft attachment'' (MessageStore_CreateDraftAttachment
       \<lparr>at_ID = i, at_OrgID = orgID, at_MessageID = None, at_DraftID = Some draftID,
        at_Filename = au_filename a, at_ContentType = au_contentType a, at_ContentID = [],
        at_Inline = False, at_SizeBytes = au_sizeBytes a, at_S3Key = au_s3Key a, at_CreatedAt = now\<rparr>))"

definition new_draft :: "uuid \<Rightarrow> uuid \<Rightarrow> create_draft_request \<Rightarrow> time \<Rightarrow> draft" where
  "new_draft draftID orgID req now =
     \<lparr>d_ID = draftID, d_OrgID = orgID, d_InboxID = cr_InboxID req, d_ThreadID = cr_ThreadID req,
      d_Subject = cr_Subject req, d_From = zero_address,
      d_To = cr_To req, d_Cc = cr_Cc req, d_Bcc = cr_Bcc req, d_ReplyTo = [],
      d_InReplyTo = cr_InReplyTo req, d_References = [],
      d_TextBody = cr_TextBody req, d_HtmlBody = cr_HtmlBody req,
      d_ReviewStatus = DraftReviewStatusPending, d_ReviewNote = [], d_ReviewedAt = None, d_ReviewedBy = None,
      d_ScheduledAt = cr_ScheduledAt req, d_SentAt = None, d_MessageID = None, d_Attachments = [],
      d_Metadata = cr_Metadata req, d_CreatedAt = now, d_UpdatedAt = now\<rparr>"

definition thread_or_Nil :: "draft \<Rightarrow> uuid" where
  "thread_or_Nil draft = (case d_ThreadID draft of None \<Rightarrow> uuid_Nil | Some t \<Rightarrow> t)"

definition DraftService_Create :: "draft_service \<Rightarrow> claims \<Rightarrow> create_draft_request \<Rightarrow> draft io" where
  "DraftService_Create s c req =
     go_bind (fail_if (cr_To req = []) (Errorf ''at least one recipient (to) is required'')) (\<lambda>_.
     go_bind (for_each check_addresses [cr_To req, cr_Cc req, cr_Bcc req]) (\<lambda>_.
     go_bind time_Now (\<lambda>now.
     go_bind uuid_New (\<lambda>draftID.
     go_bind (uploadAttachments s (cl_OrgID c) draftID ''drafts'' (cr_Attachments req)) (\<lambda>attUploads.
     let draft = new_draft draftID (cl_OrgID c) req now in
     go_bind (wrap_err ''create draft'' (WithOrgTx (cl_OrgID c)
       (go_bind (DraftStore_Create draft) (\<lambda>_.
        for_each (create_draft_attachment (cl_OrgID c) draftID now) attUploads)))) (\<lambda>_.
     go_bind (NewBase EventDraftCreated (cl_OrgID c)) (\<lambda>b.
     go_bind (ignore_err (PublishEvent (ds_eventProducer s)
       (DraftCreatedEvent b (d_ID draft) (thread_or_Nil draft) (d_InboxID draft)))) (\<lambda>_.
     ret draft))))))))"

definition DraftService_Get :: "draft_service \<Rightarrow> claims \<Rightarrow> uuid \<Rightarrow> draft io" where
  "DraftService_Get s c draftID =
     wrap_err ''get draft'' (WithOrgTx (cl_OrgID c)
       (go_bind (DraftStore_GetByID (cl_OrgID c) draftID) (\<lambda>draft.
        go_bind (MessageStore_ListDraftAttachments (cl_OrgID c) draftID) (\<lambda>atts.
        ret (draft\<lparr>d_Attachments := d_Attachments draft @ atts\<rparr>)))))"

definition DraftService_List :: "draft_service \<Rightarrow> claims \<Rightarrow> uuid \<Rightarrow> int \<Rightarrow> string \<Rightarrow> (draft list \<times> string) io" where
  "DraftService_List s c inboxID limit cursor =
     wrap_err ''list drafts'' (WithOrgTx (cl_OrgID c) (DraftStore_List (cl_OrgID c) inboxID limit cursor))"

definition update_patch :: "update_draft_request \<Rightarrow> draft_patch" where
  "update_patch req = empty_draft_patch
     \<lparr>dp_Subject := ur_Subject req, dp_To := ur_To req, dp_Cc := ur_Cc req, dp_Bcc := ur_Bcc req,
      dp_TextBody := ur_TextBody req, dp_HtmlBody := ur_HtmlBody req,
      dp_ScheduledAt := ur_ScheduledAt req, dp_Metadata := ur_Metadata req\<rparr>"

definition update_body ::
  "claims \<Rightarrow> uuid \<Rightarrow> update_draft_request \<Rightarrow> time \<Rightarrow> att_upload list \<Rightarrow> draft io" where
  "update_body c draftID req now attUploads =
     go_bind (DraftStore_GetByID (cl_OrgID c) draftID) (\<lambda>existing.
     go_bind (fail_if (d_ReviewStatus existing \<noteq> DraftReviewStatusPending) ErrInvalidReviewStatus) (\<lambda>_.
     go_bind (DraftStore_Update (cl_OrgID c) draftID (update_patch req)) (\<lambda>draft.
     go_bind (case ur_Attachments req of
         None \<Rightarrow> ret ()
       | Some _ \<Rightarrow>
           go_bind (MessageStore_DeleteDraftAttachments (cl_OrgID c) draftID) (\<lambda>_.
           for_each (create_draft_attachment (cl_OrgID c) draftID now) attUploads)) (\<lambda>_.
     ret draft))))"

definition DraftService_Update :: "draft_service \<Rightarrow> claims \<Rightarrow> uuid \<Rightarrow> update_draft_request \<Rightarrow> draft io" where
  "DraftService_Update s c draftID req =
     go_bind (for_each check_addresses [nil_slice (ur_To req), nil_slice (ur_Cc req), nil_slice (ur_Bcc req)]) (\<lambda>_.
     go_bind time_Now (\<lambda>now.
     go_bind (case ur_Attachments req of
         None \<Rightarrow> ret []
       | Some atts \<Rightarrow> uploadAttachments s (cl_OrgID c) draftID ''drafts'' atts) (\<lambda>attUploads.
     wrap_err ''update draft'' (WithOrgTx (cl_OrgID c) (update_body c draftID req now attUploads)))))"

definition DraftService_Delete :: "draft_service \<Rightarrow> claims \<Rightarrow> uuid \<Rightarrow> unit io" where
  "DraftService_Delete s c draftID =
     wrap_err ''delete draft'' (WithOrgTx (cl_OrgID c) (DraftStore_Delete (cl_OrgID c) draftID))"

text \<open>Approve: the thread of the message, the message, and the body of the transaction.\<close>

definition inbox_sender :: "inbox \<Rightarrow> email_address" where
  "inbox_sender ib = \<lparr>ea_Email = ib_Email ib, ea_Name = ib_DisplayName ib\<rparr>"

definition approve_thread :: "claims \<Rightarrow> draft \<Rightarrow> inbox \<Rightarrow> time \<Rightarrow> thread io" where
  "approve_thread c existing ib now =
     (case d_ThreadID existing of
        Some t \<Rightarrow> wrap_err ''get thread'' (ThreadStore_GetByID (cl_OrgID c) t)
      | None \<Rightarrow>
          go_bind uuid_New (\<lambda>i.
          let thread = emptyThread i (cl_OrgID c) (d_InboxID existing) (d_Subject existing)
                (snippetFrom (d_TextBody existing))
                (participants_of (inbox_sender ib) (d_To existing) (d_Cc existing)) now in
          go_bind (wrap_err ''create thread'' (ThreadStore_Create thread)) (\<lambda>_. ret thread)))"

definition draft_references :: "draft \<Rightarrow> string list" where
  "draft_references existing = (if d_InReplyTo existing \<noteq> [] then [d_InReplyTo existing] else [])"

definition approved_message ::
  "claims \<Rightarrow> draft \<Rightarrow> inbox \<Rightarrow> uuid \<Rightarrow> uuid \<Rightarrow> string \<Rightarrow> bool \<Rightarrow> time \<Rightarrow> message" where
  "approved_message c existing ib threadID msgID messageID hasAtts now =
     \<lparr>m_ID = msgID, m_OrgID = cl_OrgID c, m_InboxID = d_InboxID existing, m_ThreadID = threadID,
      m_MessageID = messageID, m_InReplyTo = d_InReplyTo existing, m_References = draft_references existing,
      m_Direction = DirectionOutbound, m_Status = MessageStatusSending, m_Subject = d_Subject existing,
      m_From = inbox_sender ib, m_To = d_To existing, m_Cc = d_Cc existing, m_Bcc = d_Bcc existing,
      m_ReplyTo = [], m_RawS3Key = [], m_HtmlS3Key = [], m_TextS3Key = [], m_SizeBytes = 0, m_Headers = [],
      m_Metadata = d_Metadata existing, m_IsRead = False, m_IsStarred = False, m_HasAttachments = hasAtts,
      m_Snippet = snippetFrom (d_TextBody existing), m_SentAt = Some now, m_ReceivedAt = None,
      m_Attachments = [], m_CreatedAt = now, m_UpdatedAt = now\<rparr>"

definition approved_job :: "(uuid \<Rightarrow> string) \<Rightarrow> claims \<Rightarrow> draft \<Rightarrow> message \<Rightarrow> outbound_job" where
  "approved_job fmt c existing msg =
     \<lparr>oj_MessageID = fmt (m_ID msg), oj_OrgID = fmt (cl_OrgID c), oj_InboxID = fmt (d_InboxID existing),
      oj_ThreadID = fmt (m_ThreadID msg), oj_From = m_From msg, oj_To = d_To existing, oj_CC = d_Cc existing,
      oj_Subject = d_Subject existing, oj_BodyText = d_TextBody existing, oj_BodyHTML = d_HtmlBody existing,
      oj_InReplyTo = d_InReplyTo existing, oj_References = draft_references existing\<rparr>"

definition review_patch :: "string \<Rightarrow> string \<Rightarrow> time \<Rightarrow> uuid \<Rightarrow> uuid option \<Rightarrow> draft_patch" where
  "review_patch status note now reviewer msgID = empty_draft_patch
     \<lparr>dp_ReviewStatus := Some status, dp_ReviewNote := Some note, dp_ReviewedAt := Some now,
      dp_ReviewedBy := Some reviewer, dp_MessageID := msgID\<rparr>"

definition approve_publish :: "draft_service \<Rightarrow> claims \<Rightarrow> draft \<Rightarrow> message \<Rightarrow> draft \<Rightarrow> unit io" where
  "approve_publish s c existing msg draft =
     go_bind (asks fmt_uuid) (\<lambda>fmt.
     go_bind (ignore_err (Publish (ds_outboundProducer s) (fmt (m_ID msg)) (approved_job fmt c existing msg))) (\<lambda>_.
     go_bind (NewBase EventDraftApproved (cl_OrgID c)) (\<lambda>b.
     ignore_err (PublishEvent (ds_eventProducer s)
       (DraftApprovedEvent b (d_ID existing) (thread_or_Nil draft) (d_InboxID existing))))))"

definition approve_body :: "draft_service \<Rightarrow> claims \<Rightarrow> uuid \<Rightarrow> string \<Rightarrow> time \<Rightarrow> draft io" where
  "approve_body s c draftID note now =
     go_bind (DraftStore_GetByID (cl_OrgID c) draftID) (\<lambda>existing.
     go_bind (fail_if (d_ReviewStatus existing \<noteq> DraftReviewStatusPending) ErrInvalidReviewStatus) (\<lambda>_.
     go_bind (wrap_err ''get inbox'' (InboxStore_GetByID (cl_OrgID c) (d_InboxID existing))) (\<lambda>ib.
     go_bind (approve_thread c existing ib now) (\<lambda>thread.
     go_bind (wrap_err ''list draft attachments'' (MessageStore_ListDraftAttachments (cl_OrgID c) draftID)) (\<lambda>draftAtts.
     go_bind uuid_New (\<lambda>msgID.
     go_bind generateMessageID (\<lambda>messageID.
     let msg = approved_message c existing ib (th_ID thread) msgID messageID (length draftAtts > 0) now in
     go_bind (wrap_err ''create message'' (MessageStore_Create msg)) (\<lambda>_.
     go_bind (if length draftAtts > 0
              then wrap_err ''link draft attachments'' (MessageStore_LinkDraftAttachments draftID msgID)
              else ret ()) (\<lambda>_.
     go_bind (wrap_err ''incr message count'' (ThreadStore_IncrMessageCount (th_ID thread) now (m_Snippet msg))) (\<lambda>_.
     go_bind (DraftStore_Update (cl_OrgID c) draftID
       (review_patch DraftReviewStatusApproved note now (cl_KeyID c) (Some msgID))) (\<lambda>draft.
     go_bind (approve_publish s c existing msg draft) (\<lambda>_.
     ret draft))))))))))))"

definition DraftService_Approve :: "draft_service \<Rightarrow> claims \<Rightarrow> uuid \<Rightarrow> string \<Rightarrow> draft io" where
  "DraftService_Approve s c draftID note =
     go_bind time_Now (\<lambda>now.
     wrap_err ''approve draft'' (WithOrgTx (cl_OrgID c) (approve_body s c draftID note now)))"

definition reject_body :: "draft_service \<Rightarrow> claims \<Rightarrow> uuid \<Rightarrow> string \<Rightarrow> time \<Rightarrow> draft io" where
  "reject_body s c draftID reason now =
     go_bind (DraftStore_GetByID (cl_OrgID c) draftID) (\<lambda>existing.
     go_bind (fail_if (d_ReviewStatus existing \<noteq> DraftReviewStatusPending) ErrInvalidReviewStatus) (\<lambda>_.
     go_bind (DraftStore_Update (cl_OrgID c) draftID
       (review_patch DraftReviewStatusRejected reason now (cl_KeyID c) None)) (\<lambda>draft.
     go_bind (NewBase EventDraftRejected (cl_OrgID c)) (\<lambda>b.
     go_bind (ignore_err (PublishEvent (ds_eventProducer s)
       (DraftRejectedEvent b draftID (thread_or_Nil draft) (d_InboxID existing) reason))) (\<lambda>_.
     ret draft)))))"

definition DraftService_Reject :: "draft_service \<Rightarrow> claims \<Rightarrow> uuid \<Rightarrow> string \<Rightarrow> draft io" where
  "DraftService_Reject s c draftID reason =
     go_bind time_Now (\<lambda>now.
     wrap_err ''reject draft'' (WithOrgTx (cl_OrgID c) (reject_body s c draftID reason now)))"

end
