(* ===== verification/Demo.thy ===== *)
theory Demo
  imports Draft_Service
begin

text \<open>
  A small concrete deployment, used only to apply the properties at concrete inputs: an environment
  without faults whose formatters print in unary, two organisations, an inbox, a thread with one
  message, and drafts in several states.
\<close>

definition unary :: "nat \<Rightarrow> string" where
  "unary n = replicate n (CHR ''1'')"

definition unary_int :: "int \<Rightarrow> string" where
  "unary_int t = (if t < 0 then CHR ''-'' # unary (nat (- t)) else unary (nat t))"

definition read_unary_int :: "string \<Rightarrow> int option" where
  "read_unary_int s = (case s of [] \<Rightarrow> Some 0 | ch # r \<Rightarrow> Some (if ch = CHR ''-'' then - int (length r) else int (length s)))"

definition demo_env :: env where
  "demo_env =
     \<lparr>new_uuid = (\<lambda>n. 20 + n), clock = (\<lambda>n. int n), fault = (\<lambda>n. None), fmt_uuid = unary,
      parse_uuid = (\<lambda>s. Some (length s)), uuid_on_error = (\<lambda>s. 0), fmt_time = unary_int, parse_time = read_unary_int,
      cast_time = read_unary_int, cast_uuid = (\<lambda>s. Some (length s)),
      parse_address = (\<lambda>s. if CHR ''@'' \<in> set s then None else Some ''missing @''),
      pg_text = (\<lambda>s. s), any_row = (\<lambda>n. 0), scan_order = (\<lambda>n i. i), jsonb_merge = None,
      mail_lib = demo_mail_lib, fmt_address = (\<lambda>a. ea_Name a @ '' <'' @ ea_Email a @ ''>''),
      rand_bytes = (\<lambda>n k. replicate k (CHR ''r'')), gcm_seal = (\<lambda>k n s. rev s), gcm_open = (\<lambda>k n s. Some (rev s)),
      hmac_sha256 = (\<lambda>k s. k @ s), event_json = (\<lambda>e. ''{'' @ be_Type (GetBase e) @ ''}''),
      event_map = (\<lambda>e. [(''type'', JStr (be_Type (GetBase e)))]),
      url_error = (\<lambda>s. if s = [] then Some ''empty url'' else None),
      http_do = (\<lambda>n req. Inr (if hr_URL req = ''u'' then 200 else 500, ''ok'')), ses_answer = (\<lambda>n m. None),
      ses_domains = \<lparr>sda_Token = (\<lambda>n d. Inr ''t''), sda_DkimTokens = (\<lambda>n d. Inr [''k'']), sda_Done = (\<lambda>n c. Inr ()),
        sda_Verification = (\<lambda>n d. Inr (Some (''Success'', ''t''))), sda_Dkim = (\<lambda>n d. Inr (Some [''k'']))\<rparr>,
      sha256_sum = (\<lambda>s. s), jwt_verify = (\<lambda>t s. Inr \<lparr>lc_ExpiresAt = Some 1000, lc_TokenVersion = 1, lc_OrgID = s, lc_AWSAccountIDs = [],
        lc_LicenseKey = [], lc_Plan = ''team'', lc_Features = [''webhooks''], lc_SeatLimit = 5, lc_RenewalDue = 0\<rparr>),
      validate_reply = (\<lambda>s. Some (True, [])), expired_reply = (\<lambda>s. Some (True, s)), renew_reply = Some, trial_reply = Some,
      search_lib = \<lparr>se_matches = (\<lambda>q (s, a, n). contains s q), se_rank = (\<lambda>q (s, a, n). int (length s)),
        se_distance = (\<lambda>u v. int (length u) - int (length v)), se_similarity = uminus\<rparr>,
      cast_vector = (\<lambda>s. Some (map of_char s)), fmt_float32 = unary, embed_json = (\<lambda>m t. m @ t),
      embed_reply = (\<lambda>s. Some [map of_char s]), ws_post = (\<lambda>n i. if i = ''gone'' then Some ''GoneException'' else None)\<rparr>"

definition alice :: email_address where "alice = \<lparr>ea_Email = ''a@x'', ea_Name = ''Alice''\<rparr>"
definition bob :: email_address where "bob = \<lparr>ea_Email = ''b@y'', ea_Name = ''Bob''\<rparr>"
definition carol :: email_address where "carol = \<lparr>ea_Email = ''c@z'', ea_Name = ''''\<rparr>"

definition demo_inbox :: inbox where
  "demo_inbox = \<lparr>ib_ID = 3, ib_OrgID = 1, ib_PodID = None, ib_Email = ''a@x'', ib_DisplayName = ''Alice'',
     ib_Status = ''active'', ib_Settings = [], ib_CreatedAt = 0, ib_UpdatedAt = 0\<rparr>"

definition demo_draft :: "uuid \<Rightarrow> string \<Rightarrow> uuid option \<Rightarrow> draft_row" where
  "demo_draft i st t =
     \<lparr>dr_id = i, dr_org_id = 1, dr_inbox_id = 3, dr_thread_id = t,
      dr_to_addresses = [bob], dr_cc_addresses = [bob, carol], dr_bcc_addresses = [],
      dr_subject = ''hi'', dr_body_text = ''text'', dr_body_html = '''', dr_metadata = [],
      dr_review_status = st, dr_review_note = '''', dr_reviewed_by = None, dr_reviewed_at = None,
      dr_scheduled_at = None, dr_message_id = None, dr_created_at = int i, dr_updated_at = 0\<rparr>"

definition demo_thread :: thread_row where
  "demo_thread = \<lparr>tr_id = 8, tr_org_id = 1, tr_inbox_id = 3, tr_subject = ''hi'', tr_snippet = '''',
     tr_status = ''open'', tr_is_read = False, tr_is_starred = False, tr_message_count = 1,
     tr_participants = [alice, bob], tr_last_message_at = Some 0, tr_created_at = 0, tr_updated_at = 0\<rparr>"

definition demo_message :: message_row where
  "demo_message = \<lparr>mr_id = 9, mr_org_id = 1, mr_inbox_id = 3, mr_thread_id = 8,
     mr_message_id_header = ''m9'', mr_in_reply_to = '''', mr_references_header = [''m0''],
     mr_direction = ''inbound'', mr_status = ''received'', mr_from_address = ''b@y'', mr_from_name = ''Bob'',
     mr_to_addresses = [alice], mr_cc_addresses = [carol], mr_bcc_addresses = [], mr_reply_to = '''',
     mr_subject = ''hi'', mr_body_text_key = '''', mr_body_html_key = '''', mr_raw_key = ''raw'',
     mr_size_bytes = 0, mr_is_read = False, mr_is_starred = False, mr_has_attachments = False,
     mr_headers = [], mr_metadata = [], mr_sent_at = None, mr_received_at = Some 0,
     mr_created_at = 0, mr_updated_at = 0, mr_embedding = None, mr_embedded_at = None\<rparr>"

definition demo_attachment :: attachment where
  "demo_attachment = \<lparr>at_ID = 10, at_OrgID = 1, at_MessageID = None, at_DraftID = Some 5,
     at_Filename = ''f'', at_ContentType = ''text/plain'', at_ContentID = '''', at_Inline = False,
     at_SizeBytes = 1, at_S3Key = ''k'', at_CreatedAt = 0\<rparr>"

definition demo_label :: label where
  "demo_label = \<lparr>lb_ID = 11, lb_OrgID = 1, lb_Name = ''todo'', lb_Color = ''#00ff00'', lb_Description = '''', lb_CreatedAt = 0\<rparr>"

definition demo_webhook :: webhook where
  "demo_webhook = \<lparr>wh_ID = 12, wh_OrgID = 1, wh_URL = ''u'', wh_Secret = '''', wh_Events = None, wh_PodID = None,
     wh_InboxID = None, wh_IsActive = True, wh_FailureCount = 0, wh_LastSuccessAt = None,
     wh_LastFailureAt = None, wh_CreatedAt = 0, wh_UpdatedAt = 0, wh_AuthHeaderName = None,
     wh_AuthHeaderValueEnc = '''', wh_AuthHeaderValue = ''''\<rparr>"

definition demo_organization :: "uuid \<Rightarrow> string \<Rightarrow> organization" where
  "demo_organization i name = \<lparr>o_ID = i, o_Name = name, o_Slug = name, o_Plan = ''free'', o_Settings = [], o_CreatedAt = 0, o_UpdatedAt = 0\<rparr>"

definition demo_pod :: pod where
  "demo_pod = \<lparr>p_ID = 13, p_OrgID = 1, p_Name = ''p'', p_Slug = ''p'', p_Description = ''d'', p_Settings = [], p_CreatedAt = 0, p_UpdatedAt = 0\<rparr>"

definition demo_db :: database where
  "demo_db =
     \<lparr>t_organizations = [demo_organization 1 ''one'', demo_organization 2 ''two''],
      t_pods = [], t_inboxes = [demo_inbox], t_threads = [demo_thread], t_messages = [demo_message],
      t_attachments = [demo_attachment], t_labels = [demo_label], t_thread_labels = [],
      t_drafts = [demo_draft 5 ''pending'' None, demo_draft 6 ''rejected'' None, demo_draft 7 ''pending'' (Some 8)],
      t_webhooks = [demo_webhook], t_webhook_deliveries = [], t_api_keys = [], t_domain_configs = [],
      t_websocket_connections = []\<rparr>"

definition demo_world :: world where
  "demo_world = \<lparr>w_db = demo_db, w_s3 = Map.empty, w_sent = [], w_http = [], w_ses = [], w_ses_calls = [], w_ssm = Map.empty, w_pushed = [], w_org = '''', w_pod = '''',
     w_failed = False, w_now = 0, w_tick = 0\<rparr>"

definition demo_publisher :: publisher where
  "demo_publisher = \<lparr>webhookDeliveryURL = ''wh'', wsDispatchURL = ''ws'', embedderURL = ''em'', emailOutboundURL = ''out''\<rparr>"

definition demo_draft_service :: draft_service where
  "demo_draft_service = \<lparr>ds_eventProducer = demo_publisher, ds_outboundProducer = demo_publisher, ds_attachmentsS3 = Some ''att''\<rparr>"

definition demo_claims :: "uuid \<Rightarrow> claims" where
  "demo_claims orgID = \<lparr>cl_OrgID = orgID, cl_KeyID = 4, cl_Scopes = [''org:admin''], cl_PodID = None,
     cl_Plan = '''', cl_Features = [], cl_SeatLimit = - 1\<rparr>"

lemma demo_codec: "cursor_codec demo_env"
proof -
  have "read_unary_int (unary_int t) = Some t" for t
  proof (cases "t < 0")
    case False
    then obtain n where t: "t = int n" by (metis nonneg_int_cases not_less)
    then have "unary_int t = unary n" by (simp add: unary_int_def)
    then show ?thesis by (cases n) (simp_all add: t read_unary_int_def unary_def)
  qed (simp add: read_unary_int_def unary_int_def unary_def)
  moreover have "CHR ''|'' \<notin> set (unary_int t)" for t by (auto simp: unary_int_def unary_def)
  ultimately show ?thesis by (auto simp: cursor_codec_def demo_env_def unary_def)
qed

lemma demo_db_of_world [simp]: "w_db demo_world = demo_db" "w_failed demo_world = False" "w_tick demo_world = 0"
  by (simp_all add: demo_world_def)

lemma demo_fault [simp]: "fault demo_env n = None"
  by (simp add: demo_env_def)

end
