(* ===== verification/Draft_Lifecycle.thy ===== *)
theory Draft_Lifecycle
  imports Demo
begin

text \<open>
  The life of a draft under \<open>services/inbox/service/draft_service.go\<close>: what a successful
  operation does to the tables, and that a reviewed draft is never edited or sent again.
\<close>

section \<open>Keys\<close>

definition draft_keys :: "database \<Rightarrow> bool" where
  "draft_keys d \<longleftrightarrow> distinct (map dr_id (t_drafts d))"

lemma draft_keys_upd [simp]:
  "(\<And>r. dr_id (f r) = dr_id r) \<Longrightarrow> draft_keys (d\<lparr>t_drafts := upd_where p f (t_drafts d)\<rparr>) = draft_keys d"
  by (simp add: draft_keys_def)

lemma draft_select_unique:
  assumes "draft_keys d" "r \<in> set (t_drafts d)" "dr_id r = i"
    "draft_select org i now d = Inr (r', d')"
  shows "r' = r" "dr_org_id r = org"
  using draft_select_eq_Inr [OF assms(4)] distinct_map_eq [of dr_id "t_drafts d" r' r] assms
  by (auto simp: draft_keys_def)

section \<open>A successful approval\<close>

lemma approve_publish_db: "keeps_db Q (approve_publish s c existing msg draft)"
  unfolding approve_publish_def by (intro keeps_intros)

lemma approve_thread_success:
  assumes "approve_thread c ex ib now E w = (Inr t, w')"
  shows "w_now w' = w_now w \<and> ((\<exists>r. d_ThreadID ex = Some (tr_id r) \<and> r \<in> set (t_threads (w_db w)) \<and> tr_org_id r = cl_OrgID c \<and>
             t = scanThread r \<and> w_db w' = w_db w) \<or>
         (d_ThreadID ex = None \<and> th_OrgID t = cl_OrgID c \<and> \<not> has_key tr_id (th_ID t) (t_threads (w_db w)) \<and>
             th_MessageCount t = 0 \<and> th_InboxID t = d_InboxID ex \<and> th_Subject t = d_Subject ex \<and>
             th_Participants t = participants_of (inbox_sender ib) (d_To ex) (d_Cc ex) \<and>
             w_db w' = (w_db w)\<lparr>t_threads := t_threads (w_db w) @ [thread_insert_row t]\<rparr>))"
proof (cases "d_ThreadID ex")
  case None
  with assms show ?thesis
    by (auto simp: approve_thread_def Let_def go_success uuid_New_eq_Inr ThreadStore_Create_eq_Inr
        thread_insert_eq_Inr emptyThread_def)
next
  case (Some i)
  with assms have "ThreadStore_GetByID (cl_OrgID c) i E w = (Inr t, w')"
    by (simp add: approve_thread_def wrap_err_eq_Inr)
  then show ?thesis
    by (rule ThreadStore_GetByID_success) (auto simp: Some)
qed

text \<open>The tables after the body of a successful approval.\<close>

definition approved_tables :: "env \<Rightarrow> claims \<Rightarrow> draft_row \<Rightarrow> string \<Rightarrow> time \<Rightarrow> inbox \<Rightarrow> uuid \<Rightarrow> uuid \<Rightarrow> string \<Rightarrow>
    thread_row list \<Rightarrow> time \<Rightarrow> database \<Rightarrow> database" where
  "approved_tables E c r note now ib tid msgID header ths upd_time d =
     (let atts = draft_attachments (cl_OrgID c) (dr_id r) d
      in d\<lparr>t_threads := counted tid now (snippetFrom (dr_body_text r)) upd_time ths,
           t_messages := t_messages d @ [message_insert_row
             (approved_message c (scanDraft E r) ib tid msgID header (atts \<noteq> []) now)],
           t_attachments := (if atts \<noteq> [] then attachments_link (dr_id r) msgID (t_attachments d) else t_attachments d),
           t_drafts := upd_where (\<lambda>x. dr_org_id x = cl_OrgID c \<and> dr_id x = dr_id r)
             (draft_set E (review_patch DraftReviewStatusApproved note now (cl_KeyID c) (Some msgID)) upd_time)
             (t_drafts d)\<rparr>)"

lemma review_patch_nonempty [simp]: "review_patch s n t u m \<noteq> empty_draft_patch"
  by (simp add: review_patch_def empty_draft_patch_def)

lemma approve_body_success:
  assumes "approve_body s c i note now E w = (Inr x, w')"
  obtains r ib t ths msgID header where
    "draft_select (cl_OrgID c) i (w_now w) (w_db w) = Inr (r, w_db w)"
    "r \<in> set (t_drafts (w_db w))" "dr_org_id r = cl_OrgID c" "dr_id r = i" "dr_review_status r = ''pending''"
    "ib \<in> set (t_inboxes (w_db w))" "ib_ID ib = dr_inbox_id r" "ib_OrgID ib = cl_OrgID c"
    "\<not> has_key mr_id msgID (t_messages (w_db w))" "has_key tr_id (th_ID t) ths"
    "(\<exists>tr \<in> set (t_threads (w_db w)). dr_thread_id r = Some (tr_id tr) \<and> tr_org_id tr = cl_OrgID c \<and>
        t = scanThread tr \<and> ths = t_threads (w_db w)) \<or>
     (dr_thread_id r = None \<and> th_OrgID t = cl_OrgID c \<and> \<not> has_key tr_id (th_ID t) (t_threads (w_db w)) \<and>
        th_MessageCount t = 0 \<and> th_InboxID t = dr_inbox_id r \<and> th_Subject t = dr_subject r \<and>
        th_Participants t = participants_of (inbox_sender ib) (dr_to_addresses r) (dr_cc_addresses r) \<and>
        ths = t_threads (w_db w) @ [thread_insert_row t])"
    "w_db w' = approved_tables E c r note now ib (th_ID t) msgID header ths (w_now w) (w_db w)"
    "x = scanDraft E (draft_set E (review_patch DraftReviewStatusApproved note now (cl_KeyID c) (Some msgID)) (w_now w) r)"
proof -
  let ?org = "cl_OrgID c"
  from assms obtain ex w1 ib w2 t w3 atts w4 msgID w5 header w6 w7 w8 w9 w10 where
    1: "DraftStore_GetByID ?org i E w = (Inr ex, w1)" "d_ReviewStatus ex = ''pending''" and
    2: "InboxStore_GetByID ?org (d_InboxID ex) E w1 = (Inr ib, w2)" and
    3: "approve_thread c ex ib now E w2 = (Inr t, w3)" and
    4: "MessageStore_ListDraftAttachments ?org i E w3 = (Inr atts, w4)" and
    5: "w5 = tick_world w4" and 6: "w6 = tick_world w5" and
    7: "MessageStore_Create (approved_message c ex ib (th_ID t) msgID header (0 < length atts) now) E w6 = (Inr (), w7)" and
    8: "(if 0 < length atts then wrap_err ''link draft attachments'' (MessageStore_LinkDraftAttachments i msgID)
        else ret ()) E w7 = (Inr (), w8)" and
    9: "ThreadStore_IncrMessageCount (th_ID t) now (snippetFrom (d_TextBody ex)) E w8 = (Inr (), w9)" and
    10: "DraftStore_Update ?org i (review_patch ''approved'' note now (cl_KeyID c) (Some msgID)) E w9 = (Inr x, w10)" and
    11: "approve_publish s c ex (approved_message c ex ib (th_ID t) msgID header (0 < length atts) now) x E w10 = (Inr (), w')"
    unfolding approve_body_def Let_def
    by (auto simp: go_success uuid_New_eq_Inr generateMessageID_eq_Inr approved_message_def [of _ _ _ _ _ _ _ now]
        intro: that)
  from 1 obtain r where r: "draft_select ?org i (w_now w) (w_db w) = Inr (r, w_db w)" "ex = scanDraft E r"
    "w1 = tick_world w" by (auto simp: DraftStore_GetByID_eq_Inr)
  note rk = draft_select_eq_Inr [OF r(1)]
  from InboxStore_GetByID_success [OF 2] r have ib: "ib \<in> set (t_inboxes (w_db w))" "ib_ID ib = dr_inbox_id r"
    "ib_OrgID ib = ?org" "w2 = tick_world w1" by simp_all
  note t = approve_thread_success [OF 3, unfolded ib(4) r(3)]
  from 4 have atts: "atts = draft_attachments ?org i (w_db w3)" "w4 = tick_world w3"
    by (simp_all add: MessageStore_ListDraftAttachments_eq_Inr)
  have a3: "draft_attachments ?org i (w_db w3) = draft_attachments ?org i (w_db w)"
    using t by (auto simp: draft_attachments_def)
  define m where "m = message_insert_row (approved_message c ex ib (th_ID t) msgID header (atts \<noteq> []) now)"
  from 7 have m: "message_insert m (w_now w3) (w_db w3) = Inr ((), w_db w7)" "w_now w7 = w_now w3"
    by (auto simp: MessageStore_Create_eq_Inr 5 6 atts(2) m_def)
  have m': "w_db w7 = (w_db w3)\<lparr>t_messages := t_messages (w_db w3) @ [m]\<rparr>" "\<not> has_key mr_id msgID (t_messages (w_db w3))"
    "has_key tr_id (th_ID t) (t_threads (w_db w3))"
    using m(1) by (auto simp: message_insert_eq_Inr m_def message_insert_row_def approved_message_def)
  have l: "w_db w8 = (w_db w7)\<lparr>t_attachments := (if atts \<noteq> [] then attachments_link i msgID (t_attachments (w_db w7))
      else t_attachments (w_db w7))\<rparr>" "w_now w8 = w_now w7"
    using 8 by (cases atts; auto simp: go_success dest: MessageStore_LinkDraftAttachments_success)+
  have n: "w_db w9 = (w_db w8)\<lparr>t_threads := counted (th_ID t) now (snippetFrom (d_TextBody ex)) (w_now w8) (t_threads (w_db w8))\<rparr>"
    "w_now w9 = w_now w8"
    using 9 by (auto simp: ThreadStore_IncrMessageCount_eq_Inr)
  let ?p = "review_patch ''approved'' note now (cl_KeyID c) (Some msgID)"
  obtain r' d' where
    u: "draft_update E ?org i ?p (w_now w9) (w_db w9) = Inr (r', d')" "x = scanDraft E r'" "w_db w10 = d'"
    by (rule DraftStore_Update_success [OF 10 review_patch_nonempty]) (auto intro: that)
  have sel: "\<exists>rest. filter (\<lambda>x. dr_org_id x = ?org \<and> dr_id x = i) (t_drafts (w_db w)) = r # rest"
    using r(1) by (auto simp: draft_select_def query_row_def first_row_def split: list.splits)
  have d3: "t_drafts (w_db w3) = t_drafts (w_db w)" using t by auto
  have u': "r' = draft_set E ?p (w_now w9) r"
    "d' = (w_db w9)\<lparr>t_drafts := upd_where (\<lambda>x. dr_org_id x = ?org \<and> dr_id x = i) (draft_set E ?p (w_now w9)) (t_drafts (w_db w))\<rparr>"
    using u(1) sel by (auto simp: draft_update_eq_Inr n l m' d3)
  have w': "w_db w' = d'" using keeps_db_same [OF approve_publish_db 11] u(3) by simp
  show ?thesis
  proof (rule that [of r ib msgID t "t_threads (w_db w3)" header])
    show "x = scanDraft E (draft_set E (review_patch DraftReviewStatusApproved note now (cl_KeyID c) (Some msgID)) (w_now w) r)"
      using u(2) u'(1) n(2) l(2) m(2) t by auto
    show "w_db w' = approved_tables E c r note now ib (th_ID t) msgID header (t_threads (w_db w3)) (w_now w) (w_db w)"
      using t rk unfolding w' u'(2) n l m' m(2) m_def atts(1) a3 r(2)
      by (auto simp: approved_tables_def Let_def)
  qed (use 1 r rk ib m' t d3 in \<open>auto simp: r(2)\<close>)
qed

section \<open>Successful edits and rejections\<close>

lemma create_draft_attachment_keeps:
  assumes "\<And>d as. Q d \<Longrightarrow> Q (d\<lparr>t_attachments := as\<rparr>)"
  shows "keeps_db Q (for_each (create_draft_attachment org i now) ups)"
  unfolding create_draft_attachment_def MessageStore_CreateDraftAttachment_def
  by (intro keeps_intros assms)

lemma delete_draft_attachments_keeps:
  assumes "\<And>d as. Q d \<Longrightarrow> Q (d\<lparr>t_attachments := as\<rparr>)"
  shows "keeps_db Q (MessageStore_DeleteDraftAttachments org i)"
  unfolding MessageStore_DeleteDraftAttachments_def
  by (intro keeps_intros) (auto simp: stmt_keeps_def delete_draft_attachments_def assms)

definition patched :: "env \<Rightarrow> uuid \<Rightarrow> uuid \<Rightarrow> draft_patch \<Rightarrow> time \<Rightarrow> draft_row list \<Rightarrow> draft_row list" where
  "patched E org i p now rs =
     (if p = empty_draft_patch then rs else upd_where (\<lambda>x. dr_org_id x = org \<and> dr_id x = i) (draft_set E p now) rs)"

lemma DraftStore_Update_patched:
  assumes "DraftStore_Update org i p E w = (Inr x, w')"
  shows "w_db w' = (w_db w)\<lparr>t_drafts := patched E org i p (w_now w) (t_drafts (w_db w))\<rparr>"
proof (cases "p = empty_draft_patch")
  case True
  with assms show ?thesis
    by (auto simp: DraftStore_Update_def patched_def elim!: DraftStore_GetByID_success)
next
  case False
  with assms show ?thesis
    by (auto simp: patched_def draft_update_eq_Inr elim!: DraftStore_Update_success)
qed

text \<open>The patch of a call and what it may say about the review status.\<close>

lemma update_body_success:
  assumes "update_body c i req now ups E w = (Inr x, w')"
  shows "\<exists>r. draft_select (cl_OrgID c) i (w_now w) (w_db w) = Inr (r, w_db w) \<and> dr_review_status r = ''pending'' \<and>
    t_drafts (w_db w') = patched E (cl_OrgID c) i (update_patch req) (w_now w) (t_drafts (w_db w)) \<and>
    t_messages (w_db w') = t_messages (w_db w) \<and> t_threads (w_db w') = t_threads (w_db w)"
proof -
  let ?rest = "case ur_Attachments req of None \<Rightarrow> ret ()
       | Some _ \<Rightarrow> go_bind (MessageStore_DeleteDraftAttachments (cl_OrgID c) i) (\<lambda>_.
           for_each (create_draft_attachment (cl_OrgID c) i now) ups)"
  from assms obtain ex w1 w2 where
    1: "DraftStore_GetByID (cl_OrgID c) i E w = (Inr ex, w1)" "d_ReviewStatus ex = ''pending''" and
    2: "DraftStore_Update (cl_OrgID c) i (update_patch req) E w1 = (Inr x, w2)" and
    3: "?rest E w2 = (Inr (), w')"
    unfolding update_body_def by (auto simp: go_success)
  from 1 obtain r where r: "draft_select (cl_OrgID c) i (w_now w) (w_db w) = Inr (r, w_db w)" "ex = scanDraft E r"
    "w1 = tick_world w" by (auto simp: DraftStore_GetByID_eq_Inr)
  let ?Q = "\<lambda>d. t_drafts d = t_drafts (w_db w2) \<and> t_messages d = t_messages (w_db w2) \<and> t_threads d = t_threads (w_db w2)"
  have "keeps_db ?Q ?rest"
    by (intro keeps_intros create_draft_attachment_keeps delete_draft_attachments_keeps) auto
  from keeps_dbD [OF this, of w2 E] 3 have "?Q (w_db w')" by simp
  with r 1(2) DraftStore_Update_patched [OF 2] show ?thesis by auto
qed

lemma reject_body_success:
  assumes "reject_body s c i reason now E w = (Inr x, w')"
  shows "\<exists>r. draft_select (cl_OrgID c) i (w_now w) (w_db w) = Inr (r, w_db w) \<and> dr_review_status r = ''pending'' \<and>
    w_db w' = (w_db w)\<lparr>t_drafts := patched E (cl_OrgID c) i
      (review_patch DraftReviewStatusRejected reason now (cl_KeyID c) None) (w_now w) (t_drafts (w_db w))\<rparr>"
proof -
  let ?p = "review_patch DraftReviewStatusRejected reason now (cl_KeyID c) None"
  from assms obtain ex w1 w2 w3 b where
    1: "DraftStore_GetByID (cl_OrgID c) i E w = (Inr ex, w1)" "d_ReviewStatus ex = ''pending''" and
    2: "DraftStore_Update (cl_OrgID c) i ?p E w1 = (Inr x, w2)" and
    3: "NewBase EventDraftRejected (cl_OrgID c) E w2 = (Inr b, w3)" and
    4: "ignore_err (PublishEvent (ds_eventProducer s)
          (DraftRejectedEvent b i (thread_or_Nil x) (d_InboxID ex) reason)) E w3 = (Inr (), w')"
    unfolding reject_body_def by (auto simp: go_bind_eq_Inr fail_if_eq_Inr ret_eq_Inr)
  from 1 obtain r where r: "draft_select (cl_OrgID c) i (w_now w) (w_db w) = Inr (r, w_db w)" "ex = scanDraft E r"
    "w1 = tick_world w" by (auto simp: DraftStore_GetByID_eq_Inr)
  have "w_db w3 = w_db w2" by (rule keeps_db_same [OF keeps_db_publish(3) 3])
  moreover have "w_db w' = w_db w3" by (rule keeps_db_same [OF keeps_db_ignore [OF keeps_db_publish(1)] 4])
  ultimately show ?thesis using r 1(2) DraftStore_Update_patched [OF 2] by auto
qed

section \<open>Calls\<close>

datatype draft_op =
    DCreate create_draft_request
  | DGet uuid
  | DList uuid int string
  | DUpdate uuid update_draft_request
  | DDelete uuid
  | DApprove uuid string
  | DReject uuid string

definition outcome :: "(go_error + 'a) \<times> world \<Rightarrow> go_error option \<times> world" where
  "outcome rw = (case rw of (Inl e, w) \<Rightarrow> (Some e, w) | (Inr x, w) \<Rightarrow> (None, w))"

fun draft_call :: "env \<Rightarrow> draft_service \<Rightarrow> claims \<times> draft_op \<Rightarrow> world \<Rightarrow> go_error option \<times> world" where
  "draft_call E s (c, DCreate req) w = outcome (DraftService_Create s c req E w)"
| "draft_call E s (c, DGet i) w = outcome (DraftService_Get s c i E w)"
| "draft_call E s (c, DList i n cur) w = outcome (DraftService_List s c i n cur E w)"
| "draft_call E s (c, DUpdate i req) w = outcome (DraftService_Update s c i req E w)"
| "draft_call E s (c, DDelete i) w = outcome (DraftService_Delete s c i E w)"
| "draft_call E s (c, DApprove i note) w = outcome (DraftService_Approve s c i note E w)"
| "draft_call E s (c, DReject i reason) w = outcome (DraftService_Reject s c i reason E w)"

text \<open>A run of calls, whatever their results.\<close>

fun draft_calls :: "env \<Rightarrow> draft_service \<Rightarrow> (claims \<times> draft_op) list \<Rightarrow> world \<Rightarrow> world" where
  "draft_calls E s [] w = w"
| "draft_calls E s (k # ks) w = draft_calls E s ks (snd (draft_call E s k w))"

lemma snd_outcome [simp]: "snd (outcome rw) = snd rw"
  by (auto simp: outcome_def split: prod.splits sum.splits)

lemma fst_outcome: "fst (outcome rw) = Some e \<longleftrightarrow> fst rw = Inl e"
  by (auto simp: outcome_def split: prod.splits sum.splits)

section \<open>The tables after any call\<close>

lemma keeps_db_checks [keeps_intros]:
  "keeps_db Q (check_addresses a)" "keeps_db Q (for_each check_addresses as)" "keeps_db Q (uploadAttachments s org i p ats)"
proof -
  show c: "keeps_db Q (check_addresses a)" for a
    by (auto simp: check_addresses_def keeps_db_iff of_result_def go_run split: sum.splits)
  show "keeps_db Q (for_each check_addresses as)" by (intro keeps_intros c)
  show "keeps_db Q (uploadAttachments s org i p ats)"
    unfolding uploadAttachments_def uploadAttachment_def Let_def by (intro keeps_intros)
qed

lemma DraftService_Update_leaves:
  assumes "P (w_db w)"
    and "\<And>w1 x w2 now ups. update_body c i req now ups E w1 = (Inr x, w2) \<Longrightarrow> w_db w1 = w_db w \<Longrightarrow> P (w_db w2)"
  shows "leaves P (DraftService_Update s c i req) E w"
  unfolding DraftService_Update_def
  by (intro leaves_bind leaves_wrap leaves_OrgTx keeps_intros) (auto simp: assms(1) intro: assms(2))

lemma DraftService_Approve_leaves:
  assumes "P (w_db w)"
    and "\<And>w1 x w2 now. approve_body s c i note now E w1 = (Inr x, w2) \<Longrightarrow> w_db w1 = w_db w \<Longrightarrow> P (w_db w2)"
  shows "leaves P (DraftService_Approve s c i note) E w"
  unfolding DraftService_Approve_def
  by (intro leaves_bind leaves_wrap leaves_OrgTx keeps_intros) (auto simp: assms(1) intro: assms(2))

lemma DraftService_Reject_leaves:
  assumes "P (w_db w)"
    and "\<And>w1 x w2 now. reject_body s c i reason now E w1 = (Inr x, w2) \<Longrightarrow> w_db w1 = w_db w \<Longrightarrow> P (w_db w2)"
  shows "leaves P (DraftService_Reject s c i reason) E w"
  unfolding DraftService_Reject_def
  by (intro leaves_bind leaves_wrap leaves_OrgTx keeps_intros) (auto simp: assms(1) intro: assms(2))

lemma DraftService_Delete_leaves:
  assumes "P (w_db w)" and "\<And>now n d'. draft_delete (cl_OrgID c) i now (w_db w) = Inr (n, d') \<Longrightarrow> P d'"
  shows "leaves P (DraftService_Delete s c i) E w"
  unfolding DraftService_Delete_def
proof (intro leaves_wrap leaves_OrgTx)
  fix w1 x w2
  assume "DraftStore_Delete (cl_OrgID c) i E w1 = (Inr x, w2)" and db: "w_db w1 = w_db w"
  then obtain n where "draft_delete (cl_OrgID c) i (w_now w1) (w_db w) = Inr (n, w_db w2)"
    by (auto simp: DraftStore_Delete_def go_success tx_exec_eq_Inr)
  then show "P (w_db w2)" by (rule assms(2))
qed (rule assms(1))

lemma DraftService_Create_leaves:
  assumes "P (w_db w)" and "\<And>d as. P d \<Longrightarrow> P (d\<lparr>t_attachments := as\<rparr>)"
    and "\<And>r now d'. draft_insert r now (w_db w) = Inr ((), d') \<Longrightarrow> dr_org_id r = cl_OrgID c \<Longrightarrow>
       dr_review_status r = ''pending'' \<Longrightarrow> P d'"
  shows "leaves P (DraftService_Create s c req) E w"
proof -
  have tx: "leaves P (WithOrgTx (cl_OrgID c) (go_bind (DraftStore_Create (new_draft i (cl_OrgID c) req now))
      (\<lambda>_. for_each (create_draft_attachment (cl_OrgID c) i now) ups))) E w1" if db: "w_db w1 = w_db w" for w1 i now ups
  proof (rule leaves_OrgTx)
    show "P (w_db w1)" using assms(1) db by simp
    fix w2 x w3
    assume run: "go_bind (DraftStore_Create (new_draft i (cl_OrgID c) req now))
        (\<lambda>_. for_each (create_draft_attachment (cl_OrgID c) i now) ups) E w2 = (Inr x, w3)" and "w_db w2 = w_db w1"
    from run obtain w4 where 1: "DraftStore_Create (new_draft i (cl_OrgID c) req now) E w2 = (Inr (), w4)" and
      2: "for_each (create_draft_attachment (cl_OrgID c) i now) ups E w4 = (Inr x, w3)"
      by (auto simp: go_bind_eq_Inr)
    from 1 obtain d' where "draft_insert (draft_insert_row E (new_draft i (cl_OrgID c) req now)) (w_now w2) (w_db w) = Inr ((), d')"
      "w_db w4 = d'" using \<open>w_db w2 = w_db w1\<close> db by (auto simp: DraftStore_Create_eq_Inr)
    then have "P (w_db w4)"
      using assms(3) by (simp add: new_draft_def draft_insert_row_def)
    moreover have "keeps_db P (for_each (create_draft_attachment (cl_OrgID c) i now) ups)"
      by (rule create_draft_attachment_keeps) (rule assms(2))
    ultimately show "P (w_db w3)" 
      using keeps_dbD [of P "for_each (create_draft_attachment (cl_OrgID c) i now) ups" w4 E] 2 by simp
  qed
  show ?thesis
    unfolding DraftService_Create_def Let_def
    apply (rule leaves_bind, (intro keeps_intros; fail), (simp add: assms(1); fail))+
     apply (rule leaves_then)
      apply (intro leaves_wrap tx, simp)
     apply (intro keeps_intros)
    done
qed

lemma draft_reads_db:
  "w_db (snd (DraftService_Get s c i E w)) = w_db w"
  "w_db (snd (DraftService_List s c i n cur E w)) = w_db w"
proof -
  have "keeps_db Q (DraftService_Get s c i)" "keeps_db Q (DraftService_List s c i n cur)" for Q
    unfolding DraftService_Get_def DraftService_List_def by (intro keeps_intros)+
  from keeps_dbD [OF this(1), of "\<lambda>d. d = w_db w" w E] keeps_dbD [OF this(2), of "\<lambda>d. d = w_db w" w E]
  show "w_db (snd (DraftService_Get s c i E w)) = w_db w"
    "w_db (snd (DraftService_List s c i n cur E w)) = w_db w" by simp_all
qed

section \<open>The status of a draft\<close>

text \<open>The status of the draft with an id, \<open>None\<close> when there is no such draft.\<close>

definition status_of :: "uuid \<Rightarrow> database \<Rightarrow> string option" where
  "status_of i d = (case filter (\<lambda>r. dr_id r = i) (t_drafts d) of [] \<Rightarrow> None | r # _ \<Rightarrow> Some (dr_review_status r))"

lemma filter_key_unique:
  "distinct (map k rs) \<Longrightarrow> r \<in> set rs \<Longrightarrow> filter (\<lambda>x. k x = k r) rs = [r]"
  by (induction rs) (auto simp: image_iff filter_empty_conv)

lemma filter_upd_where_inv:
  "(\<And>r. q (f r) = q r) \<Longrightarrow> filter q (upd_where p f rs) = map (\<lambda>r. if p r then f r else r) (filter q rs)"
  by (induction rs) (auto simp: upd_where_def)

lemma status_of_row: "draft_keys d \<Longrightarrow> r \<in> set (t_drafts d) \<Longrightarrow> status_of (dr_id r) d = Some (dr_review_status r)"
  using filter_key_unique [of dr_id "t_drafts d" r] by (simp add: status_of_def draft_keys_def)

lemma status_of_None: "status_of i d = None \<longleftrightarrow> \<not> has_key dr_id i (t_drafts d)"
proof -
  have "status_of i d = None \<longleftrightarrow> filter (\<lambda>r. dr_id r = i) (t_drafts d) = []"
    by (simp add: status_of_def split: list.splits)
  then show ?thesis by (auto simp: filter_empty_conv has_key_def)
qed

lemma dr_review_status_set:
  "dr_review_status (draft_set E p now r) = supplied (dp_ReviewStatus p) (dr_review_status r)"
  by (simp add: draft_set_def)

lemma dp_status_patches [simp]:
  "dp_ReviewStatus (update_patch req) = None" "dp_ReviewStatus (review_patch st n t u m) = Some st"
  "dp_ReviewStatus empty_draft_patch = None"
  by (simp_all add: update_patch_def review_patch_def empty_draft_patch_def)

lemma patched_keys [simp]: "map dr_id (patched E org i p now rs) = map dr_id rs"
  by (simp add: patched_def)

text \<open>A guarded patch: the only draft it touches was pending.\<close>

lemma status_patched:
  assumes "draft_keys d" "draft_select org j now d = Inr (r, d)" "dr_review_status r = ''pending''"
    "t_drafts d' = patched E org j p now' (t_drafts d)"
  shows "status_of j d = Some ''pending''"
    and "status_of i d' = (if i = j then Some (supplied (dp_ReviewStatus p) ''pending'') else status_of i d)"
proof -
  note r = draft_select_eq_Inr [OF assms(2)]
  have u: "filter (\<lambda>x. dr_id x = j) (t_drafts d) = [r]"
    using filter_key_unique [of dr_id "t_drafts d" r] assms(1) r by (simp add: draft_keys_def)
  then show "status_of j d = Some ''pending''" using assms(3) by (simp add: status_of_def)
  have other: "map (\<lambda>r. if dr_org_id r = org \<and> dr_id r = j then draft_set E p now' r else r)
        (filter (\<lambda>x. dr_id x = i) rs) = filter (\<lambda>x. dr_id x = i) rs" if "i \<noteq> j" for rs
    using that by (induction rs) auto
  show "status_of i d' = (if i = j then Some (supplied (dp_ReviewStatus p) ''pending'') else status_of i d)"
  proof (cases "p = empty_draft_patch")
    case True
    then show ?thesis using assms(3,4) u by (auto simp: status_of_def patched_def)
  next
    case False
    then have "filter (\<lambda>x. dr_id x = i) (t_drafts d') =
        map (\<lambda>r. if dr_org_id r = org \<and> dr_id r = j then draft_set E p now' r else r) (filter (\<lambda>x. dr_id x = i) (t_drafts d))"
      using assms(4) by (simp add: patched_def filter_upd_where_inv)
    then show ?thesis
      using u r assms(3) other by (cases "i = j") (simp_all add: status_of_def dr_review_status_set)
  qed
qed

lemma patched_keeps_reviewed:
  assumes "draft_keys d" "draft_select org j now d = Inr (r0, d)" "dr_review_status r0 = ''pending''"
    "r \<in> set (t_drafts d)" "dr_review_status r \<noteq> ''pending''"
  shows "r \<in> set (patched E org j p now' (t_drafts d))"
proof -
  have "dr_id r \<noteq> j"
    using draft_select_unique(1) [OF assms(1,4) _ assms(2)] assms(3,5) by auto
  with assms(4) show ?thesis by (force simp: patched_def upd_where_def image_iff)
qed

lemma approved_tables_drafts:
  "t_drafts (approved_tables E c r note now ib tid m h ths ut d) =
     patched E (cl_OrgID c) (dr_id r) (review_patch DraftReviewStatusApproved note now (cl_KeyID c) (Some m)) ut (t_drafts d)"
  by (simp add: approved_tables_def Let_def patched_def)

text \<open>Every call keeps the primary key of the table.\<close>

lemma draft_insert_keys: "draft_insert r now d = Inr (u, d') \<Longrightarrow> draft_keys d \<Longrightarrow> draft_keys d'"
  by (auto simp: draft_insert_eq_Inr draft_keys_def has_key_def)

lemma draft_delete_keys: "draft_delete org i now d = Inr (n, d') \<Longrightarrow> draft_keys d \<Longrightarrow> draft_keys d'"
  by (auto simp: draft_delete_def Let_def draft_keys_def del_where_def distinct_map_filter)

text \<open>One rule for all calls: a predicate of the tables that is kept by every statement that a call
  can end in is kept by the call.\<close>

lemma draft_call_leaves:
  assumes "P (w_db w)"
    and create: "\<And>req r now d'. k = DCreate req \<Longrightarrow> draft_insert r now (w_db w) = Inr ((), d') \<Longrightarrow>
       dr_org_id r = cl_OrgID c \<Longrightarrow> dr_review_status r = ''pending'' \<Longrightarrow> P d'"
    and attachments: "\<And>req d as. k = DCreate req \<Longrightarrow> P d \<Longrightarrow> P (d\<lparr>t_attachments := as\<rparr>)"
    and delete: "\<And>i now n d'. k = DDelete i \<Longrightarrow> draft_delete (cl_OrgID c) i now (w_db w) = Inr (n, d') \<Longrightarrow> P d'"
    and update: "\<And>i req w1 x w2 now ups. k = DUpdate i req \<Longrightarrow> update_body c i req now ups E w1 = (Inr x, w2) \<Longrightarrow>
       w_db w1 = w_db w \<Longrightarrow> P (w_db w2)"
    and approve: "\<And>i nt w1 x w2 now. k = DApprove i nt \<Longrightarrow> approve_body s c i nt now E w1 = (Inr x, w2) \<Longrightarrow>
       w_db w1 = w_db w \<Longrightarrow> P (w_db w2)"
    and reject: "\<And>i nt w1 x w2 now. k = DReject i nt \<Longrightarrow> reject_body s c i nt now E w1 = (Inr x, w2) \<Longrightarrow>
       w_db w1 = w_db w \<Longrightarrow> P (w_db w2)"
  shows "P (w_db (snd (draft_call E s (c, k) w)))"
proof (cases k)
  case (DCreate req)
  then have "leaves P (DraftService_Create s c req) E w"
    using assms(1) create attachments by (intro DraftService_Create_leaves) blast+
  with DCreate show ?thesis by (simp add: leaves_def)
next
  case (DUpdate i req)
  then have "leaves P (DraftService_Update s c i req) E w"
    using assms(1) update by (intro DraftService_Update_leaves) blast+
  with DUpdate show ?thesis by (simp add: leaves_def)
next
  case (DDelete i)
  then have "leaves P (DraftService_Delete s c i) E w"
    using assms(1) delete by (intro DraftService_Delete_leaves) blast+
  with DDelete show ?thesis by (simp add: leaves_def)
next
  case (DApprove i nt)
  then have "leaves P (DraftService_Approve s c i nt) E w"
    using assms(1) approve by (intro DraftService_Approve_leaves) blast+
  with DApprove show ?thesis by (simp add: leaves_def)
next
  case (DReject i nt)
  then have "leaves P (DraftService_Reject s c i nt) E w"
    using assms(1) reject by (intro DraftService_Reject_leaves) blast+
  with DReject show ?thesis by (simp add: leaves_def)
qed (simp_all add: assms(1) draft_reads_db)

lemma draft_call_keys: "draft_keys (w_db w) \<Longrightarrow> draft_keys (w_db (snd (draft_call E s (c, k) w)))"
proof (rule draft_call_leaves [where P = draft_keys])
  fix i nt and w1 :: world and x w2 now
  assume k: "draft_keys (w_db w)" "w_db w1 = w_db w"
  show "update_body c i req now ups E w1 = (Inr x, w2) \<Longrightarrow> draft_keys (w_db w2)" for req ups
    using k by (auto dest!: update_body_success simp: draft_keys_def)
  show "approve_body s c i nt now E w1 = (Inr x, w2) \<Longrightarrow> draft_keys (w_db w2)"
    using k by (auto elim!: approve_body_success simp: draft_keys_def approved_tables_drafts)
  show "reject_body s c i nt now E w1 = (Inr x, w2) \<Longrightarrow> draft_keys (w_db w2)"
    using k by (auto dest!: reject_body_success simp: draft_keys_def)
qed (auto simp: draft_keys_def [of "_\<lparr>t_attachments := _\<rparr>"] draft_keys_def [symmetric] intro: draft_insert_keys draft_delete_keys)

text \<open>A reviewed draft is out of reach of every call but its deletion.\<close>

lemma draft_call_reviewed:
  assumes "draft_keys (w_db w)" "r \<in> set (t_drafts (w_db w))" "dr_review_status r \<noteq> ''pending''" "k \<noteq> DDelete (dr_id r)"
  shows "r \<in> set (t_drafts (w_db (snd (draft_call E s (c, k) w))))"
proof (rule draft_call_leaves [where P = "\<lambda>d. r \<in> set (t_drafts d)"])
  fix j nt req and w1 :: world and x w2 now ups
  assume db: "w_db w1 = w_db w"
  note guarded = patched_keeps_reviewed [OF assms(1) _ _ assms(2,3)]
  show "update_body c j req now ups E w1 = (Inr x, w2) \<Longrightarrow> r \<in> set (t_drafts (w_db w2))"
    using db by (auto dest!: update_body_success intro: guarded)
  show "approve_body s c j nt now E w1 = (Inr x, w2) \<Longrightarrow> r \<in> set (t_drafts (w_db w2))"
    using db by (elim approve_body_success) (auto simp: approved_tables_drafts intro: guarded)
  show "reject_body s c j nt now E w1 = (Inr x, w2) \<Longrightarrow> r \<in> set (t_drafts (w_db w2))"
    using db by (auto dest!: reject_body_success intro: guarded)
next
  show "k = DDelete j \<Longrightarrow> draft_delete (cl_OrgID c) j now (w_db w) = Inr (n, d') \<Longrightarrow> r \<in> set (t_drafts d')" for j now n d'
    using assms(2,4) by (auto simp: draft_delete_def Let_def)
qed (auto simp: assms(2) draft_insert_eq_Inr)

lemma reviewed_stays:
  assumes "draft_keys (w_db w)" "r \<in> set (t_drafts (w_db w))" "dr_review_status r \<noteq> ''pending''"
    "\<forall>(c, k) \<in> set calls. k \<noteq> DDelete (dr_id r)"
  shows "r \<in> set (t_drafts (w_db (draft_calls E s calls w)))"
  using assms
proof (induction calls arbitrary: w)
  case (Cons call calls)
  obtain c k where call: "call = (c, k)" by (rule prod.exhaust)
  with Cons.prems have "r \<in> set (t_drafts (w_db (snd (draft_call E s (c, k) w))))"
    by (intro draft_call_reviewed) auto
  with Cons.IH draft_call_keys [OF Cons.prems(1)] Cons.prems(3,4) show ?case by (simp add: call)
qed simp

section \<open>Properties\<close>

text \<open>C3. A draft that has been approved or rejected keeps every column through any calls that do
  not delete it: it is not edited, not reviewed again and not sent again.\<close>

theorem reviewed_draft_frozen:
  assumes "draft_keys (w_db w)" and "r \<in> set (t_drafts (w_db w))" and "dr_review_status r \<noteq> ''pending''"
    and "\<forall>(c, k) \<in> set calls. k \<noteq> DDelete (dr_id r)"
  shows "r \<in> set (t_drafts (w_db (draft_calls E s calls w)))"
  using assms by (rule reviewed_stays)

theorem reviewed_draft_frozen_witness:
  "demo_draft 6 ''rejected'' None \<in> set (t_drafts (w_db (draft_calls demo_env demo_draft_service
     [(demo_claims 1, DApprove 6 ''ok''), (demo_claims 1, DDelete 5)] demo_world)))"
  by (rule reviewed_draft_frozen) (simp_all add: draft_keys_def demo_db_def demo_draft_def)

end
