(* ===== verification/Draft_Review.thy ===== *)
theory Draft_Review
  imports Draft_Lifecycle
begin

text \<open>
  Properties of single calls of the draft service: what an approval does, that it happens at most
  once, how a reviewed or foreign draft is refused, that a failed call changes no table and that no
  call touches a row of another organisation.
\<close>

section \<open>Failed calls\<close>

lemma draft_ops_roll_back:
  "rolls_back (DraftService_Create s c req)" "rolls_back (DraftService_Get s c i)"
  "rolls_back (DraftService_List s c i n cur)" "rolls_back (DraftService_Update s c i ureq)"
  "rolls_back (DraftService_Delete s c i)" "rolls_back (DraftService_Approve s c i nt)"
  "rolls_back (DraftService_Reject s c i nt)"
proof -
  show "rolls_back (DraftService_Create s c req)"
    unfolding DraftService_Create_def Let_def
    apply (rule rolls_back_bind, (intro keeps_intros; fail))+
    apply (rule rolls_back_then)
     apply (intro rolls_back_wrap rolls_back_tx)
    apply (intro never_fails_bind never_fails_NewBase never_fails_intros)
    done
  show "rolls_back (DraftService_Get s c i)" "rolls_back (DraftService_List s c i n cur)"
    "rolls_back (DraftService_Delete s c i)"
    unfolding DraftService_Get_def DraftService_List_def DraftService_Delete_def
    by (intro rolls_back_wrap rolls_back_tx)+
  show "rolls_back (DraftService_Update s c i ureq)" "rolls_back (DraftService_Approve s c i nt)"
    "rolls_back (DraftService_Reject s c i nt)"
    unfolding DraftService_Update_def DraftService_Approve_def DraftService_Reject_def
    by (intro rolls_back_bind rolls_back_wrap rolls_back_tx keeps_intros)+
qed

lemma rolls_back_outcome:
  "rolls_back m \<Longrightarrow> fst (outcome (m E w)) = Some e \<Longrightarrow> w_db (snd (outcome (m E w))) = w_db w"
  by (cases "m E w") (auto simp: outcome_def dest: rolls_backD split: sum.splits)

text \<open>C7. A draft call that reports an error, whatever went wrong and wherever, has changed no table.\<close>

theorem draft_call_atomic:
  assumes "fst (draft_call E s call w) = Some e"
  shows "w_db (snd (draft_call E s call w)) = w_db w"
proof -
  obtain c k where "call = (c, k)" by (rule prod.exhaust)
  with assms show ?thesis
    by (cases k) (simp_all only: draft_call.simps rolls_back_outcome draft_ops_roll_back)
qed

theorem draft_call_atomic_witness:
  "w_db (snd (draft_call demo_env demo_draft_service (demo_claims 2, DApprove 5 ''ok'') demo_world)) = demo_db"
proof -
  have "fst (draft_call demo_env demo_draft_service (demo_claims 2, DApprove 5 ''ok'') demo_world) =
      Some (Wrap ''approve draft'' (Wrap ''scan draft'' ErrNoRows))" by code_simp
  from draft_call_atomic [OF this] show ?thesis by simp
qed

section \<open>Reviewed and foreign drafts\<close>

lemma GetByID_run:
  assumes "no_faults E" "\<not> w_failed w"
  shows "DraftStore_GetByID org i E w = (case draft_select org i (w_now w) (w_db w) of
      Inl e \<Rightarrow> (Inl (Wrap ''scan draft'' e), tick_world w) | Inr (r, d) \<Rightarrow> (Inr (scanDraft E r), tick_world w))"
proof (cases "draft_select org i (w_now w) (w_db w)")
  case (Inl e)
  then have "e = ErrNoRows"
    by (auto simp: draft_select_def query_row_def first_row_def split: list.splits sum.splits)
  with assms Inl show ?thesis
    by (simp add: DraftStore_GetByID_def go_bind_def wrap_err_def tx_exec_run)
next
  case (Inr rd)
  obtain r d where rd: "rd = (r, d)" by (rule prod.exhaust)
  with Inr draft_select_eq_Inr have "d = w_db w" by blast
  with assms Inr rd show ?thesis
    by (simp add: DraftStore_GetByID_def go_bind_def wrap_err_def tx_exec_run asks_def tick_world_def)
qed

lemma draft_selected:
  assumes "draft_keys d" "r \<in> set (t_drafts d)" "dr_org_id r = org"
  shows "draft_select org (dr_id r) now d = Inr (r, d)"
proof -
  have "filter (\<lambda>x. dr_org_id x = org \<and> dr_id x = dr_id r) (t_drafts d) = [r]"
  proof -
    have "filter (\<lambda>x. dr_org_id x = org) (filter (\<lambda>x. dr_id x = dr_id r) (t_drafts d)) = [r]"
      using filter_key_unique [of dr_id "t_drafts d" r] assms by (simp add: draft_keys_def)
    then show ?thesis by (simp add: conj_commute)
  qed
  then show ?thesis by (simp add: draft_select_def query_row_def first_row_def)
qed

lemma guard_run:
  assumes "no_faults E" "draft_keys (w_db w)" "r \<in> set (t_drafts (w_db w))" "dr_org_id r = org"
    "dr_review_status r \<noteq> ''pending''"
  shows "WithOrgTx org (go_bind (DraftStore_GetByID org (dr_id r)) (\<lambda>ex.
      go_bind (fail_if (d_ReviewStatus ex \<noteq> DraftReviewStatusPending) ErrInvalidReviewStatus) (\<lambda>_. rest ex))) E w =
    (Inl ErrInvalidReviewStatus, (end_tx w (tick_world (org_tx_start E org w)))\<lparr>w_db := w_db w\<rparr>)"
  using assms by (intro WithOrgTx_run_error) (simp_all add: go_bind_def GetByID_run draft_selected go_run)

text \<open>Approving or rejecting a draft that is not pending is refused with the review-status error
  (to which the handler answers 400) and leaves tables, objects and queues as they were.\<close>

lemma reviewed_draft_refused:
  assumes "no_faults E" and "draft_keys (w_db w)" and "r \<in> set (t_drafts (w_db w))"
    and "dr_org_id r = cl_OrgID c" and "dr_review_status r \<noteq> ''pending''"
    and "op \<in> {DApprove (dr_id r) why, DReject (dr_id r) why}"
  shows "\<exists>p. fst (draft_call E s (c, op) w) = Some (Wrap p ErrInvalidReviewStatus) \<and>
    (let w' = snd (draft_call E s (c, op) w) in w_db w' = w_db w \<and> w_sent w' = w_sent w \<and> w_s3 w' = w_s3 w)"
proof -
  let ?W = "(end_tx (tick_world w) (tick_world (org_tx_start E (cl_OrgID c) (tick_world w))))\<lparr>w_db := w_db w\<rparr>"
  have now: "time_Now E w = (Inr (clock E (w_tick w)), tick_world w)" by (simp add: time_Now_def)
  have a: "WithOrgTx (cl_OrgID c) (approve_body s c (dr_id r) why now) E (tick_world w) = (Inl ErrInvalidReviewStatus, ?W)" for now
    unfolding approve_body_def by (subst guard_run) (simp_all add: assms)
  have b: "WithOrgTx (cl_OrgID c) (reject_body s c (dr_id r) why now) E (tick_world w) = (Inl ErrInvalidReviewStatus, ?W)" for now
    unfolding reject_body_def by (subst guard_run) (simp_all add: assms)
  have "DraftService_Approve s c (dr_id r) why E w = (Inl (Wrap ''approve draft'' ErrInvalidReviewStatus), ?W)"
    "DraftService_Reject s c (dr_id r) why E w = (Inl (Wrap ''reject draft'' ErrInvalidReviewStatus), ?W)"
    unfolding DraftService_Approve_def DraftService_Reject_def
    by (simp_all add: go_bind_Inr wrap_err_Inl now a b)
  with assms(6) show ?thesis by (auto simp: outcome_def Let_def)
qed

lemma reviewed_draft_refused_at_demo:
  "\<exists>p. fst (draft_call demo_env demo_draft_service (demo_claims 1, DApprove 6 ''ok'') demo_world) =
     Some (Wrap p ErrInvalidReviewStatus) \<and>
    (let w' = snd (draft_call demo_env demo_draft_service (demo_claims 1, DApprove 6 ''ok'') demo_world)
     in w_db w' = w_db demo_world \<and> w_sent w' = w_sent demo_world \<and> w_s3 w' = w_s3 demo_world)"
  using reviewed_draft_refused [of demo_env demo_world "demo_draft 6 ''rejected'' None" "demo_claims 1"
      "DApprove 6 ''ok''" "''ok''" demo_draft_service]
  by (simp add: no_faults_def draft_keys_def demo_db_def demo_draft_def demo_claims_def)

section \<open>What an approval does\<close>

lemma Approve_success:
  assumes "DraftService_Approve s c i nt E w = (Inr x, w')"
  obtains now w1 w2 where "approve_body s c i nt now E w1 = (Inr x, w2)" "w_db w1 = w_db w" "w_db w' = w_db w2"
    "w_sent w1 = w_sent w" "w_sent w' = w_sent w2"
proof -
  from assms have "WithOrgTx (cl_OrgID c) (approve_body s c i nt (clock E (w_tick w))) E (tick_world w) = (Inr x, w')"
    by (simp add: DraftService_Approve_def go_success time_Now_eq_Inr)
  then show thesis by (rule WithOrgTx_success) (auto intro: that)
qed

lemma approved_message_row:
  "m = message_insert_row (approved_message c (scanDraft E r) ib tid msgID header b now) \<Longrightarrow>
   mr_id m = msgID \<and> mr_org_id m = cl_OrgID c \<and> mr_inbox_id m = dr_inbox_id r \<and> mr_thread_id m = tid \<and>
   mr_status m = ''sending'' \<and> mr_direction m = ''outbound'' \<and> mr_from_address m = ib_Email ib \<and>
   mr_to_addresses m = dr_to_addresses r \<and> mr_cc_addresses m = dr_cc_addresses r \<and>
   mr_bcc_addresses m = dr_bcc_addresses r \<and> mr_subject m = dr_subject r \<and> mr_has_attachments m = b \<and>
   mr_sent_at m = Some now"
  by (simp add: message_insert_row_def approved_message_def inbox_sender_def)

lemma counted_hit:
  "t \<in> set ths \<Longrightarrow> tr_id t = i \<Longrightarrow>
   \<exists>t' \<in> set (counted i now sn ut ths). tr_id t' = i \<and> tr_message_count t' = tr_message_count t + 1 \<and>
     tr_last_message_at t' = Some now \<and> tr_participants t' = tr_participants t"
  unfolding counted_def
  by (rule bexI [of _ "t\<lparr>tr_message_count := tr_message_count t + 1, tr_last_message_at := Some now,
        tr_snippet := sn, tr_updated_at := ut\<rparr>"], simp, simp only: in_upd_where, rule bexI [of _ t], simp_all)

text \<open>C4. A successful approval started from a pending draft of the caller's organisation.  It stores
  exactly one new message, outbound and in status sending, from the inbox's address to the draft's
  recipients; the draft is approved and points to that message; the message's thread, the
  draft's own or a new one, counts it; and all attachments of the draft are the message's now.\<close>

theorem approve_effect:
  assumes "draft_keys (w_db w)" and "DraftService_Approve s c i nt E w = (Inr x, w')"
  shows "\<exists>r \<in> set (t_drafts (w_db w)). \<exists>ib \<in> set (t_inboxes (w_db w)). \<exists>m. \<exists>t \<in> set (t_threads (w_db w')).
     dr_id r = i \<and> dr_org_id r = cl_OrgID c \<and> dr_review_status r = ''pending'' \<and> ib_ID ib = dr_inbox_id r \<and>
     t_messages (w_db w') = t_messages (w_db w) @ [m] \<and>
     mr_org_id m = cl_OrgID c \<and> mr_inbox_id m = dr_inbox_id r \<and> mr_status m = ''sending'' \<and> mr_direction m = ''outbound'' \<and>
     mr_from_address m = ib_Email ib \<and> mr_to_addresses m = dr_to_addresses r \<and> mr_cc_addresses m = dr_cc_addresses r \<and>
     mr_bcc_addresses m = dr_bcc_addresses r \<and> mr_subject m = dr_subject r \<and>
     status_of i (w_db w') = Some ''approved'' \<and> d_ReviewStatus x = ''approved'' \<and> d_MessageID x = Some (mr_id m) \<and>
     tr_id t = mr_thread_id m \<and> tr_last_message_at t = mr_sent_at m \<and>
     (case dr_thread_id r of
        Some j \<Rightarrow> tr_id t = j \<and> (\<exists>t0 \<in> set (t_threads (w_db w)). tr_id t0 = j \<and> tr_message_count t = tr_message_count t0 + 1)
      | None \<Rightarrow> \<not> has_key tr_id (tr_id t) (t_threads (w_db w)) \<and> tr_message_count t = 1) \<and>
     (\<forall>a \<in> set (t_attachments (w_db w)). at_OrgID a = cl_OrgID c \<and> at_DraftID a = Some i \<longrightarrow> mr_has_attachments m \<and>
        a\<lparr>at_MessageID := Some (mr_id m), at_DraftID := None\<rparr> \<in> set (t_attachments (w_db w')))"
proof -
  from Approve_success [OF assms(2)] obtain now w1 w2 where
    body: "approve_body s c i nt now E w1 = (Inr x, w2)" and db: "w_db w1 = w_db w" "w_db w' = w_db w2" by blast
  from approve_body_success [OF body] obtain r ib t ths msgID header where
    sel: "draft_select (cl_OrgID c) i (w_now w1) (w_db w) = Inr (r, w_db w)" and
    r: "r \<in> set (t_drafts (w_db w))" "dr_org_id r = cl_OrgID c" "dr_id r = i" "dr_review_status r = ''pending''" and
    ib: "ib \<in> set (t_inboxes (w_db w))" "ib_ID ib = dr_inbox_id r" and
    t: "(\<exists>tr \<in> set (t_threads (w_db w)). dr_thread_id r = Some (tr_id tr) \<and> tr_org_id tr = cl_OrgID c \<and>
          t = scanThread tr \<and> ths = t_threads (w_db w)) \<or>
        (dr_thread_id r = None \<and> \<not> has_key tr_id (th_ID t) (t_threads (w_db w)) \<and> th_MessageCount t = 0 \<and>
          ths = t_threads (w_db w) @ [thread_insert_row t])" and
    d': "w_db w' = approved_tables E c r nt now ib (th_ID t) msgID header ths (w_now w1) (w_db w)" and
    x: "x = scanDraft E (draft_set E (review_patch DraftReviewStatusApproved nt now (cl_KeyID c) (Some msgID)) (w_now w1) r)"
    unfolding db by metis
  define atts where "atts = draft_attachments (cl_OrgID c) i (w_db w)"
  define m where "m = message_insert_row (approved_message c (scanDraft E r) ib (th_ID t) msgID header (atts \<noteq> []) now)"
  note mr = approved_message_row [OF m_def]
  have ths': "t_threads (w_db w') = counted (th_ID t) now (snippetFrom (dr_body_text r)) (w_now w1) ths"
    and ms': "t_messages (w_db w') = t_messages (w_db w) @ [m]"
    and as': "t_attachments (w_db w') = (if atts \<noteq> [] then attachments_link i msgID (t_attachments (w_db w)) else t_attachments (w_db w))"
    by (simp_all add: d' approved_tables_def Let_def m_def atts_def r(3))
  have st: "status_of i (w_db w') = Some ''approved''"
    using status_patched(2) [OF assms(1) sel r(4), of "w_db w'"] r(3) by (simp add: d' approved_tables_drafts)
  have moved: "mr_has_attachments m \<and> a\<lparr>at_MessageID := Some msgID, at_DraftID := None\<rparr> \<in> set (t_attachments (w_db w'))"
    if "a \<in> set (t_attachments (w_db w))" "at_OrgID a = cl_OrgID c" "at_DraftID a = Some i" for a
  proof -
    have "a \<in> set atts" using that by (simp add: atts_def draft_attachments_def)
    then have "atts \<noteq> []" by auto
    moreover have "a\<lparr>at_MessageID := Some msgID, at_DraftID := None\<rparr> \<in> set (attachments_link i msgID (t_attachments (w_db w)))"
      using that(1,3) by (force simp: attachments_link_def in_upd_where)
    ultimately show ?thesis using mr by (simp add: as')
  qed
  have thread: "\<exists>t' \<in> set (t_threads (w_db w')). tr_id t' = th_ID t \<and> tr_last_message_at t' = Some now \<and>
     (case dr_thread_id r of
        Some j \<Rightarrow> tr_id t' = j \<and> (\<exists>t0 \<in> set (t_threads (w_db w)). tr_id t0 = j \<and> tr_message_count t' = tr_message_count t0 + 1)
      | None \<Rightarrow> \<not> has_key tr_id (tr_id t') (t_threads (w_db w)) \<and> tr_message_count t' = 1)"
    using t
  proof
    assume "\<exists>tr \<in> set (t_threads (w_db w)). dr_thread_id r = Some (tr_id tr) \<and> tr_org_id tr = cl_OrgID c \<and>
          t = scanThread tr \<and> ths = t_threads (w_db w)"
    then obtain tr where "tr \<in> set ths" "tr_id tr = th_ID t" "dr_thread_id r = Some (tr_id tr)" "ths = t_threads (w_db w)" by auto
    with counted_hit [OF this(1,2), of now "snippetFrom (dr_body_text r)" "w_now w1"] ths' show ?thesis by force
  next
    assume n: "dr_thread_id r = None \<and> \<not> has_key tr_id (th_ID t) (t_threads (w_db w)) \<and> th_MessageCount t = 0 \<and>
          ths = t_threads (w_db w) @ [thread_insert_row t]"
    with counted_hit [of "thread_insert_row t" ths "th_ID t" now "snippetFrom (dr_body_text r)" "w_now w1"] ths'
    show ?thesis by force
  qed
  from thread obtain t' where t': "t' \<in> set (t_threads (w_db w'))" "tr_id t' = th_ID t" "tr_last_message_at t' = Some now"
     "case dr_thread_id r of
        Some j \<Rightarrow> tr_id t' = j \<and> (\<exists>t0 \<in> set (t_threads (w_db w)). tr_id t0 = j \<and> tr_message_count t' = tr_message_count t0 + 1)
      | None \<Rightarrow> \<not> has_key tr_id (tr_id t') (t_threads (w_db w)) \<and> tr_message_count t' = 1" by blast
  have x': "d_ReviewStatus x = ''approved''" "d_MessageID x = Some msgID"
    by (simp_all add: x draft_set_def review_patch_def)
  show ?thesis
    by (rule bexI [OF _ r(1)], rule bexI [OF _ ib(1)], rule exI [of _ m], rule bexI [OF _ t'(1)])
       (use r ib ms' mr st x' t' moved in simp)
qed

theorem approve_effect_witness:
  "\<exists>m. t_messages (w_db (snd (DraftService_Approve demo_draft_service (demo_claims 1) 5 ''ok'' demo_env demo_world))) =
     t_messages (w_db demo_world) @ [m] \<and> mr_to_addresses m = [bob] \<and> mr_status m = ''sending''"
proof -
  have k: "draft_keys (w_db demo_world)" by (simp add: draft_keys_def demo_db_def demo_draft_def)
  have "\<not> isl (fst (DraftService_Approve demo_draft_service (demo_claims 1) 5 ''ok'' demo_env demo_world))"
    by code_simp
  then obtain x where "DraftService_Approve demo_draft_service (demo_claims 1) 5 ''ok'' demo_env demo_world =
      (Inr x, snd (DraftService_Approve demo_draft_service (demo_claims 1) 5 ''ok'' demo_env demo_world))"
    by (metis isl_def prod.collapse sum.exhaust)
  from approve_effect [OF k this] show ?thesis
    by (auto simp: demo_db_def demo_draft_def)
qed

section \<open>A draft is sent at most once\<close>

lemma status_of_SomeE:
  assumes "status_of i d = Some st"
  obtains r where "r \<in> set (t_drafts d)" "dr_id r = i" "dr_review_status r = st"
proof -
  from assms obtain r rest where f: "filter (\<lambda>r. dr_id r = i) (t_drafts d) = r # rest" "dr_review_status r = st"
    by (auto simp: status_of_def split: list.splits)
  then have "r \<in> set (filter (\<lambda>r. dr_id r = i) (t_drafts d))" by simp
  then have "r \<in> set (t_drafts d)" "dr_id r = i" by simp_all
  then show thesis using f(2) by (rule that)
qed

lemma approve_needs_pending:
  assumes "draft_keys (w_db w)" "r \<in> set (t_drafts (w_db w))" "dr_review_status r \<noteq> ''pending''"
  shows "DraftService_Approve s c (dr_id r) nt E w \<noteq> (Inr x, w')"
proof
  assume "DraftService_Approve s c (dr_id r) nt E w = (Inr x, w')"
  from Approve_success [OF this] obtain now w1 w2 where
    body: "approve_body s c (dr_id r) nt now E w1 = (Inr x, w2)" and db: "w_db w1 = w_db w" by blast
  obtain r' where "r' \<in> set (t_drafts (w_db w))" "dr_id r' = dr_id r" "dr_review_status r' = ''pending''"
    by (rule approve_body_success [OF body]) (auto simp: db intro: that)
  with distinct_map_eq [of dr_id "t_drafts (w_db w)" r' r] assms show False by (simp add: draft_keys_def)
qed

lemma draft_calls_keys: "draft_keys (w_db w) \<Longrightarrow> draft_keys (w_db (draft_calls E s calls w))"
proof (induction calls arbitrary: w)
  case (Cons call calls)
  then show ?case using draft_call_keys [OF Cons.prems] by (cases call) simp
qed simp

text \<open>C2. A draft is sent at most once: after a successful approval no approval of the same draft
  succeeds, by any caller and after any further calls, unless the draft is deleted in between.\<close>

theorem approved_once:
  assumes "draft_keys (w_db w)" and "DraftService_Approve s c i nt E w = (Inr x, w1)"
    and "\<forall>(c, k) \<in> set calls. k \<noteq> DDelete i"
  shows "DraftService_Approve s c' i nt' E (draft_calls E s calls w1) \<noteq> (Inr x', w')"
proof -
  have k1: "draft_keys (w_db w1)"
    using draft_call_keys [OF assms(1), of E s c "DApprove i nt"] assms(2) by (simp add: outcome_def)
  from Approve_success [OF assms(2)] obtain now w2 w3 where
    body: "approve_body s c i nt now E w2 = (Inr x, w3)" and db: "w_db w2 = w_db w" "w_db w1 = w_db w3" by blast
  have "status_of i (w_db w1) = Some ''approved''"
  proof (rule approve_body_success [OF body], goal_cases)
    case (1 r ib t ths msgID header)
    then show ?case
      using status_patched(2) [OF assms(1) 1(1) [unfolded db] 1(5), where i = i and d' = "w_db w1"]
      by (simp add: db approved_tables_drafts)
  qed
  then obtain r1 where r1: "r1 \<in> set (t_drafts (w_db w1))" "dr_id r1 = i" "dr_review_status r1 = ''approved''"
    by (rule status_of_SomeE)
  with reviewed_stays [OF k1 r1(1), of calls E s] assms(3)
  have "r1 \<in> set (t_drafts (w_db (draft_calls E s calls w1)))" by auto
  with r1 approve_needs_pending [OF draft_calls_keys [OF k1] this] show ?thesis by auto
qed

theorem approved_once_witness:
  "\<forall>x w'. DraftService_Approve demo_draft_service (demo_claims 1) 5 ''again'' demo_env
     (draft_calls demo_env demo_draft_service [(demo_claims 1, DDelete 7)]
       (snd (DraftService_Approve demo_draft_service (demo_claims 1) 5 ''ok'' demo_env demo_world))) \<noteq> (Inr x, w')"
proof -
  have k: "draft_keys (w_db demo_world)" by (simp add: draft_keys_def demo_db_def demo_draft_def)
  have "\<not> isl (fst (DraftService_Approve demo_draft_service (demo_claims 1) 5 ''ok'' demo_env demo_world))"
    by code_simp
  then obtain x where "DraftService_Approve demo_draft_service (demo_claims 1) 5 ''ok'' demo_env demo_world =
      (Inr x, snd (DraftService_Approve demo_draft_service (demo_claims 1) 5 ''ok'' demo_env demo_world))"
    by (metis isl_def prod.collapse sum.exhaust)
  moreover have "\<forall>(c, k) \<in> set [(demo_claims 1, DDelete 7)]. k \<noteq> DDelete 5" by simp
  ultimately show ?thesis by (intro allI approved_once [OF k])
qed

section \<open>Organisations\<close>

definition foreign_rows :: "uuid \<Rightarrow> database \<Rightarrow> draft_row list \<times> message_row list \<times> thread_row list" where
  "foreign_rows org d = (filter (\<lambda>r. dr_org_id r \<noteq> org) (t_drafts d), filter (\<lambda>r. mr_org_id r \<noteq> org) (t_messages d),
     filter (\<lambda>r. tr_org_id r \<noteq> org) (t_threads d))"

lemma patched_foreign:
  "filter (\<lambda>r. dr_org_id r \<noteq> org) (patched E org i p now rs) = filter (\<lambda>r. dr_org_id r \<noteq> org) rs"
  by (auto simp: patched_def intro!: filter_upd_where_other)

lemma counted_foreign:
  assumes "distinct (map tr_id ths)" "t \<in> set ths" "tr_org_id t = org"
  shows "filter (\<lambda>r. tr_org_id r \<noteq> org) (counted (tr_id t) now sn ut ths) = filter (\<lambda>r. tr_org_id r \<noteq> org) ths"
  unfolding counted_def
proof (rule filter_upd_where_other)
  fix r assume "r \<in> set ths" "tr_id r = tr_id t"
  then have "r = t" using distinct_map_eq [OF assms(1)] assms(2) by metis
  with assms(3) show "\<not> tr_org_id r \<noteq> org"
    "\<not> tr_org_id (r\<lparr>tr_message_count := tr_message_count r + 1, tr_last_message_at := Some now,
        tr_snippet := sn, tr_updated_at := ut\<rparr>) \<noteq> org" by simp_all
qed

text \<open>C8. A draft call changes no draft, message or thread of another organisation, whichever ids the
  caller names.\<close>

theorem draft_call_isolated:
  assumes "distinct (map tr_id (t_threads (w_db w)))"
  shows "foreign_rows (cl_OrgID c) (w_db (snd (draft_call E s (c, k) w))) = foreign_rows (cl_OrgID c) (w_db w)"
proof (rule draft_call_leaves [where P = "\<lambda>d. foreign_rows (cl_OrgID c) d = foreign_rows (cl_OrgID c) (w_db w)"])
  fix i nt and w1 :: world and x w2 now
  assume body: "approve_body s c i nt now E w1 = (Inr x, w2)" and db: "w_db w1 = w_db w"
  from approve_body_success [OF body] obtain r ib t ths msgID header where
    r: "dr_id r = i" and
    t: "(\<exists>tr \<in> set (t_threads (w_db w)). tr_org_id tr = cl_OrgID c \<and> t = scanThread tr \<and> ths = t_threads (w_db w)) \<or>
        (th_OrgID t = cl_OrgID c \<and> \<not> has_key tr_id (th_ID t) (t_threads (w_db w)) \<and>
          ths = t_threads (w_db w) @ [thread_insert_row t])" and
    d': "w_db w2 = approved_tables E c r nt now ib (th_ID t) msgID header ths (w_now w1) (w_db w)"
    unfolding db by metis
  have "distinct (map tr_id ths) \<and> (\<exists>tr \<in> set ths. tr_id tr = th_ID t \<and> tr_org_id tr = cl_OrgID c) \<and>
      filter (\<lambda>r. tr_org_id r \<noteq> cl_OrgID c) ths = filter (\<lambda>r. tr_org_id r \<noteq> cl_OrgID c) (t_threads (w_db w))"
    using t assms by (auto simp: has_key_def)
  then obtain tr where "distinct (map tr_id ths)" "tr \<in> set ths" "tr_id tr = th_ID t" "tr_org_id tr = cl_OrgID c"
     and f: "filter (\<lambda>r. tr_org_id r \<noteq> cl_OrgID c) ths = filter (\<lambda>r. tr_org_id r \<noteq> cl_OrgID c) (t_threads (w_db w))" by blast
  with counted_foreign [OF this(1,2,4)] have
    "filter (\<lambda>r. tr_org_id r \<noteq> cl_OrgID c) (counted (th_ID t) now (snippetFrom (dr_body_text r)) (w_now w1) ths) =
     filter (\<lambda>r. tr_org_id r \<noteq> cl_OrgID c) (t_threads (w_db w))" by simp
  then show "foreign_rows (cl_OrgID c) (w_db w2) = foreign_rows (cl_OrgID c) (w_db w)"
    unfolding foreign_rows_def d' approved_tables_drafts patched_foreign
    by (simp add: approved_tables_def Let_def message_insert_row_def approved_message_def)
next
  fix i req and w1 :: world and x w2 now ups
  assume "update_body c i req now ups E w1 = (Inr x, w2)" "w_db w1 = w_db w"
  then show "foreign_rows (cl_OrgID c) (w_db w2) = foreign_rows (cl_OrgID c) (w_db w)"
    by (auto dest!: update_body_success simp: foreign_rows_def patched_foreign)
next
  fix i nt and w1 :: world and x w2 now
  assume "reject_body s c i nt now E w1 = (Inr x, w2)" "w_db w1 = w_db w"
  then show "foreign_rows (cl_OrgID c) (w_db w2) = foreign_rows (cl_OrgID c) (w_db w)"
    by (auto dest!: reject_body_success simp: foreign_rows_def patched_foreign)
next
  fix i now n d'
  assume "draft_delete (cl_OrgID c) i now (w_db w) = Inr (n, d')"
  then show "foreign_rows (cl_OrgID c) d' = foreign_rows (cl_OrgID c) (w_db w)"
    using drafts.del_others [of "cl_OrgID c" i now "w_db w" n d']
    by (auto simp: foreign_rows_def draft_delete_def Let_def)
qed (auto simp: foreign_rows_def draft_insert_eq_Inr)

theorem draft_call_isolated_witness:
  "foreign_rows 2 (w_db (snd (draft_call demo_env demo_draft_service (demo_claims 2, DApprove 5 ''ok'') demo_world))) =
   foreign_rows 2 (w_db demo_world)"
  using draft_call_isolated [of demo_world "demo_claims 2" demo_env demo_draft_service "DApprove 5 ''ok''"]
  by (simp add: demo_db_def demo_claims_def)

lemma foreign_run:
  assumes "no_faults E" and "\<forall>r \<in> set (t_drafts (w_db w)). dr_id r = i \<longrightarrow> dr_org_id r \<noteq> org"
  shows "\<exists>w2. WithOrgTx org (go_bind (DraftStore_GetByID org i) rest) E w = (Inl (Wrap ''scan draft'' ErrNoRows), w2)"
proof -
  have "draft_select org i now (w_db w) = Inl ErrNoRows" for now
    by (rule drafts.foreign_get) (use assms(2) in blast)
  then have "go_bind (DraftStore_GetByID org i) rest E (org_tx_start E org w) =
      (Inl (Wrap ''scan draft'' ErrNoRows), tick_world (org_tx_start E org w))"
    by (intro go_bind_Inl) (simp add: GetByID_run assms(1))
  from WithOrgTx_run_error [where fn = "go_bind (DraftStore_GetByID org i) rest", OF assms(1) this]
  show ?thesis by blast
qed

text \<open>A draft of another organisation is not found: reading, deleting, approving or rejecting it
  ends in the not-found error (404), exactly as for an id that does not exist.\<close>

lemma foreign_draft_not_found:
  assumes "no_faults E" and "\<And>r. r \<in> set (t_drafts (w_db w)) \<Longrightarrow> dr_id r = i \<Longrightarrow> dr_org_id r \<noteq> cl_OrgID c"
    and "op \<in> {DGet i, DDelete i, DApprove i why, DReject i why}"
  shows "\<exists>e. fst (draft_call E s (c, op) w) = Some e \<and> IsNotFound e"
proof -
  have now: "time_Now E w = (Inr (clock E (w_tick w)), tick_world w)" by (simp add: time_Now_def)
  have f1: "\<forall>r \<in> set (t_drafts (w_db w)). dr_id r = i \<longrightarrow> dr_org_id r \<noteq> cl_OrgID c"
    using assms(2) by blast
  then have f2: "\<forall>r \<in> set (t_drafts (w_db (tick_world w))). dr_id r = i \<longrightarrow> dr_org_id r \<noteq> cl_OrgID c"
    by simp
  obtain W1 where a: "WithOrgTx (cl_OrgID c) (approve_body s c i why (clock E (w_tick w))) E (tick_world w) =
      (Inl (Wrap ''scan draft'' ErrNoRows), W1)"
    unfolding approve_body_def using foreign_run [where w = "tick_world w", OF assms(1) f2] by blast
  obtain W2 where b: "WithOrgTx (cl_OrgID c) (reject_body s c i why (clock E (w_tick w))) E (tick_world w) =
      (Inl (Wrap ''scan draft'' ErrNoRows), W2)"
    unfolding reject_body_def using foreign_run [where w = "tick_world w", OF assms(1) f2] by blast
  have "fst (DraftService_Get s c i E w) = Inl (Wrap ''get draft'' (Wrap ''scan draft'' ErrNoRows))"
    using foreign_run [where w = w and rest = "\<lambda>draft. go_bind (MessageStore_ListDraftAttachments (cl_OrgID c) i)
        (\<lambda>atts. ret (draft\<lparr>d_Attachments := d_Attachments draft @ atts\<rparr>))", OF assms(1) f1]
    by (auto simp: DraftService_Get_def wrap_err_def)
  moreover have "fst (DraftService_Delete s c i E w) = Inl (Wrap ''delete draft'' ErrNoRows)"
  proof -
    let ?st = "org_tx_start E (cl_OrgID c) w"
    have "filter (\<lambda>r. dr_org_id r = cl_OrgID c \<and> dr_id r = i) (t_drafts (w_db w)) = []"
      using assms(2) by (auto simp: filter_empty_conv)
    then obtain d where "draft_delete (cl_OrgID c) i (w_now ?st) (w_db ?st) = Inr (0, d)"
      by (simp add: draft_delete_def Let_def)
    then have "DraftStore_Delete (cl_OrgID c) i E ?st = (Inl ErrNoRows, (tick_world ?st)\<lparr>w_db := d\<rparr>)"
      by (simp add: DraftStore_Delete_def go_bind_def wrap_err_def tx_exec_run assms(1) go_run)
    from WithOrgTx_run_error [where fn = "DraftStore_Delete (cl_OrgID c) i", OF assms(1) this] show ?thesis
      by (simp add: DraftService_Delete_def wrap_err_def)
  qed
  moreover have "fst (DraftService_Approve s c i why E w) = Inl (Wrap ''approve draft'' (Wrap ''scan draft'' ErrNoRows))"
    "fst (DraftService_Reject s c i why E w) = Inl (Wrap ''reject draft'' (Wrap ''scan draft'' ErrNoRows))"
    unfolding DraftService_Approve_def DraftService_Reject_def
    by (simp_all add: go_bind_Inr wrap_err_Inl now a b)
  ultimately show ?thesis using assms(3) by (auto simp: fst_outcome IsNotFound_def)
qed

lemma foreign_draft_not_found_at_demo:
  "\<exists>e. fst (draft_call demo_env demo_draft_service (demo_claims 2, DDelete 5) demo_world) = Some e \<and> IsNotFound e"
  by (rule foreign_draft_not_found [where i = 5 and why = "''no''"])
     (auto simp: no_faults_def demo_db_def demo_draft_def demo_claims_def)

text \<open>Paging through the drafts of an inbox with the returned cursors visits every pending draft of
  the inbox once, newest first, and ends, for any requested page size.\<close>

lemma draft_pages_complete:
  assumes "cursor_codec E" and "no_faults E" and "\<not> w_failed w" and "draft_keys (w_db w)"
  shows "walk (Suc (length (t_drafts (w_db w)))) (\<lambda>cursor. listed ([], []) (fst (DraftStore_List org ib limit cursor E w))) [] =
    Some (map (scanDraft E) (order_desc (\<lambda>r. (dr_created_at r, dr_id r))
      (filter (\<lambda>r. dr_org_id r = org \<and> dr_inbox_id r = ib \<and> dr_review_status r = ''pending'') (t_drafts (w_db w)))))"
  (is "walk _ ?listing [] = Some ?rows")
proof -
  let ?x = "(E, w, org, ib, limit)"
  have ok: "draft_listing_ok ?x"
    using assms by (simp add: draft_listing_ok_def no_faults_def draft_keys_def)
  have l: "draft_listing_run ?x = ?listing" "listed_drafts ?x = ?rows"
    by (simp_all add: draft_listing_run_def listed_drafts_def draft_page_where_def [abs_def])
  show ?thesis
    using draft_lists.walk_suffix [OF ok, of "[]" ?rows "Suc (length (t_drafts (w_db w)))" "[]"]
      draft_lists.first_page [OF ok]
    by (simp add: l order_desc_def less_Suc_eq_le length_filter_le)
qed

lemma draft_pages_complete_at_demo:
  "walk (Suc (length (t_drafts demo_db))) (\<lambda>cursor. listed ([], []) (fst (DraftStore_List 1 3 1 cursor demo_env demo_world))) [] =
    Some (map (scanDraft demo_env) (order_desc (\<lambda>r. (dr_created_at r, dr_id r))
      (filter (\<lambda>r. dr_org_id r = 1 \<and> dr_inbox_id r = 3 \<and> dr_review_status r = ''pending'') (t_drafts demo_db))))"
proof -
  have "draft_keys (w_db demo_world)" by (simp add: draft_keys_def demo_db_def demo_draft_def)
  from draft_pages_complete [OF demo_codec _ _ this] show ?thesis by (simp add: no_faults_def del: walk.simps)
qed

end
