(* ===== verification/Draft_Handler.thy ===== *)
theory Draft_Handler
  imports Requests Draft_Review
begin

text \<open>
  \<open>lambdas/drafts/main.go\<close>: the HTTP interface of drafts, and \<open>lambdas/scheduler_drafts/main.go\<close>:
  the periodic job that approves drafts whose time has come.
\<close>

section \<open>Request bodies\<close>

definition dec_create_draft :: "env \<Rightarrow> json \<Rightarrow> create_draft_request \<Rightarrow> create_draft_request option" where
  "dec_create_draft E = dec_struct (\<lambda>name v r.
     if name = ''thread_id'' then map_option (\<lambda>x. r\<lparr>cr_ThreadID := x\<rparr>) (dec_ptr (dec_uuid E) uuid_Nil v (cr_ThreadID r))
     else if name = ''subject'' then map_option (\<lambda>x. r\<lparr>cr_Subject := x\<rparr>) (dec_string v (cr_Subject r))
     else if name = ''to'' then map_option (\<lambda>x. r\<lparr>cr_To := or_empty x\<rparr>) (dec_addresses v)
     else if name = ''cc'' then map_option (\<lambda>x. r\<lparr>cr_Cc := or_empty x\<rparr>) (dec_addresses v)
     else if name = ''bcc'' then map_option (\<lambda>x. r\<lparr>cr_Bcc := or_empty x\<rparr>) (dec_addresses v)
     else if name = ''body_text'' then map_option (\<lambda>x. r\<lparr>cr_TextBody := x\<rparr>) (dec_string v (cr_TextBody r))
     else if name = ''body_html'' then map_option (\<lambda>x. r\<lparr>cr_HtmlBody := x\<rparr>) (dec_string v (cr_HtmlBody r))
     else if name = ''in_reply_to'' then map_option (\<lambda>x. r\<lparr>cr_InReplyTo := x\<rparr>) (dec_string v (cr_InReplyTo r))
     else if name = ''scheduled_at'' then map_option (\<lambda>x. r\<lparr>cr_ScheduledAt := x\<rparr>) (dec_ptr (dec_time E) 0 v (cr_ScheduledAt r))
     else if name = ''metadata'' then map_option (\<lambda>x. r\<lparr>cr_Metadata := or_empty x\<rparr>) (dec_map v)
     else if name = ''attachments'' then map_option (\<lambda>x. r\<lparr>cr_Attachments := or_empty x\<rparr>) (dec_attachments v)
     else Some r)"

definition zero_create_draft :: create_draft_request where
  "zero_create_draft = \<lparr>cr_InboxID = uuid_Nil, cr_ThreadID = None, cr_Subject = [], cr_To = [], cr_Cc = [], cr_Bcc = [],
     cr_TextBody = [], cr_HtmlBody = [], cr_InReplyTo = [], cr_ScheduledAt = None, cr_Metadata = [], cr_Attachments = []\<rparr>"

definition dec_update_draft :: "env \<Rightarrow> json \<Rightarrow> update_draft_request \<Rightarrow> update_draft_request option" where
  "dec_update_draft E = dec_struct (\<lambda>name v r.
     if name = ''subject'' then map_option (\<lambda>x. r\<lparr>ur_Subject := x\<rparr>) (dec_ptr dec_string [] v (ur_Subject r))
     else if name = ''to'' then map_option (\<lambda>x. r\<lparr>ur_To := x\<rparr>) (dec_addresses v)
     else if name = ''cc'' then map_option (\<lambda>x. r\<lparr>ur_Cc := x\<rparr>) (dec_addresses v)
     else if name = ''bcc'' then map_option (\<lambda>x. r\<lparr>ur_Bcc := x\<rparr>) (dec_addresses v)
     else if name = ''body_text'' then map_option (\<lambda>x. r\<lparr>ur_TextBody := x\<rparr>) (dec_ptr dec_string [] v (ur_TextBody r))
     else if name = ''body_html'' then map_option (\<lambda>x. r\<lparr>ur_HtmlBody := x\<rparr>) (dec_ptr dec_string [] v (ur_HtmlBody r))
     else if name = ''scheduled_at'' then map_option (\<lambda>x. r\<lparr>ur_ScheduledAt := x\<rparr>) (dec_ptr (dec_time E) 0 v (ur_ScheduledAt r))
     else if name = ''metadata'' then map_option (\<lambda>x. r\<lparr>ur_Metadata := x\<rparr>) (dec_map v)
     else if name = ''attachments'' then map_option (\<lambda>x. r\<lparr>ur_Attachments := x\<rparr>) (dec_attachments v)
     else Some r)"

definition zero_update_draft :: update_draft_request where
  "zero_update_draft = \<lparr>ur_Subject = None, ur_To = None, ur_Cc = None, ur_Bcc = None, ur_TextBody = None,
     ur_HtmlBody = None, ur_ScheduledAt = None, ur_Metadata = None, ur_Attachments = None\<rparr>"

section \<open>The handler\<close>

text \<open>The check of the parent path: \<open>Get\<close>, then the inbox of the path.\<close>

definition draft_in_path :: "draft_service \<Rightarrow> claims \<Rightarrow> uuid \<Rightarrow> uuid \<Rightarrow> (draft \<Rightarrow> handler) \<Rightarrow> handler" where
  "draft_in_path s c inboxID draftID k =
     handle (DraftService_Get s c draftID) (\<lambda>_. not_found ''draft'')
       (\<lambda>existing. if d_InboxID existing \<noteq> inboxID then not_found ''draft'' else k existing)"

definition drafts_collection :: "draft_service \<Rightarrow> request \<Rightarrow> claims \<Rightarrow> uuid \<Rightarrow> handler" where
  "drafts_collection s event c inboxID =
     (if rq_HTTPMethod event = ''GET'' then
        require_scope c ScopeDraftRead
          (handle (DraftService_List s c inboxID (query_limit event) (map_get (rq_QueryStringParameters event) ''cursor''))
             cursor_error (\<lambda>(drafts, nextCursor). respond (JSON 200 (VDrafts drafts nextCursor))))
      else if rq_HTTPMethod event = ''POST'' then
        require_scope c ScopeDraftWrite
          (with_body dec_create_draft event zero_create_draft (\<lambda>req.
             handle (DraftService_Create s c (req\<lparr>cr_InboxID := inboxID\<rparr>)) (error_text 400)
               (\<lambda>draft. respond (JSON 201 (VDraft draft)))))
      else respond (Error 404 ''not found''))"

definition drafts_item :: "draft_service \<Rightarrow> request \<Rightarrow> claims \<Rightarrow> uuid \<Rightarrow> uuid \<Rightarrow> handler" where
  "drafts_item s event c inboxID draftID =
     (if rq_HTTPMethod event = ''GET'' then
        require_scope c ScopeDraftRead
          (draft_in_path s c inboxID draftID (\<lambda>draft. respond (JSON 200 (VDraft draft))))
      else if rq_HTTPMethod event = ''PATCH'' then
        require_scope c ScopeDraftWrite
          (draft_in_path s c inboxID draftID (\<lambda>_.
             with_body dec_update_draft event zero_update_draft (\<lambda>req.
               handle (DraftService_Update s c draftID req) (error_text 400)
                 (\<lambda>draft. respond (JSON 200 (VDraft draft))))))
      else if rq_HTTPMethod event = ''DELETE'' then
        require_scope c ScopeDraftWrite
          (draft_in_path s c inboxID draftID (\<lambda>_.
             handle (DraftService_Delete s c draftID) (\<lambda>_. not_found ''draft'') (\<lambda>_. respond NoContent)))
      else respond (Error 404 ''not found''))"

definition drafts_review ::
  "draft_service \<Rightarrow> request \<Rightarrow> claims \<Rightarrow> uuid \<Rightarrow> uuid \<Rightarrow> string \<Rightarrow> (draft_service \<Rightarrow> claims \<Rightarrow> uuid \<Rightarrow> string \<Rightarrow> draft io) \<Rightarrow> handler" where
  "drafts_review s event c inboxID draftID field decide =
     (if rq_HTTPMethod event = ''POST'' then
        require_scope c ScopeDraftWrite
          (draft_in_path s c inboxID draftID (\<lambda>_.
             handle (decide s c draftID (decode_string_lenient field event)) (error_text 400)
               (\<lambda>draft. respond (JSON 200 (VDraft draft)))))
      else respond (Error 404 ''not found''))"

definition drafts_handler :: "draft_service \<Rightarrow> request \<Rightarrow> handler" where
  "drafts_handler s event = with_claims event (\<lambda>c E.
     let inboxID = path_uuid E event ''inboxId''; draftID = path_uuid E event ''draftId'' in
     (if rq_Resource event = ''/v1/inboxes/{inboxId}/drafts'' then drafts_collection s event c inboxID
      else if rq_Resource event = ''/v1/inboxes/{inboxId}/drafts/{draftId}'' then drafts_item s event c inboxID draftID
      else if rq_Resource event = ''/v1/inboxes/{inboxId}/drafts/{draftId}/approve'' then
        drafts_review s event c inboxID draftID ''note'' DraftService_Approve
      else if rq_Resource event = ''/v1/inboxes/{inboxId}/drafts/{draftId}/reject'' then
        drafts_review s event c inboxID draftID ''reason'' DraftService_Reject
      else respond (Error 404 ''not found'')) E)"

section \<open>The scheduler\<close>

text \<open>The claims the scheduler makes up: the organisation, and zero values for the rest.\<close>

definition scheduler_claims :: "uuid \<Rightarrow> claims" where
  "scheduler_claims orgID = \<lparr>cl_OrgID = orgID, cl_KeyID = uuid_Nil, cl_Scopes = [], cl_PodID = None, cl_Plan = [],
     cl_Features = [], cl_SeatLimit = 0\<rparr>"

definition due :: "time \<Rightarrow> draft_row \<Rightarrow> bool" where
  "due now r = ((case dr_scheduled_at r of None \<Rightarrow> False | Some t \<Rightarrow> t \<le> now) \<and> dr_review_status r = ''pending'')"

definition due_drafts :: "(uuid \<Rightarrow> nat) \<Rightarrow> (uuid \<times> uuid) list stmt" where
  "due_drafts order now d =
     Inr (map (\<lambda>r. (dr_id r, dr_org_id r)) (take 100 (order_asc (\<lambda>r. order (dr_id r)) (filter (due now) (t_drafts d)))), d)"

definition approve_scheduled :: "draft_service \<Rightarrow> uuid \<times> uuid \<Rightarrow> unit io" where
  "approve_scheduled s = (\<lambda>(draftID, orgID).
     ignore_err (DraftService_Approve s (scheduler_claims orgID) draftID ''scheduled send''))"

definition scheduler_handler :: "draft_service \<Rightarrow> unit io" where
  "scheduler_handler s =
     go_bind (\<lambda>E w. pool_exec (due_drafts (scan_order E (w_tick w))) E w) (\<lambda>pending.
     for_each (approve_scheduled s) pending)"

section \<open>Honest answers\<close>

lemma honest_draft_in_path [honest_intros]:
  assumes "\<And>x. honest (k x)" shows "honest (draft_in_path s c inboxID draftID k)"
  unfolding draft_in_path_def DraftService_Get_def
  by (intro honest_intros keeps_intros assms)

lemma honest_drafts_write:
  "honest (handle (DraftService_Create s c req) (error_text 400) (\<lambda>draft. respond (JSON 201 (VDraft draft))))"
  "honest (handle (DraftService_Update s c i ureq) (error_text 400) (\<lambda>draft. respond (JSON 200 (VDraft draft))))"
  "honest (handle (DraftService_Delete s c i) (\<lambda>_. not_found what) (\<lambda>_. respond NoContent))"
  "honest (handle (DraftService_Approve s c i nt) (error_text 400) (\<lambda>draft. respond (JSON 200 (VDraft draft))))"
  "honest (handle (DraftService_Reject s c i nt) (error_text 400) (\<lambda>draft. respond (JSON 200 (VDraft draft))))"
  by (intro honest_write draft_ops_roll_back nothing_intros accepts_respond; simp)+

lemma honest_drafts: "honest (drafts_handler s event)"
proof -
  have "honest (drafts_collection s event c i)" for c i
    unfolding drafts_collection_def DraftService_List_def
    by (intro honest_intros honest_drafts_write keeps_intros)
  moreover have "honest (drafts_item s event c i j)" for c i j
    unfolding drafts_item_def by (intro honest_intros honest_drafts_write)
  moreover have "honest (drafts_review s event c i j fld DraftService_Approve)"
    "honest (drafts_review s event c i j fld DraftService_Reject)" for c i j fld
    unfolding drafts_review_def by (intro honest_intros honest_drafts_write)+
  ultimately show ?thesis
    unfolding drafts_handler_def by (intro honest_claims) (simp add: honest_def Let_def respond_def)
qed

definition demo_request :: "string \<Rightarrow> string \<Rightarrow> (string \<times> string) list \<Rightarrow> string \<Rightarrow> json \<Rightarrow> request" where
  "demo_request resource verb path scopes body =
     \<lparr>rq_Resource = resource, rq_HTTPMethod = verb, rq_PathParameters = path, rq_QueryStringParameters = [],
      rq_Authorizer = [(''org_id'', JStr ''1''), (''key_id'', JStr ''1111''), (''scopes'', JStr scopes)], rq_Body = Some body\<rparr>"

definition demo_approve :: "string \<Rightarrow> string \<Rightarrow> request" where
  "demo_approve inbox scopes = demo_request ''/v1/inboxes/{inboxId}/drafts/{draftId}/approve'' ''POST''
     [(''inboxId'', inbox), (''draftId'', ''11111'')] scopes (JObj [(''note'', JStr ''ok'')])"

section \<open>Scopes and paths\<close>

lemma DraftService_Get_success:
  assumes "DraftService_Get s c i E w = (Inr x, w')"
  shows "\<exists>r \<in> set (t_drafts (w_db w)). dr_id r = i \<and> dr_org_id r = cl_OrgID c \<and> d_InboxID x = dr_inbox_id r"
proof -
  from assms obtain w1 w2 where w1: "w_db w1 = w_db w" and
    body: "go_bind (DraftStore_GetByID (cl_OrgID c) i) (\<lambda>draft. go_bind (MessageStore_ListDraftAttachments (cl_OrgID c) i)
      (\<lambda>atts. ret (draft\<lparr>d_Attachments := d_Attachments draft @ atts\<rparr>))) E w1 = (Inr x, w2)"
    unfolding DraftService_Get_def wrap_err_eq_Inr by (rule WithOrgTx_success) blast
  from body obtain y w3 atts where "DraftStore_GetByID (cl_OrgID c) i E w1 = (Inr y, w3)"
    "x = y\<lparr>d_Attachments := d_Attachments y @ atts\<rparr>" by (auto simp: go_bind_eq_Inr ret_eq_Inr)
  from this(1) show ?thesis
    by (rule DraftStore_GetByID_success) (use w1 \<open>x = _\<close> in \<open>auto simp: scanDraft_def\<close>)
qed

text \<open>The status of the answer when the draft is not in the inbox of the path, or the scope is missing.\<close>

definition refuses :: "handler \<Rightarrow> env \<Rightarrow> world \<Rightarrow> bool" where
  "refuses h E w \<longleftrightarrow> rs_StatusCode (fst (h E w)) \<in> {401, 403, 404}"

lemma refuses_path:
  assumes "\<forall>r \<in> set (t_drafts (w_db w)). dr_id r = i \<longrightarrow> dr_inbox_id r \<noteq> inboxID"
  shows "refuses (draft_in_path s c inboxID i k) E w"
proof (cases "DraftService_Get s c i E w")
  case (Pair r w')
  show ?thesis
  proof (cases r)
    case (Inr x)
    with Pair assms DraftService_Get_success [of s c i E w x w'] have "d_InboxID x \<noteq> inboxID" by auto
    with Pair Inr show ?thesis by (simp add: draft_in_path_def handle_def refuses_def respond_def)
  qed (use Pair in \<open>simp add: draft_in_path_def handle_def refuses_def respond_def\<close>)
qed

lemma refuses_scope:
  "refuses h E w \<Longrightarrow> refuses (require_scope c s h) E w"
  "\<not> HasScope c s \<Longrightarrow> refuses (require_scope c s h) E w"
  by (simp_all add: refuses_def require_scope_def respond_def)

lemma refuses_unknown: "refuses (respond (Error 404 m)) E w"
  by (simp add: refuses_def respond_def)

lemma refuses_if: "(b \<Longrightarrow> refuses h E w) \<Longrightarrow> (\<not> b \<Longrightarrow> refuses h' E w) \<Longrightarrow> refuses (if b then h else h') E w"
  by simp

text \<open>A draft can be read, edited, deleted, approved or rejected only under the path of its own inbox:
  under any other inbox the answer is 404 (or 401, 403), and nothing changes.\<close>

lemma drafts_path_checked:
  assumes "\<forall>r \<in> set (t_drafts (w_db w)). dr_id r = path_uuid E event ''draftId'' \<longrightarrow> dr_inbox_id r \<noteq> path_uuid E event ''inboxId''"
    and "rq_Resource event \<noteq> ''/v1/inboxes/{inboxId}/drafts''"
  shows "rs_StatusCode (fst (drafts_handler s event E w)) \<in> {401, 403, 404} \<and>
    w_db (snd (drafts_handler s event E w)) = w_db w"
proof -
  have "refuses (drafts_item s event c (path_uuid E event ''inboxId'') (path_uuid E event ''draftId'')) E w" for c
    unfolding drafts_item_def by (intro refuses_if refuses_scope(1) refuses_path assms(1) refuses_unknown)
  moreover have "refuses (drafts_review s event c (path_uuid E event ''inboxId'') (path_uuid E event ''draftId'') fld m) E w" for c fld m
    unfolding drafts_review_def by (intro refuses_if refuses_scope(1) refuses_path assms(1) refuses_unknown)
  ultimately have "rs_StatusCode (fst (drafts_handler s event E w)) \<in> {401, 403, 404}"
    using assms(2) by (auto simp: drafts_handler_def with_claims_def refuses_def respond_def Let_def split: sum.splits)
  moreover from this have "400 \<le> rs_StatusCode (fst (drafts_handler s event E w))" by auto
  with honest_drafts have "w_db (snd (drafts_handler s event E w)) = w_db w" unfolding honest_def by blast
  ultimately show ?thesis by blast
qed

lemma drafts_path_checked_at_demo:
  "w_db (snd (drafts_handler demo_draft_service (demo_approve ''1'' ''draft:write'') demo_env demo_world)) = demo_db"
  using drafts_path_checked [of demo_world demo_env "demo_approve ''1'' ''draft:write''" demo_draft_service]
  by (simp add: demo_db_def demo_draft_def demo_approve_def demo_request_def path_uuid_def PathParam_def map_get_def demo_env_def)

lemma drafts_GET_changes_nothing:
  assumes "rq_HTTPMethod event = ''GET''"
  shows "w_db (snd (drafts_handler s event E w)) = w_db w"
proof -
  have get: "keeps_db Q (DraftService_Get s c i)" "keeps_db Q (DraftService_List s c i n cur)" for Q c i n cur
    unfolding DraftService_Get_def DraftService_List_def by (intro keeps_intros)+
  have "changes_nothing (drafts_collection s event c i)" "changes_nothing (drafts_item s event c i j)"
    "changes_nothing (drafts_review s event c i j fld m)" for c i j fld m
    using assms get
    by (auto simp: drafts_collection_def drafts_item_def drafts_review_def draft_in_path_def require_scope_def
        intro!: nothing_intros split: prod.splits)
  then show ?thesis
    by (auto simp: drafts_handler_def with_claims_def Let_def respond_def changes_nothing_def split: sum.splits)
qed

text \<open>A caller without the scope draft:write (and who is no organisation admin) changes nothing through
  the drafts API, and every request of his that is not a GET is refused with 403 or 404.\<close>

lemma drafts_need_scope:
  assumes "ExtractClaims E event = Inr c" and "\<not> HasScope c ScopeDraftWrite"
  shows "w_db (snd (drafts_handler s event E w)) = w_db w \<and>
    (rq_HTTPMethod event \<noteq> ''GET'' \<longrightarrow> rs_StatusCode (fst (drafts_handler s event E w)) \<in> {403, 404})"
proof -
  have "rs_StatusCode (fst (drafts_handler s event E w)) \<in> {403, 404}" if "rq_HTTPMethod event \<noteq> ''GET''"
    using assms that
    by (auto simp: drafts_handler_def with_claims_def Let_def drafts_collection_def drafts_item_def drafts_review_def
        require_scope_refused respond_def)
  moreover from this have "w_db (snd (drafts_handler s event E w)) = w_db w" if "rq_HTTPMethod event \<noteq> ''GET''"
    using that honest_drafts [of s event] unfolding honest_def by force
  ultimately show ?thesis using drafts_GET_changes_nothing [of event s E w] by blast
qed

lemma drafts_need_scope_at_demo:
  "rs_StatusCode (fst (drafts_handler demo_draft_service (demo_approve ''111'' ''draft:read'') demo_env demo_world)) \<in> {403, 404}"
proof -
  have x: "\<not> isl (ExtractClaims demo_env (demo_approve ''111'' ''draft:read''))"
    "\<not> HasScope (projr (ExtractClaims demo_env (demo_approve ''111'' ''draft:read''))) ''draft:write''" by code_simp+
  then have "ExtractClaims demo_env (demo_approve ''111'' ''draft:read'') = Inr (projr (ExtractClaims demo_env (demo_approve ''111'' ''draft:read'')))"
    by simp
  from drafts_need_scope [OF this x(2)] show ?thesis
    by (simp add: demo_approve_def demo_request_def)
qed

section \<open>The scheduler approves what is due\<close>

definition scheduled_call :: "uuid \<times> uuid \<Rightarrow> claims \<times> draft_op" where
  "scheduled_call = (\<lambda>(i, org). (scheduler_claims org, DApprove i ''scheduled send''))"

lemma for_each_scheduled:
  "for_each (approve_scheduled s) pending E w = (Inr (), draft_calls E s (map scheduled_call pending) w)"
  by (induction pending arbitrary: w)
    (auto simp: approve_scheduled_def scheduled_call_def go_bind_def ignore_err_run ret_run)

lemma scheduler_success:
  assumes "scheduler_handler s E w = (Inr (), w')"
  obtains pending where "length pending \<le> 100"
    "\<forall>x \<in> set pending. \<exists>r \<in> set (t_drafts (w_db w)). x = (dr_id r, dr_org_id r) \<and> due (clock E (Suc (w_tick w))) r"
    "w' = draft_calls E s (map scheduled_call pending) (tick_world w)"
proof -
  let ?now = "clock E (Suc (w_tick w))"
  let ?rows = "take 100 (order_asc (\<lambda>r. scan_order E (w_tick w) (dr_id r)) (filter (due ?now) (t_drafts (w_db w))))"
  from assms have "w' = draft_calls E s (map scheduled_call (map (\<lambda>r. (dr_id r, dr_org_id r)) ?rows)) (tick_world w)"
    by (auto simp: scheduler_handler_def go_bind_eq_Inr pool_exec_eq_Inr due_drafts_def for_each_scheduled tick_world_def)
  moreover have "\<exists>r \<in> set (t_drafts (w_db w)). x = (dr_id r, dr_org_id r) \<and> due ?now r"
    if "x \<in> set (map (\<lambda>r. (dr_id r, dr_org_id r)) ?rows)" for x
  proof -
    from that obtain r where r: "r \<in> set ?rows" "x = (dr_id r, dr_org_id r)" by (simp only: set_map) blast
    from in_set_takeD [OF r(1)] have "r \<in> set (t_drafts (w_db w)) \<and> due ?now r" by simp
    with r(2) show ?thesis by blast
  qed
  moreover have "length (map (\<lambda>r. (dr_id r, dr_org_id r)) ?rows) \<le> 100" by simp
  ultimately show thesis using that by blast
qed

text \<open>A run of the scheduler relates the drafts and the number of messages before and after.\<close>

definition scheduled_from :: "(uuid \<Rightarrow> bool) \<Rightarrow> database \<Rightarrow> database \<Rightarrow> bool" where
  "scheduled_from chosen d d' \<longleftrightarrow> map dr_id (t_drafts d') = map dr_id (t_drafts d) \<and>
     (\<forall>i. status_of i d' = status_of i d \<or>
        (chosen i \<and> status_of i d = Some ''pending'' \<and> status_of i d' = Some ''approved''))"

lemma scheduled_call_step:
  assumes "draft_keys (w_db w)" "call = scheduled_call x" "chosen (fst x)"
  shows "scheduled_from chosen (w_db w) (w_db (snd (draft_call E s call w))) \<and>
    length (t_messages (w_db (snd (draft_call E s call w)))) \<le> Suc (length (t_messages (w_db w)))"
proof -
  obtain i org where x: "x = (i, org)" by (rule prod.exhaust)
  let ?P = "\<lambda>d. scheduled_from chosen (w_db w) d \<and> length (t_messages d) \<le> Suc (length (t_messages (w_db w)))"
  have "?P (w_db (snd (draft_call E s (scheduler_claims org, DApprove i ''scheduled send'') w)))"
  proof (rule draft_call_leaves [where P = ?P])
    show "?P (w_db w)" by (simp add: scheduled_from_def)
    fix j nt and w1 :: world and x' w2 now
    assume j: "DApprove i ''scheduled send'' = DApprove j nt" and db: "w_db w1 = w_db w"
      and body: "approve_body s (scheduler_claims org) j nt now E w1 = (Inr x', w2)"
    show "?P (w_db w2)"
    proof (rule approve_body_success [OF body], unfold db, goal_cases)
      case (1 r ib t ths msgID header)
      note t = 1(12) note p = status_patched [OF assms(1) 1(1) 1(5), where d' = "w_db w2", unfolded t approved_tables_drafts 1(4), OF refl]
      have "scheduled_from chosen (w_db w) (w_db w2)"
        using p(1) p(2) assms(3) j x by (auto simp: scheduled_from_def t approved_tables_drafts)
      moreover have "length (t_messages (w_db w2)) = Suc (length (t_messages (w_db w)))"
        by (simp add: t approved_tables_def Let_def)
      ultimately show ?case by simp
    qed
  qed simp_all
  then show ?thesis by (simp add: assms(2) scheduled_call_def x)
qed

lemma scheduled_calls:
  assumes "draft_keys (w_db w)" "\<forall>x \<in> set pending. chosen (fst x)"
  shows "scheduled_from chosen (w_db w) (w_db (draft_calls E s (map scheduled_call pending) w)) \<and>
    length (t_messages (w_db (draft_calls E s (map scheduled_call pending) w))) \<le> length (t_messages (w_db w)) + length pending"
  using assms
proof (induction pending arbitrary: w)
  case (Cons x pending)
  let ?w1 = "snd (draft_call E s (scheduled_call x) w)"
  have 1: "scheduled_from chosen (w_db w) (w_db ?w1)" "length (t_messages (w_db ?w1)) \<le> Suc (length (t_messages (w_db w)))"
    using scheduled_call_step [OF Cons.prems(1) refl, of chosen x E s] Cons.prems(2) by auto
  then have "draft_keys (w_db ?w1)" using Cons.prems(1) by (simp add: scheduled_from_def draft_keys_def)
  note 2 = Cons.IH [OF this] 
  have "scheduled_from chosen (w_db w) (w_db (draft_calls E s (map scheduled_call (x # pending)) w))"
    using 1(1) 2 Cons.prems(2) unfolding scheduled_from_def by simp (metis option.inject)
  then show ?case using 1(2) 2 Cons.prems(2) by simp
qed (simp add: scheduled_from_def)

text \<open>C18. A run of the scheduler decides only drafts that were pending and due when it read the table, each
  of them by approving it, adds and removes no draft, and sends at most one hundred messages.\<close>

theorem scheduler_sends_due:
  assumes "scheduler_handler s E w = (Inr (), w')" and "draft_keys (w_db w)"
  shows "map dr_id (t_drafts (w_db w')) = map dr_id (t_drafts (w_db w)) \<and>
    (\<forall>i. status_of i (w_db w') = status_of i (w_db w) \<or>
       (\<exists>r \<in> set (t_drafts (w_db w)). dr_id r = i \<and> due (clock E (Suc (w_tick w))) r \<and> status_of i (w_db w') = Some ''approved'')) \<and>
    length (t_messages (w_db w')) \<le> length (t_messages (w_db w)) + 100"
proof -
  obtain pending where p: "length pending \<le> 100"
    "\<forall>x \<in> set pending. \<exists>r \<in> set (t_drafts (w_db w)). x = (dr_id r, dr_org_id r) \<and> due (clock E (Suc (w_tick w))) r"
    "w' = draft_calls E s (map scheduled_call pending) (tick_world w)"
    by (rule scheduler_success [OF assms(1)])
  let ?chosen = "\<lambda>i. \<exists>r \<in> set (t_drafts (w_db w)). dr_id r = i \<and> due (clock E (Suc (w_tick w))) r"
  have "\<forall>x \<in> set pending. ?chosen (fst x)" using p(2) by fastforce
  from scheduled_calls [of "tick_world w" pending ?chosen E s, OF _ this] assms(2)
  have c: "scheduled_from ?chosen (w_db w) (w_db w')" and l: "length (t_messages (w_db w')) \<le> length (t_messages (w_db w)) + length pending"
    by (simp_all add: p(3))
  from l p(1) have "length (t_messages (w_db w')) \<le> length (t_messages (w_db w)) + 100" by linarith
  moreover have "map dr_id (t_drafts (w_db w')) = map dr_id (t_drafts (w_db w))"
    using c unfolding scheduled_from_def by blast
  moreover have "\<forall>i. status_of i (w_db w') = status_of i (w_db w) \<or> (?chosen i \<and> status_of i (w_db w') = Some ''approved'')"
    using c unfolding scheduled_from_def by blast
  ultimately show ?thesis by blast
qed

definition demo_due_world :: world where
  "demo_due_world = demo_world\<lparr>w_db := demo_db\<lparr>t_drafts := [(demo_draft 5 ''pending'' None)\<lparr>dr_scheduled_at := Some 0\<rparr>,
     demo_draft 6 ''rejected'' None]\<rparr>\<rparr>"

theorem scheduler_sends_due_witness:
  "\<exists>w'. scheduler_handler demo_draft_service demo_env demo_due_world = (Inr (), w') \<and>
     map dr_id (t_drafts (w_db w')) = [5, 6] \<and> status_of 6 (w_db w') = Some ''rejected''"
proof -
  have "fst (scheduler_handler demo_draft_service demo_env demo_due_world) = Inr ()" by code_simp
  then obtain w' where run: "scheduler_handler demo_draft_service demo_env demo_due_world = (Inr (), w')"
    by (metis prod.collapse)
  have k: "draft_keys (w_db demo_due_world)" "map dr_id (t_drafts (w_db demo_due_world)) = [5, 6]"
    "status_of 6 (w_db demo_due_world) = Some ''rejected''"
    "\<not> (\<exists>r \<in> set (t_drafts (w_db demo_due_world)). dr_id r = 6 \<and> due (clock demo_env (Suc (w_tick demo_due_world))) r)"
    by (simp_all add: draft_keys_def demo_due_world_def demo_draft_def status_of_def due_def)
  from scheduler_sends_due [OF run k(1)] k run show ?thesis by (metis (no_types, lifting))
qed

end
