(* ===== verification/Message_Service.thy ===== *)
theory Message_Service
  imports Demo
begin

text \<open>
  \<open>services/inbox/service/message_service.go\<close>: reading and flagging messages, and sending: a new
  message, a reply to all and a forward.  Attachments are uploaded before the transaction; the
  outbound job is queued inside it and the message event after it.
\<close>

record send_message_request =
  sr_To :: "email_address list"
  sr_CC :: "email_address list"
  sr_BCC :: "email_address list"
  sr_Subject :: string
  sr_BodyText :: string
  sr_BodyHTML :: string
  sr_ReplyToID :: "uuid option"
  sr_Metadata :: json_map
  sr_Attachments :: "attachment_request list"

record reply_all_request =
  rr_BodyText :: string
  rr_BodyHTML :: string
  rr_Attachments :: "attachment_request list"

record forward_request =
  fr_To :: "email_address list"
  fr_CC :: "email_address list"
  fr_BCC :: "email_address list"
  fr_BodyText :: string
  fr_BodyHTML :: string
  fr_Attachments :: "attachment_request list"

record message_service =
  ms_outboundProducer :: publisher
  ms_eventPublisher :: publisher
  ms_attachmentsS3 :: "string option"
  ms_emailsS3 :: "string option"

section \<open>Reading and flagging\<close>

definition MessageService_List :: "message_service \<Rightarrow> claims \<Rightarrow> uuid \<Rightarrow> int \<Rightarrow> string \<Rightarrow> (message list \<times> string) io" where
  "MessageService_List s c threadID limit cursor =
     wrap_err ''list messages'' (WithOrgTx (cl_OrgID c) (MessageStore_List (cl_OrgID c) threadID limit cursor))"

definition MessageService_Get :: "message_service \<Rightarrow> claims \<Rightarrow> uuid \<Rightarrow> message io" where
  "MessageService_Get s c messageID =
     wrap_err ''get message'' (WithOrgTx (cl_OrgID c)
       (go_bind (MessageStore_GetByID (cl_OrgID c) messageID) (\<lambda>msg.
        go_bind (MessageStore_ListAttachments (cl_OrgID c) messageID) (\<lambda>atts.
        ret (msg\<lparr>m_Attachments := m_Attachments msg @ atts\<rparr>)))))"

definition MessageService_UpdateMessage :: "message_service \<Rightarrow> claims \<Rightarrow> uuid \<Rightarrow> message_patch \<Rightarrow> message io" where
  "MessageService_UpdateMessage s c messageID patch =
     wrap_err ''update message'' (WithOrgTx (cl_OrgID c) (MessageStore_UpdateMessage (cl_OrgID c) messageID patch))"

section \<open>Sending\<close>

definition maxAttachmentBytes :: int where
  "maxAttachmentBytes = 10 * 1024 * 1024"

text \<open>The input validation at the start of \<open>Send\<close>.\<close>

fun check_recipients :: "email_address list \<Rightarrow> go_error + unit" where
  "check_recipients [] = Inr ()"
| "check_recipients (addr # rest) =
     (if ea_Email addr = [] \<or> \<not> contains (ea_Email addr) ''@''
      then Inl (Errorf (''invalid email address: '' @ go_quote (ea_Email addr)))
      else check_recipients rest)"

fun check_attachments :: "attachment_request list \<Rightarrow> go_error + unit" where
  "check_attachments [] = Inr ()"
| "check_attachments (a # rest) = (case decode_attachment a of
       Inl e \<Rightarrow> Inl e
     | Inr data \<Rightarrow> if int (length data) > maxAttachmentBytes
         then Inl (Errorf (''attachment '' @ go_quote (ar_Filename a) @ '' exceeds 10 MiB limit''))
         else check_attachments rest)"

definition validate_send :: "send_message_request \<Rightarrow> go_error + unit" where
  "validate_send req =
     (if sr_To req = [] then Inl (Errorf ''to is required'')
      else case check_recipients (sr_To req) of
        Inl e \<Rightarrow> Inl e
      | Inr _ \<Rightarrow> if sr_BodyText req = [] \<and> sr_BodyHTML req = []
                 then Inl (Errorf ''body_text or body_html is required'')
                 else check_attachments (sr_Attachments req))"

definition send_upload :: "message_service \<Rightarrow> uuid \<Rightarrow> uuid \<Rightarrow> attachment_request \<Rightarrow> (uuid \<times> att_upload) io" where
  "send_upload s orgID msgID a =
     go_bind (of_result (decode_attachment a)) (\<lambda>data.
     go_bind (asks fmt_uuid) (\<lambda>fmt.
     let key = fmt orgID @ ''/'' @ fmt msgID @ ''/'' @ ar_Filename a in
     go_bind (upload_to (ms_attachmentsS3 s) key a data) (\<lambda>_.
     go_bind uuid_New (\<lambda>i.
     ret (i, \<lparr>au_s3Key = key, au_filename = ar_Filename a, au_contentType = content_type_of a,
              au_sizeBytes = int (length data)\<rparr>)))))"

text \<open>The thread and the threading headers: those of the parent when the message is a reply, else a
  new thread whose participants are the sender and the To and Cc recipients.\<close>

definition send_thread ::
  "claims \<Rightarrow> uuid \<Rightarrow> send_message_request \<Rightarrow> inbox \<Rightarrow> time \<Rightarrow> (thread \<times> string \<times> string list) io" where
  "send_thread c inboxID req ib now =
     (case sr_ReplyToID req of
        Some parentID \<Rightarrow>
          go_bind (wrap_err ''get reply-to message'' (MessageStore_GetByID (cl_OrgID c) parentID)) (\<lambda>parent.
          let inReplyTo = m_MessageID parent;
              references = m_References parent @ [m_MessageID parent] in
          go_bind (wrap_err ''get thread'' (ThreadStore_GetByID (cl_OrgID c) (m_ThreadID parent))) (\<lambda>thread.
          ret (thread, inReplyTo, references)))
      | None \<Rightarrow>
          go_bind uuid_New (\<lambda>i.
          let thread = emptyThread i (cl_OrgID c) inboxID (sr_Subject req) (snippetFrom (sr_BodyText req))
                (participants_of (inbox_sender ib) (sr_To req) (sr_CC req)) now in
          go_bind (wrap_err ''create thread'' (ThreadStore_Create thread)) (\<lambda>_.
          ret (thread, [], []))))"

definition sent_message ::
  "claims \<Rightarrow> uuid \<Rightarrow> send_message_request \<Rightarrow> inbox \<Rightarrow> uuid \<Rightarrow> uuid \<Rightarrow> string \<Rightarrow> string \<Rightarrow> string list \<Rightarrow> bool \<Rightarrow> time \<Rightarrow> message" where
  "sent_message c inboxID req ib threadID msgID messageID inReplyTo references hasAtts now =
     \<lparr>m_ID = msgID, m_OrgID = cl_OrgID c, m_InboxID = inboxID, m_ThreadID = threadID,
      m_MessageID = messageID, m_InReplyTo = inReplyTo, m_References = references,
      m_Direction = DirectionOutbound, m_Status = MessageStatusSending, m_Subject = sr_Subject req,
      m_From = inbox_sender ib, m_To = sr_To req, m_Cc = sr_CC req, m_Bcc = sr_BCC req,
      m_ReplyTo = [], m_RawS3Key = [], m_HtmlS3Key = [], m_TextS3Key = [], m_SizeBytes = 0, m_Headers = [],
      m_Metadata = sr_Metadata req, m_IsRead = False, m_IsStarred = False, m_HasAttachments = hasAtts,
      m_Snippet = snippetFrom (sr_BodyText req), m_SentAt = Some now, m_ReceivedAt = None,
      m_Attachments = [], m_CreatedAt = now, m_UpdatedAt = now\<rparr>"

definition sent_attachment :: "uuid \<Rightarrow> uuid \<Rightarrow> time \<Rightarrow> uuid \<times> att_upload \<Rightarrow> attachment" where
  "sent_attachment orgID msgID now = (\<lambda>(i, a).
     \<lparr>at_ID = i, at_OrgID = orgID, at_MessageID = Some msgID, at_DraftID = None,
      at_Filename = au_filename a, at_ContentType = au_contentType a, at_ContentID = [],
      at_Inline = False, at_SizeBytes = au_sizeBytes a, at_S3Key = au_s3Key a, at_CreatedAt = now\<rparr>)"

definition sent_job :: "(uuid \<Rightarrow> string) \<Rightarrow> send_message_request \<Rightarrow> message \<Rightarrow> outbound_job" where
  "sent_job fmt req msg =
     \<lparr>oj_MessageID = fmt (m_ID msg), oj_OrgID = fmt (m_OrgID msg), oj_InboxID = fmt (m_InboxID msg),
      oj_ThreadID = fmt (m_ThreadID msg), oj_From = m_From msg, oj_To = sr_To req, oj_CC = sr_CC req,
      oj_Subject = sr_Subject req, oj_BodyText = sr_BodyText req, oj_BodyHTML = sr_BodyHTML req,
      oj_InReplyTo = m_InReplyTo msg, oj_References = m_References msg\<rparr>"

definition send_body ::
  "message_service \<Rightarrow> claims \<Rightarrow> uuid \<Rightarrow> send_message_request \<Rightarrow> time \<Rightarrow> uuid \<Rightarrow> (uuid \<times> att_upload) list \<Rightarrow> message io" where
  "send_body s c inboxID req now msgID attUploads =
     go_bind (wrap_err ''get inbox'' (InboxStore_GetByID (cl_OrgID c) inboxID)) (\<lambda>ib.
     go_bind (send_thread c inboxID req ib now) (\<lambda>(thread, inReplyTo, references).
     go_bind generateMessageID (\<lambda>messageID.
     let msg = sent_message c inboxID req ib (th_ID thread) msgID messageID inReplyTo references (attUploads \<noteq> []) now in
     go_bind (wrap_err ''create message'' (MessageStore_Create msg)) (\<lambda>_.
     go_bind (for_each (\<lambda>a. wrap_err ''create attachment record''
         (MessageStore_CreateAttachment (sent_attachment (cl_OrgID c) msgID now a))) attUploads) (\<lambda>_.
     go_bind (wrap_err ''incr message count'' (ThreadStore_IncrMessageCount (th_ID thread) now (m_Snippet msg))) (\<lambda>_.
     go_bind (asks fmt_uuid) (\<lambda>fmt.
     go_bind (ignore_err (Publish (ms_outboundProducer s) (fmt (m_ID msg)) (sent_job fmt req msg))) (\<lambda>_.
     ret msg))))))))"

definition send_event :: "message_service \<Rightarrow> send_message_request \<Rightarrow> message \<Rightarrow> (uuid \<times> att_upload) list \<Rightarrow> unit io" where
  "send_event s req msg attUploads =
     go_bind (NewBase EventMessageSent (m_OrgID msg)) (\<lambda>b.
     go_bind (asks fmt_uuid) (\<lambda>fmt.
     ignore_err (PublishEvent (ms_eventPublisher s) (MessageSentEvent b
       (MessagePayloadFromModel fmt msg (sr_BodyText req) (sr_BodyHTML req) (snippetFrom (sr_BodyText req))
         (map (sent_attachment (m_OrgID msg) (m_ID msg) (m_CreatedAt msg)) attUploads))))))"

definition MessageService_Send :: "message_service \<Rightarrow> claims \<Rightarrow> uuid \<Rightarrow> send_message_request \<Rightarrow> message io" where
  "MessageService_Send s c inboxID req =
     go_bind (of_result (validate_send req)) (\<lambda>_.
     go_bind time_Now (\<lambda>now.
     go_bind uuid_New (\<lambda>msgID.
     go_bind (collect (send_upload s (cl_OrgID c) msgID) (sr_Attachments req)) (\<lambda>attUploads.
     go_bind (wrap_err ''send message'' (WithOrgTx (cl_OrgID c) (send_body s c inboxID req now msgID attUploads))) (\<lambda>msg.
     go_bind (send_event s req msg attUploads) (\<lambda>_.
     ret msg))))))"

section \<open>Stored content\<close>

definition MessageService_GetRaw :: "message_service \<Rightarrow> claims \<Rightarrow> uuid \<Rightarrow> string io" where
  "MessageService_GetRaw s c messageID =
     go_bind (MessageService_Get s c messageID) (\<lambda>msg.
     go_bind (fail_if (m_RawS3Key msg = []) (Errorf ''raw message not available'')) (\<lambda>_.
     case ms_emailsS3 s of
       None \<Rightarrow> throw (Errorf ''emails S3 client not configured'')
     | Some b \<Rightarrow> wrap_err ''download raw message'' (S3_Download b (m_RawS3Key msg))))"

definition MessageService_GetAttachmentContent :: "message_service \<Rightarrow> claims \<Rightarrow> uuid \<Rightarrow> uuid \<Rightarrow> (attachment \<times> string) io" where
  "MessageService_GetAttachmentContent s c messageID attachmentID =
     go_bind (wrap_err ''get attachment'' (WithOrgTx (cl_OrgID c)
       (MessageStore_GetAttachmentByID (cl_OrgID c) messageID attachmentID))) (\<lambda>att.
     case ms_attachmentsS3 s of
       None \<Rightarrow> throw (Errorf ''attachments S3 client not configured'')
     | Some b \<Rightarrow>
         go_bind (wrap_err ''download attachment'' (S3_Download b (at_S3Key att))) (\<lambda>data. ret (att, data)))"

section \<open>Reply to all and forward\<close>

fun reply_recipients :: "string list \<Rightarrow> email_address list \<Rightarrow> email_address list" where
  "reply_recipients seen [] = []"
| "reply_recipients seen (addr # rest) =
     (let key = to_lower (ea_Email addr)
      in if ea_Email addr \<noteq> [] \<and> key \<notin> set seen
         then addr # reply_recipients (key # seen) rest
         else reply_recipients seen rest)"

definition reply_all_to :: "string \<Rightarrow> message \<Rightarrow> email_address list" where
  "reply_all_to inboxEmail orig = reply_recipients [to_lower inboxEmail] ([m_From orig] @ (m_To orig @ m_Cc orig))"

definition MessageService_ReplyAll :: "message_service \<Rightarrow> claims \<Rightarrow> uuid \<Rightarrow> uuid \<Rightarrow> reply_all_request \<Rightarrow> message io" where
  "MessageService_ReplyAll s c inboxID messageID req =
     go_bind (wrap_err ''get original message'' (MessageService_Get s c messageID)) (\<lambda>orig.
     go_bind (wrap_err ''get inbox'' (WithOrgTx (cl_OrgID c) (InboxStore_GetByID (cl_OrgID c) inboxID))) (\<lambda>ib.
     let to = reply_all_to (ib_Email ib) orig in
     go_bind (fail_if (to = []) (Errorf ''no recipients after excluding own inbox address'')) (\<lambda>_.
     MessageService_Send s c inboxID
       \<lparr>sr_To = to, sr_CC = [], sr_BCC = [], sr_Subject = m_Subject orig, sr_BodyText = rr_BodyText req,
        sr_BodyHTML = rr_BodyHTML req, sr_ReplyToID = Some messageID, sr_Metadata = [],
        sr_Attachments = rr_Attachments req\<rparr>)))"

definition forward_subject :: "string \<Rightarrow> string" where
  "forward_subject subject = (if \<not> has_prefix (to_lower subject) ''fwd:'' then ''Fwd: '' @ subject else subject)"

definition MessageService_Forward :: "message_service \<Rightarrow> claims \<Rightarrow> uuid \<Rightarrow> uuid \<Rightarrow> forward_request \<Rightarrow> message io" where
  "MessageService_Forward s c inboxID messageID req =
     go_bind (fail_if (fr_To req = []) (Errorf ''to is required'')) (\<lambda>_.
     go_bind (wrap_err ''get original message'' (MessageService_Get s c messageID)) (\<lambda>orig.
     MessageService_Send s c inboxID
       \<lparr>sr_To = fr_To req, sr_CC = fr_CC req, sr_BCC = fr_BCC req, sr_Subject = forward_subject (m_Subject orig),
        sr_BodyText = fr_BodyText req, sr_BodyHTML = fr_BodyHTML req, sr_ReplyToID = None, sr_Metadata = [],
        sr_Attachments = fr_Attachments req\<rparr>))"

end
