(* ===== verification/Message_Sending.thy ===== *)
theory Message_Sending
  imports Message_Service Draft_Review
begin

text \<open>
  Properties of \<open>MessageService\<close>: what a send stores, threads and refuses, the recipients of a reply
  to all, the subject of a forward, atomicity, isolation and the paging of a thread's messages.
\<close>

section \<open>A successful send\<close>

text \<open>\<open>threaded\<close>: \<open>t\<close>, \<open>irt\<close>, \<open>refs\<close> are the thread and the headers of a message sent on \<open>req\<close>, and
  \<open>ths\<close> the threads table with that thread in it.\<close>

definition threaded ::
  "claims \<Rightarrow> uuid \<Rightarrow> send_message_request \<Rightarrow> inbox \<Rightarrow> database \<Rightarrow> thread \<Rightarrow> string \<Rightarrow> string list \<Rightarrow> thread_row list \<Rightarrow> bool" where
  "threaded c inboxID req ib d t irt refs ths \<longleftrightarrow>
     (case sr_ReplyToID req of
        Some p \<Rightarrow> (\<exists>pm \<in> set (t_messages d). \<exists>r \<in> set (t_threads d). mr_id pm = p \<and> mr_org_id pm = cl_OrgID c \<and>
          irt = mr_message_id_header pm \<and> refs = mr_references_header pm @ [mr_message_id_header pm] \<and>
          tr_id r = mr_thread_id pm \<and> tr_org_id r = cl_OrgID c \<and> t = scanThread r \<and> ths = t_threads d)
      | None \<Rightarrow> irt = [] \<and> refs = [] \<and> th_OrgID t = cl_OrgID c \<and> \<not> has_key tr_id (th_ID t) (t_threads d) \<and>
          th_MessageCount t = 0 \<and> th_InboxID t = inboxID \<and>
          th_Participants t = participants_of (inbox_sender ib) (sr_To req) (sr_CC req) \<and>
          ths = t_threads d @ [thread_insert_row t])"

lemma send_thread_success:
  assumes "send_thread c inboxID req ib now E w = (Inr (t, irt, refs), w')"
  shows "\<exists>ths. w_now w' = w_now w \<and> threaded c inboxID req ib (w_db w) t irt refs ths \<and>
    w_db w' = (w_db w)\<lparr>t_threads := ths\<rparr>"
proof (cases "sr_ReplyToID req")
  case None
  with assms show ?thesis
    by (auto simp: send_thread_def Let_def go_success uuid_New_eq_Inr ThreadStore_Create_eq_Inr
        thread_insert_eq_Inr emptyThread_def threaded_def)
next
  case (Some p)
  with assms obtain pm w1 where 1: "MessageStore_GetByID (cl_OrgID c) p E w = (Inr pm, w1)" and
    2: "ThreadStore_GetByID (cl_OrgID c) (m_ThreadID pm) E w1 = (Inr t, w')" and
    3: "irt = m_MessageID pm" "refs = m_References pm @ [m_MessageID pm]"
    by (auto simp: send_thread_def Let_def go_success)
  from MessageStore_GetByID_success [OF 1] obtain r where r: "r \<in> set (t_messages (w_db w))" "mr_org_id r = cl_OrgID c"
    "mr_id r = p" "pm = scanMessage r" "w1 = tick_world w" by blast
  from ThreadStore_GetByID_success [OF 2] obtain tr where "tr \<in> set (t_threads (w_db w1))" "tr_org_id tr = cl_OrgID c"
    "tr_id tr = m_ThreadID pm" "t = scanThread tr" "w' = tick_world w1" by blast
  with r 3 Some show ?thesis
    by (intro exI [of _ "t_threads (w_db w)"]) (auto simp: threaded_def)
qed

lemma create_attachments_db:
  assumes "for_each (\<lambda>a. wrap_err p (MessageStore_CreateAttachment (f a))) as E w = (Inr u, w')"
  shows "w_db w' = (w_db w)\<lparr>t_attachments := t_attachments (w_db w) @ map f as\<rparr> \<and> w_now w' = w_now w"
  using assms
proof (induction as arbitrary: w)
  case (Cons a as)
  then obtain w1 where "MessageStore_CreateAttachment (f a) E w = (Inr (), w1)"
    "for_each (\<lambda>a. wrap_err p (MessageStore_CreateAttachment (f a))) as E w1 = (Inr u, w')"
    by (auto simp: go_success)
  with Cons.IH [OF this(2)] MessageStore_CreateAttachment_success [OF this(1)] show ?case by simp
qed (auto simp: go_success)

lemma send_body_success:
  assumes "send_body s c inboxID req now msgID ups E w = (Inr msg, w')"
  obtains ib t irt refs header ths where
    "ib \<in> set (t_inboxes (w_db w))" "ib_ID ib = inboxID" "ib_OrgID ib = cl_OrgID c"
    "msg = sent_message c inboxID req ib (th_ID t) msgID header irt refs (ups \<noteq> []) now"
    "\<not> has_key mr_id msgID (t_messages (w_db w))"
    "threaded c inboxID req ib (w_db w) t irt refs ths"
    "w_db w' = (w_db w)\<lparr>t_threads := counted (th_ID t) now (snippetFrom (sr_BodyText req)) (w_now w) ths,
       t_messages := t_messages (w_db w) @ [message_insert_row msg],
       t_attachments := t_attachments (w_db w) @ map (sent_attachment (cl_OrgID c) msgID now) ups\<rparr>"
proof -
  from assms obtain ib w1 t irt refs w2 header w3 w4 w5 w6 fmt where
    1: "InboxStore_GetByID (cl_OrgID c) inboxID E w = (Inr ib, w1)" and
    2: "send_thread c inboxID req ib now E w1 = (Inr (t, irt, refs), w2)" and
    3: "w3 = tick_world w2" and
    4: "MessageStore_Create (sent_message c inboxID req ib (th_ID t) msgID header irt refs (ups \<noteq> []) now) E w3 = (Inr (), w4)" and
    5: "for_each (\<lambda>a. wrap_err ''create attachment record''
         (MessageStore_CreateAttachment (sent_attachment (cl_OrgID c) msgID now a))) ups E w4 = (Inr (), w5)" and
    6: "ThreadStore_IncrMessageCount (th_ID t) now (snippetFrom (sr_BodyText req)) E w5 = (Inr (), w6)" and
    7: "ignore_err (Publish (ms_outboundProducer s) (fmt (m_ID msg)) (sent_job fmt req msg)) E w6 = (Inr (), w')" and
    8: "msg = sent_message c inboxID req ib (th_ID t) msgID header irt refs (ups \<noteq> []) now"
    unfolding send_body_def Let_def
    by (auto simp: go_bind_eq_Inr wrap_err_eq_Inr ret_eq_Inr asks_eq_Inr generateMessageID_eq_Inr
        sent_message_def [of _ _ _ _ _ _ _ _ _ _ now] split: prod.splits)
  from InboxStore_GetByID_success [OF 1] have ib: "ib \<in> set (t_inboxes (w_db w))" "ib_ID ib = inboxID"
    "ib_OrgID ib = cl_OrgID c" "w1 = tick_world w" by simp_all
  from send_thread_success [OF 2] ib(4) obtain ths where t: "w_now w2 = w_now w"
    "threaded c inboxID req ib (w_db w) t irt refs ths" "w_db w2 = (w_db w)\<lparr>t_threads := ths\<rparr>" by auto
  from 4 have m: "message_insert (message_insert_row msg) (w_now w2) (w_db w2) = Inr ((), w_db w4)" "w_now w4 = w_now w2"
    by (auto simp: MessageStore_Create_eq_Inr 3 8)
  have i: "mr_id (message_insert_row msg) = msgID"
    by (simp add: 8 message_insert_row_def sent_message_def)
  have m': "w_db w4 = (w_db w2)\<lparr>t_messages := t_messages (w_db w2) @ [message_insert_row msg]\<rparr>"
    "\<not> has_key mr_id msgID (t_messages (w_db w2))"
    using m(1) by (auto simp: message_insert_eq_Inr i)
  note a = create_attachments_db [OF 5]
  have n: "w_db w6 = (w_db w5)\<lparr>t_threads := counted (th_ID t) now (snippetFrom (sr_BodyText req)) (w_now w5) (t_threads (w_db w5))\<rparr>"
    using 6 by (auto simp: ThreadStore_IncrMessageCount_eq_Inr)
  have w': "w_db w' = w_db w6" by (rule keeps_db_same [OF keeps_db_ignore [OF keeps_db_publish(2)] 7])
  show ?thesis
    by (rule that [of ib t header irt refs ths])
       (use ib 8 t m' a m(2) in \<open>simp_all add: w' n\<close>)
qed

lemma Send_success:
  assumes "MessageService_Send s c inboxID req E w = (Inr msg, w')"
  obtains now msgID ups w1 w2 where "send_body s c inboxID req now msgID ups E w1 = (Inr msg, w2)"
    "w_db w1 = w_db w" "w_db w' = w_db w2" "length ups = length (sr_Attachments req)" "validate_send req = Inr ()"
proof -
  from assms obtain now msgID ups wa wb wc where
    v: "validate_send req = Inr ()" and
    a: "wa = tick_world (tick_world w)" and
    b: "collect (send_upload s (cl_OrgID c) msgID) (sr_Attachments req) E wa = (Inr ups, wb)" and
    tx: "WithOrgTx (cl_OrgID c) (send_body s c inboxID req now msgID ups) E wb = (Inr msg, wc)" and
    e: "send_event s req msg ups E wc = (Inr (), w')"
    unfolding MessageService_Send_def
    by (auto simp: go_bind_eq_Inr wrap_err_eq_Inr ret_eq_Inr time_Now_eq_Inr uuid_New_eq_Inr)
  have k: "keeps_db Q (collect (send_upload s (cl_OrgID c) msgID) (sr_Attachments req))" for Q
    unfolding send_upload_def Let_def by (intro keeps_intros)
  have k': "keeps_db Q (send_event s req msg ups)" for Q
    unfolding send_event_def by (intro keeps_intros)
  have "w_db wb = w_db w" using keeps_db_same [OF k b] a by simp
  moreover have "w_db w' = w_db wc" by (rule keeps_db_same [OF k' e])
  moreover from tx obtain w1 w2 where "send_body s c inboxID req now msgID ups E w1 = (Inr msg, w2)"
    "w_db w1 = w_db wb" "wc = end_tx wb w2" by (rule WithOrgTx_success)
  ultimately show thesis using that v for_each_success_length [OF b] by simp
qed

section \<open>Properties\<close>

lemma sent_message_row:
  "mr_id (message_insert_row (sent_message c ibx req ib tid mid h irt refs b now)) = mid"
  "mr_org_id (message_insert_row (sent_message c ibx req ib tid mid h irt refs b now)) = cl_OrgID c"
  "mr_inbox_id (message_insert_row (sent_message c ibx req ib tid mid h irt refs b now)) = ibx"
  "mr_thread_id (message_insert_row (sent_message c ibx req ib tid mid h irt refs b now)) = tid"
  "mr_status (message_insert_row (sent_message c ibx req ib tid mid h irt refs b now)) = ''sending''"
  "mr_direction (message_insert_row (sent_message c ibx req ib tid mid h irt refs b now)) = ''outbound''"
  "mr_from_address (message_insert_row (sent_message c ibx req ib tid mid h irt refs b now)) = ib_Email ib"
  "mr_to_addresses (message_insert_row (sent_message c ibx req ib tid mid h irt refs b now)) = sr_To req"
  "mr_cc_addresses (message_insert_row (sent_message c ibx req ib tid mid h irt refs b now)) = sr_CC req"
  "mr_bcc_addresses (message_insert_row (sent_message c ibx req ib tid mid h irt refs b now)) = sr_BCC req"
  "mr_subject (message_insert_row (sent_message c ibx req ib tid mid h irt refs b now)) = sr_Subject req"
  "mr_in_reply_to (message_insert_row (sent_message c ibx req ib tid mid h irt refs b now)) = irt"
  "mr_references_header (message_insert_row (sent_message c ibx req ib tid mid h irt refs b now)) = refs"
  "mr_sent_at (message_insert_row (sent_message c ibx req ib tid mid h irt refs b now)) = Some now"
  "mr_has_attachments (message_insert_row (sent_message c ibx req ib tid mid h irt refs b now)) = b"
  "m_ID (sent_message c ibx req ib tid mid h irt refs b now) = mid"
  by (simp_all add: message_insert_row_def sent_message_def inbox_sender_def)

text \<open>C5. A successful send stores exactly one new message, outbound and in status sending, from the
  inbox's address to the requested recipients, and one attachment row of that message for each
  requested attachment.  A reply continues its parent's thread, answers the parent's Message-ID and
  extends the parent's References by it; any other message opens a new thread whose participants
  are the distinct addresses among sender, To and Cc.  The thread counts the message.\<close>

theorem send_effect:
  assumes "MessageService_Send s c inboxID req E w = (Inr msg, w')"
  shows "\<exists>ib \<in> set (t_inboxes (w_db w)). \<exists>m as. \<exists>t \<in> set (t_threads (w_db w')).
     ib_ID ib = inboxID \<and> ib_OrgID ib = cl_OrgID c \<and> t_messages (w_db w') = t_messages (w_db w) @ [m] \<and>
     m_ID msg = mr_id m \<and> mr_org_id m = cl_OrgID c \<and> mr_inbox_id m = inboxID \<and> mr_status m = ''sending'' \<and>
     mr_direction m = ''outbound'' \<and> mr_from_address m = ib_Email ib \<and> mr_to_addresses m = sr_To req \<and>
     mr_cc_addresses m = sr_CC req \<and> mr_bcc_addresses m = sr_BCC req \<and> mr_subject m = sr_Subject req \<and>
     t_attachments (w_db w') = t_attachments (w_db w) @ as \<and> length as = length (sr_Attachments req) \<and>
     (\<forall>a \<in> set as. at_MessageID a = Some (mr_id m) \<and> at_OrgID a = cl_OrgID c) \<and>
     tr_id t = mr_thread_id m \<and> tr_last_message_at t = mr_sent_at m \<and>
     (case sr_ReplyToID req of
        Some p \<Rightarrow> (\<exists>pm \<in> set (t_messages (w_db w)). mr_id pm = p \<and> mr_org_id pm = cl_OrgID c \<and>
          mr_thread_id m = mr_thread_id pm \<and> mr_in_reply_to m = mr_message_id_header pm \<and>
          mr_references_header m = mr_references_header pm @ [mr_message_id_header pm] \<and>
          (\<exists>t0 \<in> set (t_threads (w_db w)). tr_id t0 = tr_id t \<and> tr_message_count t = tr_message_count t0 + 1))
      | None \<Rightarrow> mr_in_reply_to m = [] \<and> mr_references_header m = [] \<and>
          \<not> has_key tr_id (tr_id t) (t_threads (w_db w)) \<and> tr_message_count t = 1 \<and>
          distinct (map ea_Email (tr_participants t)) \<and>
          set (map ea_Email (tr_participants t)) = set (ib_Email ib # map ea_Email (sr_To req @ sr_CC req)) - {[]})"
proof -
  obtain now msgID ups w1 w2 where
    body: "send_body s c inboxID req now msgID ups E w1 = (Inr msg, w2)" and
    db: "w_db w1 = w_db w" "w_db w' = w_db w2" and len: "length ups = length (sr_Attachments req)"
    by (rule Send_success [OF assms]) (rule that)
  show ?thesis
  proof (rule send_body_success [OF body], unfold db(1), goal_cases)
    case (1 ib t irt refs header ths)
    let ?m = "message_insert_row msg"
    let ?as = "map (sent_attachment (cl_OrgID c) msgID now) ups"
    note w' = 1(7) [folded db(2)]
    have new: "irt = [] \<and> refs = [] \<and> \<not> has_key tr_id (th_ID t) (t_threads (w_db w)) \<and>
         thread_insert_row t \<in> set ths \<and> th_MessageCount t = 0 \<and>
         th_Participants t = participants_of (inbox_sender ib) (sr_To req) (sr_CC req)" if "sr_ReplyToID req = None"
      using 1(6) that by (simp add: threaded_def)
    have reply: "ths = t_threads (w_db w) \<and> (\<exists>t0 \<in> set ths. tr_id t0 = th_ID t) \<and>
         (\<exists>pm \<in> set (t_messages (w_db w)). mr_id pm = p \<and> mr_org_id pm = cl_OrgID c \<and> th_ID t = mr_thread_id pm \<and>
          irt = mr_message_id_header pm \<and> refs = mr_references_header pm @ [mr_message_id_header pm])"
      if "sr_ReplyToID req = Some p" for p
    proof -
      from 1(6) that obtain pm r where "pm \<in> set (t_messages (w_db w))" "r \<in> set (t_threads (w_db w))" "mr_id pm = p"
        "mr_org_id pm = cl_OrgID c" "irt = mr_message_id_header pm" "refs = mr_references_header pm @ [mr_message_id_header pm]"
        "tr_id r = mr_thread_id pm" "t = scanThread r" "ths = t_threads (w_db w)"
        by (auto simp: threaded_def)
      then show ?thesis by auto
    qed
    have hit: "\<exists>t' \<in> set (t_threads (w_db w')). tr_id t' = th_ID t \<and> tr_message_count t' = tr_message_count t0 + 1 \<and>
        tr_last_message_at t' = Some now \<and> tr_participants t' = tr_participants t0"
      if "t0 \<in> set ths" "tr_id t0 = th_ID t" for t0
      using counted_hit [OF that, of now "snippetFrom (sr_BodyText req)" "w_now w1"] by (simp add: w')
    have base: "ib \<in> set (t_inboxes (w_db w))" "ib_ID ib = inboxID" "ib_OrgID ib = cl_OrgID c"
      "t_messages (w_db w') = t_messages (w_db w) @ [?m]" "t_attachments (w_db w') = t_attachments (w_db w) @ ?as"
      "length ?as = length (sr_Attachments req)"
      "\<forall>a \<in> set ?as. at_MessageID a = Some (mr_id ?m) \<and> at_OrgID a = cl_OrgID c"
      using 1 len by (auto simp: w' sent_message_row sent_attachment_def)
    note row = sent_message_row [of c inboxID req ib "th_ID t" msgID header irt refs "ups \<noteq> []" now, folded 1(4)]
    show ?thesis
    proof (cases "sr_ReplyToID req")
      case None
      note n = new [OF None]
      from n have "thread_insert_row t \<in> set ths" "tr_id (thread_insert_row t) = th_ID t" by simp_all
      from hit [OF this] obtain t' where "t' \<in> set (t_threads (w_db w'))" "tr_id t' = th_ID t" "tr_message_count t' = 1"
        "tr_last_message_at t' = Some now" "tr_participants t' = participants_of (inbox_sender ib) (sr_To req) (sr_CC req)"
        using n by auto
      then show ?thesis
        using base row n None participants_of_emails [of "inbox_sender ib" "sr_To req" "sr_CC req"]
        by (intro bexI [of _ ib] exI [of _ ?m] exI [of _ ?as] bexI [of _ t']) (simp_all add: inbox_sender_def)
    next
      case (Some p)
      note n = reply [OF Some]
      then obtain t0 where t0: "t0 \<in> set ths" "tr_id t0 = th_ID t" by blast
      from hit [OF this] obtain t' where "t' \<in> set (t_threads (w_db w'))" "tr_id t' = th_ID t"
        "tr_message_count t' = tr_message_count t0 + 1" "tr_last_message_at t' = Some now" by blast
      then show ?thesis
        using base row n Some t0
        by (intro bexI [of _ ib] exI [of _ ?m] exI [of _ ?as] bexI [of _ t']) auto
    qed
  qed
qed

definition demo_message_service :: message_service where
  "demo_message_service = \<lparr>ms_outboundProducer = demo_publisher, ms_eventPublisher = demo_publisher,
     ms_attachmentsS3 = Some ''att'', ms_emailsS3 = Some ''mail''\<rparr>"

definition demo_send :: "uuid option \<Rightarrow> send_message_request" where
  "demo_send parent = \<lparr>sr_To = [bob, bob], sr_CC = [carol], sr_BCC = [], sr_Subject = ''hi'', sr_BodyText = ''text'',
     sr_BodyHTML = '''', sr_ReplyToID = parent, sr_Metadata = [],
     sr_Attachments = [\<lparr>ar_Filename = ''f'', ar_ContentType = '''', ar_Content = ''QUJD''\<rparr>]\<rparr>"

lemma successful: "\<not> isl (fst p) \<Longrightarrow> \<exists>x. p = (Inr x, snd p)"
  by (cases p) (auto simp: isl_def split: sum.splits intro: sum.exhaust)

theorem send_effect_witness:
  "\<exists>m. t_messages (w_db (snd (MessageService_Send demo_message_service (demo_claims 1) 3 (demo_send (Some 9)) demo_env demo_world)))
     = t_messages (w_db demo_world) @ [m] \<and> mr_to_addresses m = [bob, bob] \<and> mr_in_reply_to m = ''m9'' \<and>
     mr_references_header m = [''m0'', ''m9'']"
proof -
  have "\<not> isl (fst (MessageService_Send demo_message_service (demo_claims 1) 3 (demo_send (Some 9)) demo_env demo_world))"
    by code_simp
  from successful [OF this] obtain msg where
    "MessageService_Send demo_message_service (demo_claims 1) 3 (demo_send (Some 9)) demo_env demo_world =
      (Inr msg, snd (MessageService_Send demo_message_service (demo_claims 1) 3 (demo_send (Some 9)) demo_env demo_world))"
    by blast
  from send_effect [OF this] show ?thesis
    by (auto simp: demo_send_def demo_db_def demo_message_def)
qed

lemma check_recipients_iff:
  "check_recipients as = Inr () \<longleftrightarrow> (\<forall>a \<in> set as. ea_Email a \<noteq> [] \<and> contains (ea_Email a) ''@'')"
  by (induction as) auto

lemma check_attachments_iff:
  "check_attachments as = Inr () \<longleftrightarrow>
     (\<forall>a \<in> set as. \<exists>data. decode_attachment a = Inr data \<and> int (length data) \<le> maxAttachmentBytes)"
  by (induction as) (auto split: sum.splits)

lemma validate_send_iff:
  "validate_send req = Inr () \<longleftrightarrow>
     sr_To req \<noteq> [] \<and> (\<forall>a \<in> set (sr_To req). ea_Email a \<noteq> [] \<and> contains (ea_Email a) ''@'') \<and>
     (sr_BodyText req \<noteq> [] \<or> sr_BodyHTML req \<noteq> []) \<and>
     (\<forall>a \<in> set (sr_Attachments req). \<exists>data. decode_attachment a = Inr data \<and> int (length data) \<le> maxAttachmentBytes)"
  by (auto simp: validate_send_def check_recipients_iff [symmetric] check_attachments_iff [symmetric] split: sum.splits)

text \<open>A send is refused, before anything is uploaded, stored or queued, unless there is a To
  recipient, every To address has an at sign, a text or HTML body is given, and every attachment is
  valid base64 of at most 10 MiB.\<close>

lemma send_validation:
  assumes "sr_To req = [] \<or> (\<exists>a \<in> set (sr_To req). ea_Email a = [] \<or> \<not> contains (ea_Email a) ''@'') \<or>
     (sr_BodyText req = [] \<and> sr_BodyHTML req = []) \<or>
     (\<exists>a \<in> set (sr_Attachments req). \<forall>data. decode_attachment a = Inr data \<longrightarrow> 10485760 < int (length data))"
  shows "\<exists>e. MessageService_Send s c inboxID req E w = (Inl e, w)"
proof -
  have "validate_send req \<noteq> Inr ()"
    using assms unfolding validate_send_iff maxAttachmentBytes_def by force
  then obtain e where e: "validate_send req = Inl e" by (cases "validate_send req") auto
  then have "of_result (validate_send req) E w = (Inl e, w)" by (simp add: of_result_def go_run)
  then show ?thesis by (auto simp: MessageService_Send_def go_bind_def e of_result_def go_run)
qed

lemma send_validation_at_demo:
  "\<exists>e. MessageService_Send demo_message_service (demo_claims 1) 3 ((demo_send None)\<lparr>sr_To := [bob, \<lparr>ea_Email = ''nobody'', ea_Name = []\<rparr>]\<rparr>)
     demo_env demo_world = (Inl e, demo_world)"
  by (rule send_validation) (simp add: demo_send_def bob_def)

section \<open>Reply to all and forward\<close>

lemma reply_recipients_props:
  "set (reply_recipients seen as) \<subseteq> set as \<and>
   distinct (map (\<lambda>a. to_lower (ea_Email a)) (reply_recipients seen as)) \<and>
   (\<lambda>a. to_lower (ea_Email a)) ` set (reply_recipients seen as) =
     (\<lambda>a. to_lower (ea_Email a)) ` {a \<in> set as. ea_Email a \<noteq> []} - set seen"
proof (induction as arbitrary: seen)
  case (Cons a as)
  let ?k = "\<lambda>a. to_lower (ea_Email a)"
  show ?case
  proof (cases "ea_Email a \<noteq> [] \<and> ?k a \<notin> set seen")
    case True
    then have e: "reply_recipients seen (a # as) = a # reply_recipients (?k a # seen) as" by (simp add: Let_def)
    note IH = Cons.IH [of "?k a # seen"]
    have "?k a \<notin> ?k ` set (reply_recipients (?k a # seen) as)" using IH by simp
    moreover have "{x \<in> set (a # as). ea_Email x \<noteq> []} = insert a {x \<in> set as. ea_Email x \<noteq> []}" using True by auto
    ultimately show ?thesis unfolding e using IH True by auto
  next
    case False
    then have e: "reply_recipients seen (a # as) = reply_recipients seen as" by (auto simp: Let_def)
    have "?k ` {x \<in> set (a # as). ea_Email x \<noteq> []} - set seen = ?k ` {x \<in> set as. ea_Email x \<noteq> []} - set seen"
      using False by auto
    then show ?thesis unfolding e using Cons.IH [of seen] by auto
  qed
qed simp

text \<open>The recipients of a reply to all are people of the original message: exactly its sender, To and
  Cc addresses other than the inbox's own, each once, compared without regard to case.\<close>

lemma reply_all_recipients:
  "set (reply_all_to own orig) \<subseteq> set (m_From orig # m_To orig @ m_Cc orig) \<and>
   distinct (map (\<lambda>a. to_lower (ea_Email a)) (reply_all_to own orig)) \<and>
   set (map (\<lambda>a. to_lower (ea_Email a)) (reply_all_to own orig)) =
     {to_lower (ea_Email a) | a. a \<in> set (m_From orig # m_To orig @ m_Cc orig) \<and> ea_Email a \<noteq> []} - {to_lower own}"
proof -
  let ?as = "m_From orig # m_To orig @ m_Cc orig"
  have "{to_lower (ea_Email a) | a. a \<in> set ?as \<and> ea_Email a \<noteq> []} = (\<lambda>a. to_lower (ea_Email a)) ` {a \<in> set ?as. ea_Email a \<noteq> []}"
    by blast
  then show ?thesis
    using reply_recipients_props [of "[to_lower own]" ?as] by (simp only: reply_all_to_def append_Cons append_Nil list.set_map) simp
qed

text \<open>The subject of a forward begins with the forward mark, whatever its case, once: forwarding a
  forwarded message leaves the subject alone.\<close>

lemma forward_subject_mark:
  "has_prefix (to_lower (forward_subject subject)) ''fwd:'' \<and>
   forward_subject (forward_subject subject) = forward_subject subject \<and>
   (\<exists>mark. mark \<in> {[], ''Fwd: ''} \<and> forward_subject subject = mark @ subject)"
proof -
  have p: "has_prefix (to_lower (''Fwd: '' @ subject)) ''fwd:''"
  proof -
    have "to_lower (''Fwd: '' @ subject) = ''fwd: '' @ to_lower subject"
      unfolding to_lower_def map_append by (rule arg_cong2 [where f = "(@)"], code_simp, rule refl)
    then show ?thesis by simp
  qed
  have "has_prefix (to_lower (forward_subject subject)) ''fwd:''"
    using p by (cases "has_prefix (to_lower subject) ''fwd:''") (simp_all only: forward_subject_def if_True if_False not_True_eq_False not_False_eq_True)
  then show ?thesis by (auto simp: forward_subject_def)
qed

section \<open>Failed and foreign calls\<close>

lemma rolls_back_Get: "rolls_back (MessageService_Get s c i)"
  unfolding MessageService_Get_def by (intro rolls_back_wrap rolls_back_tx)

lemma keeps_db_MessageService_Get [keeps_intros]: "keeps_db Q (MessageService_Get s c i)"
  unfolding MessageService_Get_def by (intro keeps_intros)

lemma rolls_back_Send: "rolls_back (MessageService_Send s c inboxID req)"
  unfolding MessageService_Send_def send_upload_def send_event_def Let_def
  apply (rule rolls_back_bind, (intro keeps_intros; fail))+
  apply (rule rolls_back_then)
   apply (intro rolls_back_wrap rolls_back_tx)
  apply (intro never_fails_bind never_fails_NewBase never_fails_intros)
  done

lemma keeps_db_inbox_tx [keeps_intros]: "keeps_db Q (WithOrgTx org (InboxStore_GetByID org i))"
  by (intro keeps_intros)

text \<open>A send, reply to all, forward or flag change that reports an error has changed no table.\<close>

lemma message_call_atomic:
  assumes "m \<in> {MessageService_Send s c inboxID req, MessageService_ReplyAll s c inboxID i rreq,
      MessageService_Forward s c inboxID i freq, MessageService_UpdateMessage s c i patch}"
    and "m E w = (Inl e, w')"
  shows "w_db w' = w_db w"
proof -
  have "rolls_back (MessageService_ReplyAll s c inboxID i rreq)"
    unfolding MessageService_ReplyAll_def Let_def
    by (intro rolls_back_bind rolls_back_Send keeps_intros)
  moreover have "rolls_back (MessageService_Forward s c inboxID i freq)"
    unfolding MessageService_Forward_def
    by (intro rolls_back_bind rolls_back_Send keeps_intros)
  moreover have "rolls_back (MessageService_UpdateMessage s c i patch)"
    unfolding MessageService_UpdateMessage_def by (intro rolls_back_wrap rolls_back_tx)
  ultimately have "rolls_back m" using assms(1) rolls_back_Send by auto
  then show ?thesis using assms(2) by (rule rolls_backD)
qed

lemma message_call_atomic_at_demo:
  "w_db (snd (MessageService_Send demo_message_service (demo_claims 2) 3 (demo_send None) demo_env demo_world)) = w_db demo_world"
proof -
  have "fst (MessageService_Send demo_message_service (demo_claims 2) 3 (demo_send None) demo_env demo_world) =
      Inl (Wrap ''send message'' (Wrap ''get inbox'' (Wrap ''scan inbox'' ErrNoRows)))" by code_simp
  then have "MessageService_Send demo_message_service (demo_claims 2) 3 (demo_send None) demo_env demo_world =
    (Inl (Wrap ''send message'' (Wrap ''get inbox'' (Wrap ''scan inbox'' ErrNoRows))),
     snd (MessageService_Send demo_message_service (demo_claims 2) 3 (demo_send None) demo_env demo_world))"
    by (metis prod.collapse)
  then show ?thesis
    by (rule message_call_atomic [where m = "MessageService_Send demo_message_service (demo_claims 2) 3 (demo_send None)", rotated])
      (rule insertI1)
qed

text \<open>A send changes no draft, message or thread of another organisation, whichever inbox and parent
  message the caller names.\<close>

lemma send_isolated:
  assumes "distinct (map tr_id (t_threads (w_db w)))"
  shows "foreign_rows (cl_OrgID c) (w_db (snd (MessageService_Send s c inboxID req E w))) =
    foreign_rows (cl_OrgID c) (w_db w)"
proof (cases "fst (MessageService_Send s c inboxID req E w)")
  case (Inl e)
  then show ?thesis
    using rolls_backD [OF rolls_back_Send, of s c inboxID req E w e] by (metis prod.collapse)
next
  case (Inr msg)
  then have run: "MessageService_Send s c inboxID req E w = (Inr msg, snd (MessageService_Send s c inboxID req E w))"
    by (metis prod.collapse)
  obtain now msgID ups w1 w2 where
    body: "send_body s c inboxID req now msgID ups E w1 = (Inr msg, w2)" and
    db: "w_db w1 = w_db w" "w_db (snd (MessageService_Send s c inboxID req E w)) = w_db w2"
    by (rule Send_success [OF run]) (rule that)
  show ?thesis
  proof (rule send_body_success [OF body], unfold db(1), goal_cases)
    case (1 ib t irt refs header ths)
    have "distinct (map tr_id ths) \<and> (\<exists>tr \<in> set ths. tr_id tr = th_ID t \<and> tr_org_id tr = cl_OrgID c) \<and>
      filter (\<lambda>r. tr_org_id r \<noteq> cl_OrgID c) ths = filter (\<lambda>r. tr_org_id r \<noteq> cl_OrgID c) (t_threads (w_db w))"
      using 1(6) assms by (cases "sr_ReplyToID req") (auto simp: threaded_def has_key_def)
    then obtain tr where "distinct (map tr_id ths)" "tr \<in> set ths" "tr_id tr = th_ID t" "tr_org_id tr = cl_OrgID c"
      and f: "filter (\<lambda>r. tr_org_id r \<noteq> cl_OrgID c) ths = filter (\<lambda>r. tr_org_id r \<noteq> cl_OrgID c) (t_threads (w_db w))" by blast
    with counted_foreign [OF this(1,2,4)] have
      "filter (\<lambda>r. tr_org_id r \<noteq> cl_OrgID c) (counted (th_ID t) now (snippetFrom (sr_BodyText req)) (w_now w1) ths) =
       filter (\<lambda>r. tr_org_id r \<noteq> cl_OrgID c) (t_threads (w_db w))" by simp
    then show ?thesis
      unfolding foreign_rows_def db(2) 1(7) 1(4) by (simp add: sent_message_row)
  qed
qed

lemma send_isolated_at_demo:
  "foreign_rows 1 (w_db (snd (MessageService_Send demo_message_service (demo_claims 1) 3 (demo_send (Some 9)) demo_env demo_world))) =
   foreign_rows 1 (w_db demo_world)"
  using send_isolated [of demo_world "demo_claims 1"] by (simp add: demo_db_def demo_claims_def)

text \<open>Paging through the messages of a thread with the returned cursors visits every message of the
  thread once, oldest first, and ends, for any requested page size.\<close>

lemma message_pages_complete:
  assumes "cursor_codec E" and "no_faults E" and "\<not> w_failed w" and "distinct (map mr_id (t_messages (w_db w)))"
  shows "walk (Suc (length (t_messages (w_db w)))) (\<lambda>cursor. listed ([], []) (fst (MessageStore_List org th limit cursor E w))) [] =
    Some (map scanMessage (order_asc (\<lambda>r. (mr_created_at r, mr_id r))
      (filter (\<lambda>r. mr_org_id r = org \<and> mr_thread_id r = th) (t_messages (w_db w)))))"
  (is "walk _ ?listing [] = Some ?rows")
proof -
  let ?x = "(E, w, org, th, limit)"
  have ok: "message_listing_ok ?x"
    using assms by (simp add: message_listing_ok_def no_faults_def)
  have l: "message_listing_run ?x = ?listing" "listed_messages ?x = ?rows"
    by (simp_all add: message_listing_run_def listed_messages_def message_page_where_def [abs_def])
  show ?thesis
    using message_lists.walk_suffix [OF ok, of "[]" ?rows "Suc (length (t_messages (w_db w)))" "[]"]
      message_lists.first_page [OF ok]
    by (simp add: l order_asc_def less_Suc_eq_le length_filter_le)
qed

lemma message_pages_complete_at_demo:
  "walk (Suc (length (t_messages demo_db))) (\<lambda>cursor. listed ([], []) (fst (MessageStore_List 1 8 1 cursor demo_env demo_world))) [] =
    Some (map scanMessage (order_asc (\<lambda>r. (mr_created_at r, mr_id r))
      (filter (\<lambda>r. mr_org_id r = 1 \<and> mr_thread_id r = 8) (t_messages demo_db))))"
proof -
  have "distinct (map mr_id (t_messages (w_db demo_world)))" by (simp add: demo_db_def)
  from message_pages_complete [OF demo_codec _ _ this] show ?thesis by (simp add: no_faults_def del: walk.simps)
qed

end
