(* ===== verification/Message_Handler.thy ===== *)
theory Message_Handler
  imports Requests Message_Sending
begin

text \<open>\<open>lambdas/messages/main.go\<close>: the HTTP interface of messages.\<close>

section \<open>Request bodies\<close>

record patch_message_request =
  pm_Unread :: "bool option"
  pm_Starred :: "bool option"
  pm_Metadata :: "json_map option"

definition dec_patch_message :: "env \<Rightarrow> json \<Rightarrow> patch_message_request \<Rightarrow> patch_message_request option" where
  "dec_patch_message E = dec_struct (\<lambda>name v r.
     if name = ''unread'' then map_option (\<lambda>x. r\<lparr>pm_Unread := x\<rparr>) (dec_ptr dec_bool False v (pm_Unread r))
     else if name = ''starred'' then map_option (\<lambda>x. r\<lparr>pm_Starred := x\<rparr>) (dec_ptr dec_bool False v (pm_Starred r))
     else if name = ''metadata'' then map_option (\<lambda>x. r\<lparr>pm_Metadata := x\<rparr>) (dec_map v)
     else Some r)"

definition zero_patch_message :: patch_message_request where
  "zero_patch_message = \<lparr>pm_Unread = None, pm_Starred = None, pm_Metadata = None\<rparr>"

definition dec_send :: "env \<Rightarrow> json \<Rightarrow> send_message_request \<Rightarrow> send_message_request option" where
  "dec_send E = dec_struct (\<lambda>name v r.
     if name = ''to'' then map_option (\<lambda>x. r\<lparr>sr_To := or_empty x\<rparr>) (dec_addresses v)
     else if name = ''cc'' then map_option (\<lambda>x. r\<lparr>sr_CC := or_empty x\<rparr>) (dec_addresses v)
     else if name = ''bcc'' then map_option (\<lambda>x. r\<lparr>sr_BCC := or_empty x\<rparr>) (dec_addresses v)
     else if name = ''subject'' then map_option (\<lambda>x. r\<lparr>sr_Subject := x\<rparr>) (dec_string v (sr_Subject r))
     else if name = ''body_text'' then map_option (\<lambda>x. r\<lparr>sr_BodyText := x\<rparr>) (dec_string v (sr_BodyText r))
     else if name = ''body_html'' then map_option (\<lambda>x. r\<lparr>sr_BodyHTML := x\<rparr>) (dec_string v (sr_BodyHTML r))
     else if name = ''reply_to_id'' then map_option (\<lambda>x. r\<lparr>sr_ReplyToID := x\<rparr>) (dec_ptr (dec_uuid E) uuid_Nil v (sr_ReplyToID r))
     else if name = ''metadata'' then map_option (\<lambda>x. r\<lparr>sr_Metadata := or_empty x\<rparr>) (dec_map v)
     else if name = ''attachments'' then map_option (\<lambda>x. r\<lparr>sr_Attachments := or_empty x\<rparr>) (dec_attachments v)
     else Some r)"

definition zero_send :: send_message_request where
  "zero_send = \<lparr>sr_To = [], sr_CC = [], sr_BCC = [], sr_Subject = [], sr_BodyText = [], sr_BodyHTML = [],
     sr_ReplyToID = None, sr_Metadata = [], sr_Attachments = []\<rparr>"

definition dec_reply_all :: "env \<Rightarrow> json \<Rightarrow> reply_all_request \<Rightarrow> reply_all_request option" where
  "dec_reply_all E = dec_struct (\<lambda>name v r.
     if name = ''body_text'' then map_option (\<lambda>x. r\<lparr>rr_BodyText := x\<rparr>) (dec_string v (rr_BodyText r))
     else if name = ''body_html'' then map_option (\<lambda>x. r\<lparr>rr_BodyHTML := x\<rparr>) (dec_string v (rr_BodyHTML r))
     else if name = ''attachments'' then map_option (\<lambda>x. r\<lparr>rr_Attachments := or_empty x\<rparr>) (dec_attachments v)
     else Some r)"

definition dec_forward :: "env \<Rightarrow> json \<Rightarrow> forward_request \<Rightarrow> forward_request option" where
  "dec_forward E = dec_struct (\<lambda>name v r.
     if name = ''to'' then map_option (\<lambda>x. r\<lparr>fr_To := or_empty x\<rparr>) (dec_addresses v)
     else if name = ''cc'' then map_option (\<lambda>x. r\<lparr>fr_CC := or_empty x\<rparr>) (dec_addresses v)
     else if name = ''bcc'' then map_option (\<lambda>x. r\<lparr>fr_BCC := or_empty x\<rparr>) (dec_addresses v)
     else if name = ''body_text'' then map_option (\<lambda>x. r\<lparr>fr_BodyText := x\<rparr>) (dec_string v (fr_BodyText r))
     else if name = ''body_html'' then map_option (\<lambda>x. r\<lparr>fr_BodyHTML := x\<rparr>) (dec_string v (fr_BodyHTML r))
     else if name = ''attachments'' then map_option (\<lambda>x. r\<lparr>fr_Attachments := or_empty x\<rparr>) (dec_attachments v)
     else Some r)"

section \<open>The handler\<close>

definition message_in_path :: "message_service \<Rightarrow> claims \<Rightarrow> uuid \<Rightarrow> uuid \<Rightarrow> string \<Rightarrow> (message \<Rightarrow> handler) \<Rightarrow> handler" where
  "message_in_path s c threadID messageID what k =
     handle (MessageService_Get s c messageID) (\<lambda>_. not_found what)
       (\<lambda>msg. if m_ThreadID msg \<noteq> threadID then not_found what else k msg)"

definition messages_collection :: "message_service \<Rightarrow> request \<Rightarrow> claims \<Rightarrow> uuid \<Rightarrow> handler" where
  "messages_collection s event c threadID =
     (if rq_HTTPMethod event = ''GET'' then
        require_scope c ScopeInboxRead
          (handle (MessageService_List s c threadID (query_limit event) (map_get (rq_QueryStringParameters event) ''cursor''))
             cursor_error (\<lambda>(msgs, nextCursor). respond (JSON 200 (VMessages msgs nextCursor))))
      else respond (Error 404 ''not found''))"

definition message_patch_of :: "patch_message_request \<Rightarrow> message_patch" where
  "message_patch_of req =
     \<lparr>mp_IsRead = map_option Not (pm_Unread req), mp_IsStarred = pm_Starred req, mp_Metadata = pm_Metadata req\<rparr>"

definition messages_item :: "message_service \<Rightarrow> request \<Rightarrow> claims \<Rightarrow> uuid \<Rightarrow> uuid \<Rightarrow> handler" where
  "messages_item s event c threadID messageID =
     (if rq_HTTPMethod event = ''GET'' then
        require_scope c ScopeInboxRead
          (message_in_path s c threadID messageID ''message'' (\<lambda>msg. respond (JSON 200 (VMessage msg))))
      else if rq_HTTPMethod event = ''PATCH'' then
        require_scope c ScopeInboxWrite
          (with_body dec_patch_message event zero_patch_message (\<lambda>req.
             handle (MessageService_UpdateMessage s c messageID (message_patch_of req)) (\<lambda>_. not_found ''message'')
               (\<lambda>msg. if m_ThreadID msg \<noteq> threadID then not_found ''message'' else respond (JSON 200 (VMessage msg)))))
      else respond (Error 404 ''not found''))"

definition messages_raw :: "message_service \<Rightarrow> request \<Rightarrow> claims \<Rightarrow> uuid \<Rightarrow> uuid \<Rightarrow> handler" where
  "messages_raw s event c threadID messageID =
     (if rq_HTTPMethod event = ''GET'' then
        require_scope c ScopeInboxRead
          (message_in_path s c threadID messageID ''raw message'' (\<lambda>_.
             handle (MessageService_GetRaw s c messageID) (\<lambda>_. not_found ''raw message'')
               (\<lambda>data. respond (Binary 200 data ''message/rfc822'' []))))
      else respond (Error 404 ''not found''))"

definition messages_attachment :: "message_service \<Rightarrow> request \<Rightarrow> claims \<Rightarrow> uuid \<Rightarrow> uuid \<Rightarrow> uuid \<Rightarrow> handler" where
  "messages_attachment s event c threadID messageID attachmentID =
     (if rq_HTTPMethod event = ''GET'' then
        require_scope c ScopeInboxRead
          (message_in_path s c threadID messageID ''attachment'' (\<lambda>_.
             handle (MessageService_GetAttachmentContent s c messageID attachmentID) (\<lambda>_. not_found ''attachment'')
               (\<lambda>(att, data). respond (Binary 200 data (at_ContentType att)
                  (''attachment; filename='' @ go_quote (at_Filename att))))))
      else respond (Error 404 ''not found''))"

definition messages_reply_all :: "message_service \<Rightarrow> request \<Rightarrow> claims \<Rightarrow> uuid \<Rightarrow> uuid \<Rightarrow> uuid \<Rightarrow> handler" where
  "messages_reply_all s event c inboxID threadID messageID =
     (if rq_HTTPMethod event = ''POST'' then
        require_scope c ScopeInboxWrite
          (message_in_path s c threadID messageID ''message'' (\<lambda>_.
             with_body dec_reply_all event \<lparr>rr_BodyText = [], rr_BodyHTML = [], rr_Attachments = []\<rparr> (\<lambda>req.
               handle (MessageService_ReplyAll s c inboxID messageID req) (error_text 400)
                 (\<lambda>msg. respond (JSON 201 (VMessage msg))))))
      else respond (Error 404 ''not found''))"

definition messages_forward :: "message_service \<Rightarrow> request \<Rightarrow> claims \<Rightarrow> uuid \<Rightarrow> uuid \<Rightarrow> uuid \<Rightarrow> handler" where
  "messages_forward s event c inboxID threadID messageID =
     (if rq_HTTPMethod event = ''POST'' then
        require_scope c ScopeInboxWrite
          (message_in_path s c threadID messageID ''message'' (\<lambda>_.
             with_body dec_forward event
                 \<lparr>fr_To = [], fr_CC = [], fr_BCC = [], fr_BodyText = [], fr_BodyHTML = [], fr_Attachments = []\<rparr> (\<lambda>req.
               handle (MessageService_Forward s c inboxID messageID req) (error_text 400)
                 (\<lambda>msg. respond (JSON 201 (VMessage msg))))))
      else respond (Error 404 ''not found''))"

definition messages_send :: "message_service \<Rightarrow> request \<Rightarrow> claims \<Rightarrow> uuid \<Rightarrow> handler" where
  "messages_send s event c inboxID =
     (if rq_HTTPMethod event = ''POST'' then
        require_scope c ScopeInboxWrite
          (with_body dec_send event zero_send (\<lambda>req.
             handle (MessageService_Send s c inboxID req) (error_text 400)
               (\<lambda>msg. respond (JSON 201 (VMessage msg)))))
      else respond (Error 404 ''not found''))"

definition messages_handler :: "message_service \<Rightarrow> request \<Rightarrow> handler" where
  "messages_handler s event = with_claims event (\<lambda>c E.
     let inboxID = path_uuid E event ''inboxId''; threadID = path_uuid E event ''threadId'';
         messageID = path_uuid E event ''messageId'';
         item = ''/v1/inboxes/{inboxId}/threads/{threadId}/messages/{messageId}'' in
     (if rq_Resource event = ''/v1/inboxes/{inboxId}/threads/{threadId}/messages'' then messages_collection s event c threadID
      else if rq_Resource event = item then messages_item s event c threadID messageID
      else if rq_Resource event = item @ ''/raw'' then messages_raw s event c threadID messageID
      else if rq_Resource event = item @ ''/attachments/{attachmentId}'' then
        messages_attachment s event c threadID messageID (path_uuid E event ''attachmentId'')
      else if rq_Resource event = item @ ''/reply-all'' then messages_reply_all s event c inboxID threadID messageID
      else if rq_Resource event = item @ ''/forward'' then messages_forward s event c inboxID threadID messageID
      else if rq_Resource event = ''/v1/inboxes/{inboxId}/messages/send'' then messages_send s event c inboxID
      else respond (Error 404 ''not found'')) E)"

section \<open>Honest answers\<close>

lemma message_ops_roll_back:
  "rolls_back (MessageService_ReplyAll s c inboxID i rreq)" "rolls_back (MessageService_Forward s c inboxID i freq)"
  unfolding MessageService_ReplyAll_def MessageService_Forward_def Let_def
  by (intro rolls_back_bind rolls_back_Send keeps_intros)+

lemma message_reads_service [keeps_intros]:
  "keeps_db Q (MessageService_List s c th n cur)" "keeps_db Q (MessageService_GetRaw s c i)"
  "keeps_db Q (MessageService_GetAttachmentContent s c i j)"
  unfolding MessageService_List_def MessageService_GetRaw_def MessageService_GetAttachmentContent_def
  by (intro keeps_intros)+

lemma honest_message_in_path [honest_intros]:
  assumes "\<And>x. honest (k x)" shows "honest (message_in_path s c threadID messageID what k)"
  unfolding message_in_path_def by (intro honest_intros keeps_intros assms)

lemma honest_messages_write:
  "honest (handle (MessageService_Send s c i req) (error_text 400) (\<lambda>msg. respond (JSON 201 (VMessage msg))))"
  "honest (handle (MessageService_ReplyAll s c i j rreq) (error_text 400) (\<lambda>msg. respond (JSON 201 (VMessage msg))))"
  "honest (handle (MessageService_Forward s c i j freq) (error_text 400) (\<lambda>msg. respond (JSON 201 (VMessage msg))))"
  by (intro honest_write rolls_back_Send message_ops_roll_back nothing_intros accepts_respond; simp)+

lemma honest_messages:
  assumes "rq_HTTPMethod event \<noteq> ''PATCH''"
  shows "honest (messages_handler s event)"
proof -
  have "honest (messages_collection s event c i)" for c i
    unfolding messages_collection_def by (intro honest_intros keeps_intros)
  moreover have "honest (messages_item s event c i j)" for c i j
    unfolding messages_item_def using assms by (intro honest_intros) simp_all
  moreover have "honest (messages_raw s event c i j)" "honest (messages_attachment s event c i j l)" for c i j l
    unfolding messages_raw_def messages_attachment_def by (intro honest_intros keeps_intros)+
  moreover have "honest (messages_reply_all s event c i j l)" "honest (messages_forward s event c i j l)"
    "honest (messages_send s event c i)" for c i j l
    unfolding messages_reply_all_def messages_forward_def messages_send_def
    by (intro honest_intros honest_messages_write)+
  ultimately show ?thesis
    unfolding messages_handler_def by (intro honest_claims) (simp add: honest_def Let_def respond_def)
qed

definition demo_message_request :: "string \<Rightarrow> string \<Rightarrow> string \<Rightarrow> json \<Rightarrow> request" where
  "demo_message_request resource verb thread body =
     \<lparr>rq_Resource = resource, rq_HTTPMethod = verb,
      rq_PathParameters = [(''inboxId'', ''111''), (''threadId'', thread), (''messageId'', ''111111111'')],
      rq_QueryStringParameters = [], rq_Authorizer = [(''org_id'', JStr ''1''), (''key_id'', JStr ''1111''),
        (''scopes'', JStr ''inbox:write'')], rq_Body = Some body\<rparr>"

text \<open>A PATCH is different: the message is updated before its thread is compared with the thread of the
  path, so a request under the wrong thread answers 404 and has nevertheless marked the message as read.\<close>

lemma messages_patch_late_check:
  "\<exists>E w s event. rs_StatusCode (fst (messages_handler s event E w)) = 404 \<and>
     (\<exists>m \<in> set (t_messages (w_db w)). \<exists>m' \<in> set (t_messages (w_db (snd (messages_handler s event E w)))).
        mr_id m' = mr_id m \<and> \<not> mr_is_read m \<and> mr_is_read m' \<and> mr_thread_id m \<noteq> path_uuid E event ''threadId'')"
proof -
  let ?r = "demo_message_request ''/v1/inboxes/{inboxId}/threads/{threadId}/messages/{messageId}'' ''PATCH'' ''1'' (JObj [(''unread'', JBool False)])"
  have "rs_StatusCode (fst (messages_handler demo_message_service ?r demo_env demo_world)) = 404" by code_simp
  moreover obtain m' where "m' \<in> set (t_messages (w_db (snd (messages_handler demo_message_service ?r demo_env demo_world))))"
    "mr_id m' = 9" "mr_is_read m'"
  proof -
    have "list_ex (\<lambda>m'. mr_id m' = 9 \<and> mr_is_read m') (t_messages (w_db (snd (messages_handler demo_message_service ?r demo_env demo_world))))"
      by code_simp
    with that show thesis unfolding list_ex_iff by blast
  qed
  moreover have "demo_message \<in> set (t_messages (w_db demo_world))" "mr_id demo_message = 9" "\<not> mr_is_read demo_message"
    "mr_thread_id demo_message \<noteq> path_uuid demo_env ?r ''threadId''"
    by (simp_all add: demo_db_def demo_message_def path_uuid_def PathParam_def demo_message_request_def map_get_def demo_env_def)
  ultimately have "rs_StatusCode (fst (messages_handler demo_message_service ?r demo_env demo_world)) = 404 \<and>
     (\<exists>m \<in> set (t_messages (w_db demo_world)). \<exists>m' \<in> set (t_messages (w_db (snd (messages_handler demo_message_service ?r demo_env demo_world)))).
        mr_id m' = mr_id m \<and> \<not> mr_is_read m \<and> mr_is_read m' \<and> mr_thread_id m \<noteq> path_uuid demo_env ?r ''threadId'')"
    by (intro conjI bexI [of _ demo_message] bexI [of _ m']) simp_all
  then show ?thesis by blast
qed

end
