(* ===== verification/Thread_Service.thy ===== *)
theory Thread_Service
  imports Draft_Review
begin

text \<open>\<open>services/inbox/service/thread_service.go\<close>: the flags, status and labels of threads.\<close>

type_synonym thread_service = publisher

definition ThreadService_List :: "thread_service \<Rightarrow> claims \<Rightarrow> thread_list_query \<Rightarrow> (thread list \<times> string) io" where
  "ThreadService_List s c q = wrap_err ''list threads'' (WithOrgTx (cl_OrgID c) (ThreadStore_List (cl_OrgID c) q))"

definition ThreadService_Get :: "thread_service \<Rightarrow> claims \<Rightarrow> uuid \<Rightarrow> thread io" where
  "ThreadService_Get s c threadID =
     wrap_err ''get thread'' (WithOrgTx (cl_OrgID c)
       (go_bind (ThreadStore_GetByID (cl_OrgID c) threadID) (\<lambda>thread.
        go_bind (ThreadStore_GetLabels (cl_OrgID c) threadID) (\<lambda>labels.
        ret (thread\<lparr>th_Labels := th_Labels thread @ labels\<rparr>)))))"

definition update_status_body :: "thread_service \<Rightarrow> claims \<Rightarrow> uuid \<Rightarrow> string \<Rightarrow> thread io" where
  "update_status_body s c threadID status =
     go_bind (ThreadStore_GetByID (cl_OrgID c) threadID) (\<lambda>existing.
     let oldStatus = th_Status existing in
     go_bind (ThreadStore_Update (cl_OrgID c) threadID (empty_thread_patch\<lparr>tp_Status := Some status\<rparr>)) (\<lambda>thread.
     go_bind (NewBase EventThreadStatusChanged (cl_OrgID c)) (\<lambda>b.
     go_bind (ignore_err (PublishEvent s (ThreadStatusChangedEvent b threadID (th_InboxID thread) oldStatus status))) (\<lambda>_.
     ret thread))))"

definition ThreadService_UpdateStatus :: "thread_service \<Rightarrow> claims \<Rightarrow> uuid \<Rightarrow> string \<Rightarrow> thread io" where
  "ThreadService_UpdateStatus s c threadID status =
     wrap_err ''update thread status'' (WithOrgTx (cl_OrgID c) (update_status_body s c threadID status))"

definition ThreadService_MarkRead :: "thread_service \<Rightarrow> claims \<Rightarrow> uuid \<Rightarrow> bool \<Rightarrow> thread io" where
  "ThreadService_MarkRead s c threadID isRead =
     wrap_err ''mark thread read'' (WithOrgTx (cl_OrgID c)
       (ThreadStore_Update (cl_OrgID c) threadID (empty_thread_patch\<lparr>tp_IsRead := Some isRead\<rparr>)))"

definition ThreadService_MarkStarred :: "thread_service \<Rightarrow> claims \<Rightarrow> uuid \<Rightarrow> bool \<Rightarrow> thread io" where
  "ThreadService_MarkStarred s c threadID isStarred =
     wrap_err ''mark thread starred'' (WithOrgTx (cl_OrgID c)
       (ThreadStore_Update (cl_OrgID c) threadID (empty_thread_patch\<lparr>tp_IsStarred := Some isStarred\<rparr>)))"

definition ThreadService_ApplyLabel :: "thread_service \<Rightarrow> claims \<Rightarrow> uuid \<Rightarrow> uuid \<Rightarrow> unit io" where
  "ThreadService_ApplyLabel s c threadID labelID =
     wrap_err ''apply label'' (WithOrgTx (cl_OrgID c)
       (go_bind (ThreadStore_GetByID (cl_OrgID c) threadID) (\<lambda>_. ThreadStore_ApplyLabel threadID labelID)))"

definition ThreadService_RemoveLabel :: "thread_service \<Rightarrow> claims \<Rightarrow> uuid \<Rightarrow> uuid \<Rightarrow> unit io" where
  "ThreadService_RemoveLabel s c threadID labelID =
     wrap_err ''remove label'' (WithOrgTx (cl_OrgID c)
       (go_bind (ThreadStore_GetByID (cl_OrgID c) threadID) (\<lambda>_. ThreadStore_RemoveLabel threadID labelID)))"

section \<open>Calls\<close>

datatype thread_op = TStatus uuid string | TRead uuid bool | TStar uuid bool | TApply uuid uuid | TRemove uuid uuid

fun thread_call :: "env \<Rightarrow> thread_service \<Rightarrow> claims \<times> thread_op \<Rightarrow> world \<Rightarrow> go_error option \<times> world" where
  "thread_call E s (c, TStatus i status) w = outcome (ThreadService_UpdateStatus s c i status E w)"
| "thread_call E s (c, TRead i b) w = outcome (ThreadService_MarkRead s c i b E w)"
| "thread_call E s (c, TStar i b) w = outcome (ThreadService_MarkStarred s c i b E w)"
| "thread_call E s (c, TApply i l) w = outcome (ThreadService_ApplyLabel s c i l E w)"
| "thread_call E s (c, TRemove i l) w = outcome (ThreadService_RemoveLabel s c i l E w)"

lemma thread_ops_roll_back:
  "rolls_back (ThreadService_UpdateStatus s c i st)" "rolls_back (ThreadService_MarkRead s c i b)"
  "rolls_back (ThreadService_MarkStarred s c i b)" "rolls_back (ThreadService_ApplyLabel s c i l)"
  "rolls_back (ThreadService_RemoveLabel s c i l)"
  unfolding ThreadService_UpdateStatus_def ThreadService_MarkRead_def ThreadService_MarkStarred_def
    ThreadService_ApplyLabel_def ThreadService_RemoveLabel_def
  by (intro rolls_back_wrap rolls_back_tx)+

text \<open>What a call can leave behind: a thread patched, a label put on or taken off a thread, in each case
  a thread of the caller's organisation.\<close>

definition patched_thread :: "uuid \<Rightarrow> uuid \<Rightarrow> thread_patch \<Rightarrow> database \<Rightarrow> database \<Rightarrow> bool" where
  "patched_thread org i p d d' \<longleftrightarrow> (\<exists>now r. thread_update org i p now d = Inr (r, d'))"

lemma ThreadStore_Update_db:
  assumes "ThreadStore_Update org i p E w = (Inr x, w')" "p \<noteq> empty_thread_patch"
  shows "patched_thread org i p (w_db w) (w_db w')"
proof -
  obtain r d' where "thread_update org i p (w_now w) (w_db w) = Inr (r, d')" "w' = (tick_world (tick_world w))\<lparr>w_db := d'\<rparr>"
    by (rule ThreadStore_Update_success [OF assms])
  then show ?thesis by (auto simp: patched_thread_def)
qed

lemma status_body_db:
  assumes "update_status_body s c i status E w = (Inr x, w')"
  shows "patched_thread (cl_OrgID c) i (empty_thread_patch\<lparr>tp_Status := Some status\<rparr>) (w_db w) (w_db w')"
proof -
  from assms obtain t w1 w2 b w3 ev where
    1: "ThreadStore_GetByID (cl_OrgID c) i E w = (Inr t, w1)" and
    2: "ThreadStore_Update (cl_OrgID c) i (empty_thread_patch\<lparr>tp_Status := Some status\<rparr>) E w1 = (Inr x, w2)" and
    3: "NewBase EventThreadStatusChanged (cl_OrgID c) E w2 = (Inr b, w3)" "ignore_err (PublishEvent s (ev b)) E w3 = (Inr (), w')"
    unfolding update_status_body_def Let_def by (auto simp: go_bind_eq_Inr ret_eq_Inr)
  have "w_db w1 = w_db w" by (rule ThreadStore_GetByID_success [OF 1]) simp
  moreover have "w_db w' = w_db w2"
    using keeps_db_same [OF keeps_db_publish(3) 3(1)] keeps_db_same [OF keeps_db_ignore [OF keeps_db_publish(1)] 3(2)] by simp
  ultimately show ?thesis using ThreadStore_Update_db [OF 2] by (simp add: empty_thread_patch_def)
qed

lemma label_body_db:
  assumes "go_bind (ThreadStore_GetByID org i) (\<lambda>_. m) E w = (Inr u, w')"
  obtains t w1 where "t \<in> set (t_threads (w_db w))" "tr_org_id t = org" "tr_id t = i" "m E w1 = (Inr u, w')" "w_db w1 = w_db w"
proof -
  from assms obtain x w1 where 1: "ThreadStore_GetByID org i E w = (Inr x, w1)" and 2: "m E w1 = (Inr u, w')"
    by (auto simp: go_bind_eq_Inr)
  from 1 show thesis by (rule ThreadStore_GetByID_success) (use that 2 in simp)
qed

section \<open>Isolation\<close>

definition foreign_links :: "uuid \<Rightarrow> database \<Rightarrow> thread_label list" where
  "foreign_links org d = filter (\<lambda>l. \<forall>t \<in> set (t_threads d). tr_id t = tl_ThreadID l \<longrightarrow> tr_org_id t \<noteq> org) (t_thread_labels d)"

lemma ball_upd_where: "(\<And>r. Q (f r) = Q r) \<Longrightarrow> (\<forall>r \<in> set (upd_where p f rs). Q r) = (\<forall>r \<in> set rs. Q r)"
  by (induction rs) (auto simp: upd_where_def)

lemma patched_thread_foreign:
  assumes "patched_thread org i p d d'"
  shows "foreign_rows org d' = foreign_rows org d \<and> foreign_links org d' = foreign_links org d"
proof -
  from assms obtain now r where u: "thread_update org i p now d = Inr (r, d')" by (auto simp: patched_thread_def)
  then have d': "d' = d\<lparr>t_threads := upd_where (\<lambda>r. tr_org_id r = org \<and> tr_id r = i) (thread_set p now) (t_threads d)\<rparr>"
    by (auto simp: thread_update_eq_Inr)
  have "(\<forall>t \<in> set (t_threads d'). tr_id t = x \<longrightarrow> tr_org_id t \<noteq> org) = (\<forall>t \<in> set (t_threads d). tr_id t = x \<longrightarrow> tr_org_id t \<noteq> org)" for x
    unfolding d' by simp (rule ball_upd_where, simp)
  then have "foreign_links org d' = foreign_links org d"
    unfolding foreign_links_def by (simp add: d')
  then show ?thesis
    using threads.upd_others [OF u] by (simp add: foreign_rows_def d')
qed

text \<open>C10. A thread operation changes no thread, message, draft or thread label of another organisation,
  whichever thread the caller names, and one that reports an error has changed no table.  (Of the tables only: a change of the
  status is announced to the event queues before its COMMIT, so the event of a failing one can have been sent.)\<close>

theorem thread_call_isolated:
  "foreign_rows (cl_OrgID c) (w_db (snd (thread_call E s (c, k) w))) = foreign_rows (cl_OrgID c) (w_db w) \<and>
   foreign_links (cl_OrgID c) (w_db (snd (thread_call E s (c, k) w))) = foreign_links (cl_OrgID c) (w_db w) \<and>
   (fst (thread_call E s (c, k) w) = None \<or> w_db (snd (thread_call E s (c, k) w)) = w_db w)"
proof -
  let ?org = "cl_OrgID c"
  let ?P = "\<lambda>d. foreign_rows ?org d = foreign_rows ?org (w_db w) \<and> foreign_links ?org d = foreign_links ?org (w_db w)"
  have upd: "leaves ?P (wrap_err e (WithOrgTx ?org (ThreadStore_Update ?org i p))) E w" if "p \<noteq> empty_thread_patch" for e i p
    by (intro leaves_wrap leaves_OrgTx conjI refl)
      (drule ThreadStore_Update_db [OF _ that], drule patched_thread_foreign, simp)+
  have "leaves ?P (ThreadService_UpdateStatus s c i st) E w" for i st
    unfolding ThreadService_UpdateStatus_def
    by (intro leaves_wrap leaves_OrgTx conjI refl) (drule status_body_db, drule patched_thread_foreign, simp)+
  moreover have "leaves ?P (ThreadService_MarkRead s c i b) E w" "leaves ?P (ThreadService_MarkStarred s c i b) E w" for i b
    unfolding ThreadService_MarkRead_def ThreadService_MarkStarred_def by (rule upd; simp add: empty_thread_patch_def)+
  moreover have "leaves ?P (ThreadService_ApplyLabel s c i l) E w" for i l
    unfolding ThreadService_ApplyLabel_def
  proof (intro leaves_wrap leaves_OrgTx conjI refl; elim label_body_db)
    fix w1 :: world and x w2 t w3
    assume "t \<in> set (t_threads (w_db w1))" "tr_org_id t = ?org" "tr_id t = i" "ThreadStore_ApplyLabel i l E w3 = (Inr x, w2)"
      "w_db w3 = w_db w1" "w_db w1 = w_db w"
    then show "foreign_rows ?org (w_db w2) = foreign_rows ?org (w_db w)"
      "foreign_links ?org (w_db w2) = foreign_links ?org (w_db w)"
      by (auto simp: ThreadStore_ApplyLabel_def go_success tx_exec_eq_Inr thread_label_insert_def require_eq_Inr
          foreign_rows_def foreign_links_def split: if_splits)
  qed
  moreover have "leaves ?P (ThreadService_RemoveLabel s c i l) E w" for i l
    unfolding ThreadService_RemoveLabel_def
  proof (intro leaves_wrap leaves_OrgTx conjI refl; elim label_body_db)
    fix w1 :: world and x w2 t w3
    assume "t \<in> set (t_threads (w_db w1))" "tr_org_id t = ?org" "tr_id t = i" "ThreadStore_RemoveLabel i l E w3 = (Inr x, w2)"
      "w_db w3 = w_db w1" "w_db w1 = w_db w"
    then show "foreign_rows ?org (w_db w2) = foreign_rows ?org (w_db w)"
      "foreign_links ?org (w_db w2) = foreign_links ?org (w_db w)"
      by (auto simp: ThreadStore_RemoveLabel_def go_success tx_exec_eq_Inr thread_label_delete_def
          foreign_rows_def foreign_links_def del_where_def intro!: filter_cong)
  qed
  ultimately have "?P (w_db (snd (thread_call E s (c, k) w)))"
    by (cases k) (simp_all add: leaves_def)
  moreover have "fst (thread_call E s (c, k) w) = None \<or> w_db (snd (thread_call E s (c, k) w)) = w_db w"
    by (cases k; simp only: thread_call.simps) (metis rolls_back_outcome thread_ops_roll_back option.exhaust)+
  ultimately show ?thesis by blast
qed

section \<open>Status changes\<close>

text \<open>A successful status change gives the named thread of the caller's organisation one of the four
  statuses, leaves every other thread alone, and, when nothing fails, sends the change from the old
  to the new status to the webhook and WebSocket queues.\<close>

lemma thread_status_effect:
  assumes "ThreadService_UpdateStatus s c i status E w = (Inr t, w')" and "no_faults E"
  shows "\<exists>t0 \<in> set (t_threads (w_db w)). \<exists>b now. tr_id t0 = i \<and> tr_org_id t0 = cl_OrgID c \<and>
    status \<in> {''open'', ''closed'', ''spam'', ''trash''} \<and> th_ID t = i \<and> th_Status t = status \<and>
    t_threads (w_db w') = map (\<lambda>r. if tr_org_id r = cl_OrgID c \<and> tr_id r = i
      then r\<lparr>tr_status := status, tr_updated_at := now\<rparr> else r) (t_threads (w_db w)) \<and>
    be_Type b = ''thread.status_changed'' \<and> be_OrgID b = fmt_uuid E (cl_OrgID c) \<and>
    w_sent w' = w_sent w @ map (\<lambda>q. (q, EventBody (ThreadStatusChangedEvent b i (tr_inbox_id t0) (th_Status (scanThread t0)) status)))
      (filter (\<lambda>q. q \<noteq> []) [webhookDeliveryURL s, wsDispatchURL s])"
proof -
  let ?p = "empty_thread_patch\<lparr>tp_Status := Some status\<rparr>" and ?org = "cl_OrgID c"
  from assms(1) obtain w1 w6 where body: "update_status_body s c i status E w1 = (Inr t, w6)" and
    w1: "w_db w1 = w_db w" "w_sent w1 = w_sent w" and w6: "w' = end_tx w w6"
    unfolding ThreadService_UpdateStatus_def wrap_err_eq_Inr by (rule WithOrgTx_success)
  from body obtain x w2 w3 b w4 where
    1: "ThreadStore_GetByID ?org i E w1 = (Inr x, w2)" and
    2: "ThreadStore_Update ?org i ?p E w2 = (Inr t, w3)" and
    3: "NewBase EventThreadStatusChanged ?org E w3 = (Inr b, w4)" and
    4: "ignore_err (PublishEvent s (ThreadStatusChangedEvent b i (th_InboxID t) (th_Status x) status)) E w4 = (Inr (), w6)"
    unfolding update_status_body_def Let_def by (auto simp: go_bind_eq_Inr ret_eq_Inr)
  from 1 obtain t0 where t0: "t0 \<in> set (t_threads (w_db w1))" "tr_org_id t0 = ?org" "tr_id t0 = i" "x = scanThread t0"
    "thread_select ?org i (w_now w1) (w_db w1) = Inr (t0, w_db w1)" and w2: "w2 = tick_world w1"
    by (auto simp: ThreadStore_GetByID_eq_Inr dest: thread_select_eq_Inr)
  obtain r d' where u: "thread_update ?org i ?p (w_now w2) (w_db w2) = Inr (r, d')" "t = scanThread r"
    "w3 = (tick_world (tick_world w2))\<lparr>w_db := d'\<rparr>"
    by (rule ThreadStore_Update_success [OF 2]) (simp add: empty_thread_patch_def)
  from u(1) obtain r0 rest where r0: "filter (\<lambda>r. tr_org_id r = ?org \<and> tr_id r = i) (t_threads (w_db w2)) = r0 # rest"
    "r = thread_set ?p (w_now w2) r0"
    "d' = (w_db w2)\<lparr>t_threads := upd_where (\<lambda>r. tr_org_id r = ?org \<and> tr_id r = i) (thread_set ?p (w_now w2)) (t_threads (w_db w2))\<rparr>"
    "status \<in> set thread_statuses"
    by (auto simp: thread_update_eq_Inr)
  have "r0 = t0" using r0(1) t0(5) by (simp add: threads.get_law w2)
  have keep: "thread_set ?p n = (\<lambda>r. r\<lparr>tr_status := status, tr_updated_at := n\<rparr>)" for n
    by (rule ext) (simp add: thread_set_def empty_thread_patch_def)
  have "w_db w6 = d'" "w_sent w4 = w_sent w"
    using NewBase_success [OF 3] keeps_db_same [OF keeps_db_ignore [OF keeps_db_publish(1)] 4] u(3) w1 w2 by simp_all
  moreover have "w_sent w6 = w_sent w4 @ map (\<lambda>q. (q, EventBody (ThreadStatusChangedEvent b i (th_InboxID t) (th_Status x) status)))
      (filter (\<lambda>q. q \<noteq> []) (event_queues s (ThreadStatusChangedEvent b i (th_InboxID t) (th_Status x) status)))"
    using 4 by (simp add: ignore_err_eq_Inr PublishEvent_run [OF assms(2)])
  moreover have "th_InboxID t = tr_inbox_id t0" "th_ID t = i" "th_Status t = status"
    using t0 by (simp_all add: u(2) r0(2) \<open>r0 = t0\<close>) (simp add: keep)
  ultimately show ?thesis
    using NewBase_success [OF 3] t0 w1 r0(3,4)
    by (intro bexI [of _ t0] exI [of _ b] exI [of _ "w_now w2"])
      (simp_all add: w6 w2 keep upd_where_def event_queues_def thread_statuses_def)
qed

lemma thread_status_effect_at_demo:
  "\<exists>t w'. ThreadService_UpdateStatus demo_publisher (demo_claims 1) 8 ''closed'' demo_env demo_world = (Inr t, w') \<and>
     th_Status t = ''closed'' \<and> length (w_sent w') = 2"
proof -
  have "isl (fst (ThreadService_UpdateStatus demo_publisher (demo_claims 1) 8 ''closed'' demo_env demo_world)) = False"
    by code_simp
  then obtain t w' where run: "ThreadService_UpdateStatus demo_publisher (demo_claims 1) 8 ''closed'' demo_env demo_world = (Inr t, w')"
    by (metis isl_def prod.collapse sum.exhaust_sel sum.collapse(2))
  from thread_status_effect [OF run] have "th_Status t = ''closed''" "length (w_sent w') = 2"
    by (auto simp: no_faults_def demo_publisher_def demo_world_def)
  with run show ?thesis by blast
qed

section \<open>Labels\<close>

lemma ThreadService_Get_success:
  assumes "ThreadService_Get s c i E w = (Inr t, w')"
  shows "th_Labels t = thread_labels_of (cl_OrgID c) i (w_db w) \<and> w_db w' = w_db w"
proof -
  from assms obtain w1 w2 where w1: "w_db w1 = w_db w" "w' = end_tx w w2" and
    body: "go_bind (ThreadStore_GetByID (cl_OrgID c) i) (\<lambda>thread. go_bind (ThreadStore_GetLabels (cl_OrgID c) i)
      (\<lambda>labels. ret (thread\<lparr>th_Labels := th_Labels thread @ labels\<rparr>))) E w1 = (Inr t, w2)"
    unfolding ThreadService_Get_def wrap_err_eq_Inr by (rule WithOrgTx_success) blast
  from body obtain x w3 ls where 1: "ThreadStore_GetByID (cl_OrgID c) i E w1 = (Inr x, w3)" and
    2: "ThreadStore_GetLabels (cl_OrgID c) i E w3 = (Inr ls, w2)" and t: "t = x\<lparr>th_Labels := th_Labels x @ ls\<rparr>"
    by (auto simp: go_bind_eq_Inr ret_eq_Inr)
  from 1 obtain r where "x = scanThread r" "w3 = tick_world w1"
    by (rule ThreadStore_GetByID_success)
  with 2 t w1 show ?thesis
    by (auto simp: ThreadStore_GetLabels_def go_success tx_exec_eq_Inr query_def)
qed

lemma label_call_success:
  assumes "wrap_err e (WithOrgTx org (go_bind (ThreadStore_GetByID org i) (\<lambda>_. wrap_err e' (tx_exec st)))) E w = (Inr u, w')"
  obtains now where "st now (w_db w) = Inr (u, w_db w')"
proof -
  from assms obtain w1 w2 where w1: "w_db w1 = w_db w" "w' = end_tx w w2" and
    body: "go_bind (ThreadStore_GetByID org i) (\<lambda>_. wrap_err e' (tx_exec st)) E w1 = (Inr u, w2)"
    unfolding wrap_err_eq_Inr by (rule WithOrgTx_success) blast
  from body show thesis
    by (rule label_body_db) (use that w1 in \<open>auto simp: wrap_err_eq_Inr tx_exec_eq_Inr\<close>)
qed

text \<open>C13. After a label of the organisation was put on a thread, reading the thread shows it; after it was
  taken off again, reading the thread shows exactly the other labels, in the same order.\<close>

theorem thread_labels_roundtrip:
  assumes "ThreadService_ApplyLabel s c i l E w = (Inr (), w1)" and "ThreadService_Get s c i E w1 = (Inr t, w2)"
    and "ThreadService_RemoveLabel s c i l E w2 = (Inr (), w3)" and "ThreadService_Get s c i E w3 = (Inr t', w4)"
  shows "(\<forall>x \<in> set (t_labels (w_db w)). lb_ID x = l \<and> lb_OrgID x = cl_OrgID c \<longrightarrow> x \<in> set (th_Labels t)) \<and>
    th_Labels t' = filter (\<lambda>x. lb_ID x \<noteq> l) (th_Labels t)"
proof -
  let ?d = "w_db w1" and ?org = "cl_OrgID c"
  from assms(1) obtain n where "thread_label_insert i l n (w_db w) = Inr ((), ?d)"
    unfolding ThreadService_ApplyLabel_def ThreadStore_ApplyLabel_def by (rule label_call_success)
  from thread_label_insert_eq_Inr [OF this]
  have on: "\<exists>x \<in> set (t_thread_labels ?d). tl_ThreadID x = i \<and> tl_LabelID x = l" "t_labels ?d = t_labels (w_db w)" by simp_all
  from assms(3) obtain m where "thread_label_delete i l m (w_db w2) = Inr ((), w_db w3)"
    unfolding ThreadService_RemoveLabel_def ThreadStore_RemoveLabel_def by (rule label_call_success)
  then have d3: "w_db w3 = ?d\<lparr>t_thread_labels := del_where (\<lambda>x. tl_ThreadID x = i \<and> tl_LabelID x = l) (t_thread_labels ?d)\<rparr>"
    using ThreadService_Get_success [OF assms(2)] by (simp add: thread_label_delete_def)
  have f: "filter (\<lambda>x. lb_OrgID x = ?org \<and> (\<exists>y \<in> set (t_thread_labels (w_db w3)). tl_LabelID y = lb_ID x \<and> tl_ThreadID y = i)) ls =
      filter (\<lambda>x. lb_OrgID x = ?org \<and> (\<exists>y \<in> set (t_thread_labels ?d). tl_LabelID y = lb_ID x \<and> tl_ThreadID y = i) \<and> lb_ID x \<noteq> l) ls"
    for ls by (rule filter_cong [OF refl]) (auto simp: d3)
  have "th_Labels t' = filter (\<lambda>x. lb_ID x \<noteq> l) (th_Labels t)"
    using ThreadService_Get_success [OF assms(2)] ThreadService_Get_success [OF assms(4)]
    by (simp add: thread_labels_of_def filter_order_asc f) (simp add: d3)
  moreover have "x \<in> set (th_Labels t)" if "x \<in> set (t_labels (w_db w))" "lb_ID x = l" "lb_OrgID x = ?org" for x
    using that on ThreadService_Get_success [OF assms(2)] by (auto simp: thread_labels_of_def)
  ultimately show ?thesis by blast
qed

theorem thread_labels_roundtrip_witness:
  "\<exists>t w2 t' w4. ThreadService_Get demo_publisher (demo_claims 1) 8 demo_env
       (snd (ThreadService_ApplyLabel demo_publisher (demo_claims 1) 8 11 demo_env demo_world)) = (Inr t, w2) \<and>
     demo_label \<in> set (th_Labels t) \<and> th_Labels t' = filter (\<lambda>x. lb_ID x \<noteq> 11) (th_Labels t) \<and>
     ThreadService_Get demo_publisher (demo_claims 1) 8 demo_env
       (snd (ThreadService_RemoveLabel demo_publisher (demo_claims 1) 8 11 demo_env w2)) = (Inr t', w4)"
proof -
  let ?w1 = "snd (ThreadService_ApplyLabel demo_publisher (demo_claims 1) 8 11 demo_env demo_world)"
  let ?get = "ThreadService_Get demo_publisher (demo_claims 1) 8 demo_env"
  let ?w2 = "snd (?get ?w1)"
  let ?w3 = "snd (ThreadService_RemoveLabel demo_publisher (demo_claims 1) 8 11 demo_env ?w2)"
  have 1: "ThreadService_ApplyLabel demo_publisher (demo_claims 1) 8 11 demo_env demo_world = (Inr (), ?w1)"
    by (rule prod_eqI) (code_simp, simp)
  have "\<not> isl (fst (?get ?w1))" "\<not> isl (fst (?get ?w3))" by code_simp+
  then obtain t t' where 2: "?get ?w1 = (Inr t, ?w2)" and 4: "?get ?w3 = (Inr t', snd (?get ?w3))"
    by (metis sum.collapse(2) prod.collapse)
  have 3: "ThreadService_RemoveLabel demo_publisher (demo_claims 1) 8 11 demo_env ?w2 = (Inr (), ?w3)"
    by (rule prod_eqI) (code_simp, simp)
  have l: "demo_label \<in> set (t_labels (w_db demo_world))" "lb_ID demo_label = 11 \<and> lb_OrgID demo_label = cl_OrgID (demo_claims 1)"
    by (simp_all add: demo_db_def demo_label_def demo_claims_def)
  from thread_labels_roundtrip [OF 1 2 3 4] have
    "demo_label \<in> set (th_Labels t)" "th_Labels t' = filter (\<lambda>x. lb_ID x \<noteq> 11) (th_Labels t)"
    using l by blast+
  with 2 4 show ?thesis by blast
qed

section \<open>Listing\<close>

text \<open>From a cursor on, no page shows a thread without a last message time.\<close>

lemma thread_page_timed:
  assumes "ThreadStore_List org q E w = (Inr (ts, nx), w')" and "tq_Cursor q \<noteq> []" and "t \<in> set ts"
  shows "th_LastMessageAt t \<noteq> None"
proof -
  from assms(1) obtain parts rows where p: "cursor_parts (tq_Cursor q) = Inr parts"
    and pg: "tx_exec (thread_page E org q (Suc (nat (ClampLimit (tq_Limit q)))) parts) E w = (Inr rows, w')"
    and cut: "(ts, nx) = cut_page (nat (ClampLimit (tq_Limit q))) (thread_cursor E) (scanThreadRows rows)"
    by (auto simp: ThreadStore_List_def Let_def go_success split: sum.splits)
  from p assms(2) obtain xy where parts: "parts = Some xy" by (auto simp: cursor_parts_def split: sum.splits if_splits)
  with pg obtain c where rows: "rows = take (Suc (nat (ClampLimit (tq_Limit q)))) (order_desc (\<lambda>t. (tr_last_message_at t, tr_id t))
      (filter (\<lambda>t. thread_page_where (w_db w) org q t \<and> thread_after (Some c) t) (t_threads (w_db w))))"
    by (auto simp: tx_exec_eq_Inr thread_page_def cursor_key_def split: sum.splits option.splits prod.splits)
  from assms(3) cut have "t \<in> set (scanThreadRows rows)" by (auto simp: cut_page_def split: if_splits dest: in_set_takeD)
  then obtain r where "r \<in> set rows" "t = scanThread r" by (auto simp: scanThreadRows_def)
  moreover from this(1) rows have "thread_after (Some c) r" by (auto dest: in_set_takeD)
  ultimately show ?thesis by (auto simp: thread_after_def split: option.splits)
qed

text \<open>C15. Paging through the threads that match a query with the returned cursors visits every one of them once, the latest
  activity first, and ends, for any filters and page size, if each of them has a last message time.  Threads without one are not
  reached: no page after the first shows any.\<close>

theorem thread_pages_complete:
  assumes "cursor_codec E" and "no_faults E" and "\<not> w_failed w" and "distinct (map tr_id (t_threads (w_db w)))"
  shows "((\<forall>t \<in> set (t_threads (w_db w)). thread_page_where (w_db w) org q t \<longrightarrow> tr_last_message_at t \<noteq> None) \<longrightarrow>
      walk (Suc (length (t_threads (w_db w))))
        (\<lambda>cursor. listed ([], []) (fst (ThreadStore_List org (q\<lparr>tq_Cursor := cursor\<rparr>) E w))) [] =
      Some (map scanThread (order_desc (\<lambda>t. (tr_last_message_at t, tr_id t))
        (filter (thread_page_where (w_db w) org q) (t_threads (w_db w)))))) \<and>
    (\<forall>cursor ts nx w'. ThreadStore_List org (q\<lparr>tq_Cursor := cursor\<rparr>) E w = (Inr (ts, nx), w') \<and> cursor \<noteq> [] \<longrightarrow>
      (\<forall>t \<in> set ts. th_LastMessageAt t \<noteq> None))"
  (is "(?timed \<longrightarrow> walk _ ?listing [] = Some ?rows) \<and> _")
proof (intro conjI impI)
  assume timed: ?timed
  let ?x = "(E, w, org, q)"
  have ok: "thread_listing_ok ?x"
    using assms timed by (simp add: thread_listing_ok_def no_faults_def)
  have l: "thread_listing_run ?x = ?listing" "listed_threads ?x = ?rows"
    by (simp_all add: thread_listing_run_def listed_threads_def)
  show "walk (Suc (length (t_threads (w_db w)))) ?listing [] = Some ?rows"
    using thread_lists.walk_suffix [OF ok, of "[]" ?rows "Suc (length (t_threads (w_db w)))" "[]"]
      thread_lists.first_page [OF ok]
    by (simp add: l order_desc_def less_Suc_eq_le length_filter_le)
qed (auto dest: thread_page_timed)

definition demo_query :: thread_list_query where
  "demo_query = \<lparr>tq_InboxID = 3, tq_Status = Some ''open'', tq_LabelID = None, tq_IsRead = None,
     tq_IsStarred = None, tq_Cursor = [], tq_Limit = 1\<rparr>"

theorem thread_pages_complete_witness:
  "walk (Suc (length (t_threads demo_db)))
      (\<lambda>cursor. listed ([], []) (fst (ThreadStore_List 1 (demo_query\<lparr>tq_Cursor := cursor\<rparr>) demo_env demo_world))) [] =
    Some (map scanThread (order_desc (\<lambda>t. (tr_last_message_at t, tr_id t))
      (filter (thread_page_where demo_db 1 demo_query) (t_threads demo_db))))"
proof -
  have "distinct (map tr_id (t_threads (w_db demo_world)))" by (simp add: demo_db_def)
  from thread_pages_complete [OF demo_codec _ _ this, THEN conjunct1, of 1 demo_query] show ?thesis
    by (simp add: no_faults_def demo_db_def demo_thread_def del: walk.simps)
qed

end
