(* ===== verification/Label_Store.thy ===== *)
theory Label_Store
  imports Tables
begin

text \<open>
  \<open>services/inbox/store/label_store.go\<close>: the labels table (migration 7).  A label's name is unique
  in its organisation; the table has no update trigger.
\<close>

record label_patch =
  lp_Name :: "string option"
  lp_Color :: "string option"
  lp_Description :: "string option"

definition empty_label_patch :: label_patch where
  "empty_label_patch = \<lparr>lp_Name = None, lp_Color = None, lp_Description = None\<rparr>"

section \<open>Statements\<close>

definition label_insert :: "label \<Rightarrow> unit stmt" where
  "label_insert l now d = require
     [(\<not> has_key lb_ID (lb_ID l) (t_labels d), ''23505''),
      (\<not> has_key (\<lambda>x. (lb_OrgID x, lb_Name x)) (lb_OrgID l, lb_Name l) (t_labels d), ''23505''),
      (has_key o_ID (lb_OrgID l) (t_organizations d), ''23503'')]
     ((), d\<lparr>t_labels := t_labels d @ [l]\<rparr>)"

definition label_select :: "uuid \<Rightarrow> uuid \<Rightarrow> label stmt" where
  "label_select orgID labelID = query_row (\<lambda>d. filter (\<lambda>r. lb_OrgID r = orgID \<and> lb_ID r = labelID) (t_labels d))"

definition labels_of :: "uuid \<Rightarrow> database \<Rightarrow> label list" where
  "labels_of orgID d = order_asc lb_Name (filter (\<lambda>r. lb_OrgID r = orgID) (t_labels d))"

definition label_set :: "label_patch \<Rightarrow> time \<Rightarrow> label \<Rightarrow> label" where
  "label_set patch now r = r
     \<lparr>lb_Name := supplied (lp_Name patch) (lb_Name r),
      lb_Color := supplied (lp_Color patch) (lb_Color r),
      lb_Description := supplied (lp_Description patch) (lb_Description r)\<rparr>"

definition label_update :: "uuid \<Rightarrow> uuid \<Rightarrow> label_patch \<Rightarrow> label stmt" where
  "label_update orgID labelID patch now d =
     (let hit = (\<lambda>r. lb_OrgID r = orgID \<and> lb_ID r = labelID)
      in case filter hit (t_labels d) of
           [] \<Rightarrow> Inl ErrNoRows
         | r # _ \<Rightarrow> require
             [(case lp_Name patch of None \<Rightarrow> True
               | Some n \<Rightarrow> \<not> has_key (\<lambda>x. (lb_OrgID x, lb_Name x)) (orgID, n)
                   (filter (\<lambda>x. \<not> hit x) (t_labels d)), ''23505'')]
             (label_set patch now r, d\<lparr>t_labels := upd_where hit (label_set patch now) (t_labels d)\<rparr>))"

text \<open>Deleting a label takes it off every thread (ON DELETE CASCADE).\<close>

definition label_delete :: "uuid \<Rightarrow> uuid \<Rightarrow> nat stmt" where
  "label_delete orgID labelID now d =
     (let hit = (\<lambda>r. lb_OrgID r = orgID \<and> lb_ID r = labelID);
          gone = filter hit (t_labels d)
      in Inr (length gone,
           d\<lparr>t_labels := del_where hit (t_labels d),
             t_thread_labels := del_where (\<lambda>x. tl_LabelID x \<in> set (map lb_ID gone)) (t_thread_labels d)\<rparr>))"

section \<open>The store's methods\<close>

definition LabelStore_Create :: "label \<Rightarrow> unit io" where
  "LabelStore_Create l = wrap_err ''insert label'' (tx_exec (label_insert l))"

definition LabelStore_GetByID :: "uuid \<Rightarrow> uuid \<Rightarrow> label io" where
  "LabelStore_GetByID orgID labelID = wrap_err ''scan label'' (tx_exec (label_select orgID labelID))"

definition LabelStore_List :: "uuid \<Rightarrow> label list io" where
  "LabelStore_List orgID = wrap_err ''list labels'' (tx_exec (query (labels_of orgID)))"

definition LabelStore_Update :: "uuid \<Rightarrow> uuid \<Rightarrow> label_patch \<Rightarrow> label io" where
  "LabelStore_Update orgID labelID patch =
     (if patch = empty_label_patch then LabelStore_GetByID orgID labelID
      else wrap_err ''scan updated label'' (tx_exec (label_update orgID labelID patch)))"

definition LabelStore_Delete :: "uuid \<Rightarrow> uuid \<Rightarrow> unit io" where
  "LabelStore_Delete orgID labelID =
     go_bind (wrap_err ''delete label'' (tx_exec (label_delete orgID labelID))) (\<lambda>n.
     fail_if (n = 0) ErrNoRows)"

section \<open>The labels table as an organisation's table\<close>

lemma label_set_keys [simp]:
  "lb_ID (label_set p now r) = lb_ID r" "lb_OrgID (label_set p now r) = lb_OrgID r"
  by (simp_all add: label_set_def)

lemma label_update_eq_Inr:
  "label_update orgID i p now d = Inr (r, d') \<longleftrightarrow>
     (\<exists>r0 rest. filter (\<lambda>r. lb_OrgID r = orgID \<and> lb_ID r = i) (t_labels d) = r0 # rest \<and>
        r = label_set p now r0 \<and>
        d' = d\<lparr>t_labels := upd_where (\<lambda>r. lb_OrgID r = orgID \<and> lb_ID r = i) (label_set p now) (t_labels d)\<rparr> \<and>
        (\<forall>n. lp_Name p = Some n \<longrightarrow> \<not> has_key (\<lambda>x. (lb_OrgID x, lb_Name x)) (orgID, n)
           (filter (\<lambda>x. \<not> (lb_OrgID x = orgID \<and> lb_ID x = i)) (t_labels d))))"
  by (simp add: label_update_def Let_def require_eq_Inr split: list.splits option.splits)

interpretation labels: org_table t_labels lb_OrgID lb_ID label_set label_select label_update label_delete
proof (unfold_locales, goal_cases)
  case (1 org i now d)
  then show ?case
    by (simp add: label_select_def query_row_def first_row_def split: list.splits)
next
  case (2 org i d p now)
  then show ?case by (simp add: label_update_def)
next
  case (3 org i p now d r d')
  then show ?case by (auto simp: label_update_eq_Inr)
next
  case (6 org i now d n d')
  then show ?case by (auto simp: label_delete_def Let_def del_where_def)
qed simp_all

lemma label_insert_eq_Inr:
  "label_insert l now d = Inr (u, d') \<longleftrightarrow>
     \<not> has_key lb_ID (lb_ID l) (t_labels d) \<and>
     \<not> has_key (\<lambda>x. (lb_OrgID x, lb_Name x)) (lb_OrgID l, lb_Name l) (t_labels d) \<and>
     has_key o_ID (lb_OrgID l) (t_organizations d) \<and> d' = d\<lparr>t_labels := t_labels d @ [l]\<rparr>"
  by (auto simp: label_insert_def require_eq_Inr)

section \<open>Names stay unique\<close>

definition label_names_unique :: "database \<Rightarrow> bool" where
  "label_names_unique d \<longleftrightarrow> distinct (map lb_ID (t_labels d)) \<and> distinct (map (\<lambda>x. (lb_OrgID x, lb_Name x)) (t_labels d))"

lemma label_insert_unique: "stmt_keeps label_names_unique (label_insert l)"
  by (auto simp: stmt_keeps_def label_insert_eq_Inr label_names_unique_def has_key_def)

lemma label_delete_unique: "stmt_keeps label_names_unique (label_delete orgID i)"
  by (auto simp: stmt_keeps_def label_delete_def Let_def label_names_unique_def del_where_def distinct_map_filter)

lemma label_update_unique: "stmt_keeps label_names_unique (label_update orgID i p)"
  unfolding stmt_keeps_def
proof (intro allI impI)
  fix now d x d'
  let ?hit = "\<lambda>r. lb_OrgID r = orgID \<and> lb_ID r = i" and ?k = "\<lambda>x. (lb_OrgID x, lb_Name x)"
  assume u: "label_names_unique d" and "label_update orgID i p now d = Inr (x, d')"
  then have d': "d' = d\<lparr>t_labels := upd_where ?hit (label_set p now) (t_labels d)\<rparr>"
    and new: "\<forall>n. lp_Name p = Some n \<longrightarrow> \<not> has_key ?k (orgID, n) (filter (\<lambda>x. \<not> ?hit x) (t_labels d))"
    by (auto simp: label_update_eq_Inr)
  have "distinct (map ?k (upd_where ?hit (label_set p now) ls))"
    if "distinct (map lb_ID ls)" "distinct (map ?k ls)"
       "\<forall>n. lp_Name p = Some n \<longrightarrow> \<not> has_key ?k (orgID, n) (filter (\<lambda>x. \<not> ?hit x) ls)" for ls
    using that
  proof (induction ls)
    case (Cons a ls)
    have "\<forall>n. lp_Name p = Some n \<longrightarrow> \<not> has_key ?k (orgID, n) (filter (\<lambda>x. \<not> ?hit x) ls)"
      using Cons.prems(3) by (auto simp: has_key_def split: if_splits)
    then have "distinct (map ?k (upd_where ?hit (label_set p now) ls))"
      using Cons.IH Cons.prems(1,2) by simp
    moreover have "?k (if ?hit a then label_set p now a else a) \<noteq> ?k (if ?hit b then label_set p now b else b)"
      if "b \<in> set ls" for b
    proof -
      have "lb_ID a \<noteq> lb_ID b" "?k a \<noteq> ?k b" using that Cons.prems(1,2) by (auto simp: image_iff)
      then show ?thesis
        using that Cons.prems(3) by (cases "lp_Name p") (auto simp: label_set_def has_key_def image_iff)
    qed
    ultimately show ?case by (auto simp: upd_where_def image_iff)
  qed (simp add: upd_where_def)
  with u new show "label_names_unique d'" by (simp add: d' label_names_unique_def)
qed

end
