(* ===== verification/Label_Service.thy ===== *)
theory Label_Service
  imports Draft_Review Label_Store
begin

text \<open>
  \<open>services/inbox/service/label_service.go\<close>: an organisation's labels, with a colour of six hex
  digits when one is given.
\<close>

record create_label_request =
  cq_Name :: string
  cq_Color :: string
  cq_Description :: string

text \<open>\<open>UpdateLabelRequest\<close> has the fields of the store's \<open>LabelPatch\<close>, to which \<open>Update\<close> copies them.\<close>

record update_label_request =
  ul_Name :: "string option"
  ul_Color :: "string option"
  ul_Description :: "string option"

text \<open>The expression \<open>^#[0-9a-fA-F]{6}$\<close>; without the flag m, \<open>$\<close> matches the end of the text only.\<close>

definition is_hex_digit :: "char \<Rightarrow> bool" where
  "is_hex_digit ch = (CHR ''0'' \<le> ch \<and> ch \<le> CHR ''9'' \<or> CHR ''a'' \<le> ch \<and> ch \<le> CHR ''f'' \<or> CHR ''A'' \<le> ch \<and> ch \<le> CHR ''F'')"

definition hexColorRe :: "string \<Rightarrow> bool" where
  "hexColorRe s = (case s of [] \<Rightarrow> False | ch # ds \<Rightarrow> ch = CHR ''#'' \<and> length ds = 6 \<and> list_all is_hex_digit ds)"

definition color_error :: go_error where
  "color_error = Errorf ''color must be a valid 6-digit hex color (e.g. #ff5733)''"

definition LabelService_Create :: "claims \<Rightarrow> create_label_request \<Rightarrow> label io" where
  "LabelService_Create c req =
     go_bind (fail_if (cq_Color req \<noteq> [] \<and> \<not> hexColorRe (cq_Color req)) color_error) (\<lambda>_.
     go_bind uuid_New (\<lambda>i.
     go_bind time_Now (\<lambda>now.
     let label = \<lparr>lb_ID = i, lb_OrgID = cl_OrgID c, lb_Name = cq_Name req, lb_Color = cq_Color req,
                  lb_Description = cq_Description req, lb_CreatedAt = now\<rparr> in
     go_bind (wrap_err ''create label'' (WithOrgTx (cl_OrgID c) (LabelStore_Create label))) (\<lambda>_.
     ret label))))"

definition LabelService_Get :: "claims \<Rightarrow> uuid \<Rightarrow> label io" where
  "LabelService_Get c labelID = wrap_err ''get label'' (WithOrgTx (cl_OrgID c) (LabelStore_GetByID (cl_OrgID c) labelID))"

definition LabelService_List :: "claims \<Rightarrow> label list io" where
  "LabelService_List c = wrap_err ''list labels'' (WithOrgTx (cl_OrgID c) (LabelStore_List (cl_OrgID c)))"

definition bad_color :: "string option \<Rightarrow> bool" where
  "bad_color color = (case color of None \<Rightarrow> False | Some s \<Rightarrow> s \<noteq> [] \<and> \<not> hexColorRe s)"

definition LabelService_Update :: "claims \<Rightarrow> uuid \<Rightarrow> update_label_request \<Rightarrow> label io" where
  "LabelService_Update c labelID req =
     go_bind (fail_if (bad_color (ul_Color req)) color_error) (\<lambda>_.
     wrap_err ''update label'' (WithOrgTx (cl_OrgID c) (LabelStore_Update (cl_OrgID c) labelID
       \<lparr>lp_Name = ul_Name req, lp_Color = ul_Color req, lp_Description = ul_Description req\<rparr>)))"

definition LabelService_Delete :: "claims \<Rightarrow> uuid \<Rightarrow> unit io" where
  "LabelService_Delete c labelID =
     wrap_err ''delete label'' (WithOrgTx (cl_OrgID c) (LabelStore_Delete (cl_OrgID c) labelID))"

section \<open>Calls\<close>

datatype label_op = LCreate create_label_request | LUpdate uuid update_label_request | LDelete uuid

fun label_call :: "env \<Rightarrow> claims \<times> label_op \<Rightarrow> world \<Rightarrow> go_error option \<times> world" where
  "label_call E (c, LCreate req) w = outcome (LabelService_Create c req E w)"
| "label_call E (c, LUpdate i req) w = outcome (LabelService_Update c i req E w)"
| "label_call E (c, LDelete i) w = outcome (LabelService_Delete c i E w)"

definition label_calls :: "env \<Rightarrow> (claims \<times> label_op) list \<Rightarrow> world \<Rightarrow> world" where
  "label_calls E calls w = fold (\<lambda>call w. snd (label_call E call w)) calls w"

definition valid_color :: "string \<Rightarrow> bool" where
  "valid_color s \<longleftrightarrow> s = [] \<or> (\<exists>ds. s = CHR ''#'' # ds \<and> length ds = 6 \<and> (\<forall>ch \<in> set ds. is_hex_digit ch))"

definition labels_ok :: "database \<Rightarrow> bool" where
  "labels_ok d \<longleftrightarrow> label_names_unique d \<and> (\<forall>l \<in> set (t_labels d). valid_color (lb_Color l))"

lemma hexColorRe_valid: "hexColorRe s \<Longrightarrow> valid_color s"
  by (auto simp: hexColorRe_def valid_color_def list_all_iff split: list.splits)

lemma label_insert_ok: "valid_color (lb_Color l) \<Longrightarrow> stmt_keeps labels_ok (label_insert l)"
  using label_insert_unique [of l] by (auto simp: stmt_keeps_def labels_ok_def label_insert_eq_Inr)

lemma label_delete_ok: "stmt_keeps labels_ok (label_delete org i)"
  using label_delete_unique [of org i] by (auto simp: stmt_keeps_def labels_ok_def label_delete_def Let_def)

lemma label_update_ok:
  assumes "\<not> bad_color (lp_Color p)"
  shows "stmt_keeps labels_ok (label_update org i p)"
proof -
  have "valid_color (lb_Color (label_set p now l))" if "valid_color (lb_Color l)" for now l
    using assms that hexColorRe_valid
    by (auto simp: label_set_def bad_color_def valid_color_def supplied_def split: option.splits)
  then show ?thesis
    using label_update_unique [of org i p]
    by (auto simp: stmt_keeps_def labels_ok_def label_update_eq_Inr upd_where_def)
qed

lemma keeps_db_fail_then:
  "(\<not> b \<Longrightarrow> keeps_db Q m) \<Longrightarrow> keeps_db Q (go_bind (fail_if b e) (\<lambda>_. m))"
  by (cases b) (simp_all add: keeps_db_iff go_bind_def fail_if_run)

lemma label_ops_ok:
  "keeps_db labels_ok (LabelService_Create c req)" "keeps_db labels_ok (LabelService_Update c i ureq)"
  "keeps_db labels_ok (LabelService_Delete c i)"
proof -
  have "stmt_keeps labels_ok (label_insert \<lparr>lb_ID = i, lb_OrgID = cl_OrgID c, lb_Name = cq_Name req, lb_Color = cq_Color req,
      lb_Description = cq_Description req, lb_CreatedAt = now\<rparr>)"
    if "\<not> (cq_Color req \<noteq> [] \<and> \<not> hexColorRe (cq_Color req))" for i now
    using that hexColorRe_valid by (intro label_insert_ok) (auto simp: valid_color_def)
  then show "keeps_db labels_ok (LabelService_Create c req)"
    unfolding LabelService_Create_def Let_def LabelStore_Create_def
    by (intro keeps_db_fail_then keeps_intros)
  show "keeps_db labels_ok (LabelService_Update c i ureq)"
    unfolding LabelService_Update_def LabelStore_Update_def LabelStore_GetByID_def label_select_def
    by (intro keeps_db_fail_then keeps_intros label_update_ok) simp
  show "keeps_db labels_ok (LabelService_Delete c i)"
    unfolding LabelService_Delete_def LabelStore_Delete_def
    by (intro keeps_intros label_delete_ok)
qed

text \<open>C14. Whatever label operations are run, in whichever order and by whichever organisations, every label
  name stays unique in its organisation, every label id stays unique, and every colour is empty or a
  hash sign with six hexadecimal digits.\<close>

theorem labels_stay_valid:
  assumes "labels_ok (w_db w)"
  shows "labels_ok (w_db (label_calls E calls w))"
  using assms
proof (induction calls arbitrary: w)
  case (Cons call calls)
  obtain c k where call: "call = (c, k)" by (rule prod.exhaust)
  have "labels_ok (w_db (snd (label_call E (c, k) w)))"
    using label_ops_ok [THEN keeps_dbD, OF Cons.prems] by (cases k) simp_all
  from Cons.IH [OF this] show ?case by (simp add: label_calls_def call)
qed (simp add: label_calls_def)

theorem labels_stay_valid_witness:
  "labels_ok (w_db (label_calls demo_env
     [(demo_claims 1, LCreate \<lparr>cq_Name = ''todo'', cq_Color = ''#12aBcD'', cq_Description = ''''\<rparr>),
      (demo_claims 1, LUpdate 11 \<lparr>ul_Name = Some ''done'', ul_Color = Some ''red'', ul_Description = None\<rparr>)] demo_world))"
  by (rule labels_stay_valid)
    (simp add: labels_ok_def label_names_unique_def demo_db_def demo_label_def valid_color_def is_hex_digit_def)

end
