(* ===== verification/Thread_Handler.thy ===== *)
theory Thread_Handler
  imports Requests Thread_Service Label_Service
begin

text \<open>\<open>lambdas/threads/main.go\<close>: the HTTP interface of threads, of their labels, and of labels.\<close>

section \<open>Request bodies\<close>

record patch_thread_request =
  pt_Status :: "string option"
  pt_IsRead :: "bool option"
  pt_IsStarred :: "bool option"

definition zero_patch_thread :: patch_thread_request where
  "zero_patch_thread = \<lparr>pt_Status = None, pt_IsRead = None, pt_IsStarred = None\<rparr>"

definition dec_patch_thread :: "env \<Rightarrow> json \<Rightarrow> patch_thread_request \<Rightarrow> patch_thread_request option" where
  "dec_patch_thread E = dec_struct (\<lambda>name v r.
     if name = ''status'' then map_option (\<lambda>x. r\<lparr>pt_Status := x\<rparr>) (dec_ptr dec_string [] v (pt_Status r))
     else if name = ''is_read'' then map_option (\<lambda>x. r\<lparr>pt_IsRead := x\<rparr>) (dec_ptr dec_bool False v (pt_IsRead r))
     else if name = ''is_starred'' then map_option (\<lambda>x. r\<lparr>pt_IsStarred := x\<rparr>) (dec_ptr dec_bool False v (pt_IsStarred r))
     else Some r)"

text \<open>The label requests have no json tags, so the members have the names of the Go fields.\<close>

definition dec_create_label :: "env \<Rightarrow> json \<Rightarrow> create_label_request \<Rightarrow> create_label_request option" where
  "dec_create_label E = dec_struct (\<lambda>name v r.
     if name = ''name'' then map_option (\<lambda>x. r\<lparr>cq_Name := x\<rparr>) (dec_string v (cq_Name r))
     else if name = ''color'' then map_option (\<lambda>x. r\<lparr>cq_Color := x\<rparr>) (dec_string v (cq_Color r))
     else if name = ''description'' then map_option (\<lambda>x. r\<lparr>cq_Description := x\<rparr>) (dec_string v (cq_Description r))
     else Some r)"

definition dec_update_label :: "env \<Rightarrow> json \<Rightarrow> update_label_request \<Rightarrow> update_label_request option" where
  "dec_update_label E = dec_struct (\<lambda>name v r.
     if name = ''name'' then map_option (\<lambda>x. r\<lparr>ul_Name := x\<rparr>) (dec_ptr dec_string [] v (ul_Name r))
     else if name = ''color'' then map_option (\<lambda>x. r\<lparr>ul_Color := x\<rparr>) (dec_ptr dec_string [] v (ul_Color r))
     else if name = ''description'' then map_option (\<lambda>x. r\<lparr>ul_Description := x\<rparr>) (dec_ptr dec_string [] v (ul_Description r))
     else Some r)"

section \<open>The handler\<close>

definition query_param :: "request \<Rightarrow> string \<Rightarrow> string" where
  "query_param event name = map_get (rq_QueryStringParameters event) name"

text \<open>The filters of a thread listing; a label that is no UUID is ignored.\<close>

definition thread_query_of :: "env \<Rightarrow> request \<Rightarrow> uuid \<Rightarrow> thread_list_query" where
  "thread_query_of E event inboxID =
     \<lparr>tq_InboxID = inboxID,
      tq_Status = (let s = query_param event ''status'' in if s \<noteq> [] then Some s else None),
      tq_LabelID = (let l = query_param event ''label'' in if l \<noteq> [] then parse_uuid E l else None),
      tq_IsRead = (let u = query_param event ''unread'' in
         if u = ''true'' then Some False else if u = ''false'' then Some True else None),
      tq_IsStarred = (let s = query_param event ''starred'' in
         if s = ''true'' then Some True else if s = ''false'' then Some False else None),
      tq_Cursor = query_param event ''cursor'',
      tq_Limit = query_limit event\<rparr>"

definition threads_collection :: "thread_service \<Rightarrow> request \<Rightarrow> claims \<Rightarrow> thread_list_query \<Rightarrow> handler" where
  "threads_collection s event c q =
     (if rq_HTTPMethod event \<noteq> ''GET'' then respond (Error 404 ''not found'')
      else require_scope c ScopeInboxRead
        (handle (ThreadService_List s c q) cursor_error
          (\<lambda>(threads, nextCursor). respond (JSON 200 (VThreads threads nextCursor)))))"

definition thread_in_path :: "thread_service \<Rightarrow> claims \<Rightarrow> uuid \<Rightarrow> uuid \<Rightarrow> (thread \<Rightarrow> handler) \<Rightarrow> handler" where
  "thread_in_path s c inboxID threadID k =
     handle (ThreadService_Get s c threadID) (\<lambda>_. not_found ''thread'')
       (\<lambda>thread. if th_InboxID thread \<noteq> inboxID then not_found ''thread'' else k thread)"

text \<open>\<open>if f != nil { updated, err = op(*f); if err != nil { return 400 } }\<close>, then the rest.\<close>

definition patch_step :: "'v option \<Rightarrow> ('v \<Rightarrow> thread io) \<Rightarrow> thread option \<Rightarrow> (thread option \<Rightarrow> handler) \<Rightarrow> handler" where
  "patch_step f opr updated k = (case f of
       None \<Rightarrow> k updated
     | Some v \<Rightarrow> handle (opr v) (error_text 400) (\<lambda>t. k (Some t)))"

definition patch_thread :: "thread_service \<Rightarrow> claims \<Rightarrow> uuid \<Rightarrow> patch_thread_request \<Rightarrow> handler" where
  "patch_thread s c threadID req =
     patch_step (pt_Status req) (ThreadService_UpdateStatus s c threadID) None (\<lambda>updated.
     patch_step (pt_IsRead req) (ThreadService_MarkRead s c threadID) updated (\<lambda>updated.
     patch_step (pt_IsStarred req) (ThreadService_MarkStarred s c threadID) updated (\<lambda>updated.
     case updated of
       Some t \<Rightarrow> respond (JSON 200 (VThread t))
     | None \<Rightarrow> respond (Error 400 ''at least one field required''))))"

definition threads_item :: "thread_service \<Rightarrow> request \<Rightarrow> claims \<Rightarrow> uuid \<Rightarrow> uuid \<Rightarrow> handler" where
  "threads_item s event c inboxID threadID =
     (if rq_HTTPMethod event = ''GET'' then
        require_scope c ScopeInboxRead
          (thread_in_path s c inboxID threadID (\<lambda>thread. respond (JSON 200 (VThread thread))))
      else if rq_HTTPMethod event = ''PATCH'' then
        require_scope c ScopeInboxWrite
          (thread_in_path s c inboxID threadID (\<lambda>_.
             with_body dec_patch_thread event zero_patch_thread (patch_thread s c threadID)))
      else respond (Error 404 ''not found''))"

definition thread_label_item :: "thread_service \<Rightarrow> request \<Rightarrow> claims \<Rightarrow> uuid \<Rightarrow> uuid \<Rightarrow> uuid \<Rightarrow> handler" where
  "thread_label_item s event c inboxID threadID labelID =
     require_scope c ScopeInboxWrite
       (thread_in_path s c inboxID threadID (\<lambda>_.
          if rq_HTTPMethod event = ''PUT'' then
            handle (ThreadService_ApplyLabel s c threadID labelID) (error_text 400) (\<lambda>_. respond NoContent)
          else if rq_HTTPMethod event = ''DELETE'' then
            handle (ThreadService_RemoveLabel s c threadID labelID) (error_text 400) (\<lambda>_. respond NoContent)
          else respond (Error 404 ''not found'')))"

definition label_create_error :: "go_error \<Rightarrow> handler" where
  "label_create_error e = (if IsDuplicateKey e then respond (Error 409 ''label with this name already exists'') else error_text 400 e)"

definition labels_collection :: "request \<Rightarrow> claims \<Rightarrow> handler" where
  "labels_collection event c =
     (if rq_HTTPMethod event = ''GET'' then
        require_scope c ScopeInboxRead
          (handle (LabelService_List c) (error_text 500) (\<lambda>labels. respond (JSON 200 (VLabels labels))))
      else if rq_HTTPMethod event = ''POST'' then
        require_scope c ScopeInboxWrite
          (with_body dec_create_label event \<lparr>cq_Name = [], cq_Color = [], cq_Description = []\<rparr> (\<lambda>req.
             handle (LabelService_Create c req) label_create_error (\<lambda>label. respond (JSON 201 (VLabel label)))))
      else respond (Error 404 ''not found''))"

definition labels_item :: "request \<Rightarrow> claims \<Rightarrow> uuid \<Rightarrow> handler" where
  "labels_item event c labelID =
     (if rq_HTTPMethod event = ''GET'' then
        require_scope c ScopeInboxRead
          (handle (LabelService_Get c labelID) (\<lambda>_. not_found ''label'') (\<lambda>label. respond (JSON 200 (VLabel label))))
      else if rq_HTTPMethod event = ''PATCH'' then
        require_scope c ScopeInboxWrite
          (with_body dec_update_label event \<lparr>ul_Name = None, ul_Color = None, ul_Description = None\<rparr> (\<lambda>req.
             handle (LabelService_Update c labelID req) (error_text 400) (\<lambda>label. respond (JSON 200 (VLabel label)))))
      else if rq_HTTPMethod event = ''DELETE'' then
        require_scope c ScopeInboxWrite
          (handle (LabelService_Delete c labelID) (\<lambda>_. not_found ''label'') (\<lambda>_. respond NoContent))
      else respond (Error 404 ''not found''))"

definition threads_handler :: "thread_service \<Rightarrow> request \<Rightarrow> handler" where
  "threads_handler s event = with_claims event (\<lambda>c E.
     let inboxID = path_uuid E event ''inboxId''; threadID = path_uuid E event ''threadId'';
         labelID = path_uuid E event ''labelId'' in
     (if rq_Resource event = ''/v1/inboxes/{inboxId}/threads'' then
        threads_collection s event c (thread_query_of E event inboxID)
      else if rq_Resource event = ''/v1/inboxes/{inboxId}/threads/{threadId}'' then
        threads_item s event c inboxID threadID
      else if rq_Resource event = ''/v1/inboxes/{inboxId}/threads/{threadId}/labels/{labelId}'' then
        thread_label_item s event c inboxID threadID labelID
      else if rq_Resource event = ''/v1/labels'' then labels_collection event c
      else if rq_Resource event = ''/v1/labels/{labelId}'' then labels_item event c labelID
      else respond (Error 404 ''not found'')) E)"

section \<open>Honest answers\<close>

lemma thread_reads_service [keeps_intros]:
  "keeps_db Q (ThreadService_List s c q)" "keeps_db Q (ThreadService_Get s c i)"
  "keeps_db Q (LabelService_List c)" "keeps_db Q (LabelService_Get c i)"
  unfolding ThreadService_List_def ThreadService_Get_def LabelService_List_def LabelService_Get_def
    LabelStore_List_def LabelStore_GetByID_def label_select_def
  by (intro keeps_intros)+

lemma label_ops_roll_back:
  "rolls_back (LabelService_Create c req)" "rolls_back (LabelService_Update c i ureq)" "rolls_back (LabelService_Delete c i)"
  unfolding LabelService_Create_def LabelService_Update_def LabelService_Delete_def Let_def
  by (intro rolls_back_bind rolls_back_then rolls_back_wrap rolls_back_tx keeps_intros never_fails_intros)+

lemma honest_thread_in_path [honest_intros]:
  assumes "\<And>x. honest (k x)" shows "honest (thread_in_path s c inboxID threadID k)"
  unfolding thread_in_path_def by (intro honest_intros keeps_intros assms)

lemma nothing_label_create_error [nothing_intros]: "changes_nothing (label_create_error e)"
  unfolding label_create_error_def by (intro nothing_intros)

lemma honest_thread_writes:
  "honest (handle (ThreadService_ApplyLabel s c i l) (error_text 400) (\<lambda>_. respond NoContent))"
  "honest (handle (ThreadService_RemoveLabel s c i l) (error_text 400) (\<lambda>_. respond NoContent))"
  "honest (handle (LabelService_Create c req) label_create_error (\<lambda>label. respond (JSON 201 (VLabel label))))"
  "honest (handle (LabelService_Update c i ureq) (error_text 400) (\<lambda>label. respond (JSON 200 (VLabel label))))"
  "honest (handle (LabelService_Delete c i) (\<lambda>_. not_found what) (\<lambda>_. respond NoContent))"
  by (intro honest_write thread_ops_roll_back label_ops_roll_back nothing_intros accepts_respond; simp)+

text \<open>A PATCH of one field is honest as well; only the sequence of several can stop half-way.\<close>

lemma honest_threads:
  assumes "rq_HTTPMethod event = ''PATCH'' \<longrightarrow> rq_Resource event \<noteq> ''/v1/inboxes/{inboxId}/threads/{threadId}''"
  shows "honest (threads_handler s event)"
proof -
  have "honest (threads_collection s event c q)" for c q
    unfolding threads_collection_def by (intro honest_intros keeps_intros)
  moreover have "honest (threads_item s event c i j)"
    if "rq_Resource event = ''/v1/inboxes/{inboxId}/threads/{threadId}''" for c i j
    unfolding threads_item_def using that assms by (intro honest_intros) simp_all
  moreover have "honest (thread_label_item s event c i j l)" for c i j l
    unfolding thread_label_item_def by (intro honest_intros honest_thread_writes)
  moreover have "honest (labels_collection event c)" "honest (labels_item event c l)" for c l
    unfolding labels_collection_def labels_item_def by (intro honest_intros honest_thread_writes keeps_intros)+
  ultimately show ?thesis
    unfolding threads_handler_def by (intro honest_claims) (simp add: honest_def Let_def respond_def)
qed

section \<open>The effect of a PATCH\<close>

definition set_thread :: "uuid \<Rightarrow> uuid \<Rightarrow> thread_patch \<Rightarrow> time \<Rightarrow> database \<Rightarrow> database" where
  "set_thread org i p now d = d\<lparr>t_threads := upd_where (\<lambda>r. tr_org_id r = org \<and> tr_id r = i) (thread_set p now) (t_threads d)\<rparr>"

lemma patched_thread_set: "patched_thread org i p d d' \<Longrightarrow> \<exists>now. d' = set_thread org i p now d"
  by (auto simp: patched_thread_def thread_update_eq_Inr set_thread_def)

lemma thread_flag_success:
  "ThreadService_UpdateStatus s c i st E w = (Inr t, w') \<Longrightarrow>
     \<exists>now. w_db w' = set_thread (cl_OrgID c) i (empty_thread_patch\<lparr>tp_Status := Some st\<rparr>) now (w_db w)"
  "ThreadService_MarkRead s c i b E w = (Inr t, w') \<Longrightarrow>
     \<exists>now. w_db w' = set_thread (cl_OrgID c) i (empty_thread_patch\<lparr>tp_IsRead := Some b\<rparr>) now (w_db w)"
  "ThreadService_MarkStarred s c i b E w = (Inr t, w') \<Longrightarrow>
     \<exists>now. w_db w' = set_thread (cl_OrgID c) i (empty_thread_patch\<lparr>tp_IsStarred := Some b\<rparr>) now (w_db w)"
  unfolding ThreadService_UpdateStatus_def ThreadService_MarkRead_def ThreadService_MarkStarred_def wrap_err_eq_Inr
  by (erule WithOrgTx_success, drule status_body_db ThreadStore_Update_db,
      (simp add: empty_thread_patch_def)?, drule patched_thread_set, simp)+

text \<open>\<open>patched_so_far p d0 d\<close>: the fields of \<open>p\<close> have been written, each in its own transaction.\<close>

definition patched_so_far :: "uuid \<Rightarrow> uuid \<Rightarrow> thread_patch \<Rightarrow> database \<Rightarrow> database \<Rightarrow> bool" where
  "patched_so_far org i p d0 d \<longleftrightarrow> p = empty_thread_patch \<and> d = d0 \<or> (\<exists>now. d = set_thread org i p now d0)"

definition or_else :: "'a option \<Rightarrow> 'a option \<Rightarrow> 'a option" where
  "or_else q p = (case q of None \<Rightarrow> p | Some x \<Rightarrow> Some x)"

definition merge_patch :: "thread_patch \<Rightarrow> thread_patch \<Rightarrow> thread_patch" where
  "merge_patch p q = \<lparr>tp_Status = or_else (tp_Status q) (tp_Status p), tp_IsRead = or_else (tp_IsRead q) (tp_IsRead p),
     tp_IsStarred = or_else (tp_IsStarred q) (tp_IsStarred p)\<rparr>"

lemma set_thread_twice: "set_thread org i q now' (set_thread org i p now d) = set_thread org i (merge_patch p q) now' d"
  by (auto simp: set_thread_def upd_where_def thread_set_def merge_patch_def or_else_def supplied_def split: option.splits)

lemma merge_empty: "merge_patch empty_thread_patch q = q" "merge_patch p empty_thread_patch = p"
  by (simp_all add: merge_patch_def empty_thread_patch_def or_else_def split: option.splits)

lemma patched_so_far_step:
  assumes "patched_so_far org i p d0 d" and "\<exists>now. d' = set_thread org i q now d"
  shows "patched_so_far org i (merge_patch p q) d0 d'"
  using assms by (auto simp: patched_so_far_def set_thread_twice merge_empty)

definition then_set :: "thread_patch \<Rightarrow> 'v option \<Rightarrow> ('v \<Rightarrow> thread_patch) \<Rightarrow> thread_patch" where
  "then_set p f g = (case f of None \<Rightarrow> p | Some v \<Rightarrow> merge_patch p (g v))"

lemma patch_step_success:
  assumes "rs_StatusCode (fst (patch_step f opr u k E w)) = 200"
    and "\<And>v t w1. f = Some v \<Longrightarrow> opr v E w = (Inr t, w1) \<Longrightarrow> \<exists>now. w_db w1 = set_thread org i (g v) now (w_db w)"
    and "patched_so_far org i p d0 (w_db w)"
  obtains u' w1 where "patch_step f opr u k E w = k u' E w1"
    "patched_so_far org i (then_set p f g) d0 (w_db w1)"
proof (cases f)
  case None
  with that assms(3) show thesis by (simp add: patch_step_def then_set_def)
next
  case (Some v)
  obtain r w1 where m: "opr v E w = (r, w1)" by (rule prod.exhaust)
  with assms(1) Some obtain t where r: "r = Inr t"
    by (cases r) (auto simp: patch_step_def handle_def error_text_def)
  from patched_so_far_step [OF assms(3) assms(2) [OF Some m [unfolded r]]] show thesis
    using that [of "Some t" w1] m Some r by (simp add: patch_step_def handle_def then_set_def)
qed

definition requested :: "patch_thread_request \<Rightarrow> thread_patch" where
  "requested req = \<lparr>tp_Status = pt_Status req, tp_IsRead = pt_IsRead req, tp_IsStarred = pt_IsStarred req\<rparr>"

lemma patch_thread_success:
  assumes ok: "rs_StatusCode (fst (patch_thread s c i req E w)) = 200"
  shows "patched_so_far (cl_OrgID c) i (requested req) (w_db w) (w_db (snd (patch_thread s c i req E w)))"
proof -
  let ?status = "\<lambda>x. empty_thread_patch\<lparr>tp_Status := Some x\<rparr>" and ?read = "\<lambda>x. empty_thread_patch\<lparr>tp_IsRead := Some x\<rparr>"
    and ?star = "\<lambda>x. empty_thread_patch\<lparr>tp_IsStarred := Some x\<rparr>"
  let ?p1 = "then_set empty_thread_patch (pt_Status req) ?status"
  let ?p2 = "then_set ?p1 (pt_IsRead req) ?read"
  let ?p3 = "then_set ?p2 (pt_IsStarred req) ?star"
  let ?final = "\<lambda>updated. case updated of Some t \<Rightarrow> respond (JSON 200 (VThread t)) | None \<Rightarrow> respond (Error 400 ''at least one field required'')"
  let ?upto = "\<lambda>p w'. patched_so_far (cl_OrgID c) i p (w_db w) (w_db w')"
  have start: "?upto empty_thread_patch w" by (simp add: patched_so_far_def)
  from ok obtain u1 w1 where 1: "patch_thread s c i req E w =
      patch_step (pt_IsRead req) (ThreadService_MarkRead s c i) u1 (\<lambda>u. patch_step (pt_IsStarred req) (ThreadService_MarkStarred s c i) u ?final) E w1"
    and p1: "?upto ?p1 w1"
    unfolding patch_thread_def by (rule patch_step_success [OF _ thread_flag_success(1) start])
  from ok [unfolded 1] obtain u2 w2 where 2: "patch_thread s c i req E w =
      patch_step (pt_IsStarred req) (ThreadService_MarkStarred s c i) u2 ?final E w2" and p2: "?upto ?p2 w2"
    unfolding 1 by (rule patch_step_success [OF _ thread_flag_success(2) p1])
  from ok [unfolded 2] obtain u3 w3 where 3: "patch_thread s c i req E w = ?final u3 E w3" and p3: "?upto ?p3 w3"
    unfolding 2 by (rule patch_step_success [OF _ thread_flag_success(3) p2])
  have "?p3 = requested req"
    by (simp add: then_set_def requested_def merge_patch_def empty_thread_patch_def or_else_def split: option.splits)
  with p3 have "?upto (requested req) w3" by simp
  moreover have "w_db (snd (?final u3 E w3)) = w_db w3" by (cases u3) (simp_all add: respond_def)
  ultimately show ?thesis by (simp add: 3)
qed

lemma patch_thread_empty:
  assumes "rs_StatusCode (fst (patch_thread s c i req E w)) = 200"
  shows "requested req \<noteq> empty_thread_patch"
proof
  assume "requested req = empty_thread_patch"
  then have "pt_Status req = None" "pt_IsRead req = None" "pt_IsStarred req = None"
    by (simp_all add: requested_def empty_thread_patch_def)
  with assms show False by (simp add: patch_thread_def patch_step_def respond_def)
qed

lemma thread_in_path_success:
  assumes "rs_StatusCode (fst (thread_in_path s c inboxID i k E w)) = 200"
  obtains t w1 where "\<exists>r \<in> set (t_threads (w_db w)). tr_id r = i \<and> tr_org_id r = cl_OrgID c \<and> tr_inbox_id r = inboxID"
    "w_db w1 = w_db w" "thread_in_path s c inboxID i k E w = k t E w1"
proof -
  obtain r w1 where g: "ThreadService_Get s c i E w = (r, w1)" by (rule prod.exhaust)
  with assms obtain t where r: "r = Inr t" "th_InboxID t = inboxID"
    by (cases r) (auto simp: thread_in_path_def handle_def respond_def split: if_splits)
  from g r(1) obtain w2 w3 t0 w4 where w2: "w_db w2 = w_db w" and
    "ThreadStore_GetByID (cl_OrgID c) i E w2 = (Inr t0, w4)" "th_InboxID t = th_InboxID t0"
    unfolding ThreadService_Get_def
    by (simp add: wrap_err_eq_Inr) (erule WithOrgTx_success, auto simp: go_bind_eq_Inr ret_eq_Inr)
  then have "\<exists>r \<in> set (t_threads (w_db w)). tr_id r = i \<and> tr_org_id r = cl_OrgID c \<and> tr_inbox_id r = inboxID"
    using r(2) by (elim ThreadStore_GetByID_success) (auto simp: w2)
  moreover have "w_db w1 = w_db w" using ThreadService_Get_success g r(1) by blast
  ultimately show thesis
    using that [of w1 t] g r by (simp add: thread_in_path_def handle_def)
qed

text \<open>A PATCH of a thread answered with 200 came from a caller with the scope inbox:write under the path
  of the thread's inbox and named a field; it has set exactly the named fields (and the update time) of
  that thread of the caller's organisation and changed nothing else in the database.\<close>

lemma threads_patch_effect:
  assumes "rs_StatusCode (fst (threads_handler s event E w)) = 200"
    and "rq_Resource event = ''/v1/inboxes/{inboxId}/threads/{threadId}''" and "rq_HTTPMethod event = ''PATCH''"
  shows "\<exists>c req now. ExtractClaims E event = Inr c \<and> HasScope c ''inbox:write'' \<and>
    Decode (dec_patch_thread E) event zero_patch_thread = Some req \<and>
    (pt_Status req \<noteq> None \<or> pt_IsRead req \<noteq> None \<or> pt_IsStarred req \<noteq> None) \<and>
    (\<exists>r \<in> set (t_threads (w_db w)). tr_id r = path_uuid E event ''threadId'' \<and> tr_org_id r = cl_OrgID c \<and>
       tr_inbox_id r = path_uuid E event ''inboxId'') \<and>
    w_db (snd (threads_handler s event E w)) = (w_db w)\<lparr>t_threads := map (\<lambda>r.
      if tr_org_id r = cl_OrgID c \<and> tr_id r = path_uuid E event ''threadId'' then r
        \<lparr>tr_status := supplied (pt_Status req) (tr_status r), tr_is_read := supplied (pt_IsRead req) (tr_is_read r),
         tr_is_starred := supplied (pt_IsStarred req) (tr_is_starred r), tr_updated_at := now\<rparr>
      else r) (t_threads (w_db w))\<rparr>"
proof -
  let ?i = "path_uuid E event ''threadId''" and ?ib = "path_uuid E event ''inboxId''"
  from assms obtain c where c: "ExtractClaims E event = Inr c" "HasScope c ScopeInboxWrite"
    by (auto simp: threads_handler_def with_claims_def threads_item_def require_scope_def respond_def Let_def
        split: sum.splits if_splits)
  let ?k = "\<lambda>_. with_body dec_patch_thread event zero_patch_thread (patch_thread s c ?i)"
  have h: "threads_handler s event E w = thread_in_path s c ?ib ?i ?k E w"
    using assms(2,3) c by (simp add: threads_handler_def with_claims_def threads_item_def require_scope_def Let_def)
  from assms(1) [unfolded h] obtain t w1 where
    row: "\<exists>r \<in> set (t_threads (w_db w)). tr_id r = ?i \<and> tr_org_id r = cl_OrgID c \<and> tr_inbox_id r = ?ib"
    and w1: "w_db w1 = w_db w" "threads_handler s event E w = ?k t E w1"
    unfolding h by (rule thread_in_path_success)
  from assms(1) [unfolded w1(2)] obtain req where req: "Decode (dec_patch_thread E) event zero_patch_thread = Some req"
    "threads_handler s event E w = patch_thread s c ?i req E w1"
    unfolding w1(2) by (auto simp: with_body_def split: option.splits)
  have ok: "rs_StatusCode (fst (patch_thread s c ?i req E w1)) = 200" using assms(1) req(2) by simp
  have ne: "requested req \<noteq> empty_thread_patch" by (rule patch_thread_empty [OF ok])
  from patch_thread_success [OF ok] ne obtain now where
    "w_db (snd (threads_handler s event E w)) = set_thread (cl_OrgID c) ?i (requested req) now (w_db w)"
    by (auto simp: patched_so_far_def w1(1) req(2))
  moreover have "thread_set (requested req) now = (\<lambda>r. r
      \<lparr>tr_status := supplied (pt_Status req) (tr_status r), tr_is_read := supplied (pt_IsRead req) (tr_is_read r),
       tr_is_starred := supplied (pt_IsStarred req) (tr_is_starred r), tr_updated_at := now\<rparr>)"
    by (rule ext) (simp add: thread_set_def requested_def)
  moreover have "pt_Status req \<noteq> None \<or> pt_IsRead req \<noteq> None \<or> pt_IsStarred req \<noteq> None"
    using ne by (auto simp: requested_def empty_thread_patch_def)
  ultimately show ?thesis
    using c row req(1) by (intro exI [of _ c] exI [of _ req] exI [of _ now]) (simp add: set_thread_def upd_where_def)
qed

definition demo_patch_thread :: request where
  "demo_patch_thread =
     \<lparr>rq_Resource = ''/v1/inboxes/{inboxId}/threads/{threadId}'', rq_HTTPMethod = ''PATCH'',
      rq_PathParameters = [(''inboxId'', ''111''), (''threadId'', ''11111111'')], rq_QueryStringParameters = [],
      rq_Authorizer = [(''org_id'', JStr ''1''), (''key_id'', JStr ''1111''), (''scopes'', JStr ''inbox:write'')],
      rq_Body = Some (JObj [(''status'', JStr ''closed''), (''is_read'', JBool True)])\<rparr>"

lemma threads_patch_effect_at_demo:
  "\<exists>now. t_threads (w_db (snd (threads_handler demo_publisher demo_patch_thread demo_env demo_world))) =
     [demo_thread\<lparr>tr_status := ''closed'', tr_is_read := True, tr_updated_at := now\<rparr>]"
proof -
  have "rs_StatusCode (fst (threads_handler demo_publisher demo_patch_thread demo_env demo_world)) = 200" by code_simp
  from threads_patch_effect [OF this] obtain c req now where
    c: "ExtractClaims demo_env demo_patch_thread = Inr c" "Decode (dec_patch_thread demo_env) demo_patch_thread zero_patch_thread = Some req"
    and d: "w_db (snd (threads_handler demo_publisher demo_patch_thread demo_env demo_world)) = demo_db\<lparr>t_threads := map (\<lambda>r.
      if tr_org_id r = cl_OrgID c \<and> tr_id r = path_uuid demo_env demo_patch_thread ''threadId'' then r
        \<lparr>tr_status := supplied (pt_Status req) (tr_status r), tr_is_read := supplied (pt_IsRead req) (tr_is_read r),
         tr_is_starred := supplied (pt_IsStarred req) (tr_is_starred r), tr_updated_at := now\<rparr>
      else r) (t_threads demo_db)\<rparr>"
    by (auto simp: demo_patch_thread_def)
  have "cl_OrgID (projr (ExtractClaims demo_env demo_patch_thread)) = 1" "path_uuid demo_env demo_patch_thread ''threadId'' = 8"
    "the (Decode (dec_patch_thread demo_env) demo_patch_thread zero_patch_thread) = \<lparr>pt_Status = Some ''closed'', pt_IsRead = Some True, pt_IsStarred = None\<rparr>"
    by code_simp+
  then have "cl_OrgID c = 1" "path_uuid demo_env demo_patch_thread ''threadId'' = 8"
    "req = \<lparr>pt_Status = Some ''closed'', pt_IsRead = Some True, pt_IsStarred = None\<rparr>" by (simp_all add: c)
  with d show ?thesis by (auto simp: demo_db_def demo_thread_def)
qed

end
