(* ===== verification/Inbox_Service.thy ===== *)
theory Inbox_Service
  imports Draft_Review
begin

text \<open>
  \<open>services/inbox/service/inbox_service.go\<close>: inboxes are provisioned under the seat limit of the
  organisation's licence and, for a pod-scoped key, in the key's pod only.
\<close>

section \<open>Requests and the service\<close>

record create_inbox_request =
  ci_PodID :: "uuid option"
  ci_Address :: string
  ci_DisplayName :: string
  ci_Settings :: "json_map option"

record update_inbox_request =
  ui_DisplayName :: "string option"
  ui_Status :: "string option"
  ui_Settings :: "json_map option"

record inbox_service =
  is_producer :: publisher
  is_mailDomain :: string

definition resolveInboxAddress :: "string \<Rightarrow> string \<Rightarrow> go_error + string" where
  "resolveInboxAddress address mailDomain =
     (if contains address ''@'' then Inr address
      else if mailDomain = [] then
        Inl (Errorf (''address '' @ go_quote address @ '' has no domain and MAIL_DOMAIN is not configured''))
      else Inr (address @ ''@'' @ mailDomain))"

section \<open>Operations\<close>

text \<open>The pod of a new inbox: a pod-scoped key's pod is the default and the only choice.\<close>

definition inbox_pod :: "claims \<Rightarrow> create_inbox_request \<Rightarrow> go_error + uuid option" where
  "inbox_pod c req =
     (case cl_PodID c of
        None \<Rightarrow> Inr (ci_PodID req)
      | Some p \<Rightarrow>
          (case ci_PodID req of
             None \<Rightarrow> Inr (Some p)
           | Some q \<Rightarrow> if q \<noteq> p then Inl (Errorf ''pod-scoped key cannot create inboxes in a different pod'')
                       else Inr (Some q)))"

definition active_inboxes :: "uuid \<Rightarrow> database \<Rightarrow> int" where
  "active_inboxes orgID d = int (length (filter (\<lambda>r. ib_OrgID r = orgID \<and> ib_Status r = ''active'') (t_inboxes d)))"

definition check_seats :: "claims \<Rightarrow> unit io" where
  "check_seats c =
     (if cl_SeatLimit c \<noteq> - 1 then
        go_bind (wrap_err ''seat limit check'' (pool_exec (query (active_inboxes (cl_OrgID c))))) (\<lambda>activeCount.
        fail_if (activeCount \<ge> cl_SeatLimit c) (SeatLimitExceededError (cl_SeatLimit c) activeCount))
      else ret ())"

definition new_inbox :: "uuid \<Rightarrow> claims \<Rightarrow> uuid option \<Rightarrow> string \<Rightarrow> create_inbox_request \<Rightarrow> time \<Rightarrow> time \<Rightarrow> inbox" where
  "new_inbox i c podID address req created updated =
     \<lparr>ib_ID = i, ib_OrgID = cl_OrgID c, ib_PodID = podID, ib_Email = address, ib_DisplayName = ci_DisplayName req,
      ib_Status = InboxStatusActive,
      ib_Settings = (case ci_Settings req of None \<Rightarrow> [] | Some settings \<Rightarrow> settings),
      ib_CreatedAt = created, ib_UpdatedAt = updated\<rparr>"

text \<open>\<open>Create\<close> has two halves: what it checks before anything is stored, on the pool, and the transaction that stores the
  inbox.  Between the two, other requests can run.\<close>

definition create_checks :: "inbox_service \<Rightarrow> claims \<Rightarrow> create_inbox_request \<Rightarrow> (string \<times> uuid option) io" where
  "create_checks s c req =
     go_bind (of_result (resolveInboxAddress (ci_Address req) (is_mailDomain s))) (\<lambda>address.
     go_bind (of_result (inbox_pod c req)) (\<lambda>podID.
     go_bind (check_seats c) (\<lambda>_. ret (address, podID))))"

definition create_inbox :: "inbox_service \<Rightarrow> claims \<Rightarrow> create_inbox_request \<Rightarrow> string \<times> uuid option \<Rightarrow> inbox io" where
  "create_inbox s c req = (\<lambda>(address, podID).
     go_bind uuid_New (\<lambda>i.
     go_bind time_Now (\<lambda>created.
     go_bind time_Now (\<lambda>updated.
     let inbox = new_inbox i c podID address req created updated in
     go_bind (wrap_err ''create inbox'' (WithOrgPodTx (cl_OrgID c) (cl_PodID c) (InboxStore_Create inbox))) (\<lambda>_.
     let evtPodID = (case ib_PodID inbox of None \<Rightarrow> uuid_Nil | Some p \<Rightarrow> p) in
     go_bind (NewBase EventInboxCreated (cl_OrgID c)) (\<lambda>b.
     go_bind (ignore_err (PublishEvent (is_producer s)
       (InboxCreatedEvent b (ib_ID inbox) (ib_Email inbox) evtPodID))) (\<lambda>_.
     ret inbox)))))))"

definition InboxService_Create :: "inbox_service \<Rightarrow> claims \<Rightarrow> create_inbox_request \<Rightarrow> inbox io" where
  "InboxService_Create s c req = go_bind (create_checks s c req) (create_inbox s c req)"

definition InboxService_Get :: "inbox_service \<Rightarrow> claims \<Rightarrow> uuid \<Rightarrow> inbox io" where
  "InboxService_Get s c inboxID =
     wrap_err ''get inbox'' (WithOrgPodTx (cl_OrgID c) (cl_PodID c) (InboxStore_GetByID (cl_OrgID c) inboxID))"

definition list_pod :: "claims \<Rightarrow> uuid option \<Rightarrow> uuid option" where
  "list_pod c podID = (if cl_PodID c \<noteq> None then cl_PodID c else podID)"

definition InboxService_List ::
  "inbox_service \<Rightarrow> claims \<Rightarrow> uuid option \<Rightarrow> int \<Rightarrow> string \<Rightarrow> (inbox list \<times> string) io" where
  "InboxService_List s c podID limit cursor =
     wrap_err ''list inboxes'' (WithOrgPodTx (cl_OrgID c) (cl_PodID c)
       (InboxStore_List (cl_OrgID c) (list_pod c podID) limit cursor))"

definition InboxService_Update :: "inbox_service \<Rightarrow> claims \<Rightarrow> uuid \<Rightarrow> update_inbox_request \<Rightarrow> inbox io" where
  "InboxService_Update s c inboxID req =
     (let patch = \<lparr>ip_DisplayName = ui_DisplayName req, ip_Status = ui_Status req, ip_Settings = ui_Settings req\<rparr>
      in wrap_err ''update inbox'' (WithOrgPodTx (cl_OrgID c) (cl_PodID c)
           (InboxStore_Update (cl_OrgID c) inboxID patch)))"

definition InboxService_Delete :: "inbox_service \<Rightarrow> claims \<Rightarrow> uuid \<Rightarrow> unit io" where
  "InboxService_Delete s c inboxID =
     wrap_err ''delete inbox'' (WithOrgPodTx (cl_OrgID c) (cl_PodID c) (InboxStore_Delete (cl_OrgID c) inboxID))"

section \<open>A successful creation\<close>

lemma check_seats_success:
  assumes "check_seats c E w = (Inr u, w')"
  shows "w_db w' = w_db w \<and> (cl_SeatLimit c \<noteq> - 1 \<longrightarrow> active_inboxes (cl_OrgID c) (w_db w) < cl_SeatLimit c)"
  using assms by (auto simp: check_seats_def go_success pool_exec_eq_Inr query_def split: if_splits)

lemma create_checks_success:
  assumes "create_checks s c req E w = (Inr (address, podID), w')"
  shows "resolveInboxAddress (ci_Address req) (is_mailDomain s) = Inr address \<and> inbox_pod c req = Inr podID \<and> w_db w' = w_db w \<and>
    (cl_SeatLimit c \<noteq> - 1 \<longrightarrow> active_inboxes (cl_OrgID c) (w_db w) < cl_SeatLimit c)"
proof -
  from assms obtain w1 where "resolveInboxAddress (ci_Address req) (is_mailDomain s) = Inr address" "inbox_pod c req = Inr podID"
    "check_seats c E w = (Inr (), w1)" "w' = w1"
    unfolding create_checks_def by (auto simp: go_bind_eq_Inr ret_eq_Inr of_result_eq_Inr)
  with check_seats_success [of c E w "()" w1] show ?thesis by simp
qed

lemma create_inbox_success:
  assumes "create_inbox s c req (address, podID) E w = (Inr ib, w')"
  obtains i created updated now where
    "ib = new_inbox i c podID address req created updated" "inbox_insert ib now (w_db w) = Inr ((), w_db w')"
proof -
  from assms obtain i w3 created w4 updated w5 w6 b w7 ev where
    3: "uuid_New E w = (Inr i, w3)" "time_Now E w3 = (Inr created, w4)" "time_Now E w4 = (Inr updated, w5)" and
    4: "ib = new_inbox i c podID address req created updated" and
    5: "WithOrgPodTx (cl_OrgID c) (cl_PodID c) (InboxStore_Create ib) E w5 = (Inr (), w6)" and
    6: "NewBase EventInboxCreated (cl_OrgID c) E w6 = (Inr b, w7)"
       "ignore_err (PublishEvent (is_producer s) (ev b)) E w7 = (Inr (), w')"
    unfolding create_inbox_def Let_def
    by (auto simp: go_bind_eq_Inr wrap_err_eq_Inr ret_eq_Inr)
  from 5 obtain wa wb where a: "InboxStore_Create ib E wa = (Inr (), wb)" "w_db wa = w_db w5" "w6 = end_tx w5 wb"
    by (rule WithOrgPodTx_success) blast
  have "w_db w' = w_db w6"
    using keeps_db_same [OF keeps_db_publish(3) 6(1)] keeps_db_same [OF keeps_db_ignore [OF keeps_db_publish(1)] 6(2)] by simp
  moreover have "w_db w5 = w_db w" using 3 by (auto simp: uuid_New_def time_Now_def)
  ultimately have "inbox_insert ib (w_now wa) (w_db w) = Inr ((), w_db w')"
    using a by (auto simp: InboxStore_Create_eq_Inr)
  with 4 show thesis by (rule that)
qed

lemma InboxService_Create_success:
  assumes "InboxService_Create s c req E w = (Inr ib, w')"
  obtains address podID i created updated now where
    "resolveInboxAddress (ci_Address req) (is_mailDomain s) = Inr address" "inbox_pod c req = Inr podID"
    "cl_SeatLimit c \<noteq> - 1 \<longrightarrow> active_inboxes (cl_OrgID c) (w_db w) < cl_SeatLimit c"
    "ib = new_inbox i c podID address req created updated"
    "inbox_insert ib now (w_db w) = Inr ((), w_db w')"
proof -
  from assms obtain address podID w1 where 1: "create_checks s c req E w = (Inr (address, podID), w1)" and
    2: "create_inbox s c req (address, podID) E w1 = (Inr ib, w')"
    by (auto simp: InboxService_Create_def go_bind_eq_Inr)
  note C = create_checks_success [OF 1]
  from create_inbox_success [OF 2] obtain i created updated now where
    "ib = new_inbox i c podID address req created updated" "inbox_insert ib now (w_db w1) = Inr ((), w_db w')" .
  with C show thesis by (intro that [of address podID]) auto
qed

lemma new_inbox_simps [simp]:
  "ib_ID (new_inbox i c p a req cr up) = i" "ib_OrgID (new_inbox i c p a req cr up) = cl_OrgID c"
  "ib_PodID (new_inbox i c p a req cr up) = p" "ib_Email (new_inbox i c p a req cr up) = a"
  "ib_Status (new_inbox i c p a req cr up) = ''active''" "ib_DisplayName (new_inbox i c p a req cr up) = ci_DisplayName req"
  by (simp_all add: new_inbox_def)

lemma rolls_back_create_inbox: "rolls_back (create_inbox s c req ap)"
  unfolding create_inbox_def Let_def
  apply (cases ap, simp only: prod.case)
  apply (rule rolls_back_bind, (intro keeps_intros; fail))+
  apply (rule rolls_back_then)
   apply (intro rolls_back_wrap rolls_back_tx)
  apply (intro never_fails_bind never_fails_NewBase never_fails_intros)
  done

lemma keeps_create_checks: "keeps_db Q (create_checks s c req)"
  unfolding create_checks_def check_seats_def Let_def by (intro keeps_intros)

lemma rolls_back_InboxService_Create: "rolls_back (InboxService_Create s c req)"
  unfolding InboxService_Create_def by (rule rolls_back_bind [OF keeps_create_checks rolls_back_create_inbox])

section \<open>Properties\<close>

lemma active_inboxes_append:
  "active_inboxes org (d\<lparr>t_inboxes := t_inboxes d @ [ib]\<rparr>) =
   active_inboxes org d + (if ib_OrgID ib = org \<and> ib_Status ib = ''active'' then 1 else 0)"
  by (simp add: active_inboxes_def)

lemma Create_run_cases:
  obtains e w' where "InboxService_Create s c req E w = (Inl e, w')" "w_db w' = w_db w"
  | ib w' where "InboxService_Create s c req E w = (Inr ib, w')"
proof (cases "InboxService_Create s c req E w")
  case (Pair r w')
  then show ?thesis
    using that rolls_backD [OF rolls_back_InboxService_Create] by (cases r) auto
qed

lemma InboxService_Delete_success:
  assumes "InboxService_Delete s c i E w = (Inr u, w')"
  obtains n now where "inbox_delete (cl_OrgID c) i now (w_db w) = Inr (n, w_db w')" "n \<noteq> 0"
proof -
  from assms obtain w1 w2 where "InboxStore_Delete (cl_OrgID c) i E w1 = (Inr (), w2)" "w_db w1 = w_db w" "w' = end_tx w w2"
    unfolding InboxService_Delete_def wrap_err_eq_Inr by (auto elim: WithOrgPodTx_success)
  then show ?thesis
    using that by (auto simp: InboxStore_Delete_def go_success tx_exec_eq_Inr)
qed

lemma inbox_delete_active:
  "active_inboxes org (w_db (snd (InboxService_Delete s c i E w))) \<le> active_inboxes org (w_db w)"
proof (cases "InboxService_Delete s c i E w")
  case (Pair r w')
  have "rolls_back (InboxService_Delete s c i)" unfolding InboxService_Delete_def by (intro rolls_back_wrap rolls_back_tx)
  with Pair have "w_db w' = w_db w" if "r = Inl e" for e using that by (auto dest: rolls_backD)
  moreover have "active_inboxes org (w_db w') \<le> active_inboxes org (w_db w)" if "r = Inr u" for u
  proof -
    from Pair that obtain n now d' where del: "inbox_delete (cl_OrgID c) i now (w_db w) = Inr (n, d')" and db: "w_db w' = d'"
      by (auto elim: InboxService_Delete_success)
    from del have "t_inboxes d' = filter (\<lambda>r. \<not> (ib_OrgID r = cl_OrgID c \<and> ib_ID r = i)) (t_inboxes (w_db w))"
      by (auto simp: inbox_delete_def Let_def del_where_def)
    moreover have "length (filter q (filter p xs)) \<le> length (filter q xs)" for p q and xs :: "inbox list"
      by (induction xs) auto
    ultimately show ?thesis by (simp only: active_inboxes_def of_nat_le_iff db)
  qed
  ultimately show ?thesis by (cases r) (simp_all add: Pair)
qed

text \<open>The instances of the function run at the same time, each of them one request after the other.  \<open>Checked j c req\<close>:
  instance \<open>j\<close>, when it is free, does the first half of a creation; \<open>Stored j\<close>: it does the second half; and inboxes are deleted
  at any time.  The state has the checked requests that the instances hold.\<close>

datatype seat_event = Checked nat claims create_inbox_request | Stored nat | Deleted claims uuid

type_synonym in_flight = "nat \<Rightarrow> (claims \<times> create_inbox_request \<times> string \<times> uuid option) option"

fun seat_step :: "env \<Rightarrow> inbox_service \<Rightarrow> seat_event \<Rightarrow> world \<times> in_flight \<Rightarrow> world \<times> in_flight" where
  "seat_step E s (Checked j c req) (w, held) =
     (if held j \<noteq> None then (w, held)
      else case create_checks s c req E w of
        (Inl e, w') \<Rightarrow> (w', held)
      | (Inr ap, w') \<Rightarrow> (w', held(j \<mapsto> (c, req, ap))))"
| "seat_step E s (Stored j) (w, held) =
     (case held j of
        None \<Rightarrow> (w, held)
      | Some (c, req, ap) \<Rightarrow> (snd (create_inbox s c req ap E w), held(j := None)))"
| "seat_step E s (Deleted c i) (w, held) = (snd (InboxService_Delete s c i E w), held)"

text \<open>The instances that hold a checked request of an organisation.\<close>

definition holding :: "uuid \<Rightarrow> in_flight \<Rightarrow> nat set" where
  "holding org held = {j. \<exists>c req ap. held j = Some (c, req, ap) \<and> cl_OrgID c = org}"

definition seats_ok :: "uuid \<Rightarrow> int \<Rightarrow> nat \<Rightarrow> world \<times> in_flight \<Rightarrow> bool" where
  "seats_ok org limit m wh \<longleftrightarrow> (case wh of (w, held) \<Rightarrow>
     holding org held \<subseteq> {..<m} \<and> active_inboxes org (w_db w) + int (card (holding org held)) < limit + int m)"

lemma holding_upd:
  "holding org (held(j \<mapsto> (c, req, ap))) = (if cl_OrgID c = org then insert j (holding org held) else holding org held - {j})"
  "holding org (held(j := None)) = holding org held - {j}"
  by (auto simp: holding_def)

lemma seats_checked:
  assumes "seats_ok org limit m (w, held)" "j < m" "limit \<noteq> - 1" "cl_OrgID c = org \<Longrightarrow> cl_SeatLimit c = limit"
  shows "seats_ok org limit m (seat_step E s (Checked j c req) (w, held))"
proof (cases "held j = None")
  case True
  obtain r w' where run: "create_checks s c req E w = (r, w')" by (rule prod.exhaust)
  then have db: "w_db w' = w_db w" by (rule keeps_db_same [OF keeps_create_checks])
  show ?thesis
  proof (cases r)
    case (Inl e)
    with assms(1) run db show ?thesis by (simp add: seats_ok_def)
  next
    case (Inr ap)
    let ?held = "held(j \<mapsto> (c, req, ap))"
    have step: "seat_step E s (Checked j c req) (w, held) = (w', ?held)" using True run Inr by simp
    show ?thesis
    proof (cases "cl_OrgID c = org")
      case org: True
      have sub: "holding org ?held \<subseteq> {..<m}"
        using assms(1,2) by (auto simp: seats_ok_def holding_upd)
      then have "card (holding org ?held) \<le> m" using card_mono [of "{..<m}"] by fastforce
      moreover have "active_inboxes org (w_db w) < limit"
        using create_checks_success [of s c req E w "fst ap" "snd ap" w'] run Inr org assms(3,4) by simp
      ultimately show ?thesis using sub db unfolding step seats_ok_def prod.case by simp
    next
      case False
      have "holding org held - {j} = holding org held" using True by (auto simp: holding_def)
      with False assms(1) db show ?thesis unfolding step by (simp add: seats_ok_def holding_upd)
    qed
  qed
qed (use assms(1) in simp)

lemma seats_stored:
  assumes "seats_ok org limit m (w, held)"
  shows "seats_ok org limit m (seat_step E s (Stored j) (w, held))"
proof (cases "held j")
  case (Some x)
  obtain c req ap where x: "x = (c, req, ap)" by (cases x)
  obtain r w' where run: "create_inbox s c req ap E w = (r, w')" by (rule prod.exhaust)
  have step: "seat_step E s (Stored j) (w, held) = (w', held(j := None))" by (simp add: Some x run)
  have fin: "finite (holding org held)" and sub: "holding org held \<subseteq> {..<m}"
    using assms finite_subset [of "holding org held" "{..<m}"] by (auto simp: seats_ok_def)
  have count: "active_inboxes org (w_db w') \<le> active_inboxes org (w_db w) + (if cl_OrgID c = org then 1 else 0)"
  proof (cases r)
    case (Inl e)
    with run rolls_backD [OF rolls_back_create_inbox] have "w_db w' = w_db w" by blast
    then show ?thesis by simp
  next
    case (Inr ib)
    with run have "create_inbox s c req (fst ap, snd ap) E w = (Inr ib, w')" by simp
    from create_inbox_success [OF this] obtain i created updated now where
      "ib = new_inbox i c (snd ap) (fst ap) req created updated" "inbox_insert ib now (w_db w) = Inr ((), w_db w')" .
    then show ?thesis by (simp add: inbox_insert_eq_Inr active_inboxes_append)
  qed
  show ?thesis
  proof (cases "cl_OrgID c = org")
    case True
    then have "j \<in> holding org held" using Some x by (auto simp: holding_def)
    with fin have "card (holding org held) = Suc (card (holding org held - {j}))" by (rule card.remove)
    moreover have "holding org held - {j} \<subseteq> {..<m}" using sub by blast
    moreover have "active_inboxes org (w_db w) + int (card (holding org held)) < limit + int m" using assms by (simp add: seats_ok_def)
    ultimately show ?thesis
      using count True unfolding step seats_ok_def prod.case holding_upd(2) by simp
  next
    case False
    then have "holding org held - {j} = holding org held" using Some x by (auto simp: holding_def)
    with count False assms show ?thesis unfolding step by (simp add: seats_ok_def holding_upd)
  qed
qed (use assms in simp)

text \<open>C9. The seat limit and how far it can be missed.  Inboxes are counted before the transaction that stores the new
  one, so requests that run at the same time do not see each other: with \<open>m\<close> instances of the function, however their checks,
  their insertions and deletions of inboxes are interleaved, an organisation whose keys carry the limit has at most \<open>m - 1\<close>
  active inboxes more than the limit, and with one instance never more than the limit.  (The witness attains the bound.)\<close>

theorem seat_limit_bound:
  assumes "\<And>j c req. Checked j c req \<in> set events \<Longrightarrow> j < m \<and> (cl_OrgID c = org \<longrightarrow> cl_SeatLimit c = limit)"
    and "limit \<noteq> - 1" and "0 < m" and "active_inboxes org (w_db w) \<le> limit"
  shows "active_inboxes org (w_db (fst (fold (seat_step E s) events (w, \<lambda>_. None)))) \<le> limit + int m - 1"
proof -
  have "seats_ok org limit m (fold (seat_step E s) events wh)" if "seats_ok org limit m wh" for wh
    using that assms(1)
  proof (induction events arbitrary: wh)
    case (Cons ev events)
    obtain w held where wh: "wh = (w, held)" by (rule prod.exhaust)
    have "seats_ok org limit m (seat_step E s ev wh)"
    proof (cases ev)
      case (Checked j c req)
      with Cons.prems wh assms(2) show ?thesis by (auto intro!: seats_checked simp del: seat_step.simps)
    next
      case (Stored j)
      with Cons.prems(1) wh show ?thesis by (auto intro!: seats_stored simp del: seat_step.simps)
    next
      case (Deleted c i)
      with Cons.prems(1) wh show ?thesis
        using inbox_delete_active [of org s c i E w] by (auto simp: seats_ok_def)
    qed
    then have "seats_ok org limit m (fold (seat_step E s) events (seat_step E s ev wh))"
      by (rule Cons.IH) (use Cons.prems(2) in \<open>auto dest!: spec\<close>)
    then show ?case by simp
  qed simp
  moreover have "seats_ok org limit m (w, \<lambda>_. None)" using assms(3,4) by (simp add: seats_ok_def holding_def)
  ultimately have "seats_ok org limit m (fold (seat_step E s) events (w, \<lambda>_. None))" .
  then show ?thesis by (auto simp: seats_ok_def split: prod.splits)
qed

definition demo_limited :: claims where "demo_limited = (demo_claims 1)\<lparr>cl_SeatLimit := 2\<rparr>"

definition demo_inbox_service :: inbox_service where
  "demo_inbox_service = \<lparr>is_producer = demo_publisher, is_mailDomain = ''x''\<rparr>"

definition demo_inbox_request :: "string \<Rightarrow> create_inbox_request" where
  "demo_inbox_request a = \<lparr>ci_PodID = None, ci_Address = a, ci_DisplayName = '''', ci_Settings = None\<rparr>"

text \<open>One inbox is active, two are licensed, and two requests at the same time make it three.\<close>

definition demo_race :: "seat_event list" where
  "demo_race = [Checked 0 demo_limited (demo_inbox_request ''n''), Checked 1 demo_limited (demo_inbox_request ''p''), Stored 0, Stored 1]"

theorem seat_limit_bound_witness:
  "active_inboxes 1 (w_db demo_world) = 1 \<and>
   active_inboxes 1 (w_db (fst (fold (seat_step demo_env demo_inbox_service) demo_race (demo_world, \<lambda>_. None)))) \<le> 3 \<and>
   active_inboxes 1 (w_db (fst (fold (seat_step demo_env demo_inbox_service) demo_race (demo_world, \<lambda>_. None)))) = 3"
proof -
  have "j < 2 \<and> (cl_OrgID c = 1 \<longrightarrow> cl_SeatLimit c = 2)" if "Checked j c req \<in> set demo_race" for j c req
    using that by (auto simp: demo_race_def demo_limited_def)
  moreover have one: "active_inboxes 1 (w_db demo_world) = 1" by (simp add: active_inboxes_def demo_db_def demo_inbox_def)
  ultimately have "active_inboxes 1 (w_db (fst (fold (seat_step demo_env demo_inbox_service) demo_race (demo_world, \<lambda>_. None)))) \<le> 2 + int 2 - 1"
    by (intro seat_limit_bound) simp_all
  moreover have "active_inboxes 1 (w_db (fst (fold (seat_step demo_env demo_inbox_service) demo_race (demo_world, \<lambda>_. None)))) = 3"
    by code_simp
  ultimately show ?thesis using one by simp
qed

text \<open>C12. A successful creation adds exactly one inbox: an active one of the caller's organisation, in the
  key's pod when the key has one, with the requested address completed by the mail domain; the
  address then leads to it.\<close>

theorem inbox_create_effect:
  assumes "InboxService_Create s c req E w = (Inr ib, w')"
  shows "t_inboxes (w_db w') = t_inboxes (w_db w) @ [ib] \<and> ib_OrgID ib = cl_OrgID c \<and> ib_Status ib = ''active'' \<and>
    (cl_PodID c \<noteq> None \<longrightarrow> ib_PodID ib = cl_PodID c) \<and> (ci_PodID req \<noteq> None \<longrightarrow> ib_PodID ib = ci_PodID req) \<and>
    ib_Email ib = (if contains (ci_Address req) ''@'' then ci_Address req else ci_Address req @ ''@'' @ is_mailDomain s) \<and>
    contains (ib_Email ib) ''@'' \<and>
    (\<forall>now. inbox_select_address (ib_Email ib) now (w_db w') = Inr (ib, w_db w'))"
proof -
  from assms obtain i podID address created updated now where
    a: "resolveInboxAddress (ci_Address req) (is_mailDomain s) = Inr address" and
    p: "inbox_pod c req = Inr podID" and
    ib: "ib = new_inbox i c podID address req created updated" and
    ins: "inbox_insert ib now (w_db w) = Inr ((), w_db w')"
    by (rule InboxService_Create_success)
  from ins have db: "w_db w' = (w_db w)\<lparr>t_inboxes := t_inboxes (w_db w) @ [ib]\<rparr>"
    and new: "\<not> has_key ib_Email (ib_Email ib) (t_inboxes (w_db w))" by (simp_all add: inbox_insert_eq_Inr)
  have "inbox_select_address (ib_Email ib) n (w_db w') = Inr (ib, w_db w')" for n
  proof -
    have "filter (\<lambda>r. ib_Email r = ib_Email ib) (t_inboxes (w_db w)) = []"
      using new by (auto simp: filter_empty_conv has_key_def image_iff)
    then show ?thesis by (simp add: db inbox_select_address_def query_row_def first_row_def)
  qed
  moreover have "contains (a @ ''@'' @ b) ''@''" for a b
    by (induction a) auto
  ultimately show ?thesis
    using a p by (auto simp: db ib resolveInboxAddress_def inbox_pod_def split: if_splits option.splits)
qed

theorem inbox_create_effect_witness:
  "\<exists>ib w'. InboxService_Create demo_inbox_service (demo_claims 1) (demo_inbox_request ''n'') demo_env demo_world = (Inr ib, w') \<and>
     ib_Email ib = ''n@x'' \<and> t_inboxes (w_db w') = [demo_inbox, ib]"
proof -
  have "isl (fst (InboxService_Create demo_inbox_service (demo_claims 1) (demo_inbox_request ''n'') demo_env demo_world)) = False"
    by code_simp
  then obtain ib w' where run:
    "InboxService_Create demo_inbox_service (demo_claims 1) (demo_inbox_request ''n'') demo_env demo_world = (Inr ib, w')"
    by (metis isl_def prod.collapse sum.exhaust_sel sum.collapse(2))
  from inbox_create_effect [OF run] have "t_inboxes (w_db w') = [demo_inbox, ib]" "ib_Email ib = ''n@x''"
    by (simp_all add: demo_db_def demo_inbox_request_def demo_inbox_service_def)
  with run show ?thesis by blast
qed

definition ids_unique :: "database \<Rightarrow> bool" where
  "ids_unique d \<longleftrightarrow> distinct (map ib_ID (t_inboxes d)) \<and> distinct (map tr_id (t_threads d)) \<and>
     distinct (map mr_id (t_messages d)) \<and> distinct (map dr_id (t_drafts d))"

definition messages_with_thread :: "database \<Rightarrow> bool" where
  "messages_with_thread d \<longleftrightarrow> (\<forall>m \<in> set (t_messages d). \<forall>t \<in> set (t_threads d).
     mr_thread_id m = tr_id t \<longrightarrow> mr_inbox_id m = tr_inbox_id t)"

lemma key_selects:
  assumes "distinct (map k rs)" and "x \<in> set rs"
  shows "(\<exists>y \<in> set rs. k y = k x \<and> P y) \<longleftrightarrow> P x"
  using assms distinct_map_eq [OF assms(1)] by metis

lemma cascade_tables:
  assumes "ids_unique d" and "messages_with_thread d"
  shows "t_threads (inbox_cascade (\<lambda>x. x = i) now d) = filter (\<lambda>t. tr_inbox_id t \<noteq> i) (t_threads d)"
    and "t_messages (inbox_cascade (\<lambda>x. x = i) now d) = filter (\<lambda>m. mr_inbox_id m \<noteq> i) (t_messages d)"
    and "map dr_id (t_drafts (inbox_cascade (\<lambda>x. x = i) now d)) = map dr_id (filter (\<lambda>r. dr_inbox_id r \<noteq> i) (t_drafts d))"
proof -
  let ?thread = "\<lambda>x. \<exists>t \<in> set (t_threads d). tr_id t = x \<and> tr_inbox_id t = i"
  let ?message = "\<lambda>x. \<exists>m \<in> set (t_messages d). mr_id m = x \<and> (mr_inbox_id m = i \<or> ?thread (mr_thread_id m))"
  let ?draft = "\<lambda>x. \<exists>r \<in> set (t_drafts d). dr_id r = x \<and> dr_inbox_id r = i"
  have t: "t_threads (inbox_cascade (\<lambda>x. x = i) now d) = filter (\<lambda>t. \<not> ?thread (tr_id t)) (t_threads d)"
    and m: "t_messages (inbox_cascade (\<lambda>x. x = i) now d) = filter (\<lambda>m. \<not> ?message (mr_id m)) (t_messages d)"
    and r: "map dr_id (t_drafts (inbox_cascade (\<lambda>x. x = i) now d)) = map dr_id (filter (\<lambda>r. \<not> ?draft (dr_id r)) (t_drafts d))"
    by (simp_all add: inbox_cascade_def Let_def del_where_def)
  have kt: "?thread (tr_id x) = (tr_inbox_id x = i)" if "x \<in> set (t_threads d)" for x
    using assms(1) that unfolding ids_unique_def by (intro key_selects) blast+
  have km: "?message (mr_id x) = (mr_inbox_id x = i \<or> ?thread (mr_thread_id x))" if "x \<in> set (t_messages d)" for x
    using assms(1) that unfolding ids_unique_def by (intro key_selects) blast+
  have kr: "?draft (dr_id x) = (dr_inbox_id x = i)" if "x \<in> set (t_drafts d)" for x
    using assms(1) that unfolding ids_unique_def by (intro key_selects) blast+
  have tm: "mr_inbox_id x = i" if "x \<in> set (t_messages d)" "?thread (mr_thread_id x)" for x
    using assms(2) that unfolding messages_with_thread_def by metis
  show "t_threads (inbox_cascade (\<lambda>x. x = i) now d) = filter (\<lambda>t. tr_inbox_id t \<noteq> i) (t_threads d)"
    unfolding t by (rule filter_cong [OF refl]) (simp only: kt)
  show "t_messages (inbox_cascade (\<lambda>x. x = i) now d) = filter (\<lambda>m. mr_inbox_id m \<noteq> i) (t_messages d)"
    unfolding m
  proof (rule filter_cong [OF refl])
    fix x assume "x \<in> set (t_messages d)"
    with km [OF this] tm [OF this] show "(\<not> ?message (mr_id x)) = (mr_inbox_id x \<noteq> i)" by argo
  qed
  have "filter (\<lambda>r. \<not> ?draft (dr_id r)) (t_drafts d) = filter (\<lambda>r. dr_inbox_id r \<noteq> i) (t_drafts d)"
    by (rule filter_cong [OF refl]) (simp only: kr)
  then show "map dr_id (t_drafts (inbox_cascade (\<lambda>x. x = i) now d)) = map dr_id (filter (\<lambda>r. dr_inbox_id r \<noteq> i) (t_drafts d))"
    by (simp only: r)
qed

text \<open>Deleting an inbox removes the inbox and, with it, exactly its threads, messages and drafts;
  every other inbox and its threads and messages stay as they are.\<close>

lemma inbox_delete_effect:
  assumes "InboxService_Delete s c i E w = (Inr u, w')" and "ids_unique (w_db w)" and "messages_with_thread (w_db w)"
  shows "(\<exists>ib \<in> set (t_inboxes (w_db w)). ib_ID ib = i \<and> ib_OrgID ib = cl_OrgID c) \<and>
    t_inboxes (w_db w') = filter (\<lambda>r. ib_ID r \<noteq> i) (t_inboxes (w_db w)) \<and>
    t_threads (w_db w') = filter (\<lambda>t. tr_inbox_id t \<noteq> i) (t_threads (w_db w)) \<and>
    t_messages (w_db w') = filter (\<lambda>m. mr_inbox_id m \<noteq> i) (t_messages (w_db w)) \<and>
    map dr_id (t_drafts (w_db w')) = map dr_id (filter (\<lambda>r. dr_inbox_id r \<noteq> i) (t_drafts (w_db w)))"
proof -
  let ?d = "w_db w" and ?hit = "\<lambda>r. ib_OrgID r = cl_OrgID c \<and> ib_ID r = i"
  from assms(1) obtain n now where del: "inbox_delete (cl_OrgID c) i now ?d = Inr (n, w_db w')" "n \<noteq> 0"
    by (rule InboxService_Delete_success)
  then have "filter ?hit (t_inboxes ?d) \<noteq> []" by (auto simp: inbox_delete_def Let_def)
  then obtain ib where ib: "ib \<in> set (t_inboxes ?d)" "?hit ib" by (auto simp: filter_empty_conv)
  then have gone: "(\<lambda>x. x \<in> set (map ib_ID (filter ?hit (t_inboxes ?d)))) = (\<lambda>x. x = i)" by force
  have d': "w_db w' = (inbox_cascade (\<lambda>x. x = i) now ?d)\<lparr>t_inboxes := del_where ?hit (t_inboxes ?d)\<rparr>"
    using del(1) unfolding inbox_delete_def Let_def gone by simp
  have hit: "?hit r = (ib_ID r = i)" if "r \<in> set (t_inboxes ?d)" for r
    using distinct_map_eq [of ib_ID, OF _ that ib(1)] assms(2) ib(2) by (auto simp: ids_unique_def)
  have "filter (\<lambda>r. \<not> ?hit r) (t_inboxes ?d) = filter (\<lambda>r. ib_ID r \<noteq> i) (t_inboxes ?d)"
    by (rule filter_cong [OF refl]) (simp only: hit)
  then have "t_inboxes (w_db w') = filter (\<lambda>r. ib_ID r \<noteq> i) (t_inboxes ?d)"
    by (simp add: d' del_where_def)
  moreover have "t_threads (w_db w') = filter (\<lambda>t. tr_inbox_id t \<noteq> i) (t_threads ?d)"
    "t_messages (w_db w') = filter (\<lambda>m. mr_inbox_id m \<noteq> i) (t_messages ?d)"
    "map dr_id (t_drafts (w_db w')) = map dr_id (filter (\<lambda>r. dr_inbox_id r \<noteq> i) (t_drafts ?d))"
    using cascade_tables [OF assms(2,3), of i now] by (simp_all add: d')
  ultimately show ?thesis using ib by blast
qed

lemma inbox_delete_effect_at_demo:
  "\<exists>w'. InboxService_Delete demo_inbox_service (demo_claims 1) 3 demo_env demo_world = (Inr (), w') \<and>
     t_inboxes (w_db w') = [] \<and> t_messages (w_db w') = []"
proof -
  have "fst (InboxService_Delete demo_inbox_service (demo_claims 1) 3 demo_env demo_world) = Inr ()" by code_simp
  then obtain w' where run: "InboxService_Delete demo_inbox_service (demo_claims 1) 3 demo_env demo_world = (Inr (), w')"
    by (metis prod.collapse)
  have "t_inboxes (w_db w') = filter (\<lambda>r. ib_ID r \<noteq> 3) (t_inboxes demo_db)"
    "t_messages (w_db w') = filter (\<lambda>m. mr_inbox_id m \<noteq> 3) (t_messages demo_db)"
    using inbox_delete_effect [OF run]
    by (simp_all add: ids_unique_def messages_with_thread_def demo_db_def demo_draft_def demo_thread_def demo_message_def)
  with run show ?thesis by (simp add: demo_db_def demo_inbox_def demo_message_def)
qed

lemma cut_page_subset: "set (fst (cut_page n cur rows)) \<subseteq> set rows"
  by (auto simp: cut_page_def Let_def dest: in_set_takeD)

lemma InboxStore_List_success:
  assumes "InboxStore_List orgID podID limit cursor E w = (Inr p, w')"
  shows "set (fst p) \<subseteq> {r \<in> set (t_inboxes (w_db w)). inbox_page_where orgID podID r}"
proof -
  from assms obtain rows where "p = cut_page (nat (ClampLimit limit)) (\<lambda>ib. row_cursor E (ib_CreatedAt ib) (ib_ID ib)) rows"
    "set rows \<subseteq> {r \<in> set (t_inboxes (w_db w)). inbox_page_where orgID podID r}"
    using keyset_select_subset(1)
    by (fastforce simp: InboxStore_List_def Let_def go_success asks_eq_Inr tx_exec_eq_Inr inbox_page_def split: sum.splits)
  with cut_page_subset show ?thesis by fastforce
qed

text \<open>A pod-scoped key creates and lists inboxes of its own pod only, whichever pod it asks for.\<close>

lemma pod_key_confined:
  assumes "cl_PodID c = Some p"
  shows "(\<forall>ib w'. InboxService_Create s c req E w = (Inr ib, w') \<longrightarrow> ib_PodID ib = Some p) \<and>
    (\<forall>ibs nxt w'. InboxService_List s c podID limit cursor E w = (Inr (ibs, nxt), w') \<longrightarrow>
       (\<forall>ib \<in> set ibs. ib_PodID ib = Some p \<and> ib_OrgID ib = cl_OrgID c))"
proof (intro conjI allI impI)
  fix ib w' assume "InboxService_Create s c req E w = (Inr ib, w')"
  then obtain podID i address created updated where "inbox_pod c req = Inr podID"
    "ib = new_inbox i c podID address req created updated"
    by (rule InboxService_Create_success)
  with assms show "ib_PodID ib = Some p" by (auto simp: inbox_pod_def split: option.splits if_splits)
next
  fix ibs nxt w' assume "InboxService_List s c podID limit cursor E w = (Inr (ibs, nxt), w')"
  then obtain w1 w2 where "InboxStore_List (cl_OrgID c) (list_pod c podID) limit cursor E w1 = (Inr (ibs, nxt), w2)"
    unfolding InboxService_List_def wrap_err_eq_Inr by (rule WithOrgPodTx_success)
  from InboxStore_List_success [OF this] assms
  show "\<forall>ib \<in> set ibs. ib_PodID ib = Some p \<and> ib_OrgID ib = cl_OrgID c"
    by (auto simp: list_pod_def inbox_page_where_def)
qed

definition demo_pod_world :: world where
  "demo_pod_world = demo_world\<lparr>w_db := demo_db\<lparr>t_pods := [demo_pod]\<rparr>\<rparr>"

lemma pod_key_confined_at_demo:
  "\<exists>ib w'. InboxService_Create demo_inbox_service ((demo_claims 1)\<lparr>cl_PodID := Some 13\<rparr>) (demo_inbox_request ''n'')
       demo_env demo_pod_world = (Inr ib, w') \<and> ib_PodID ib = Some 13"
proof -
  let ?c = "(demo_claims 1)\<lparr>cl_PodID := Some 13\<rparr>"
  have "\<not> isl (fst (InboxService_Create demo_inbox_service ?c (demo_inbox_request ''n'') demo_env demo_pod_world))" by code_simp
  then obtain ib w' where run: "InboxService_Create demo_inbox_service ?c (demo_inbox_request ''n'') demo_env demo_pod_world = (Inr ib, w')"
    by (metis sum.collapse(2) prod.collapse)
  have "cl_PodID ?c = Some 13" by simp
  from pod_key_confined [OF this] run have "ib_PodID ib = Some 13" by blast
  with run show ?thesis by blast
qed

section \<open>Isolation and listing\<close>

datatype inbox_op = ICreate create_inbox_request | IUpdate uuid update_inbox_request | IDelete uuid

fun inbox_call :: "env \<Rightarrow> inbox_service \<Rightarrow> claims \<times> inbox_op \<Rightarrow> world \<Rightarrow> go_error option \<times> world" where
  "inbox_call E s (c, ICreate req) w = outcome (InboxService_Create s c req E w)"
| "inbox_call E s (c, IUpdate i req) w = outcome (InboxService_Update s c i req E w)"
| "inbox_call E s (c, IDelete i) w = outcome (InboxService_Delete s c i E w)"

lemma inbox_ops_roll_back:
  "rolls_back (InboxService_Update s c i ureq)" "rolls_back (InboxService_Delete s c i)"
  unfolding InboxService_Update_def InboxService_Delete_def Let_def by (intro rolls_back_wrap rolls_back_tx)+

lemma InboxStore_Update_foreign:
  assumes "InboxStore_Update org i p E w = (Inr x, w')"
  shows "filter (\<lambda>r. ib_OrgID r \<noteq> org) (t_inboxes (w_db w')) = filter (\<lambda>r. ib_OrgID r \<noteq> org) (t_inboxes (w_db w))"
proof (cases "p = empty_inbox_patch")
  case True
  with assms show ?thesis by (auto simp: InboxStore_Update_def dest: InboxStore_GetByID_success)
next
  case False
  obtain d' where "inbox_update org i p (w_now w) (w_db w) = Inr (x, d')" "w' = (tick_world (tick_world w))\<lparr>w_db := d'\<rparr>"
    by (rule InboxStore_Update_success [OF assms False])
  then show ?thesis by (simp add: inboxes.upd_others)
qed

text \<open>C11. An inbox operation changes no inbox of another organisation, whichever inbox the caller names,
  and one that reports an error has changed no table.\<close>

theorem inbox_call_isolated:
  "filter (\<lambda>r. ib_OrgID r \<noteq> cl_OrgID c) (t_inboxes (w_db (snd (inbox_call E s (c, k) w)))) =
     filter (\<lambda>r. ib_OrgID r \<noteq> cl_OrgID c) (t_inboxes (w_db w)) \<and>
   (fst (inbox_call E s (c, k) w) = None \<or> w_db (snd (inbox_call E s (c, k) w)) = w_db w)"
proof
  let ?P = "\<lambda>d. filter (\<lambda>r. ib_OrgID r \<noteq> cl_OrgID c) (t_inboxes d) = filter (\<lambda>r. ib_OrgID r \<noteq> cl_OrgID c) (t_inboxes (w_db w))"
  show "fst (inbox_call E s (c, k) w) = None \<or> w_db (snd (inbox_call E s (c, k) w)) = w_db w"
    by (cases k; simp only: inbox_call.simps)
      (metis rolls_back_outcome rolls_back_InboxService_Create inbox_ops_roll_back option.exhaust)+
  have "leaves ?P (InboxService_Create s c req) E w" for req
  proof (cases rule: Create_run_cases [of s c req E w])
    case (2 ib w')
    then obtain i podID address created updated now where
      "ib = new_inbox i c podID address req created updated" "inbox_insert ib now (w_db w) = Inr ((), w_db w')"
      by (rule InboxService_Create_success)
    then show ?thesis by (simp add: leaves_def 2 inbox_insert_eq_Inr)
  qed (simp add: leaves_def)
  moreover have "leaves ?P (InboxService_Update s c i req) E w" for i req
    unfolding InboxService_Update_def Let_def
    by (intro leaves_wrap leaves_OrgPodTx refl) (drule InboxStore_Update_foreign, simp)
  moreover have "leaves ?P (InboxService_Delete s c i) E w" for i
    unfolding InboxService_Delete_def
    by (intro leaves_wrap leaves_OrgPodTx refl)
      (auto simp: InboxStore_Delete_def go_success tx_exec_eq_Inr dest: inboxes.del_others)
  ultimately show "?P (w_db (snd (inbox_call E s (c, k) w)))"
    by (cases k) (simp_all add: leaves_def)
qed

text \<open>Paging through the inboxes of an organisation, or of one of its pods, with the returned cursors
  visits each of them once, newest first, and ends, for any requested page size.\<close>

lemma inbox_pages_complete:
  assumes "cursor_codec E" and "no_faults E" and "\<not> w_failed w" and "distinct (map ib_ID (t_inboxes (w_db w)))"
  shows "walk (Suc (length (t_inboxes (w_db w)))) (\<lambda>cursor. listed ([], []) (fst (InboxStore_List org podID limit cursor E w))) [] =
    Some (order_desc (\<lambda>r. (ib_CreatedAt r, ib_ID r)) (filter (inbox_page_where org podID) (t_inboxes (w_db w))))"
  (is "walk _ ?listing [] = Some ?rows")
proof -
  let ?x = "(E, w, org, podID, limit)"
  have ok: "inbox_listing_ok ?x"
    using assms by (simp add: inbox_listing_ok_def no_faults_def)
  have l: "inbox_listing_run ?x = ?listing" "listed_inboxes ?x = ?rows"
    by (simp_all add: inbox_listing_run_def listed_inboxes_def)
  show ?thesis
    using inbox_lists.walk_suffix [OF ok, of "[]" ?rows "Suc (length (t_inboxes (w_db w)))" "[]"]
      inbox_lists.first_page [OF ok]
    by (simp add: l order_desc_def less_Suc_eq_le length_filter_le)
qed

lemma inbox_pages_complete_at_demo:
  "walk (Suc (length (t_inboxes demo_db))) (\<lambda>cursor. listed ([], []) (fst (InboxStore_List 1 None 1 cursor demo_env demo_world))) [] =
    Some (order_desc (\<lambda>r. (ib_CreatedAt r, ib_ID r)) (filter (inbox_page_where 1 None) (t_inboxes demo_db)))"
proof -
  have "distinct (map ib_ID (t_inboxes (w_db demo_world)))" by (simp add: demo_db_def)
  from inbox_pages_complete [OF demo_codec _ _ this] show ?thesis by (simp add: no_faults_def del: walk.simps)
qed

end
