(* ===== verification/Inbox_Handler.thy ===== *)
theory Inbox_Handler
  imports Requests Inbox_Service
begin

text \<open>\<open>lambdas/inboxes/main.go\<close>: the HTTP interface of inboxes.\<close>

section \<open>Request bodies\<close>

text \<open>\<open>CreateInboxRequest\<close> has no json tags, so its members have the names of the Go fields.\<close>

definition dec_create_inbox :: "env \<Rightarrow> json \<Rightarrow> create_inbox_request \<Rightarrow> create_inbox_request option" where
  "dec_create_inbox E = dec_struct (\<lambda>name v r.
     if name = ''podid'' then map_option (\<lambda>x. r\<lparr>ci_PodID := x\<rparr>) (dec_ptr (dec_uuid E) uuid_Nil v (ci_PodID r))
     else if name = ''address'' then map_option (\<lambda>x. r\<lparr>ci_Address := x\<rparr>) (dec_string v (ci_Address r))
     else if name = ''displayname'' then map_option (\<lambda>x. r\<lparr>ci_DisplayName := x\<rparr>) (dec_string v (ci_DisplayName r))
     else if name = ''settings'' then map_option (\<lambda>x. r\<lparr>ci_Settings := x\<rparr>) (dec_map v)
     else Some r)"

definition dec_update_inbox :: "env \<Rightarrow> json \<Rightarrow> update_inbox_request \<Rightarrow> update_inbox_request option" where
  "dec_update_inbox E = dec_struct (\<lambda>name v r.
     if name = ''display_name'' then map_option (\<lambda>x. r\<lparr>ui_DisplayName := x\<rparr>) (dec_ptr dec_string [] v (ui_DisplayName r))
     else if name = ''status'' then map_option (\<lambda>x. r\<lparr>ui_Status := x\<rparr>) (dec_ptr dec_string [] v (ui_Status r))
     else if name = ''settings'' then map_option (\<lambda>x. r\<lparr>ui_Settings := x\<rparr>) (dec_map v)
     else Some r)"

definition zero_create_inbox :: create_inbox_request where
  "zero_create_inbox = \<lparr>ci_PodID = None, ci_Address = [], ci_DisplayName = [], ci_Settings = None\<rparr>"

section \<open>The handler\<close>

text \<open>The pod of a listing: the key's pod, else the query parameter, which must be a UUID.\<close>

definition pod_param :: "env \<Rightarrow> request \<Rightarrow> claims \<Rightarrow> uuid option option" where
  "pod_param E event c =
     (case cl_PodID c of
        Some p \<Rightarrow> Some (Some p)
      | None \<Rightarrow>
          (let raw = map_get (rq_QueryStringParameters event) ''pod_id''
           in if raw = [] then Some None else map_option Some (parse_uuid E raw)))"

definition inbox_create_error :: "go_error \<Rightarrow> handler" where
  "inbox_create_error e = (case root_cause e of
       SeatLimitExceededError limit current \<Rightarrow> respond (JSON 403 (VSeatLimit limit current))
     | _ \<Rightarrow> error_text 400 e)"

definition inboxes_collection :: "inbox_service \<Rightarrow> request \<Rightarrow> claims \<Rightarrow> uuid option option \<Rightarrow> handler" where
  "inboxes_collection s event c pod =
     (if rq_HTTPMethod event = ''GET'' then
        require_scope c ScopeInboxRead
          (case pod of
             None \<Rightarrow> respond (Error 400 ''invalid pod_id'')
           | Some podID \<Rightarrow>
               handle (InboxService_List s c podID (query_limit event) (map_get (rq_QueryStringParameters event) ''cursor''))
                 cursor_error (\<lambda>(inboxes, nextCursor). respond (JSON 200 (VInboxes inboxes nextCursor))))
      else if rq_HTTPMethod event = ''POST'' then
        require_scope c ScopeInboxWrite
          (with_body dec_create_inbox event zero_create_inbox (\<lambda>req.
             handle (InboxService_Create s c req) inbox_create_error (\<lambda>inbox. respond (JSON 201 (VInbox inbox)))))
      else respond (Error 404 ''not found''))"

definition inboxes_item :: "inbox_service \<Rightarrow> request \<Rightarrow> claims \<Rightarrow> uuid \<Rightarrow> handler" where
  "inboxes_item s event c inboxID =
     (if rq_HTTPMethod event = ''GET'' then
        require_scope c ScopeInboxRead
          (handle (InboxService_Get s c inboxID) (\<lambda>_. not_found ''inbox'') (\<lambda>inbox. respond (JSON 200 (VInbox inbox))))
      else if rq_HTTPMethod event = ''PATCH'' then
        require_scope c ScopeInboxWrite
          (with_body dec_update_inbox event \<lparr>ui_DisplayName = None, ui_Status = None, ui_Settings = None\<rparr> (\<lambda>req.
             handle (InboxService_Update s c inboxID req) (error_text 400) (\<lambda>inbox. respond (JSON 200 (VInbox inbox)))))
      else if rq_HTTPMethod event = ''DELETE'' then
        require_scope c ScopeInboxWrite
          (handle (InboxService_Delete s c inboxID) (\<lambda>_. not_found ''inbox'') (\<lambda>_. respond NoContent))
      else respond (Error 404 ''not found''))"

definition inboxes_handler :: "inbox_service \<Rightarrow> request \<Rightarrow> handler" where
  "inboxes_handler s event = with_claims event (\<lambda>c E.
     (if rq_Resource event = ''/v1/inboxes'' then inboxes_collection s event c (pod_param E event c)
      else if rq_Resource event = ''/v1/inboxes/{inboxId}'' then
        (case ParseUUID E (PathParam event ''inboxId'') of
           None \<Rightarrow> respond (Error 400 ''invalid inbox ID'')
         | Some inboxID \<Rightarrow> inboxes_item s event c inboxID)
      else respond (Error 404 ''not found'')) E)"

section \<open>Honest answers\<close>

lemma inbox_reads_service [keeps_intros]:
  "keeps_db Q (InboxService_List s c pod n cur)" "keeps_db Q (InboxService_Get s c i)"
  unfolding InboxService_List_def InboxService_Get_def by (intro keeps_intros)+

lemma nothing_inbox_create_error [nothing_intros]: "changes_nothing (inbox_create_error e)"
  unfolding inbox_create_error_def by (cases "root_cause e") (simp_all add: nothing_intros)

lemma honest_inbox_writes:
  "honest (handle (InboxService_Create s c req) inbox_create_error (\<lambda>inbox. respond (JSON 201 (VInbox inbox))))"
  "honest (handle (InboxService_Update s c i ureq) (error_text 400) (\<lambda>inbox. respond (JSON 200 (VInbox inbox))))"
  "honest (handle (InboxService_Delete s c i) (\<lambda>_. not_found what) (\<lambda>_. respond NoContent))"
  by (intro honest_write rolls_back_InboxService_Create inbox_ops_roll_back nothing_intros accepts_respond; simp)+

lemma honest_option [honest_intros]:
  "(x = None \<Longrightarrow> honest h) \<Longrightarrow> (\<And>y. x = Some y \<Longrightarrow> honest (g y)) \<Longrightarrow> honest (case x of None \<Rightarrow> h | Some y \<Rightarrow> g y)"
  by (cases x) auto

lemma honest_inboxes: "honest (inboxes_handler s event)"
proof -
  have "honest (inboxes_collection s event c pod)" for c pod
    unfolding inboxes_collection_def by (intro honest_intros honest_inbox_writes keeps_intros)
  moreover have "honest (inboxes_item s event c i)" for c i
    unfolding inboxes_item_def by (intro honest_intros honest_inbox_writes keeps_intros)
  ultimately show ?thesis
    unfolding inboxes_handler_def
    by (intro honest_claims) (simp add: honest_def respond_def split: option.splits)
qed

definition demo_inbox_post :: "string \<Rightarrow> request" where
  "demo_inbox_post seats =
     \<lparr>rq_Resource = ''/v1/inboxes'', rq_HTTPMethod = ''POST'', rq_PathParameters = [], rq_QueryStringParameters = [],
      rq_Authorizer = [(''org_id'', JStr ''1''), (''key_id'', JStr ''1111''), (''scopes'', JStr ''inbox:write''), (''seat_limit'', JStr seats)],
      rq_Body = Some (JObj [(''address'', JStr ''sales'')])\<rparr>"

section \<open>The answer at the seat limit\<close>

lemma check_seats_run_error:
  assumes "no_faults E" "cl_SeatLimit c \<noteq> - 1" "cl_SeatLimit c \<le> active_inboxes (cl_OrgID c) (w_db w)"
  shows "check_seats c E w = (Inl (SeatLimitExceededError (cl_SeatLimit c) (active_inboxes (cl_OrgID c) (w_db w))), tick_world w)"
proof -
  have "pool_exec (query (active_inboxes (cl_OrgID c))) E w = (Inr (active_inboxes (cl_OrgID c) (w_db w)), tick_world w)"
    using assms(1) by (simp add: pool_exec_eq_Inr query_def no_faults_def tick_world_def)
  with assms show ?thesis by (simp add: check_seats_def go_bind_Inr wrap_err_Inr fail_if_run)
qed

text \<open>When the organisation already has as many active inboxes as its licence allows, an otherwise valid
  creation is answered with status 403 and the limit and the number of active inboxes, and nothing is created.\<close>

lemma inboxes_seat_limit_answer:
  assumes "no_faults E" and "ExtractClaims E event = Inr c" and "HasScope c ''inbox:write''"
    and "rq_Resource event = ''/v1/inboxes''" and "rq_HTTPMethod event = ''POST''"
    and "Decode (dec_create_inbox E) event zero_create_inbox = Some req"
    and "resolveInboxAddress (ci_Address req) (is_mailDomain s) = Inr address" and "inbox_pod c req = Inr podID"
    and "cl_SeatLimit c \<noteq> - 1" and "cl_SeatLimit c \<le> active_inboxes (cl_OrgID c) (w_db w)"
  shows "fst (inboxes_handler s event E w) = JSON 403 (VSeatLimit (cl_SeatLimit c) (active_inboxes (cl_OrgID c) (w_db w))) \<and>
    w_db (snd (inboxes_handler s event E w)) = w_db w"
proof -
  have "InboxService_Create s c req E w =
      (Inl (SeatLimitExceededError (cl_SeatLimit c) (active_inboxes (cl_OrgID c) (w_db w))), tick_world w)"
    using assms(7,8) check_seats_run_error [OF assms(1,9,10)]
    by (simp add: InboxService_Create_def create_checks_def of_result_def go_bind_def ret_run)
  then show ?thesis
    using assms(2-6)
    by (simp add: inboxes_handler_def with_claims_def inboxes_collection_def require_scope_def with_body_def handle_def
        inbox_create_error_def respond_def)
qed

lemma inboxes_seat_limit_answer_at_demo:
  "fst (inboxes_handler demo_inbox_service (demo_inbox_post ''1'') demo_env demo_world) = JSON 403 (VSeatLimit 1 1)"
proof -
  let ?c = "projr (ExtractClaims demo_env (demo_inbox_post ''1''))" and ?r = "the (Decode (dec_create_inbox demo_env) (demo_inbox_post ''1'') zero_create_inbox)"
  have "\<not> isl (ExtractClaims demo_env (demo_inbox_post ''1''))" "HasScope ?c ''inbox:write''"
    "Decode (dec_create_inbox demo_env) (demo_inbox_post ''1'') zero_create_inbox \<noteq> None"
    "resolveInboxAddress (ci_Address ?r) (is_mailDomain demo_inbox_service) = Inr ''sales@x''"
    "inbox_pod ?c ?r = Inr None" "cl_SeatLimit ?c = 1" "active_inboxes (cl_OrgID ?c) demo_db = 1" by code_simp+
  then show ?thesis
    using inboxes_seat_limit_answer [of demo_env "demo_inbox_post ''1''" ?c ?r demo_inbox_service "''sales@x''" None demo_world]
    by (simp add: no_faults_def demo_inbox_post_def)
qed

end
