(* ===== verification/Webhook_Store.thy ===== *)
theory Webhook_Store
  imports Tables "HOL-Library.Word"
begin

text \<open>
  \<open>services/webhook-service/store/delivery_store.go\<close>: webhooks and the log of their deliveries
  (migrations 10 and 13).  Its statements run on pool connections, each in a transaction of its own.
  Rows of equal sort key come in the order of the environment's \<open>scan_order\<close>.
\<close>

section \<open>Webhooks: statements\<close>

definition webhook_insert :: "webhook \<Rightarrow> (time \<times> time) stmt" where
  "webhook_insert wh now d = require
     [(wh_Events wh \<noteq> None, ''23502''),
      (\<not> has_key wh_ID (wh_ID wh) (t_webhooks d), ''23505''),
      (has_key o_ID (wh_OrgID wh) (t_organizations d), ''23503''),
      (case wh_PodID wh of None \<Rightarrow> True | Some p \<Rightarrow> has_key p_ID p (t_pods d), ''23503''),
      (case wh_InboxID wh of None \<Rightarrow> True | Some i \<Rightarrow> has_key ib_ID i (t_inboxes d), ''23503'')]
     ((now, now), d\<lparr>t_webhooks := t_webhooks d @
        [wh\<lparr>wh_FailureCount := 0, wh_LastSuccessAt := None, wh_LastFailureAt := None, wh_CreatedAt := now,
            wh_UpdatedAt := now, wh_AuthHeaderValue := []\<rparr>]\<rparr>)"

definition webhook_select :: "uuid \<Rightarrow> uuid \<Rightarrow> webhook stmt" where
  "webhook_select orgID webhookID = query_row (\<lambda>d. filter (\<lambda>r. wh_OrgID r = orgID \<and> wh_ID r = webhookID) (t_webhooks d))"

text \<open>The columns that \<open>UpdateWebhook\<close> sets.\<close>

record webhook_columns =
  wc_url :: string
  wc_events :: "string list option"
  wc_is_active :: bool
  wc_auth_header_name :: "string option"
  wc_auth_header_value_enc :: string

definition webhook_set :: "webhook_columns \<Rightarrow> time \<Rightarrow> webhook \<Rightarrow> webhook" where
  "webhook_set p now r = r
     \<lparr>wh_URL := wc_url p, wh_Events := wc_events p, wh_IsActive := wc_is_active p,
      wh_AuthHeaderName := wc_auth_header_name p, wh_AuthHeaderValueEnc := wc_auth_header_value_enc p,
      wh_UpdatedAt := now\<rparr>"

definition webhook_update :: "uuid \<Rightarrow> uuid \<Rightarrow> webhook_columns \<Rightarrow> webhook stmt" where
  "webhook_update orgID webhookID p now d =
     (let hit = (\<lambda>r. wh_OrgID r = orgID \<and> wh_ID r = webhookID)
      in case filter hit (t_webhooks d) of
           [] \<Rightarrow> Inl ErrNoRows
         | r # _ \<Rightarrow> require [(wc_events p \<noteq> None, ''23502'')]
             (webhook_set p now r, d\<lparr>t_webhooks := upd_where hit (webhook_set p now) (t_webhooks d)\<rparr>))"

text \<open>The deliveries of a deleted webhook go with it (ON DELETE CASCADE).\<close>

definition webhook_delete :: "uuid \<Rightarrow> uuid \<Rightarrow> nat stmt" where
  "webhook_delete orgID webhookID now d =
     (let hit = (\<lambda>r. wh_OrgID r = orgID \<and> wh_ID r = webhookID);
          gone = filter hit (t_webhooks d)
      in Inr (length gone,
           d\<lparr>t_webhooks := del_where hit (t_webhooks d),
             t_webhook_deliveries := del_where (\<lambda>x. wd_WebhookID x \<in> set (map wh_ID gone)) (t_webhook_deliveries d)\<rparr>))"

definition webhooks_of :: "(uuid \<Rightarrow> nat) \<Rightarrow> uuid \<Rightarrow> database \<Rightarrow> webhook list" where
  "webhooks_of order orgID d =
     order_desc wh_CreatedAt (order_asc (\<lambda>h. order (wh_ID h)) (filter (\<lambda>h. wh_OrgID h = orgID) (t_webhooks d)))"

text \<open>A scanned webhook has no decrypted header value.\<close>

definition scanWebhook :: "webhook \<Rightarrow> webhook" where
  "scanWebhook h = h\<lparr>wh_AuthHeaderValue := []\<rparr>"

section \<open>Webhooks: the store's methods\<close>

definition GetWebhook :: "uuid \<Rightarrow> webhook io" where
  "GetWebhook webhookID =
     go_bind (asks fmt_uuid) (\<lambda>fmt.
     wrap_err (''get webhook '' @ fmt webhookID)
       (go_bind (pool_exec (query_row (\<lambda>d. filter (\<lambda>r. wh_ID r = webhookID) (t_webhooks d)))) (\<lambda>r. ret (scanWebhook r))))"

definition ListWebhooks :: "uuid \<Rightarrow> webhook list io" where
  "ListWebhooks orgID =
     go_bind (asks fmt_uuid) (\<lambda>fmt.
     go_bind (\<lambda>E w. wrap_err (''list webhooks for org '' @ fmt orgID)
       (pool_exec (query (webhooks_of (scan_order E (w_tick w)) orgID))) E w) (\<lambda>rows.
     ret (map scanWebhook rows)))"

definition CreateWebhook :: "webhook \<Rightarrow> webhook io" where
  "CreateWebhook wh =
     go_bind (pool_exec (webhook_insert wh)) (\<lambda>(created, updated).
     ret (wh\<lparr>wh_CreatedAt := created, wh_UpdatedAt := updated\<rparr>))"

definition GetWebhookByIDAndOrg :: "uuid \<Rightarrow> uuid \<Rightarrow> webhook io" where
  "GetWebhookByIDAndOrg i orgID =
     go_bind (asks fmt_uuid) (\<lambda>fmt.
     go_bind (attempt (pool_exec (webhook_select orgID i))) (\<lambda>r.
     case r of
       Inl e \<Rightarrow> if root_cause e = ErrNoRows then throw ErrNoRows else throw (Wrap (''get webhook '' @ fmt i) e)
     | Inr row \<Rightarrow> ret (scanWebhook row)))"

definition UpdateWebhook :: "webhook \<Rightarrow> webhook io" where
  "UpdateWebhook wh =
     go_bind (pool_exec (webhook_update (wh_OrgID wh) (wh_ID wh)
       \<lparr>wc_url = wh_URL wh, wc_events = wh_Events wh, wc_is_active = wh_IsActive wh,
        wc_auth_header_name = wh_AuthHeaderName wh, wc_auth_header_value_enc = wh_AuthHeaderValueEnc wh\<rparr>)) (\<lambda>row.
     ret (wh\<lparr>wh_UpdatedAt := wh_UpdatedAt row\<rparr>))"

definition DeleteWebhook :: "uuid \<Rightarrow> uuid \<Rightarrow> unit io" where
  "DeleteWebhook i orgID =
     go_bind (asks fmt_uuid) (\<lambda>fmt.
     go_bind (wrap_err (''delete webhook '' @ fmt i) (pool_exec (webhook_delete orgID i))) (\<lambda>n.
     fail_if (n = 0) ErrNoRows))"

section \<open>Deliveries: statements\<close>

definition delivery_statuses :: "string list" where
  "delivery_statuses = [DeliveryStatusPending, DeliveryStatusSuccess, DeliveryStatusFailed, DeliveryStatusRetrying]"

definition delivery_insert :: "webhook_delivery \<Rightarrow> unit stmt" where
  "delivery_insert x now d = require
     [(wd_Status x \<in> set delivery_statuses, ''23514''),
      (\<not> has_key wd_ID (wd_ID x) (t_webhook_deliveries d), ''23505''),
      (has_key wh_ID (wd_WebhookID x) (t_webhooks d), ''23503'')]
     ((), d\<lparr>t_webhook_deliveries := t_webhook_deliveries d @
        [x\<lparr>wd_NextAttemptAt := None, wd_LastAttemptAt := None, wd_ResponseStatus := None, wd_ResponseBody := [],
           wd_ErrorMessage := [], wd_CreatedAt := now, wd_UpdatedAt := now\<rparr>]\<rparr>)"

definition set_success :: "webhook_delivery \<Rightarrow> time \<Rightarrow> webhook_delivery \<Rightarrow> webhook_delivery" where
  "set_success x now r = r
     \<lparr>wd_Status := ''success'', wd_AttemptCount := wd_AttemptCount x, wd_LastAttemptAt := wd_LastAttemptAt x,
      wd_ResponseStatus := wd_ResponseStatus x, wd_ResponseBody := wd_ResponseBody x, wd_NextAttemptAt := None,
      wd_UpdatedAt := now\<rparr>"

definition set_failed :: "webhook_delivery \<Rightarrow> string \<Rightarrow> int \<Rightarrow> time option \<Rightarrow> time \<Rightarrow> webhook_delivery \<Rightarrow> webhook_delivery" where
  "set_failed x status count nextAttempt now r = r
     \<lparr>wd_Status := status, wd_AttemptCount := count, wd_LastAttemptAt := wd_LastAttemptAt x,
      wd_NextAttemptAt := nextAttempt, wd_ResponseStatus := wd_ResponseStatus x,
      wd_ResponseBody := wd_ResponseBody x, wd_ErrorMessage := wd_ErrorMessage x, wd_UpdatedAt := now\<rparr>"

definition delivery_update :: "uuid \<Rightarrow> (time \<Rightarrow> webhook_delivery \<Rightarrow> webhook_delivery) \<Rightarrow> unit stmt" where
  "delivery_update i f now d =
     Inr ((), d\<lparr>t_webhook_deliveries := upd_where (\<lambda>r. wd_ID r = i) (f now) (t_webhook_deliveries d)\<rparr>)"

definition webhook_touch :: "uuid \<Rightarrow> (time \<Rightarrow> webhook \<Rightarrow> webhook) \<Rightarrow> unit stmt" where
  "webhook_touch i f now d =
     Inr ((), d\<lparr>t_webhooks := upd_where (\<lambda>r. wh_ID r = i) (\<lambda>r. (f now r)\<lparr>wh_UpdatedAt := now\<rparr>) (t_webhooks d)\<rparr>)"

definition delivery_page_where :: "database \<Rightarrow> uuid \<Rightarrow> uuid \<Rightarrow> webhook_delivery \<Rightarrow> bool" where
  "delivery_page_where d webhookID orgID x =
     (wd_WebhookID x = webhookID \<and> list_ex (\<lambda>w. wh_ID w = wd_WebhookID x \<and> wh_OrgID w = orgID) (t_webhooks d))"

definition delivery_page :: "env \<Rightarrow> uuid \<Rightarrow> uuid \<Rightarrow> nat \<Rightarrow> (string \<times> string) option \<Rightarrow> webhook_delivery list stmt" where
  "delivery_page E webhookID orgID n parts now d =
     (case cursor_key E parts of
        Inl e \<Rightarrow> Inl e
      | Inr after \<Rightarrow> Inr (keyset_select_desc (\<lambda>r. (wd_CreatedAt r, wd_ID r))
          (delivery_page_where d webhookID orgID) n after (t_webhook_deliveries d), d))"

definition due_retry :: "time \<Rightarrow> webhook_delivery \<Rightarrow> bool" where
  "due_retry now x = (wd_Status x = ''retrying'' \<and> (case wd_NextAttemptAt x of None \<Rightarrow> False | Some t \<Rightarrow> t \<le> now))"

definition pending_retries :: "(uuid \<Rightarrow> nat) \<Rightarrow> webhook_delivery list stmt" where
  "pending_retries order now d = Inr (take 100 (order_asc wd_NextAttemptAt
     (order_asc (\<lambda>x. order (wd_ID x)) (filter (due_retry now) (t_webhook_deliveries d)))), d)"

section \<open>Deliveries: the store's methods\<close>

definition ListDeliveries :: "uuid \<Rightarrow> uuid \<Rightarrow> int \<Rightarrow> string \<Rightarrow> (webhook_delivery list \<times> string) io" where
  "ListDeliveries webhookID orgID limit cursor =
     (let limit = nat (ClampLimit limit)
      in case cursor_parts cursor of
           Inl e \<Rightarrow> throw e
         | Inr parts \<Rightarrow>
             go_bind (asks (\<lambda>E. E)) (\<lambda>E.
             go_bind (wrap_err (''list deliveries for webhook '' @ fmt_uuid E webhookID)
               (pool_exec (delivery_page E webhookID orgID (Suc limit) parts))) (\<lambda>rows.
             ret (cut_page limit (\<lambda>x. row_cursor E (wd_CreatedAt x) (wd_ID x)) rows))))"

definition CreateDelivery :: "webhook_delivery \<Rightarrow> unit io" where
  "CreateDelivery x = wrap_err ''create webhook delivery'' (pool_exec (delivery_insert x))"

definition MarkSuccess :: "webhook_delivery \<Rightarrow> unit io" where
  "MarkSuccess x =
     go_bind (wrap_err ''mark delivery success'' (pool_exec (delivery_update (wd_ID x) (set_success x)))) (\<lambda>_.
     ignore_err (pool_exec (webhook_touch (wd_WebhookID x) (\<lambda>now r. r\<lparr>wh_LastSuccessAt := Some now, wh_FailureCount := 0\<rparr>))))"

text \<open>\<open>time.Duration(1<<uint(attempt)) * time.Second\<close>, on 64-bit integers.\<close>

definition nextBackoff :: "64 word \<Rightarrow> 64 word" where
  "nextBackoff n =
     (let n = (if 12 <s n then 12 else n) in push_bit (unat n) 1 * 1000000000)"

definition maxRetries :: int where
  "maxRetries = 8"

definition MarkFailed :: "webhook_delivery \<Rightarrow> int \<Rightarrow> unit io" where
  "MarkFailed x count =
     go_bind time_Now (\<lambda>now.
     let nextAttempt = now + sint (nextBackoff (word_of_int count));
         status = (if count \<ge> maxRetries then DeliveryStatusFailed else DeliveryStatusRetrying);
         nextAttemptPtr = (if status = DeliveryStatusRetrying then Some nextAttempt else None) in
     go_bind (wrap_err ''mark delivery failed''
       (pool_exec (delivery_update (wd_ID x) (set_failed x status count nextAttemptPtr)))) (\<lambda>_.
     ignore_err (pool_exec (webhook_touch (wd_WebhookID x)
       (\<lambda>now r. r\<lparr>wh_LastFailureAt := Some now, wh_FailureCount := wh_FailureCount r + 1\<rparr>)))))"

definition GetPendingRetries :: "webhook_delivery list io" where
  "GetPendingRetries = (\<lambda>E w. wrap_err ''query pending retries''
     (pool_exec (pending_retries (scan_order E (w_tick w)))) E w)"

section \<open>The webhooks table as an organisation's table\<close>

lemma webhook_set_keys [simp]:
  "wh_ID (webhook_set p now r) = wh_ID r" "wh_OrgID (webhook_set p now r) = wh_OrgID r"
  by (simp_all add: webhook_set_def)

lemma webhook_update_eq_Inr:
  "webhook_update orgID i p now d = Inr (r, d') \<longleftrightarrow>
     (\<exists>r0 rest. filter (\<lambda>r. wh_OrgID r = orgID \<and> wh_ID r = i) (t_webhooks d) = r0 # rest \<and>
        r = webhook_set p now r0 \<and> wc_events p \<noteq> None \<and>
        d' = d\<lparr>t_webhooks := upd_where (\<lambda>r. wh_OrgID r = orgID \<and> wh_ID r = i) (webhook_set p now) (t_webhooks d)\<rparr>)"
  by (auto simp: webhook_update_def Let_def require_eq_Inr split: list.splits)

interpretation webhooks: org_table t_webhooks wh_OrgID wh_ID webhook_set webhook_select webhook_update webhook_delete
proof (unfold_locales, goal_cases)
  case (1 org i now d)
  then show ?case
    by (simp add: webhook_select_def query_row_def first_row_def split: list.splits)
next
  case (2 org i d p now)
  then show ?case by (simp add: webhook_update_def)
next
  case (3 org i p now d r d')
  then show ?case by (auto simp: webhook_update_eq_Inr)
next
  case (6 org i now d n d')
  then show ?case by (auto simp: webhook_delete_def Let_def del_where_def)
qed simp_all

lemma webhook_insert_eq_Inr:
  "webhook_insert wh now d = Inr (u, d') \<longleftrightarrow>
     wh_Events wh \<noteq> None \<and> \<not> has_key wh_ID (wh_ID wh) (t_webhooks d) \<and>
     has_key o_ID (wh_OrgID wh) (t_organizations d) \<and>
     (case wh_PodID wh of None \<Rightarrow> True | Some p \<Rightarrow> has_key p_ID p (t_pods d)) \<and>
     (case wh_InboxID wh of None \<Rightarrow> True | Some i \<Rightarrow> has_key ib_ID i (t_inboxes d)) \<and> u = (now, now) \<and>
     d' = d\<lparr>t_webhooks := t_webhooks d @
        [wh\<lparr>wh_FailureCount := 0, wh_LastSuccessAt := None, wh_LastFailureAt := None, wh_CreatedAt := now,
            wh_UpdatedAt := now, wh_AuthHeaderValue := []\<rparr>]\<rparr>"
  by (auto simp: webhook_insert_def require_eq_Inr)

lemma webhook_reads [keeps_intros]:
  "keeps_db Q (GetWebhook i)" "keeps_db Q (ListWebhooks orgID)" "keeps_db Q (GetWebhookByIDAndOrg i orgID)"
  "keeps_db Q (ListDeliveries i orgID n cur)" "keeps_db Q GetPendingRetries"
proof -
  show "keeps_db Q (GetWebhook i)" "keeps_db Q (GetWebhookByIDAndOrg i orgID)"
    unfolding GetWebhook_def GetWebhookByIDAndOrg_def webhook_select_def by (intro keeps_intros)+
  have "stmt_keeps Q (delivery_page E i orgID m parts)" for E m parts
    by (auto simp: stmt_keeps_def delivery_page_def split: sum.splits)
  then show "keeps_db Q (ListDeliveries i orgID n cur)"
    unfolding ListDeliveries_def Let_def by (intro keeps_intros)
  have "keeps_db Q (wrap_err t (pool_exec (query (webhooks_of order orgID))))"
    "keeps_db Q (wrap_err t (pool_exec (pending_retries order)))" for t order
    by (intro keeps_intros; simp add: stmt_keeps_def pending_retries_def)+
  then have "keeps_db Q (\<lambda>E w. wrap_err t (pool_exec (query (webhooks_of (scan_order E (w_tick w)) orgID))) E w)"
    "keeps_db Q (\<lambda>E w. wrap_err t (pool_exec (pending_retries (scan_order E (w_tick w)))) E w)" for t
    by (simp_all add: keeps_db_iff)
  then show "keeps_db Q (ListWebhooks orgID)" "keeps_db Q GetPendingRetries"
    unfolding ListWebhooks_def GetPendingRetries_def by (intro keeps_intros | simp)+
qed

end
