(* ===== verification/Crypto.thy ===== *)
theory Crypto
  imports Demo
begin

text \<open>
  \<open>pkg/crypto/aes.go\<close>: encryption of webhook header values.  AES-GCM and the random source are
  the environment's; the key checks, the layout of nonce and ciphertext and the errors are modelled.
\<close>

definition aes_key_ok :: "string \<Rightarrow> bool" where
  "aes_key_ok key = (length key \<in> {16, 24, 32})"

definition aes_key_error :: "string \<Rightarrow> go_error" where
  "aes_key_error key = Wrap ''aes cipher'' (Errorf (''crypto/aes: invalid key size '' @ itoa (int (length key))))"

definition nonce_size :: nat where
  "nonce_size = 12"

definition rand_Read :: "nat \<Rightarrow> string io" where
  "rand_Read n = external (\<lambda>E w. (Inr (rand_bytes E (w_tick w) n), w))"

definition Encrypt :: "string \<Rightarrow> string \<Rightarrow> string io" where
  "Encrypt key plaintext =
     go_bind (fail_if (\<not> aes_key_ok key) (aes_key_error key)) (\<lambda>_.
     go_bind (wrap_err ''generate nonce'' (rand_Read nonce_size)) (\<lambda>nonce.
     asks (\<lambda>E. nonce @ gcm_seal E key nonce plaintext)))"

definition Decrypt :: "env \<Rightarrow> string \<Rightarrow> string \<Rightarrow> go_error + string" where
  "Decrypt E key ciphertext =
     (if \<not> aes_key_ok key then Inl (aes_key_error key)
      else if length ciphertext < nonce_size then Inl (Errorf ''ciphertext too short'')
      else case gcm_open E key (take nonce_size ciphertext) (drop nonce_size ciphertext) of
             None \<Rightarrow> Inl (Wrap ''aes-gcm decrypt'' (Errorf ''cipher: message authentication failed''))
           | Some plain \<Rightarrow> Inr plain)"

definition KeyFromHex :: "string \<Rightarrow> go_error + string" where
  "KeyFromHex h =
     (if h = [] then Inl (Errorf ''encryption key is not set (WEBHOOK_ENCRYPTION_KEY)'')
      else case hex_decode h of
             None \<Rightarrow> Inl (Wrap ''decode hex key'' (Errorf ''invalid hex''))
           | Some key \<Rightarrow> if length key \<noteq> 32 then
               Inl (Errorf (''key must be 32 bytes (64 hex chars), got '' @ itoa (int (length key)) @ '' bytes''))
             else Inr key)"

text \<open>What AES-GCM and crypto/rand document: opening with the same key and nonce undoes sealing, and a
  read gives as many bytes as asked for.\<close>

definition gcm_law :: "env \<Rightarrow> bool" where
  "gcm_law E \<longleftrightarrow> (\<forall>key nonce t. gcm_open E key nonce (gcm_seal E key nonce t) = Some t) \<and>
     (\<forall>n k. length (rand_bytes E n k) = k)"

lemma Encrypt_success:
  assumes "Encrypt key plaintext E w = (Inr c, w')"
  shows "\<exists>n. aes_key_ok key \<and> c = rand_bytes E n nonce_size @ gcm_seal E key (rand_bytes E n nonce_size) plaintext \<and> w_db w' = w_db w"
  using assms
  by (auto simp: Encrypt_def go_success rand_Read_def external_def split: option.splits)

lemma KeyFromHex_aes: "KeyFromHex h = Inr key \<Longrightarrow> length key = 32 \<and> aes_key_ok key"
  by (auto simp: KeyFromHex_def aes_key_ok_def split: if_splits option.splits)

text \<open>What was encrypted with a key read from the configuration decrypts to the same text.\<close>

lemma Encrypt_roundtrip:
  assumes "KeyFromHex h = Inr key" and "Encrypt key plaintext E w = (Inr c, w')" and "gcm_law E"
  shows "Decrypt E key c = Inr plaintext"
  using Encrypt_success [OF assms(2)] KeyFromHex_aes [OF assms(1)] assms(3)
  by (auto simp: Decrypt_def gcm_law_def)

definition demo_key :: string where
  "demo_key = concat (replicate 32 ''6b'')"

lemma Encrypt_roundtrip_at_demo:
  "Decrypt demo_env (replicate 32 (CHR ''k'')) (replicate 12 (CHR ''r'') @ ''terces'') = Inr ''secret''"
proof -
  have k: "KeyFromHex demo_key = Inr (replicate 32 (CHR ''k''))" by code_simp
  have "fst (Encrypt (replicate 32 (CHR ''k'')) ''secret'' demo_env demo_world) = Inr (replicate 12 (CHR ''r'') @ ''terces'')"
    by code_simp
  then obtain w' where "Encrypt (replicate 32 (CHR ''k'')) ''secret'' demo_env demo_world = (Inr (replicate 12 (CHR ''r'') @ ''terces''), w')"
    by (metis prod.collapse)
  from Encrypt_roundtrip [OF k this] show ?thesis by (simp add: gcm_law_def demo_env_def)
qed

end
