(* ===== verification/Footprints.thy ===== *)
theory Footprints
  imports Database
begin

text \<open>
  Which parts of the world a computation cannot touch: requests made, mails sent, queue messages and
  stored objects.  A transaction acts on the tables and the session settings only, also when it is rolled
  back, so what was sent inside it stays sent.
\<close>

definition untouched :: "(world \<Rightarrow> 'x) \<Rightarrow> 'a io \<Rightarrow> bool" where
  "untouched f m \<longleftrightarrow> (\<forall>E w. f (snd (m E w)) = f w)"

named_theorems untouched_intros

lemma untouchedD: "untouched f m \<Longrightarrow> m E w = (r, w') \<Longrightarrow> f w' = f w"
  unfolding untouched_def by (metis snd_conv)

lemma untouched_snd: "untouched f m \<Longrightarrow> f (snd (m E w)) = f w"
  by (simp add: untouched_def)

lemma untouched_ctl [untouched_intros]:
  "untouched f (ret x)" "untouched f (throw e)" "untouched f (asks g)" "untouched f (fail_if b e)"
  by (simp_all add: untouched_def go_run)

lemma untouched_bind [untouched_intros]:
  "untouched f m \<Longrightarrow> (\<And>x. untouched f (k x)) \<Longrightarrow> untouched f (go_bind m k)"
  unfolding untouched_def by (auto simp: go_bind_def split: prod.splits sum.splits) (metis snd_conv)+

lemma untouched_wrappers [untouched_intros]:
  "untouched f m \<Longrightarrow> untouched f (ignore_err m)" "untouched f m \<Longrightarrow> untouched f (wrap_err p m)"
  "untouched f m \<Longrightarrow> untouched f (attempt m)"
  by (simp_all add: untouched_def go_run)

lemma untouched_cases [untouched_intros]:
  "(b \<Longrightarrow> untouched f m) \<Longrightarrow> (\<not> b \<Longrightarrow> untouched f m') \<Longrightarrow> untouched f (if b then m else m')"
  "(x = None \<Longrightarrow> untouched f m) \<Longrightarrow> (\<And>y. x = Some y \<Longrightarrow> untouched f (k y)) \<Longrightarrow>
     untouched f (case x of None \<Rightarrow> m | Some y \<Rightarrow> k y)"
  "(\<And>e. s = Inl e \<Longrightarrow> untouched f (g e)) \<Longrightarrow> (\<And>z. s = Inr z \<Longrightarrow> untouched f (h z)) \<Longrightarrow>
     untouched f (case s of Inl e \<Rightarrow> g e | Inr z \<Rightarrow> h z)"
  "(\<And>a c. p = (a, c) \<Longrightarrow> untouched f (l a c)) \<Longrightarrow> untouched f (case p of (a, c) \<Rightarrow> l a c)"
  by (cases b; cases x; cases s; cases p; auto)+

lemma untouched_for_each [untouched_intros]: "(\<And>x. untouched f (k x)) \<Longrightarrow> untouched f (for_each k xs)"
proof (induction xs)
  case Nil
  show ?case unfolding for_each.simps by (intro untouched_intros)
next
  case (Cons x xs)
  show ?case unfolding for_each.simps by (intro untouched_intros Cons)
qed

section \<open>What no external call touches\<close>

locale clock_free =
  fixes f :: "world \<Rightarrow> 'x"
  assumes indep_tick: "f (w\<lparr>w_tick := n\<rparr>) = f w"
begin

lemma tick: "f (tick_world w) = f w"
  by (simp add: tick_world_def indep_tick)

lemma source: "untouched f uuid_New" "untouched f time_Now"
  by (simp_all add: untouched_def uuid_New_def time_Now_def tick)

lemma external: "untouched f m \<Longrightarrow> untouched f (external m)"
  by (auto simp: untouched_def external_def tick split: option.splits)

lemma download: "untouched f (S3_Download b k)"
  unfolding S3_Download_def by (rule external) (simp add: untouched_def split: option.splits)

lemma base: "untouched f (NewBase t orgID)"
  unfolding NewBase_def by (intro untouched_intros source)

lemma publish:
  assumes "\<And>w x. f (w\<lparr>w_sent := x\<rparr>) = f w"
  shows "untouched f (PublishEvent p e)"
proof -
  have "untouched f (send_all e qs)" for qs
  proof (induction qs)
    case (Cons q qs)
    have "untouched f (SendMessage q (EventBody e))"
      unfolding SendMessage_def by (rule external) (simp add: untouched_def assms)
    then show ?case unfolding send_all.simps by (intro untouched_intros Cons.IH)
  qed (simp only: send_all.simps untouched_ctl)
  moreover have "untouched f (case errs of [] \<Rightarrow> ret () | err # _ \<Rightarrow> throw err)" for errs
    by (cases errs) (auto intro: untouched_intros)
  ultimately show ?thesis unfolding PublishEvent_def by (intro untouched_intros)
qed

end

section \<open>What lies outside transactions\<close>

locale outside_tx = clock_free f for f :: "world \<Rightarrow> 'x" +
  assumes indep: "f (w\<lparr>w_db := d\<rparr>) = f w" "f (w\<lparr>w_failed := b\<rparr>) = f w"
    "f (w\<lparr>w_now := t\<rparr>) = f w" "f (w\<lparr>w_org := s\<rparr>) = f w" "f (w\<lparr>w_pod := s\<rparr>) = f w"
begin

lemma run_stmt: "untouched f (run_stmt now st)"
  by (auto simp: untouched_def run_stmt_def indep split: sum.splits)

lemma pool: "untouched f (pool_exec st)"
proof -
  have "untouched f (\<lambda>E w. run_stmt (clock E (w_tick w)) st E w)"
    unfolding untouched_def by (intro allI untouched_snd [OF run_stmt])
  then show ?thesis unfolding pool_exec_def by (rule external)
qed

lemma tx: "untouched f (tx_exec st)"
  unfolding untouched_def
proof (intro allI)
  fix E and w :: world
  have "f (snd (Database.external (run_stmt (w_now w) st) E w)) = f w"
    by (rule untouched_snd [OF external [OF run_stmt]])
  then show "f (snd (tx_exec st E w)) = f w"
    by (auto simp: tx_exec_def tick indep split: prod.splits sum.splits)
qed

lemma with_tx: "untouched f fn \<Longrightarrow> untouched f (WithTx fn)"
  by (auto simp: untouched_def WithTx_def external_ret end_tx_def tick indep split: option.splits prod.splits sum.splits)
    (metis indep(2,3) snd_conv tick)+

lemma settings: "untouched f (SetOrgContext orgID)"
  unfolding SetOrgContext_def
proof -
  have "untouched f (go_bind (tx_exec (query (\<lambda>_. ()))) (\<lambda>_ E w. (Inr (), w\<lparr>w_org := val E\<rparr>)))" for val :: "env \<Rightarrow> string"
    by (intro untouched_intros tx) (simp add: untouched_def indep)
  then show "untouched f (\<lambda>E w. go_bind (tx_exec (query (\<lambda>_. ()))) (\<lambda>_ E w. (Inr (), w\<lparr>w_org := fmt_uuid E orgID\<rparr>)) E w)"
    by simp
qed

lemma org_tx: "untouched f fn \<Longrightarrow> untouched f (WithOrgTx orgID fn)"
  unfolding WithOrgTx_def by (intro with_tx untouched_intros settings)

lemmas intros = source pool tx org_tx download base

end

interpretation http_requests: outside_tx w_http by unfold_locales simp_all

interpretation mails: outside_tx w_ses by unfold_locales simp_all

interpretation queue_messages: outside_tx w_sent by unfold_locales simp_all

interpretation objects: outside_tx w_s3 by unfold_locales simp_all

interpretation tx_state: clock_free w_failed by unfold_locales simp

lemma publishing_touches_queues_only [untouched_intros]:
  "untouched w_ses (PublishEvent p e)" "untouched w_failed (PublishEvent p e)" "untouched w_s3 (PublishEvent p e)"
  by (simp_all add: mails.publish tx_state.publish objects.publish)

end
