(* ===== verification/Webhook_Deliveries.thy ===== *)
theory Webhook_Deliveries
  imports Webhook_Store Crypto Footprints
begin

text \<open>
  The life of a webhook delivery in \<open>services/webhook-service/store\<close>: back-off times, the states a
  delivery can be in, and the end of its retries.
\<close>

section \<open>Back-off\<close>

lemma seconds_small:
  assumes "k \<le> 12"
  shows "sint ((2 :: 64 word) ^ k * 1000000000) = 2 ^ k * 1000000000"
proof -
  have "k \<in> set [0..<13]" using assms by simp
  moreover have "list_all (\<lambda>k. sint ((2 :: 64 word) ^ k * 1000000000) = 2 ^ k * 1000000000) [0..<13]"
    by (simp add: upt_rec)
  ultimately show ?thesis by (simp only: list_all_iff)
qed

lemma sint_uint_64: "sint (n :: 64 word) = uint n \<or> sint n = uint n - 2 ^ 64"
proof -
  have "sint n = take_bit 64 (uint n) - 2 ^ 64 * of_bool (bit (uint n) 63)"
    using signed_take_bit_eq_take_bit_minus [of 63 "uint n"] by (simp add: sint_uint)
  moreover have "take_bit 64 (uint n) = uint n" by (rule bintr_uint) simp
  ultimately show ?thesis by (cases "bit (uint n) 63") simp_all
qed

lemma unat_nonneg: "0 \<le> sint (n :: 64 word) \<Longrightarrow> unat n = nat (sint n)"
proof -
  assume a: "0 \<le> sint n"
  have "uint n < 2 ^ 64" using uint_lt2p [of n] by simp
  with a sint_uint_64 [of n] have "sint n = uint n" by linarith
  then show ?thesis by simp
qed

lemma power_negative:
  assumes "sint (n :: 64 word) < 0" shows "(2 :: 64 word) ^ unat n = 0"
proof -
  have "sint n = uint n - 2 ^ 64"
    using sint_uint_64 [of n] assms uint_ge_0 [of n] by linarith
  moreover have "- (2 ^ 63) \<le> sint n" using sint_ge [of n] by simp
  ultimately have "64 \<le> uint n" by simp
  then have "nat 64 \<le> nat (uint n)" by (rule nat_mono)
  then have "64 \<le> unat n" by simp
  then have "push_bit (unat n) (1 :: 64 word) = 0" by simp
  then show ?thesis by (simp only: push_bit_of_1)
qed

text \<open>C27. The back-off of attempt n is 2 to the n seconds, one second for attempt 0, and from attempt 12 on it stays at 4096
  seconds, which is more than the hour at which its comment says that it is capped; for a negative number it is zero, and it
  never overflows the 64-bit duration.\<close>

theorem nextBackoff_bounds:
  "sint (nextBackoff n) = (if sint n < 0 then 0 else 2 ^ nat (min (sint n) 12) * 1000000000)"
proof -
  consider "sint n < 0" | "0 \<le> sint n" "sint n \<le> 12" | "12 < sint n" by linarith
  then show ?thesis
  proof cases
    case 1
    moreover from this have "\<not> 12 <s n" by (simp add: word_sless_alt)
    ultimately show ?thesis by (simp add: nextBackoff_def power_negative)
  next
    case 2
    then have "\<not> 12 <s n" by (simp add: word_sless_alt)
    moreover have "sint ((2 :: 64 word) ^ unat n * 1000000000) = 2 ^ nat (sint n) * 1000000000"
      using seconds_small [of "unat n"] unat_nonneg [OF 2(1)] 2(2) by simp
    ultimately show ?thesis using 2 by (simp add: nextBackoff_def min_def)
  next
    case 3
    then have "12 <s n" by (simp add: word_sless_alt)
    with 3 show ?thesis by (simp add: nextBackoff_def min_def)
  qed
qed

section \<open>Runs of the store's methods\<close>

lemma delivery_update_eq_Inr:
  "delivery_update i f now d = Inr (u, d') \<longleftrightarrow>
     d' = d\<lparr>t_webhook_deliveries := upd_where (\<lambda>r. wd_ID r = i) (f now) (t_webhook_deliveries d)\<rparr>"
  by (auto simp: delivery_update_def)

lemma webhook_touch_keeps: "stmt_keeps (\<lambda>d. P (t_webhook_deliveries d)) (webhook_touch i f)"
  by (auto simp: stmt_keeps_def webhook_touch_def)

definition failed_status :: "int \<Rightarrow> string" where
  "failed_status n = (if n \<ge> maxRetries then ''failed'' else ''retrying'')"

definition failed_next :: "int \<Rightarrow> time \<Rightarrow> time option" where
  "failed_next n now = (if n \<ge> maxRetries then None else Some (now + sint (nextBackoff (word_of_int n))))"

lemma MarkFailed_run:
  assumes "no_faults E"
  shows "\<exists>now w'. MarkFailed x n E w = (Inr (), w') \<and> t_webhook_deliveries (w_db w') =
    upd_where (\<lambda>r. wd_ID r = wd_ID x) (set_failed x (failed_status n) n (failed_next n (clock E (w_tick w))) now)
      (t_webhook_deliveries (w_db w))"
proof -
  have f: "fault E k = None" for k using assms by (simp add: no_faults_def)
  let ?g = "set_failed x (failed_status n) n (failed_next n (clock E (w_tick w)))"
  let ?w1 = "tick_world w"
  let ?now = "clock E (Suc (w_tick ?w1))"
  let ?w2 = "(tick_world ?w1)\<lparr>w_db := (w_db w)\<lparr>t_webhook_deliveries := upd_where (\<lambda>r. wd_ID r = wd_ID x) (?g ?now) (t_webhook_deliveries (w_db w))\<rparr>\<rparr>"
  have u: "pool_exec (delivery_update (wd_ID x) ?g) E ?w1 = (Inr (), ?w2)"
    by (simp add: pool_exec_eq_Inr f delivery_update_def)
  let ?touch = "pool_exec (webhook_touch (wd_WebhookID x) (\<lambda>now r. r\<lparr>wh_LastFailureAt := Some now, wh_FailureCount := wh_FailureCount r + 1\<rparr>))"
  have "MarkFailed x n E w = (Inr (), snd (?touch E ?w2))"
    using u by (cases "maxRetries \<le> n")
      (simp_all add: MarkFailed_def go_bind_def time_Now_def Let_def failed_status_def failed_next_def wrap_err_def ignore_err_run)
  moreover have "t_webhook_deliveries (w_db (snd (?touch E ?w2))) = t_webhook_deliveries (w_db ?w2)"
    by (rule keeps_dbD [where Q = "\<lambda>d. t_webhook_deliveries d = t_webhook_deliveries (w_db ?w2)"])
      (intro keeps_intros webhook_touch_keeps [where P = "\<lambda>ds. ds = t_webhook_deliveries (w_db ?w2)"], simp)
  ultimately show ?thesis by auto
qed

section \<open>The states of a delivery\<close>

text \<open>A delivery has one of the four states; only one waiting for a retry has a next attempt, and it has
  been tried less than eight times.\<close>

definition delivery_ok :: "webhook_delivery \<Rightarrow> bool" where
  "delivery_ok r \<longleftrightarrow>
     wd_Status r \<in> {''pending'', ''success'', ''failed'', ''retrying''} \<and>
     (wd_NextAttemptAt r \<noteq> None \<longleftrightarrow> wd_Status r = ''retrying'') \<and>
     (wd_Status r = ''retrying'' \<longrightarrow> wd_AttemptCount r < 8) \<and> (wd_Status r = ''failed'' \<longrightarrow> 8 \<le> wd_AttemptCount r)"

definition deliveries_ok :: "database \<Rightarrow> bool" where
  "deliveries_ok d \<longleftrightarrow> (\<forall>r \<in> set (t_webhook_deliveries d). delivery_ok r)"

lemma delivery_update_ok:
  assumes "\<And>now r. delivery_ok r \<Longrightarrow> delivery_ok (f now r)"
  shows "stmt_keeps deliveries_ok (delivery_update i f)"
  using assms by (auto simp: stmt_keeps_def delivery_update_eq_Inr deliveries_ok_def in_upd_where)

lemma set_success_ok: "delivery_ok (set_success x now r)"
  by (simp add: delivery_ok_def set_success_def)

lemma set_failed_ok: "delivery_ok (set_failed x (failed_status n) n (failed_next n t) now r)"
  by (simp add: delivery_ok_def set_failed_def failed_status_def failed_next_def maxRetries_def)

lemma webhook_touch_ok: "stmt_keeps deliveries_ok (webhook_touch i f)"
  unfolding deliveries_ok_def by (rule webhook_touch_keeps)

lemma Mark_ok [keeps_intros]:
  "keeps_db deliveries_ok (MarkSuccess x)" "keeps_db deliveries_ok (MarkFailed x n)"
proof -
  show "keeps_db deliveries_ok (MarkSuccess x)"
    unfolding MarkSuccess_def
    by (intro keeps_intros delivery_update_ok set_success_ok webhook_touch_ok)
  have "stmt_keeps deliveries_ok (delivery_update (wd_ID x) (set_failed x
      (if n \<ge> maxRetries then ''failed'' else ''retrying'') n
      (if (if n \<ge> maxRetries then ''failed'' else ''retrying'') = ''retrying''
       then Some (t + sint (nextBackoff (word_of_int n))) else None)))" for t
    by (rule delivery_update_ok)
      (simp add: delivery_ok_def set_failed_def maxRetries_def)
  then show "keeps_db deliveries_ok (MarkFailed x n)"
    unfolding MarkFailed_def Let_def by (intro keeps_intros webhook_touch_ok)
qed

lemma CreateDelivery_ok [keeps_intros]:
  assumes "wd_Status x = ''pending''" shows "keeps_db deliveries_ok (CreateDelivery x)"
proof -
  have "stmt_keeps deliveries_ok (delivery_insert x)"
    using assms by (auto simp: stmt_keeps_def delivery_insert_def require_eq_Inr deliveries_ok_def delivery_ok_def)
  then show ?thesis unfolding CreateDelivery_def by (intro keeps_intros)
qed

section \<open>Retries end\<close>

text \<open>\<open>fail_attempts x n\<close>: the delivery fails n times in a row, the attempts counted from one.\<close>

definition fail_attempts :: "webhook_delivery \<Rightarrow> nat \<Rightarrow> unit io" where
  "fail_attempts x n = for_each (\<lambda>k. MarkFailed x (int k)) [1..<Suc n]"

lemma for_each_append:
  "for_each f (xs @ ys) E w = go_bind (for_each f xs) (\<lambda>_. for_each f ys) E w"
  by (induction xs arbitrary: w) (auto simp: go_bind_def ret_run split: prod.splits sum.splits)

lemma fail_attempts_run:
  assumes "no_faults E"
  shows "\<exists>w'. fail_attempts x n E w = (Inr (), w') \<and> length (t_webhook_deliveries (w_db w')) = length (t_webhook_deliveries (w_db w)) \<and>
    (0 < n \<longrightarrow> (\<forall>r \<in> set (t_webhook_deliveries (w_db w')). wd_ID r = wd_ID x \<longrightarrow>
       wd_AttemptCount r = int n \<and> wd_Status r = failed_status (int n) \<and>
       (\<exists>t. wd_NextAttemptAt r = failed_next (int n) (clock E t))))"
proof (induction n)
  case (Suc n)
  then obtain w1 where w1: "fail_attempts x n E w = (Inr (), w1)"
    "length (t_webhook_deliveries (w_db w1)) = length (t_webhook_deliveries (w_db w))" by blast
  obtain now w' where m: "MarkFailed x (int (Suc n)) E w1 = (Inr (), w')"
    "t_webhook_deliveries (w_db w') = upd_where (\<lambda>r. wd_ID r = wd_ID x)
       (set_failed x (failed_status (int (Suc n))) (int (Suc n)) (failed_next (int (Suc n)) (clock E (w_tick w1))) now)
       (t_webhook_deliveries (w_db w1))"
    using MarkFailed_run [OF assms] by blast
  have "fail_attempts x (Suc n) E w = (Inr (), w')"
    using w1(1) m(1) unfolding fail_attempts_def
    by (subst upt_Suc_append) (simp_all add: for_each_append go_bind_def ret_run)
  then show ?case
    by (intro exI [of _ w'], auto simp: m(2) w1(2) in_upd_where set_failed_def, blast)
qed (simp add: fail_attempts_def ret_run)

lemma GetPendingRetries_due:
  assumes "fst (GetPendingRetries E w) = Inr rs" and "r \<in> set rs"
  shows "r \<in> set (t_webhook_deliveries (w_db w)) \<and> wd_Status r = ''retrying''"
proof -
  from assms(1) have "rs = take 100 (order_asc wd_NextAttemptAt (order_asc (\<lambda>x. scan_order E (w_tick w) (wd_ID x))
      (filter (due_retry (clock E (Suc (w_tick w)))) (t_webhook_deliveries (w_db w)))))"
    by (simp add: GetPendingRetries_def wrap_err_def pool_exec_def external_def run_stmt_def pending_retries_def
        split: option.splits)
  with assms(2) show ?thesis by (auto simp: due_retry_def dest!: in_set_takeD)
qed

text \<open>A delivery that keeps failing is retried a bounded number of times: after n failed attempts it
  waits for a retry 2 to the n seconds later while n is less than eight, and from the eighth on it is failed
  and no later query for due retries returns it.\<close>

lemma retries_end:
  assumes "no_faults E" and "0 < n"
  shows "\<exists>w'. fail_attempts x n E w = (Inr (), w') \<and>
    (\<forall>r \<in> set (t_webhook_deliveries (w_db w')). wd_ID r = wd_ID x \<longrightarrow>
       wd_AttemptCount r = int n \<and>
       (if n < 8 then wd_Status r = ''retrying'' \<and> (\<exists>t. wd_NextAttemptAt r = Some (clock E t + 2 ^ n * 1000000000))
        else wd_Status r = ''failed'')) \<and>
    (8 \<le> n \<longrightarrow> (\<forall>w'' rs. w_db w'' = w_db w' \<longrightarrow> fst (GetPendingRetries E w'') = Inr rs \<longrightarrow> wd_ID x \<notin> set (map wd_ID rs)))"
proof -
  obtain w' where w': "fail_attempts x n E w = (Inr (), w')"
    "\<forall>r \<in> set (t_webhook_deliveries (w_db w')). wd_ID r = wd_ID x \<longrightarrow>
       wd_AttemptCount r = int n \<and> wd_Status r = failed_status (int n) \<and>
       (\<exists>t. wd_NextAttemptAt r = failed_next (int n) (clock E t))"
    using fail_attempts_run [OF assms(1)] assms(2) by blast
  have secs: "sint (nextBackoff (word_of_int (int n))) = 2 ^ n * 1000000000" if "n < 8"
  proof -
    have "list_all (\<lambda>n. sint (nextBackoff (word_of_int (int n))) = 2 ^ n * 1000000000) [0..<8]"
      by (simp add: upt_rec nextBackoff_bounds)
    then show ?thesis using that by (simp add: list_all_iff)
  qed
  have late: "wd_ID x \<notin> set (map wd_ID rs)"
    if "8 \<le> n" "w_db w'' = w_db w'" "fst (GetPendingRetries E w'') = Inr rs" for w'' rs
    using GetPendingRetries_due [OF that(3)] w'(2) that(1,2) by (auto simp: failed_status_def maxRetries_def)
  have "wd_AttemptCount r = int n \<and> (if n < 8 then wd_Status r = ''retrying'' \<and>
      (\<exists>t. wd_NextAttemptAt r = Some (clock E t + 2 ^ n * 1000000000)) else wd_Status r = ''failed'')"
    if "r \<in> set (t_webhook_deliveries (w_db w'))" "wd_ID r = wd_ID x" for r
    using w'(2) that secs by (auto simp: failed_status_def failed_next_def maxRetries_def)
  with w'(1) late show ?thesis by blast
qed

definition demo_delivery :: webhook_delivery where
  "demo_delivery = \<lparr>wd_ID = 40, wd_WebhookID = 12, wd_EventID = ''e'', wd_EventType = ''message.sent'', wd_Payload = [],
     wd_Status = ''pending'', wd_AttemptCount = 0, wd_NextAttemptAt = None, wd_LastAttemptAt = None,
     wd_ResponseStatus = None, wd_ResponseBody = [], wd_ErrorMessage = [], wd_CreatedAt = 0, wd_UpdatedAt = 0\<rparr>"

definition demo_delivery_world :: world where
  "demo_delivery_world = demo_world\<lparr>w_db := demo_db\<lparr>t_webhook_deliveries := [demo_delivery]\<rparr>\<rparr>"

lemma retries_end_at_demo:
  "\<exists>w'. fail_attempts demo_delivery 9 demo_env demo_delivery_world = (Inr (), w') \<and>
    (\<forall>r \<in> set (t_webhook_deliveries (w_db w')). wd_ID r = 40 \<longrightarrow> wd_Status r = ''failed'')"
  using retries_end [of demo_env 9 demo_delivery demo_delivery_world]
  by (fastforce simp: no_faults_def demo_delivery_def)

end
