(* ===== verification/Webhook_Handler.thy ===== *)
theory Webhook_Handler
  imports Requests Webhook_Deliveries
begin

text \<open>\<open>lambdas/webhooks/main.go\<close>: the HTTP interface of webhooks and their deliveries.\<close>

section \<open>Requests and responses\<close>

record create_webhook_request =
  cw_URL :: string
  cw_Events :: "string list option"
  cw_Secret :: string
  cw_AuthHeader :: "(string \<times> string) list option"

record patch_webhook_request =
  pw_URL :: "string option"
  pw_Events :: "string list option"
  pw_Active :: "bool option"

text \<open>A \<open>map[string]string\<close>: null values are empty strings, later members win.\<close>

fun dec_string_members :: "(string \<times> json) list \<Rightarrow> (string \<times> string) list \<Rightarrow> (string \<times> string) list option" where
  "dec_string_members [] m = Some m"
| "dec_string_members ((k, v) # ms) m =
     (case dec_string v [] of None \<Rightarrow> None | Some s \<Rightarrow> dec_string_members ms ((k, s) # m))"

definition dec_string_map :: "json \<Rightarrow> (string \<times> string) list option \<Rightarrow> (string \<times> string) list option option" where
  "dec_string_map v cur =
     (case v of JNull \<Rightarrow> Some None | JObj ms \<Rightarrow> map_option Some (dec_string_members ms (or_empty cur)) | _ \<Rightarrow> None)"

definition dec_create_webhook :: "env \<Rightarrow> json \<Rightarrow> create_webhook_request \<Rightarrow> create_webhook_request option" where
  "dec_create_webhook E = dec_struct (\<lambda>name v r.
     if name = ''url'' then map_option (\<lambda>x. r\<lparr>cw_URL := x\<rparr>) (dec_string v (cw_URL r))
     else if name = ''events'' then map_option (\<lambda>x. r\<lparr>cw_Events := x\<rparr>) (dec_slice dec_string [] v)
     else if name = ''secret'' then map_option (\<lambda>x. r\<lparr>cw_Secret := x\<rparr>) (dec_string v (cw_Secret r))
     else if name = ''auth_header'' then map_option (\<lambda>x. r\<lparr>cw_AuthHeader := x\<rparr>) (dec_string_map v (cw_AuthHeader r))
     else Some r)"

definition zero_create_webhook :: create_webhook_request where
  "zero_create_webhook = \<lparr>cw_URL = [], cw_Events = None, cw_Secret = [], cw_AuthHeader = None\<rparr>"

definition dec_patch_webhook :: "env \<Rightarrow> json \<Rightarrow> patch_webhook_request \<Rightarrow> patch_webhook_request option" where
  "dec_patch_webhook E = dec_struct (\<lambda>name v r.
     if name = ''url'' then map_option (\<lambda>x. r\<lparr>pw_URL := x\<rparr>) (dec_ptr dec_string [] v (pw_URL r))
     else if name = ''events'' then map_option (\<lambda>x. r\<lparr>pw_Events := x\<rparr>) (dec_slice dec_string [] v)
     else if name = ''active'' then map_option (\<lambda>x. r\<lparr>pw_Active := x\<rparr>) (dec_ptr dec_bool False v (pw_Active r))
     else Some r)"

definition zero_patch_webhook :: patch_webhook_request where
  "zero_patch_webhook = \<lparr>pw_URL = None, pw_Events = None, pw_Active = None\<rparr>"

definition webhookResponse :: "webhook \<Rightarrow> webhook_view" where
  "webhookResponse wh =
     \<lparr>wv_id = wh_ID wh, wv_org_id = wh_OrgID wh, wv_url = wh_URL wh, wv_events = wh_Events wh,
      wv_pod_id = wh_PodID wh, wv_inbox_id = wh_InboxID wh, wv_is_active = wh_IsActive wh,
      wv_failure_count = wh_FailureCount wh, wv_last_success_at = wh_LastSuccessAt wh,
      wv_last_failure_at = wh_LastFailureAt wh, wv_created_at = wh_CreatedAt wh, wv_updated_at = wh_UpdatedAt wh,
      wv_auth_header_name = wh_AuthHeaderName wh\<rparr>"

section \<open>The handler\<close>

text \<open>The webhook of a creation; the secret of the request is not copied.\<close>

definition new_webhook :: "claims \<Rightarrow> create_webhook_request \<Rightarrow> webhook io" where
  "new_webhook c req =
     go_bind uuid_New (\<lambda>i. go_bind time_Now (\<lambda>created. go_bind time_Now (\<lambda>updated.
     ret \<lparr>wh_ID = i, wh_OrgID = cl_OrgID c, wh_URL = cw_URL req, wh_Secret = [], wh_Events = cw_Events req,
          wh_PodID = None, wh_InboxID = None, wh_IsActive = True, wh_FailureCount = 0, wh_LastSuccessAt = None,
          wh_LastFailureAt = None, wh_CreatedAt = created, wh_UpdatedAt = updated, wh_AuthHeaderName = None,
          wh_AuthHeaderValueEnc = [], wh_AuthHeaderValue = []\<rparr>)))"

text \<open>The name and value of the requested header, when both are given.\<close>

definition auth_header_of :: "create_webhook_request \<Rightarrow> (string \<times> string) option" where
  "auth_header_of req =
     (case cw_AuthHeader req of
        None \<Rightarrow> None
      | Some m \<Rightarrow> (case (map_of m ''name'', map_of m ''value'') of
            (Some name, Some val) \<Rightarrow> if name \<noteq> [] \<and> val \<noteq> [] then Some (name, val) else None
          | _ \<Rightarrow> None))"

definition store_webhook :: "webhook \<Rightarrow> handler" where
  "store_webhook hook = handle (CreateWebhook hook) (error_text 400) (\<lambda>hook. respond (JSON 201 (VWebhook (webhookResponse hook))))"

definition create_webhook :: "string option \<Rightarrow> claims \<Rightarrow> create_webhook_request \<Rightarrow> handler" where
  "create_webhook encKey c req =
     handle (new_webhook c req) (error_text 500) (\<lambda>hook.
     case auth_header_of req of
       None \<Rightarrow> store_webhook hook
     | Some (name, val) \<Rightarrow>
         (case encKey of
            None \<Rightarrow> respond (Error 500 ''webhook encryption not configured'')
          | Some key \<Rightarrow>
              handle (Encrypt key val) (\<lambda>_. respond (Error 500 ''failed to encrypt auth header''))
                (\<lambda>enc. store_webhook (hook\<lparr>wh_AuthHeaderName := Some name, wh_AuthHeaderValueEnc := enc\<rparr>))))"

definition webhooks_collection :: "string option \<Rightarrow> request \<Rightarrow> claims \<Rightarrow> handler" where
  "webhooks_collection encKey event c =
     (if rq_HTTPMethod event = ''GET'' then
        require_scope c ScopeWebhookRead
          (handle (ListWebhooks (cl_OrgID c)) (error_text 500) (\<lambda>hooks. respond (JSON 200 (VWebhooks (map webhookResponse hooks)))))
      else if rq_HTTPMethod event = ''POST'' then
        require_scope c ScopeWebhookWrite (with_body dec_create_webhook event zero_create_webhook (create_webhook encKey c))
      else respond (Error 404 ''not found''))"

definition patched_webhook :: "patch_webhook_request \<Rightarrow> webhook \<Rightarrow> webhook io" where
  "patched_webhook req hook =
     go_bind time_Now (\<lambda>now.
     UpdateWebhook (hook\<lparr>wh_URL := supplied (pw_URL req) (wh_URL hook),
       wh_Events := (if pw_Events req \<noteq> None then pw_Events req else wh_Events hook),
       wh_IsActive := supplied (pw_Active req) (wh_IsActive hook), wh_UpdatedAt := now\<rparr>))"

definition webhooks_item :: "request \<Rightarrow> claims \<Rightarrow> uuid \<Rightarrow> handler" where
  "webhooks_item event c webhookID =
     (if rq_HTTPMethod event = ''GET'' then
        require_scope c ScopeWebhookRead
          (handle (GetWebhookByIDAndOrg webhookID (cl_OrgID c)) (\<lambda>_. not_found ''webhook'')
             (\<lambda>hook. respond (JSON 200 (VWebhook (webhookResponse hook)))))
      else if rq_HTTPMethod event = ''PATCH'' then
        require_scope c ScopeWebhookWrite
          (handle (GetWebhookByIDAndOrg webhookID (cl_OrgID c)) (\<lambda>_. not_found ''webhook'') (\<lambda>hook.
             with_body dec_patch_webhook event zero_patch_webhook (\<lambda>req.
               handle (patched_webhook req hook) (error_text 400) (\<lambda>hook. respond (JSON 200 (VWebhook (webhookResponse hook)))))))
      else if rq_HTTPMethod event = ''DELETE'' then
        require_scope c ScopeWebhookWrite
          (handle (DeleteWebhook webhookID (cl_OrgID c)) (\<lambda>_. not_found ''webhook'') (\<lambda>_. respond NoContent))
      else respond (Error 404 ''not found''))"

definition webhook_deliveries :: "request \<Rightarrow> claims \<Rightarrow> uuid \<Rightarrow> handler" where
  "webhook_deliveries event c webhookID =
     (if rq_HTTPMethod event = ''GET'' then
        require_scope c ScopeWebhookRead
          (handle (ListDeliveries webhookID (cl_OrgID c) (query_limit event) (map_get (rq_QueryStringParameters event) ''cursor''))
             cursor_error (\<lambda>(deliveries, nextCursor). respond (JSON 200 (VDeliveries deliveries nextCursor))))
      else respond (Error 404 ''not found''))"

definition webhooks_route :: "string option \<Rightarrow> request \<Rightarrow> claims \<Rightarrow> uuid \<Rightarrow> handler" where
  "webhooks_route encKey event c webhookID =
     (if rq_Resource event = ''/v1/webhooks'' then webhooks_collection encKey event c
      else if rq_Resource event = ''/v1/webhooks/{webhookId}'' then webhooks_item event c webhookID
      else if rq_Resource event = ''/v1/webhooks/{webhookId}/deliveries'' then webhook_deliveries event c webhookID
      else respond (Error 404 ''not found''))"

definition webhooks_handler :: "string option \<Rightarrow> request \<Rightarrow> handler" where
  "webhooks_handler encKey event = with_claims event (\<lambda>c E.
     (if \<not> HasFeature c ''webhooks'' then respond (Error 403 ''webhooks feature not available on your plan'')
      else webhooks_route encKey event c (path_uuid E event ''webhookId'')) E)"

section \<open>Honest answers\<close>

lemma rolls_back_pool: "rolls_back (pool_exec st)"
  unfolding rolls_back_def by (blast dest: pool_exec_eq_Inl)

lemma keeps_db_Encrypt [keeps_intros]: "keeps_db Q (Encrypt key t)"
proof -
  have "keeps_db Q (\<lambda>E w. (Inr (rand_bytes E (w_tick w) n), w))" for n by (simp add: keeps_db_iff)
  then show ?thesis unfolding Encrypt_def rand_Read_def by (intro keeps_intros)
qed

lemma keeps_db_new_webhook [keeps_intros]: "keeps_db Q (new_webhook c req)"
  unfolding new_webhook_def by (intro keeps_intros)

lemma webhook_writes_roll_back:
  "rolls_back (CreateWebhook hook)" "rolls_back (patched_webhook req hook)"
proof -
  have nf: "never_fails (case x of (a, b) \<Rightarrow> ret (f a b))" for x and f :: "time \<Rightarrow> time \<Rightarrow> webhook"
    by (cases x) (simp add: never_fails_intros)
  show "rolls_back (CreateWebhook hook)" unfolding CreateWebhook_def by (intro rolls_back_then rolls_back_pool nf)
  show "rolls_back (patched_webhook req hook)"
    unfolding patched_webhook_def UpdateWebhook_def
    by (intro rolls_back_bind rolls_back_then rolls_back_pool never_fails_intros keeps_intros)
qed

lemma DeleteWebhook_rolls_back: "rolls_back (DeleteWebhook i org)"
  unfolding rolls_back_def
proof (intro allI impI)
  fix E and w :: world and e w' assume "DeleteWebhook i org E w = (Inl e, w')"
  then consider e' where "pool_exec (webhook_delete org i) E w = (Inl e', w')"
    | "pool_exec (webhook_delete org i) E w = (Inr 0, w')"
    by (auto simp: DeleteWebhook_def go_bind_eq_Inl go_run wrap_err_eq_Inl wrap_err_eq_Inr split: if_splits)
  then show "w_db w' = w_db w"
  proof cases
    case 2
    have *: "del_where p xs = xs" if "filter p xs = []" for p and xs :: "'z list"
      using that by (simp add: del_where_def filter_empty_conv)
    let ?gone = "filter (\<lambda>r. wh_OrgID r = org \<and> wh_ID r = i) (t_webhooks (w_db w))"
    from 2 have "?gone = []" "w_db w' = (w_db w)\<lparr>t_webhooks := del_where (\<lambda>r. wh_OrgID r = org \<and> wh_ID r = i) (t_webhooks (w_db w)),
         t_webhook_deliveries := del_where (\<lambda>x. wd_WebhookID x \<in> set (map wh_ID ?gone)) (t_webhook_deliveries (w_db w))\<rparr>"
      unfolding pool_exec_eq_Inr webhook_delete_def Let_def by (simp_all del: set_map set_filter)
    then show ?thesis by (simp only: *) (simp add: del_where_def)
  qed (rule pool_exec_eq_Inl)
qed

lemma honest_webhooks: "honest (webhooks_handler encKey event)"
proof -
  have store: "honest (store_webhook hook)" for hook
    unfolding store_webhook_def by (intro honest_write webhook_writes_roll_back nothing_intros accepts_respond) simp
  have "honest (case encKey of None \<Rightarrow> respond r | Some key \<Rightarrow> handle (Encrypt key val) (\<lambda>_. respond r') (\<lambda>enc. store_webhook (f enc)))"
    for r r' val f by (cases encKey) (auto intro!: honest_intros keeps_intros store)
  then have create: "honest (create_webhook encKey c req)" for c req
    unfolding create_webhook_def using store
    by (auto intro!: honest_intros keeps_intros split: option.split)
  have "honest (webhooks_collection encKey event c)" for c
    unfolding webhooks_collection_def by (intro honest_intros create keeps_intros)
  moreover have item: "honest (handle (patched_webhook req hook) (error_text 400) (\<lambda>hook. respond (JSON 200 (VWebhook (webhookResponse hook)))))"
    "honest (handle (DeleteWebhook i org) (\<lambda>_. not_found what) (\<lambda>_. respond NoContent))" for req hook i org what
    by (intro honest_write webhook_writes_roll_back DeleteWebhook_rolls_back nothing_intros accepts_respond; simp)+
  have "honest (webhooks_item event c i)" for c i
    unfolding webhooks_item_def by (intro item honest_intros keeps_intros)
  moreover have "honest (webhook_deliveries event c i)" for c i
    unfolding webhook_deliveries_def by (intro honest_intros keeps_intros)
  ultimately have "honest (webhooks_route encKey event c i)" for c i
    unfolding webhooks_route_def by (intro honest_intros)
  then show ?thesis
    unfolding webhooks_handler_def by (intro honest_claims) (simp add: honest_def respond_def)
qed

end
