(* ===== verification/Webhook_Secrets.thy ===== *)
theory Webhook_Secrets
  imports Webhook_Handler
begin

text \<open>
  Stored webhook secrets and encrypted header values do not influence what the webhook interface of
  \<open>lambdas/webhooks/main.go\<close> answers: the handler is run on two databases that differ only there.
\<close>

section \<open>Secrets do not reach the answers\<close>

definition redact_webhook :: "webhook \<Rightarrow> webhook" where
  "redact_webhook h = h\<lparr>wh_Secret := [], wh_AuthHeaderValueEnc := []\<rparr>"

definition redact :: "database \<Rightarrow> database" where
  "redact d = d\<lparr>t_webhooks := map redact_webhook (t_webhooks d)\<rparr>"

text \<open>Two worlds are alike when they differ at most in stored secrets; two computations look the same when they give
  related results in alike worlds and leave alike worlds.\<close>

definition alike :: "world \<Rightarrow> world \<Rightarrow> bool" where
  "alike w w' \<longleftrightarrow> w\<lparr>w_db := redact (w_db w)\<rparr> = w'\<lparr>w_db := redact (w_db w')\<rparr>"

definition look_same :: "('a \<Rightarrow> 'b \<Rightarrow> bool) \<Rightarrow> 'a io \<Rightarrow> 'b io \<Rightarrow> bool" where
  "look_same R m m' \<longleftrightarrow> (\<forall>E w w'. alike w w' \<longrightarrow>
     rel_sum (=) R (fst (m E w)) (fst (m' E w')) \<and> alike (snd (m E w)) (snd (m' E w')))"

definition answer_same :: "handler \<Rightarrow> handler \<Rightarrow> bool" where
  "answer_same h h' \<longleftrightarrow> (\<forall>E w w'. alike w w' \<longrightarrow> fst (h E w) = fst (h' E w'))"

lemma redact_webhook_simps [simp]:
  "wh_ID (redact_webhook h) = wh_ID h" "wh_OrgID (redact_webhook h) = wh_OrgID h" "wh_CreatedAt (redact_webhook h) = wh_CreatedAt h"
  "webhookResponse (redact_webhook h) = webhookResponse h" "redact_webhook (redact_webhook h) = redact_webhook h"
  by (simp_all add: redact_webhook_def webhookResponse_def)

lemma redact_simps [simp]:
  "t_webhooks (redact d) = map redact_webhook (t_webhooks d)" "t_webhook_deliveries (redact d) = t_webhook_deliveries d"
  "t_organizations (redact d) = t_organizations d" "t_pods (redact d) = t_pods d" "t_inboxes (redact d) = t_inboxes d"
  by (simp_all add: redact_def)

lemma alike_refl: "alike w w"
  by (simp add: alike_def)

lemma alike_fields: "alike w w' \<Longrightarrow> redact (w_db w) = redact (w_db w') \<and> w_tick w = w_tick w'"
  unfolding alike_def by (metis (no_types, lifting) world.ext_inject world.surjective world.update_convs(1))

lemma alike_update: "alike w w' \<Longrightarrow> redact d = redact d' \<Longrightarrow> alike ((tick_world w)\<lparr>w_db := d\<rparr>) ((tick_world w')\<lparr>w_db := d'\<rparr>)"
  by (cases w; cases w') (simp add: alike_def tick_world_def)

lemma alike_tick: "alike w w' \<Longrightarrow> alike (tick_world w) (tick_world w')"
  using alike_update [of w w' "w_db w" "w_db w'"] alike_fields [of w w'] by (simp add: tick_world_def)

named_theorems same_intros

lemma same_basic [same_intros]:
  "R x y \<Longrightarrow> look_same R (ret x) (ret y)" "look_same R (throw e) (throw e)" "look_same (=) (asks f) (asks f)"
  "look_same (=) uuid_New uuid_New" "look_same (=) time_Now time_Now"
  by (auto simp: look_same_def go_run uuid_New_def time_Now_def alike_tick dest: alike_fields)

lemma same_bind:
  assumes "look_same R m m'" and "\<And>x y. R x y \<Longrightarrow> look_same S (f x) (f' y)"
  shows "look_same S (go_bind m f) (go_bind m' f')"
  unfolding look_same_def
proof (intro allI impI)
  fix E w w' assume a: "alike w w'"
  with assms(1) have r: "rel_sum (=) R (fst (m E w)) (fst (m' E w'))" "alike (snd (m E w)) (snd (m' E w'))"
    unfolding look_same_def by blast+
  show "rel_sum (=) S (fst (go_bind m f E w)) (fst (go_bind m' f' E w')) \<and>
      alike (snd (go_bind m f E w)) (snd (go_bind m' f' E w'))"
  proof (cases "fst (m E w)")
    case (Inl e)
    with r show ?thesis by (cases "fst (m' E w')") (auto simp: go_bind_def split_beta)
  next
    case (Inr x)
    with r(1) obtain y where "fst (m' E w') = Inr y" "R x y" by (cases "fst (m' E w')") auto
    with Inr r(2) assms(2) [of x y] show ?thesis unfolding look_same_def by (simp add: go_bind_def split_beta)
  qed
qed

lemma same_wrap [same_intros]: "look_same R m m' \<Longrightarrow> look_same R (wrap_err p m) (wrap_err p m')"
proof -
  have *: "wrap_err p m = (\<lambda>E w. (map_sum (Wrap p) id (fst (m E w)), snd (m E w)))" for m :: "'z io"
    by (intro ext) (auto simp: wrap_err_def split: prod.splits sum.splits)
  have "rel_sum (=) R r r' \<Longrightarrow> rel_sum (=) R (map_sum (Wrap p) id r) (map_sum (Wrap p) id r')" for r r'
    by (cases r; cases r') auto
  then show "look_same R m m' \<Longrightarrow> look_same R (wrap_err p m) (wrap_err p m')"
    by (simp add: look_same_def *)
qed

lemma same_attempt: "look_same R m m' \<Longrightarrow> look_same (rel_sum (=) R) (attempt m) (attempt m')"
  unfolding look_same_def by (simp add: attempt_def split_beta)

text \<open>A statement that commutes with the redaction looks the same in alike worlds.\<close>

definition commutes :: "('a \<Rightarrow> 'b) \<Rightarrow> 'a stmt \<Rightarrow> 'b stmt \<Rightarrow> bool" where
  "commutes f st st0 \<longleftrightarrow> (\<forall>now d. st0 now (redact d) = map_sum id (map_prod f redact) (st now d))"

lemma same_pool:
  assumes "commutes f st st0" "commutes f' st' st0"
  shows "look_same (\<lambda>x y. f x = f' y) (pool_exec st) (pool_exec st')"
  unfolding look_same_def
proof (intro allI impI)
  fix E :: env and w w' assume a: "alike w w'"
  note fields = alike_fields [OF a]
  let ?now = "clock E (Suc (w_tick w'))"
  have "map_sum id (map_prod f redact) (st ?now (w_db w)) = map_sum id (map_prod f' redact) (st' ?now (w_db w'))"
    using assms fields unfolding commutes_def by metis
  then show "rel_sum (=) (\<lambda>x y. f x = f' y) (fst (pool_exec st E w)) (fst (pool_exec st' E w')) \<and>
      alike (snd (pool_exec st E w)) (snd (pool_exec st' E w'))"
    using fields alike_tick [OF a] alike_update [OF a]
    by (cases "st ?now (w_db w)"; cases "st' ?now (w_db w')")
      (auto simp: pool_exec_def external_def run_stmt_def split: option.splits prod.splits)
qed

subsection \<open>The store's statements\<close>

definition redact_columns :: "webhook_columns \<Rightarrow> webhook_columns" where
  "redact_columns p = p\<lparr>wc_auth_header_value_enc := []\<rparr>"

lemma sort_key_map: "(\<And>x. k (g x) = k x) \<Longrightarrow> sort_key k (map g xs) = map g (sort_key k xs)"
proof -
  assume k: "\<And>x. k (g x) = k x"
  have "insort_key k (g x) (map g ys) = map g (insort_key k x ys)" for x ys
    by (induction ys) (auto simp: k)
  then show ?thesis by (induction xs) simp_all
qed

lemma filter_redact: "(\<And>h. p (redact_webhook h) = p h) \<Longrightarrow> filter p (map redact_webhook hs) = map redact_webhook (filter p hs)"
  by (simp add: filter_map comp_def)

lemma webhooks_of_redact: "webhooks_of order org (redact d) = map redact_webhook (webhooks_of order org d)"
  by (simp add: webhooks_of_def order_desc_def order_asc_def filter_redact sort_key_map rev_map)

lemma commutes_list: "commutes (map redact_webhook) (query (webhooks_of order org)) (query (webhooks_of order org))"
  by (simp add: commutes_def query_def webhooks_of_redact)

lemma commutes_select: "commutes redact_webhook (webhook_select org i) (webhook_select org i)"
  by (simp add: commutes_def webhook_select_def query_row_def first_row_def filter_redact split: list.splits)

lemma require_map: "map_sum id f (require cs x) = require cs (f x)"
  by (induction cs x rule: require.induct) (simp_all add: require.simps)

lemma commutes_update: "commutes redact_webhook (webhook_update org i p) (webhook_update org i (redact_columns p))"
proof -
  let ?hit = "\<lambda>r. wh_OrgID r = org \<and> wh_ID r = i"
  have set: "webhook_set (redact_columns p) now (redact_webhook h) = redact_webhook (webhook_set p now h)" for now h
    by (simp add: webhook_set_def redact_columns_def redact_webhook_def)
  have upd: "upd_where ?hit (webhook_set (redact_columns p) now) (map redact_webhook hs) =
      map redact_webhook (upd_where ?hit (webhook_set p now) hs)" for now hs
    by (simp add: upd_where_def set)
  have gone: "filter ?hit (map redact_webhook hs) = map redact_webhook (filter ?hit hs)" for hs
    by (rule filter_redact) simp
  have ev: "wc_events (redact_columns p) = wc_events p" by (simp add: redact_columns_def)
  show ?thesis
    unfolding commutes_def webhook_update_def Let_def redact_simps upd gone ev
    by (auto simp: require_map set redact_def split: list.split)
qed

lemma commutes_insert: "commutes id (webhook_insert wh) (webhook_insert (redact_webhook wh))"
proof -
  have keys: "has_key wh_ID i (map redact_webhook hs) = has_key wh_ID i hs"
    "(case x of None \<Rightarrow> True | Some p \<Rightarrow> has_key p_ID p (t_pods (redact d))) = (case x of None \<Rightarrow> True | Some p \<Rightarrow> has_key p_ID p (t_pods d))"
    "(case x of None \<Rightarrow> True | Some p \<Rightarrow> has_key ib_ID p (t_inboxes (redact d))) = (case x of None \<Rightarrow> True | Some p \<Rightarrow> has_key ib_ID p (t_inboxes d))"
    for i hs x d by (simp_all add: has_key_def image_image split: option.split)
  have cols: "wh_Events (redact_webhook wh) = wh_Events wh" "wh_PodID (redact_webhook wh) = wh_PodID wh"
    "wh_InboxID (redact_webhook wh) = wh_InboxID wh" by (simp_all add: redact_webhook_def)
  have row: "(redact_webhook wh)\<lparr>wh_FailureCount := 0, wh_LastSuccessAt := None, wh_LastFailureAt := None,
        wh_CreatedAt := now, wh_UpdatedAt := now, wh_AuthHeaderValue := []\<rparr> =
      redact_webhook (wh\<lparr>wh_FailureCount := 0, wh_LastSuccessAt := None, wh_LastFailureAt := None,
        wh_CreatedAt := now, wh_UpdatedAt := now, wh_AuthHeaderValue := []\<rparr>)" for now
    by (simp add: redact_webhook_def)
  show ?thesis
    unfolding commutes_def webhook_insert_def redact_simps redact_webhook_simps keys cols row require_map
    by (simp add: redact_def)
qed

lemma commutes_delete: "commutes id (webhook_delete org i) (webhook_delete org i)"
proof -
  let ?hit = "\<lambda>r. wh_OrgID r = org \<and> wh_ID r = i"
  have del: "del_where ?hit (map redact_webhook hs) = map redact_webhook (del_where ?hit hs)" for hs
    by (simp add: del_where_def filter_map comp_def)
  have gone: "filter ?hit (map redact_webhook hs) = map redact_webhook (filter ?hit hs)" for hs
    by (rule filter_redact) simp
  have ids: "map wh_ID (map redact_webhook hs) = map wh_ID hs" for hs by simp
  show ?thesis
    unfolding commutes_def webhook_delete_def Let_def redact_simps del gone ids length_map
    by (simp only: map_sum.simps map_prod_simp id_apply) (simp add: redact_def)
qed

lemma commutes_page: "commutes id (delivery_page E i org n parts) (delivery_page E i org n parts)"
proof -
  have "delivery_page_where (redact d) j org' = delivery_page_where d j org'" for d j org'
    by (rule ext) (simp add: delivery_page_where_def list_ex_iff)
  then show ?thesis by (simp add: commutes_def delivery_page_def split: sum.splits)
qed

subsection \<open>The store's methods and the handler\<close>

abbreviation same_hook :: "webhook \<Rightarrow> webhook \<Rightarrow> bool" where
  "same_hook h h' \<equiv> redact_webhook h = redact_webhook h'"

lemma same_hook_response: "same_hook h h' \<Longrightarrow> webhookResponse h = webhookResponse h'"
  by (metis redact_webhook_simps(4))

lemma same_asks_bind: "(\<And>x. look_same S (f x) (f' x)) \<Longrightarrow> look_same S (go_bind (asks g) f) (go_bind (asks g) f')"
  by (rule same_bind [OF same_basic(3)]) blast

lemma same_reader: "(\<And>n. look_same R (m n) (m' n)) \<Longrightarrow> look_same R (\<lambda>E w. m (g E (w_tick w)) E w) (\<lambda>E w. m' (g E (w_tick w)) E w)"
  unfolding look_same_def
proof (intro allI impI)
  fix E and w w' :: world assume same: "\<And>n. \<forall>E w w'. alike w w' \<longrightarrow> rel_sum (=) R (fst (m n E w)) (fst (m' n E w')) \<and> alike (snd (m n E w)) (snd (m' n E w'))"
    and a: "alike w w'"
  have t: "w_tick w = w_tick w'" using alike_fields [OF a] by blast
  from same a show "rel_sum (=) R (fst (m (g E (w_tick w)) E w)) (fst (m' (g E (w_tick w')) E w')) \<and>
      alike (snd (m (g E (w_tick w)) E w)) (snd (m' (g E (w_tick w')) E w'))"
    unfolding t by blast
qed

lemma redact_scan: "redact_webhook (scanWebhook h) = scanWebhook (redact_webhook h)"
  by (simp add: scanWebhook_def redact_webhook_def)

lemma same_scan: "same_hook h h' \<Longrightarrow> same_hook (scanWebhook h) (scanWebhook h')"
  by (simp only: redact_scan)

lemma map_same_scan:
  assumes "map redact_webhook hs = map redact_webhook hs'"
  shows "map redact_webhook (map scanWebhook hs) = map redact_webhook (map scanWebhook hs')"
proof -
  have "map redact_webhook (map scanWebhook xs) = map scanWebhook (map redact_webhook xs)" for xs
    by (simp add: redact_scan)
  with assms show ?thesis by (simp only:)
qed

lemma same_ListWebhooks: "look_same (\<lambda>hs hs'. map redact_webhook hs = map redact_webhook hs') (ListWebhooks org) (ListWebhooks org)"
proof -
  have "look_same (\<lambda>hs hs'. map redact_webhook hs = map redact_webhook hs')
      (\<lambda>E w. wrap_err t (pool_exec (query (webhooks_of (scan_order E (w_tick w)) org))) E w)
      (\<lambda>E w. wrap_err t (pool_exec (query (webhooks_of (scan_order E (w_tick w)) org))) E w)" for t
    by (rule same_reader [where g = scan_order and m = "\<lambda>r. wrap_err t (pool_exec (query (webhooks_of r org)))"
        and m' = "\<lambda>r. wrap_err t (pool_exec (query (webhooks_of r org)))"])
      (rule same_wrap [OF same_pool [OF commutes_list commutes_list]])
  then show ?thesis
    unfolding ListWebhooks_def by (rule same_asks_bind [OF same_bind]) (rule same_basic(1), rule map_same_scan)
qed

lemma same_GetWebhook: "look_same same_hook (GetWebhookByIDAndOrg i org) (GetWebhookByIDAndOrg i org)"
  unfolding GetWebhookByIDAndOrg_def
proof (intro same_asks_bind same_bind [OF same_attempt [OF same_pool [OF commutes_select commutes_select]]])
  fix fmt :: "uuid \<Rightarrow> string" and r r' :: "go_error + webhook" assume "rel_sum (=) same_hook r r'"
  then show "look_same same_hook
      (case r of Inl e \<Rightarrow> if root_cause e = ErrNoRows then throw ErrNoRows else throw (Wrap (''get webhook '' @ fmt i) e) | Inr row \<Rightarrow> ret (scanWebhook row))
      (case r' of Inl e \<Rightarrow> if root_cause e = ErrNoRows then throw ErrNoRows else throw (Wrap (''get webhook '' @ fmt i) e) | Inr row \<Rightarrow> ret (scanWebhook row))"
    by (cases rule: rel_sum.cases) (auto intro: same_intros same_scan)
qed

lemma same_CreateWebhook: "look_same same_hook (CreateWebhook hook) (CreateWebhook hook)"
  unfolding CreateWebhook_def
  by (rule same_bind [OF same_pool [OF commutes_insert commutes_insert]]) (auto intro: same_basic)

text \<open>What the PATCH request sets, and the update of the whole row.\<close>

lemma same_UpdateWebhook:
  assumes "same_hook h h'"
  shows "look_same same_hook (UpdateWebhook h) (UpdateWebhook h')"
proof -
  let ?p = "\<lambda>h. \<lparr>wc_url = wh_URL h, wc_events = wh_Events h, wc_is_active = wh_IsActive h,
        wc_auth_header_name = wh_AuthHeaderName h, wc_auth_header_value_enc = wh_AuthHeaderValueEnc h\<rparr>"
  have "redact_columns (?p (redact_webhook h)) = redact_columns (?p h)" for h
    by (simp add: redact_columns_def redact_webhook_def)
  then have cols: "redact_columns (?p h) = redact_columns (?p h')" using assms by metis
  have keys: "wh_ID h = wh_ID h'" "wh_OrgID h = wh_OrgID h'" using assms by (metis redact_webhook_simps(1,2))+
  have upd: "redact_webhook (h\<lparr>wh_UpdatedAt := t\<rparr>) = (redact_webhook h)\<lparr>wh_UpdatedAt := t\<rparr>" for h t
    by (simp add: redact_webhook_def)
  have time: "wh_UpdatedAt r = wh_UpdatedAt r'" if "same_hook r r'" for r r'
  proof -
    have "wh_UpdatedAt (redact_webhook r) = wh_UpdatedAt r" for r by (simp add: redact_webhook_def)
    with that show ?thesis by metis
  qed
  have "look_same same_hook (pool_exec (webhook_update g i (?p h))) (pool_exec (webhook_update g i (?p h')))" for g i
    using same_pool [OF commutes_update [of g i "?p h"], of redact_webhook "webhook_update g i (?p h')"]
      commutes_update [of g i "?p h'"] unfolding cols by blast
  then show ?thesis unfolding UpdateWebhook_def keys
  proof (rule same_bind)
    fix r r' assume "same_hook r r'"
    then have "wh_UpdatedAt r = wh_UpdatedAt r'" by (rule time)
    then show "look_same same_hook (ret (h\<lparr>wh_UpdatedAt := wh_UpdatedAt r\<rparr>)) (ret (h'\<lparr>wh_UpdatedAt := wh_UpdatedAt r'\<rparr>))"
      using assms by (auto simp: upd intro!: same_basic(1))
  qed
qed

lemma same_patched:
  assumes "same_hook h h'"
  shows "look_same same_hook (patched_webhook req h) (patched_webhook req h')"
proof -
  let ?u = "\<lambda>h now. h\<lparr>wh_URL := supplied (pw_URL req) (wh_URL h),
       wh_Events := (if pw_Events req \<noteq> None then pw_Events req else wh_Events h),
       wh_IsActive := supplied (pw_Active req) (wh_IsActive h), wh_UpdatedAt := now\<rparr>"
  have "redact_webhook (?u h now) = ?u (redact_webhook h) now" for h now
    by (simp add: redact_webhook_def)
  with assms have "same_hook (?u h now) (?u h' now)" for now by metis
  then show ?thesis
    unfolding patched_webhook_def by (auto intro!: same_bind [OF same_basic(5)] same_UpdateWebhook)
qed

lemma same_DeleteWebhook: "look_same (=) (DeleteWebhook i org) (DeleteWebhook i org)"
  unfolding DeleteWebhook_def
proof (intro same_asks_bind same_bind [OF same_wrap [OF same_pool [OF commutes_delete commutes_delete]]])
  fix n n' :: nat assume "id n = id n'"
  then show "look_same (=) (fail_if (n = 0) ErrNoRows) (fail_if (n' = 0) ErrNoRows)"
    by (simp add: fail_if_def same_basic)
qed

lemma same_ListDeliveries: "look_same (=) (ListDeliveries i org n cur) (ListDeliveries i org n cur)"
proof (cases "cursor_parts cur")
  case (Inl e)
  then show ?thesis by (simp add: ListDeliveries_def Let_def same_basic)
next
  case (Inr parts)
  have "look_same (=) (wrap_err t (pool_exec (delivery_page E i org m parts))) (wrap_err t (pool_exec (delivery_page E i org m parts)))" for t E m
    using same_wrap [OF same_pool [OF commutes_page commutes_page]] by simp
  then show ?thesis
    unfolding ListDeliveries_def Let_def Inr sum.case
    by (intro same_asks_bind same_bind [of "(=)"]) (auto intro: same_basic)
qed

lemma same_Encrypt: "look_same (=) (Encrypt key t) (Encrypt key t)"
proof -
  have "look_same (=) (rand_Read n) (rand_Read n)" for n
    by (auto simp: look_same_def rand_Read_def external_def alike_tick dest: alike_fields split: option.split)
  moreover have "look_same (=) (fail_if b e) (fail_if b e)" for b e by (simp add: fail_if_def same_basic)
  ultimately show ?thesis
    unfolding Encrypt_def by (intro same_bind [of "(=)"] same_wrap) (auto intro: same_basic)
qed

lemma same_new_webhook: "look_same (=) (new_webhook c req) (new_webhook c req)"
  unfolding new_webhook_def
proof (rule same_bind [OF same_basic(4)])
  fix i i' :: uuid assume "i = i'"
  then show "look_same (=)
    (go_bind time_Now (\<lambda>created. go_bind time_Now (\<lambda>updated. ret (f i created updated))))
    (go_bind time_Now (\<lambda>created. go_bind time_Now (\<lambda>updated. ret (f i' created updated))))" for f :: "uuid \<Rightarrow> time \<Rightarrow> time \<Rightarrow> webhook"
    by (auto intro!: same_bind [OF same_basic(5)] same_basic(1))
qed

subsection \<open>Answers\<close>

named_theorems answer_intros

lemma answer_basic [answer_intros]:
  "answer_same (respond r) (respond r)" "answer_same (error_text code e) (error_text code e)"
  "answer_same (cursor_error e) (cursor_error e)"
  by (simp_all add: answer_same_def respond_def error_text_def cursor_error_def)

lemma answer_handle:
  assumes "look_same R m m'" and "\<And>e. answer_same (f e) (f' e)" and "\<And>x y. R x y \<Longrightarrow> answer_same (g x) (g' y)"
  shows "answer_same (handle m f g) (handle m' f' g')"
  unfolding answer_same_def
proof (intro allI impI)
  fix E w w' assume "alike w w'"
  with assms(1) have r: "rel_sum (=) R (fst (m E w)) (fst (m' E w'))" "alike (snd (m E w)) (snd (m' E w'))"
    unfolding look_same_def by blast+
  from r(1) show "fst (handle m f g E w) = fst (handle m' f' g' E w')"
  proof (cases rule: rel_sum.cases)
    case (1 e e')
    with r(2) assms(2) show ?thesis by (simp add: handle_def split_beta answer_same_def)
  next
    case (2 x y)
    with r(2) assms(3) [of x y] show ?thesis by (simp add: handle_def split_beta answer_same_def)
  qed
qed

lemma answer_guards [answer_intros]:
  "answer_same h h' \<Longrightarrow> answer_same (require_scope c s h) (require_scope c s h')"
  "(\<And>r. answer_same (k r) (k' r)) \<Longrightarrow> answer_same (with_body d event zero k) (with_body d event zero k')"
  "answer_same h h' \<Longrightarrow> answer_same k1 k2 \<Longrightarrow> answer_same (if b then h else k1) (if b then h' else k2)"
  by (auto simp: answer_same_def require_scope_def with_body_def respond_def split: option.split)

lemma answer_hook: "same_hook h h' \<Longrightarrow>
    answer_same (respond (JSON code (VWebhook (webhookResponse h)))) (respond (JSON code (VWebhook (webhookResponse h'))))"
  by (simp only: same_hook_response [of h h'] answer_basic(1))

lemma answer_hooks:
  assumes "map redact_webhook hs = map redact_webhook hs'"
  shows "answer_same (respond (JSON code (VWebhooks (map webhookResponse hs)))) (respond (JSON code (VWebhooks (map webhookResponse hs'))))"
proof -
  have "map webhookResponse xs = map webhookResponse (map redact_webhook xs)" for xs by simp
  with assms have "map webhookResponse hs = map webhookResponse hs'" by metis
  then show ?thesis using answer_basic(1) by simp
qed

lemma answer_create: "answer_same (create_webhook encKey c req) (create_webhook encKey c req)"
proof -
  have store: "answer_same (store_webhook hook) (store_webhook hook)" for hook
    unfolding store_webhook_def by (intro answer_handle [OF same_CreateWebhook] answer_intros answer_hook)
  have enc: "answer_same (case encKey of None \<Rightarrow> respond r | Some key \<Rightarrow> handle (Encrypt key val) (\<lambda>_. respond r') (\<lambda>enc. store_webhook (f enc)))
      (case encKey of None \<Rightarrow> respond r | Some key \<Rightarrow> handle (Encrypt key val) (\<lambda>_. respond r') (\<lambda>enc. store_webhook (f enc)))" for r r' val f
    by (cases encKey) (auto intro: answer_intros store answer_handle [OF same_Encrypt])
  show ?thesis unfolding create_webhook_def
    by (rule answer_handle [OF same_new_webhook], rule answer_basic)
      (use store enc in \<open>auto split: option.split\<close>)
qed

lemma answer_item: "answer_same (webhooks_item event c i) (webhooks_item event c i)"
  unfolding webhooks_item_def
  by (intro answer_intros answer_handle [OF same_GetWebhook] answer_handle [OF same_DeleteWebhook]
      answer_handle [OF same_patched] answer_hook)

lemma answer_collection: "answer_same (webhooks_collection encKey event c) (webhooks_collection encKey event c)"
  unfolding webhooks_collection_def
  by (intro answer_intros answer_handle [OF same_ListWebhooks] answer_hooks answer_create)

lemma answer_deliveries: "answer_same (webhook_deliveries event c i) (webhook_deliveries event c i)"
  unfolding webhook_deliveries_def
  by (intro answer_intros answer_handle [OF same_ListDeliveries]) (auto intro: answer_intros)

lemma answer_handler: "answer_same (webhooks_handler encKey event) (webhooks_handler encKey event)"
proof -
  have claims: "answer_same (with_claims event h) (with_claims event h)" if "\<And>c E. answer_same (\<lambda>_. h c E) (\<lambda>_. h c E)" for h
    using that by (auto simp: answer_same_def with_claims_def split: sum.splits)
  have "answer_same (webhooks_route encKey event c i) (webhooks_route encKey event c i)" for c i
    unfolding webhooks_route_def by (intro answer_intros answer_item answer_collection answer_deliveries)
  then show ?thesis unfolding webhooks_handler_def
    by (intro claims) (simp add: answer_same_def respond_def)
qed

text \<open>C28. The answer of the webhook interface does not depend on the stored secrets: on two databases that differ
  only in webhook secrets and encrypted header values, every request gets the same answer.\<close>

theorem webhooks_hide_secrets:
  assumes "redact (w_db w) = redact d"
  shows "fst (webhooks_handler encKey event E (w\<lparr>w_db := d\<rparr>)) = fst (webhooks_handler encKey event E w)"
proof -
  have "alike (w\<lparr>w_db := d\<rparr>) w" using assms by (simp add: alike_def)
  with answer_handler show ?thesis unfolding answer_same_def by blast
qed

definition demo_get_webhook :: request where
  "demo_get_webhook =
     \<lparr>rq_Resource = ''/v1/webhooks/{webhookId}'', rq_HTTPMethod = ''GET'', rq_PathParameters = [(''webhookId'', ''111111111111'')],
      rq_QueryStringParameters = [], rq_Authorizer = [(''org_id'', JStr ''1''), (''key_id'', JStr ''1111''),
        (''scopes'', JStr ''org:admin''), (''features'', JStr ''webhooks'')], rq_Body = None\<rparr>"

theorem webhooks_hide_secrets_witness:
  "rs_StatusCode (fst (webhooks_handler None demo_get_webhook demo_env
     (demo_world\<lparr>w_db := demo_db\<lparr>t_webhooks := [demo_webhook\<lparr>wh_Secret := ''top'', wh_AuthHeaderValueEnc := ''x''\<rparr>]\<rparr>\<rparr>))) = 200"
proof -
  have "rs_StatusCode (fst (webhooks_handler None demo_get_webhook demo_env demo_world)) = 200" by code_simp
  then show ?thesis
    using webhooks_hide_secrets [of demo_world "demo_db\<lparr>t_webhooks := [demo_webhook\<lparr>wh_Secret := ''top'', wh_AuthHeaderValueEnc := ''x''\<rparr>]\<rparr>"
        None demo_get_webhook demo_env]
    by (simp add: redact_def redact_webhook_def demo_db_def)
qed

end
