(* ===== verification/Api.thy ===== *)
theory Api
  imports Draft_Handler Message_Handler Thread_Handler Inbox_Handler Webhook_Secrets
begin

text \<open>
  The HTTP interface as a whole: the Lambda handlers of drafts, messages, threads and labels, inboxes and
  webhooks under one dispatcher, and what holds of all of them.
\<close>

datatype api =
    DraftsApi draft_service
  | MessagesApi message_service
  | ThreadsApi publisher
  | InboxesApi inbox_service
  | WebhooksApi "string option"

fun api_handler :: "api \<Rightarrow> request \<Rightarrow> handler" where
  "api_handler (DraftsApi s) = drafts_handler s"
| "api_handler (MessagesApi s) = messages_handler s"
| "api_handler (ThreadsApi s) = threads_handler s"
| "api_handler (InboxesApi s) = inboxes_handler s"
| "api_handler (WebhooksApi encKey) = webhooks_handler encKey"

text \<open>The requests that write in steps of one transaction each: a PATCH of a message or of a thread.\<close>

fun writes_in_steps :: "api \<Rightarrow> request \<Rightarrow> bool" where
  "writes_in_steps (MessagesApi s) event = (rq_HTTPMethod event = ''PATCH'')"
| "writes_in_steps (ThreadsApi s) event =
     (rq_HTTPMethod event = ''PATCH'' \<and> rq_Resource event = ''/v1/inboxes/{inboxId}/threads/{threadId}'')"
| "writes_in_steps a event = False"

text \<open>C16. An error answer is the truth: on every resource, a request that is answered with a status of 400 or more
  has changed no table.  Excepted are the PATCH of a message, which updates before its last check, and the PATCH of a
  thread, which applies its fields in one transaction each.\<close>

theorem api_errors_change_nothing:
  assumes "400 \<le> rs_StatusCode (fst (api_handler a event E w))" and "\<not> writes_in_steps a event"
  shows "w_db (snd (api_handler a event E w)) = w_db w"
proof -
  have "honest (api_handler a event)"
    using assms(2) honest_drafts honest_messages honest_threads honest_inboxes honest_webhooks by (cases a) auto
  with assms(1) show ?thesis unfolding honest_def by blast
qed

theorem api_errors_change_nothing_witness:
  "w_db (snd (api_handler (DraftsApi demo_draft_service) (demo_approve ''1'' ''draft:write'') demo_env demo_world)) = demo_db"
proof -
  have "rs_StatusCode (fst (api_handler (DraftsApi demo_draft_service) (demo_approve ''1'' ''draft:write'') demo_env demo_world)) = 404"
    by code_simp
  then have "400 \<le> rs_StatusCode (fst (api_handler (DraftsApi demo_draft_service) (demo_approve ''1'' ''draft:write'') demo_env demo_world))"
    by simp
  from api_errors_change_nothing [OF this] show ?thesis by simp
qed

end
