(* ===== verification/Webhook_Dispatcher.thy ===== *)
theory Webhook_Dispatcher
  imports Webhook_Deliveries
begin

text \<open>
  \<open>lambdas/event_dispatcher_webhook/main.go\<close>: every event from the queue is posted to the active
  webhooks of its organisation that subscribe to it, and each attempt is logged as a delivery.
\<close>

section \<open>HTTP headers\<close>

text \<open>\<open>Header.Set\<close>: the name is put in canonical form when it is a valid token, an earlier value is replaced.\<close>

definition token_char :: "char \<Rightarrow> bool" where
  "token_char c = (let n = of_char c :: nat in
     48 \<le> n \<and> n \<le> 57 \<or> 65 \<le> n \<and> n \<le> 90 \<or> 97 \<le> n \<and> n \<le> 122 \<or>
     n \<in> {33, 35, 36, 37, 38, 39, 42, 43, 45, 46, 94, 95, 96, 124, 126})"

definition upper_char :: "char \<Rightarrow> char" where
  "upper_char c = (if 97 \<le> (of_char c :: nat) \<and> (of_char c :: nat) \<le> 122 then char_of ((of_char c :: nat) - 32) else c)"

fun capitalise :: "bool \<Rightarrow> string \<Rightarrow> string" where
  "capitalise up [] = []"
| "capitalise up (c # cs) = (if up then upper_char c else lower_char c) # capitalise (c = CHR ''-'') cs"

definition canonical_key :: "string \<Rightarrow> string" where
  "canonical_key s = (if list_all token_char s then capitalise True s else s)"

definition header_set :: "string \<Rightarrow> string \<Rightarrow> (string \<times> string) list \<Rightarrow> (string \<times> string) list" where
  "header_set k v h = filter (\<lambda>(k', _). k' \<noteq> canonical_key k) h @ [(canonical_key k, v)]"

section \<open>Delivery\<close>

definition matchesEvent :: "string list option \<Rightarrow> string \<Rightarrow> bool" where
  "matchesEvent subscribed eventType =
     (case subscribed of None \<Rightarrow> True | Some ss \<Rightarrow> ss = [] \<or> list_ex (\<lambda>s. s = eventType) ss)"

definition delivery_request :: "env \<Rightarrow> webhook \<Rightarrow> string \<Rightarrow> http_request" where
  "delivery_request E wh payload =
     (let sig = hex_encode (hmac_sha256 E (wh_Secret wh) payload);
          h = header_set ''User-Agent'' ''nGX-Webhook/1.0''
             (header_set ''X-nGX-Event'' ''webhook.delivery''
             (header_set ''X-nGX-Signature'' (''sha256='' @ sig)
             (header_set ''Content-Type'' ''application/json'' [])));
          h = (case wh_AuthHeaderName wh of
                 Some name \<Rightarrow> if wh_AuthHeaderValue wh \<noteq> [] then header_set name (wh_AuthHeaderValue wh) h else h
               | None \<Rightarrow> h)
      in \<lparr>hr_Method = ''POST'', hr_URL = wh_URL wh, hr_Header = h, hr_Body = payload\<rparr>)"

definition deliver :: "webhook \<Rightarrow> string \<Rightarrow> (int \<times> string) io" where
  "deliver wh payload = (\<lambda>E w. case url_error E (wh_URL wh) of
       Some s \<Rightarrow> (Inl (ExternalError s), w)
     | None \<Rightarrow> http_Do (delivery_request E wh payload) E w)"

text \<open>The decryption of the header value; a webhook whose value cannot be decrypted is called without it.\<close>

definition with_auth_value :: "env \<Rightarrow> string option \<Rightarrow> webhook \<Rightarrow> webhook" where
  "with_auth_value E encKey wh =
     (case encKey of
        None \<Rightarrow> wh
      | Some key \<Rightarrow> if wh_AuthHeaderValueEnc wh = [] then wh
          else (case Decrypt E key (wh_AuthHeaderValueEnc wh) of Inl e \<Rightarrow> wh | Inr dec \<Rightarrow> wh\<lparr>wh_AuthHeaderValue := dec\<rparr>))"

definition new_delivery :: "uuid \<Rightarrow> webhook \<Rightarrow> base_event \<Rightarrow> json_map \<Rightarrow> time \<Rightarrow> time \<Rightarrow> webhook_delivery" where
  "new_delivery i wh base payloadMap created updated =
     \<lparr>wd_ID = i, wd_WebhookID = wh_ID wh, wd_EventID = be_ID base, wd_EventType = be_Type base,
      wd_Payload = payloadMap, wd_Status = DeliveryStatusPending, wd_AttemptCount = 0, wd_NextAttemptAt = None,
      wd_LastAttemptAt = None, wd_ResponseStatus = None, wd_ResponseBody = [], wd_ErrorMessage = [],
      wd_CreatedAt = created, wd_UpdatedAt = updated\<rparr>"

definition is_success :: "int \<Rightarrow> bool" where
  "is_success statusCode = (statusCode \<ge> 200 \<and> statusCode < 300)"

definition record_outcome :: "webhook_delivery \<Rightarrow> time \<Rightarrow> go_error + int \<times> string \<Rightarrow> unit io" where
  "record_outcome delivery now r = (\<lambda>E.
     let (statusCode, body) = (case r of Inl e \<Rightarrow> (0, []) | Inr sb \<Rightarrow> sb);
         errMsg = (case r of Inl e \<Rightarrow> err_text E e | Inr _ \<Rightarrow> []);
         delivery = delivery\<lparr>wd_AttemptCount := 1, wd_LastAttemptAt := Some now,
           wd_ResponseStatus := Some statusCode, wd_ResponseBody := body\<rparr> in
     (if (case r of Inl e \<Rightarrow> False | Inr _ \<Rightarrow> is_success statusCode)
      then ignore_err (MarkSuccess delivery)
      else ignore_err (MarkFailed (delivery\<lparr>wd_ErrorMessage := errMsg\<rparr>) 1)) E)"

definition dispatch_to :: "string option \<Rightarrow> base_event \<Rightarrow> string \<Rightarrow> json_map \<Rightarrow> webhook \<Rightarrow> unit io" where
  "dispatch_to encKey base payload payloadMap wh =
     (if \<not> wh_IsActive wh then ret ()
      else if \<not> matchesEvent (wh_Events wh) (be_Type base) then ret ()
      else
        go_bind (asks (\<lambda>E. with_auth_value E encKey wh)) (\<lambda>wh.
        go_bind uuid_New (\<lambda>i. go_bind time_Now (\<lambda>created. go_bind time_Now (\<lambda>updated.
        let delivery = new_delivery i wh base payloadMap created updated in
        go_bind (ignore_err (CreateDelivery delivery)) (\<lambda>_.
        go_bind (attempt (deliver wh payload)) (\<lambda>r.
        go_bind time_Now (\<lambda>now.
        record_outcome delivery now r))))))))"

text \<open>A record of the queue; \<open>sm_Event\<close> is what \<open>Unmarshal\<close> makes of its body, \<open>None\<close> when it fails.\<close>

record sqs_message =
  sm_MessageId :: string
  sm_Event :: "event option"

definition dispatch_record :: "string option \<Rightarrow> sqs_message \<Rightarrow> unit io" where
  "dispatch_record encKey record =
     (case sm_Event record of
        None \<Rightarrow> ret ()
      | Some evt \<Rightarrow>
          go_bind (asks (\<lambda>E. E)) (\<lambda>E.
          case parse_uuid E (be_OrgID (GetBase evt)) of
            None \<Rightarrow> ret ()
          | Some orgID \<Rightarrow>
              go_bind (ListWebhooks orgID) (\<lambda>hooks.
              for_each (dispatch_to encKey (GetBase evt) (event_json E evt) (event_map E evt)) hooks)))"

definition webhook_dispatcher :: "string option \<Rightarrow> sqs_message list \<Rightarrow> string list io" where
  "webhook_dispatcher encKey records = batch_failures (dispatch_record encKey) sm_MessageId records"

section \<open>Which requests are made\<close>

abbreviation no_http :: "'a io \<Rightarrow> bool" where
  "no_http \<equiv> untouched w_http"

lemma no_http_marks: "no_http (MarkSuccess x)" "no_http (MarkFailed x n)" "no_http (CreateDelivery x)"
  unfolding MarkSuccess_def MarkFailed_def CreateDelivery_def Let_def by (intro untouched_intros http_requests.intros)+

lemma no_http_outcome: "no_http (record_outcome x now r)"
proof -
  have "no_http (ignore_err (MarkSuccess y))" "no_http (ignore_err (MarkFailed y 1))" for y
    by (intro untouched_intros no_http_marks)+
  then show ?thesis by (simp add: record_outcome_def untouched_def Let_def split: prod.splits)
qed

definition targeted :: "env \<Rightarrow> string \<Rightarrow> webhook \<Rightarrow> bool" where
  "targeted E eventType wh \<longleftrightarrow>
     wh_IsActive wh \<and> (wh_Events wh \<in> {None, Some []} \<or> (\<exists>ss. wh_Events wh = Some ss \<and> eventType \<in> set ss)) \<and>
     url_error E (wh_URL wh) = None"

lemma matchesEvent_iff:
  "matchesEvent subscribed t \<longleftrightarrow> subscribed \<in> {None, Some []} \<or> (\<exists>ss. subscribed = Some ss \<and> t \<in> set ss)"
  by (auto simp: matchesEvent_def list_ex_iff split: option.splits)

lemma with_auth_value_simps [simp]:
  "wh_URL (with_auth_value E k wh) = wh_URL wh" "wh_ID (with_auth_value E k wh) = wh_ID wh"
  by (simp_all add: with_auth_value_def split: option.splits sum.splits)

lemma deliver_http: "w_http (snd (deliver wh payload E w)) =
    w_http w @ (if url_error E (wh_URL wh) = None then [delivery_request E wh payload] else [])"
  by (simp add: deliver_def http_Do_def split: option.splits)

lemma dispatch_to_http:
  "w_http (snd (dispatch_to k base payload pm wh E w)) = w_http w @
     (if targeted E (be_Type base) wh then [delivery_request E (with_auth_value E k wh) payload] else [])"
proof (cases "wh_IsActive wh \<and> matchesEvent (wh_Events wh) (be_Type base)")
  case True
  let ?h = "with_auth_value E k wh"
  let ?d = "new_delivery (new_uuid E (w_tick w)) ?h base pm (clock E (Suc (w_tick w))) (clock E (Suc (Suc (w_tick w))))"
  let ?w1 = "tick_world (tick_world (tick_world w))"
  let ?w2 = "snd (CreateDelivery ?d E ?w1)"
  let ?w3 = "snd (deliver ?h payload E ?w2)"
  have "snd (dispatch_to k base payload pm wh E w) =
      snd (record_outcome ?d (clock E (w_tick ?w3)) (fst (deliver ?h payload E ?w2)) E (tick_world ?w3))"
    using True by (simp add: dispatch_to_def go_bind_def go_run uuid_New_def time_Now_def attempt_def split_beta Let_def)
  moreover have "w_http (snd (record_outcome ?d (clock E (w_tick ?w3)) (fst (deliver ?h payload E ?w2)) E (tick_world ?w3))) = w_http ?w3"
    using no_http_outcome by (simp add: untouched_def)
  moreover have "w_http ?w2 = w_http w" using no_http_marks(3) by (simp add: untouched_def)
  ultimately show ?thesis
    using True by (simp add: deliver_http targeted_def matchesEvent_iff)
next
  case False
  then show ?thesis by (auto simp: dispatch_to_def go_run targeted_def matchesEvent_iff)
qed

lemma dispatch_to_returns: "never_fails (dispatch_to k base payload pm wh)"
proof -
  have "never_fails (record_outcome x now r)" for x now r
    by (auto simp: record_outcome_def never_fails_def Let_def go_run split: prod.splits)
  moreover have "never_fails (attempt m)" for m :: "(int \<times> string) io"
    by (simp add: never_fails_def attempt_not_Inl)
  ultimately show ?thesis
    unfolding dispatch_to_def Let_def by (auto intro!: never_fails_bind never_fails_intros)
qed

lemma dispatch_all_http:
  "for_each (dispatch_to k base payload pm) hooks E w = (r, w') \<Longrightarrow>
   r = Inr () \<and> w_http w' = w_http w @ map (\<lambda>wh. delivery_request E (with_auth_value E k wh) payload) (filter (targeted E (be_Type base)) hooks)"
proof (induction hooks arbitrary: w)
  case (Cons wh hooks)
  obtain x w1 where 1: "dispatch_to k base payload pm wh E w = (x, w1)" by (rule prod.exhaust)
  with dispatch_to_returns [of k base payload pm wh] have "x = Inr ()"
    by (cases x) (auto simp: never_fails_def)
  with 1 Cons.prems have "for_each (dispatch_to k base payload pm) hooks E w1 = (r, w')"
    by (simp add: go_bind_Inr)
  from Cons.IH [OF this] dispatch_to_http [of k base payload pm wh E w] show ?case by (simp add: 1)
qed (simp add: ret_run)

text \<open>The value of the configured header: what the encrypted one decrypts to, and nothing without a key or when it does not.\<close>

definition decrypted_value :: "env \<Rightarrow> string option \<Rightarrow> webhook \<Rightarrow> string" where
  "decrypted_value E encKey wh = (case encKey of
     Some key \<Rightarrow> (case Decrypt E key (wh_AuthHeaderValueEnc wh) of Inr v \<Rightarrow> if wh_AuthHeaderValueEnc wh = [] then [] else v | Inl _ \<Rightarrow> [])
   | None \<Rightarrow> [])"

lemma canonical_names:
  "canonical_key ''User-Agent'' = ''User-Agent''" "canonical_key ''X-nGX-Event'' = ''X-Ngx-Event''"
  "canonical_key ''X-nGX-Signature'' = ''X-Ngx-Signature''" "canonical_key ''Content-Type'' = ''Content-Type''"
  by code_simp+

definition delivery_request_spec :: "env \<Rightarrow> string option \<Rightarrow> webhook \<Rightarrow> string \<Rightarrow> http_request" where
  "delivery_request_spec E encKey wh payload =
    \<lparr>hr_Method = ''POST'', hr_URL = wh_URL wh,
     hr_Header =
       (let h = [(''Content-Type'', ''application/json''),
                 (''X-Ngx-Signature'', ''sha256='' @ hex_encode (hmac_sha256 E (wh_Secret wh) payload)),
                 (''X-Ngx-Event'', ''webhook.delivery''), (''User-Agent'', ''nGX-Webhook/1.0'')];
            v = decrypted_value E encKey wh
        in case wh_AuthHeaderName wh of
             Some name \<Rightarrow> if v = [] then h else filter (\<lambda>(k, _). k \<noteq> canonical_key name) h @ [(canonical_key name, v)]
           | None \<Rightarrow> h),
     hr_Body = payload\<rparr>"

lemma delivery_request_eq:
  assumes "wh_AuthHeaderValue wh = []"
  shows "delivery_request E (with_auth_value E encKey wh) payload = delivery_request_spec E encKey wh payload"
proof -
  have "wh_Secret (with_auth_value E encKey wh) = wh_Secret wh" "wh_AuthHeaderName (with_auth_value E encKey wh) = wh_AuthHeaderName wh"
    "wh_AuthHeaderValue (with_auth_value E encKey wh) = decrypted_value E encKey wh"
    using assms by (simp_all add: with_auth_value_def decrypted_value_def split: option.splits sum.splits)
  then show ?thesis
    by (simp add: delivery_request_def delivery_request_spec_def Let_def header_set_def [of "''Content-Type''"] header_set_def [of "''X-nGX-Signature''"]
        header_set_def [of "''X-nGX-Event''"] header_set_def [of "''User-Agent''"] canonical_names split: option.splits)
      (simp add: header_set_def)
qed


text \<open>Only a failing database makes a record come back.\<close>

lemma dispatch_record_returns:
  assumes "no_faults E"
  shows "fst (dispatch_record encKey record E w) = Inr ()"
proof -
  have f: "fault E n = None" for n using assms by (simp add: no_faults_def)
  have l: "\<exists>hooks w1. ListWebhooks orgID E w = (Inr hooks, w1)" for orgID
    by (simp add: ListWebhooks_def go_success pool_exec_eq_Inr query_def f)
  have "fst (for_each (dispatch_to k base payload pm) hooks E w1) = Inr ()" for k base payload pm hooks w1
    using dispatch_all_http [of k base payload pm hooks E w1] by (metis prod.collapse)
  with l show ?thesis
    by (auto simp: dispatch_record_def go_run go_bind_def split: option.splits) (metis (no_types, lifting) old.sum.simps(6) prod.case)
qed

definition demo_event :: event where
  "demo_event = ThreadCreatedEvent \<lparr>be_ID = ''ev'', be_Type = ''thread.created'', be_OrgID = ''1'', be_OccurredAt = 0, be_CorrelationID = []\<rparr>
     8 3 ''hi'' ''9''"

definition demo_record :: sqs_message where
  "demo_record = \<lparr>sm_MessageId = ''q1'', sm_Event = Some demo_event\<rparr>"


section \<open>The delivery log\<close>

lemma dispatch_ok [keeps_intros]: "keeps_db deliveries_ok (dispatch_record encKey record)"
proof -
  have out: "keeps_db deliveries_ok (record_outcome x now r)" for x now r
  proof -
    have "keeps_db deliveries_ok (ignore_err (MarkSuccess y))" "keeps_db deliveries_ok (ignore_err (MarkFailed y 1))" for y
      by (intro keeps_intros)+
    then show ?thesis by (simp add: record_outcome_def keeps_db_iff Let_def split: prod.splits)
  qed
  have del: "keeps_db deliveries_ok (deliver wh payload)" for wh payload
    using keeps_db_http(1) by (auto simp: deliver_def keeps_db_iff split: option.splits)
  have "keeps_db deliveries_ok (dispatch_to encKey base payload pm wh)" for base payload pm wh
    unfolding dispatch_to_def Let_def by (intro keeps_intros out del) (simp add: new_delivery_def)
  then show ?thesis unfolding dispatch_record_def by (intro keeps_intros)
qed

datatype delivery_op =
    DDispatch "string option" sqs_message
  | DSuccess webhook_delivery
  | DFailed webhook_delivery int
  | DDeleteWebhook uuid uuid

fun delivery_call :: "env \<Rightarrow> delivery_op \<Rightarrow> world \<Rightarrow> world" where
  "delivery_call E (DDispatch encKey record) w = snd (dispatch_record encKey record E w)"
| "delivery_call E (DSuccess x) w = snd (MarkSuccess x E w)"
| "delivery_call E (DFailed x n) w = snd (MarkFailed x n E w)"
| "delivery_call E (DDeleteWebhook i org) w = snd (DeleteWebhook i org E w)"

lemma DeleteWebhook_ok [keeps_intros]: "keeps_db deliveries_ok (DeleteWebhook i org)"
proof -
  have "stmt_keeps deliveries_ok (webhook_delete org i)"
    by (auto simp: stmt_keeps_def webhook_delete_def Let_def deliveries_ok_def)
  then show ?thesis unfolding DeleteWebhook_def by (intro keeps_intros)
qed

text \<open>C21. Whatever events are dispatched and attempts recorded, in whichever order and with whatever faults, a
  delivery is pending, succeeded, failed or waiting for a retry; only a waiting one has a next attempt, and
  it has been tried less than eight times, a failed one at least eight times.\<close>

theorem deliveries_stay_ok:
  assumes "deliveries_ok (w_db w)"
  shows "deliveries_ok (w_db (fold (delivery_call E) ops w))"
  using assms
proof (induction ops arbitrary: w)
  case (Cons x ops)
  have "deliveries_ok (w_db (delivery_call E x w))"
    using keeps_dbD [OF dispatch_ok Cons.prems] keeps_dbD [OF Mark_ok(1) Cons.prems]
      keeps_dbD [OF Mark_ok(2) Cons.prems] keeps_dbD [OF DeleteWebhook_ok Cons.prems]
    by (cases x) simp_all
  from Cons.IH [OF this] show ?case by simp
qed simp

theorem deliveries_stay_ok_witness:
  "deliveries_ok (w_db (fold (delivery_call demo_env) [DDispatch None demo_record, DFailed demo_delivery 8] demo_delivery_world))"
  by (rule deliveries_stay_ok) (simp add: demo_delivery_world_def deliveries_ok_def delivery_ok_def demo_delivery_def)

section \<open>Listing the deliveries of a webhook\<close>

text \<open>A listing context: environment, world, webhook, organisation and requested page size.\<close>

type_synonym delivery_listing = "env \<times> world \<times> uuid \<times> uuid \<times> int"

definition delivery_listing_ok :: "delivery_listing \<Rightarrow> bool" where
  "delivery_listing_ok = (\<lambda>(E, w, i, orgID, limit).
     cursor_codec E \<and> fault E (w_tick w) = None \<and> distinct (map wd_ID (t_webhook_deliveries (w_db w))))"

definition listed_deliveries :: "delivery_listing \<Rightarrow> webhook_delivery list" where
  "listed_deliveries = (\<lambda>(E, w, i, orgID, limit).
     order_desc (\<lambda>r. (wd_CreatedAt r, wd_ID r)) (filter (delivery_page_where (w_db w) i orgID) (t_webhook_deliveries (w_db w))))"

definition delivery_listing_run :: "delivery_listing \<Rightarrow> string \<Rightarrow> webhook_delivery list \<times> string" where
  "delivery_listing_run = (\<lambda>(E, w, i, orgID, limit) cursor. listed ([], []) (fst (ListDeliveries i orgID limit cursor E w)))"

lemma ListDeliveries_run:
  assumes "fault E (w_tick w) = None" "cursor_parts cursor = Inr parts" "cursor_key E parts = Inr after"
  shows "fst (ListDeliveries i orgID limit cursor E w) =
    Inr (cut_page (nat (ClampLimit limit)) (\<lambda>x. row_cursor E (wd_CreatedAt x) (wd_ID x))
      ((keyset_select_desc (\<lambda>r. (wd_CreatedAt r, wd_ID r)) (delivery_page_where (w_db w) i orgID)
        (Suc (nat (ClampLimit limit))) after (t_webhook_deliveries (w_db w)))))"
  using assms
  by (simp add: ListDeliveries_def Let_def go_bind_def asks_def wrap_err_def pool_exec_def external_def
      run_stmt_def delivery_page_def ret_def)

interpretation delivery_lists: keyset_list delivery_listing_ok "\<lambda>(E, w, i, orgID, limit). nat (ClampLimit limit)"
  listed_deliveries "\<lambda>a b. (wd_CreatedAt b, wd_ID b) < (wd_CreatedAt a, wd_ID a)"
  "\<lambda>(E, w, i, orgID, limit) x. row_cursor E (wd_CreatedAt x) (wd_ID x)" delivery_listing_run
proof (unfold_locales, goal_cases)
  case (1 x)
  then show ?case by (cases x) simp
next
  case (2 x)
  then show ?case
    by (cases x) (auto simp: delivery_listing_ok_def listed_deliveries_def simp del: less_prod_simp
        intro!: sorted_wrt_order_desc distinct_key_pair)
next
  case (3 r s)
  then show ?case by auto
next
  case (4 x r)
  then show ?case by (cases x) simp
next
  case (5 x)
  then show ?case
    by (cases x) (auto simp: delivery_listing_ok_def delivery_listing_run_def listed_deliveries_def keyset_desc_first [where sc = id, simplified]
        ListDeliveries_run cursor_parts_def cursor_key_def)
next
  case (6 x r)
  then show ?case
    by (cases x) (simp add: delivery_listing_ok_def delivery_listing_run_def listed_deliveries_def
        keyset_desc_next [where sc = id and kk = "\<lambda>r. (wd_CreatedAt r, wd_ID r)", simplified]
        ListDeliveries_run [OF _ cursor_parts_row cursor_key_row])
qed

end
