(* ===== verification/Email_Store.thy ===== *)
theory Email_Store
  imports Outbound Footprints
begin

text \<open>
  \<open>services/email-pipeline/store/email_store.go\<close>: the statements of the e-mail pipeline.  Its updates name a
  row by its id alone; that the row belongs to the organisation at hand is up to the callers.
\<close>

section \<open>Statements\<close>

text \<open>A statement with the number of rows it affected, those of \<open>rows\<close> before it.\<close>

definition counted :: "(database \<Rightarrow> 'r list) \<Rightarrow> unit stmt \<Rightarrow> nat stmt" where
  "counted rows st now d = (case st now d of Inl e \<Rightarrow> Inl e | Inr (_, d') \<Rightarrow> Inr (length (rows d), d'))"

definition status_update :: "uuid \<Rightarrow> string \<Rightarrow> unit stmt" where
  "status_update messageID status now d = require
     [((\<forall>r \<in> set (t_messages d). mr_id r \<noteq> messageID) \<or> status \<in> set message_statuses, ''23514'')]
     ((), d\<lparr>t_messages := upd_where (\<lambda>r. mr_id r = messageID)
        (\<lambda>r. r\<lparr>mr_status := status, mr_updated_at := now\<rparr>) (t_messages d)\<rparr>)"

text \<open>\<open>CASE WHEN status = 'sending' THEN 'sent' ELSE status END\<close>\<close>

definition advance_status :: "string \<Rightarrow> string" where
  "advance_status status = (if status = ''sending'' then ''sent'' else status)"

definition sent_at_update :: "uuid \<Rightarrow> time \<Rightarrow> unit stmt" where
  "sent_at_update messageID sentAt now d = Inr ((), d\<lparr>t_messages := upd_where (\<lambda>r. mr_id r = messageID)
     (\<lambda>r. r\<lparr>mr_status := advance_status (mr_status r), mr_sent_at := Some sentAt, mr_updated_at := now\<rparr>) (t_messages d)\<rparr>)"

text \<open>The aggregate of this UPDATE sorts its distinct elements by an expression that is not one of its
  arguments.  PostgreSQL documents that it rejects that, with SQLSTATE 42P10 and whatever the rows; \<open>jsonb_merge\<close>
  says whether the server at hand does, and what it computes if not.\<close>

definition participants_merge :: "(email_address list \<Rightarrow> email_address list \<Rightarrow> email_address list) option \<Rightarrow> uuid \<Rightarrow>
    email_address list \<Rightarrow> unit stmt" where
  "participants_merge merge threadID new now d =
     (case merge of
        None \<Rightarrow> Inl (PgError ''42P10'')
      | Some f \<Rightarrow> Inr ((), d\<lparr>t_threads := upd_where (\<lambda>r. tr_id r = threadID)
          (\<lambda>r. r\<lparr>tr_participants := f (tr_participants r) new, tr_updated_at := now\<rparr>) (t_threads d)\<rparr>))"

section \<open>The store's methods\<close>

definition EmailStore_GetInboxByAddress :: "string \<Rightarrow> inbox io" where
  "EmailStore_GetInboxByAddress address =
     pool_exec (query_row (\<lambda>d. filter (\<lambda>r. ib_Email r = address \<and> ib_Status r = ''active'') (t_inboxes d)))"

definition EmailStore_FindThreadByMessageIDs :: "uuid \<Rightarrow> uuid \<Rightarrow> string list \<Rightarrow> thread io" where
  "EmailStore_FindThreadByMessageIDs orgID inboxID msgIDs =
     go_bind (\<lambda>E w. tx_exec (thread_select_by_headers (any_row E (w_tick w)) orgID inboxID msgIDs) E w) (\<lambda>r.
     ret (scanThread r))"

definition EmailStore_CreateThread :: "thread \<Rightarrow> unit io" where
  "EmailStore_CreateThread thread = wrap_err ''insert thread'' (tx_exec (thread_insert (thread_insert_row thread)))"

definition EmailStore_CreateMessage :: "message \<Rightarrow> unit io" where
  "EmailStore_CreateMessage msg = wrap_err ''insert message'' (tx_exec (message_insert (message_insert_row msg)))"

definition EmailStore_CreateAttachment :: "attachment \<Rightarrow> unit io" where
  "EmailStore_CreateAttachment att = wrap_err ''insert attachment'' (tx_exec (attachment_insert att))"

definition EmailStore_MergeThreadParticipants :: "uuid \<Rightarrow> email_address list \<Rightarrow> unit io" where
  "EmailStore_MergeThreadParticipants threadID newParticipants =
     (if newParticipants = [] then ret ()
      else go_bind (asks jsonb_merge) (\<lambda>merge.
        wrap_err ''merge thread participants'' (tx_exec (participants_merge merge threadID newParticipants))))"

definition EmailStore_IncrThreadMessageCount :: "uuid \<Rightarrow> time \<Rightarrow> string \<Rightarrow> unit io" where
  "EmailStore_IncrThreadMessageCount threadID at snippet =
     go_bind (asks fmt_uuid) (\<lambda>fmt.
     go_bind (wrap_err ''update thread message count''
       (tx_exec (counted (\<lambda>d. filter (\<lambda>r. tr_id r = threadID) (t_threads d)) (thread_incr threadID at snippet)))) (\<lambda>n.
     fail_if (n = 0) (Errorf (''thread not found: '' @ fmt threadID))))"

text \<open>The columns is\_read, is\_starred and has\_attachments are not among those selected, so their fields
  keep their zero values.\<close>

definition scanMessageByID :: "message_row \<Rightarrow> message" where
  "scanMessageByID r = (scanMessage r)\<lparr>m_IsRead := False, m_IsStarred := False, m_HasAttachments := False\<rparr>"

definition EmailStore_GetMessageByID :: "uuid \<Rightarrow> uuid \<Rightarrow> message io" where
  "EmailStore_GetMessageByID orgID messageID =
     go_bind (tx_exec (message_select orgID messageID)) (\<lambda>r. ret (scanMessageByID r))"

definition message_with_id :: "uuid \<Rightarrow> database \<Rightarrow> message_row list" where
  "message_with_id messageID d = filter (\<lambda>r. mr_id r = messageID) (t_messages d)"

definition EmailStore_UpdateMessageStatus :: "uuid \<Rightarrow> string \<Rightarrow> unit io" where
  "EmailStore_UpdateMessageStatus messageID status =
     go_bind (asks fmt_uuid) (\<lambda>fmt.
     go_bind (wrap_err ''update message status''
       (tx_exec (counted (message_with_id messageID) (status_update messageID status)))) (\<lambda>n.
     fail_if (n = 0) (Errorf (''message not found: '' @ fmt messageID))))"

definition EmailStore_GetAttachmentsByMessageID :: "uuid \<Rightarrow> uuid \<Rightarrow> attachment list io" where
  "EmailStore_GetAttachmentsByMessageID orgID messageID =
     wrap_err ''query attachments'' (pool_exec (query (message_attachments orgID messageID)))"

definition EmailStore_UpdateMessageSentAt :: "uuid \<Rightarrow> time \<Rightarrow> unit io" where
  "EmailStore_UpdateMessageSentAt messageID sentAt =
     go_bind (asks fmt_uuid) (\<lambda>fmt.
     go_bind (wrap_err ''update message sent_at''
       (tx_exec (counted (message_with_id messageID) (sent_at_update messageID sentAt)))) (\<lambda>n.
     fail_if (n = 0) (Errorf (''message not found: '' @ fmt messageID))))"

section \<open>Runs of the store's methods\<close>

lemma counted_eq_Inr: "counted rows st now d = Inr (n, d') \<longleftrightarrow> n = length (rows d) \<and> st now d = Inr ((), d')"
  by (auto simp: counted_def split: sum.splits prod.splits)

lemma stmt_keeps_counted [keeps_intros]: "stmt_keeps Q st \<Longrightarrow> stmt_keeps Q (counted rows st)"
  unfolding stmt_keeps_def counted_eq_Inr by blast

lemma email_store_reads [keeps_intros]:
  "keeps_db Q (EmailStore_GetInboxByAddress a)" "keeps_db Q (EmailStore_GetMessageByID orgID i)"
  "keeps_db Q (EmailStore_GetAttachmentsByMessageID orgID i)" "keeps_db Q (EmailStore_FindThreadByMessageIDs orgID ib ids)"
proof -
  have "keeps_db Q (tx_exec (thread_select_by_headers n orgID ib ids))" for n
    unfolding thread_select_by_headers_def by (intro keeps_intros)
  then have "keeps_db Q (\<lambda>E w. tx_exec (thread_select_by_headers (any_row E (w_tick w)) orgID ib ids) E w)"
    by (simp add: keeps_db_iff)
  then show "keeps_db Q (EmailStore_FindThreadByMessageIDs orgID ib ids)"
    unfolding EmailStore_FindThreadByMessageIDs_def by (intro keeps_intros)
qed (unfold EmailStore_GetInboxByAddress_def EmailStore_GetMessageByID_def EmailStore_GetAttachmentsByMessageID_def
    message_select_def, (intro keeps_intros)+)

lemma status_update_eq_Inr:
  "status_update i st now d = Inr (u, d') \<longleftrightarrow>
     ((\<forall>r \<in> set (t_messages d). mr_id r \<noteq> i) \<or> st \<in> set message_statuses) \<and>
     d' = d\<lparr>t_messages := upd_where (\<lambda>r. mr_id r = i) (\<lambda>r. r\<lparr>mr_status := st, mr_updated_at := now\<rparr>) (t_messages d)\<rparr>"
  by (auto simp: status_update_def require_eq_Inr)

lemma EmailStore_UpdateMessageStatus_success:
  assumes "EmailStore_UpdateMessageStatus i st E w = (Inr u, w')"
  shows "w' = (tick_world w)\<lparr>w_db := (w_db w)\<lparr>t_messages := upd_where (\<lambda>r. mr_id r = i)
      (\<lambda>r. r\<lparr>mr_status := st, mr_updated_at := w_now w\<rparr>) (t_messages (w_db w))\<rparr>\<rparr> \<and>
    message_with_id i (w_db w) \<noteq> [] \<and> \<not> w_failed w"
  using assms by (auto simp: EmailStore_UpdateMessageStatus_def go_success tx_exec_eq_Inr counted_eq_Inr status_update_eq_Inr)

lemma EmailStore_UpdateMessageSentAt_success:
  assumes "EmailStore_UpdateMessageSentAt i t E w = (Inr u, w')"
  shows "w' = (tick_world w)\<lparr>w_db := (w_db w)\<lparr>t_messages := upd_where (\<lambda>r. mr_id r = i)
      (\<lambda>r. r\<lparr>mr_status := advance_status (mr_status r), mr_sent_at := Some t, mr_updated_at := w_now w\<rparr>) (t_messages (w_db w))\<rparr>\<rparr> \<and>
    message_with_id i (w_db w) \<noteq> []"
  using assms by (auto simp: EmailStore_UpdateMessageSentAt_def go_success tx_exec_eq_Inr counted_eq_Inr sent_at_update_def)

lemma EmailStore_GetMessageByID_success:
  assumes "EmailStore_GetMessageByID orgID i E w = (Inr m, w')"
  obtains r where "r \<in> set (t_messages (w_db w))" "mr_org_id r = orgID" "mr_id r = i" "m = scanMessageByID r"
    "w' = tick_world w" "\<not> w_failed w" "fault E (w_tick w) = None"
  using assms by (auto simp: EmailStore_GetMessageByID_def go_success tx_exec_eq_Inr dest!: message_select_eq_Inr)

lemma scanMessageByID_simps [simp]:
  "m_HasAttachments (scanMessageByID r) = False" "m_To (scanMessageByID r) = mr_to_addresses r"
  "m_Cc (scanMessageByID r) = mr_cc_addresses r" "m_Bcc (scanMessageByID r) = mr_bcc_addresses r"
  "m_ID (scanMessageByID r) = mr_id r" "m_TextS3Key (scanMessageByID r) = mr_body_text_key r"
  "m_HtmlS3Key (scanMessageByID r) = mr_body_html_key r"
  by (simp_all add: scanMessageByID_def scanMessage_def)

end
