(* ===== verification/Email_Inbound.thy ===== *)
theory Email_Inbound
  imports Email_Store Mime
begin

text \<open>
  \<open>lambdas/email_inbound/main.go\<close>: the worker that stores a received mail, as found in the object store, in
  every inbox it is addressed to.
\<close>

section \<open>Helpers\<close>

text \<open>\<open>url.QueryUnescape\<close>\<close>

fun query_unescape :: "string \<Rightarrow> string option" where
  "query_unescape [] = Some []"
| "query_unescape (c # s) =
     (if c = CHR ''+'' then map_option (Cons (CHR '' '')) (query_unescape s)
      else if c = CHR ''%'' then
        (case s of
           a # b # t \<Rightarrow> (case (hex_val a, hex_val b) of
               (Some x, Some y) \<Rightarrow> map_option (Cons (char_of (16 * x + y))) (query_unescape t)
             | _ \<Rightarrow> None)
         | _ \<Rightarrow> None)
      else map_option (Cons c) (query_unescape s))"

definition buildSnippet :: "string \<Rightarrow> nat \<Rightarrow> string" where
  "buildSnippet text maxLen =
     (let s = replace_char (CHR 0x0D) [] (replace_char (CHR 0x0A) '' '' (trim_space text))
      in if length s > maxLen then take maxLen s else s)"

definition convertAddresses :: "email_address list \<Rightarrow> email_address list" where
  "convertAddresses addrs = map (\<lambda>a. \<lparr>ea_Email = ea_Email a, ea_Name = ea_Name a\<rparr>) addrs"

definition buildParticipants :: "parsed_email \<Rightarrow> email_address list" where
  "buildParticipants parsed = participants_of (pe_From parsed) (pe_To parsed) (pe_CC parsed)"

section \<open>Uploads\<close>

record inbound_worker =
  iw_emailsS3 :: string
  iw_publisher :: publisher

text \<open>The key of an uploaded body, or nothing when there is no body or the upload fails.\<close>

definition upload_body :: "string \<Rightarrow> string \<Rightarrow> string \<Rightarrow> string \<Rightarrow> string io" where
  "upload_body bucket key body contentType =
     (if body \<noteq> [] then
        go_bind (attempt (S3_Upload bucket key body contentType)) (\<lambda>r. ret (case r of Inl _ \<Rightarrow> [] | Inr _ \<Rightarrow> key))
      else ret [])"

text \<open>Parts without a name are stored only if they are inline; a part whose upload fails is left out.\<close>

fun upload_parts :: "string \<Rightarrow> string \<Rightarrow> uuid \<Rightarrow> uuid \<Rightarrow> time \<Rightarrow> parsed_part list \<Rightarrow> attachment list io" where
  "upload_parts bucket prefix orgID msgID now [] = ret []"
| "upload_parts bucket prefix orgID msgID now (part # parts) =
     (if pp_Filename part = [] \<and> \<not> pp_IsInline part then upload_parts bucket prefix orgID msgID now parts
      else go_bind (asks fmt_uuid) (\<lambda>fmt.
        let filename = (if pp_Filename part = [] then pp_ContentID part else pp_Filename part);
            attKey = prefix @ ''/attachments/'' @ fmt msgID @ ''/'' @ filename in
        go_bind (attempt (S3_Upload bucket attKey (pp_Data part) (pp_ContentType part))) (\<lambda>r.
        case r of
          Inl _ \<Rightarrow> upload_parts bucket prefix orgID msgID now parts
        | Inr _ \<Rightarrow>
            go_bind uuid_New (\<lambda>u. go_bind (upload_parts bucket prefix orgID msgID now parts) (\<lambda>atts.
            ret (\<lparr>at_ID = u, at_OrgID = orgID, at_MessageID = Some msgID, at_DraftID = None, at_Filename = filename,
              at_ContentType = pp_ContentType part, at_ContentID = pp_ContentID part, at_Inline = pp_IsInline part,
              at_SizeBytes = int (length (pp_Data part)), at_S3Key = attKey, at_CreatedAt = now\<rparr> # atts))))))"

section \<open>The transaction\<close>

definition lookup_ids :: "parsed_email \<Rightarrow> string list" where
  "lookup_ids parsed = (if pe_InReplyTo parsed \<noteq> [] then [pe_InReplyTo parsed] else []) @ pe_References parsed"

definition find_thread :: "inbox \<Rightarrow> parsed_email \<Rightarrow> thread option io" where
  "find_thread inbox parsed =
     (if lookup_ids parsed \<noteq> [] then
        go_bind (attempt (EmailStore_FindThreadByMessageIDs (ib_OrgID inbox) (ib_ID inbox) (lookup_ids parsed))) (\<lambda>r.
        case r of
          Inl e \<Rightarrow> if \<not> IsNotFound e then throw (Wrap ''find thread'' e) else ret None
        | Inr found \<Rightarrow> ret (Some found))
      else ret None)"

definition new_thread :: "inbox \<Rightarrow> parsed_email \<Rightarrow> string \<Rightarrow> time \<Rightarrow> uuid \<Rightarrow> thread" where
  "new_thread inbox parsed snippet now i =
     \<lparr>th_ID = i, th_OrgID = ib_OrgID inbox, th_InboxID = ib_ID inbox, th_Subject = pe_Subject parsed, th_Snippet = snippet,
      th_Status = ThreadStatusOpen, th_IsRead = False, th_IsStarred = False, th_MessageCount = 0,
      th_Participants = buildParticipants parsed, th_LastMessageAt = None, th_Labels = [],
      th_CreatedAt = now, th_UpdatedAt = now\<rparr>"

definition thread_for :: "inbox \<Rightarrow> parsed_email \<Rightarrow> string \<Rightarrow> time \<Rightarrow> thread option \<Rightarrow> (uuid \<times> bool) io" where
  "thread_for inbox parsed snippet now found =
     (case found of
        Some thread \<Rightarrow> ret (th_ID thread, False)
      | None \<Rightarrow>
          go_bind uuid_New (\<lambda>i.
          go_bind (wrap_err ''create thread'' (EmailStore_CreateThread (new_thread inbox parsed snippet now i))) (\<lambda>_.
          ret (i, True))))"

text \<open>What the transaction is given: the raw key and size, the uploaded bodies and attachments.\<close>

record inbound_parts =
  in_RawKey :: string
  in_RawSize :: int
  in_TextKey :: string
  in_HtmlKey :: string
  in_Attachments :: "attachment list"

definition inbound_message :: "inbox \<Rightarrow> parsed_email \<Rightarrow> inbound_parts \<Rightarrow> string \<Rightarrow> time \<Rightarrow> uuid \<Rightarrow> uuid \<Rightarrow> message" where
  "inbound_message inbox parsed p snippet now msgID threadID =
     \<lparr>m_ID = msgID, m_OrgID = ib_OrgID inbox, m_InboxID = ib_ID inbox, m_ThreadID = threadID,
      m_MessageID = pe_MessageID parsed, m_InReplyTo = pe_InReplyTo parsed, m_References = pe_References parsed,
      m_Direction = DirectionInbound, m_Status = MessageStatusReceived, m_Subject = pe_Subject parsed,
      m_From = \<lparr>ea_Email = ea_Email (pe_From parsed), ea_Name = ea_Name (pe_From parsed)\<rparr>,
      m_To = convertAddresses (pe_To parsed), m_Cc = convertAddresses (pe_CC parsed), m_Bcc = [],
      m_ReplyTo = pe_ReplyTo parsed, m_RawS3Key = in_RawKey p, m_HtmlS3Key = in_HtmlKey p, m_TextS3Key = in_TextKey p,
      m_SizeBytes = in_RawSize p, m_Headers = (case pe_Headers parsed of None \<Rightarrow> [] | Some h \<Rightarrow> h), m_Metadata = [],
      m_IsRead = False, m_IsStarred = False, m_HasAttachments = in_Attachments p \<noteq> [], m_Snippet = snippet,
      m_SentAt = None, m_ReceivedAt = Some now, m_Attachments = [], m_CreatedAt = now, m_UpdatedAt = now\<rparr>"

definition store_inbound :: "inbox \<Rightarrow> parsed_email \<Rightarrow> inbound_parts \<Rightarrow> string \<Rightarrow> time \<Rightarrow> uuid \<Rightarrow> (message \<times> bool) io" where
  "store_inbound inbox parsed p snippet now msgID =
     go_bind (find_thread inbox parsed) (\<lambda>found.
     go_bind (thread_for inbox parsed snippet now found) (\<lambda>(threadID, isNewThread).
     let message = inbound_message inbox parsed p snippet now msgID threadID in
     go_bind (wrap_err ''create message'' (EmailStore_CreateMessage message)) (\<lambda>_.
     go_bind (for_each (\<lambda>a. ignore_err (EmailStore_CreateAttachment a)) (in_Attachments p)) (\<lambda>_.
     go_bind (EmailStore_IncrThreadMessageCount threadID now snippet) (\<lambda>_.
     go_bind (if \<not> isNewThread then ignore_err (EmailStore_MergeThreadParticipants threadID (buildParticipants parsed)) else ret ()) (\<lambda>_.
     ret (message, isNewThread)))))))"

section \<open>Recipients, objects and batches\<close>

definition publish_received :: "publisher \<Rightarrow> inbox \<Rightarrow> parsed_email \<Rightarrow> string \<Rightarrow> inbound_parts \<Rightarrow> message \<Rightarrow> bool \<Rightarrow> unit io" where
  "publish_received pub inbox parsed snippet p message isNewThread =
     go_bind (NewBase EventMessageReceived (ib_OrgID inbox)) (\<lambda>base. go_bind (asks fmt_uuid) (\<lambda>fmt.
     go_bind (ignore_err (PublishEvent pub (MessageReceivedEvent base
       (MessagePayloadFromModel fmt message (pe_BodyText parsed) (pe_BodyHTML parsed) snippet (in_Attachments p)) (in_RawKey p)))) (\<lambda>_.
     if isNewThread then
       go_bind (NewBase EventThreadCreated (ib_OrgID inbox)) (\<lambda>base.
       ignore_err (PublishEvent pub (ThreadCreatedEvent base (m_ThreadID message) (ib_ID inbox) (pe_Subject parsed) (fmt (m_ID message)))))
     else ret ())))"

definition deliver_to :: "inbound_worker \<Rightarrow> string \<Rightarrow> string \<Rightarrow> parsed_email \<Rightarrow> inbox \<Rightarrow> unit io" where
  "deliver_to cfg rawS3Key rawData parsed inbox =
     go_bind uuid_New (\<lambda>msgID. go_bind time_Now (\<lambda>now. go_bind (asks fmt_uuid) (\<lambda>fmt.
     let podSegment = (case ib_PodID inbox of None \<Rightarrow> ''no-pod'' | Some pod \<Rightarrow> fmt pod);
         prefix = fmt (ib_OrgID inbox) @ ''/'' @ podSegment @ ''/'' @ fmt (ib_ID inbox) in
     go_bind (upload_body (iw_emailsS3 cfg) (prefix @ ''/text/'' @ fmt msgID @ ''.txt'') (pe_BodyText parsed) ''text/plain; charset=utf-8'') (\<lambda>textKey.
     go_bind (upload_body (iw_emailsS3 cfg) (prefix @ ''/html/'' @ fmt msgID @ ''.html'') (pe_BodyHTML parsed) ''text/html; charset=utf-8'') (\<lambda>htmlKey.
     let snippet = buildSnippet (pe_BodyText parsed) 200 in
     go_bind (upload_parts (iw_emailsS3 cfg) prefix (ib_OrgID inbox) msgID now (pe_Parts parsed)) (\<lambda>atts.
     let p = \<lparr>in_RawKey = rawS3Key, in_RawSize = int (length rawData), in_TextKey = textKey, in_HtmlKey = htmlKey, in_Attachments = atts\<rparr> in
     go_bind (wrap_err ''db transaction'' (WithOrgTx (ib_OrgID inbox) (store_inbound inbox parsed p snippet now msgID))) (\<lambda>(message, isNewThread).
     publish_received (iw_publisher cfg) inbox parsed snippet p message isNewThread)))))))"

definition processForRecipient :: "inbound_worker \<Rightarrow> string \<Rightarrow> string \<Rightarrow> parsed_email \<Rightarrow> email_address \<Rightarrow> unit io" where
  "processForRecipient cfg rawS3Key rawData parsed recipient =
     go_bind (attempt (EmailStore_GetInboxByAddress (ea_Email recipient))) (\<lambda>r.
     case r of
       Inl e \<Rightarrow> if IsNotFound e then ret () else throw (Wrap (''lookup inbox for '' @ ea_Email recipient) e)
     | Inr inbox \<Rightarrow> deliver_to cfg rawS3Key rawData parsed inbox)"

text \<open>The parsed mail, or the zero value after a parse error; \<open>mime_Parse\<close> always returns.\<close>

definition parsed_or_empty :: "mail_lib \<Rightarrow> string \<Rightarrow> parsed_email" where
  "parsed_or_empty lib raw = (case mime_Parse lib raw of Some (Inr parsed) \<Rightarrow> parsed | _ \<Rightarrow> empty_email)"

definition recipients :: "parsed_email \<Rightarrow> email_address list" where
  "recipients parsed = pe_To parsed @ pe_CC parsed"

definition processS3Object :: "inbound_worker \<Rightarrow> string \<Rightarrow> unit io" where
  "processS3Object cfg s3Key =
     go_bind (wrap_err (''download from S3 '' @ s3Key) (S3_Download (iw_emailsS3 cfg) s3Key)) (\<lambda>rawData.
     go_bind (asks (\<lambda>E. parsed_or_empty (mail_lib E) rawData)) (\<lambda>parsed.
     if recipients parsed = [] then ret ()
     else for_each (\<lambda>rcpt. ignore_err (processForRecipient cfg s3Key rawData parsed rcpt)) (recipients parsed)))"

definition object_key :: "string \<Rightarrow> string" where
  "object_key raw = (case query_unescape raw of None \<Rightarrow> raw | Some key \<Rightarrow> key)"

definition inbound_handler :: "inbound_worker \<Rightarrow> string list \<Rightarrow> unit io" where
  "inbound_handler cfg keys = for_each (\<lambda>raw. processS3Object cfg (object_key raw)) keys"

end
