(* ===== verification/Inbound_Delivery.thy ===== *)
theory Inbound_Delivery
  imports Email_Inbound Demo
begin

text \<open>
  What a received mail leaves in the database: the message it becomes in each inbox, the thread it joins or
  opens, and the replies that are lost.
\<close>

section \<open>Runs of the steps\<close>

lemma insert_not_missing:
  "attachment_insert a now d \<noteq> Inl ErrNoRows" "participants_merge m i xs now d \<noteq> Inl ErrNoRows"
proof -
  have "require cs x \<noteq> Inl ErrNoRows" for cs and x :: "unit \<times> database"
    by (induction cs x rule: require.induct) (simp_all add: require.simps)
  then show "attachment_insert a now d \<noteq> Inl ErrNoRows" unfolding attachment_insert_def .
  show "participants_merge m i xs now d \<noteq> Inl ErrNoRows"
    by (simp add: participants_merge_def split: option.split)
qed

lemma CreateAttachment_not_failed:
  assumes "ignore_err (EmailStore_CreateAttachment a) E w = (r, w')" "\<not> w_failed w'"
  shows "\<not> w_failed w \<and> w_db w' = (w_db w)\<lparr>t_attachments := t_attachments (w_db w) @ [a]\<rparr> \<and> w_now w' = w_now w"
proof -
  obtain s where "tx_exec (attachment_insert a) E w = (s, w')"
    using assms(1) by (cases "tx_exec (attachment_insert a) E w") (auto simp: EmailStore_CreateAttachment_def ignore_err_run)
  from tx_exec_not_failed [OF this assms(2)] show ?thesis
    by (auto simp: insert_not_missing split: sum.splits dest!: attachment_insert_eq_Inr)
qed

lemma CreateAttachments_not_failed:
  assumes "for_each (\<lambda>a. ignore_err (EmailStore_CreateAttachment a)) as E w = (r, w')" "\<not> w_failed w'"
  shows "\<not> w_failed w \<and> w_db w' = (w_db w)\<lparr>t_attachments := t_attachments (w_db w) @ as\<rparr> \<and> w_now w' = w_now w"
  using assms
proof (induction as arbitrary: w)
  case Nil
  then show ?case by (auto simp: ret_run)
next
  case (Cons a as)
  obtain w1 where a: "ignore_err (EmailStore_CreateAttachment a) E w = (Inr (), w1)" by (simp add: ignore_err_run)
  then have "for_each (\<lambda>a. ignore_err (EmailStore_CreateAttachment a)) as E w1 = (r, w')"
    using Cons.prems(1) by (simp add: go_bind_def)
  from Cons.IH [OF this Cons.prems(2)] CreateAttachment_not_failed [OF a] show ?case by simp
qed

lemma MergeThreadParticipants_not_failed:
  assumes "ignore_err (EmailStore_MergeThreadParticipants i xs) E w = (r, w')" "\<not> w_failed w'"
  shows "xs = [] \<and> w' = w \<or>
    (\<exists>f. jsonb_merge E = Some f \<and> w_db w' = (w_db w)\<lparr>t_threads := upd_where (\<lambda>r. tr_id r = i)
       (\<lambda>r. r\<lparr>tr_participants := f (tr_participants r) xs, tr_updated_at := w_now w\<rparr>) (t_threads (w_db w))\<rparr>)"
proof (cases "xs = []")
  case True
  with assms show ?thesis by (simp add: EmailStore_MergeThreadParticipants_def ignore_err_run ret_run)
next
  case False
  with assms(1) obtain s where "tx_exec (participants_merge (jsonb_merge E) i xs) E w = (s, w')"
    by (cases "tx_exec (participants_merge (jsonb_merge E) i xs) E w")
      (auto simp: EmailStore_MergeThreadParticipants_def ignore_err_run go_bind_def asks_run)
  from tx_exec_not_failed [OF this assms(2)] show ?thesis
    by (auto simp: insert_not_missing participants_merge_def split: sum.splits option.splits)
qed

lemma IncrThreadMessageCount_success:
  assumes "EmailStore_IncrThreadMessageCount i t s E w = (Inr u, w')"
  shows "\<not> w_failed w \<and> w_now w' = w_now w \<and> w_db w' = (w_db w)\<lparr>t_threads := upd_where (\<lambda>r. tr_id r = i)
     (\<lambda>r. r\<lparr>tr_message_count := tr_message_count r + 1, tr_last_message_at := Some t, tr_snippet := s,
            tr_updated_at := w_now w\<rparr>) (t_threads (w_db w))\<rparr>"
  using assms by (auto simp: EmailStore_IncrThreadMessageCount_def go_success tx_exec_eq_Inr counted_eq_Inr thread_incr_def)

section \<open>The thread of a mail\<close>

text \<open>\<open>t\<close> is a thread of the inbox that holds a message which the mail names in In-Reply-To or References.\<close>

definition replies_in :: "inbox \<Rightarrow> parsed_email \<Rightarrow> database \<Rightarrow> thread_row \<Rightarrow> bool" where
  "replies_in ib parsed d t \<longleftrightarrow> t \<in> set (t_threads d) \<and> tr_org_id t = ib_OrgID ib \<and> tr_inbox_id t = ib_ID ib \<and>
     (\<exists>m \<in> set (t_messages d). mr_thread_id m = tr_id t \<and> mr_message_id_header m \<in> set (lookup_ids parsed))"

lemma select_by_headers_result:
  "thread_select_by_headers n (ib_OrgID ib) (ib_ID ib) (lookup_ids parsed) now d = Inl e \<Longrightarrow>
     e = ErrNoRows \<and> (\<forall>t. \<not> replies_in ib parsed d t)"
  "thread_select_by_headers n (ib_OrgID ib) (ib_ID ib) (lookup_ids parsed) now d = Inr (t, d') \<Longrightarrow>
     d' = d \<and> replies_in ib parsed d t"
proof -
  let ?rows = "filter (\<lambda>t. tr_org_id t = ib_OrgID ib \<and> tr_inbox_id t = ib_ID ib \<and>
        (\<exists>m \<in> set (t_messages d). mr_thread_id m = tr_id t \<and> mr_message_id_header m \<in> set (lookup_ids parsed))) (t_threads d)"
  have rows: "t \<in> set ?rows \<longleftrightarrow> replies_in ib parsed d t" for t by (auto simp: replies_in_def)
  have sel: "thread_select_by_headers n (ib_OrgID ib) (ib_ID ib) (lookup_ids parsed) now d =
      (if ?rows = [] then Inl ErrNoRows else Inr (?rows ! (n mod length ?rows), d))"
    by (simp add: thread_select_by_headers_def query_row_def first_row_def rotate_to_def)
  have mem: "?rows \<noteq> [] \<Longrightarrow> replies_in ib parsed d (?rows ! (n mod length ?rows))"
    unfolding rows [symmetric] by (rule nth_mem) simp
  show "thread_select_by_headers n (ib_OrgID ib) (ib_ID ib) (lookup_ids parsed) now d = Inl e \<Longrightarrow>
     e = ErrNoRows \<and> (\<forall>t. \<not> replies_in ib parsed d t)"
    unfolding sel rows [symmetric] by (metis (no_types, lifting) Inl_inject empty_iff list.set(1) sum.distinct(1))
  show "thread_select_by_headers n (ib_OrgID ib) (ib_ID ib) (lookup_ids parsed) now d = Inr (t, d') \<Longrightarrow>
     d' = d \<and> replies_in ib parsed d t"
    unfolding sel using mem by (metis (no_types, lifting) Inr_inject Pair_inject sum.distinct(1))
qed

lemma find_thread_success:
  assumes "find_thread ib parsed E w = (Inr found, w')"
  shows "w_db w' = w_db w \<and> w_now w' = w_now w \<and> w_failed w' = w_failed w \<and>
    (case found of None \<Rightarrow> \<forall>t. \<not> replies_in ib parsed (w_db w) t
     | Some th \<Rightarrow> \<exists>t. replies_in ib parsed (w_db w) t \<and> th = scanThread t)"
proof (cases "lookup_ids parsed = []")
  case True
  with assms show ?thesis by (auto simp: find_thread_def ret_eq_Inr replies_in_def)
next
  case False
  let ?st = "thread_select_by_headers (any_row E (w_tick w)) (ib_OrgID ib) (ib_ID ib) (lookup_ids parsed)"
  obtain r w1 where r: "tx_exec ?st E w = (r, w1)" by (rule prod.exhaust)
  show ?thesis
  proof (cases r)
    case (Inl e)
    with r assms False have e: "IsNotFound e" "found = None" "w' = w1"
      by (auto simp: find_thread_def go_bind_def attempt_def EmailStore_FindThreadByMessageIDs_def ret_run throw_run split: if_splits)
    from r Inl e(1) have "\<not> w_failed w1 \<and> w_failed w = False" "?st (w_now w) (w_db w) = Inl ErrNoRows"  "w1 = tick_world w"
      by (auto simp: tx_exec_def external_def run_stmt_def IsNotFound_def split: option.splits sum.splits prod.splits if_splits
          dest: select_by_headers_result(1))
    with e select_by_headers_result(1) [of _ ib parsed] show ?thesis by auto
  next
    case (Inr t)
    with r assms False have "found = Some (scanThread t)" "w' = w1"
      by (auto simp: find_thread_def go_bind_def attempt_def EmailStore_FindThreadByMessageIDs_def ret_run)
    moreover from r Inr obtain d where "?st (w_now w) (w_db w) = Inr (t, d)" "w1 = (tick_world w)\<lparr>w_db := d\<rparr>" "\<not> w_failed w"
      by (auto simp: tx_exec_eq_Inr)
    moreover from select_by_headers_result(2) [OF this(1)] have "d = w_db w" "replies_in ib parsed (w_db w) t" by simp_all
    ultimately show ?thesis by auto
  qed
qed

lemma thread_for_success:
  assumes "thread_for ib parsed snippet now found E w = (Inr (i, isNew), w')"
  shows "w_now w' = w_now w \<and>
    (case found of
       Some th \<Rightarrow> i = th_ID th \<and> \<not> isNew \<and> w' = w
     | None \<Rightarrow> isNew \<and> i \<notin> set (map tr_id (t_threads (w_db w))) \<and>
         w_db w' = (w_db w)\<lparr>t_threads := t_threads (w_db w) @ [thread_insert_row (new_thread ib parsed snippet now i)]\<rparr>)"
proof (cases found)
  case None
  with assms show ?thesis
    by (auto simp: thread_for_def go_success uuid_New_eq_Inr EmailStore_CreateThread_def tx_exec_eq_Inr thread_insert_eq_Inr
        new_thread_def has_key_def)
next
  case (Some th)
  with assms show ?thesis by (auto simp: thread_for_def ret_eq_Inr)
qed

lemma CreateMessage_success:
  assumes "EmailStore_CreateMessage m E w = (Inr u, w')"
  shows "w_now w' = w_now w \<and> w_db w' = (w_db w)\<lparr>t_messages := t_messages (w_db w) @ [message_insert_row m]\<rparr>"
  using assms by (auto simp: EmailStore_CreateMessage_def go_success tx_exec_eq_Inr message_insert_eq_Inr)

text \<open>What one more message does to its thread.\<close>

definition thread_grown :: "time \<Rightarrow> string \<Rightarrow> thread_row \<Rightarrow> thread_row \<Rightarrow> bool" where
  "thread_grown now snippet t t' \<longleftrightarrow>
     t' = t\<lparr>tr_message_count := tr_message_count t + 1, tr_last_message_at := Some now, tr_snippet := snippet,
       tr_participants := tr_participants t', tr_updated_at := tr_updated_at t'\<rparr>"

lemma store_inbound_success:
  assumes "store_inbound ib parsed p snippet now msgID E w = (Inr (m, isNew), w')" "\<not> w_failed w'"
  shows "m = inbound_message ib parsed p snippet now msgID (m_ThreadID m) \<and>
    (\<exists>T. w_db w' = (w_db w)\<lparr>t_threads := T, t_messages := t_messages (w_db w) @ [message_insert_row m],
        t_attachments := t_attachments (w_db w) @ in_Attachments p\<rparr> \<and>
      (if isNew then (\<forall>t. \<not> replies_in ib parsed (w_db w) t) \<and>
         (\<exists>t'. T = t_threads (w_db w) @ [t'] \<and>
            thread_grown now snippet (thread_insert_row (new_thread ib parsed snippet now (m_ThreadID m))) t' \<and>
            m_ThreadID m \<notin> set (map tr_id (t_threads (w_db w))))
       else (\<exists>t g. replies_in ib parsed (w_db w) t \<and> m_ThreadID m = tr_id t \<and> T = upd_where (\<lambda>r. tr_id r = tr_id t) g (t_threads (w_db w)) \<and>
          (\<forall>r. thread_grown now snippet r (g r)) \<and> (buildParticipants parsed = [] \<or> jsonb_merge E \<noteq> None))))"
proof -
  from assms(1) obtain found w1 i w2 w3 u4 w4 w5 u6 where
    f: "find_thread ib parsed E w = (Inr found, w1)" and
    t: "thread_for ib parsed snippet now found E w1 = (Inr (i, isNew), w2)" and
    c: "EmailStore_CreateMessage (inbound_message ib parsed p snippet now msgID i) E w2 = (Inr (), w3)" and
    a: "for_each (\<lambda>a. ignore_err (EmailStore_CreateAttachment a)) (in_Attachments p) E w3 = (Inr u4, w4)" and
    n: "EmailStore_IncrThreadMessageCount i now snippet E w4 = (Inr (), w5)" and
    g: "(if \<not> isNew then ignore_err (EmailStore_MergeThreadParticipants i (buildParticipants parsed)) else ret ()) E w5 = (Inr u6, w')" and
    m: "m = inbound_message ib parsed p snippet now msgID i"
    by (auto simp: store_inbound_def Let_def go_bind_eq_Inr ret_eq_Inr wrap_err_eq_Inr split: prod.splits)
  note F = find_thread_success [OF f] and T = thread_for_success [OF t] and C = CreateMessage_success [OF c]
    and N = IncrThreadMessageCount_success [OF n]
  have A: "w_db w4 = (w_db w3)\<lparr>t_attachments := t_attachments (w_db w3) @ in_Attachments p\<rparr>"
    using CreateAttachments_not_failed [OF a] N by blast
  let ?bump = "\<lambda>r. r\<lparr>tr_message_count := tr_message_count r + 1, tr_last_message_at := Some now, tr_snippet := snippet,
       tr_updated_at := w_now w4\<rparr>"
  show ?thesis
  proof (cases isNew)
    case True
    let ?row = "thread_insert_row (new_thread ib parsed snippet now i)"
    from True T have none: "found = None" and new: "i \<notin> set (map tr_id (t_threads (w_db w)))"
      and db: "w_db w2 = (w_db w)\<lparr>t_threads := t_threads (w_db w) @ [?row]\<rparr>"
      using F by (auto split: option.splits)
    have "w' = w5" using g True by (simp add: ret_run)
    moreover have "upd_where (\<lambda>r. tr_id r = i) ?bump (t_threads (w_db w) @ [?row]) = t_threads (w_db w) @ [?bump ?row]"
      by (rule upd_where_last [OF _ new]) (simp add: new_thread_def)
    ultimately have "w_db w' = (w_db w)\<lparr>t_threads := t_threads (w_db w) @ [?bump ?row], t_messages := t_messages (w_db w) @ [message_insert_row m],
        t_attachments := t_attachments (w_db w) @ in_Attachments p\<rparr>"
      using N A C db by (simp add: m)
    moreover have "thread_grown now snippet ?row (?bump ?row)" by (simp add: thread_grown_def)
    moreover have "m_ThreadID m = i" by (simp add: m inbound_message_def)
    ultimately show ?thesis
      using True F none new m by (intro conjI exI [of _ "t_threads (w_db w) @ [?bump ?row]"]) auto
  next
    case False
    with T F obtain t where t: "replies_in ib parsed (w_db w) t" "i = tr_id t" "w2 = w1" by (auto split: option.splits)
    from False g have "ignore_err (EmailStore_MergeThreadParticipants i (buildParticipants parsed)) E w5 = (Inr u6, w')" by simp
    from MergeThreadParticipants_not_failed [OF this assms(2)] obtain h where
      h: "w_db w' = (w_db w5)\<lparr>t_threads := upd_where (\<lambda>r. tr_id r = i) h (t_threads (w_db w5))\<rparr>"
        "\<forall>r. h r = r\<lparr>tr_participants := tr_participants (h r), tr_updated_at := tr_updated_at (h r)\<rparr>"
        "buildParticipants parsed = [] \<or> jsonb_merge E \<noteq> None"
    proof (elim disjE exE conjE)
      assume "buildParticipants parsed = []" "w' = w5"
      then show thesis by (intro that [of "\<lambda>r. r"]) (simp_all add: upd_where_def)
    next
      fix f assume "jsonb_merge E = Some f" "w_db w' = (w_db w5)\<lparr>t_threads := upd_where (\<lambda>r. tr_id r = i)
       (\<lambda>r. r\<lparr>tr_participants := f (tr_participants r) (buildParticipants parsed), tr_updated_at := w_now w5\<rparr>) (t_threads (w_db w5))\<rparr>"
      then show thesis
        by (intro that [of "\<lambda>r. r\<lparr>tr_participants := f (tr_participants r) (buildParticipants parsed), tr_updated_at := w_now w5\<rparr>"]) simp_all
    qed
    let ?T = "upd_where (\<lambda>r. tr_id r = tr_id t) (\<lambda>r. h (?bump r)) (t_threads (w_db w))"
    have "w_db w' = (w_db w)\<lparr>t_threads := ?T, t_messages := t_messages (w_db w) @ [message_insert_row m],
        t_attachments := t_attachments (w_db w) @ in_Attachments p\<rparr>"
      using h(1) N A C F t by (simp add: m upd_where_twice)
    moreover have "thread_grown now snippet r (h (?bump r))" for r
      unfolding thread_grown_def by (subst h(2) [rule_format]) simp
    moreover have "m_ThreadID m = i" by (simp add: m inbound_message_def)
    ultimately show ?thesis
      using False t h(3) m by (intro conjI exI [of _ ?T]) auto
  qed
qed

section \<open>One recipient\<close>

lemma uploads_keep_db [keeps_intros]:
  "keeps_db Q (upload_body b k body ct)" "keeps_db Q (upload_parts b prefix orgID msgID now parts)"
proof -
  show "keeps_db Q (upload_body b k body ct)" unfolding upload_body_def by (intro keeps_intros)
  show "keeps_db Q (upload_parts b prefix orgID msgID now parts)"
  proof (induction parts)
    case Nil
    show ?case unfolding upload_parts.simps by (intro keeps_intros)
  next
    case (Cons part parts)
    show ?case unfolding upload_parts.simps Let_def by (intro keeps_intros Cons.IH)
  qed
qed

lemma upload_parts_success:
  assumes "upload_parts b prefix orgID msgID now parts E w = (Inr as, w')"
  shows "\<forall>a \<in> set as. at_OrgID a = orgID \<and> at_MessageID a = Some msgID"
  using assms
proof (induction parts arbitrary: w as)
  case (Cons part parts)
  let ?name = "if pp_Filename part = [] then pp_ContentID part else pp_Filename part"
  let ?up = "S3_Upload b (prefix @ ''/attachments/'' @ fmt_uuid E msgID @ ''/'' @ ?name) (pp_Data part) (pp_ContentType part)"
  show ?case
  proof (cases "pp_Filename part = [] \<and> \<not> pp_IsInline part")
    case True
    with Cons show ?thesis by simp
  next
    case False
    obtain r w1 where up: "?up E w = (r, w1)" by (rule prod.exhaust)
    show ?thesis
    proof (cases r)
      case (Inl e)
      with Cons.prems False up have "upload_parts b prefix orgID msgID now parts E w1 = (Inr as, w')"
        by (auto simp: Let_def go_bind_eq_Inr asks_eq_Inr attempt_eq_Inr)
      then show ?thesis by (rule Cons.IH)
    next
      case (Inr u)
      with Cons.prems False up obtain w2 as' a where "upload_parts b prefix orgID msgID now parts E w2 = (Inr as', w')"
        "as = a # as'" "at_OrgID a = orgID" "at_MessageID a = Some msgID"
        by (auto simp: Let_def go_bind_eq_Inr asks_eq_Inr attempt_eq_Inr ret_eq_Inr)
      with Cons.IH show ?thesis by auto
    qed
  qed
qed (simp add: ret_eq_Inr)

text \<open>What is stored of a mail in an inbox: \<open>r\<close> is the row of the new message.\<close>

definition inbound_effect :: "env \<Rightarrow> inbox \<Rightarrow> string \<Rightarrow> parsed_email \<Rightarrow> database \<Rightarrow> message_row \<Rightarrow> database \<Rightarrow> bool" where
  "inbound_effect E ib rawKey parsed d r d' \<longleftrightarrow>
     (\<exists>T as now snippet.
        d' = d\<lparr>t_threads := T, t_messages := t_messages d @ [r], t_attachments := t_attachments d @ as\<rparr> \<and>
        (\<forall>a \<in> set as. at_OrgID a = ib_OrgID ib \<and> at_MessageID a = Some (mr_id r)) \<and> (mr_has_attachments r \<longleftrightarrow> as \<noteq> []) \<and>
        mr_org_id r = ib_OrgID ib \<and> mr_inbox_id r = ib_ID ib \<and> mr_direction r = ''inbound'' \<and> mr_status r = ''received'' \<and>
        mr_message_id_header r = pe_MessageID parsed \<and> mr_subject r = pe_Subject parsed \<and> mr_raw_key r = rawKey \<and>
        mr_received_at r = Some now \<and>
        (if \<exists>t. replies_in ib parsed d t
         then (buildParticipants parsed = [] \<or> jsonb_merge E \<noteq> None) \<and>
           (\<exists>t g. replies_in ib parsed d t \<and> mr_thread_id r = tr_id t \<and> T = upd_where (\<lambda>x. tr_id x = tr_id t) g (t_threads d) \<and>
              (\<forall>x. thread_grown now snippet x (g x)))
         else (\<exists>t. T = t_threads d @ [t] \<and> mr_thread_id r = tr_id t \<and> tr_id t \<notin> set (map tr_id (t_threads d)) \<and>
              tr_org_id t = ib_OrgID ib \<and> tr_inbox_id t = ib_ID ib \<and> tr_message_count t = 1 \<and>
              tr_status t = ''open'' \<and> \<not> tr_is_read t \<and> tr_last_message_at t = Some now)))"

lemma thread_grown_keys:
  assumes "thread_grown now snippet t t'"
  shows "tr_id t' = tr_id t" "tr_org_id t' = tr_org_id t" "tr_inbox_id t' = tr_inbox_id t"
    "tr_message_count t' = tr_message_count t + 1" "tr_status t' = tr_status t" "tr_is_read t' = tr_is_read t"
    "tr_last_message_at t' = Some now"
  by (subst assms [unfolded thread_grown_def], simp)+

lemma store_inbound_effect:
  assumes "store_inbound ib parsed p snippet now msgID E w = (Inr (m, isNew), w')" "\<not> w_failed w'"
    and "\<forall>a \<in> set (in_Attachments p). at_OrgID a = ib_OrgID ib \<and> at_MessageID a = Some msgID"
  shows "inbound_effect E ib (in_RawKey p) parsed (w_db w) (message_insert_row m) (w_db w')"
proof -
  from store_inbound_success [OF assms(1,2)] obtain T where
    m: "m = inbound_message ib parsed p snippet now msgID (m_ThreadID m)" and
    db: "w_db w' = (w_db w)\<lparr>t_threads := T, t_messages := t_messages (w_db w) @ [message_insert_row m],
        t_attachments := t_attachments (w_db w) @ in_Attachments p\<rparr>" and
    new: "isNew \<Longrightarrow> (\<forall>t. \<not> replies_in ib parsed (w_db w) t) \<and>
         (\<exists>t'. T = t_threads (w_db w) @ [t'] \<and>
            thread_grown now snippet (thread_insert_row (new_thread ib parsed snippet now (m_ThreadID m))) t' \<and>
            m_ThreadID m \<notin> set (map tr_id (t_threads (w_db w))))" and
    old: "\<not> isNew \<Longrightarrow> \<exists>t g. replies_in ib parsed (w_db w) t \<and> m_ThreadID m = tr_id t \<and>
          T = upd_where (\<lambda>r. tr_id r = tr_id t) g (t_threads (w_db w)) \<and>
          (\<forall>r. thread_grown now snippet r (g r)) \<and> (buildParticipants parsed = [] \<or> jsonb_merge E \<noteq> None)"
    by (auto split: if_splits)
  have row: "mr_id (message_insert_row m) = msgID" "mr_thread_id (message_insert_row m) = m_ThreadID m"
    "mr_has_attachments (message_insert_row m) = (in_Attachments p \<noteq> [])"
    "mr_org_id (message_insert_row m) = ib_OrgID ib" "mr_inbox_id (message_insert_row m) = ib_ID ib"
    "mr_direction (message_insert_row m) = ''inbound''" "mr_status (message_insert_row m) = ''received''"
    "mr_message_id_header (message_insert_row m) = pe_MessageID parsed" "mr_subject (message_insert_row m) = pe_Subject parsed"
    "mr_raw_key (message_insert_row m) = in_RawKey p" "mr_received_at (message_insert_row m) = Some now"
    by (subst m, simp add: inbound_message_def message_insert_row_def)+
  have T: "if \<exists>t. replies_in ib parsed (w_db w) t
     then (buildParticipants parsed = [] \<or> jsonb_merge E \<noteq> None) \<and>
       (\<exists>t g. replies_in ib parsed (w_db w) t \<and> m_ThreadID m = tr_id t \<and> T = upd_where (\<lambda>x. tr_id x = tr_id t) g (t_threads (w_db w)) \<and>
              (\<forall>x. thread_grown now snippet x (g x)))
     else (\<exists>t. T = t_threads (w_db w) @ [t] \<and> m_ThreadID m = tr_id t \<and> tr_id t \<notin> set (map tr_id (t_threads (w_db w))) \<and>
              tr_org_id t = ib_OrgID ib \<and> tr_inbox_id t = ib_ID ib \<and> tr_message_count t = 1 \<and>
              tr_status t = ''open'' \<and> \<not> tr_is_read t \<and> tr_last_message_at t = Some now)"
  proof (cases isNew)
    case True
    with new obtain t' where none: "\<forall>t. \<not> replies_in ib parsed (w_db w) t" and t': "T = t_threads (w_db w) @ [t']"
        "m_ThreadID m \<notin> set (map tr_id (t_threads (w_db w)))" and
      g: "thread_grown now snippet (thread_insert_row (new_thread ib parsed snippet now (m_ThreadID m))) t'" by blast
    have "tr_id t' = m_ThreadID m" "tr_org_id t' = ib_OrgID ib" "tr_inbox_id t' = ib_ID ib" "tr_message_count t' = 1"
      "tr_status t' = ''open''" "\<not> tr_is_read t'" "tr_last_message_at t' = Some now"
      using thread_grown_keys [OF g] by (simp_all add: new_thread_def thread_insert_row_def)
    with none t' show ?thesis by (simp del: set_map)
  next
    case False
    from old [OF this] obtain t where "replies_in ib parsed (w_db w) t" by blast
    then have "\<exists>t. replies_in ib parsed (w_db w) t" ..
    then show ?thesis by (subst if_P) (use old [OF False] in blast)+
  qed
  show ?thesis unfolding inbound_effect_def
    by (intro exI [of _ T] exI [of _ "in_Attachments p"] exI [of _ now] exI [of _ snippet] conjI)
      (use T assms(3) in \<open>simp_all only: db row simp_thms\<close>)
qed

lemma publish_received_keeps [keeps_intros]: "keeps_db Q (publish_received pub inbox parsed snippet p m isNew)"
  unfolding publish_received_def by (intro keeps_intros)

lemma inbound_keeps_queues [untouched_intros]:
  "untouched w_sent (EmailStore_CreateThread t)" "untouched w_sent (EmailStore_CreateMessage m)"
  "untouched w_sent (EmailStore_CreateAttachment a)" "untouched w_sent (EmailStore_IncrThreadMessageCount i now s)"
  "untouched w_sent (EmailStore_MergeThreadParticipants i ps)" "untouched w_sent (EmailStore_GetInboxByAddress address)"
  "untouched w_sent (EmailStore_FindThreadByMessageIDs orgID inb ids)"
  "untouched w_sent (S3_Upload b k x ct)"
proof -
  have "untouched w_sent (tx_exec (thread_select_by_headers n orgID inb ids))" for n by (rule queue_messages.tx)
  then have "untouched w_sent (\<lambda>E w. tx_exec (thread_select_by_headers (any_row E (w_tick w)) orgID inb ids) E w)"
    by (simp add: untouched_def)
  then show "untouched w_sent (EmailStore_FindThreadByMessageIDs orgID inb ids)"
    unfolding EmailStore_FindThreadByMessageIDs_def by (intro untouched_intros)
  show "untouched w_sent (S3_Upload b k x ct)"
    unfolding S3_Upload_def by (rule queue_messages.external) (simp add: untouched_def)
qed (unfold EmailStore_CreateThread_def EmailStore_CreateMessage_def EmailStore_CreateAttachment_def
    EmailStore_IncrThreadMessageCount_def EmailStore_MergeThreadParticipants_def EmailStore_GetInboxByAddress_def,
  (intro untouched_intros queue_messages.intros)+)

lemma uploads_keep_queues [untouched_intros]:
  "untouched w_sent (upload_body b k body ct)" "untouched w_sent (upload_parts b prefix orgID msgID now parts)"
proof -
  show "untouched w_sent (upload_body b k body ct)" unfolding upload_body_def by (intro untouched_intros)
  show "untouched w_sent (upload_parts b prefix orgID msgID now parts)"
  proof (induction parts)
    case (Cons part parts)
    show ?case unfolding upload_parts.simps Let_def by (intro untouched_intros queue_messages.source Cons.IH)
  qed (simp only: upload_parts.simps untouched_ctl)
qed

lemma store_inbound_keeps_queues [untouched_intros]: "untouched w_sent (store_inbound ib parsed p snippet now msgID)"
  unfolding store_inbound_def find_thread_def thread_for_def Let_def by (intro untouched_intros queue_messages.source)

lemma never_fails_uploads:
  "never_fails (upload_body b k body ct)" "never_fails (upload_parts b prefix orgID msgID now parts)"
proof -
  show "never_fails (upload_body b k body ct)"
    unfolding upload_body_def by (intro never_fails_bind never_fails_intros never_fails_cases)
  show "never_fails (upload_parts b prefix orgID msgID now parts)"
  proof (induction parts)
    case (Cons part parts)
    show ?case unfolding upload_parts.simps Let_def
      by (intro never_fails_bind never_fails_intros never_fails_cases Cons.IH)
  qed (simp only: upload_parts.simps never_fails_intros)
qed

lemma never_fails_received: "never_fails (publish_received pub inbox parsed snippet p m isNew)"
  unfolding publish_received_def by (intro never_fails_bind never_fails_intros never_fails_cases never_fails_NewBase)

lemma deliver_to_parts:
  assumes "deliver_to cfg rawKey raw parsed ib E w = (r, w')"
  shows "\<exists>prefix tk hk now msgID w1 w2 w3 w4 textKey htmlKey atts p. w_db w1 = w_db w \<and> w_sent w1 = w_sent w \<and>
    upload_body (iw_emailsS3 cfg) tk (pe_BodyText parsed) ''text/plain; charset=utf-8'' E w1 = (Inr textKey, w2) \<and>
    upload_body (iw_emailsS3 cfg) hk (pe_BodyHTML parsed) ''text/html; charset=utf-8'' E w2 = (Inr htmlKey, w3) \<and>
    upload_parts (iw_emailsS3 cfg) prefix (ib_OrgID ib) msgID now (pe_Parts parsed) E w3 = (Inr atts, w4) \<and>
    p = \<lparr>in_RawKey = rawKey, in_RawSize = int (length raw), in_TextKey = textKey, in_HtmlKey = htmlKey, in_Attachments = atts\<rparr> \<and>
    go_bind (wrap_err ''db transaction'' (WithOrgTx (ib_OrgID ib) (store_inbound ib parsed p (buildSnippet (pe_BodyText parsed) 200) now msgID)))
      (\<lambda>(message, isNewThread). publish_received (iw_publisher cfg) ib parsed (buildSnippet (pe_BodyText parsed) 200) p
        message isNewThread) E w4 = (r, w')"
proof -
  let ?w1 = "tick_world (tick_world w)" and ?i = "new_uuid E (w_tick w)" and ?now = "clock E (Suc (w_tick w))"
  let ?prefix = "fmt_uuid E (ib_OrgID ib) @ ''/'' @ (case ib_PodID ib of None \<Rightarrow> ''no-pod'' | Some pod \<Rightarrow> fmt_uuid E pod) @ ''/'' @ fmt_uuid E (ib_ID ib)"
  let ?tk = "?prefix @ ''/text/'' @ fmt_uuid E ?i @ ''.txt''" and ?hk = "?prefix @ ''/html/'' @ fmt_uuid E ?i @ ''.html''"
  obtain textKey w2 where t: "upload_body (iw_emailsS3 cfg) ?tk (pe_BodyText parsed) ''text/plain; charset=utf-8'' E ?w1 = (Inr textKey, w2)"
    and t': "\<And>f :: string \<Rightarrow> unit io. go_bind (upload_body (iw_emailsS3 cfg) ?tk (pe_BodyText parsed) ''text/plain; charset=utf-8'') f E ?w1 = f textKey E w2"
    by (rule never_fails_run [OF never_fails_uploads(1)], erule that)
  obtain htmlKey w3 where h: "upload_body (iw_emailsS3 cfg) ?hk (pe_BodyHTML parsed) ''text/html; charset=utf-8'' E w2 = (Inr htmlKey, w3)"
    and h': "\<And>f :: string \<Rightarrow> unit io. go_bind (upload_body (iw_emailsS3 cfg) ?hk (pe_BodyHTML parsed) ''text/html; charset=utf-8'') f E w2 = f htmlKey E w3"
    by (rule never_fails_run [OF never_fails_uploads(1)], erule that)
  obtain atts w4 where a: "upload_parts (iw_emailsS3 cfg) ?prefix (ib_OrgID ib) ?i ?now (pe_Parts parsed) E w3 = (Inr atts, w4)"
    and a': "\<And>f :: attachment list \<Rightarrow> unit io. go_bind (upload_parts (iw_emailsS3 cfg) ?prefix (ib_OrgID ib) ?i ?now (pe_Parts parsed)) f E w3 = f atts E w4"
    by (rule never_fails_run [OF never_fails_uploads(2)], erule that)
  let ?p = "\<lparr>in_RawKey = rawKey, in_RawSize = int (length raw), in_TextKey = textKey, in_HtmlKey = htmlKey, in_Attachments = atts\<rparr>"
  from assms have "go_bind (wrap_err ''db transaction'' (WithOrgTx (ib_OrgID ib) (store_inbound ib parsed ?p (buildSnippet (pe_BodyText parsed) 200) ?now ?i)))
      (\<lambda>(message, isNewThread). publish_received (iw_publisher cfg) ib parsed (buildSnippet (pe_BodyText parsed) 200) ?p
        message isNewThread) E w4 = (r, w')"
    by (simp only: deliver_to_def Let_def uuid_time_run t' h' a' w_tick_of_tick)
  moreover have "w_db ?w1 = w_db w \<and> w_sent ?w1 = w_sent w" by (simp add: tick_world_def)
  ultimately show ?thesis using t h a by blast
qed

text \<open>A delivery either stores the mail as described and reports no error, or leaves the tables and the queues as
  they were.\<close>

lemma deliver_to_cases:
  assumes "deliver_to cfg rawKey raw parsed ib E w = (r, w')"
  obtains e where "r = Inl e" "w_db w' = w_db w" "w_sent w' = w_sent w"
  | row where "r = Inr ()" "inbound_effect E ib rawKey parsed (w_db w) row (w_db w')"
proof -
  obtain prefix tk hk now msgID w1 w2 w3 w4 textKey htmlKey atts where
    w1: "w_db w1 = w_db w" "w_sent w1 = w_sent w" and
    t: "upload_body (iw_emailsS3 cfg) tk (pe_BodyText parsed) ''text/plain; charset=utf-8'' E w1 = (Inr textKey, w2)" and
    h: "upload_body (iw_emailsS3 cfg) hk (pe_BodyHTML parsed) ''text/html; charset=utf-8'' E w2 = (Inr htmlKey, w3)" and
    a: "upload_parts (iw_emailsS3 cfg) prefix (ib_OrgID ib) msgID now (pe_Parts parsed) E w3 = (Inr atts, w4)" and
    run: "go_bind (wrap_err ''db transaction'' (WithOrgTx (ib_OrgID ib) (store_inbound ib parsed
        \<lparr>in_RawKey = rawKey, in_RawSize = int (length raw), in_TextKey = textKey, in_HtmlKey = htmlKey, in_Attachments = atts\<rparr>
        (buildSnippet (pe_BodyText parsed) 200) now msgID)))
      (\<lambda>(message, isNewThread). publish_received (iw_publisher cfg) ib parsed (buildSnippet (pe_BodyText parsed) 200)
        \<lparr>in_RawKey = rawKey, in_RawSize = int (length raw), in_TextKey = textKey, in_HtmlKey = htmlKey, in_Attachments = atts\<rparr>
        message isNewThread) E w4 = (r, w')"
    using deliver_to_parts [OF assms] by blast
  let ?p = "\<lparr>in_RawKey = rawKey, in_RawSize = int (length raw), in_TextKey = textKey, in_HtmlKey = htmlKey, in_Attachments = atts\<rparr>"
  let ?s = "buildSnippet (pe_BodyText parsed) 200"
  have w4: "w_db w4 = w_db w" "w_sent w4 = w_sent w"
    using keeps_db_same [OF uploads_keep_db(1) t] keeps_db_same [OF uploads_keep_db(1) h] keeps_db_same [OF uploads_keep_db(2) a]
      untouchedD [OF uploads_keep_queues(1) t] untouchedD [OF uploads_keep_queues(1) h] untouchedD [OF uploads_keep_queues(2) a] w1
    by simp_all
  obtain x w5 where tx: "WithOrgTx (ib_OrgID ib) (store_inbound ib parsed ?p ?s now msgID) E w4 = (x, w5)" by (rule prod.exhaust)
  show thesis
  proof (cases x)
    case (Inl e)
    with tx run have r: "r = Inl (Wrap ''db transaction'' e)" "w' = w5" by (simp_all add: go_bind_def wrap_err_def)
    have "w_sent w5 = w_sent w4" using queue_messages.org_tx [OF store_inbound_keeps_queues] tx by (rule untouchedD)
    with r w4 WithOrgTx_error_rollback [OF tx [unfolded Inl]] show thesis by (intro that(1)) simp_all
  next
    case (Inr y)
    obtain m isNew where y: "y = (m, isNew)" by (rule prod.exhaust)
    from tx Inr y obtain v1 v2 where s: "store_inbound ib parsed ?p ?s now msgID E v1 = (Inr (m, isNew), v2)"
      "w_db v1 = w_db w4" "w5 = end_tx w4 v2" "\<not> w_failed v2"
      by (blast elim: WithOrgTx_success)
    have atts: "\<forall>a \<in> set (in_Attachments ?p). at_OrgID a = ib_OrgID ib \<and> at_MessageID a = Some msgID"
      using upload_parts_success [OF a] by simp
    have "inbound_effect E ib rawKey parsed (w_db w) (message_insert_row m) (w_db w5)"
      using store_inbound_effect [OF s(1,4) atts] s(2,3) w4 by (simp add: end_tx_def)
    moreover have pub: "publish_received (iw_publisher cfg) ib parsed ?s ?p m isNew E w5 = (r, w')"
      using run tx Inr y by (simp add: go_bind_def wrap_err_def)
    moreover have "w_db w' = w_db w5" using publish_received_keeps pub by (rule keeps_db_same)
    moreover have "r = Inr ()"
      using pub never_fails_received [unfolded never_fails_def] by (cases r) simp_all
    ultimately show thesis by (intro that(2)) simp_all
  qed
qed

text \<open>The active inboxes of an address.\<close>

definition inboxes_of :: "email_address \<Rightarrow> database \<Rightarrow> inbox list" where
  "inboxes_of rcpt d = filter (\<lambda>ib. ib_Email ib = ea_Email rcpt \<and> ib_Status ib = ''active'') (t_inboxes d)"

lemma GetInboxByAddress_result:
  assumes "EmailStore_GetInboxByAddress (ea_Email rcpt) E w = (r, w')"
  shows "w_db w' = w_db w \<and> w_sent w' = w_sent w \<and>
    (case r of Inl e \<Rightarrow> IsNotFound e \<longrightarrow> inboxes_of rcpt (w_db w) = [] | Inr ib \<Rightarrow> ib \<in> set (inboxes_of rcpt (w_db w)))"
proof -
  have "w_db w' = w_db w" using email_store_reads(1) assms by (rule keeps_db_same)
  moreover have "w_sent w' = w_sent w" using inbound_keeps_queues(6) assms by (rule untouchedD)
  moreover have "case r of Inl e \<Rightarrow> IsNotFound e \<longrightarrow> inboxes_of rcpt (w_db w) = [] | Inr ib \<Rightarrow> ib \<in> set (inboxes_of rcpt (w_db w))"
    using assms
    by (auto simp: EmailStore_GetInboxByAddress_def inboxes_of_def [symmetric] pool_exec_def external_def run_stmt_def query_row_def
        first_row_def IsNotFound_def split: option.splits sum.splits list.splits if_splits)
  ultimately show ?thesis by blast
qed

text \<open>C32. A recipient that is processed without an error has either no active inbox, and then the tables stay as they are,
  or one in which the mail is now stored exactly once: as a received message of that inbox with the headers, the subject and
  the raw key of the mail, together with the attachments whose upload succeeded, in the thread that holds a message the mail
  refers to, which counts one message more, or, when there is none, in a new open and unread thread of one message.\<close>

theorem inbound_stored:
  assumes "processForRecipient cfg rawKey raw parsed rcpt E w = (Inr (), w')"
  shows "(inboxes_of rcpt (w_db w) = [] \<and> w_db w' = w_db w) \<or>
    (\<exists>ib \<in> set (inboxes_of rcpt (w_db w)). \<exists>row. inbound_effect E ib rawKey parsed (w_db w) row (w_db w'))"
proof -
  obtain r w1 where g: "EmailStore_GetInboxByAddress (ea_Email rcpt) E w = (r, w1)" by (rule prod.exhaust)
  note G = GetInboxByAddress_result [OF g]
  show ?thesis
  proof (cases r)
    case (Inl e)
    with assms g have "IsNotFound e" "w' = w1"
      by (auto simp: processForRecipient_def go_bind_def attempt_def ret_run throw_run split: if_splits)
    with G Inl show ?thesis by simp
  next
    case (Inr ib)
    with assms g have "deliver_to cfg rawKey raw parsed ib E w1 = (Inr (), w')"
      by (simp add: processForRecipient_def go_bind_def attempt_def)
    then obtain row where "inbound_effect E ib rawKey parsed (w_db w1) row (w_db w')"
      by (rule deliver_to_cases) auto
    with G Inr show ?thesis by auto
  qed
qed

section \<open>Replies\<close>

lemma participants_nonempty:
  assumes "ea_Email sender \<noteq> []"
  shows "participants_of sender to cc \<noteq> []"
proof -
  have grows: "snd (fold addParticipant xs (seen, ps)) \<noteq> []" if "ps \<noteq> []" for xs seen ps
    using that by (induction xs arbitrary: seen ps) (auto simp: addParticipant_def)
  show ?thesis
    unfolding participants_of_def using assms grows [of "[sender]"] by (simp add: addParticipant_def del: fold_append)
qed

text \<open>Every active inbox of the recipient has a thread that the mail replies to.\<close>

definition only_replies :: "parsed_email \<Rightarrow> database \<Rightarrow> email_address \<Rightarrow> bool" where
  "only_replies parsed d rcpt \<longleftrightarrow> (\<forall>ib \<in> set (inboxes_of rcpt d). \<exists>t. replies_in ib parsed d t)"

lemma reply_lost:
  assumes "jsonb_merge E = None" "ea_Email (pe_From parsed) \<noteq> []" "only_replies parsed (w_db w) rcpt"
    and run: "processForRecipient cfg rawKey raw parsed rcpt E w = (r, w')"
  shows "w_db w' = w_db w \<and> w_sent w' = w_sent w"
proof -
  obtain s w1 where g: "EmailStore_GetInboxByAddress (ea_Email rcpt) E w = (s, w1)" by (rule prod.exhaust)
  note G = GetInboxByAddress_result [OF g]
  have "buildParticipants parsed \<noteq> []" using assms(2) by (simp add: buildParticipants_def participants_nonempty)
  show ?thesis
  proof (cases s)
    case (Inl e)
    with run g have "w' = w1"
      by (auto simp: processForRecipient_def go_bind_def attempt_def ret_run throw_run split: if_splits)
    with G show ?thesis by simp
  next
    case (Inr ib)
    with run g have d: "deliver_to cfg rawKey raw parsed ib E w1 = (r, w')"
      by (simp add: processForRecipient_def go_bind_def attempt_def)
    from G Inr assms(3) have "\<exists>t. replies_in ib parsed (w_db w1) t" by (auto simp: only_replies_def)
    then have "\<not> inbound_effect E ib rawKey parsed (w_db w1) row (w_db w')" for row
      using assms(1) \<open>buildParticipants parsed \<noteq> []\<close> by (simp add: inbound_effect_def)
    with d G show ?thesis by (metis deliver_to_cases)
  qed
qed

text \<open>C33. Where the server rejects the aggregate of MergeThreadParticipants, as PostgreSQL documents that it does, replies are
  lost: a mail that refers to a message of a thread in every active inbox it is addressed to is downloaded and reported as
  processed, so that the queue drops it, but no message is stored, no thread grows and no event is published.\<close>

theorem inbound_reply_lost:
  assumes "no_faults E" and "jsonb_merge E = None" and "w_s3 w (iw_emailsS3 cfg, key) = Some raw"
    and "ea_Email (pe_From (parsed_or_empty (mail_lib E) raw)) \<noteq> []"
    and "\<forall>rcpt \<in> set (recipients (parsed_or_empty (mail_lib E) raw)). only_replies (parsed_or_empty (mail_lib E) raw) (w_db w) rcpt"
  shows "\<exists>w'. processS3Object cfg key E w = (Inr (), w') \<and> w_db w' = w_db w \<and> w_sent w' = w_sent w"
proof -
  let ?parsed = "parsed_or_empty (mail_lib E) raw"
  have down: "S3_Download (iw_emailsS3 cfg) key E w = (Inr raw, tick_world w)"
    using assms(1,3) by (simp add: S3_Download_def external_def no_faults_def tick_world_def)
  have "\<exists>w'. for_each (\<lambda>rcpt. ignore_err (processForRecipient cfg key raw ?parsed rcpt)) rcpts E v = (Inr (), w') \<and>
      w_db w' = w_db v \<and> w_sent w' = w_sent v"
    if "\<forall>rcpt \<in> set rcpts. only_replies ?parsed (w_db v) rcpt" for rcpts v
    using that
  proof (induction rcpts arbitrary: v)
    case (Cons rcpt rcpts)
    obtain r v1 where p: "processForRecipient cfg key raw ?parsed rcpt E v = (r, v1)" by (rule prod.exhaust)
    have same: "w_db v1 = w_db v \<and> w_sent v1 = w_sent v"
      by (rule reply_lost [OF assms(2,4) _ p]) (use Cons.prems in simp)
    with Cons.IH [of v1] Cons.prems p show ?case by (simp add: go_bind_def ignore_err_run)
  qed (simp add: ret_run)
  from this [of "recipients ?parsed" "tick_world w"] assms(5) show ?thesis
    by (auto simp: processS3Object_def go_bind_def wrap_err_def down asks_run ret_run tick_world_def)
qed

definition demo_inbound :: inbound_worker where
  "demo_inbound = \<lparr>iw_emailsS3 = ''emails'', iw_publisher = \<lparr>webhookDeliveryURL = [], wsDispatchURL = [], embedderURL = [], emailOutboundURL = []\<rparr>\<rparr>"

theorem inbound_reply_lost_witness:
  "\<exists>w'. processS3Object demo_inbound ''k'' demo_env (demo_world\<lparr>w_s3 := [(''emails'', ''k'') \<mapsto> ''|hello'']\<rparr>) = (Inr (), w') \<and>
     t_messages (w_db w') = [demo_message]"
proof -
  let ?w = "demo_world\<lparr>w_s3 := [(''emails'', ''k'') \<mapsto> ''|hello'']\<rparr>" and ?p = "parsed_or_empty (mail_lib demo_env) ''|hello''"
  have ids: "lookup_ids ?p = [''m9'']" "recipients ?p = [\<lparr>ea_Email = ''a@x'', ea_Name = []\<rparr>]" "ea_Email (pe_From ?p) \<noteq> []"
    by code_simp+
  have "inboxes_of \<lparr>ea_Email = ''a@x'', ea_Name = []\<rparr> demo_db = [demo_inbox]"
    by (simp add: inboxes_of_def demo_db_def demo_inbox_def)
  moreover have "replies_in demo_inbox ?p demo_db demo_thread"
    by (simp add: replies_in_def ids demo_db_def demo_inbox_def demo_thread_def demo_message_def)
  ultimately have "\<forall>rcpt \<in> set (recipients ?p). only_replies ?p (w_db ?w) rcpt" by (auto simp: only_replies_def ids)
  from inbound_reply_lost [OF _ _ _ ids(3) this, of demo_inbound "''k''"] show ?thesis
    by (auto simp: no_faults_def demo_env_def demo_inbound_def demo_db_def)
qed

text \<open>A mail of which the inbox knows nothing opens a thread.\<close>

definition demo_mail :: parsed_email where
  "demo_mail = empty_email\<lparr>pe_MessageID := ''n1'', pe_From := bob, pe_To := [alice], pe_Subject := ''new'', pe_BodyText := ''hello''\<rparr>"

theorem inbound_stored_witness:
  "\<exists>w'. processForRecipient demo_inbound ''k'' ''raw'' demo_mail alice demo_env demo_world = (Inr (), w') \<and>
     (\<exists>row t. t_messages (w_db w') = [demo_message, row] \<and> t_threads (w_db w') = [demo_thread, t] \<and> mr_thread_id row = tr_id t \<and>
       mr_subject row = ''new'')"
proof -
  have "isl (fst (processForRecipient demo_inbound ''k'' ''raw'' demo_mail alice demo_env demo_world)) = False" by code_simp
  then obtain w' where run: "processForRecipient demo_inbound ''k'' ''raw'' demo_mail alice demo_env demo_world = (Inr (), w')"
    by (metis isl_def old.unit.exhaust prod.collapse sum.collapse(2))
  have "inboxes_of alice (w_db demo_world) = [demo_inbox]" by (simp add: inboxes_of_def demo_db_def demo_inbox_def alice_def)
  with inbound_stored [OF run] obtain row where
    e: "inbound_effect demo_env demo_inbox ''k'' demo_mail demo_db row (w_db w')" by auto
  have none: "(\<exists>t. replies_in demo_inbox demo_mail demo_db t) = False"
    by (simp add: replies_in_def demo_mail_def lookup_ids_def empty_email_def)
  from e obtain T as t where "w_db w' = demo_db\<lparr>t_threads := T, t_messages := t_messages demo_db @ [row], t_attachments := t_attachments demo_db @ as\<rparr>"
    "mr_subject row = pe_Subject demo_mail" "T = t_threads demo_db @ [t]" "mr_thread_id row = tr_id t"
    unfolding inbound_effect_def none if_False by blast
  then have "\<exists>row t. t_messages (w_db w') = [demo_message, row] \<and> t_threads (w_db w') = [demo_thread, t] \<and> mr_thread_id row = tr_id t \<and>
       mr_subject row = ''new''"
    by (intro exI [of _ row] exI [of _ t]) (simp add: demo_db_def demo_mail_def)
  with run show ?thesis by blast
qed

end
