(* ===== verification/Email_Outbound.thy ===== *)
theory Email_Outbound
  imports Email_Store Mime
begin

text \<open>
  \<open>lambdas/email_outbound/main.go\<close>: the worker that turns an outbound job into a MIME message and hands
  it to SES.
\<close>

section \<open>Building the message\<close>

record att_data =
  ad_filename :: string
  ad_contentType :: string
  ad_data :: string

definition CRLF :: string where
  "CRLF = [CHR 0x0D, CHR 0x0A]"

definition emailAddrsToStrings :: "(email_address \<Rightarrow> string) \<Rightarrow> email_address list \<Rightarrow> string list" where
  "emailAddrsToStrings fmt addrs =
     concat (map (\<lambda>a. if ea_Email a \<noteq> [] then [if ea_Name a \<noteq> [] then fmt a else ea_Email a] else []) addrs)"

text \<open>\<open>fmt.Sprintf(name + ": %s\r\n", v)\<close>\<close>

definition header_line :: "string \<Rightarrow> string \<Rightarrow> string" where
  "header_line name v = name @ '': '' @ v @ CRLF"

definition text_part :: "string \<Rightarrow> string \<Rightarrow> string" where
  "text_part mediaType body = header_line ''Content-Type'' (mediaType @ ''; charset=UTF-8'') @
     header_line ''Content-Transfer-Encoding'' ''quoted-printable'' @ CRLF @ body @ CRLF"

text \<open>\<open>writeBodyPart\<close>; a boundary is drawn only for an alternative of both bodies.\<close>

definition body_section :: "string \<Rightarrow> string \<Rightarrow> string \<Rightarrow> string" where
  "body_section boundary textBody htmlBody =
     (if textBody \<noteq> [] \<and> htmlBody \<noteq> [] then
        header_line ''Content-Type'' (''multipart/alternative; boundary='' @ go_quote boundary) @ CRLF @
        ''--'' @ boundary @ CRLF @ text_part ''text/plain'' textBody @
        ''--'' @ boundary @ CRLF @ text_part ''text/html'' htmlBody @
        ''--'' @ boundary @ ''--'' @ CRLF
      else if htmlBody \<noteq> [] then text_part ''text/html'' htmlBody
      else text_part ''text/plain'' textBody)"

definition writeBodyPart :: "string \<Rightarrow> string \<Rightarrow> string io" where
  "writeBodyPart textBody htmlBody =
     (if textBody \<noteq> [] \<and> htmlBody \<noteq> [] then
        go_bind uuid_New (\<lambda>u. go_bind (asks fmt_uuid) (\<lambda>fmt. ret (body_section (fmt u) textBody htmlBody)))
      else ret (body_section [] textBody htmlBody))"

function wrap_lines :: "nat \<Rightarrow> string \<Rightarrow> string" where
  "wrap_lines n s = (if s = [] \<or> n = 0 then [] else take n s @ CRLF @ wrap_lines n (drop n s))"
  by pat_completeness auto
termination by (relation "measure (\<lambda>(n, s). length s)") auto

declare wrap_lines.simps [simp del]

definition attachment_part :: "string \<Rightarrow> att_data \<Rightarrow> string" where
  "attachment_part boundary att =
     (let ct = (if ad_contentType att = [] then ''application/octet-stream'' else ad_contentType att)
      in CRLF @ ''--'' @ boundary @ CRLF @ header_line ''Content-Type'' ct @
         header_line ''Content-Disposition'' (''attachment; filename='' @ go_quote (ad_filename att)) @
         header_line ''Content-Transfer-Encoding'' ''base64'' @ CRLF @ wrap_lines 76 (b64_encode (ad_data att)))"

definition mime_head :: "(email_address \<Rightarrow> string) \<Rightarrow> message \<Rightarrow> string list \<Rightarrow> string list \<Rightarrow> string" where
  "mime_head fmt msg toAddrs ccAddrs =
     (let fromAddr = (if ea_Name (m_From msg) \<noteq> [] then fmt (m_From msg) else ea_Email (m_From msg));
          optional = (\<lambda>name v. if v \<noteq> [] then header_line name v else [])
      in header_line ''MIME-Version'' ''1.0'' @
         (if m_MessageID msg \<noteq> [] then header_line ''Message-ID'' (''<'' @ m_MessageID msg @ ''>'') else []) @
         header_line ''From'' fromAddr @
         (if toAddrs \<noteq> [] then header_line ''To'' (join '', '' toAddrs) else []) @
         (if ccAddrs \<noteq> [] then header_line ''Cc'' (join '', '' ccAddrs) else []) @
         header_line ''Subject'' (m_Subject msg) @
         (if m_InReplyTo msg \<noteq> [] then header_line ''In-Reply-To'' (''<'' @ m_InReplyTo msg @ ''>'') else []) @
         (if m_References msg \<noteq> []
          then header_line ''References'' (join '' '' (map (\<lambda>r. ''<'' @ r @ ''>'') (m_References msg))) else []) @
         optional ''Reply-To'' (m_ReplyTo msg))"

definition buildMIME :: "message \<Rightarrow> string list \<Rightarrow> string list \<Rightarrow> string \<Rightarrow> string \<Rightarrow> att_data list \<Rightarrow> string io" where
  "buildMIME msg toAddrs ccAddrs textBody htmlBody attachments =
     go_bind (asks fmt_address) (\<lambda>fmt_addr.
     let head = mime_head fmt_addr msg toAddrs ccAddrs in
     if attachments \<noteq> [] then
       go_bind uuid_New (\<lambda>u. go_bind (asks fmt_uuid) (\<lambda>fmt.
       let boundary = fmt u in
       go_bind (writeBodyPart textBody htmlBody) (\<lambda>body.
       ret (head @ header_line ''Content-Type'' (''multipart/mixed; boundary='' @ go_quote boundary) @ CRLF @
         ''--'' @ boundary @ CRLF @ body @ concat (map (attachment_part boundary) attachments) @
         ''--'' @ boundary @ ''--'' @ CRLF))))
     else go_bind (writeBodyPart textBody htmlBody) (\<lambda>body. ret (head @ body)))"

section \<open>Processing a job\<close>

text \<open>The buckets, the publisher and the SES configuration set of the worker's environment.\<close>

record outbound_worker =
  ow_emailsS3 :: string
  ow_attachmentsS3 :: string
  ow_publisher :: publisher
  ow_SES_CONFIGURATION_SET :: string

text \<open>A record of the queue; \<open>jm_Job\<close> is what \<open>json.Unmarshal\<close> makes of its body, \<open>None\<close> when it fails.\<close>

record job_message =
  jm_MessageId :: string
  jm_Job :: "outbound_job option"

definition load_message :: "uuid \<Rightarrow> uuid \<Rightarrow> message io" where
  "load_message orgID messageID = WithOrgTx orgID
     (go_bind (wrap_err ''load message'' (EmailStore_GetMessageByID orgID messageID)) (\<lambda>msg.
      go_bind (EmailStore_UpdateMessageStatus messageID MessageStatusSending) (\<lambda>_. ret msg)))"

text \<open>The body from the object store, or the one of the job.\<close>

definition body_or :: "string \<Rightarrow> string \<Rightarrow> string \<Rightarrow> string io" where
  "body_or bucket key inline =
     (if key \<noteq> [] then go_bind (attempt (S3_Download bucket key)) (\<lambda>r. ret (case r of Inl _ \<Rightarrow> inline | Inr data \<Rightarrow> data))
      else ret inline)"

fun download_all :: "string \<Rightarrow> attachment list \<Rightarrow> att_data list io" where
  "download_all bucket [] = ret []"
| "download_all bucket (a # as) =
     go_bind (attempt (S3_Download bucket (at_S3Key a))) (\<lambda>r. go_bind (download_all bucket as) (\<lambda>rest.
     ret (case r of Inl _ \<Rightarrow> rest
        | Inr data \<Rightarrow> \<lparr>ad_filename = at_Filename a, ad_contentType = at_ContentType a, ad_data = data\<rparr> # rest)))"

definition load_attachments :: "string \<Rightarrow> uuid \<Rightarrow> uuid \<Rightarrow> message \<Rightarrow> (attachment list \<times> att_data list) io" where
  "load_attachments bucket orgID messageID msg =
     (if m_HasAttachments msg then
        go_bind (attempt (EmailStore_GetAttachmentsByMessageID orgID messageID)) (\<lambda>r.
        let atts = (case r of Inl _ \<Rightarrow> [] | Inr atts \<Rightarrow> atts) in
        go_bind (download_all bucket atts) (\<lambda>data. ret (atts, data)))
      else ret ([], []))"

definition report_bounce :: "publisher \<Rightarrow> uuid \<Rightarrow> message \<Rightarrow> string \<Rightarrow> string \<Rightarrow> attachment list \<Rightarrow> go_error \<Rightarrow> unit io" where
  "report_bounce p orgID failedMsg bodyText bodyHTML atts sendErr =
     go_bind (NewBase EventMessageBounced orgID) (\<lambda>base. go_bind (asks (\<lambda>E. E)) (\<lambda>E.
     ignore_err (PublishEvent p (MessageBouncedEvent base
       (MessagePayloadFromModel (fmt_uuid E) failedMsg bodyText bodyHTML (BuildPreview bodyText 200) atts)
       ''500'' (err_text E sendErr)))))"

definition report_sent :: "publisher \<Rightarrow> uuid \<Rightarrow> message \<Rightarrow> string \<Rightarrow> string \<Rightarrow> attachment list \<Rightarrow> unit io" where
  "report_sent p orgID sentMsg bodyText bodyHTML atts =
     go_bind (NewBase EventMessageSent orgID) (\<lambda>base. go_bind (asks fmt_uuid) (\<lambda>fmt.
     ignore_err (PublishEvent p (MessageSentEvent base
       (MessagePayloadFromModel fmt sentMsg bodyText bodyHTML (BuildPreview bodyText 200) atts)))))"

text \<open>The second transaction, after the answer of SES.\<close>

definition finish_send :: "publisher \<Rightarrow> uuid \<Rightarrow> uuid \<Rightarrow> message \<Rightarrow> string \<Rightarrow> string \<Rightarrow> attachment list \<Rightarrow> time
    \<Rightarrow> go_error + unit \<Rightarrow> unit io" where
  "finish_send p orgID messageID msg bodyText bodyHTML atts now sendErr = WithOrgTx orgID
     (case sendErr of
        Inl e \<Rightarrow>
          go_bind (EmailStore_UpdateMessageStatus messageID MessageStatusFailed) (\<lambda>_.
          go_bind (report_bounce p orgID (msg\<lparr>m_Status := MessageStatusFailed, m_UpdatedAt := now\<rparr>) bodyText bodyHTML atts e) (\<lambda>_.
          throw e))
      | Inr _ \<Rightarrow>
          go_bind (EmailStore_UpdateMessageSentAt messageID now) (\<lambda>_.
          report_sent p orgID (msg\<lparr>m_Status := MessageStatusSent, m_SentAt := Some now, m_UpdatedAt := now\<rparr>) bodyText bodyHTML atts))"

definition send_message :: "outbound_worker \<Rightarrow> uuid \<Rightarrow> uuid \<Rightarrow> outbound_job \<Rightarrow> unit io" where
  "send_message cfg orgID messageID job =
     go_bind (load_message orgID messageID) (\<lambda>msg.
     go_bind (body_or (ow_emailsS3 cfg) (m_TextS3Key msg) (oj_BodyText job)) (\<lambda>bodyText.
     go_bind (body_or (ow_emailsS3 cfg) (m_HtmlS3Key msg) (oj_BodyHTML job)) (\<lambda>bodyHTML.
     go_bind (load_attachments (ow_attachmentsS3 cfg) orgID messageID msg) (\<lambda>(modelAtts, attachments).
     go_bind (asks fmt_address) (\<lambda>fmt.
     let toAddrs = emailAddrsToStrings fmt (m_To msg); ccAddrs = emailAddrsToStrings fmt (m_Cc msg);
         bccAddrs = emailAddrsToStrings fmt (m_Bcc msg) in
     go_bind (buildMIME msg toAddrs ccAddrs bodyText bodyHTML attachments) (\<lambda>rawMIME.
     go_bind time_Now (\<lambda>now.
     go_bind (attempt (SendEmail \<lparr>se_Data = rawMIME, se_ConfigurationSet = ow_SES_CONFIGURATION_SET cfg,
       se_ToAddresses = toAddrs @ ccAddrs @ bccAddrs\<rparr>)) (\<lambda>sendErr.
     finish_send (ow_publisher cfg) orgID messageID msg bodyText bodyHTML modelAtts now sendErr))))))))"

definition outbound_record :: "outbound_worker \<Rightarrow> job_message \<Rightarrow> unit io" where
  "outbound_record cfg record =
     (case jm_Job record of
        None \<Rightarrow> ret ()
      | Some job \<Rightarrow>
          go_bind (asks parse_uuid) (\<lambda>parse.
          case parse (oj_MessageID job) of
            None \<Rightarrow> ret ()
          | Some messageID \<Rightarrow> (case parse (oj_OrgID job) of
                None \<Rightarrow> ret ()
              | Some orgID \<Rightarrow> send_message cfg orgID messageID job)))"

definition outbound_handler :: "outbound_worker \<Rightarrow> job_message list \<Rightarrow> string list io" where
  "outbound_handler cfg records = batch_failures (outbound_record cfg) jm_MessageId records"

section \<open>Attachments survive the encoding\<close>

lemma strip_wrap_lines: "strip_newlines (wrap_lines n s) = s"
  if "0 < n" "\<And>c. c \<in> set s \<Longrightarrow> c \<noteq> CHR 0x0D \<and> c \<noteq> CHR 0x0A"
proof -
  have *: "remove_crlf (t @ CRLF @ u) = t @ remove_crlf u" if "\<And>c. c \<in> set t \<Longrightarrow> c \<noteq> CHR 0x0D" for t u
    using that
  proof (induction t)
    case Nil
    then show ?case by (simp add: CRLF_def)
  next
    case (Cons c t)
    then have "remove_crlf (c # t @ CRLF @ u) = c # remove_crlf (t @ CRLF @ u)"
      by (cases "t @ CRLF @ u") auto
    with Cons show ?case by simp
  qed
  have "remove_crlf (wrap_lines n s) = s" using that
  proof (induction n s rule: wrap_lines.induct)
    case (1 n s)
    show ?case
    proof (cases "s = []")
      case False
      have "remove_crlf (wrap_lines n s) = take n s @ remove_crlf (wrap_lines n (drop n s))"
        using False 1(2,3) by (subst wrap_lines.simps) (auto intro!: * dest: in_set_takeD)
      also have "remove_crlf (wrap_lines n (drop n s)) = drop n s"
        using False 1 by (auto dest: in_set_dropD)
      finally show ?thesis by simp
    qed (simp add: wrap_lines.simps)
  qed
  moreover have "replace_char (CHR 0x0A) [] s = s"
    using that(2) by (induction s) (auto simp: replace_char_def)
  ultimately show ?thesis by (simp add: strip_newlines_def)
qed

text \<open>Whatever an attachment contains, its part of the outgoing message ends with a base64 body that the
  MIME parser of the inbound side decodes to the same bytes.\<close>

lemma attachment_part_roundtrip:
  "\<exists>head body. attachment_part boundary att =
     head @ header_line ''Content-Transfer-Encoding'' ''base64'' @ CRLF @ body \<and>
     decodePartContent lib body ''base64'' = Inr (ad_data att)"
proof -
  have nl: "CHR 0x0A = (char_of (10::nat) :: char)" "CHR 0x0D = (char_of (13::nat) :: char)" by code_simp+
  have "strip_newlines (wrap_lines 76 (b64_encode (ad_data att))) = b64_encode (ad_data att)"
    by (rule strip_wrap_lines) (auto simp: nl dest: b64_encode_plain)
  moreover have "to_lower (trim_space ''base64'') = ''base64''" by code_simp
  ultimately have "decodePartContent lib (wrap_lines 76 (b64_encode (ad_data att))) ''base64'' = Inr (ad_data att)"
    by (simp add: decodePartContent_def b64_roundtrip)
  then show ?thesis
    unfolding attachment_part_def Let_def by (metis append.assoc)
qed

end
