(* ===== verification/Outbound_Delivery.thy ===== *)
theory Outbound_Delivery
  imports Email_Outbound Demo
begin

text \<open>
  What becomes of an outbound job: which mail leaves and what is recorded when SES accepts it, and when it
  refuses it.
\<close>

section \<open>Runs of the steps\<close>

lemma writeBodyPart_success:
  "writeBodyPart t h E w = (Inr body, w') \<Longrightarrow>
   (\<exists>b. body = body_section b t h) \<and> w_db w' = w_db w \<and> w_ses w' = w_ses w \<and> w_sent w' = w_sent w \<and> w_s3 w' = w_s3 w"
  by (auto simp: writeBodyPart_def go_success uuid_New_eq_Inr split: if_splits)

lemma buildMIME_success:
  assumes "buildMIME msg tos ccs t h [] E w = (Inr raw, w')"
  shows "(\<exists>b. raw = mime_head (fmt_address E) msg tos ccs @ body_section b t h) \<and> w_db w' = w_db w \<and>
    w_ses w' = w_ses w \<and> w_sent w' = w_sent w"
  using assms by (auto simp: buildMIME_def go_success dest!: writeBodyPart_success)

lemma buildMIME_never_fails: "never_fails (buildMIME msg tos ccs t h atts)"
proof -
  have w: "never_fails (writeBodyPart t h)"
    unfolding writeBodyPart_def by (auto intro!: never_fails_bind never_fails_intros)
  show ?thesis unfolding buildMIME_def Let_def
    by (intro never_fails_bind never_fails_intros) (auto intro!: never_fails_bind never_fails_intros w)
qed

text \<open>Where a body comes from.\<close>

definition body_source :: "string \<Rightarrow> string \<Rightarrow> string \<Rightarrow> world \<Rightarrow> string \<Rightarrow> bool" where
  "body_source bucket key inline w text \<longleftrightarrow>
     text = inline \<or> key \<noteq> [] \<and> w_s3 w (bucket, key) = Some text"

lemma S3_Download_result:
  "S3_Download b k E w = (r, w') \<Longrightarrow> (\<forall>d. r = Inr d \<longrightarrow> w_s3 w (b, k) = Some d) \<and>
     w_db w' = w_db w \<and> w_ses w' = w_ses w \<and> w_sent w' = w_sent w \<and> w_s3 w' = w_s3 w"
  by (auto simp: S3_Download_def external_def split: option.splits)

lemma body_or_success:
  assumes "body_or bucket key inline E w = (Inr text, w')"
  shows "body_source bucket key inline w text \<and> w_db w' = w_db w \<and> w_ses w' = w_ses w \<and> w_sent w' = w_sent w \<and> w_s3 w' = w_s3 w"
proof (cases "key = []")
  case True
  with assms show ?thesis by (simp add: body_or_def body_source_def ret_eq_Inr)
next
  case False
  with assms obtain r where "S3_Download bucket key E w = (r, w')" "text = (case r of Inl _ \<Rightarrow> inline | Inr data \<Rightarrow> data)"
    by (auto simp: body_or_def go_bind_eq_Inr attempt_eq_Inr ret_eq_Inr)
  with False show ?thesis by (cases r) (auto simp: body_source_def dest!: S3_Download_result)
qed

lemma never_fails_attempt: "never_fails (attempt m)"
  by (simp add: never_fails_def attempt_not_Inl)

lemma body_or_never_fails: "never_fails (body_or bucket key inline)"
  unfolding body_or_def
  by (auto intro!: never_fails_bind never_fails_intros never_fails_attempt)

lemma store_sends_no_mail [untouched_intros]:
  "untouched w_ses (EmailStore_GetMessageByID orgID i)" "untouched w_ses (EmailStore_UpdateMessageStatus i st)"
  "untouched w_ses (EmailStore_UpdateMessageSentAt i t)"
  unfolding EmailStore_GetMessageByID_def EmailStore_UpdateMessageStatus_def EmailStore_UpdateMessageSentAt_def
  by (intro untouched_intros mails.intros)+

lemma load_message_success:
  assumes "load_message orgID i E w = (Inr msg, w')"
  obtains r now where "r \<in> set (t_messages (w_db w))" "mr_org_id r = orgID" "mr_id r = i" "msg = scanMessageByID r"
    "w_db w' = (w_db w)\<lparr>t_messages := upd_where (\<lambda>r. mr_id r = i)
        (\<lambda>r. r\<lparr>mr_status := ''sending'', mr_updated_at := now\<rparr>) (t_messages (w_db w))\<rparr>"
    "w_ses w' = w_ses w" "w_sent w' = w_sent w" "w_s3 w' = w_s3 w"
proof -
  have "untouched w_ses (load_message orgID i)"
    unfolding load_message_def by (intro mails.org_tx untouched_intros)
  then have ses: "w_ses w' = w_ses w" using assms by (rule untouchedD)
  from assms show thesis unfolding load_message_def
  proof (rule WithOrgTx_success)
    fix w1 w2
    assume body: "go_bind (wrap_err ''load message'' (EmailStore_GetMessageByID orgID i))
      (\<lambda>msg. go_bind (EmailStore_UpdateMessageStatus i MessageStatusSending) (\<lambda>_. ret msg)) E w1 = (Inr msg, w2)"
      and w1: "w_db w1 = w_db w" "w_sent w1 = w_sent w" "w_s3 w1 = w_s3 w" "w' = end_tx w w2"
    from body obtain w3 where g: "EmailStore_GetMessageByID orgID i E w1 = (Inr msg, w3)"
      and u: "EmailStore_UpdateMessageStatus i ''sending'' E w3 = (Inr (), w2)" by (auto simp: go_success)
    from g obtain r where r: "r \<in> set (t_messages (w_db w1))" "mr_org_id r = orgID" "mr_id r = i"
      "msg = scanMessageByID r" "w3 = tick_world w1" by (rule EmailStore_GetMessageByID_success)
    from EmailStore_UpdateMessageStatus_success [OF u] r(5) w1 ses show thesis
      by (intro that [OF r(1) [unfolded w1(1)] r(2-4)]) simp_all
  qed
qed

lemma load_attachments_scanned: "load_attachments bucket orgID i (scanMessageByID r) = ret ([], [])"
  by (simp add: load_attachments_def)

lemma untouched_reports [untouched_intros]:
  "untouched w_ses (report_sent p orgID m t h atts)" "untouched w_ses (report_bounce p orgID m t h atts e)"
  unfolding report_sent_def report_bounce_def by (intro untouched_intros mails.intros)+

lemma untouched_finish: "untouched w_ses (finish_send p orgID i msg t h atts now r)"
  unfolding finish_send_def by (intro mails.org_tx untouched_intros)

lemma keeps_db_reports [keeps_intros]:
  "keeps_db Q (report_sent p orgID m t h atts)" "keeps_db Q (report_bounce p orgID m t h atts e)"
  unfolding report_sent_def report_bounce_def by (intro keeps_intros)+

lemma finish_send_success:
  assumes "finish_send p orgID i msg t h atts now r E w = (Inr u, w')"
  shows "r = Inr () \<and> w_ses w' = w_ses w \<and> (\<exists>now'. w_db w' = (w_db w)\<lparr>t_messages := upd_where (\<lambda>r. mr_id r = i)
      (\<lambda>r. r\<lparr>mr_status := advance_status (mr_status r), mr_sent_at := Some now, mr_updated_at := now'\<rparr>) (t_messages (w_db w))\<rparr>)"
proof (cases r)
  case (Inl e)
  with assms show ?thesis by (auto simp: finish_send_def Inl elim!: WithOrgTx_success simp: go_success)
next
  case (Inr x)
  have ses: "w_ses w' = w_ses w" using untouched_finish assms by (rule untouchedD)
  from assms [unfolded finish_send_def Inr sum.case] show ?thesis
  proof (rule WithOrgTx_success)
    fix w1 w2
    assume "go_bind (EmailStore_UpdateMessageSentAt i now)
       (\<lambda>_. report_sent p orgID (msg\<lparr>m_Status := MessageStatusSent, m_SentAt := Some now, m_UpdatedAt := now\<rparr>) t h atts) E w1 = (Inr u, w2)"
      and w1: "w_db w1 = w_db w" "w' = end_tx w w2"
    then obtain w3 where u: "EmailStore_UpdateMessageSentAt i now E w1 = (Inr (), w3)"
      and "report_sent p orgID (msg\<lparr>m_Status := MessageStatusSent, m_SentAt := Some now, m_UpdatedAt := now\<rparr>) t h atts E w3 = (Inr u, w2)"
      by (auto simp: go_bind_eq_Inr)
    from this(2) have "w_db w2 = w_db w3" by (rule keeps_db_same [OF keeps_db_reports(1)])
    with EmailStore_UpdateMessageSentAt_success [OF u] w1 ses Inr show ?thesis by auto
  qed
qed

lemma SendEmail_result: "SendEmail m E w = (r, w') \<Longrightarrow> w_db w' = w_db w \<and> w_sent w' = w_sent w \<and>
    (r = Inr () \<longrightarrow> w_ses w' = w_ses w @ [m]) \<and> (\<forall>e. r = Inl e \<longrightarrow> w_ses w' = w_ses w)"
  by (auto simp: SendEmail_def split: option.splits)

lemma outbound_record_valid:
  assumes "jm_Job rec = Some job" "parse_uuid E (oj_MessageID job) = Some i" "parse_uuid E (oj_OrgID job) = Some orgID"
  shows "outbound_record cfg rec E w = send_message cfg orgID i job E w"
  using assms by (simp add: outbound_record_def go_bind_def asks_run)

text \<open>The mail that leaves for a stored message, given its bodies and a boundary.\<close>

definition outgoing_email :: "outbound_worker \<Rightarrow> env \<Rightarrow> message_row \<Rightarrow> string \<Rightarrow> string \<Rightarrow> string \<Rightarrow> ses_email" where
  "outgoing_email cfg E r boundary textBody htmlBody =
     \<lparr>se_Data = mime_head (fmt_address E) (scanMessageByID r) (emailAddrsToStrings (fmt_address E) (mr_to_addresses r))
          (emailAddrsToStrings (fmt_address E) (mr_cc_addresses r)) @ body_section boundary textBody htmlBody,
      se_ConfigurationSet = ow_SES_CONFIGURATION_SET cfg,
      se_ToAddresses = emailAddrsToStrings (fmt_address E) (mr_to_addresses r @ mr_cc_addresses r @ mr_bcc_addresses r)\<rparr>"

text \<open>After the message is loaded nothing fails before the answer of SES.\<close>

lemma send_message_run:
  assumes l: "load_message orgID i E w = (Inr (scanMessageByID r), w1)"
  obtains b bt bh now answer w5 where
    "body_source (ow_emailsS3 cfg) (mr_body_text_key r) (oj_BodyText job) w1 bt"
    "body_source (ow_emailsS3 cfg) (mr_body_html_key r) (oj_BodyHTML job) w1 bh"
    "w_db w5 = w_db w1" "w_sent w5 = w_sent w1"
    "answer = Inr () \<and> (\<exists>n. ses_answer E n (outgoing_email cfg E r b bt bh) = None) \<and> w_ses w5 = w_ses w1 @ [outgoing_email cfg E r b bt bh] \<or>
     (\<exists>n s. answer = Inl (ExternalError s) \<and> ses_answer E n (outgoing_email cfg E r b bt bh) = Some s \<and> w_ses w5 = w_ses w1)"
    "send_message cfg orgID i job E w = finish_send (ow_publisher cfg) orgID i (scanMessageByID r) bt bh [] now answer E w5"
proof -
  let ?msg = "scanMessageByID r" and ?fmt = "emailAddrsToStrings (fmt_address E)"
  have run: "\<exists>x w'. m E w0 = (Inr x, w')" if "never_fails m" for m :: "'z io" and w0
    using that unfolding never_fails_def by (metis obj_sumE surj_pair)
  obtain bt w2 where t: "body_or (ow_emailsS3 cfg) (m_TextS3Key ?msg) (oj_BodyText job) E w1 = (Inr bt, w2)"
    using run [OF body_or_never_fails] by blast
  obtain bh w3 where h: "body_or (ow_emailsS3 cfg) (m_HtmlS3Key ?msg) (oj_BodyHTML job) E w2 = (Inr bh, w3)"
    using run [OF body_or_never_fails] by blast
  obtain raw w4 where b: "buildMIME ?msg (?fmt (m_To ?msg)) (?fmt (m_Cc ?msg)) bt bh [] E w3 = (Inr raw, w4)"
    using run [OF buildMIME_never_fails] by blast
  note ft = body_or_success [OF t] and fh = body_or_success [OF h] and raw = buildMIME_success [OF b]
  from raw obtain x where x: "raw = mime_head (fmt_address E) ?msg (?fmt (m_To ?msg)) (?fmt (m_Cc ?msg)) @ body_section x bt bh"
    by blast
  let ?mail = "outgoing_email cfg E r x bt bh"
  have "?fmt (xs @ ys @ zs) = ?fmt xs @ ?fmt ys @ ?fmt zs" for xs ys zs by (simp add: emailAddrsToStrings_def)
  then have mail: "\<lparr>se_Data = raw, se_ConfigurationSet = ow_SES_CONFIGURATION_SET cfg,
       se_ToAddresses = ?fmt (m_To ?msg) @ ?fmt (m_Cc ?msg) @ ?fmt (m_Bcc ?msg)\<rparr> = ?mail"
    by (simp add: outgoing_email_def x)
  obtain answer w5 where s: "SendEmail ?mail E (tick_world w4) = (answer, w5)" by (rule prod.exhaust)
  have "send_message cfg orgID i job E w =
      finish_send (ow_publisher cfg) orgID i ?msg bt bh [] (clock E (w_tick w4)) answer E w5"
    using s unfolding send_message_def Let_def mail [symmetric]
    by (simp add: go_bind_def l t h b load_attachments_scanned asks_run ret_run attempt_def time_Now_def del: scanMessageByID_simps)
  moreover have "answer = Inr () \<and> (\<exists>n. ses_answer E n ?mail = None) \<and> w_ses w5 = w_ses w1 @ [?mail] \<or>
     (\<exists>n s. answer = Inl (ExternalError s) \<and> ses_answer E n ?mail = Some s \<and> w_ses w5 = w_ses w1)"
    using s ft fh raw by (auto simp: SendEmail_def split: option.splits)
  ultimately show thesis
    using ft fh raw SendEmail_result [OF s] by (intro that [of bt bh w5]) (auto simp: body_source_def)
qed

section \<open>A job that succeeds\<close>

text \<open>C31. A job that is processed without error has handed exactly one message to SES, addressed to the To, Cc and Bcc
  recipients of the stored message, and has marked that one message as sent.  The text is the header of the
  message with its body: the Bcc recipients are not in it, and no attachment ever is, because the message is loaded without
  its has\_attachments column.\<close>

theorem outbound_sent:
  assumes "outbound_record cfg rec E w = (Inr (), w')"
    and "jm_Job rec = Some job" "parse_uuid E (oj_MessageID job) = Some i" "parse_uuid E (oj_OrgID job) = Some orgID"
  shows "\<exists>r \<in> set (t_messages (w_db w)). mr_id r = i \<and> mr_org_id r = orgID \<and> (\<exists>b text html now now'.
    body_source (ow_emailsS3 cfg) (mr_body_text_key r) (oj_BodyText job) w text \<and>
    body_source (ow_emailsS3 cfg) (mr_body_html_key r) (oj_BodyHTML job) w html \<and>
    w_ses w' = w_ses w @ [outgoing_email cfg E r b text html] \<and>
    w_db w' = (w_db w)\<lparr>t_messages := upd_where (\<lambda>r. mr_id r = i)
      (\<lambda>r. r\<lparr>mr_status := ''sent'', mr_sent_at := Some now, mr_updated_at := now'\<rparr>) (t_messages (w_db w))\<rparr>)"
proof -
  from assms have s: "send_message cfg orgID i job E w = (Inr (), w')" by (simp add: outbound_record_valid)
  then obtain msg w1 where l: "load_message orgID i E w = (Inr msg, w1)" by (auto simp: send_message_def go_bind_eq_Inr)
  from l obtain r now1 where r: "r \<in> set (t_messages (w_db w))" "mr_org_id r = orgID" "mr_id r = i" "msg = scanMessageByID r"
    and d1: "w_db w1 = (w_db w)\<lparr>t_messages := upd_where (\<lambda>r. mr_id r = i)
        (\<lambda>r. r\<lparr>mr_status := ''sending'', mr_updated_at := now1\<rparr>) (t_messages (w_db w))\<rparr>"
    and w1: "w_ses w1 = w_ses w" "w_s3 w1 = w_s3 w"
    by (rule load_message_success)
  from l [unfolded r(4)] obtain b bt bh now answer w5 where
    src: "body_source (ow_emailsS3 cfg) (mr_body_text_key r) (oj_BodyText job) w1 bt"
      "body_source (ow_emailsS3 cfg) (mr_body_html_key r) (oj_BodyHTML job) w1 bh"
    and w5: "w_db w5 = w_db w1" "w_sent w5 = w_sent w1" "answer = Inr () \<and> (\<exists>n. ses_answer E n (outgoing_email cfg E r b bt bh) = None) \<and> w_ses w5 = w_ses w1 @ [outgoing_email cfg E r b bt bh] \<or>
     (\<exists>n s. answer = Inl (ExternalError s) \<and> ses_answer E n (outgoing_email cfg E r b bt bh) = Some s \<and> w_ses w5 = w_ses w1)"
    and f: "send_message cfg orgID i job E w = finish_send (ow_publisher cfg) orgID i (scanMessageByID r) bt bh [] now answer E w5"
    by (rule send_message_run [where cfg = cfg and job = job])
  from finish_send_success [OF f [symmetric, unfolded s]] w5 obtain now' where
    ses: "w_ses w' = w_ses w1 @ [outgoing_email cfg E r b bt bh]" and
    d: "w_db w' = (w_db w1)\<lparr>t_messages := upd_where (\<lambda>r. mr_id r = i)
      (\<lambda>r. r\<lparr>mr_status := advance_status (mr_status r), mr_sent_at := Some now, mr_updated_at := now'\<rparr>) (t_messages (w_db w1))\<rparr>"
    by auto
  have "w_db w' = (w_db w)\<lparr>t_messages := upd_where (\<lambda>r. mr_id r = i)
      (\<lambda>r. r\<lparr>mr_status := ''sent'', mr_sent_at := Some now, mr_updated_at := now'\<rparr>) (t_messages (w_db w))\<rparr>"
    unfolding d d1 by (simp add: upd_where_twice advance_status_def)
  with src ses w1 show ?thesis
    by (intro bexI [OF _ r(1)] conjI r(2,3) exI [of _ b] exI [of _ bt] exI [of _ bh] exI [of _ now] exI [of _ now'])
      (simp_all add: body_source_def)
qed

section \<open>A job whose mail is accepted or refused\<close>

lemma message_select_run:
  assumes "r \<in> set (t_messages d)" "mr_id r = i" "mr_org_id r = orgID"
  obtains r0 where "message_select orgID i now d = Inr (r0, d)" "r0 \<in> set (t_messages d)" "mr_id r0 = i"
proof (cases "filter (\<lambda>r. mr_org_id r = orgID \<and> mr_id r = i) (t_messages d)")
  case Nil
  with assms show ?thesis by (simp add: filter_empty_conv)
next
  case (Cons r0 rest)
  then have "r0 \<in> set (filter (\<lambda>r. mr_org_id r = orgID \<and> mr_id r = i) (t_messages d))" by simp
  then have "r0 \<in> set (t_messages d)" "mr_id r0 = i" by simp_all
  with Cons show ?thesis by (intro that [of r0]) (simp_all add: message_select_def query_row_def first_row_def)
qed

lemma message_with_id_iff: "message_with_id i d \<noteq> [] \<longleftrightarrow> i \<in> set (map mr_id (t_messages d))"
  by (auto simp: message_with_id_def filter_empty_conv)

lemma message_with_id_nonempty: "r \<in> set (t_messages d) \<Longrightarrow> mr_id r = i \<Longrightarrow> message_with_id i d \<noteq> []"
  by (auto simp: message_with_id_iff)

lemma status_run:
  assumes "no_faults E" "\<not> w_failed w" "message_with_id i (w_db w) \<noteq> []" "st \<in> set message_statuses"
  shows "EmailStore_UpdateMessageStatus i st E w = (Inr (), (tick_world w)\<lparr>w_db := (w_db w)\<lparr>t_messages :=
     upd_where (\<lambda>r. mr_id r = i) (\<lambda>r. r\<lparr>mr_status := st, mr_updated_at := w_now w\<rparr>) (t_messages (w_db w))\<rparr>\<rparr>)"
proof -
  have "status_update i st (w_now w) (w_db w) = Inr ((), (w_db w)\<lparr>t_messages :=
     upd_where (\<lambda>r. mr_id r = i) (\<lambda>r. r\<lparr>mr_status := st, mr_updated_at := w_now w\<rparr>) (t_messages (w_db w))\<rparr>)"
    using assms(4) by (simp add: status_update_eq_Inr)
  with assms(3) show ?thesis
    by (simp add: EmailStore_UpdateMessageStatus_def go_bind_def asks_run wrap_err_def tx_exec_run [OF assms(1,2)] counted_def fail_if_run)
qed

lemma load_message_run:
  assumes "no_faults E" "r \<in> set (t_messages (w_db w))" "mr_id r = i" "mr_org_id r = orgID"
  obtains r0 w1 where "load_message orgID i E w = (Inr (scanMessageByID r0), w1)"
proof -
  let ?w = "org_tx_start E orgID w"
  obtain r0 where r0: "message_select orgID i (w_now ?w) (w_db w) = Inr (r0, w_db w)" "r0 \<in> set (t_messages (w_db w))" "mr_id r0 = i"
    using message_select_run [OF assms(2-4)] by blast
  then have g: "EmailStore_GetMessageByID orgID i E ?w = (Inr (scanMessageByID r0), tick_world ?w)"
    by (simp add: EmailStore_GetMessageByID_def go_bind_def ret_run tx_exec_run [OF assms(1)])
  have "message_with_id i (w_db (tick_world ?w)) \<noteq> []" using message_with_id_nonempty [OF r0(2,3)] by simp
  from status_run [OF assms(1) _ this, of "''sending''"] obtain w2
    where u: "EmailStore_UpdateMessageStatus i ''sending'' E (tick_world ?w) = (Inr (), w2)" "\<not> w_failed w2"
    by (simp add: message_statuses_def)
  let ?fn = "go_bind (wrap_err ''load message'' (EmailStore_GetMessageByID orgID i))
      (\<lambda>msg. go_bind (EmailStore_UpdateMessageStatus i MessageStatusSending) (\<lambda>_. ret msg))"
  from u have "?fn E ?w = (Inr (scanMessageByID r0), w2)"
    using g by (simp add: go_bind_def wrap_err_def ret_run)
  from WithOrgTx_run [of E ?fn orgID w "Inr (scanMessageByID r0)" w2, OF assms(1) this] \<open>\<not> w_failed w2\<close>
  show thesis by (intro that) (simp add: load_message_def)
qed

lemma report_bounce_run:
  assumes "no_faults E" "webhookDeliveryURL p \<noteq> []"
  obtains w' base where "report_bounce p orgID m t h atts e E w = (Inr (), w')" "w_db w' = w_db w"
    "(webhookDeliveryURL p, EventBody (MessageBouncedEvent base
       (MessagePayloadFromModel (fmt_uuid E) m t h (BuildPreview t 200) atts) ''500'' (err_text E e))) \<in> set (w_sent w')"
proof -
  obtain base w1 where b: "NewBase EventMessageBounced orgID E w = (Inr base, w1)"
    using never_fails_NewBase unfolding never_fails_def by (metis obj_sumE surj_pair)
  let ?e = "MessageBouncedEvent base (MessagePayloadFromModel (fmt_uuid E) m t h (BuildPreview t 200) atts) ''500'' (err_text E e)"
  let ?w = "snd (PublishEvent p ?e E w1)"
  have run: "report_bounce p orgID m t h atts e E w = (Inr (), ?w)"
    by (simp add: report_bounce_def go_bind_def b asks_run ignore_err_run)
  have "(webhookDeliveryURL p, EventBody ?e) \<in> set (w_sent ?w)"
    using assms(2) by (simp add: PublishEvent_run [OF assms(1)] event_queues_def Let_def)
  with run show thesis by (intro that [OF run]) (rule keeps_db_same [OF keeps_db_reports(2) run])
qed

lemma finish_send_refused:
  assumes "no_faults E" "message_with_id i (w_db w) \<noteq> []" "webhookDeliveryURL p \<noteq> []"
  obtains w' base where "finish_send p orgID i msg t h atts now (Inl e) E w = (Inl e, w')" "w_db w' = w_db w"
    "(webhookDeliveryURL p, EventBody (MessageBouncedEvent base (MessagePayloadFromModel (fmt_uuid E)
       (msg\<lparr>m_Status := ''failed'', m_UpdatedAt := now\<rparr>) t h (BuildPreview t 200) atts) ''500'' (err_text E e))) \<in> set (w_sent w')"
proof -
  have "message_with_id i (w_db (org_tx_start E orgID w)) \<noteq> []" using assms(2) by simp
  from status_run [OF assms(1) _ this, of "''failed''"] obtain w1
    where u: "EmailStore_UpdateMessageStatus i ''failed'' E (org_tx_start E orgID w) = (Inr (), w1)"
    by (auto simp: message_statuses_def)
  obtain w2 base where b: "report_bounce p orgID (msg\<lparr>m_Status := ''failed'', m_UpdatedAt := now\<rparr>) t h atts e E w1 = (Inr (), w2)"
    "(webhookDeliveryURL p, EventBody (MessageBouncedEvent base (MessagePayloadFromModel (fmt_uuid E)
       (msg\<lparr>m_Status := ''failed'', m_UpdatedAt := now\<rparr>) t h (BuildPreview t 200) atts) ''500'' (err_text E e))) \<in> set (w_sent w2)"
    by (rule report_bounce_run [OF assms(1,3)])
  let ?fn = "go_bind (EmailStore_UpdateMessageStatus i MessageStatusFailed) (\<lambda>_.
     go_bind (report_bounce p orgID (msg\<lparr>m_Status := MessageStatusFailed, m_UpdatedAt := now\<rparr>) t h atts e) (\<lambda>_.
     throw e)) :: unit io"
  have "?fn E (org_tx_start E orgID w) = (Inl e, w2)" by (simp add: go_bind_def u b(1) throw_run)
  from WithOrgTx_run_error [of E ?fn orgID w e w2, OF assms(1) this]
  have "finish_send p orgID i msg t h atts now (Inl e) E w = (Inl e, (end_tx w w2)\<lparr>w_db := w_db w\<rparr>)"
    by (simp add: finish_send_def)
  with b(2) show thesis by (intro that [of "(end_tx w w2)\<lparr>w_db := w_db w\<rparr>" base]) simp_all
qed

text \<open>When SES refuses the mail of a valid job, the failure is announced but not recorded: the job ends with the
  error of SES, a bounce event that calls the message failed is on the queue of the webhooks, and the message in the database
  is still 'sending', because the update to 'failed' is rolled back with the error that the transaction returns.\<close>

lemma outbound_refusal_not_recorded:
  assumes "no_faults E" and refused: "\<And>n m. ses_answer E n m \<noteq> None"
    and "jm_Job rec = Some job" "parse_uuid E (oj_MessageID job) = Some i" "parse_uuid E (oj_OrgID job) = Some orgID"
    and "r \<in> set (t_messages (w_db w))" "mr_id r = i" "mr_org_id r = orgID" and "webhookDeliveryURL (ow_publisher cfg) \<noteq> []"
  shows "\<exists>s w'. outbound_record cfg rec E w = (Inl (ExternalError s), w') \<and> w_ses w' = w_ses w \<and>
    (\<forall>m \<in> set (t_messages (w_db w')). mr_id m = i \<longrightarrow> mr_status m = ''sending'') \<and>
    (\<exists>base p. (webhookDeliveryURL (ow_publisher cfg), EventBody (MessageBouncedEvent base p ''500'' s)) \<in> set (w_sent w') \<and>
       mp_Status p = ''failed'' \<and> mp_ID p = fmt_uuid E i)"
proof -
  obtain r0 w1 where l: "load_message orgID i E w = (Inr (scanMessageByID r0), w1)"
    using load_message_run [OF assms(1,6-8)] by blast
  then obtain r1 now1 where r1: "scanMessageByID r0 = scanMessageByID r1" "mr_id r1 = i" and w1: "w_ses w1 = w_ses w"
    and d1: "w_db w1 = (w_db w)\<lparr>t_messages := upd_where (\<lambda>r. mr_id r = i)
        (\<lambda>r. r\<lparr>mr_status := ''sending'', mr_updated_at := now1\<rparr>) (t_messages (w_db w))\<rparr>"
    by (rule load_message_success) blast
  obtain bt bh now answer w5 b where w5: "w_db w5 = w_db w1" and
    a: "answer = Inr () \<and> (\<exists>n. ses_answer E n (outgoing_email cfg E r0 b bt bh) = None) \<and> w_ses w5 = w_ses w1 @ [outgoing_email cfg E r0 b bt bh] \<or>
     (\<exists>n s. answer = Inl (ExternalError s) \<and> ses_answer E n (outgoing_email cfg E r0 b bt bh) = Some s \<and> w_ses w5 = w_ses w1)"
    and f: "send_message cfg orgID i job E w =
      finish_send (ow_publisher cfg) orgID i (scanMessageByID r0) bt bh [] now answer E w5"
    by (rule send_message_run [OF l, where cfg = cfg and job = job])
  from a obtain s where s: "answer = Inl (ExternalError s)" and w_ses: "w_ses w5 = w_ses w"
    by (elim disjE exE conjE) (simp_all add: refused w1)
  have "message_with_id i (w_db w5) \<noteq> []"
    using message_with_id_nonempty [OF assms(6,7)] unfolding message_with_id_iff w5 d1 by (simp del: set_map)
  then obtain w' base where fin: "finish_send (ow_publisher cfg) orgID i (scanMessageByID r0) bt bh [] now answer E w5 = (Inl (ExternalError s), w')"
    "w_db w' = w_db w5"
    and sent: "(webhookDeliveryURL (ow_publisher cfg), EventBody (MessageBouncedEvent base (MessagePayloadFromModel (fmt_uuid E)
       ((scanMessageByID r0)\<lparr>m_Status := ''failed'', m_UpdatedAt := now\<rparr>) bt bh (BuildPreview bt 200) []) ''500'' s)) \<in> set (w_sent w')"
    using finish_send_refused [OF assms(1) _ assms(9), where e = "ExternalError s"] unfolding s by (metis err_text.simps(5))
  have ses: "w_ses w' = w_ses w5" using untouched_finish fin(1) by (rule untouchedD)
  have "outbound_record cfg rec E w = (Inl (ExternalError s), w')"
    by (simp add: outbound_record_valid [OF assms(3-5)] f fin)
  moreover have "mr_status m = ''sending''" if "m \<in> set (t_messages (w_db w'))" "mr_id m = i" for m
  proof -
    have "t_messages (w_db w') = upd_where (\<lambda>r. mr_id r = i) (\<lambda>r. r\<lparr>mr_status := ''sending'', mr_updated_at := now1\<rparr>) (t_messages (w_db w))"
      by (simp add: fin(2) w5 d1)
    from upd_where_hit [OF that(1) [unfolded this] that(2)] show ?thesis by auto
  qed
  moreover have "m_ID (scanMessageByID r0) = i" using r1 by simp
  then have "mp_Status p = ''failed'' \<and> mp_ID p = fmt_uuid E i"
    if "p = MessagePayloadFromModel (fmt_uuid E) ((scanMessageByID r0)\<lparr>m_Status := ''failed'', m_UpdatedAt := now\<rparr>) bt bh (BuildPreview bt 200) []" for p
    using that by (simp add: MessagePayloadFromModel_def)
  ultimately show ?thesis
    using sent ses w_ses by (intro exI [of _ s] exI [of _ w'] conjI exI [of _ base]) (assumption | simp | blast)+
qed

definition demo_job :: outbound_job where
  "demo_job = \<lparr>oj_MessageID = ''111111111'', oj_OrgID = ''1'', oj_InboxID = ''111'', oj_ThreadID = ''11111111'', oj_From = alice,
     oj_To = [bob], oj_CC = [], oj_Subject = ''hi'', oj_BodyText = ''text'', oj_BodyHTML = '''', oj_InReplyTo = '''',
     oj_References = []\<rparr>"

definition demo_job_message :: job_message where
  "demo_job_message = \<lparr>jm_MessageId = ''q1'', jm_Job = Some demo_job\<rparr>"

definition demo_worker :: outbound_worker where
  "demo_worker = \<lparr>ow_emailsS3 = ''emails'', ow_attachmentsS3 = ''att'', ow_publisher = demo_publisher, ow_SES_CONFIGURATION_SET = ''''\<rparr>"

lemma demo_job_valid:
  "jm_Job demo_job_message = Some demo_job" "parse_uuid demo_env (oj_MessageID demo_job) = Some 9"
  "parse_uuid demo_env (oj_OrgID demo_job) = Some 1" "demo_message \<in> set (t_messages (w_db demo_world))"
  "mr_id demo_message = 9" "mr_org_id demo_message = 1" "webhookDeliveryURL (ow_publisher demo_worker) \<noteq> []"
  by (simp_all add: demo_job_message_def demo_job_def demo_env_def demo_db_def demo_message_def demo_worker_def demo_publisher_def)

lemma outbound_refusal_not_recorded_at_demo:
  "\<exists>s w'. outbound_record demo_worker demo_job_message (demo_env\<lparr>ses_answer := (\<lambda>n m. Some ''no'')\<rparr>) demo_world = (Inl (ExternalError s), w') \<and>
     (\<forall>m \<in> set (t_messages (w_db w')). mr_id m = 9 \<longrightarrow> mr_status m = ''sending'')"
proof -
  let ?E = "demo_env\<lparr>ses_answer := (\<lambda>n m. Some ''no'')\<rparr>"
  have "no_faults ?E" "\<And>n m. ses_answer ?E n m \<noteq> None" "parse_uuid ?E (oj_MessageID demo_job) = Some 9"
    "parse_uuid ?E (oj_OrgID demo_job) = Some 1"
    using demo_job_valid by (simp_all add: no_faults_def)
  from outbound_refusal_not_recorded [OF this(1,2) demo_job_valid(1) this(3,4) demo_job_valid(4-7)] show ?thesis by blast
qed

lemma report_sent_result:
  "fst (report_sent p orgID m t h atts E w) = Inr ()" "untouched w_failed (report_sent p orgID m t h atts)"
proof -
  have "never_fails (report_sent p orgID m t h atts)"
    unfolding report_sent_def by (intro never_fails_bind never_fails_NewBase never_fails_intros)
  then show "fst (report_sent p orgID m t h atts E w) = Inr ()"
    by (cases "report_sent p orgID m t h atts E w"; cases "fst (report_sent p orgID m t h atts E w)") (auto simp: never_fails_def)
  show "untouched w_failed (report_sent p orgID m t h atts)"
    unfolding report_sent_def by (intro untouched_intros tx_state.base)
qed

lemma finish_send_accepted:
  assumes "no_faults E" "message_with_id i (w_db w) \<noteq> []"
  obtains w' where "finish_send p orgID i msg t h atts now (Inr x) E w = (Inr (), w')"
proof -
  let ?w = "org_tx_start E orgID w" and ?m = "msg\<lparr>m_Status := MessageStatusSent, m_SentAt := Some now, m_UpdatedAt := now\<rparr>"
  have "tx_exec (counted (message_with_id i) (sent_at_update i now)) E ?w =
      (Inr (length (message_with_id i (w_db w))), (tick_world ?w)\<lparr>w_db := (w_db w)\<lparr>t_messages := upd_where (\<lambda>r. mr_id r = i)
     (\<lambda>r. r\<lparr>mr_status := advance_status (mr_status r), mr_sent_at := Some now, mr_updated_at := w_now ?w\<rparr>) (t_messages (w_db w))\<rparr>\<rparr>)"
    by (simp add: tx_exec_run [OF assms(1)] counted_def sent_at_update_def)
  then obtain w1 where u: "EmailStore_UpdateMessageSentAt i now E ?w = (Inr (), w1)" "\<not> w_failed w1"
    using assms(2) by (simp add: EmailStore_UpdateMessageSentAt_def go_bind_def asks_run wrap_err_def fail_if_run)
  obtain w2 where r: "report_sent p orgID ?m t h atts E w1 = (Inr (), w2)"
    using report_sent_result(1) by (metis prod.collapse)
  with u have failed: "\<not> w_failed w2" using untouchedD [OF report_sent_result(2)] by metis
  let ?fn = "go_bind (EmailStore_UpdateMessageSentAt i now) (\<lambda>_. report_sent p orgID ?m t h atts)"
  have "?fn E ?w = (Inr (), w2)" by (simp add: go_bind_def u r)
  from WithOrgTx_run [of E ?fn orgID w "Inr ()" w2, OF assms(1) this] failed show thesis
    by (intro that) (simp add: finish_send_def)
qed

text \<open>C30. Without faults, a valid job whose mail SES accepts is processed to the end: the mail has left and every row of
  the message is marked as sent.\<close>

theorem outbound_delivers:
  assumes "no_faults E" and accepted: "\<And>n m. ses_answer E n m = None"
    and "jm_Job rec = Some job" "parse_uuid E (oj_MessageID job) = Some i" "parse_uuid E (oj_OrgID job) = Some orgID"
    and "r \<in> set (t_messages (w_db w))" "mr_id r = i" "mr_org_id r = orgID"
  shows "\<exists>w'. outbound_record cfg rec E w = (Inr (), w') \<and> length (w_ses w') = Suc (length (w_ses w)) \<and>
    (\<forall>m \<in> set (t_messages (w_db w')). mr_id m = i \<longrightarrow> mr_status m = ''sent'' \<and> mr_sent_at m \<noteq> None)"
proof -
  obtain r0 w1 where l: "load_message orgID i E w = (Inr (scanMessageByID r0), w1)"
    using load_message_run [OF assms(1,6-8)] by blast
  then obtain now1 where w1: "w_ses w1 = w_ses w" and d1: "w_db w1 = (w_db w)\<lparr>t_messages := upd_where (\<lambda>r. mr_id r = i)
        (\<lambda>r. r\<lparr>mr_status := ''sending'', mr_updated_at := now1\<rparr>) (t_messages (w_db w))\<rparr>"
    by (rule load_message_success) blast
  obtain bt bh now answer w5 b where w5: "w_db w5 = w_db w1" and
    a: "answer = Inr () \<and> (\<exists>n. ses_answer E n (outgoing_email cfg E r0 b bt bh) = None) \<and> w_ses w5 = w_ses w1 @ [outgoing_email cfg E r0 b bt bh] \<or>
     (\<exists>n s. answer = Inl (ExternalError s) \<and> ses_answer E n (outgoing_email cfg E r0 b bt bh) = Some s \<and> w_ses w5 = w_ses w1)"
    and f: "send_message cfg orgID i job E w =
      finish_send (ow_publisher cfg) orgID i (scanMessageByID r0) bt bh [] now answer E w5"
    by (rule send_message_run [OF l, where cfg = cfg and job = job])
  from a have s: "answer = Inr ()" "length (w_ses w5) = Suc (length (w_ses w))"
    by (auto simp: accepted w1)
  have "message_with_id i (w_db w5) \<noteq> []"
    using message_with_id_nonempty [OF assms(6,7)] unfolding message_with_id_iff w5 d1 by (simp del: set_map)
  then obtain w' where fin: "finish_send (ow_publisher cfg) orgID i (scanMessageByID r0) bt bh [] now answer E w5 = (Inr (), w')"
    unfolding s by (rule finish_send_accepted [OF assms(1)])
  have "mr_status m = ''sent'' \<and> mr_sent_at m \<noteq> None" if "m \<in> set (t_messages (w_db w'))" "mr_id m = i" for m
  proof -
    from finish_send_success [OF fin] obtain now' where "t_messages (w_db w') = upd_where (\<lambda>r. mr_id r = i)
        (\<lambda>r. r\<lparr>mr_status := advance_status (mr_status r), mr_sent_at := Some now, mr_updated_at := now'\<rparr>) (t_messages (w_db w5))"
      by auto
    from upd_where_hit [OF that(1) [unfolded this] that(2)] obtain r' where r': "r' \<in> set (t_messages (w_db w5))" "mr_id r' = i"
      "m = r'\<lparr>mr_status := advance_status (mr_status r'), mr_sent_at := Some now, mr_updated_at := now'\<rparr>" by auto
    have "t_messages (w_db w5) = upd_where (\<lambda>r. mr_id r = i) (\<lambda>r. r\<lparr>mr_status := ''sending'', mr_updated_at := now1\<rparr>) (t_messages (w_db w))"
      by (simp add: w5 d1)
    from upd_where_hit [OF r'(1) [unfolded this] r'(2)] have "mr_status r' = ''sending''" by auto
    with r'(3) show ?thesis by (simp add: advance_status_def)
  qed
  with fin s(2) finish_send_success [OF fin] show ?thesis
    by (intro exI [of _ w']) (simp add: outbound_record_valid [OF assms(3-5)] f)
qed

theorem outbound_delivers_witness:
  "\<exists>w'. outbound_record demo_worker demo_job_message demo_env demo_world = (Inr (), w') \<and> length (w_ses w') = 1"
proof -
  have "ses_answer demo_env n m = None" for n m by (simp add: demo_env_def)
  moreover have "no_faults demo_env" by (simp add: no_faults_def)
  moreover have "length (w_ses demo_world) = 0" by (simp add: demo_world_def)
  ultimately show ?thesis
    using outbound_delivers [OF _ _ demo_job_valid(1-6), of demo_worker] by (metis One_nat_def)
qed

theorem outbound_sent_witness:
  "\<exists>w'. outbound_record demo_worker demo_job_message demo_env demo_world = (Inr (), w') \<and>
     map se_ToAddresses (w_ses w') = [[''Alice <a@x>'', ''c@z'']]"
proof -
  have "isl (fst (outbound_record demo_worker demo_job_message demo_env demo_world)) = False" by code_simp
  then obtain w' where run: "outbound_record demo_worker demo_job_message demo_env demo_world = (Inr (), w')"
    by (metis isl_def old.unit.exhaust prod.collapse sum.collapse(2))
  from outbound_sent [OF run demo_job_valid(1-3)] obtain r b t h where
    "r \<in> set (t_messages (w_db demo_world))" "w_ses w' = w_ses demo_world @ [outgoing_email demo_worker demo_env r b t h]" by blast
  then have "map se_ToAddresses (w_ses w') = [emailAddrsToStrings (fmt_address demo_env) [alice, carol]]"
    by (simp add: outgoing_email_def demo_db_def demo_message_def demo_world_def)
  with run show ?thesis by (simp add: emailAddrsToStrings_def alice_def carol_def demo_env_def)
qed

end
