(* ===== verification/Ses_Events.thy ===== *)
theory Ses_Events
  imports Email_Store Demo
begin

text \<open>
  \<open>lambdas/ses_events/main.go\<close>: the worker that follows up on sent mails with the notifications of SES
  (bounces, complaints, deliveries, opens and clicks).  It finds messages by their Message-ID header alone, over
  all organisations.
\<close>

section \<open>Notifications\<close>

record ses_mail_header =
  smh_Name :: string
  smh_Value :: string

record ses_mail =
  sm_MessageID :: string
  sm_Headers :: "ses_mail_header list"

record eb_bounce =
  eb_BounceType :: string
  eb_BounceSubType :: string

record eb_click =
  ec_IPAddress :: string
  ec_Link :: string
  ec_UserAgent :: string

record eb_open =
  eo_IPAddress :: string
  eo_UserAgent :: string

record eb_detail =
  det_Mail :: ses_mail
  det_Bounce :: eb_bounce
  det_Click :: eb_click
  det_Open :: eb_open

record eb_ses_event =
  evt_DetailType :: string
  evt_Detail :: eb_detail

text \<open>A record of the queue; the event is what \<open>json.Unmarshal\<close> makes of its body, \<open>None\<close> when it fails.\<close>

record ses_record =
  sr_MessageId :: string
  sr_Event :: "eb_ses_event option"

text \<open>Without a database URL nothing is set up; without the bucket's client bodies are not read.\<close>

record ses_worker =
  sw_pool :: bool
  sw_publisher :: "publisher option"
  sw_emailsS3 :: "string option"

definition strip_brackets :: "string \<Rightarrow> string" where
  "strip_brackets v = (if length v > 2 \<and> hd v = CHR ''<'' then butlast (tl v) else v)"

fun message_id_of :: "ses_mail_header list \<Rightarrow> string" where
  "message_id_of [] = []"
| "message_id_of (h # hs) =
     (if smh_Name h = ''Message-ID'' \<or> smh_Name h = ''Message-Id'' then strip_brackets (smh_Value h) else message_id_of hs)"

section \<open>Loading the message of an event\<close>

text \<open>What the body of a transaction has computed, also when the commit then fails.\<close>

definition body_value :: "uuid \<Rightarrow> 'a io \<Rightarrow> env \<Rightarrow> world \<Rightarrow> 'a option" where
  "body_value orgID fn E w =
     (case external (ret ()) E w of
        (Inl _, _) \<Rightarrow> None
      | (Inr _, w1) \<Rightarrow>
          (case fst (go_bind (SetOrgContext orgID) (\<lambda>_. fn) E (w1\<lparr>w_failed := False, w_now := clock E (w_tick w)\<rparr>)) of
             Inl _ \<Rightarrow> None
           | Inr x \<Rightarrow> Some x))"

definition fetchBodies :: "string option \<Rightarrow> message \<Rightarrow> (string \<times> string) io" where
  "fetchBodies emailsS3 msg =
     (case emailsS3 of
        None \<Rightarrow> ret ([], [])
      | Some bucket \<Rightarrow>
          go_bind (if m_TextS3Key msg \<noteq> [] then attempt (S3_Download bucket (m_TextS3Key msg)) else ret (Inr [])) (\<lambda>t.
          go_bind (if m_HtmlS3Key msg \<noteq> [] then attempt (S3_Download bucket (m_HtmlS3Key msg)) else ret (Inr [])) (\<lambda>h.
          ret (case_sum (\<lambda>_. []) id t, case_sum (\<lambda>_. []) id h))))"

definition message_and_attachments :: "uuid \<Rightarrow> uuid \<Rightarrow> (message \<times> attachment list) io" where
  "message_and_attachments orgID msgID =
     go_bind (EmailStore_GetMessageByID orgID msgID) (\<lambda>msg.
     go_bind (attempt (EmailStore_GetAttachmentsByMessageID orgID msgID)) (\<lambda>r.
     ret (msg, case_sum (\<lambda>_. []) id r)))"

definition loadMsg :: "ses_worker \<Rightarrow> string \<Rightarrow> string \<Rightarrow> (message \<times> string \<times> string \<times> attachment list) option io" where
  "loadMsg cfg msgIDStr orgIDStr =
     (if sw_publisher cfg = None then ret None
      else go_bind (asks parse_uuid) (\<lambda>parse.
        case parse msgIDStr of
          None \<Rightarrow> ret None
        | Some msgID \<Rightarrow> (case parse orgIDStr of
            None \<Rightarrow> ret None
          | Some orgID \<Rightarrow>
              go_bind (\<lambda>E w. (Inr (body_value orgID (message_and_attachments orgID msgID) E w),
                  snd (WithOrgTx orgID (message_and_attachments orgID msgID) E w))) (\<lambda>loaded.
              case loaded of
                None \<Rightarrow> ret None
              | Some (msg, atts) \<Rightarrow>
                  go_bind (fetchBodies (sw_emailsS3 cfg) msg) (\<lambda>(bodyText, bodyHTML).
                  ret (Some (msg, bodyText, bodyHTML, atts)))))))"

text \<open>The error of the second \<open>uuid.Parse\<close> is ignored, with the value that it returns then.\<close>

definition parse_or_value :: "env \<Rightarrow> string \<Rightarrow> uuid" where
  "parse_or_value E s = (case parse_uuid E s of Some i \<Rightarrow> i | None \<Rightarrow> uuid_on_error E s)"

text \<open>The three publishing helpers differ in the event they build from the envelope and the payload.\<close>

definition publish_loaded ::
  "ses_worker \<Rightarrow> string \<Rightarrow> string \<Rightarrow> string \<Rightarrow> (base_event \<Rightarrow> message_payload \<Rightarrow> event) \<Rightarrow> unit io" where
  "publish_loaded cfg eventType msgIDStr orgIDStr build =
     go_bind (loadMsg cfg msgIDStr orgIDStr) (\<lambda>loaded.
     case loaded of
       None \<Rightarrow> ret ()
     | Some (msg, bodyText, bodyHTML, atts) \<Rightarrow>
         (case sw_publisher cfg of
            None \<Rightarrow> ret ()
          | Some p \<Rightarrow>
              go_bind (asks (\<lambda>E. parse_or_value E orgIDStr)) (\<lambda>orgID.
              go_bind (NewBase eventType orgID) (\<lambda>base. go_bind (asks fmt_uuid) (\<lambda>fmt.
              ignore_err (PublishEvent p (build base
                (MessagePayloadFromModel fmt msg bodyText bodyHTML (BuildPreview bodyText 200) atts))))))))"

definition publishMsgBounced :: "ses_worker \<Rightarrow> string \<Rightarrow> string \<Rightarrow> string \<Rightarrow> string \<Rightarrow> unit io" where
  "publishMsgBounced cfg msgIDStr orgIDStr bounceCode bounceReason =
     publish_loaded cfg EventMessageBounced msgIDStr orgIDStr (\<lambda>base p. MessageBouncedEvent base p bounceCode bounceReason)"

definition publishMsgSent :: "ses_worker \<Rightarrow> string \<Rightarrow> string \<Rightarrow> unit io" where
  "publishMsgSent cfg msgIDStr orgIDStr =
     publish_loaded cfg EventMessageSent msgIDStr orgIDStr (\<lambda>base p. MessageSentEvent base p)"

text \<open>The rows with the header, in no particular order, of which the caller reads one.\<close>

definition with_header :: "string \<Rightarrow> database \<Rightarrow> message_row list" where
  "with_header header d = filter (\<lambda>r. mr_message_id_header r = header) (t_messages d)"

definition findMsgByHeader :: "string \<Rightarrow> (string \<times> string) option io" where
  "findMsgByHeader header =
     go_bind (attempt (\<lambda>E w. pool_exec (query_row (\<lambda>d. rotate_to (any_row E (w_tick w)) (with_header header d))) E w)) (\<lambda>r.
     go_bind (asks fmt_uuid) (\<lambda>fmt.
     ret (case r of Inl _ \<Rightarrow> None | Inr row \<Rightarrow> Some (fmt (mr_id row), fmt (mr_org_id row)))))"

definition publishMsgEngagement :: "ses_worker \<Rightarrow> string \<Rightarrow> string \<Rightarrow> string \<Rightarrow> string \<Rightarrow> string \<Rightarrow> unit io" where
  "publishMsgEngagement cfg header engagementType linkURL ipAddress userAgent =
     (if sw_publisher cfg = None \<or> \<not> sw_pool cfg then ret ()
      else go_bind (findMsgByHeader header) (\<lambda>found.
        case found of
          None \<Rightarrow> ret ()
        | Some (msgIDStr, orgIDStr) \<Rightarrow>
            publish_loaded cfg EventMessageEngagement msgIDStr orgIDStr
              (\<lambda>base p. MessageEngagementEvent base p engagementType linkURL ipAddress userAgent)))"

section \<open>Processing a notification\<close>

text \<open>\<open>UPDATE messages ... WHERE message_id_header = $2 RETURNING id, org_id\<close>, read by \<open>QueryRow\<close>: every row with
  the header is updated and the first one is returned.  The new status must satisfy the CHECK of the column.\<close>

definition header_update :: "nat \<Rightarrow> string \<Rightarrow> (time \<Rightarrow> message_row \<Rightarrow> message_row) \<Rightarrow> message_row stmt" where
  "header_update n header f now d =
     (if \<exists>r \<in> set (with_header header d). mr_status (f now r) \<notin> set message_statuses then Inl (PgError ''23514'')
      else case first_row (rotate_to n (with_header header d)) of
        Inl e \<Rightarrow> Inl e
      | Inr r \<Rightarrow> Inr (r, d\<lparr>t_messages := upd_where (\<lambda>r. mr_message_id_header r = header) (f now) (t_messages d)\<rparr>))"

definition set_status :: "string \<Rightarrow> time \<Rightarrow> message_row \<Rightarrow> message_row" where
  "set_status status now r = r\<lparr>mr_status := status, mr_updated_at := now\<rparr>"

definition confirm_delivery :: "time \<Rightarrow> message_row \<Rightarrow> message_row" where
  "confirm_delivery now r = r\<lparr>mr_sent_at := Some now, mr_updated_at := now, mr_status := advance_status (mr_status r)\<rparr>"

definition update_by_header ::
  "ses_worker \<Rightarrow> string \<Rightarrow> (time \<Rightarrow> message_row \<Rightarrow> message_row) \<Rightarrow> (string \<Rightarrow> string \<Rightarrow> unit io) \<Rightarrow> unit io" where
  "update_by_header cfg header f follow_up =
     (if \<not> sw_pool cfg then throw (Errorf ''ses_events: database pool not initialised'')
      else go_bind (attempt (\<lambda>E w. pool_exec (header_update (any_row E (w_tick w)) header f) E w)) (\<lambda>r.
        case r of
          Inl e \<Rightarrow> if e = ErrNoRows then ret () else throw e
        | Inr row \<Rightarrow> go_bind (asks fmt_uuid) (\<lambda>fmt. follow_up (fmt (mr_id row)) (fmt (mr_org_id row)))))"

definition failure_types :: "string list" where
  "failure_types = [''Email Complaint Received'', ''Email Rejected'', ''Email Rendering Failed'']"

definition ses_processRecord :: "ses_worker \<Rightarrow> ses_record \<Rightarrow> unit io" where
  "ses_processRecord cfg record =
     (case sr_Event record of
        None \<Rightarrow> ret ()
      | Some evt \<Rightarrow>
          let header = message_id_of (sm_Headers (det_Mail (evt_Detail evt)));
              bounce = det_Bounce (evt_Detail evt); opened = det_Open (evt_Detail evt); click = det_Click (evt_Detail evt) in
          if header = [] then ret ()
          else if evt_DetailType evt = ''Email Bounced'' then
            update_by_header cfg header (set_status MessageStatusBounced) (\<lambda>msgIDStr orgIDStr.
              publishMsgBounced cfg msgIDStr orgIDStr (eb_BounceType bounce @ ''/'' @ eb_BounceSubType bounce) ''SES bounce notification'')
          else if evt_DetailType evt \<in> set failure_types then
            update_by_header cfg header (set_status MessageStatusFailed) (\<lambda>msgIDStr orgIDStr.
              publishMsgBounced cfg msgIDStr orgIDStr ''500'' (evt_DetailType evt))
          else if evt_DetailType evt = ''Email Delivered'' then
            update_by_header cfg header confirm_delivery (publishMsgSent cfg)
          else if evt_DetailType evt = ''Email Opened'' then
            publishMsgEngagement cfg header ''opened'' [] (eo_IPAddress opened) (eo_UserAgent opened)
          else if evt_DetailType evt = ''Email Clicked'' then
            publishMsgEngagement cfg header ''clicked'' (ec_Link click) (ec_IPAddress click) (ec_UserAgent click)
          else ret ())"

definition ses_handler :: "ses_worker \<Rightarrow> ses_record list \<Rightarrow> string list io" where
  "ses_handler cfg records = batch_failures (ses_processRecord cfg) sr_MessageId records"

section \<open>What a notification changes\<close>

text \<open>The effect of a notification on one message.\<close>

definition ses_effect :: "eb_ses_event \<Rightarrow> (time \<Rightarrow> message_row \<Rightarrow> message_row) option" where
  "ses_effect evt =
     (if evt_DetailType evt = ''Email Bounced'' then Some (\<lambda>now r. r\<lparr>mr_status := ''bounced'', mr_updated_at := now\<rparr>)
      else if evt_DetailType evt \<in> {''Email Complaint Received'', ''Email Rejected'', ''Email Rendering Failed''}
        then Some (\<lambda>now r. r\<lparr>mr_status := ''failed'', mr_updated_at := now\<rparr>)
      else if evt_DetailType evt = ''Email Delivered''
        then Some (\<lambda>now r. r\<lparr>mr_sent_at := Some now, mr_updated_at := now,
          mr_status := if mr_status r = ''sending'' then ''sent'' else mr_status r\<rparr>)
      else None)"

lemma ses_effect_code:
  "ses_effect evt =
     (if evt_DetailType evt = ''Email Bounced'' then Some (set_status ''bounced'')
      else if evt_DetailType evt \<in> set failure_types then Some (set_status ''failed'')
      else if evt_DetailType evt = ''Email Delivered'' then Some confirm_delivery
      else None)"
  by (simp add: ses_effect_def failure_types_def fun_eq_iff set_status_def confirm_delivery_def advance_status_def)

lemma keeps_db_publish_loaded [keeps_intros]: "keeps_db Q (publish_loaded cfg t m i build)"
proof -
  have body: "keeps_db Q (message_and_attachments orgID msgID)" for Q orgID msgID
    unfolding message_and_attachments_def by (intro keeps_intros)
  have tx: "keeps_db Q (\<lambda>E w. (Inr (body_value orgID (message_and_attachments orgID msgID) E w),
      snd (WithOrgTx orgID (message_and_attachments orgID msgID) E w)))" for orgID msgID
    using keeps_db_WithOrgTx [OF body] by (simp add: keeps_db_iff)
  have bodies: "keeps_db Q (fetchBodies s msg)" for s msg unfolding fetchBodies_def by (intro keeps_intros)
  have "keeps_db Q (loadMsg cfg m i)" unfolding loadMsg_def by (intro keeps_intros tx bodies)
  then show ?thesis unfolding publish_loaded_def by (intro keeps_intros)
qed

lemma keeps_db_publishers [keeps_intros]:
  "keeps_db Q (publishMsgBounced cfg m i c why)" "keeps_db Q (publishMsgSent cfg m i)"
  "keeps_db Q (publishMsgEngagement cfg header t l ip ua)"
proof -
  have "keeps_db Q (\<lambda>E w. pool_exec (query_row (\<lambda>d. rotate_to (any_row E (w_tick w)) (with_header h d))) E w)" for h
  proof -
    have "keeps_db Q (pool_exec (query_row (\<lambda>d. rotate_to n (with_header h d))))" for n by (intro keeps_intros)
    then show ?thesis by (simp add: keeps_db_iff)
  qed
  then show "keeps_db Q (publishMsgEngagement cfg header t l ip ua)"
    unfolding publishMsgEngagement_def findMsgByHeader_def by (intro keeps_intros)
qed (unfold publishMsgBounced_def publishMsgSent_def, (intro keeps_intros)+)

lemma never_fails_publishers:
  "never_fails (publishMsgBounced cfg m i c why)" "never_fails (publishMsgSent cfg m i)"
proof -
  have c: "never_fails (\<lambda>E w. (Inr (f E w), g E w))" for f :: "env \<Rightarrow> world \<Rightarrow> 'a" and g by (simp add: never_fails_def)
  have bodies: "never_fails (fetchBodies s msg)" for s msg
    unfolding fetchBodies_def by (intro never_fails_bind never_fails_intros never_fails_cases)
  have "never_fails (loadMsg cfg m i)"
    unfolding loadMsg_def by (intro never_fails_bind never_fails_intros never_fails_cases c bodies)
  then have "never_fails (publish_loaded cfg t m i build)" for t build
    unfolding publish_loaded_def by (intro never_fails_bind never_fails_intros never_fails_cases never_fails_NewBase)
  then show "never_fails (publishMsgBounced cfg m i c why)" "never_fails (publishMsgSent cfg m i)"
    by (simp_all add: publishMsgBounced_def publishMsgSent_def)
qed

lemma header_update_eq_Inr:
  "header_update n header f now d = Inr (r, d') \<longleftrightarrow>
     (\<forall>m \<in> set (with_header header d). mr_status (f now m) \<in> set message_statuses) \<and>
     first_row (rotate_to n (with_header header d)) = Inr r \<and>
     d' = d\<lparr>t_messages := upd_where (\<lambda>m. mr_message_id_header m = header) (f now) (t_messages d)\<rparr>"
  by (auto simp: header_update_def split: sum.splits)

lemma header_update_missing:
  assumes "header_update n header f now d = Inl ErrNoRows"
  shows "upd_where (\<lambda>m. mr_message_id_header m = header) g (t_messages d) = t_messages d"
proof -
  have "with_header header d = []"
    using assms by (auto simp: header_update_def first_row_def rotate_to_def split: sum.splits if_splits list.splits)
  then show ?thesis by (intro upd_where_none) (simp add: with_header_def filter_empty_conv)
qed

lemma update_by_header_cases:
  assumes "update_by_header cfg header f follow_up E w = (r, w')"
    and "\<And>a b Q. keeps_db Q (follow_up a b)" "\<And>a b. never_fails (follow_up a b)"
  shows "(\<exists>e. r = Inl e \<and> w_db w' = w_db w) \<or>
    (r = Inr () \<and> w_db w' = (w_db w)\<lparr>t_messages :=
       upd_where (\<lambda>m. mr_message_id_header m = header) (f (clock E (Suc (w_tick w)))) (t_messages (w_db w))\<rparr>)"
proof (cases "sw_pool cfg")
  case True
  let ?st = "header_update (any_row E (w_tick w)) header f"
  obtain s w1 where u: "pool_exec ?st E w = (s, w1)" by (rule prod.exhaust)
  show ?thesis
  proof (cases s)
    case (Inl e)
    from pool_exec_eq_Inl [OF u [unfolded Inl]] have same: "w_db w1 = w_db w" .
    show ?thesis
    proof (cases "e = ErrNoRows")
      case True
      with u Inl have "?st (clock E (Suc (w_tick w))) (w_db w) = Inl ErrNoRows"
        by (auto simp: pool_exec_def external_def run_stmt_def tick_world_def split: option.splits sum.splits prod.splits)
      from header_update_missing [OF this] same u assms(1) Inl True \<open>sw_pool cfg\<close> show ?thesis
        by (auto simp: update_by_header_def go_bind_def attempt_def ret_run)
    next
      case False
      with same u assms(1) Inl \<open>sw_pool cfg\<close> show ?thesis
        by (auto simp: update_by_header_def go_bind_def attempt_def throw_run)
    qed
  next
    case (Inr row)
    with u have d: "w_db w1 = (w_db w)\<lparr>t_messages :=
        upd_where (\<lambda>m. mr_message_id_header m = header) (f (clock E (Suc (w_tick w)))) (t_messages (w_db w))\<rparr>"
      by (auto simp: pool_exec_eq_Inr header_update_eq_Inr)
    from u assms(1) Inr True have "follow_up (fmt_uuid E (mr_id row)) (fmt_uuid E (mr_org_id row)) E w1 = (r, w')"
      by (simp add: update_by_header_def go_bind_def attempt_def asks_run)
    with assms(2) have "w_db w' = w_db w1" by (rule keeps_db_same)
    moreover have "r = Inr ()"
      using \<open>follow_up _ _ E w1 = (r, w')\<close> assms(3) by (cases r) (auto simp: never_fails_def)
    ultimately show ?thesis using d by auto
  qed
qed (use assms(1) in \<open>auto simp: update_by_header_def throw_run\<close>)

text \<open>C34. A notification of SES changes the messages that carry the Message-ID of its mail, all of them and nothing else: a
  bounce marks them bounced, a complaint, rejection or rendering failure marks them failed, a delivery sets the time of sending
  to the clock's reading for the statement and moves those that are still being sent to sent but leaves every other status.
  Every other kind of notification, one without a Message-ID and one that fails changes no table; so do the three kinds that
  docs/internals.md names in section 2.5 (with the status failed for a bounce, and sent after every delivery), which are
  not those that the code reacts to.\<close>

theorem ses_record_effect:
  assumes "ses_processRecord cfg \<lparr>sr_MessageId = i, sr_Event = Some evt\<rparr> E w = (r, w')"
  shows "(case (r, ses_effect evt) of
      (Inr _, Some f) \<Rightarrow> let header = message_id_of (sm_Headers (det_Mail (evt_Detail evt))) in
        if header = [] then w_db w' = w_db w
        else w_db w' = (w_db w)\<lparr>t_messages :=
          upd_where (\<lambda>m. mr_message_id_header m = header) (f (clock E (Suc (w_tick w)))) (t_messages (w_db w))\<rparr>
    | _ \<Rightarrow> w_db w' = w_db w) \<and>
    (evt_DetailType evt \<in> {''SES Bounce'', ''SES Complaint'', ''SES Message Delivery''} \<longrightarrow> w_db w' = w_db w)"
proof -
  let ?header = "message_id_of (sm_Headers (det_Mail (evt_Detail evt)))"
  have quiet: "keeps_db Q (if evt_DetailType evt = ''Email Opened'' then
            publishMsgEngagement cfg ?header ''opened'' [] (eo_IPAddress (det_Open (evt_Detail evt))) (eo_UserAgent (det_Open (evt_Detail evt)))
          else if evt_DetailType evt = ''Email Clicked'' then
            publishMsgEngagement cfg ?header ''clicked'' (ec_Link (det_Click (evt_Detail evt))) (ec_IPAddress (det_Click (evt_Detail evt))) (ec_UserAgent (det_Click (evt_Detail evt)))
          else ret ())" for Q by (intro keeps_intros)
  have "case (r, ses_effect evt) of
      (Inr _, Some f) \<Rightarrow> let header = ?header in
        if header = [] then w_db w' = w_db w
        else w_db w' = (w_db w)\<lparr>t_messages :=
          upd_where (\<lambda>m. mr_message_id_header m = header) (f (clock E (Suc (w_tick w)))) (t_messages (w_db w))\<rparr>
    | _ \<Rightarrow> w_db w' = w_db w"
  proof (cases "?header = []")
    case True
    with assms show ?thesis by (auto simp: ses_processRecord_def ret_run split: sum.split option.split)
  next
    case False
    show ?thesis
    proof (cases "ses_effect evt")
      case None
      with assms False keeps_db_same [OF quiet] show ?thesis
        by (auto simp: ses_processRecord_def ses_effect_code Let_def split: if_splits sum.splits)
    next
      case (Some f)
      with assms False obtain follow_up where "update_by_header cfg ?header f follow_up E w = (r, w')"
        "\<And>a b Q. keeps_db Q (follow_up a b)" "\<And>a b. never_fails (follow_up a b)"
        by (auto simp: ses_processRecord_def ses_effect_code Let_def intro: keeps_db_publishers never_fails_publishers split: if_splits)
      from update_by_header_cases [OF this] Some False show ?thesis
        by (auto split: sum.splits)
    qed
  qed
  moreover have "ses_effect evt = None" if "evt_DetailType evt \<in> {''SES Bounce'', ''SES Complaint'', ''SES Message Delivery''}"
    using that by (auto simp: ses_effect_code failure_types_def)
  ultimately show ?thesis by (auto split: sum.splits)
qed

lemma update_by_header_accepted:
  assumes "no_faults E" "sw_pool cfg" "\<And>now m. m \<in> set (with_header header (w_db w)) \<Longrightarrow> mr_status (f now m) \<in> set message_statuses"
    and "\<And>a b. never_fails (follow_up a b)"
  shows "\<exists>w'. update_by_header cfg header f follow_up E w = (Inr (), w')"
proof -
  let ?st = "header_update (any_row E (w_tick w)) header f"
  have "?st now (w_db w) \<noteq> Inl e \<or> e = ErrNoRows" for now e
    using assms(3) by (auto simp: header_update_def first_row_def split: list.splits)
  then have "fst (pool_exec ?st E w) \<noteq> Inl e \<or> e = ErrNoRows" for e
    using assms(1) by (simp add: pool_exec_def external_def no_faults_def run_stmt_def split: sum.split)
  then obtain s w1 where u: "pool_exec ?st E w = (s, w1)" "s = Inl ErrNoRows \<or> (\<exists>row. s = Inr row)"
    by (cases "pool_exec ?st E w"; cases "fst (pool_exec ?st E w)") (fastforce, fastforce)
  from u(2) show ?thesis
  proof (elim disjE exE)
    assume "s = Inl ErrNoRows"
    with u assms(2) show ?thesis by (simp add: update_by_header_def go_bind_def attempt_def ret_run)
  next
    fix row assume "s = Inr row"
    with u assms(2) have "update_by_header cfg header f follow_up E w =
        follow_up (fmt_uuid E (mr_id row)) (fmt_uuid E (mr_org_id row)) E w1"
      by (simp add: update_by_header_def go_bind_def attempt_def asks_run)
    moreover obtain v w2 where "follow_up (fmt_uuid E (mr_id row)) (fmt_uuid E (mr_org_id row)) E w1 = (Inr v, w2)"
      using never_fails_run [OF assms(4)] by metis
    ultimately show ?thesis by simp
  qed
qed

text \<open>A bounce without faults always ends without an error and leaves every message with the Message-ID of the bounced
  mail marked as bounced: also the copy that another inbox of the system, or another organisation, has received.\<close>

lemma ses_bounce_reaches_all:
  assumes "no_faults E" "sw_pool cfg" "evt_DetailType evt = ''Email Bounced''"
    and "message_id_of (sm_Headers (det_Mail (evt_Detail evt))) = header" "header \<noteq> []"
  shows "\<exists>w'. ses_processRecord cfg \<lparr>sr_MessageId = i, sr_Event = Some evt\<rparr> E w = (Inr (), w') \<and>
    (\<forall>m \<in> set (t_messages (w_db w')). mr_message_id_header m = header \<longrightarrow> mr_status m = ''bounced'')"
proof -
  define follow_up where "follow_up = (\<lambda>m org. publishMsgBounced cfg m org
      (eb_BounceType (det_Bounce (evt_Detail evt)) @ ''/'' @ eb_BounceSubType (det_Bounce (evt_Detail evt))) ''SES bounce notification'')"
  have f: "never_fails (follow_up a b)" "keeps_db Q (follow_up a b)" for a b Q
    unfolding follow_up_def by (rule never_fails_publishers keeps_db_publishers)+
  have run: "ses_processRecord cfg \<lparr>sr_MessageId = i, sr_Event = Some evt\<rparr> = update_by_header cfg header (set_status ''bounced'') follow_up"
    using assms(3-5) by (simp add: ses_processRecord_def follow_up_def Let_def)
  have "mr_status (set_status ''bounced'' now m) \<in> set message_statuses" for now m
    by (simp add: set_status_def message_statuses_def)
  then obtain w' where w': "update_by_header cfg header (set_status ''bounced'') follow_up E w = (Inr (), w')"
    using update_by_header_accepted [of E cfg header w "set_status ''bounced''" follow_up, OF assms(1,2) _ f(1)] by auto
  from update_by_header_cases [OF w' f(2,1)] obtain now where "t_messages (w_db w') =
      upd_where (\<lambda>m. mr_message_id_header m = header) (set_status ''bounced'' now) (t_messages (w_db w))" by auto
  then have "mr_status m = ''bounced''" if "m \<in> set (t_messages (w_db w'))" "mr_message_id_header m = header" for m
  proof -
    from that \<open>t_messages (w_db w') = _\<close> have "m \<in> set (upd_where (\<lambda>m. mr_message_id_header m = header) (set_status ''bounced'' now) (t_messages (w_db w)))"
      by simp
    from upd_where_hit [OF this that(2)] show ?thesis by (auto simp: set_status_def)
  qed
  with w' run show ?thesis by auto
qed

definition demo_bounce :: eb_ses_event where
  "demo_bounce = \<lparr>evt_DetailType = ''Email Bounced'', evt_Detail =
     \<lparr>det_Mail = \<lparr>sm_MessageID = ''s'', sm_Headers = [\<lparr>smh_Name = ''Subject'', smh_Value = ''hi''\<rparr>,
        \<lparr>smh_Name = ''Message-ID'', smh_Value = ''<m9>''\<rparr>]\<rparr>,
      det_Bounce = \<lparr>eb_BounceType = ''Permanent'', eb_BounceSubType = ''General''\<rparr>,
      det_Click = \<lparr>ec_IPAddress = [], ec_Link = [], ec_UserAgent = []\<rparr>, det_Open = \<lparr>eo_IPAddress = [], eo_UserAgent = []\<rparr>\<rparr>\<rparr>"

definition demo_ses :: ses_worker where
  "demo_ses = \<lparr>sw_pool = True, sw_publisher = None, sw_emailsS3 = None\<rparr>"

lemma demo_ses_pool: "sw_pool demo_ses" by (simp add: demo_ses_def)

lemma demo_bounce_header: "message_id_of (sm_Headers (det_Mail (evt_Detail demo_bounce))) = ''m9''"
  by (simp add: demo_bounce_def strip_brackets_def)

text \<open>The mail of organisation 1 and the copy that organisation 2 received of it.\<close>

definition demo_copies :: world where
  "demo_copies = demo_world\<lparr>w_db := demo_db\<lparr>t_messages := [demo_message\<lparr>mr_status := ''sent''\<rparr>, demo_message\<lparr>mr_id := 19, mr_org_id := 2\<rparr>]\<rparr>\<rparr>"

lemma ses_bounce_reaches_all_at_demo:
  "\<exists>w'. ses_processRecord demo_ses \<lparr>sr_MessageId = ''q'', sr_Event = Some demo_bounce\<rparr> demo_env demo_copies = (Inr (), w') \<and>
     (\<forall>m \<in> set (t_messages (w_db w')). mr_message_id_header m = ''m9'' \<longrightarrow> mr_status m = ''bounced'')"
  by (rule ses_bounce_reaches_all [OF _ _ _ demo_bounce_header]) (simp_all add: no_faults_def demo_ses_def demo_bounce_def)

theorem ses_record_effect_witness:
  "\<exists>w'. ses_processRecord demo_ses \<lparr>sr_MessageId = ''q'', sr_Event = Some (demo_bounce\<lparr>evt_DetailType := ''Email Delivered''\<rparr>)\<rparr>
       demo_env demo_copies = (Inr (), w') \<and>
     map (\<lambda>m. (mr_org_id m, mr_status m)) (t_messages (w_db w')) = [(1, ''sent''), (2, ''received'')]"
proof -
  let ?evt = "demo_bounce\<lparr>evt_DetailType := ''Email Delivered''\<rparr>"
  have "mr_status (confirm_delivery now m) \<in> set message_statuses" if "m \<in> set (with_header ''m9'' (w_db demo_copies))" for now m
    using that by (auto simp: with_header_def demo_copies_def demo_message_def confirm_delivery_def advance_status_def message_statuses_def)
  then obtain w' where "update_by_header demo_ses ''m9'' confirm_delivery (publishMsgSent demo_ses) demo_env demo_copies = (Inr (), w')"
    using update_by_header_accepted [of demo_env demo_ses "''m9''" demo_copies confirm_delivery "publishMsgSent demo_ses",
      OF _ _ _ never_fails_publishers(2)] by (metis demo_fault no_faults_def demo_ses_pool)
  then have run: "ses_processRecord demo_ses \<lparr>sr_MessageId = ''q'', sr_Event = Some ?evt\<rparr> demo_env demo_copies = (Inr (), w')"
    by (simp add: ses_processRecord_def demo_bounce_header failure_types_def)
  have eff: "ses_effect ?evt = Some confirm_delivery" by (simp add: ses_effect_code failure_types_def)
  have "message_id_of (sm_Headers (det_Mail (evt_Detail ?evt))) = ''m9''" using demo_bounce_header by simp
  with ses_record_effect [OF run, THEN conjunct1] have "w_db w' = (w_db demo_copies)\<lparr>t_messages :=
      upd_where (\<lambda>m. mr_message_id_header m = ''m9'') (confirm_delivery (clock demo_env (Suc (w_tick demo_copies)))) (t_messages (w_db demo_copies))\<rparr>"
    unfolding eff Let_def prod.case sum.case option.case by (simp only: list.distinct if_False)
  then have "map (\<lambda>m. (mr_org_id m, mr_status m)) (t_messages (w_db w')) = [(1, ''sent''), (2, ''received'')]"
    by (simp add: demo_copies_def demo_message_def upd_where_def confirm_delivery_def advance_status_def)
  with run show ?thesis by (intro exI [of _ w'] conjI)
qed

end
