(* ===== verification/Domains.thy ===== *)
theory Domains
  imports Requests Footprints Demo
begin

text \<open>
  The mail domains of customers: \<open>services/domains/store/domain_store.go\<close> (migration 12),
  \<open>services/domains/service/domain_service.go\<close> and \<open>lambdas/domains/main.go\<close>.  A registration announces the
  domain to SES, installs a receipt rule for it and stores a row; a verification copies the state that SES reports.
\<close>

section \<open>The store\<close>

definition domain_statuses :: "string list" where
  "domain_statuses = [''pending'', ''verifying'', ''active'', ''failed'']"

text \<open>The column of the pod is NOT NULL.\<close>

definition domain_insert :: "domain_config \<Rightarrow> unit stmt" where
  "domain_insert cfg now d = require
     [(dc_PodID cfg \<noteq> None, ''23502''),
      (dc_Status cfg \<in> set domain_statuses, ''23514''),
      (\<not> has_key dc_ID (dc_ID cfg) (t_domain_configs d), ''23505''),
      (\<not> has_key dc_Domain (dc_Domain cfg) (t_domain_configs d), ''23505''),
      (has_key o_ID (dc_OrgID cfg) (t_organizations d), ''23503''),
      (case dc_PodID cfg of None \<Rightarrow> True | Some p \<Rightarrow> has_key p_ID p (t_pods d), ''23503'')]
     ((), d\<lparr>t_domain_configs := t_domain_configs d @ [cfg]\<rparr>)"

definition domain_hit :: "uuid \<Rightarrow> uuid \<Rightarrow> domain_config \<Rightarrow> bool" where
  "domain_hit orgID domainID r = (dc_OrgID r = orgID \<and> dc_ID r = domainID)"

definition domain_set :: "string \<Rightarrow> time option \<Rightarrow> time \<Rightarrow> domain_config \<Rightarrow> domain_config" where
  "domain_set status verifiedAt now r = r\<lparr>dc_Status := status, dc_VerifiedAt := verifiedAt, dc_UpdatedAt := now\<rparr>"

definition domain_update_status :: "uuid \<Rightarrow> uuid \<Rightarrow> string \<Rightarrow> time option \<Rightarrow> unit stmt" where
  "domain_update_status orgID domainID status verifiedAt now d = require
     [(status \<in> set domain_statuses \<or> filter (domain_hit orgID domainID) (t_domain_configs d) = [], ''23514'')]
     ((), d\<lparr>t_domain_configs := upd_where (domain_hit orgID domainID) (domain_set status verifiedAt now) (t_domain_configs d)\<rparr>)"

definition domain_delete :: "uuid \<Rightarrow> uuid \<Rightarrow> unit stmt" where
  "domain_delete orgID domainID now d =
     Inr ((), d\<lparr>t_domain_configs := del_where (domain_hit orgID domainID) (t_domain_configs d)\<rparr>)"

definition DomainStore_Create :: "domain_config \<Rightarrow> unit io" where
  "DomainStore_Create cfg = tx_exec (domain_insert cfg)"

definition DomainStore_GetByID :: "uuid \<Rightarrow> uuid \<Rightarrow> domain_config io" where
  "DomainStore_GetByID orgID domainID = tx_exec (query_row (\<lambda>d. filter (domain_hit orgID domainID) (t_domain_configs d)))"

definition DomainStore_GetByDomain :: "string \<Rightarrow> domain_config io" where
  "DomainStore_GetByDomain domain = pool_exec (query_row (\<lambda>d. filter (\<lambda>r. dc_Domain r = domain) (t_domain_configs d)))"

definition DomainStore_List :: "uuid \<Rightarrow> domain_config list io" where
  "DomainStore_List orgID = tx_exec (query (\<lambda>d. order_desc dc_CreatedAt (filter (\<lambda>r. dc_OrgID r = orgID) (t_domain_configs d))))"

definition DomainStore_UpdateStatus :: "uuid \<Rightarrow> uuid \<Rightarrow> string \<Rightarrow> time option \<Rightarrow> unit io" where
  "DomainStore_UpdateStatus orgID domainID status verifiedAt = tx_exec (domain_update_status orgID domainID status verifiedAt)"

definition DomainStore_Delete :: "uuid \<Rightarrow> uuid \<Rightarrow> unit io" where
  "DomainStore_Delete orgID domainID = tx_exec (domain_delete orgID domainID)"

section \<open>The service\<close>

record domain_service =
  dms_ruleSetName :: string
  dms_s3Bucket :: string
  dms_awsRegion :: string

record register_request =
  rg_Domain :: string
  rg_PodID :: "uuid option"

text \<open>The receipt rule of a domain: dots become dashes, and SES takes 64 characters.\<close>

definition receiptRuleName :: "string \<Rightarrow> string" where
  "receiptRuleName domain = take 64 (''custom-'' @ map (\<lambda>c. if c = CHR ''.'' then CHR ''-'' else c) domain)"

definition buildDNSRecords :: "string \<Rightarrow> string \<Rightarrow> string list \<Rightarrow> string \<Rightarrow> dns_record list" where
  "buildDNSRecords domain txtToken dkimTokens region =
     [\<lparr>dns_Type = ''TXT'', dns_Name = ''_amazonses.'' @ domain, dns_Value = txtToken, dns_Purpose = ''SES domain ownership verification''\<rparr>,
      \<lparr>dns_Type = ''MX'', dns_Name = domain, dns_Value = ''10 inbound-smtp.'' @ region @ ''.amazonaws.com'',
       dns_Purpose = ''Route inbound email to SES''\<rparr>] @
     map (\<lambda>token. \<lparr>dns_Type = ''CNAME'', dns_Name = token @ ''._domainkey.'' @ domain, dns_Value = token @ ''.dkim.amazonses.com'',
       dns_Purpose = ''DKIM email signing''\<rparr>) dkimTokens"

definition ses_done :: "ses_domain_call \<Rightarrow> unit io" where
  "ses_done c = ses_call c (\<lambda>A n. sda_Done A n c)"

definition new_domain :: "uuid \<Rightarrow> claims \<Rightarrow> uuid option \<Rightarrow> string \<Rightarrow> time \<Rightarrow> domain_config" where
  "new_domain i c podID domain now =
     \<lparr>dc_ID = i, dc_OrgID = cl_OrgID c, dc_PodID = podID, dc_Domain = domain, dc_Status = ''pending'', dc_DKIMSelector = ''ses'',
      dc_VerifiedAt = None, dc_CreatedAt = now, dc_UpdatedAt = now\<rparr>"

text \<open>The row of a registration; when it cannot be stored the receipt rule is taken back.\<close>

definition save_domain :: "domain_service \<Rightarrow> claims \<Rightarrow> domain_config \<Rightarrow> unit io" where
  "save_domain s c cfg =
     go_bind (attempt (WithOrgTx (cl_OrgID c) (DomainStore_Create cfg))) (\<lambda>r. case r of
       Inr _ \<Rightarrow> ret ()
     | Inl e \<Rightarrow>
         go_bind (ignore_err (ses_done (DeleteReceiptRule (dms_ruleSetName s) (receiptRuleName (dc_Domain cfg))))) (\<lambda>_.
         throw (Wrap ''save domain config'' e)))"

definition DomainService_Register :: "domain_service \<Rightarrow> claims \<Rightarrow> register_request \<Rightarrow> (domain_config \<times> dns_record list) io" where
  "DomainService_Register s c req =
     (let domain = to_lower (trim_space (rg_Domain req)) in
     go_bind (fail_if (domain = []) (Errorf ''domain is required'')) (\<lambda>_.
     go_bind (wrap_err ''SES VerifyDomainIdentity'' (ses_call (VerifyDomainIdentity domain) (\<lambda>A n. sda_Token A n domain))) (\<lambda>txtToken.
     go_bind (wrap_err ''SES VerifyDomainDkim'' (ses_call (VerifyDomainDkim domain) (\<lambda>A n. sda_DkimTokens A n domain))) (\<lambda>dkimTokens.
     go_bind (wrap_err ''SES CreateReceiptRule''
       (ses_done (CreateReceiptRule (dms_ruleSetName s) (receiptRuleName domain) domain (dms_s3Bucket s)))) (\<lambda>_.
     go_bind time_Now (\<lambda>now. go_bind uuid_New (\<lambda>i.
     let cfg = new_domain i c (rg_PodID req) domain now in
     go_bind (save_domain s c cfg) (\<lambda>_.
     ret (cfg, buildDNSRecords domain txtToken dkimTokens (dms_awsRegion s))))))))))"

definition DomainService_List :: "claims \<Rightarrow> domain_config list io" where
  "DomainService_List c = WithOrgTx (cl_OrgID c) (DomainStore_List (cl_OrgID c))"

definition DomainService_Get :: "claims \<Rightarrow> uuid \<Rightarrow> domain_config io" where
  "DomainService_Get c domainID = WithOrgTx (cl_OrgID c) (DomainStore_GetByID (cl_OrgID c) domainID)"

definition verification_attributes :: "string \<Rightarrow> (string \<times> string) option io" where
  "verification_attributes domain = ses_call (GetIdentityVerificationAttributes domain) (\<lambda>A n. sda_Verification A n domain)"

text \<open>The status that an answer of SES means, and the time of a success; an unknown answer means no change.\<close>

definition status_for :: "string \<Rightarrow> string \<Rightarrow> string" where
  "status_for answer old =
     (if answer = ''Success'' then ''active'' else if answer = ''Failed'' then ''failed''
      else if answer = ''Pending'' \<or> answer = ''TemporaryFailure'' then ''verifying'' else old)"

definition new_status :: "string \<Rightarrow> string \<Rightarrow> (string \<times> time option) io" where
  "new_status old answer =
     (if answer = ''Success'' then go_bind time_Now (\<lambda>now. ret (status_for answer old, Some now))
      else ret (status_for answer old, None))"

definition refresh_status :: "claims \<Rightarrow> uuid \<Rightarrow> domain_config \<Rightarrow> string \<Rightarrow> domain_config io" where
  "refresh_status c domainID cfg answer =
     go_bind (new_status (dc_Status cfg) answer) (\<lambda>(newStatus, verifiedAt).
     if newStatus \<noteq> dc_Status cfg then
       go_bind (wrap_err ''update domain status'' (WithOrgTx (cl_OrgID c)
         (DomainStore_UpdateStatus (cl_OrgID c) domainID newStatus verifiedAt))) (\<lambda>_.
       ret (cfg\<lparr>dc_Status := newStatus, dc_VerifiedAt := verifiedAt\<rparr>))
     else ret cfg)"

definition current_records :: "domain_service \<Rightarrow> string \<Rightarrow> dns_record list io" where
  "current_records s domain =
     go_bind (attempt (ses_call (GetIdentityDkimAttributes domain) (\<lambda>A n. sda_Dkim A n domain))) (\<lambda>r. case r of
       Inr (Some dkimTokens) \<Rightarrow>
         go_bind (attempt (verification_attributes domain)) (\<lambda>v.
         ret (buildDNSRecords domain (case v of Inr (Some (_, token)) \<Rightarrow> token | _ \<Rightarrow> []) dkimTokens (dms_awsRegion s)))
     | _ \<Rightarrow> ret [])"

definition DomainService_Verify :: "domain_service \<Rightarrow> claims \<Rightarrow> uuid \<Rightarrow> (domain_config \<times> dns_record list) io" where
  "DomainService_Verify s c domainID =
     go_bind (DomainService_Get c domainID) (\<lambda>cfg.
     go_bind (wrap_err ''SES GetIdentityVerificationAttributes'' (verification_attributes (dc_Domain cfg))) (\<lambda>attrs.
     case attrs of
       None \<Rightarrow> throw (Errorf (''SES returned no attributes for domain '' @ dc_Domain cfg))
     | Some (answer, _) \<Rightarrow>
         go_bind (refresh_status c domainID cfg answer) (\<lambda>cfg.
         go_bind (current_records s (dc_Domain cfg)) (\<lambda>records.
         ret (cfg, records)))))"

definition DomainService_Delete :: "domain_service \<Rightarrow> claims \<Rightarrow> uuid \<Rightarrow> unit io" where
  "DomainService_Delete s c domainID =
     go_bind (DomainService_Get c domainID) (\<lambda>cfg.
     go_bind (ignore_err (ses_done (DeleteReceiptRule (dms_ruleSetName s) (receiptRuleName (dc_Domain cfg))))) (\<lambda>_.
     go_bind (ignore_err (ses_done (DeleteIdentity (dc_Domain cfg)))) (\<lambda>_.
     WithOrgTx (cl_OrgID c) (DomainStore_Delete (cl_OrgID c) domainID))))"

section \<open>The handler\<close>

text \<open>The struct has no json tags, so its members are named after its fields.\<close>

definition dec_register :: "env \<Rightarrow> json \<Rightarrow> register_request \<Rightarrow> register_request option" where
  "dec_register E = dec_struct (\<lambda>name v r.
     if name = ''domain'' then map_option (\<lambda>x. r\<lparr>rg_Domain := x\<rparr>) (dec_string v (rg_Domain r))
     else if name = ''podid'' then map_option (\<lambda>x. r\<lparr>rg_PodID := x\<rparr>) (dec_ptr (dec_uuid E) uuid_Nil v (rg_PodID r))
     else Some r)"

definition zero_register :: register_request where
  "zero_register = \<lparr>rg_Domain = [], rg_PodID = None\<rparr>"

definition with_domain_id :: "request \<Rightarrow> (uuid \<Rightarrow> handler) \<Rightarrow> handler" where
  "with_domain_id event h = (\<lambda>E w. case ParseUUID E (PathParam event ''domain_id'') of
       None \<Rightarrow> (Error 400 ''invalid domain ID'', w) | Some domainID \<Rightarrow> h domainID E w)"

definition domains_collection :: "domain_service \<Rightarrow> request \<Rightarrow> claims \<Rightarrow> handler" where
  "domains_collection s event c =
     (if rq_HTTPMethod event = ''GET'' then
        handle (DomainService_List c) (error_text 500) (\<lambda>domains. respond (JSON 200 (VDomains domains)))
      else if rq_HTTPMethod event = ''POST'' then
        with_body dec_register event zero_register (\<lambda>req.
        handle (DomainService_Register s c req) (error_text 400) (\<lambda>(cfg, records). respond (JSON 201 (VDomainRecords cfg records))))
      else respond (Error 404 ''not found''))"

definition domains_item :: "domain_service \<Rightarrow> request \<Rightarrow> claims \<Rightarrow> handler" where
  "domains_item s event c = with_domain_id event (\<lambda>domainID.
     if rq_HTTPMethod event = ''GET'' then
       handle (DomainService_Get c domainID) (\<lambda>_. not_found ''domain'') (\<lambda>cfg. respond (JSON 200 (VDomain cfg)))
     else if rq_HTTPMethod event = ''DELETE'' then
       handle (DomainService_Delete s c domainID) (\<lambda>_. not_found ''domain'') (\<lambda>_. respond NoContent)
     else respond (Error 404 ''not found''))"

definition domains_verify :: "domain_service \<Rightarrow> request \<Rightarrow> claims \<Rightarrow> handler" where
  "domains_verify s event c =
     (if rq_HTTPMethod event = ''POST'' then with_domain_id event (\<lambda>domainID.
        handle (DomainService_Verify s c domainID) (error_text 400) (\<lambda>(cfg, records). respond (JSON 200 (VDomainRecords cfg records))))
      else respond (Error 404 ''not found''))"

definition domains_handler :: "domain_service \<Rightarrow> request \<Rightarrow> handler" where
  "domains_handler s event = with_claims event (\<lambda>c.
     if \<not> HasFeature c ''custom_domain'' then respond (Error 403 ''custom domain feature not available on your plan'')
     else require_scope c ScopeOrgAdmin
      (if rq_Resource event = ''/v1/domains'' then domains_collection s event c
       else if rq_Resource event = ''/v1/domains/{domain_id}'' then domains_item s event c
       else if rq_Resource event = ''/v1/domains/{domain_id}/verify'' then domains_verify s event c
       else respond (Error 404 ''not found'')))"

section \<open>What a registration does\<close>

interpretation domain_calls: outside_tx w_ses_calls by unfold_locales simp_all

text \<open>The calls of a registration in their order; the last one only takes the rule back.\<close>

definition registration_calls :: "domain_service \<Rightarrow> string \<Rightarrow> ses_domain_call list" where
  "registration_calls s domain =
     [VerifyDomainIdentity domain, VerifyDomainDkim domain,
      CreateReceiptRule (dms_ruleSetName s) (receiptRuleName domain) domain (dms_s3Bucket s),
      DeleteReceiptRule (dms_ruleSetName s) (receiptRuleName domain)]"

lemma ses_call_run: "ses_call c answer E w = (answer (ses_domains E) (w_tick w), (tick_world w)\<lparr>w_ses_calls := w_ses_calls w @ [c]\<rparr>)"
  by (simp add: ses_call_def)

lemma DomainStore_Create_success:
  assumes "WithOrgTx orgID (DomainStore_Create cfg) E w = (Inr u, w')"
  shows "dc_PodID cfg \<noteq> None \<and> \<not> has_key dc_Domain (dc_Domain cfg) (t_domain_configs (w_db w)) \<and>
    w_db w' = w_db w\<lparr>t_domain_configs := t_domain_configs (w_db w) @ [cfg]\<rparr>"
  using assms
  by (elim WithOrgTx_success) (simp add: DomainStore_Create_def tx_exec_eq_Inr domain_insert_def require_eq_Inr)

lemma save_domain_calls: "w_ses_calls (snd (WithOrgTx orgID (DomainStore_Create cfg) E w)) = w_ses_calls w"
  unfolding DomainStore_Create_def by (intro untouched_snd domain_calls.intros)

lemma save_domain_success:
  assumes "save_domain s c cfg E w = (Inr u, w')"
  shows "WithOrgTx (cl_OrgID c) (DomainStore_Create cfg) E w = (Inr (), w') \<and> w_ses_calls w' = w_ses_calls w"
proof (cases "WithOrgTx (cl_OrgID c) (DomainStore_Create cfg) E w")
  case (Pair r w1)
  with assms have "r = Inr () \<and> w1 = w'"
    by (cases r) (auto simp: save_domain_def go_bind_def attempt_def go_run)
  with Pair save_domain_calls [of "cl_OrgID c" cfg E w] show ?thesis by simp
qed

lemma save_domain_failure:
  assumes "save_domain s c cfg E w = (Inl e, w')"
  shows "w_db w' = w_db w \<and>
    w_ses_calls w' = w_ses_calls w @ [DeleteReceiptRule (dms_ruleSetName s) (receiptRuleName (dc_Domain cfg))]"
proof (cases "WithOrgTx (cl_OrgID c) (DomainStore_Create cfg) E w")
  case (Pair r w1)
  with assms obtain e' where r: "r = Inl e'"
    and w': "w' = (tick_world w1)\<lparr>w_ses_calls := w_ses_calls w1 @ [DeleteReceiptRule (dms_ruleSetName s) (receiptRuleName (dc_Domain cfg))]\<rparr>"
    by (cases r) (auto simp: save_domain_def ses_done_def go_bind_def attempt_def ses_call_run go_run)
  from r Pair have "WithOrgTx (cl_OrgID c) (DomainStore_Create cfg) E w = (Inl e', w1)" by simp
  with WithOrgTx_error_rollback have "w_db w1 = w_db w" by blast
  with Pair w' save_domain_calls [of "cl_OrgID c" cfg E w] show ?thesis by simp
qed

lemma Register_success:
  assumes "DomainService_Register s c req E w = (Inr (cfg, records), w')"
  shows "\<exists>i now. cfg = new_domain i c (rg_PodID req) (to_lower (trim_space (rg_Domain req))) now \<and> rg_PodID req \<noteq> None \<and>
    \<not> has_key dc_Domain (dc_Domain cfg) (t_domain_configs (w_db w)) \<and>
    w_db w' = w_db w\<lparr>t_domain_configs := t_domain_configs (w_db w) @ [cfg]\<rparr> \<and>
    w_ses_calls w' = w_ses_calls w @ take 3 (registration_calls s (dc_Domain cfg))"
proof -
  from assms obtain i now w1 where cfg: "cfg = new_domain i c (rg_PodID req) (to_lower (trim_space (rg_Domain req))) now"
    and saved: "save_domain s c cfg E w1 = (Inr (), w')" and w1: "w_db w1 = w_db w"
    "w_ses_calls w1 = w_ses_calls w @ take 3 (registration_calls s (dc_Domain cfg))"
    by (auto simp: DomainService_Register_def Let_def go_success ses_call_run ses_done_def time_Now_def uuid_New_def
        registration_calls_def new_domain_def)
  note stored = save_domain_success [OF saved]
  have "dc_PodID cfg = rg_PodID req" by (simp add: cfg new_domain_def)
  with DomainStore_Create_success [OF stored [THEN conjunct1]] stored cfg w1 show ?thesis by auto
qed

text \<open>A failed registration: nothing is stored, and a receipt rule that was installed is taken back.\<close>

definition registration_undone :: "env \<Rightarrow> domain_service \<Rightarrow> string \<Rightarrow> world \<Rightarrow> world \<Rightarrow> bool" where
  "registration_undone E s domain w w' \<longleftrightarrow> w_db w' = w_db w \<and>
     (\<exists>k. w_ses_calls w' = w_ses_calls w @ take k (registration_calls s domain) \<and>
        (k \<in> {0, 1, 2, 4} \<or> k = 3 \<and> (\<exists>n x. sda_Done (ses_domains E) n (registration_calls s domain ! 2) = Inl x)))"

lemma registration_undoneI:
  assumes "w_db w' = w_db w" "w_ses_calls w' = w_ses_calls w @ take k (registration_calls s domain)"
    "k \<in> {0, 1, 2, 4} \<or> k = 3 \<and> (\<exists>n x. sda_Done (ses_domains E) n (registration_calls s domain ! 2) = Inl x)"
  shows "registration_undone E s domain w w'"
  using assms by (auto simp: registration_undone_def)

definition called :: "ses_domain_call \<Rightarrow> world \<Rightarrow> world" where
  "called c w = (tick_world w)\<lparr>w_ses_calls := w_ses_calls w @ [c]\<rparr>"

lemma called_simps [simp]: "w_db (called c w) = w_db w" "w_ses_calls (called c w) = w_ses_calls w @ [c]"
  by (simp_all add: called_def)

lemma ses_step_failure:
  assumes "go_bind (wrap_err p (ses_call c answer)) f E w = (Inl e, w')"
  obtains n x where "answer (ses_domains E) n = Inl x" "w' = called c w"
    | y where "f y E (called c w) = (Inl e, w')"
  using assms by (auto simp: go_bind_eq_Inl wrap_err_eq_Inl wrap_err_eq_Inr ses_call_run called_def)

lemma Register_failure:
  assumes run: "DomainService_Register s c req E w = (Inl e, w')"
  shows "registration_undone E s (to_lower (trim_space (rg_Domain req))) w w'"
proof (cases "to_lower (trim_space (rg_Domain req)) = []")
  case True
  with run have "w' = w" by (simp add: DomainService_Register_def Let_def go_bind_def fail_if_run)
  then show ?thesis by (intro registration_undoneI [where k = 0]) simp_all
next
  case False
  define d where "d = to_lower (trim_space (rg_Domain req))"
  have skip: "go_bind (fail_if (d = []) x) f E w = f () E w" for x and f :: "unit \<Rightarrow> 'b io"
    using False by (simp add: d_def go_bind_def fail_if_run)
  note calls = registration_calls_def [of s d]
  from run show ?thesis
    unfolding DomainService_Register_def Let_def d_def [symmetric] skip ses_done_def
  proof (elim ses_step_failure)
    assume "w' = called (VerifyDomainIdentity d) w"
    then show "registration_undone E s d w w'" by (intro registration_undoneI [where k = 1]) (simp_all add: calls)
  next
    assume "w' = called (VerifyDomainDkim d) (called (VerifyDomainIdentity d) w)"
    then show "registration_undone E s d w w'" by (intro registration_undoneI [where k = 2]) (simp_all add: calls)
  next
    let ?rule = "CreateReceiptRule (dms_ruleSetName s) (receiptRuleName d) d (dms_s3Bucket s)"
    fix n x
    assume "sda_Done (ses_domains E) n ?rule = Inl x" "w' = called ?rule (called (VerifyDomainDkim d) (called (VerifyDomainIdentity d) w))"
    then show "registration_undone E s d w w'" by (intro registration_undoneI [where k = 3]) (auto simp: calls)
  next
    let ?rule = "CreateReceiptRule (dms_ruleSetName s) (receiptRuleName d) d (dms_s3Bucket s)"
    let ?w3 = "called ?rule (called (VerifyDomainDkim d) (called (VerifyDomainIdentity d) w))"
    fix tok dkim
    assume "go_bind time_Now (\<lambda>now. go_bind uuid_New (\<lambda>i. go_bind (save_domain s c (new_domain i c (rg_PodID req) d now)) (\<lambda>_.
       ret (new_domain i c (rg_PodID req) d now, buildDNSRecords d tok dkim (dms_awsRegion s))))) E ?w3 = (Inl e, w')"
    then obtain i now e where "save_domain s c (new_domain i c (rg_PodID req) d now) E (tick_world (tick_world ?w3)) = (Inl e, w')"
      by (auto simp: go_bind_eq_Inl time_Now_def uuid_New_def ret_run)
    from save_domain_failure [OF this] show "registration_undone E s d w w'"
      by (intro registration_undoneI [where k = 4]) (auto simp: calls new_domain_def)
  qed
qed

text \<open>C39. A registration that succeeds has announced the domain, in lower case, to SES with its receipt rule and stored one pending row, for a
  pod, of a domain nobody had registered; the records that it returns are for that domain.  One that fails has stored
  nothing, and has taken the receipt rule back unless SES had refused to install it or it was not reached.\<close>

theorem domain_registration:
  "case DomainService_Register s c req E w of
     (Inr (cfg, records), w') \<Rightarrow>
       dc_Domain cfg = to_lower (trim_space (rg_Domain req)) \<and> dc_Status cfg = ''pending'' \<and> dc_OrgID cfg = cl_OrgID c \<and>
       dc_PodID cfg = rg_PodID req \<and> rg_PodID req \<noteq> None \<and> dc_Domain cfg \<notin> dc_Domain ` set (t_domain_configs (w_db w)) \<and>
       w_db w' = w_db w\<lparr>t_domain_configs := t_domain_configs (w_db w) @ [cfg]\<rparr> \<and>
       w_ses_calls w' = w_ses_calls w @ take 3 (registration_calls s (dc_Domain cfg)) \<and>
       (\<exists>tok dkim. records = buildDNSRecords (dc_Domain cfg) tok dkim (dms_awsRegion s))
   | (Inl e, w') \<Rightarrow> registration_undone E s (to_lower (trim_space (rg_Domain req))) w w'"
proof (cases "DomainService_Register s c req E w")
  case (Pair r w')
  show ?thesis
  proof (cases r)
    case (Inl e)
    with Pair show ?thesis by (simp add: Register_failure)
  next
    case (Inr x)
    obtain cfg records where x: "x = (cfg, records)" by (rule prod.exhaust)
    with Pair Inr have run: "DomainService_Register s c req E w = (Inr (cfg, records), w')" by simp
    then have "\<exists>tok dkim. records = buildDNSRecords (dc_Domain cfg) tok dkim (dms_awsRegion s)"
      by (auto simp: DomainService_Register_def Let_def go_success new_domain_def) (rule exI, rule exI, rule refl)
    with Register_success [OF run] Pair Inr x show ?thesis by (auto simp: new_domain_def has_key_def)
  qed
qed

lemma dec_register_no_pod:
  assumes "\<And>k v. (k, v) \<in> set ms \<Longrightarrow> to_lower k \<noteq> ''podid''" "dec_register E (JObj ms) req = Some req'"
  shows "rg_PodID req' = rg_PodID req"
proof -
  let ?f = "\<lambda>name v r. if name = ''domain'' then map_option (\<lambda>x. r\<lparr>rg_Domain := x\<rparr>) (dec_string v (rg_Domain r))
     else if name = ''podid'' then map_option (\<lambda>x. r\<lparr>rg_PodID := x\<rparr>) (dec_ptr (dec_uuid E) uuid_Nil v (rg_PodID r))
     else Some r"
  have "rg_PodID req' = rg_PodID req" if "dec_members ?f ms req = Some req'" using that assms(1)
  proof (induction ms arbitrary: req)
    case (Cons m ms)
    obtain k v where m: "m = (k, v)" by (rule prod.exhaust)
    with Cons.prems obtain r where r: "?f (to_lower k) v req = Some r" "dec_members ?f ms r = Some req'"
      by (auto split: option.splits)
    moreover have "to_lower k \<noteq> ''podid''" using Cons.prems(2) m by auto
    ultimately have "rg_PodID r = rg_PodID req" by (auto split: if_splits)
    moreover have "rg_PodID req' = rg_PodID r" by (rule Cons.IH [OF r(2)], rule Cons.prems(2)) (rule list.set_intros(2))
    ultimately show ?case by simp
  qed simp
  with assms(2) show ?thesis by (simp add: dec_register_def dec_struct_def)
qed

text \<open>C40. Over HTTP a domain is registered only with the undocumented member PodID: a request whose body has no member of that
  name, in particular the documented one with domain and pod_id, is always refused and stores nothing.\<close>

theorem domains_post_needs_PodID:
  assumes "rq_Resource event = ''/v1/domains''" and "rq_HTTPMethod event = ''POST''" and "rq_Body event = Some (JObj ms)"
    and "\<And>k v. (k, v) \<in> set ms \<Longrightarrow> to_lower k \<noteq> ''podid''"
  shows "rs_StatusCode (fst (domains_handler s event E w)) \<ge> 400 \<and> w_db (snd (domains_handler s event E w)) = w_db w"
proof -
  let ?post = "\<lambda>c. with_body dec_register event zero_register (\<lambda>req.
      handle (DomainService_Register s c req) (error_text 400) (\<lambda>(cfg, records). respond (JSON 201 (VDomainRecords cfg records))))"
  have "rs_StatusCode (fst (?post c E w)) \<ge> 400 \<and> w_db (snd (?post c E w)) = w_db w" for c
  proof (cases "dec_register E (JObj ms) zero_register")
    case None
    then show ?thesis by (simp add: with_body_def Decode_def assms(3) Error_def)
  next
    case (Some req)
    with assms(4) have "rg_PodID req = rg_PodID zero_register" by (rule dec_register_no_pod)
    then have "rg_PodID req = None" by (simp add: zero_register_def)
    obtain r w' where r: "DomainService_Register s c req E w = (r, w')" by (rule prod.exhaust)
    show ?thesis
    proof (cases r)
      case (Inl e)
      with r have "w_db w' = w_db w" by (simp add: Register_failure [unfolded registration_undone_def])
      with Inl r Some show ?thesis by (simp add: with_body_def Decode_def assms(3) handle_def error_text_def Error_def)
    next
      case (Inr x)
      with r \<open>rg_PodID req = None\<close> Register_success [of s c req E w "fst x" "snd x" w'] show ?thesis by simp
    qed
  qed
  then show ?thesis
    by (simp add: domains_handler_def with_claims_def require_scope_def domains_collection_def assms(1,2) Error_def respond_def
        split: sum.split)
qed

definition demo_domain_service :: domain_service where
  "demo_domain_service = \<lparr>dms_ruleSetName = ''rules'', dms_s3Bucket = ''mails'', dms_awsRegion = ''eu''\<rparr>"

definition demo_register_event :: request where
  "demo_register_event = \<lparr>rq_Resource = ''/v1/domains'', rq_HTTPMethod = ''POST'', rq_PathParameters = [], rq_QueryStringParameters = [],
     rq_Authorizer = [], rq_Body = Some (JObj [(''domain'', JStr ''acme.com''), (''pod_id'', JStr ''p'')])\<rparr>"

theorem domains_post_needs_PodID_witness:
  "rs_StatusCode (fst (domains_handler demo_domain_service demo_register_event demo_env demo_world)) \<ge> 400 \<and>
   w_db (snd (domains_handler demo_domain_service demo_register_event demo_env demo_world)) = demo_db"
proof -
  let ?ms = "[(''domain'', JStr ''acme.com''), (''pod_id'', JStr ''p'')]"
  have "to_lower ''domain'' \<noteq> ''podid''" "to_lower ''pod_id'' \<noteq> ''podid''" by code_simp+
  then have no_pod: "\<And>k v. (k, v) \<in> set ?ms \<Longrightarrow> to_lower k \<noteq> ''podid''" by auto
  have "rq_Body demo_register_event = Some (JObj ?ms)" by (simp add: demo_register_event_def)
  from domains_post_needs_PodID [OF _ _ this, where s = demo_domain_service and E = demo_env and w = demo_world] no_pod show ?thesis
    by (simp add: demo_register_event_def)
qed

end
