(* ===== verification/Embedder.thy ===== *)
theory Embedder
  imports Webhook_Dispatcher
begin

text \<open>
  \<open>pkg/embedder/client.go\<close>, \<open>services/embedder/store/store.go\<close> and \<open>lambdas/embedder/main.go\<close>: the client of an
  embedding server, and the worker that gives received and sent messages an embedding of their text.  The
  server's answer and the printing and reading of vectors are parameters of the environment.
\<close>

section \<open>The client\<close>

record embedder_client =
  em_baseURL :: string
  em_model :: string
  em_apiKey :: string
  em_dims :: int

text \<open>\<open>strings.TrimRight(s, "/")\<close>\<close>

definition trim_slashes :: "string \<Rightarrow> string" where
  "trim_slashes s = rev (dropWhile (\<lambda>c. c = CHR ''/'') (rev s))"

definition Embedder_New :: "string \<Rightarrow> string \<Rightarrow> string \<Rightarrow> int \<Rightarrow> embedder_client" where
  "Embedder_New baseURL model apiKey dims =
     \<lparr>em_baseURL = trim_slashes baseURL, em_model = model, em_apiKey = apiKey, em_dims = dims\<rparr>"

definition embed_request :: "embedder_client \<Rightarrow> string \<Rightarrow> http_request" where
  "embed_request c body =
     \<lparr>hr_Method = ''POST'', hr_URL = em_baseURL c @ ''/embeddings'',
      hr_Header = (''Content-Type'', ''application/json'') #
        (if em_apiKey c \<noteq> [] then [(''Authorization'', ''Bearer '' @ em_apiKey c)] else []),
      hr_Body = body\<rparr>"

definition cut_vector :: "int \<Rightarrow> float32 list \<Rightarrow> float32 list" where
  "cut_vector dims v = (if dims > 0 \<and> int (length v) > dims then take (nat dims) v else v)"

text \<open>The vector of an answer: the first embedding, unless there is none or it is empty.\<close>

definition reply_vector :: "int \<Rightarrow> float32 list list option \<Rightarrow> float32 list io" where
  "reply_vector dims r =
     (case r of
        None \<Rightarrow> throw (Errorf ''decode embedding response'')
      | Some [] \<Rightarrow> throw (Errorf ''empty embedding response'')
      | Some (v # _) \<Rightarrow> if v = [] then throw (Errorf ''empty embedding response'') else ret (cut_vector dims v))"

definition Embed :: "embedder_client \<Rightarrow> string \<Rightarrow> float32 list io" where
  "Embed c text =
     go_bind (asks (\<lambda>E. (embed_json E (em_model c) text, url_error E (em_baseURL c @ ''/embeddings'')))) (\<lambda>(body, bad).
     case bad of
       Some s \<Rightarrow> throw (ExternalError s)
     | None \<Rightarrow>
         go_bind (wrap_err ''embedding request'' (http_Do (embed_request c body))) (\<lambda>(status, reply).
         go_bind (fail_if (status \<noteq> 200) (Errorf ''embedding server returned an error'')) (\<lambda>_.
         go_bind (asks (\<lambda>E. embed_reply E reply)) (reply_vector (em_dims c)))))"

definition VectorLiteral :: "env \<Rightarrow> float32 list \<Rightarrow> string" where
  "VectorLiteral E v = ''['' @ join '','' (map (fmt_float32 E) v) @ '']''"

section \<open>The store\<close>

definition text_key_of :: "uuid \<Rightarrow> string stmt" where
  "text_key_of i = query_row (\<lambda>d. map mr_body_text_key (filter (\<lambda>r. mr_id r = i) (t_messages d)))"

definition GetTextKey :: "uuid \<Rightarrow> string io" where
  "GetTextKey msgID = wrap_err ''get text key'' (pool_exec (text_key_of msgID))"

text \<open>The column is a \<open>vector(768)\<close> (migration 18); no row is no error.\<close>

definition vector_dims :: nat where
  "vector_dims = 768"

definition embedding_update :: "uuid \<Rightarrow> float32 list option \<Rightarrow> unit stmt" where
  "embedding_update i v now d =
     (case v of
        None \<Rightarrow> Inl (PgError ''22P02'')
      | Some vec \<Rightarrow>
          if length vec \<noteq> vector_dims then Inl (PgError ''22000'')
          else Inr ((), d\<lparr>t_messages := upd_where (\<lambda>r. mr_id r = i)
            (\<lambda>r. r\<lparr>mr_embedding := Some vec, mr_embedded_at := Some now, mr_updated_at := now\<rparr>) (t_messages d)\<rparr>))"

definition SetEmbedding :: "uuid \<Rightarrow> float32 list \<Rightarrow> unit io" where
  "SetEmbedding msgID vec =
     go_bind (asks (\<lambda>E. cast_vector E (VectorLiteral E vec))) (\<lambda>v.
     wrap_err ''set embedding'' (pool_exec (embedding_update msgID v)))"

section \<open>The worker\<close>

definition maxTextBytes :: nat where
  "maxTextBytes = 8192"

text \<open>The id and the inline body of the events that are embedded.\<close>

fun embeddable :: "event \<Rightarrow> (string \<times> string) option" where
  "embeddable (MessageReceivedEvent b p k) =
     (if be_Type b \<in> {EventMessageReceived, EventMessageSent} then Some (mp_ID p, []) else None)"
| "embeddable (MessageSentEvent b p) =
     (if be_Type b \<in> {EventMessageReceived, EventMessageSent} then Some (mp_ID p, mp_BodyText p) else None)"
| "embeddable e = None"

text \<open>The text of a message, trimmed; \<open>None\<close> when there is none or it cannot be read.\<close>

definition message_body :: "string \<Rightarrow> uuid \<Rightarrow> string \<Rightarrow> string option io" where
  "message_body bucket msgID inlineBody =
     (if inlineBody \<noteq> [] then ret (Some (trim_space inlineBody))
      else go_bind (attempt (GetTextKey msgID)) (\<lambda>k.
        case k of
          Inl _ \<Rightarrow> ret None
        | Inr textKey \<Rightarrow>
            if textKey = [] then ret None
            else go_bind (attempt (S3_Download bucket textKey)) (\<lambda>r.
              case r of Inl _ \<Rightarrow> ret None | Inr raw \<Rightarrow> ret (Some (trim_space raw)))))"

record embedder_worker =
  ew_bucket :: string
  ew_client :: embedder_client

definition embed_text :: "embedder_worker \<Rightarrow> uuid \<Rightarrow> string \<Rightarrow> unit io" where
  "embed_text cfg msgID text =
     (if text = [] then ret ()
      else go_bind (attempt (Embed (ew_client cfg) (if length text > maxTextBytes then take maxTextBytes text else text))) (\<lambda>r.
        case r of Inl _ \<Rightarrow> ret () | Inr vec \<Rightarrow> ignore_err (SetEmbedding msgID vec)))"

definition embed_record :: "embedder_worker \<Rightarrow> sqs_message \<Rightarrow> unit io" where
  "embed_record cfg record =
     (case sm_Event record of
        None \<Rightarrow> ret ()
      | Some evt \<Rightarrow>
          (case embeddable evt of
             None \<Rightarrow> ret ()
           | Some (msgIDStr, inlineBody) \<Rightarrow>
               go_bind (asks (\<lambda>E. parse_uuid E msgIDStr)) (\<lambda>p.
               case p of
                 None \<Rightarrow> ret ()
               | Some msgID \<Rightarrow>
                   go_bind (message_body (ew_bucket cfg) msgID inlineBody) (\<lambda>b.
                   case b of None \<Rightarrow> ret () | Some text \<Rightarrow> embed_text cfg msgID text))))"

definition embedder_handler :: "embedder_worker \<Rightarrow> sqs_message list \<Rightarrow> unit io" where
  "embedder_handler cfg records = for_each (embed_record cfg) records"

section \<open>Reading the texts changes no table\<close>

lemma keeps_db_Embed [keeps_intros]: "keeps_db Q (Embed c text)"
proof -
  have "keeps_db Q (reply_vector d r)" for d r unfolding reply_vector_def by (intro keeps_intros)
  then show ?thesis unfolding Embed_def by (intro keeps_intros)
qed

lemma keeps_db_message_body [keeps_intros]: "keeps_db Q (message_body bucket i inline)"
proof -
  have "keeps_db Q (GetTextKey i)" unfolding GetTextKey_def text_key_of_def by (intro keeps_intros)
  then show ?thesis unfolding message_body_def by (intro keeps_intros)
qed

section \<open>What the worker does to a message\<close>

text \<open>The message of a record, and the tables with its embedding.\<close>

definition embeds :: "env \<Rightarrow> sqs_message \<Rightarrow> uuid \<Rightarrow> bool" where
  "embeds E record i \<longleftrightarrow> (case sm_Event record of
     None \<Rightarrow> False
   | Some evt \<Rightarrow> (case embeddable evt of None \<Rightarrow> False | Some (s, _) \<Rightarrow> parse_uuid E s = Some i))"

definition with_embedding :: "uuid \<Rightarrow> float32 list \<Rightarrow> time \<Rightarrow> database \<Rightarrow> database" where
  "with_embedding i vec now d = d\<lparr>t_messages := upd_where (\<lambda>r. mr_id r = i)
     (\<lambda>r. r\<lparr>mr_embedding := Some vec, mr_embedded_at := Some now, mr_updated_at := now\<rparr>) (t_messages d)\<rparr>"

definition embedded :: "uuid \<Rightarrow> database \<Rightarrow> database \<Rightarrow> bool" where
  "embedded i d d' \<longleftrightarrow> d' = d \<or> (\<exists>vec now. length vec = vector_dims \<and> d' = with_embedding i vec now d)"

lemma SetEmbedding_result: "SetEmbedding i vec E w = (r, w') \<Longrightarrow> embedded i (w_db w) (w_db w')"
proof -
  assume "SetEmbedding i vec E w = (r, w')"
  then obtain v r' where st: "pool_exec (embedding_update i v) E w = (r', w')"
    by (auto simp: SetEmbedding_def go_bind_def asks_run wrap_err_def split: prod.splits sum.splits)
  show ?thesis
  proof (cases r')
    case (Inl e)
    with st have "w_db w' = w_db w" by (auto dest: pool_exec_eq_Inl)
    then show ?thesis by (simp add: embedded_def)
  next
    case (Inr u)
    with st show ?thesis
      by (auto simp: pool_exec_eq_Inr embedding_update_def embedded_def with_embedding_def split: option.splits if_splits)
  qed
qed

lemma embed_text_result: "embed_text cfg i text E w = (r, w') \<Longrightarrow> embedded i (w_db w) (w_db w')"
proof -
  assume run: "embed_text cfg i text E w = (r, w')"
  show ?thesis
  proof (cases "text = []")
    case True
    with run show ?thesis by (simp add: embed_text_def ret_run embedded_def)
  next
    case False
    let ?t = "if length text > maxTextBytes then take maxTextBytes text else text"
    obtain x w1 where e: "Embed (ew_client cfg) ?t E w = (x, w1)" by (rule prod.exhaust)
    have db: "w_db w1 = w_db w" by (rule keeps_db_same [OF keeps_db_Embed e])
    show ?thesis
    proof (cases x)
      case (Inl err)
      with run False e db show ?thesis by (simp add: embed_text_def go_bind_def attempt_def ret_run embedded_def)
    next
      case (Inr vec)
      obtain y w2 where s: "SetEmbedding i vec E w1 = (y, w2)" by (rule prod.exhaust)
      with run False e Inr have "w' = w2"
        by (auto simp: embed_text_def go_bind_def attempt_def ignore_err_def split: sum.splits)
      with SetEmbedding_result [OF s] db show ?thesis by simp
    qed
  qed
qed

lemma never_fails_embed_record: "never_fails (embed_record cfg record)"
proof -
  have "never_fails (message_body b i inline)" for b i inline
    unfolding message_body_def by (intro never_fails_bind never_fails_intros never_fails_cases)
  moreover have "never_fails (embed_text cfg i t)" for i t
    unfolding embed_text_def by (intro never_fails_bind never_fails_intros never_fails_cases)
  ultimately show ?thesis
    unfolding embed_record_def by (intro never_fails_bind never_fails_intros never_fails_cases)
qed

lemma embed_record_most:
  assumes run: "embed_record cfg record E w = (Inr (), w')"
  shows "w_db w' = w_db w \<or> (\<exists>i. embeds E record i \<and> embedded i (w_db w) (w_db w'))"
proof (cases "\<exists>evt s b i. sm_Event record = Some evt \<and> embeddable evt = Some (s, b) \<and> parse_uuid E s = Some i")
  case False
  with run show ?thesis by (auto simp: embed_record_def go_bind_def asks_run ret_run split: option.splits)
next
  case True
  then obtain evt s b i where e: "sm_Event record = Some evt" "embeddable evt = Some (s, b)" "parse_uuid E s = Some i" by blast
  obtain x w1 where m: "message_body (ew_bucket cfg) i b E w = (x, w1)" by (rule prod.exhaust)
  have db: "w_db w1 = w_db w" by (rule keeps_db_same [OF keeps_db_message_body m])
  from run m have "w_db w' = w_db w \<or> (\<exists>text r. embed_text cfg i text E w1 = (r, w'))"
    using db by (cases x) (auto simp: embed_record_def e go_bind_def asks_run ret_run split: option.splits)
  then show ?thesis using db e by (auto simp: embeds_def dest: embed_text_result)
qed

text \<open>The text that is embedded: the inline body, or what the store of bodies holds for the message.\<close>

definition embed_input :: "embedder_worker \<Rightarrow> world \<Rightarrow> uuid \<Rightarrow> string \<Rightarrow> string option" where
  "embed_input cfg w i inline =
     (if inline \<noteq> [] then Some inline
      else (case filter (\<lambda>r. mr_id r = i) (t_messages (w_db w)) of
        [r] \<Rightarrow> if mr_body_text_key r = [] then None else w_s3 w (ew_bucket cfg, mr_body_text_key r)
      | _ \<Rightarrow> None))"

lemma message_body_run:
  assumes "no_faults E" and "embed_input cfg w i inline = Some raw"
  shows "\<exists>w'. message_body (ew_bucket cfg) i inline E w = (Inr (Some (trim_space raw)), w') \<and>
    w_tick w' = w_tick w + (if inline = [] then 2 else 0)"
proof (cases "inline = []")
  case False
  with assms(2) show ?thesis by (simp add: message_body_def embed_input_def ret_run)
next
  case True
  with assms(2) obtain r where r: "filter (\<lambda>r. mr_id r = i) (t_messages (w_db w)) = [r]" "mr_body_text_key r \<noteq> []"
    "w_s3 w (ew_bucket cfg, mr_body_text_key r) = Some raw"
    by (auto simp: embed_input_def split: list.splits if_splits)
  have f: "fault E k = None" for k using assms(1) by (simp add: no_faults_def)
  have "GetTextKey i E w = (Inr (mr_body_text_key r), (tick_world w)\<lparr>w_db := w_db w\<rparr>)"
    by (simp add: GetTextKey_def go_success pool_exec_eq_Inr f text_key_of_def query_row_def first_row_def r(1))
  with True r f show ?thesis
    by (simp add: message_body_def go_bind_def attempt_def ret_run S3_Download_def external_def tick_world_def)
qed

lemma Embed_run:
  assumes "url_error E (em_baseURL c @ ''/embeddings'') = None"
    and "http_do E (w_tick w) (embed_request c (embed_json E (em_model c) text)) = Inr (200, reply)"
    and "embed_reply E reply = Some (v # vs)" and "v \<noteq> []"
  shows "\<exists>w'. Embed c text E w = (Inr (cut_vector (em_dims c) v), w') \<and> w_tick w' = Suc (w_tick w) \<and> w_db w' = w_db w"
  using assms by (simp add: Embed_def go_bind_def asks_run wrap_err_def http_Do_def fail_if_run reply_vector_def ret_run)

lemma SetEmbedding_run:
  assumes "no_faults E" and "cast_vector E (VectorLiteral E v) = Some vec" and "length vec = vector_dims"
  shows "\<exists>w'. SetEmbedding i v E w = (Inr (), w') \<and> w_db w' = with_embedding i vec (clock E (Suc (w_tick w))) (w_db w)"
proof -
  have "pool_exec (embedding_update i (Some vec)) E w =
      (Inr (), (tick_world w)\<lparr>w_db := with_embedding i vec (clock E (Suc (w_tick w))) (w_db w)\<rparr>)"
    using assms by (simp add: pool_exec_eq_Inr no_faults_def embedding_update_def with_embedding_def)
  with assms(2) show ?thesis by (simp add: SetEmbedding_def go_bind_def asks_run wrap_err_def)
qed


text \<open>A server that answers, and one that does not.\<close>

definition demo_embed_env :: env where
  "demo_embed_env = demo_env\<lparr>http_do := (\<lambda>n req. Inr (200, ''v'')), cast_vector := (\<lambda>s. Some (replicate 768 1))\<rparr>"

definition demo_worker :: embedder_worker where
  "demo_worker = \<lparr>ew_bucket = ''b'', ew_client = Embedder_New ''http://e/'' ''m'' [] 768\<rparr>"

definition demo_sent :: sqs_message where
  "demo_sent = \<lparr>sm_MessageId = ''m'', sm_Event = Some (MessageSentEvent
     \<lparr>be_ID = ''1'', be_Type = ''message.sent'', be_OrgID = ''1'', be_OccurredAt = 0, be_CorrelationID = []\<rparr>
     ((MessagePayloadFromModel unary (scanMessage demo_message) '' text '' [] [] [])))\<rparr>"


end
