(* ===== verification/Search.thy ===== *)
theory Search
  imports Embedder Requests
begin

text \<open>
  \<open>lambdas/search/main.go\<close>: the search over the messages of an organisation, by keywords or by the distance of
  embeddings.  Matching, ranking and distances are the server's (parameters of the environment).
\<close>

section \<open>The queries\<close>

definition message_text :: "message_row \<Rightarrow> string \<times> string \<times> string" where
  "message_text r = (mr_subject r, mr_from_address r, mr_from_name r)"

text \<open>\<open>COALESCE(m.received_at, m.sent_at, m.created_at)\<close>\<close>

definition message_time :: "message_row \<Rightarrow> time" where
  "message_time r = (case mr_received_at r of Some t \<Rightarrow> t | None \<Rightarrow> (case mr_sent_at r of Some t \<Rightarrow> t | None \<Rightarrow> mr_created_at r))"

definition thread_snippet :: "database \<Rightarrow> uuid \<Rightarrow> string" where
  "thread_snippet d i = (case find (\<lambda>t. tr_id t = i) (t_threads d) of None \<Rightarrow> [] | Some t \<Rightarrow> tr_snippet t)"

definition search_row :: "database \<Rightarrow> rank \<Rightarrow> message_row \<Rightarrow> search_result" where
  "search_row d rank r =
     \<lparr>sx_MessageID = mr_id r, sx_ThreadID = mr_thread_id r, sx_InboxID = mr_inbox_id r, sx_Subject = mr_subject r,
      sx_Snippet = thread_snippet d (mr_thread_id r), sx_From = \<lparr>ea_Email = mr_from_address r, ea_Name = mr_from_name r\<rparr>,
      sx_ReceivedAt = mr_received_at r, sx_SentAt = mr_sent_at r, sx_Direction = mr_direction r, sx_Rank = rank\<rparr>"

text \<open>\<open>WHERE m.org_id = $2 AND ... AND ($3::uuid IS NULL OR m.inbox_id = $3) AND (time, id) < (cursor)\<close>\<close>

definition in_scope :: "uuid \<Rightarrow> uuid option \<Rightarrow> (time \<times> uuid) option \<Rightarrow> message_row \<Rightarrow> bool" where
  "in_scope orgID inboxID after r \<longleftrightarrow> mr_org_id r = orgID \<and> (case inboxID of None \<Rightarrow> True | Some i \<Rightarrow> mr_inbox_id r = i) \<and>
     (case after of None \<Rightarrow> True | Some c \<Rightarrow> (message_time r, mr_id r) < c)"

definition keyword_query :: "env \<Rightarrow> string \<Rightarrow> uuid \<Rightarrow> uuid option \<Rightarrow> (string \<times> string) option \<Rightarrow> nat \<Rightarrow> search_result list stmt" where
  "keyword_query E q orgID inboxID parts n now d =
     (case cursor_key E parts of
        Inl e \<Rightarrow> Inl e
      | Inr after \<Rightarrow>
          (let rank = (\<lambda>r. se_rank (search_lib E) q (message_text r));
               hits = filter (\<lambda>r. se_matches (search_lib E) q (message_text r) \<and> in_scope orgID inboxID after r) (t_messages d)
           in Inr (map (\<lambda>r. search_row d (rank r) r) (take n (order_desc (\<lambda>r. (rank r, message_time r, mr_id r)) hits)), d)))"

definition row_distance :: "env \<Rightarrow> float32 list \<Rightarrow> message_row \<Rightarrow> rank" where
  "row_distance E v r = (case mr_embedding r of None \<Rightarrow> 0 | Some u \<Rightarrow> se_distance (search_lib E) u v)"

text \<open>The distance of vectors of different dimensions is an error.\<close>

definition other_dims :: "float32 list \<Rightarrow> message_row \<Rightarrow> bool" where
  "other_dims v r = (case mr_embedding r of None \<Rightarrow> False | Some u \<Rightarrow> length u \<noteq> length v)"

definition semantic_query :: "env \<Rightarrow> string \<Rightarrow> uuid \<Rightarrow> uuid option \<Rightarrow> (string \<times> string) option \<Rightarrow> nat \<Rightarrow> search_result list stmt" where
  "semantic_query E vecLit orgID inboxID parts n now d =
     (case cast_vector E vecLit of
        None \<Rightarrow> Inl (PgError ''22P02'')
      | Some v \<Rightarrow>
          (case cursor_key E parts of
             Inl e \<Rightarrow> Inl e
           | Inr after \<Rightarrow>
               (let hits = filter (\<lambda>r. mr_embedding r \<noteq> None \<and> in_scope orgID inboxID after r) (t_messages d)
                in if list_ex (other_dims v) hits then Inl (PgError ''22000'')
                   else Inr (map (\<lambda>r. search_row d (se_similarity (search_lib E) (row_distance E v r)) r)
                     (take n (order_asc (\<lambda>r. (row_distance E v r, - message_time r, - int (mr_id r))) hits)), d))))"

section \<open>The pages\<close>

definition result_time :: "search_result \<Rightarrow> time option" where
  "result_time r = (case sx_ReceivedAt r of Some t \<Rightarrow> Some t | None \<Rightarrow> sx_SentAt r)"

definition result_cursor :: "env \<Rightarrow> search_result \<Rightarrow> string" where
  "result_cursor E r =
     EncodeCursor [case result_time r of None \<Rightarrow> [] | Some t \<Rightarrow> fmt_time E t, fmt_uuid E (sx_MessageID r)]"

text \<open>\<open>runSearch\<close> on either query.\<close>

definition runSearch :: "(env \<Rightarrow> search_result list stmt) \<Rightarrow> int \<Rightarrow> (search_result list \<times> string) io" where
  "runSearch sql limit =
     go_bind (\<lambda>E w. pool_exec (sql E) E w) (\<lambda>results.
     asks (\<lambda>E. cut_page (nat limit) (result_cursor E) results))"

definition keywordSearch :: "uuid \<Rightarrow> string \<Rightarrow> uuid option \<Rightarrow> int \<Rightarrow> string \<Rightarrow> (search_result list \<times> string) io" where
  "keywordSearch orgID q inboxID limit cursor =
     go_bind (of_result (cursor_parts cursor)) (\<lambda>parts.
     runSearch (\<lambda>E. keyword_query E q orgID inboxID parts (nat (limit + 1))) limit)"

definition semanticSearch :: "embedder_client \<Rightarrow> uuid \<Rightarrow> string \<Rightarrow> uuid option \<Rightarrow> int \<Rightarrow> string \<Rightarrow> (search_result list \<times> string) io" where
  "semanticSearch emb orgID q inboxID limit cursor =
     go_bind (Embed emb q) (\<lambda>vec.
     go_bind (of_result (cursor_parts cursor)) (\<lambda>parts.
     runSearch (\<lambda>E. semantic_query E (VectorLiteral E vec) orgID inboxID parts (nat (limit + 1))) limit))"

section \<open>The handler\<close>

definition search_limit :: "request \<Rightarrow> int" where
  "search_limit event =
     (let s = map_get (rq_QueryStringParameters event) ''limit'';
          limit = (if s \<noteq> [] then (case atoi s of Some v \<Rightarrow> if v > 0 then v else 20 | None \<Rightarrow> 20) else 20)
      in if limit > 100 then 100 else limit)"

definition with_inbox_id :: "request \<Rightarrow> (uuid option \<Rightarrow> handler) \<Rightarrow> handler" where
  "with_inbox_id event h = (\<lambda>E w.
     let s = map_get (rq_QueryStringParameters event) ''inbox_id'' in
     if s = [] then h None E w
     else case parse_uuid E s of None \<Rightarrow> (Error 400 ''invalid inbox_id'', w) | Some i \<Rightarrow> h (Some i) E w)"

text \<open>A semantic search that fails, or without a server for embeddings, becomes a search by keywords.\<close>

definition run_mode :: "embedder_client option \<Rightarrow> string \<Rightarrow> uuid \<Rightarrow> string \<Rightarrow> uuid option \<Rightarrow> int \<Rightarrow> string
    \<Rightarrow> (search_result list \<times> string) io" where
  "run_mode emb mode orgID q inboxID limit cursor =
     (case (if mode = ''semantic'' then emb else None) of
        None \<Rightarrow> keywordSearch orgID q inboxID limit cursor
      | Some e \<Rightarrow>
          go_bind (attempt (semanticSearch e orgID q inboxID limit cursor)) (\<lambda>r.
          case r of Inr x \<Rightarrow> ret x | Inl _ \<Rightarrow> keywordSearch orgID q inboxID limit cursor))"

definition mode_feature :: "string \<Rightarrow> string" where
  "mode_feature mode = (if mode = ''semantic'' then ''semantic_search'' else ''text_search'')"

definition mode_refusal :: "string \<Rightarrow> string" where
  "mode_refusal mode =
     (if mode = ''semantic'' then ''semantic search feature not available on your plan''
      else ''text search feature not available on your plan'')"

definition search_handler :: "embedder_client option \<Rightarrow> request \<Rightarrow> handler" where
  "search_handler emb event = with_claims event (\<lambda>c. require_scope c ScopeSearchRead
     (let q = map_get (rq_QueryStringParameters event) ''q''; mode = map_get (rq_QueryStringParameters event) ''mode'' in
      if q = [] then respond (Error 400 ''q parameter is required'')
      else with_inbox_id event (\<lambda>inboxID.
        if \<not> HasFeature c (mode_feature mode) then respond (Error 403 (mode_refusal mode))
        else handle (run_mode emb mode (cl_OrgID c) q inboxID (search_limit event) (map_get (rq_QueryStringParameters event) ''cursor''))
          (\<lambda>_. respond (Error 500 ''search failed''))
          (\<lambda>(results, nextCursor). respond (JSON 200 (VSearch results nextCursor))))))"

section \<open>What a search finds\<close>

text \<open>\<open>found d org inbox after x\<close>: the result \<open>x\<close> shows a message in scope.\<close>

definition found :: "database \<Rightarrow> uuid \<Rightarrow> uuid option \<Rightarrow> (time \<times> uuid) option \<Rightarrow> search_result \<Rightarrow> bool" where
  "found d orgID inboxID after x \<longleftrightarrow> (\<exists>r \<in> set (t_messages d). in_scope orgID inboxID after r \<and> x = search_row d (sx_Rank x) r)"

lemma search_row_sel [simp]:
  "sx_MessageID (search_row d k r) = mr_id r" "sx_InboxID (search_row d k r) = mr_inbox_id r" "sx_Rank (search_row d k r) = k"
  "sx_ReceivedAt (search_row d k r) = mr_received_at r" "sx_SentAt (search_row d k r) = mr_sent_at r"
  by (simp_all add: search_row_def)

lemma foundI: "r \<in> set (t_messages d) \<Longrightarrow> in_scope orgID inboxID after r \<Longrightarrow> found d orgID inboxID after (search_row d k r)"
  by (auto simp: found_def)

text \<open>What both queries give: rows in scope, after the cursor.\<close>

definition finds :: "env \<Rightarrow> (env \<Rightarrow> search_result list stmt) \<Rightarrow> uuid \<Rightarrow> uuid option \<Rightarrow> (string \<times> string) option \<Rightarrow> bool" where
  "finds E sql orgID inboxID parts \<longleftrightarrow> (\<forall>now d rs d'. sql E now d = Inr (rs, d') \<longrightarrow> d' = d \<and>
     (\<exists>after. cursor_key E parts = Inr after \<and> list_all (found d orgID inboxID after) rs))"

lemma queries_find:
  "finds E (\<lambda>E. keyword_query E q orgID inboxID parts n) orgID inboxID parts"
  "finds E (\<lambda>E. semantic_query E (lit E) orgID inboxID parts n) orgID inboxID parts"
  unfolding finds_def keyword_query_def semantic_query_def
  by (auto simp: list_all_iff Let_def split: sum.splits option.splits if_splits intro!: foundI dest!: in_set_takeD)

lemma cut_page_props:
  assumes "cut_page limit c rows = (rs, next)"
  shows "set rs \<subseteq> set rows" "length rs \<le> limit" "next = [] \<or> next = c (last rs) \<and> (0 < limit \<longrightarrow> rs \<noteq> [])"
  using assms by (auto simp: cut_page_def split: if_splits dest: in_set_takeD)

text \<open>A page of results: what they are, how many, and the cursor of the last one.\<close>

definition page_ok :: "env \<Rightarrow> world \<Rightarrow> uuid \<Rightarrow> uuid option \<Rightarrow> (string \<times> string) option \<Rightarrow> int \<Rightarrow> search_result list \<Rightarrow> string \<Rightarrow> world \<Rightarrow> bool" where
  "page_ok E w orgID inboxID parts limit rs next w' \<longleftrightarrow> w_db w' = w_db w \<and> length rs \<le> nat limit \<and>
     (\<exists>after. cursor_key E parts = Inr after \<and> list_all (found (w_db w) orgID inboxID after) rs) \<and>
     (next = [] \<or> next = result_cursor E (last rs) \<and> (0 < limit \<longrightarrow> rs \<noteq> []))"

lemma runSearch_page:
  assumes "runSearch sql limit E w = (Inr (rs, next), w')" and f: "finds E sql orgID inboxID parts"
  shows "page_ok E w orgID inboxID parts limit rs next w'"
proof -
  from assms(1) obtain xs where q: "pool_exec (sql E) E w = (Inr xs, w')" and c: "cut_page (nat limit) (result_cursor E) xs = (rs, next)"
    by (auto simp: runSearch_def go_bind_eq_Inr asks_run)
  from q obtain d' where "sql E (clock E (Suc (w_tick w))) (w_db w) = Inr (xs, d')" "w_db w' = d'"
    by (auto simp: pool_exec_eq_Inr)
  with f obtain after where "w_db w' = w_db w" "cursor_key E parts = Inr after" "list_all (found (w_db w) orgID inboxID after) xs"
    unfolding finds_def by blast
  with cut_page_props [OF c] show ?thesis by (auto simp: page_ok_def list_all_iff)
qed

lemma keywordSearch_page:
  assumes "keywordSearch orgID q inboxID limit cursor E w = (Inr (rs, next), w')"
  obtains parts where "cursor_parts cursor = Inr parts" "page_ok E w orgID inboxID parts limit rs next w'"
proof -
  from assms obtain parts where p: "cursor_parts cursor = Inr parts"
    "runSearch (\<lambda>E. keyword_query E q orgID inboxID parts (nat (limit + 1))) limit E w = (Inr (rs, next), w')"
    by (auto simp: keywordSearch_def go_bind_eq_Inr of_result_eq_Inr)
  from p(1) runSearch_page [OF p(2) queries_find(1)] show ?thesis by (rule that)
qed

lemma semanticSearch_page:
  assumes "semanticSearch emb orgID q inboxID limit cursor E w = (Inr (rs, next), w')"
  obtains parts where "cursor_parts cursor = Inr parts" "page_ok E w orgID inboxID parts limit rs next w'"
proof -
  from assms obtain vec parts w1 where e: "Embed emb q E w = (Inr vec, w1)" and p: "cursor_parts cursor = Inr parts"
    "runSearch (\<lambda>E. semantic_query E (VectorLiteral E vec) orgID inboxID parts (nat (limit + 1))) limit E w1 = (Inr (rs, next), w')"
    by (auto simp: semanticSearch_def go_bind_eq_Inr of_result_eq_Inr)
  have "w_db w1 = w_db w" by (rule keeps_db_same [OF keeps_db_Embed e])
  with runSearch_page [OF p(2) queries_find(2)] have "page_ok E w orgID inboxID parts limit rs next w'" by (simp add: page_ok_def)
  with p(1) show ?thesis by (rule that)
qed

lemma keeps_db_searches [keeps_intros]:
  "keeps_db Q (keywordSearch orgID q inboxID limit cursor)" "keeps_db Q (semanticSearch emb orgID q inboxID limit cursor)"
proof -
  have st: "stmt_keeps Q (keyword_query E q orgID inboxID parts n)" "stmt_keeps Q (semantic_query E v orgID inboxID parts n)" for Q E v parts n
    by (auto simp: stmt_keeps_def keyword_query_def semantic_query_def Let_def split: sum.splits option.splits if_splits)
  have r: "keeps_db Q (runSearch sql limit)" if "\<And>E. stmt_keeps Q (sql E)" for sql :: "env \<Rightarrow> search_result list stmt"
  proof -
    have "keeps_db Q (\<lambda>E w. pool_exec (sql E) E w)"
      using keeps_db_pool_exec [OF that] by (simp add: keeps_db_iff)
    then show ?thesis unfolding runSearch_def by (intro keeps_intros)
  qed
  have o: "keeps_db Q (of_result x)" for x :: "go_error + 'a" by (simp add: keeps_db_iff of_result_def go_run split: sum.split)
  show "keeps_db Q (keywordSearch orgID q inboxID limit cursor)"
    unfolding keywordSearch_def by (intro keeps_db_bind o r st)
  show "keeps_db Q (semanticSearch emb orgID q inboxID limit cursor)"
    unfolding semanticSearch_def by (intro keeps_db_bind keeps_db_Embed o r st)
qed

lemma run_mode_page:
  assumes "run_mode emb mode orgID q inboxID limit cursor E w = (Inr (rs, next), w')"
  obtains parts where "cursor_parts cursor = Inr parts" "page_ok E w orgID inboxID parts limit rs next w'"
proof (cases "if mode = ''semantic'' then emb else None")
  case None
  with assms show ?thesis by (auto simp: run_mode_def elim: keywordSearch_page intro: that)
next
  case (Some e)
  obtain r w1 where s: "semanticSearch e orgID q inboxID limit cursor E w = (r, w1)" by (rule prod.exhaust)
  show ?thesis
  proof (cases r)
    case (Inl err)
    with assms Some s have k: "keywordSearch orgID q inboxID limit cursor E w1 = (Inr (rs, next), w')"
      by (auto simp: run_mode_def go_bind_def attempt_def)
    have "w_db w1 = w_db w" by (rule keeps_db_same [OF keeps_db_searches(2) s])
    with k show ?thesis by (auto elim!: keywordSearch_page intro!: that simp: page_ok_def)
  next
    case (Inr x)
    with assms Some s have "x = (rs, next)" "w1 = w'" by (auto simp: run_mode_def go_bind_def attempt_def ret_run)
    with s Inr show ?thesis by (auto elim!: semanticSearch_page intro: that)
  qed
qed

lemma search_limit_bounds: "0 < search_limit event \<and> search_limit event \<le> 100"
  by (auto simp: search_limit_def Let_def split: option.split)

section \<open>Who finds what\<close>

lemma cursor_read:
  assumes "cursor_parts cursor = Inr parts" and "cursor_key E parts = Inr after"
  shows "case after of None \<Rightarrow> cursor = []
    | Some k \<Rightarrow> \<exists>ts us more. DecodeCursor cursor = Inr (ts # us # more) \<and> cast_time E ts = Some (fst k) \<and> cast_uuid E us = Some (snd k)"
proof (cases "cursor = []")
  case True
  with assms show ?thesis by (simp add: cursor_parts_def cursor_key_def)
next
  case False
  with assms(1) obtain ps where "DecodeCursor cursor = Inr ps" and "\<not> length ps < 2" and parts: "parts = Some (ps ! 0, ps ! 1)"
    by (auto simp: cursor_parts_def split: sum.splits if_splits)
  moreover then obtain ts us more where "ps = ts # us # more" by (cases ps; cases "tl ps") auto
  ultimately show ?thesis using assms(2) by (auto simp: cursor_key_def split: option.splits)
qed

text \<open>C24. A search shows nothing beyond the caller's organisation: an answer needs the search scope and the feature of its
  mode, every result shows a message of the organisation of the claims, of the inbox that was asked for, and older than the
  position that the cursor of the query names, when there is one; there are at most a hundred, and nothing has changed.
  (The pod of a key is not looked at.)\<close>

theorem search_confined:
  assumes "search_handler emb event E w = (resp, w')" and "rs_Body resp = VSearch rs next"
  shows "w_db w' = w_db w \<and> length rs \<le> 100 \<and>
    (\<exists>c after. ExtractClaims E event = Inr c \<and> HasScope c ScopeSearchRead \<and>
      HasFeature c (mode_feature (map_get (rq_QueryStringParameters event) ''mode'')) \<and>
      (case after of None \<Rightarrow> map_get (rq_QueryStringParameters event) ''cursor'' = []
       | Some k \<Rightarrow> \<exists>ts us more. DecodeCursor (map_get (rq_QueryStringParameters event) ''cursor'') = Inr (ts # us # more) \<and>
           cast_time E ts = Some (fst k) \<and> cast_uuid E us = Some (snd k)) \<and>
      (\<forall>x \<in> set rs. \<exists>r \<in> set (t_messages (w_db w)). x = search_row (w_db w) (sx_Rank x) r \<and> mr_org_id r = cl_OrgID c \<and>
        (case after of None \<Rightarrow> True | Some k \<Rightarrow> (message_time r, mr_id r) < k) \<and>
        (map_get (rq_QueryStringParameters event) ''inbox_id'' = [] \<or>
         parse_uuid E (map_get (rq_QueryStringParameters event) ''inbox_id'') = Some (mr_inbox_id r))))"
proof -
  let ?p = "map_get (rq_QueryStringParameters event)"
  from assms obtain c i where c: "ExtractClaims E event = Inr c" "HasScope c ScopeSearchRead" "HasFeature c (mode_feature (?p ''mode''))"
    and i: "?p ''inbox_id'' = [] \<and> i = None \<or> ?p ''inbox_id'' \<noteq> [] \<and> (\<exists>u. parse_uuid E (?p ''inbox_id'') = Some u \<and> i = Some u)"
    and run: "run_mode emb (?p ''mode'') (cl_OrgID c) (?p ''q'') i (search_limit event) (?p ''cursor'') E w = (Inr (rs, next), w')"
    by (auto simp: search_handler_def with_claims_def require_scope_def Let_def respond_def Error_def JSON_def with_inbox_id_def handle_def
        split: sum.splits if_splits option.splits prod.splits)
  from run obtain parts where parts: "cursor_parts (?p ''cursor'') = Inr parts"
    and page: "page_ok E w (cl_OrgID c) i parts (search_limit event) rs next w'" by (rule run_mode_page)
  then obtain after where after: "cursor_key E parts = Inr after" and rs: "list_all (found (w_db w) (cl_OrgID c) i after) rs"
    and same: "w_db w' = w_db w" "length rs \<le> nat (search_limit event)" by (auto simp: page_ok_def)
  have "\<forall>x \<in> set rs. \<exists>r \<in> set (t_messages (w_db w)). x = search_row (w_db w) (sx_Rank x) r \<and> mr_org_id r = cl_OrgID c \<and>
      (case after of None \<Rightarrow> True | Some k \<Rightarrow> (message_time r, mr_id r) < k) \<and>
      (?p ''inbox_id'' = [] \<or> parse_uuid E (?p ''inbox_id'') = Some (mr_inbox_id r))"
  proof
    fix x assume "x \<in> set rs"
    with rs obtain r where r: "r \<in> set (t_messages (w_db w))" "in_scope (cl_OrgID c) i after r" "x = search_row (w_db w) (sx_Rank x) r"
      by (auto simp: list_all_iff found_def)
    with i show "\<exists>r \<in> set (t_messages (w_db w)). x = search_row (w_db w) (sx_Rank x) r \<and> mr_org_id r = cl_OrgID c \<and>
      (case after of None \<Rightarrow> True | Some k \<Rightarrow> (message_time r, mr_id r) < k) \<and>
      (?p ''inbox_id'' = [] \<or> parse_uuid E (?p ''inbox_id'') = Some (mr_inbox_id r))"
      by (intro bexI [of _ r]) (auto simp: in_scope_def)
  qed
  moreover have "length rs \<le> 100" using same(2) search_limit_bounds [of event] by linarith
  ultimately show ?thesis using c same(1) cursor_read [OF parts after] by blast
qed

text \<open>The only message of the inbox is from the time 0 and has the id 9: a cursor behind it shows it, a cursor at it does not.\<close>

definition demo_search :: "uuid \<Rightarrow> request" where
  "demo_search i = \<lparr>rq_Resource = ''/v1/search'', rq_HTTPMethod = ''GET'', rq_PathParameters = [],
     rq_QueryStringParameters = [(''q'', ''hi''), (''inbox_id'', ''111''), (''cursor'', row_cursor demo_env 0 i)],
     rq_Authorizer = [(''org_id'', JStr ''1''), (''key_id'', JStr ''1111''), (''scopes'', JStr ''search:read''),
       (''features'', JStr ''text_search'')], rq_Body = None\<rparr>"

theorem search_confined_witness:
  "\<exists>rs nx. rs_Body (fst (search_handler None (demo_search 10) demo_env demo_world)) = VSearch rs nx \<and> map sx_MessageID rs = [9] \<and>
     rs_Body (fst (search_handler None (demo_search 9) demo_env demo_world)) = VSearch [] [] \<and>
     (\<exists>c. ExtractClaims demo_env (demo_search 10) = Inr c \<and>
       (\<forall>x \<in> set rs. \<exists>r \<in> set (t_messages demo_db). mr_org_id r = cl_OrgID c \<and> mr_inbox_id r = 3 \<and> (message_time r, mr_id r) < (0, 10)))"
proof -
  let ?r = "fst (search_handler None (demo_search 10) demo_env demo_world)"
  let ?rs = "[search_row demo_db 2 demo_message]"
  have body: "rs_Body ?r = VSearch ?rs []" by code_simp
  have none: "rs_Body (fst (search_handler None (demo_search 9) demo_env demo_world)) = VSearch [] []" by code_simp
  have q: "map_get (rq_QueryStringParameters (demo_search 10)) ''inbox_id'' \<noteq> [] \<and>
      parse_uuid demo_env (map_get (rq_QueryStringParameters (demo_search 10)) ''inbox_id'') = Some 3" by code_simp
  have cur: "map_get (rq_QueryStringParameters (demo_search 10)) ''cursor'' = row_cursor demo_env 0 10" by code_simp
  from search_confined [OF prod.collapse [symmetric] body, unfolded cur] obtain c after where
    c: "ExtractClaims demo_env (demo_search 10) = Inr c"
    and after: "case after of None \<Rightarrow> row_cursor demo_env 0 10 = []
       | Some k \<Rightarrow> \<exists>ts us more. DecodeCursor (row_cursor demo_env 0 10) = Inr (ts # us # more) \<and>
           cast_time demo_env ts = Some (fst k) \<and> cast_uuid demo_env us = Some (snd k)"
    and rs: "\<forall>x \<in> set ?rs. \<exists>r \<in> set (t_messages (w_db demo_world)). x = search_row (w_db demo_world) (sx_Rank x) r \<and> mr_org_id r = cl_OrgID c \<and>
        (case after of None \<Rightarrow> True | Some k \<Rightarrow> (message_time r, mr_id r) < k) \<and>
        (map_get (rq_QueryStringParameters (demo_search 10)) ''inbox_id'' = [] \<or>
         parse_uuid demo_env (map_get (rq_QueryStringParameters (demo_search 10)) ''inbox_id'') = Some (mr_inbox_id r))"
    by (elim conjE exE) (rule that)
  have "after = Some (0, 10)"
    using after DecodeCursor_row [OF demo_codec] demo_codec by (cases after) (auto simp: cursor_codec_def)
  with rs q have "\<forall>x \<in> set ?rs. \<exists>r \<in> set (t_messages demo_db). mr_org_id r = cl_OrgID c \<and> mr_inbox_id r = 3 \<and> (message_time r, mr_id r) < (0, 10)"
    by fastforce
  with body none c show ?thesis by (intro exI [of _ ?rs] exI [of _ "[]"]) (simp add: demo_message_def)
qed

section \<open>Where the pages go wrong\<close>

text \<open>The answer to a cursor, nothing when there is none.\<close>

definition search_page :: "env \<Rightarrow> world \<Rightarrow> uuid \<Rightarrow> string \<Rightarrow> uuid option \<Rightarrow> int \<Rightarrow> string \<Rightarrow> search_result list \<times> string" where
  "search_page E w orgID q inboxID limit cursor =
     (case fst (keywordSearch orgID q inboxID limit cursor E w) of Inl _ \<Rightarrow> ([], []) | Inr page \<Rightarrow> page)"

lemma untimed_cursor:
  assumes "\<And>u. CHR ''|'' \<notin> set (fmt_uuid E u)" and "cast_time E [] = None" and "result_time x = None"
  shows "\<exists>e. fst (keywordSearch orgID q inboxID limit (result_cursor E x) E w) = Inl e"
proof -
  let ?ps = "[[], fmt_uuid E (sx_MessageID x)]"
  have cur: "result_cursor E x = EncodeCursor ?ps" by (simp add: result_cursor_def assms(3))
  have "split_on (CHR ''|'') (join ''|'' ?ps) = ?ps" using assms(1) by (intro split_join) auto
  then have "DecodeCursor (EncodeCursor ?ps) = Inr ?ps" and "EncodeCursor ?ps \<noteq> []"
    unfolding EncodeCursor_def DecodeCursor_def Let_def by (simp_all only: if_False b64_roundtrip option.case) simp_all
  then have "cursor_parts (result_cursor E x) = Inr (Some ([], fmt_uuid E (sx_MessageID x)))" by (simp add: cur cursor_parts_def)
  moreover have "cursor_key E (Some ([], fmt_uuid E (sx_MessageID x))) = Inl (PgError ''22007'')" by (simp add: cursor_key_def assms(2))
  ultimately have "keywordSearch orgID q inboxID limit (result_cursor E x) E w \<noteq> (Inr page, w')" for page w'
    by (auto simp: keywordSearch_def go_bind_eq_Inr runSearch_def pool_exec_eq_Inr keyword_query_def)
  then show ?thesis by (cases "keywordSearch orgID q inboxID limit (result_cursor E x) E w"; cases "fst (keywordSearch orgID q inboxID limit (result_cursor E x) E w)") auto
qed

lemma timed_cursor:
  assumes "cursor_codec E" and "result_time x = Some t"
  shows "cursor_parts (result_cursor E x) = Inr (Some (fmt_time E t, fmt_uuid E (sx_MessageID x)))"
    "cursor_key E (Some (fmt_time E t, fmt_uuid E (sx_MessageID x))) = Inr (Some (t, sx_MessageID x))"
  using cursor_parts_row [OF assms(1)] cursor_key_row [OF assms(1)] assms(2) by (simp_all add: result_cursor_def row_cursor_def)

lemma found_time:
  assumes "found d orgID inboxID after x" and "result_time x = Some t"
  shows "(case after of None \<Rightarrow> True | Some c \<Rightarrow> (t, sx_MessageID x) < c)"
proof -
  from assms(1) obtain r where r: "in_scope orgID inboxID after r" "x = search_row d (sx_Rank x) r" unfolding found_def by blast
  from r(2) have "result_time x = (case mr_received_at r of Some t \<Rightarrow> Some t | None \<Rightarrow> mr_sent_at r)" "sx_MessageID x = mr_id r"
    by (metis result_time_def search_row_sel(4,5), metis search_row_sel(1))
  with assms(2) have "message_time r = t" "sx_MessageID x = mr_id r" by (auto simp: message_time_def split: option.splits)
  with r(1) show ?thesis by (auto simp: in_scope_def split: option.splits)
qed

lemma found_trans:
  assumes "found d orgID inboxID (Some c') x" and "c' < c"
  shows "found d orgID inboxID (Some c) x"
  using assms by (auto simp: found_def in_scope_def)

lemma search_page_cases:
  obtains "search_page E w orgID q inboxID limit cursor = ([], [])"
  | rs nx w' where "search_page E w orgID q inboxID limit cursor = (rs, nx)" "keywordSearch orgID q inboxID limit cursor E w = (Inr (rs, nx), w')"
  by (cases "keywordSearch orgID q inboxID limit cursor E w"; cases "fst (keywordSearch orgID q inboxID limit cursor E w)")
    (auto simp: search_page_def)

text \<open>From a cursor on, only older messages are shown.\<close>

lemma walk_older:
  assumes E: "cursor_codec E" "cast_time E [] = None" and "0 < limit"
    and "cursor_parts cursor = Inr parts" "cursor_key E parts = Inr (Some c)"
    and "walk n (search_page E w orgID q inboxID limit) cursor = Some all"
  shows "list_all (found (w_db w) orgID inboxID (Some c)) all"
  using assms(4-)
proof (induction n arbitrary: cursor parts c all)
  case (Suc n)
  show ?case
  proof (cases rule: search_page_cases [of E w orgID q inboxID limit cursor])
    case 1
    with Suc.prems(3) show ?thesis by simp
  next
    case (2 rs nx w')
    from 2(2) Suc.prems(1,2) have p: "list_all (found (w_db w) orgID inboxID (Some c)) rs"
      and nxt: "nx = [] \<or> nx = result_cursor E (last rs) \<and> rs \<noteq> []"
      using \<open>0 < limit\<close> by (auto elim!: keywordSearch_page simp: page_ok_def)
    show ?thesis
    proof (cases "nx = []")
      case True
      with 2(1) Suc.prems(3) p show ?thesis by simp
    next
      case False
      with 2(1) Suc.prems(3) obtain rest where rest: "walk n (search_page E w orgID q inboxID limit) nx = Some rest" "all = rs @ rest"
        by auto
      from False nxt p have last: "nx = result_cursor E (last rs)" "found (w_db w) orgID inboxID (Some c) (last rs)"
        by (auto simp: list_all_iff)
      show ?thesis
      proof (cases "result_time (last rs)")
        case None
        have "\<exists>e. fst (keywordSearch orgID q inboxID limit nx E w) = Inl e"
          unfolding last(1) using E None by (intro untimed_cursor) (auto simp: cursor_codec_def)
        then have "search_page E w orgID q inboxID limit nx = ([], [])" by (auto simp: search_page_def)
        with rest p show ?thesis by (cases n) auto
      next
        case (Some t)
        have "list_all (found (w_db w) orgID inboxID (Some (t, sx_MessageID (last rs)))) rest"
          by (rule Suc.IH [OF _ _ rest(1)]) (unfold last(1), rule timed_cursor [OF E(1) Some], rule timed_cursor(2) [OF E(1) Some])
        moreover have "(t, sx_MessageID (last rs)) < c" using found_time [OF last(2) Some] by simp
        ultimately have "list_all (found (w_db w) orgID inboxID (Some c)) rest" by (auto simp: list_all_iff intro: found_trans)
        with p rest(2) show ?thesis by simp
      qed
    qed
  qed
qed simp

text \<open>C25. Following the cursors of a keyword search loses results.  The pages are ordered by rank, but the cursor only says
  how old the next results must be: a match that is newer than the last result of the first page and not on that page,
  because its rank is lower, appears on no page.\<close>

theorem search_loses_matches:
  assumes "cursor_codec E" and "cast_time E [] = None" and "0 < limit"
    and first: "keywordSearch orgID q inboxID limit [] E w = (Inr (rs, nx), w')" and "nx \<noteq> []"
    and "m \<in> set (t_messages (w_db w))" and "se_matches (search_lib E) q (message_text m)" and "in_scope orgID inboxID None m"
    and "mr_id m \<notin> set (map sx_MessageID rs)" and ids: "distinct (map mr_id (t_messages (w_db w)))"
    and newer: "case result_time (last rs) of None \<Rightarrow> True | Some t \<Rightarrow> (t, sx_MessageID (last rs)) < (message_time m, mr_id m)"
    and walk: "walk n (search_page E w orgID q inboxID limit) [] = Some all"
  shows "mr_id m \<notin> set (map sx_MessageID all)"
proof -
  have page: "search_page E w orgID q inboxID limit [] = (rs, nx)" by (simp add: search_page_def first)
  from walk obtain k where "n = Suc k" by (cases n) auto
  with walk page \<open>nx \<noteq> []\<close> obtain rest where rest: "walk k (search_page E w orgID q inboxID limit) nx = Some rest" "all = rs @ rest"
    by auto
  have nx: "nx = result_cursor E (last rs)"
    using first \<open>nx \<noteq> []\<close> by (auto elim!: keywordSearch_page simp: page_ok_def)
  have "mr_id m \<notin> set (map sx_MessageID rest)"
  proof (cases "result_time (last rs)")
    case None
    have "\<exists>e. fst (keywordSearch orgID q inboxID limit nx E w) = Inl e"
      unfolding nx using assms(1,2) None by (intro untimed_cursor) (auto simp: cursor_codec_def)
    then have "search_page E w orgID q inboxID limit nx = ([], [])" by (auto simp: search_page_def)
    with rest(1) show ?thesis by (cases k) auto
  next
    case (Some t)
    have "list_all (found (w_db w) orgID inboxID (Some (t, sx_MessageID (last rs)))) rest"
      using rest(1) unfolding nx
      by (rule walk_older [OF assms(1-3) timed_cursor(1) [OF assms(1) Some] timed_cursor(2) [OF assms(1) Some]])
    moreover have "\<not> found (w_db w) orgID inboxID (Some (t, sx_MessageID (last rs))) x" if "sx_MessageID x = mr_id m" for x
    proof
      assume "found (w_db w) orgID inboxID (Some (t, sx_MessageID (last rs))) x"
      with that obtain r where "r \<in> set (t_messages (w_db w))" "(message_time r, mr_id r) < (t, sx_MessageID (last rs))" "mr_id r = mr_id m"
        unfolding found_def in_scope_def by (metis option.simps(5) search_row_sel(1))
      with ids \<open>m \<in> set (t_messages (w_db w))\<close> have "r = m" by (auto simp: distinct_map dest: inj_onD)
      with \<open>(message_time r, mr_id r) < _\<close> newer Some show False by (auto dest: order.strict_trans)
    qed
    ultimately show ?thesis unfolding list_all_iff by (metis (no_types, lifting) in_set_conv_nth length_map nth_map)
  qed
  with rest(2) assms show ?thesis by simp
qed

definition search_env :: env where
  "search_env = demo_env\<lparr>fmt_time := (\<lambda>t. CHR ''T'' # unary_int t),
     cast_time := (\<lambda>s. case s of [] \<Rightarrow> None | _ # r \<Rightarrow> read_unary_int r)\<rparr>"

text \<open>Two matches, of which the newer one has the lower rank.\<close>

definition search_world :: world where
  "search_world = demo_world\<lparr>w_db := demo_db\<lparr>t_messages := [demo_message\<lparr>mr_subject := ''hi again''\<rparr>,
     demo_message\<lparr>mr_id := 10, mr_received_at := Some 5\<rparr>]\<rparr>\<rparr>"

lemma search_codec: "cursor_codec search_env" "cast_time search_env [] = None"
  using demo_codec by (auto simp: cursor_codec_def search_env_def demo_env_def unary_int_def)

theorem search_loses_matches_witness:
  "\<exists>all. walk 2 (search_page search_env search_world 1 ''hi'' None 1) [] = Some all \<and> map sx_MessageID all = [9] \<and>
     10 \<notin> set (map sx_MessageID all) \<and> se_matches (search_lib search_env) ''hi'' (message_text (demo_message\<lparr>mr_id := 10, mr_received_at := Some 5\<rparr>))"
proof -
  let ?all = "fst (search_page search_env search_world 1 ''hi'' None 1 [])" and ?m = "demo_message\<lparr>mr_id := 10, mr_received_at := Some 5\<rparr>"
  have w: "walk 2 (search_page search_env search_world 1 ''hi'' None 1) [] = Some ?all" "map sx_MessageID ?all = [9]" by code_simp+
  let ?run = "keywordSearch 1 ''hi'' None 1 [] search_env search_world" and ?nx = "snd (search_page search_env search_world 1 ''hi'' None 1 [])"
  have "fst ?run = Inr (?all, ?nx)" and ne: "?nx \<noteq> []" by code_simp+
  then have run: "?run = (Inr (?all, ?nx), snd ?run)" by (metis prod.collapse)
  have "mr_id ?m \<notin> set (map sx_MessageID ?all)"
    by (rule search_loses_matches [OF search_codec _ run ne _ _ _ _ _ _ w(1)]) code_simp+
  with w show ?thesis by (intro exI [of _ ?all]) (simp; code_simp)
qed

text \<open>Where a page ends with a message that was neither received nor sent, such as a mail that is still being sent or that
  failed, the cursor it comes with is refused: the next request fails.\<close>

lemma search_cursor_breaks:
  assumes "keywordSearch orgID q inboxID limit cursor E w = (Inr (rs, nx), w')" and "nx \<noteq> []" and "result_time (last rs) = None"
    and "cast_time E [] = None" and "\<And>u. CHR ''|'' \<notin> set (fmt_uuid E u)"
  shows "\<exists>e. fst (keywordSearch orgID q inboxID limit nx E w2) = Inl e"
proof -
  from assms(1,2) have "nx = result_cursor E (last rs)" by (auto elim!: keywordSearch_page simp: page_ok_def)
  with untimed_cursor [OF assms(5,4,3)] show ?thesis by simp
qed

lemma search_cursor_breaks_at_demo:
  "\<exists>rs nx. search_page search_env (search_world\<lparr>w_db := demo_db\<lparr>t_messages := [demo_message\<lparr>mr_received_at := None\<rparr>,
       demo_message\<lparr>mr_id := 10, mr_received_at := None\<rparr>]\<rparr>\<rparr>) 1 ''hi'' None 1 [] = (rs, nx) \<and> length rs = 1 \<and>
     (\<exists>e. fst (keywordSearch 1 ''hi'' None 1 nx search_env demo_world) = Inl e)"
proof -
  let ?w = "search_world\<lparr>w_db := demo_db\<lparr>t_messages := [demo_message\<lparr>mr_received_at := None\<rparr>, demo_message\<lparr>mr_id := 10, mr_received_at := None\<rparr>]\<rparr>\<rparr>"
  let ?run = "keywordSearch 1 ''hi'' None 1 [] search_env ?w"
  let ?rs = "fst (search_page search_env ?w 1 ''hi'' None 1 [])" and ?nx = "snd (search_page search_env ?w 1 ''hi'' None 1 [])"
  have "fst ?run = Inr (?rs, ?nx)" and ne: "?nx \<noteq> []" and one: "length ?rs = 1" and t: "result_time (last ?rs) = None" by code_simp+
  then have run: "?run = (Inr (?rs, ?nx), snd ?run)" by (metis prod.collapse)
  have "CHR ''|'' \<notin> set (fmt_uuid search_env u)" for u using search_codec(1) by (simp add: cursor_codec_def)
  from search_cursor_breaks [OF run ne t search_codec(2) this, of demo_world] one
  show ?thesis by (intro exI [of _ ?rs] exI [of _ ?nx]) simp
qed

end
