(* ===== verification/Orgs.thy ===== *)
theory Orgs
  imports Requests Inbox_Store Footprints
begin

text \<open>
  \<open>lambdas/orgs/main.go\<close>: the administration of an organisation and its pods, over the tables organizations
  and pods (migrations 1 and 2; 3, 8, 10 and 12 for what the deletion of a pod does to the tables that refer to it).
\<close>

section \<open>Statements\<close>

definition org_select :: "uuid \<Rightarrow> organization stmt" where
  "org_select orgID = query_row (\<lambda>d. filter (\<lambda>r. o_ID r = orgID) (t_organizations d))"

text \<open>The number of rows is the result; the update trigger overrides the time of the statement.\<close>

definition org_rename :: "uuid \<Rightarrow> string \<Rightarrow> nat stmt" where
  "org_rename orgID name now d = Inr (length (filter (\<lambda>r. o_ID r = orgID) (t_organizations d)),
     d\<lparr>t_organizations := upd_where (\<lambda>r. o_ID r = orgID) (\<lambda>r. r\<lparr>o_Name := name, o_UpdatedAt := now\<rparr>) (t_organizations d)\<rparr>)"

definition pod_hit :: "uuid \<Rightarrow> uuid \<Rightarrow> pod \<Rightarrow> bool" where
  "pod_hit orgID podID r = (p_OrgID r = orgID \<and> p_ID r = podID)"

definition pod_select :: "uuid \<Rightarrow> uuid \<Rightarrow> pod stmt" where
  "pod_select orgID podID = query_row (\<lambda>d. filter (pod_hit orgID podID) (t_pods d))"

definition pod_insert :: "pod \<Rightarrow> unit stmt" where
  "pod_insert p now d = require
     [(\<not> has_key p_ID (p_ID p) (t_pods d), ''23505''),
      (\<not> has_key (\<lambda>r. (p_OrgID r, p_Slug r)) (p_OrgID p, p_Slug p) (t_pods d), ''23505''),
      (has_key o_ID (p_OrgID p) (t_organizations d), ''23503'')]
     ((), d\<lparr>t_pods := t_pods d @ [p]\<rparr>)"

definition pod_set :: "string \<Rightarrow> string \<Rightarrow> json_map option \<Rightarrow> time \<Rightarrow> pod \<Rightarrow> pod" where
  "pod_set name desc settings now r = r
     \<lparr>p_Name := name, p_Description := desc, p_Settings := supplied settings (p_Settings r), p_UpdatedAt := now\<rparr>"

definition pod_update :: "uuid \<Rightarrow> uuid \<Rightarrow> string \<Rightarrow> string \<Rightarrow> json_map option \<Rightarrow> unit stmt" where
  "pod_update orgID podID name desc settings now d =
     Inr ((), d\<lparr>t_pods := upd_where (pod_hit orgID podID) (pod_set name desc settings now) (t_pods d)\<rparr>)"

text \<open>What refers to a deleted pod: inboxes, API keys and webhooks lose the reference (ON DELETE SET NULL), with the
  update trigger where the table has one; domains go with it (ON DELETE CASCADE).\<close>

definition pod_cascade :: "(uuid \<Rightarrow> bool) \<Rightarrow> time \<Rightarrow> database \<Rightarrow> database" where
  "pod_cascade gone now d =
     d\<lparr>t_inboxes := upd_where (\<lambda>r. refers gone (ib_PodID r)) (\<lambda>r. r\<lparr>ib_PodID := None, ib_UpdatedAt := now\<rparr>) (t_inboxes d),
       t_api_keys := upd_where (\<lambda>r. refers gone (k_PodID r)) (\<lambda>r. r\<lparr>k_PodID := None\<rparr>) (t_api_keys d),
       t_webhooks := upd_where (\<lambda>r. refers gone (wh_PodID r)) (\<lambda>r. r\<lparr>wh_PodID := None, wh_UpdatedAt := now\<rparr>) (t_webhooks d),
       t_domain_configs := del_where (\<lambda>r. refers gone (dc_PodID r)) (t_domain_configs d)\<rparr>"

definition pod_delete :: "uuid \<Rightarrow> uuid \<Rightarrow> nat stmt" where
  "pod_delete orgID podID now d =
     (let gone = filter (pod_hit orgID podID) (t_pods d)
      in Inr (length gone, (pod_cascade (\<lambda>i. i \<in> set (map p_ID gone)) now d)\<lparr>t_pods := del_where (pod_hit orgID podID) (t_pods d)\<rparr>))"

section \<open>The store functions\<close>

text \<open>\<open>if IsNotFound(err) { return fmt.Errorf(missing) }; return fmt.Errorf(p + ": %w", err)\<close>\<close>

definition found_or :: "string \<Rightarrow> string \<Rightarrow> 'a io \<Rightarrow> 'a io" where
  "found_or missing p m =
     go_bind (attempt m) (\<lambda>r. case r of
       Inl e \<Rightarrow> if IsNotFound e then throw (Errorf missing) else throw (Wrap p e)
     | Inr x \<Rightarrow> ret x)"

definition fetchOrg :: "uuid \<Rightarrow> organization io" where
  "fetchOrg orgID = found_or ''organization not found'' ''get organization'' (pool_exec (org_select orgID))"

definition updateOrg :: "uuid \<Rightarrow> string \<Rightarrow> organization io" where
  "updateOrg orgID name =
     go_bind time_Now (\<lambda>_.
     go_bind (wrap_err ''update organization'' (pool_exec (org_rename orgID name))) (\<lambda>n.
     go_bind (fail_if (n = 0) (Errorf ''organization not found'')) (\<lambda>_.
     fetchOrg orgID)))"

definition fetchPods :: "uuid \<Rightarrow> pod list io" where
  "fetchPods orgID = WithOrgTx orgID (wrap_err ''list pods''
     (tx_exec (query (\<lambda>d. order_asc p_CreatedAt (filter (\<lambda>r. p_OrgID r = orgID) (t_pods d))))))"

definition insertPod :: "pod \<Rightarrow> unit io" where
  "insertPod pod = wrap_err ''insert pod'' (pool_exec (pod_insert pod))"

definition fetchPod :: "uuid \<Rightarrow> uuid \<Rightarrow> pod io" where
  "fetchPod orgID podID = found_or ''pod not found'' ''get pod'' (WithOrgTx orgID (tx_exec (pod_select orgID podID)))"

definition updatePod :: "uuid \<Rightarrow> uuid \<Rightarrow> string \<Rightarrow> string \<Rightarrow> json_map option \<Rightarrow> pod io" where
  "updatePod orgID podID name desc settings =
     go_bind time_Now (\<lambda>_.
     go_bind (wrap_err ''update pod'' (WithOrgTx orgID (tx_exec (pod_update orgID podID name desc settings)))) (\<lambda>_.
     fetchPod orgID podID))"

definition removePod :: "uuid \<Rightarrow> uuid \<Rightarrow> unit io" where
  "removePod orgID podID =
     go_bind (wrap_err ''delete pod'' (pool_exec (pod_delete orgID podID))) (\<lambda>n.
     fail_if (n = 0) (Errorf ''pod not found''))"

section \<open>The handler\<close>

text \<open>\<open>if strings.Contains(err.Error(), "not found") { return 404 }; return 500\<close>\<close>

definition missing_or_500 :: "string \<Rightarrow> string \<Rightarrow> go_error \<Rightarrow> handler" where
  "missing_or_500 missing failed e = (\<lambda>E w.
     (if contains (err_text E e) ''not found'' then Error 404 missing else Error 500 failed, w))"

record org_request =
  or_Name :: string

definition dec_org :: "env \<Rightarrow> json \<Rightarrow> org_request \<Rightarrow> org_request option" where
  "dec_org E = dec_struct (\<lambda>name v r.
     if name = ''name'' then map_option (\<lambda>x. r\<lparr>or_Name := x\<rparr>) (dec_string v (or_Name r)) else Some r)"

record create_pod_request =
  cp_Name :: string
  cp_Slug :: string
  cp_Description :: string

definition dec_create_pod :: "env \<Rightarrow> json \<Rightarrow> create_pod_request \<Rightarrow> create_pod_request option" where
  "dec_create_pod E = dec_struct (\<lambda>name v r.
     if name = ''name'' then map_option (\<lambda>x. r\<lparr>cp_Name := x\<rparr>) (dec_string v (cp_Name r))
     else if name = ''slug'' then map_option (\<lambda>x. r\<lparr>cp_Slug := x\<rparr>) (dec_string v (cp_Slug r))
     else if name = ''description'' then map_option (\<lambda>x. r\<lparr>cp_Description := x\<rparr>) (dec_string v (cp_Description r))
     else Some r)"

record patch_pod_request =
  pp_Name :: string
  pp_Description :: string
  pp_Settings :: "json_map option"

definition dec_patch_pod :: "env \<Rightarrow> json \<Rightarrow> patch_pod_request \<Rightarrow> patch_pod_request option" where
  "dec_patch_pod E = dec_struct (\<lambda>name v r.
     if name = ''name'' then map_option (\<lambda>x. r\<lparr>pp_Name := x\<rparr>) (dec_string v (pp_Name r))
     else if name = ''description'' then map_option (\<lambda>x. r\<lparr>pp_Description := x\<rparr>) (dec_string v (pp_Description r))
     else if name = ''settings'' then map_option (\<lambda>x. r\<lparr>pp_Settings := x\<rparr>) (dec_map v)
     else Some r)"

text \<open>\<open>if err := shared.Decode(event, &req); err != nil || missing(req) { return 400 }\<close>\<close>

definition with_required :: "(env \<Rightarrow> json \<Rightarrow> 'r \<Rightarrow> 'r option) \<Rightarrow> request \<Rightarrow> 'r \<Rightarrow> ('r \<Rightarrow> bool) \<Rightarrow> string \<Rightarrow> ('r \<Rightarrow> handler) \<Rightarrow> handler" where
  "with_required d event zero missing what h = (\<lambda>E w. case Decode (d E) event zero of
       None \<Rightarrow> (Error 400 what, w)
     | Some r \<Rightarrow> if missing r then (Error 400 what, w) else h r E w)"

definition slug_char :: "char \<Rightarrow> bool" where
  "slug_char ch = (CHR ''a'' \<le> ch \<and> ch \<le> CHR ''z'' \<or> is_digit ch \<or> ch = CHR ''-'')"

definition slugRe :: "string \<Rightarrow> bool" where
  "slugRe s = (s \<noteq> [] \<and> list_all slug_char s)"

definition getOrg :: "claims \<Rightarrow> handler" where
  "getOrg c = handle (fetchOrg (cl_OrgID c)) (missing_or_500 ''organization not found'' ''failed to get organization'')
     (\<lambda>org. respond (JSON 200 (VOrganization org)))"

definition patchOrg :: "request \<Rightarrow> claims \<Rightarrow> handler" where
  "patchOrg event c = with_required dec_org event \<lparr>or_Name = []\<rparr> (\<lambda>r. or_Name r = []) ''name is required'' (\<lambda>req.
     handle (updateOrg (cl_OrgID c) (or_Name req)) (missing_or_500 ''organization not found'' ''failed to update organization'')
       (\<lambda>org. respond (JSON 200 (VOrganization org))))"

definition listPods :: "claims \<Rightarrow> handler" where
  "listPods c = handle (fetchPods (cl_OrgID c)) (\<lambda>_. respond (Error 500 ''failed to list pods'')) (\<lambda>pods. respond (JSON 200 (VPods pods)))"

definition new_pod :: "claims \<Rightarrow> create_pod_request \<Rightarrow> pod io" where
  "new_pod c req =
     go_bind uuid_New (\<lambda>i. go_bind time_Now (\<lambda>created. go_bind time_Now (\<lambda>updated.
     ret \<lparr>p_ID = i, p_OrgID = cl_OrgID c, p_Name = cp_Name req, p_Slug = cp_Slug req, p_Description = cp_Description req,
          p_Settings = [], p_CreatedAt = created, p_UpdatedAt = updated\<rparr>)))"

definition createPod :: "request \<Rightarrow> claims \<Rightarrow> handler" where
  "createPod event c =
     with_required dec_create_pod event \<lparr>cp_Name = [], cp_Slug = [], cp_Description = []\<rparr>
       (\<lambda>r. cp_Name r = [] \<or> cp_Slug r = []) ''name and slug are required'' (\<lambda>req.
     if \<not> slugRe (cp_Slug req) then respond (Error 400 ''slug must match ^[a-z0-9-]+$'')
     else handle (go_bind (new_pod c req) (\<lambda>pod. go_bind (insertPod pod) (\<lambda>_. ret pod)))
       (\<lambda>e. if IsDuplicateKey e then respond (Error 409 ''pod with this slug already exists'')
            else respond (Error 500 ''failed to create pod''))
       (\<lambda>pod. respond (JSON 201 (VPod pod))))"

definition with_pod_id :: "request \<Rightarrow> (uuid \<Rightarrow> handler) \<Rightarrow> handler" where
  "with_pod_id event h = (\<lambda>E w. case ParseUUID E (PathParam event ''podId'') of
       None \<Rightarrow> (Error 400 ''invalid pod ID'', w) | Some podID \<Rightarrow> h podID E w)"

definition getPod :: "request \<Rightarrow> claims \<Rightarrow> handler" where
  "getPod event c = with_pod_id event (\<lambda>podID.
     handle (fetchPod (cl_OrgID c) podID) (missing_or_500 ''pod not found'' ''failed to get pod'') (\<lambda>pod. respond (JSON 200 (VPod pod))))"

definition patchPod :: "request \<Rightarrow> claims \<Rightarrow> handler" where
  "patchPod event c = with_pod_id event (\<lambda>podID.
     with_required dec_patch_pod event \<lparr>pp_Name = [], pp_Description = [], pp_Settings = None\<rparr> (\<lambda>r. pp_Name r = [])
       ''name is required'' (\<lambda>req.
     handle (updatePod (cl_OrgID c) podID (pp_Name req) (pp_Description req) (pp_Settings req))
       (missing_or_500 ''pod not found'' ''failed to update pod'') (\<lambda>pod. respond (JSON 200 (VPod pod)))))"

definition deletePod :: "request \<Rightarrow> claims \<Rightarrow> handler" where
  "deletePod event c = with_pod_id event (\<lambda>podID.
     handle (removePod (cl_OrgID c) podID) (missing_or_500 ''pod not found'' ''failed to delete pod'') (\<lambda>_. respond NoContent))"

definition orgs_handler :: "request \<Rightarrow> handler" where
  "orgs_handler event = with_claims event (\<lambda>c. require_scope c ScopeOrgAdmin
     (if rq_HTTPMethod event = ''GET'' \<and> rq_Resource event = ''/v1/org'' then getOrg c
      else if rq_HTTPMethod event = ''PATCH'' \<and> rq_Resource event = ''/v1/org'' then patchOrg event c
      else if rq_HTTPMethod event = ''GET'' \<and> rq_Resource event = ''/v1/pods'' then listPods c
      else if rq_HTTPMethod event = ''POST'' \<and> rq_Resource event = ''/v1/pods'' then createPod event c
      else if rq_HTTPMethod event = ''GET'' \<and> rq_Resource event = ''/v1/pods/{podId}'' then getPod event c
      else if rq_HTTPMethod event = ''PATCH'' \<and> rq_Resource event = ''/v1/pods/{podId}'' then patchPod event c
      else if rq_HTTPMethod event = ''DELETE'' \<and> rq_Resource event = ''/v1/pods/{podId}'' then deletePod event c
      else respond (Error 404 ''not found'')))"

end
