(* ===== verification/Keys.thy ===== *)
theory Keys
  imports Orgs Crypto
begin

text \<open>
  \<open>lambdas/auth/main.go\<close> and \<open>pkg/models/apikey.go\<close>: the API keys of an organisation (migration 8).
\<close>

section \<open>models/apikey.go\<close>

definition IsRevoked :: "api_key \<Rightarrow> bool" where
  "IsRevoked k = (k_RevokedAt k \<noteq> None)"

definition IsExpired :: "time \<Rightarrow> api_key \<Rightarrow> bool" where
  "IsExpired now k = (case k_ExpiresAt k of None \<Rightarrow> False | Some t \<Rightarrow> t < now)"

definition IsValid :: "time \<Rightarrow> api_key \<Rightarrow> bool" where
  "IsValid now k = (\<not> IsRevoked k \<and> \<not> IsExpired now k)"

definition Masked :: "api_key \<Rightarrow> string" where
  "Masked k = k_KeyPrefix k @ ''...''"

section \<open>Statements\<close>

text \<open>A nil slice of scopes is NULL, which the column does not take.\<close>

definition key_insert :: "api_key \<Rightarrow> string list option \<Rightarrow> api_key stmt" where
  "key_insert k scopes now d = require
     [(scopes \<noteq> None, ''23502''),
      (\<not> has_key k_ID (k_ID k) (t_api_keys d), ''23505''),
      (\<not> has_key k_KeyHash (k_KeyHash k) (t_api_keys d), ''23505''),
      (has_key o_ID (k_OrgID k) (t_organizations d), ''23503''),
      (case k_PodID k of None \<Rightarrow> True | Some p \<Rightarrow> has_key p_ID p (t_pods d), ''23503'')]
     (k\<lparr>k_Scopes := or_empty scopes\<rparr>, d\<lparr>t_api_keys := t_api_keys d @ [k\<lparr>k_Scopes := or_empty scopes\<rparr>]\<rparr>)"

definition key_hit :: "uuid \<Rightarrow> uuid \<Rightarrow> api_key \<Rightarrow> bool" where
  "key_hit orgID keyID r = (k_ID r = keyID \<and> k_OrgID r = orgID \<and> k_RevokedAt r = None)"

definition key_select :: "uuid \<Rightarrow> uuid \<Rightarrow> api_key stmt" where
  "key_select orgID keyID = query_row (\<lambda>d. filter (key_hit orgID keyID) (t_api_keys d))"

definition key_revoke :: "uuid \<Rightarrow> uuid \<Rightarrow> nat stmt" where
  "key_revoke orgID keyID now d = Inr (length (filter (key_hit orgID keyID) (t_api_keys d)),
     d\<lparr>t_api_keys := upd_where (key_hit orgID keyID) (\<lambda>r. r\<lparr>k_RevokedAt := Some now\<rparr>) (t_api_keys d)\<rparr>)"

definition key_page_where :: "uuid \<Rightarrow> api_key \<Rightarrow> bool" where
  "key_page_where orgID r = (k_OrgID r = orgID \<and> k_RevokedAt r = None)"

definition key_page :: "env \<Rightarrow> uuid \<Rightarrow> nat \<Rightarrow> (string \<times> string) option \<Rightarrow> api_key list stmt" where
  "key_page E orgID n parts now d =
     (case cursor_key E parts of
        Inl e \<Rightarrow> Inl e
      | Inr after \<Rightarrow> Inr (keyset_select_desc (\<lambda>r. (k_CreatedAt r, k_ID r)) (key_page_where orgID) n after (t_api_keys d), d))"

section \<open>The store functions\<close>

definition fetchKeys :: "uuid \<Rightarrow> int \<Rightarrow> string \<Rightarrow> (api_key list \<times> string) io" where
  "fetchKeys orgID limit cursor =
     (let limit = nat (ClampLimit limit)
      in case cursor_parts cursor of
           Inl e \<Rightarrow> throw e
         | Inr parts \<Rightarrow>
             go_bind (asks (\<lambda>E. E)) (\<lambda>E.
             go_bind (WithOrgTx orgID (wrap_err ''list api keys'' (tx_exec (key_page E orgID (Suc limit) parts)))) (\<lambda>rows.
             ret (cut_page limit (\<lambda>k. row_cursor E (k_CreatedAt k) (k_ID k)) rows))))"

text \<open>\<open>GenerateAPIKey\<close> with the process's random source.\<close>

definition generate_key :: "(string \<times> string \<times> string) io" where
  "generate_key =
     go_bind (attempt (rand_Read 32)) (\<lambda>rnd. go_bind (asks sha256_sum) (\<lambda>sha256.
     case GenerateAPIKey sha256 rnd of Inl e \<Rightarrow> throw e | Inr k \<Rightarrow> ret k))"

definition insertKey :: "uuid \<Rightarrow> string \<Rightarrow> string list option \<Rightarrow> uuid option \<Rightarrow> time option \<Rightarrow> (api_key \<times> string) io" where
  "insertKey orgID name scopes podID expiresAt =
     go_bind (wrap_err ''generate api key'' generate_key) (\<lambda>(plaintext, keyHash, displayPrefix).
     go_bind uuid_New (\<lambda>i. go_bind time_Now (\<lambda>now.
     let key = \<lparr>k_ID = i, k_OrgID = orgID, k_Name = name, k_KeyPrefix = displayPrefix, k_KeyHash = keyHash, k_Scopes = [],
                k_PodID = podID, k_LastUsedAt = None, k_ExpiresAt = expiresAt, k_RevokedAt = None, k_CreatedAt = now\<rparr> in
     go_bind (wrap_err ''insert api key'' (pool_exec (key_insert key scopes))) (\<lambda>key.
     ret (key, plaintext)))))"

definition fetchKey :: "uuid \<Rightarrow> uuid \<Rightarrow> api_key io" where
  "fetchKey orgID keyID = WithOrgTx orgID (found_or ''api key not found'' ''get api key'' (tx_exec (key_select orgID keyID)))"

definition revokeKey :: "uuid \<Rightarrow> uuid \<Rightarrow> unit io" where
  "revokeKey orgID keyID = WithOrgTx orgID
     (go_bind (wrap_err ''revoke api key'' (tx_exec (key_revoke orgID keyID))) (\<lambda>n.
      fail_if (n = 0) (Errorf ''api key not found or already revoked'')))"

section \<open>The handler\<close>

record create_key_request =
  ck_Name :: string
  ck_Scopes :: "string list option"
  ck_PodID :: "uuid option"
  ck_ExpiresAt :: "time option"

definition dec_create_key :: "env \<Rightarrow> json \<Rightarrow> create_key_request \<Rightarrow> create_key_request option" where
  "dec_create_key E = dec_struct (\<lambda>name v r.
     if name = ''name'' then map_option (\<lambda>x. r\<lparr>ck_Name := x\<rparr>) (dec_string v (ck_Name r))
     else if name = ''scopes'' then map_option (\<lambda>x. r\<lparr>ck_Scopes := x\<rparr>) (dec_slice dec_string [] v)
     else if name = ''pod_id'' then map_option (\<lambda>x. r\<lparr>ck_PodID := x\<rparr>) (dec_ptr (dec_uuid E) uuid_Nil v (ck_PodID r))
     else if name = ''expires_at'' then map_option (\<lambda>x. r\<lparr>ck_ExpiresAt := x\<rparr>) (dec_ptr (dec_time E) zero_time v (ck_ExpiresAt r))
     else Some r)"

definition zero_create_key :: create_key_request where
  "zero_create_key = \<lparr>ck_Name = [], ck_Scopes = None, ck_PodID = None, ck_ExpiresAt = None\<rparr>"

definition keys_cursor_error :: "go_error \<Rightarrow> handler" where
  "keys_cursor_error e = (\<lambda>E w.
     (if contains (err_text E e) ''invalid cursor'' then Error 400 ''invalid cursor'' else Error 500 ''failed to list keys'', w))"

definition listKeys :: "request \<Rightarrow> claims \<Rightarrow> handler" where
  "listKeys event c =
     handle (fetchKeys (cl_OrgID c) (query_limit event) (map_get (rq_QueryStringParameters event) ''cursor'')) keys_cursor_error
       (\<lambda>(keys, nextCursor). respond (JSON 200 (VKeys (map key_json keys) nextCursor)))"

definition createKey :: "request \<Rightarrow> claims \<Rightarrow> handler" where
  "createKey event c =
     with_required dec_create_key event zero_create_key (\<lambda>r. ck_Name r = []) ''name is required'' (\<lambda>req.
     handle (insertKey (cl_OrgID c) (ck_Name req) (ck_Scopes req) (ck_PodID req) (ck_ExpiresAt req))
       (\<lambda>_. respond (Error 500 ''failed to create key''))
       (\<lambda>(key, plaintext). respond (JSON 201 (VNewKey (key_json key) plaintext))))"

definition with_key_id :: "request \<Rightarrow> (uuid \<Rightarrow> handler) \<Rightarrow> handler" where
  "with_key_id event h = (\<lambda>E w. case ParseUUID E (PathParam event ''keyId'') of
       None \<Rightarrow> (Error 400 ''invalid key ID'', w) | Some keyID \<Rightarrow> h keyID E w)"

definition getKey :: "request \<Rightarrow> claims \<Rightarrow> handler" where
  "getKey event c = with_key_id event (\<lambda>keyID.
     handle (fetchKey (cl_OrgID c) keyID) (missing_or_500 ''key not found'' ''failed to get key'')
       (\<lambda>key. respond (JSON 200 (VKey (key_json key)))))"

definition deleteKey :: "request \<Rightarrow> claims \<Rightarrow> handler" where
  "deleteKey event c = with_key_id event (\<lambda>keyID.
     handle (revokeKey (cl_OrgID c) keyID) (missing_or_500 ''key not found or already revoked'' ''failed to revoke key'')
       (\<lambda>_. respond NoContent))"

definition keys_handler :: "request \<Rightarrow> handler" where
  "keys_handler event = with_claims event (\<lambda>c. require_scope c ScopeOrgAdmin
     (if rq_HTTPMethod event = ''GET'' \<and> rq_Resource event = ''/v1/keys'' then listKeys event c
      else if rq_HTTPMethod event = ''POST'' \<and> rq_Resource event = ''/v1/keys'' then createKey event c
      else if rq_HTTPMethod event = ''GET'' \<and> rq_Resource event = ''/v1/keys/{keyId}'' then getKey event c
      else if rq_HTTPMethod event = ''DELETE'' \<and> rq_Resource event = ''/v1/keys/{keyId}'' then deleteKey event c
      else respond (Error 404 ''not found'')))"

end
