(* ===== verification/License.thy ===== *)
theory License
  imports Keys
begin

text \<open>
  \<open>lambdas/authorizer/license.go\<close> and \<open>lambdas/license_refresh/main.go\<close>: the licence token that a deployment
  keeps in the parameter store, its check on every request and its daily renewal.  Parsing and verifying a token is
  the JWT library's business.
\<close>

section \<open>license.go\<close>

text \<open>The cache and the cold start flag of an authorizer process.\<close>

record license_state =
  ls_cachedJWT :: string
  ls_cachedExp :: time
  ls_isColdStart :: bool

definition fresh_license_state :: license_state where
  "fresh_license_state = \<lparr>ls_cachedJWT = [], ls_cachedExp = zero_time, ls_isColdStart = True\<rparr>"

definition ssmLicenseTokenPath :: string where
  "ssmLicenseTokenPath = ''/ngx/license-token''"

definition unset_token :: "string \<Rightarrow> bool" where
  "unset_token s = (s = [] \<or> s = ''placeholder'')"

text \<open>The result of the revocation check is logged and has no other effect.\<close>

definition revocationCheck :: "string \<Rightarrow> string \<Rightarrow> unit io" where
  "revocationCheck server jwtStr =
     go_bind (asks (\<lambda>E. E)) (\<lambda>E.
     case url_error E (server @ ''/v1/validate'') of
       Some s \<Rightarrow> throw (Wrap ''build request'' (ExternalError s))
     | None \<Rightarrow>
         go_bind (attempt (http_Do \<lparr>hr_Method = ''POST'', hr_URL = server @ ''/v1/validate'',
             hr_Header = [(''Authorization'', ''Bearer '' @ jwtStr)], hr_Body = []\<rparr>)) (\<lambda>r.
         case r of
           Inl e \<Rightarrow> ret ()
         | Inr (status, body) \<Rightarrow>
             (case validate_reply E body of
                None \<Rightarrow> ret ()
              | Some (valid, reason) \<Rightarrow> fail_if (\<not> valid) (Errorf (''license revoked: '' @ reason)))))"

definition license_token :: "license_state \<Rightarrow> string io" where
  "license_token st =
     go_bind (if ls_cachedJWT st \<noteq> [] then go_bind time_Now (\<lambda>now. ret (now < ls_cachedExp st)) else ret False) (\<lambda>cached.
     if cached then ret (ls_cachedJWT st)
     else go_bind (wrap_err ''license: failed to fetch token from SSM'' (GetParameter ssmLicenseTokenPath)) (\<lambda>jwtStr.
       if unset_token jwtStr then throw (Errorf ''license: deployment not yet configured'') else ret jwtStr))"

definition checkLicense :: "string \<Rightarrow> string \<Rightarrow> license_state \<Rightarrow> (license_claims \<times> license_state) io" where
  "checkLicense server orgID st =
     go_bind (license_token st) (\<lambda>jwtStr.
     go_bind time_Now (\<lambda>now. go_bind (asks (\<lambda>E. jwt_verify E now jwtStr)) (\<lambda>r.
     case r of
       Inl e \<Rightarrow> throw (Wrap ''license: invalid token'' e)
     | Inr cl \<Rightarrow>
         go_bind (fail_if (lc_Plan cl = ''trial_expired'') (Errorf ''license: trial period has expired'')) (\<lambda>_.
         go_bind (fail_if (lc_Plan cl \<noteq> ''trial'' \<and> lc_OrgID cl \<noteq> orgID) (Errorf ''license: org_id mismatch'')) (\<lambda>_.
         go_bind (if ls_isColdStart st \<and> lc_Plan cl \<noteq> ''trial'' then ignore_err (revocationCheck server jwtStr) else ret ()) (\<lambda>_.
         go_bind (if lc_RenewalDue cl > 0 then go_bind time_Now (\<lambda>_. ret ()) else ret ()) (\<lambda>_.
         ret (cl, (case lc_ExpiresAt cl of None \<Rightarrow> st | Some t \<Rightarrow> st\<lparr>ls_cachedJWT := jwtStr, ls_cachedExp := t\<rparr>)
           \<lparr>ls_isColdStart := False\<rparr>))))))))"

section \<open>license\_refresh/main.go\<close>

record refresh_config =
  rc_server :: string
  rc_ssmTokenPath :: string

definition ssmBootstrapOrgIDPath :: string where
  "ssmBootstrapOrgIDPath = ''/ngx/bootstrap-org-id''"

definition trialTokenPath :: string where
  "trialTokenPath = ''/v1/trial/token''"

definition writeSSM :: "refresh_config \<Rightarrow> string \<Rightarrow> unit io" where
  "writeSSM cfg v = PutParameter (rc_ssmTokenPath cfg) v"

definition post :: "(go_error \<Rightarrow> go_error) \<Rightarrow> string \<Rightarrow> (string \<times> string) list \<Rightarrow> string \<Rightarrow> (int \<times> string) io" where
  "post bad_url url headers body =
     go_bind (asks (\<lambda>E. url_error E url)) (\<lambda>bad.
     case bad of
       Some s \<Rightarrow> throw (bad_url (ExternalError s))
     | None \<Rightarrow> http_Do \<lparr>hr_Method = ''POST'', hr_URL = url, hr_Header = headers, hr_Body = body\<rparr>)"

text \<open>The token of an answer with status 402, which says that the trial has expired.\<close>

definition expired_token :: "env \<Rightarrow> string \<Rightarrow> string option" where
  "expired_token E body =
     (case expired_reply E body of
        None \<Rightarrow> None
      | Some (trialExpired, token) \<Rightarrow> if trialExpired \<and> token \<noteq> [] then Some token else None)"

definition some_token :: "string option \<Rightarrow> string option" where
  "some_token r = (case r of None \<Rightarrow> None | Some token \<Rightarrow> if token \<noteq> [] then Some token else None)"

definition handleTrialActivation :: "refresh_config \<Rightarrow> unit io" where
  "handleTrialActivation cfg =
     go_bind (attempt (GetParameter ssmBootstrapOrgIDPath)) (\<lambda>r.
     case r of
       Inl e \<Rightarrow> ret ()
     | Inr orgID \<Rightarrow>
         if orgID = [] then ret ()
         else
           go_bind (post (Wrap ''build trial token request'') (rc_server cfg @ trialTokenPath) [(''Content-Type'', ''application/json'')]
             (''{\"org_id\":'' @ go_quote orgID @ ''}'')) (\<lambda>(status, body).
           go_bind (asks (\<lambda>E. (if status = 402 then expired_token E body else None, some_token (trial_reply E body)))) (\<lambda>(expired, token).
           case expired of
             Some t \<Rightarrow> wrap_err ''write trial_expired to SSM'' (writeSSM cfg t)
           | None \<Rightarrow>
               if status \<noteq> 200 then throw (Errorf ''trial token request returned an error'')
               else (case token of
                   None \<Rightarrow> throw (Errorf ''invalid trial token response'')
                 | Some t \<Rightarrow> wrap_err ''write trial token to SSM'' (writeSSM cfg t)))))"

definition refresh_handler :: "refresh_config \<Rightarrow> unit io" where
  "refresh_handler cfg =
     go_bind (GetParameter (rc_ssmTokenPath cfg)) (\<lambda>currentJWT.
     if unset_token currentJWT then handleTrialActivation cfg
     else
       go_bind (post id (rc_server cfg @ ''/v1/token/renew'')
         [(''Authorization'', ''Bearer '' @ currentJWT), (''Content-Type'', ''application/json'')] []) (\<lambda>(status, body).
       go_bind (asks (\<lambda>E. (expired_token E body, some_token (renew_reply E body)))) (\<lambda>(expired, token).
       if status = 402 then
         (case expired of
            None \<Rightarrow> throw (Errorf ''trial expired but no valid expired token in response'')
          | Some t \<Rightarrow> writeSSM cfg t)
       else if status \<noteq> 200 then throw (Errorf ''license server returned an error'')
       else case token of
         None \<Rightarrow> throw (Errorf ''empty or invalid token in renew response'')
       | Some t \<Rightarrow> writeSSM cfg t)))"

end
