(* ===== verification/Authorizer.thy ===== *)
theory Authorizer
  imports License Demo
begin

text \<open>
  \<open>lambdas/authorizer/main.go\<close>: the authorizer of the API gateway.  It looks the key of a request up by its hash,
  checks the licence of the deployment and passes what it knows about the caller on to the handlers.
\<close>

section \<open>The lookup of a key\<close>

text \<open>\<open>expires_at > NOW()\<close>: at the very instant of its expiry a key is no longer accepted.\<close>

definition key_usable :: "time \<Rightarrow> string \<Rightarrow> api_key \<Rightarrow> bool" where
  "key_usable now hash r = (k_KeyHash r = hash \<and> k_RevokedAt r = None \<and>
     (case k_ExpiresAt r of None \<Rightarrow> True | Some t \<Rightarrow> now < t))"

definition key_lookup :: "string \<Rightarrow> api_key stmt" where
  "key_lookup hash now d = query_row (\<lambda>d. filter (key_usable now hash) (t_api_keys d)) now d"

definition key_touch :: "uuid \<Rightarrow> unit stmt" where
  "key_touch i now d =
     Inr ((), d\<lparr>t_api_keys := upd_where (\<lambda>r. k_ID r = i) (\<lambda>r. r\<lparr>k_LastUsedAt := Some now\<rparr>) (t_api_keys d)\<rparr>)"

text \<open>The claims of a key; plan, features and seat limit come from the licence.\<close>

definition key_claims :: "api_key \<Rightarrow> claims" where
  "key_claims k = \<lparr>cl_OrgID = k_OrgID k, cl_KeyID = k_ID k, cl_Scopes = k_Scopes k, cl_PodID = k_PodID k,
     cl_Plan = [], cl_Features = [], cl_SeatLimit = 0\<rparr>"

definition validateKey :: "string \<Rightarrow> claims io" where
  "validateKey plaintextKey =
     go_bind (asks (\<lambda>E. HashAPIKey (sha256_sum E) plaintextKey)) (\<lambda>hash.
     go_bind (wrap_err ''key not found'' (pool_exec (key_lookup hash))) (\<lambda>k.
     go_bind (ignore_err (pool_exec (key_touch (k_ID k)))) (\<lambda>_.
     ret (key_claims k))))"

section \<open>The handler\<close>

record authorizer_event =
  ae_AuthorizationToken :: string
  ae_MethodArn :: string
  ae_QueryStringParameters :: "(string \<times> string) list"

record authorizer_response =
  az_PrincipalID :: string
  az_Effect :: string
  az_Resource :: "string list"
  az_Context :: "(string \<times> json) list"

definition deny :: "string \<Rightarrow> string \<Rightarrow> authorizer_response" where
  "deny principalID methodArn =
     \<lparr>az_PrincipalID = principalID, az_Effect = ''Deny'', az_Resource = [methodArn], az_Context = []\<rparr>"

definition wildcardArns :: "string \<Rightarrow> string list" where
  "wildcardArns methodArn =
     (case split_on (CHR ''/'') methodArn of
        a # b # _ \<Rightarrow> [a @ ''/'' @ b @ ''/*'', a @ ''/'' @ b @ ''/*/*'']
      | _ \<Rightarrow> [methodArn])"

definition bearer_token :: "authorizer_event \<Rightarrow> string" where
  "bearer_token event =
     (let token = (if ae_AuthorizationToken event = [] then map_get (ae_QueryStringParameters event) ''token''
                   else ae_AuthorizationToken event)
      in if has_prefix token ''Bearer '' then drop (length ''Bearer '') token else token)"

definition grant_context :: "(uuid \<Rightarrow> string) \<Rightarrow> claims \<Rightarrow> license_claims \<Rightarrow> (string \<times> json) list" where
  "grant_context fmt c l =
     [(''org_id'', JStr (fmt (cl_OrgID c))), (''key_id'', JStr (fmt (cl_KeyID c))), (''scopes'', JStr (join '','' (cl_Scopes c))),
      (''plan'', JStr (lc_Plan l)), (''features'', JStr (join '','' (lc_Features l))), (''seat_limit'', JStr (itoa (lc_SeatLimit l)))] @
     (case cl_PodID c of None \<Rightarrow> [] | Some p \<Rightarrow> [(''pod_id'', JStr (fmt p))])"

definition grant :: "(uuid \<Rightarrow> string) \<Rightarrow> string \<Rightarrow> claims \<Rightarrow> license_claims \<Rightarrow> authorizer_response" where
  "grant fmt methodArn c l =
     \<lparr>az_PrincipalID = fmt (cl_KeyID c), az_Effect = ''Allow'', az_Resource = wildcardArns methodArn, az_Context = grant_context fmt c l\<rparr>"

text \<open>The answer and the state of the process for the next request.\<close>

definition authorizer_handler ::
  "string \<Rightarrow> authorizer_event \<Rightarrow> license_state \<Rightarrow> (authorizer_response \<times> license_state) io" where
  "authorizer_handler server event st =
     (let token = bearer_token event; denied = (deny ''anonymous'' (ae_MethodArn event), st) in
      if token = [] then ret denied
      else go_bind (asks fmt_uuid) (\<lambda>fmt.
        go_bind (attempt (validateKey token)) (\<lambda>r. case r of
          Inl e \<Rightarrow> ret denied
        | Inr c \<Rightarrow> go_bind (attempt (checkLicense server (fmt (cl_OrgID c)) st)) (\<lambda>r. case r of
              Inl e \<Rightarrow> ret denied
            | Inr (l, st') \<Rightarrow> ret (grant fmt (ae_MethodArn event) c l, st')))))"

section \<open>From the authorizer to the handlers\<close>

text \<open>Words that a comma-separated list keeps.\<close>

definition plain_word :: "string \<Rightarrow> bool" where
  "plain_word w \<longleftrightarrow> w \<noteq> [] \<and> CHR '','' \<notin> set w \<and> (\<forall>c \<in> set w. \<not> is_space c)"

definition uuid_codec :: "env \<Rightarrow> bool" where
  "uuid_codec E \<longleftrightarrow> (\<forall>u. fmt_uuid E u \<noteq> [] \<and> parse_uuid E (fmt_uuid E u) = Some u)"

lemma grant_extract:
  assumes "uuid_codec E" "rq_Authorizer event = grant_context (fmt_uuid E) c l" "list_all plain_word (cl_Scopes c)"
    "list_all plain_word (lc_Features l)" "in_int64 (lc_SeatLimit l)"
  shows "ExtractClaims E event =
    Inr (c\<lparr>cl_Plan := lc_Plan l, cl_Features := lc_Features l, cl_SeatLimit := lc_SeatLimit l\<rparr>)"
proof -
  have "comma_list (join '','' ws) = ws" if "list_all plain_word ws" for ws
    using that by (intro comma_list_join) (auto simp: list_all_iff plain_word_def)
  note lists = this [OF assms(3)] this [OF assms(4)]
  have codec: "parse_uuid E (fmt_uuid E u) = Some u" "fmt_uuid E u \<noteq> []" for u using assms(1) by (auto simp: uuid_codec_def)
  show ?thesis
    by (cases "cl_PodID c")
      (simp_all add: ExtractClaims_def assms(2) grant_context_def string_at_def codec lists atoi_itoa [OF assms(5)] itoa_not_Nil)
qed

section \<open>Runs of the authorizer\<close>

lemma key_lookup_eq_Inr:
  assumes "key_lookup hash now d = Inr (k, d')"
  shows "d' = d \<and> k \<in> set (t_api_keys d) \<and> key_usable now hash k"
proof -
  have "k \<in> set (filter (key_usable now hash) (t_api_keys d)) \<and> d' = d"
    using assms by (auto simp: key_lookup_def query_row_def first_row_def split: list.splits simp del: set_filter)
  then show ?thesis by simp
qed

lemma key_lookup_unique:
  assumes "k \<in> set (t_api_keys d)" "key_usable now hash k"
    and "\<And>r. r \<in> set (t_api_keys d) \<Longrightarrow> k_KeyHash r = k_KeyHash k \<Longrightarrow> r = k"
  shows "key_lookup hash now d = Inr (k, d)"
proof -
  define rs where "rs = filter (key_usable now hash) (t_api_keys d)"
  have "r = k" if "r \<in> set rs" for r using that assms(2,3) by (simp add: rs_def key_usable_def)
  moreover have "k \<in> set rs" using assms(1,2) by (simp add: rs_def)
  ultimately obtain rest where "rs = k # rest" by (cases rs) auto
  then show ?thesis by (simp add: key_lookup_def query_row_def first_row_def rs_def)
qed

lemma pool_exec_tick: "w_tick (snd (pool_exec st E w)) = Suc (w_tick w)"
  by (simp add: pool_exec_def external_def run_stmt_def split: option.splits sum.splits prod.splits)

text \<open>The time of the lookup is the clock at the first statement.\<close>

lemma validateKey_success:
  assumes "validateKey token E w = (Inr c, w')"
  obtains k where "k \<in> set (t_api_keys (w_db w))" "key_usable (clock E (Suc (w_tick w))) (HashAPIKey (sha256_sum E) token) k"
    "c = key_claims k" "w_tick w' = Suc (Suc (w_tick w))"
proof -
  from assms obtain k w1 where l: "pool_exec (key_lookup (HashAPIKey (sha256_sum E) token)) E w = (Inr k, w1)"
    and "w' = snd (pool_exec (key_touch (k_ID k)) E w1)" "c = key_claims k"
    by (auto simp: validateKey_def go_success ignore_err_run)
  moreover from l have "w_tick w1 = Suc (w_tick w)" using pool_exec_tick by (metis snd_conv)
  ultimately show ?thesis
    using that by (auto simp: pool_exec_eq_Inr pool_exec_tick dest!: key_lookup_eq_Inr)
qed

lemma validateKey_run:
  assumes "no_faults E" "k \<in> set (t_api_keys (w_db w))" "key_usable (clock E (Suc (w_tick w))) (HashAPIKey (sha256_sum E) token) k"
    and "\<And>r. r \<in> set (t_api_keys (w_db w)) \<Longrightarrow> k_KeyHash r = k_KeyHash k \<Longrightarrow> r = k"
  shows "\<exists>w'. validateKey token E w = (Inr (key_claims k), w')"
proof -
  have "pool_exec (key_lookup (HashAPIKey (sha256_sum E) token)) E w = (Inr k, (tick_world w)\<lparr>w_db := w_db w\<rparr>)"
    using key_lookup_unique [OF assms(2-4)] assms(1) by (simp add: pool_exec_eq_Inr no_faults_def)
  then show ?thesis by (simp add: validateKey_def go_bind_def asks_run wrap_err_def ignore_err_run ret_run)
qed

lemma time_Now_reads: "time_Now E w = (Inr t, w') \<longleftrightarrow> t = clock E (w_tick w) \<and> w' = tick_world w"
  by (auto simp: time_Now_def)

lemma license_token_success:
  assumes "license_token st E w = (Inr jwt, w')"
  shows "if ls_cachedJWT st \<noteq> [] \<and> clock E (w_tick w) < ls_cachedExp st then jwt = ls_cachedJWT st \<and> w_tick w' = Suc (w_tick w)
    else w_ssm w ssmLicenseTokenPath = Some jwt \<and> \<not> unset_token jwt \<and>
      w_tick w' = (if ls_cachedJWT st = [] then Suc (w_tick w) else Suc (Suc (w_tick w)))"
proof (cases "ls_cachedJWT st = []")
  case True
  with assms show ?thesis
    by (auto simp: license_token_def go_success GetParameter_def external_def tick_world_def split: if_splits option.splits)
next
  case False
  with assms show ?thesis
    by (auto simp: license_token_def go_success GetParameter_def external_def time_Now_def tick_world_def split: if_splits option.splits)
qed

text \<open>A licence of an organisation, checked from the point \<open>n\<close> of a run on: the cached token as long as the clock has not
  reached its expiry, otherwise the one of the parameter store, verified at the next reading of the clock.\<close>

definition licensed :: "env \<Rightarrow> license_state \<Rightarrow> world \<Rightarrow> nat \<Rightarrow> uuid \<Rightarrow> license_claims \<Rightarrow> bool" where
  "licensed E st w n orgID l \<longleftrightarrow>
     (if ls_cachedJWT st \<noteq> [] \<and> clock E n < ls_cachedExp st
      then jwt_verify E (clock E (Suc n)) (ls_cachedJWT st) = Inr l
      else \<exists>jwt. w_ssm w ssmLicenseTokenPath = Some jwt \<and> \<not> unset_token jwt \<and>
        jwt_verify E (clock E (if ls_cachedJWT st = [] then Suc n else Suc (Suc n))) jwt = Inr l) \<and>
     lc_Plan l \<noteq> ''trial_expired'' \<and> (lc_Plan l = ''trial'' \<or> lc_OrgID l = fmt_uuid E orgID)"

lemma licensed_ssm: "w_ssm w1 = w_ssm w \<Longrightarrow> licensed E st w1 n orgID l = licensed E st w n orgID l"
  by (simp add: licensed_def)

lemma checkLicense_success:
  assumes "checkLicense server (fmt_uuid E orgID) st E w = (Inr (l, st'), w')"
  shows "licensed E st w (w_tick w) orgID l"
proof -
  from assms obtain jwt w1 where t: "license_token st E w = (Inr jwt, w1)"
    and rest: "\<exists>w2. (case jwt_verify E (clock E (w_tick w1)) jwt of
         Inl e \<Rightarrow> throw (Wrap ''license: invalid token'' e)
       | Inr cl \<Rightarrow>
         go_bind (fail_if (lc_Plan cl = ''trial_expired'') (Errorf ''license: trial period has expired'')) (\<lambda>_.
         go_bind (fail_if (lc_Plan cl \<noteq> ''trial'' \<and> lc_OrgID cl \<noteq> fmt_uuid E orgID) (Errorf ''license: org_id mismatch'')) (\<lambda>_.
         go_bind (if ls_isColdStart st \<and> lc_Plan cl \<noteq> ''trial'' then ignore_err (revocationCheck server jwt) else ret ()) (\<lambda>_.
         go_bind (if lc_RenewalDue cl > 0 then go_bind time_Now (\<lambda>_. ret ()) else ret ()) (\<lambda>_.
         ret (cl, (case lc_ExpiresAt cl of None \<Rightarrow> st | Some t \<Rightarrow> st\<lparr>ls_cachedJWT := jwt, ls_cachedExp := t\<rparr>)
           \<lparr>ls_isColdStart := False\<rparr>)))))) E w2 = (Inr (l, st'), w')"
    unfolding checkLicense_def by (auto simp only: go_bind_eq_Inr asks_eq_Inr time_Now_reads)
  then have l: "jwt_verify E (clock E (w_tick w1)) jwt = Inr l" "lc_Plan l \<noteq> ''trial_expired''" "lc_Plan l = ''trial'' \<or> lc_OrgID l = fmt_uuid E orgID"
    by (cases "jwt_verify E (clock E (w_tick w1)) jwt"; auto simp: go_bind_eq_Inr fail_if_eq_Inr ret_eq_Inr throw_eq_Inr)+
  with license_token_success [OF t] show ?thesis by (auto simp: licensed_def split: if_splits)
qed

interpretation parameters: outside_tx w_ssm by unfold_locales simp_all

text \<open>C35. Whoever is let in has presented a key of the deployment that was not revoked and, at the clock's reading for the
  lookup, not yet expired, under a licence that was verified at the clock's reading in the same request (the cached one only
  before its expiry), has not run out as a trial and belongs to the organisation of the key (or is a trial); and the handlers
  behind the gateway see the organisation, the key, the scopes and the pod of exactly that key, and the plan, features and
  seats of exactly that licence, as long as scopes and features are plain words.\<close>

theorem authorizer_grants:
  assumes run: "authorizer_handler server event st E w = (Inr (resp, st'), w')" and "az_Effect resp = ''Allow''"
  shows "\<exists>k l. k \<in> set (t_api_keys (w_db w)) \<and> k_KeyHash k = HashAPIKey (sha256_sum E) (bearer_token event) \<and>
    k_RevokedAt k = None \<and> (case k_ExpiresAt k of None \<Rightarrow> True | Some t \<Rightarrow> clock E (Suc (w_tick w)) < t) \<and>
    licensed E st w (Suc (Suc (w_tick w))) (k_OrgID k) l \<and>
    (uuid_codec E \<and> list_all plain_word (k_Scopes k) \<and> list_all plain_word (lc_Features l) \<and> in_int64 (lc_SeatLimit l) \<longrightarrow>
      (\<forall>rq. rq_Authorizer rq = az_Context resp \<longrightarrow> ExtractClaims E rq = Inr
         \<lparr>cl_OrgID = k_OrgID k, cl_KeyID = k_ID k, cl_Scopes = k_Scopes k, cl_PodID = k_PodID k,
          cl_Plan = lc_Plan l, cl_Features = lc_Features l, cl_SeatLimit = lc_SeatLimit l\<rparr>))"
proof -
  let ?denied = "(deny ''anonymous'' (ae_MethodArn event), st)"
  have refused: "az_Effect (deny p a) \<noteq> ''Allow''" for p a by (simp add: deny_def)
  obtain r w1 where r: "validateKey (bearer_token event) E w = (r, w1)" by (rule prod.exhaust)
  obtain c where c: "r = Inr c" and "bearer_token event \<noteq> []"
    using run assms(2) refused r
    by (cases r) (auto simp: authorizer_handler_def Let_def go_bind_def asks_run attempt_def ret_run split: if_splits)
  obtain s w2 where s: "checkLicense server (fmt_uuid E (cl_OrgID c)) st E w1 = (s, w2)" by (rule prod.exhaust)
  with run c r \<open>bearer_token event \<noteq> []\<close> have "(case s of Inl e \<Rightarrow> ret ?denied | Inr (l, st') \<Rightarrow> ret (grant (fmt_uuid E) (ae_MethodArn event) c l, st')) E w2
      = (Inr (resp, st'), w')"
    by (simp add: authorizer_handler_def Let_def go_bind_def asks_run attempt_def)
  with assms(2) refused obtain l where "s = Inr (l, st')" and resp: "resp = grant (fmt_uuid E) (ae_MethodArn event) c l"
    by (cases s) (auto simp: ret_run split: prod.splits)
  with s have l: "checkLicense server (fmt_uuid E (cl_OrgID c)) st E w1 = (Inr (l, st'), w2)" by simp
  from r c have v: "validateKey (bearer_token event) E w = (Inr c, w1)" by simp
  have "untouched w_ssm (validateKey token)" for token
    unfolding validateKey_def by (intro untouched_intros parameters.intros)
  then have ssm: "w_ssm w1 = w_ssm w" using v by (rule untouchedD)
  from v obtain k where k: "k \<in> set (t_api_keys (w_db w))"
    "key_usable (clock E (Suc (w_tick w))) (HashAPIKey (sha256_sum E) (bearer_token event)) k" "c = key_claims k"
    and n: "w_tick w1 = Suc (Suc (w_tick w))" by (rule validateKey_success)
  have "licensed E st w (Suc (Suc (w_tick w))) (k_OrgID k) l"
    using checkLicense_success [OF l] k(3) n licensed_ssm [OF ssm] by (simp add: key_claims_def)
  moreover have "ExtractClaims E rq = Inr \<lparr>cl_OrgID = k_OrgID k, cl_KeyID = k_ID k, cl_Scopes = k_Scopes k, cl_PodID = k_PodID k,
          cl_Plan = lc_Plan l, cl_Features = lc_Features l, cl_SeatLimit = lc_SeatLimit l\<rparr>"
    if "uuid_codec E" "list_all plain_word (k_Scopes k)" "list_all plain_word (lc_Features l)" "in_int64 (lc_SeatLimit l)"
      "rq_Authorizer rq = az_Context resp" for rq
    using grant_extract [of E rq c l] that by (simp add: resp grant_def k(3) key_claims_def)
  ultimately show ?thesis using k(1) k(2) [unfolded key_usable_def] by blast
qed

text \<open>A key of the first organisation, restricted to a pod, and a deployment with a licence for that organisation.\<close>

definition demo_key :: "uuid option \<Rightarrow> api_key" where
  "demo_key podID = \<lparr>k_ID = 30, k_OrgID = 1, k_Name = ''n'', k_KeyPrefix = ''k'', k_KeyHash = hex_encode ''k'', k_Scopes = [''inbox:read''],
     k_PodID = podID, k_LastUsedAt = None, k_ExpiresAt = None, k_RevokedAt = None, k_CreatedAt = 0\<rparr>"

definition demo_key_world :: world where
  "demo_key_world = demo_world\<lparr>w_db := demo_db\<lparr>t_pods := [demo_pod], t_api_keys := [demo_key (Some 13)]\<rparr>,
     w_ssm := [ssmLicenseTokenPath \<mapsto> ''1'']\<rparr>"

definition demo_authorizer_event :: authorizer_event where
  "demo_authorizer_event = \<lparr>ae_AuthorizationToken = ''Bearer k'', ae_MethodArn = ''a/s/GET/x'', ae_QueryStringParameters = []\<rparr>"

theorem authorizer_grants_witness:
  "\<exists>k l. k \<in> set (t_api_keys (w_db demo_key_world)) \<and> k_KeyHash k = HashAPIKey (sha256_sum demo_env) ''k'' \<and>
    k_RevokedAt k = None \<and> licensed demo_env fresh_license_state demo_key_world (Suc (Suc (w_tick demo_key_world))) (k_OrgID k) l"
proof -
  let ?r = "authorizer_handler ''s'' demo_authorizer_event fresh_license_state demo_env demo_key_world"
  have "case fst ?r of Inl e \<Rightarrow> False | Inr (resp, st') \<Rightarrow> az_Effect resp = ''Allow''" by code_simp
  then obtain resp st' where "fst ?r = Inr (resp, st')" and allowed: "az_Effect resp = ''Allow''"
    by (auto split: sum.splits)
  then have r: "?r = (Inr (resp, st'), snd ?r)" by (metis prod.collapse)
  have "bearer_token demo_authorizer_event = ''k''" by code_simp
  with authorizer_grants [OF r allowed] show ?thesis by auto
qed

end
