(* ===== verification/Web_Sockets.thy ===== *)
theory Web_Sockets
  imports Authorizer Webhook_Dispatcher "HOL-Library.Multiset"
begin

text \<open>
  \<open>lambdas/ws_connect\<close>, \<open>lambdas/ws_disconnect\<close> and \<open>lambdas/event_dispatcher_ws\<close>: the table of web socket connections
  (migration 16), who may connect, and the push of every event to the live connections of its organisation.
\<close>

section \<open>Statements\<close>

text \<open>\<open>INSERT ... ON CONFLICT (connection_id) DO UPDATE SET connected_at = $3, ttl = $4\<close>\<close>

definition connection_upsert :: "websocket_connection \<Rightarrow> unit stmt" where
  "connection_upsert x now d =
     Inr ((), d\<lparr>t_websocket_connections :=
       (if has_key wsc_connection_id (wsc_connection_id x) (t_websocket_connections d)
        then upd_where (\<lambda>r. wsc_connection_id r = wsc_connection_id x)
          (\<lambda>r. r\<lparr>wsc_connected_at := wsc_connected_at x, wsc_ttl := wsc_ttl x\<rparr>) (t_websocket_connections d)
        else t_websocket_connections d @ [x])\<rparr>)"

definition connection_delete :: "string \<Rightarrow> unit stmt" where
  "connection_delete i now d =
     Inr ((), d\<lparr>t_websocket_connections := del_where (\<lambda>r. wsc_connection_id r = i) (t_websocket_connections d)\<rparr>)"

definition live :: "uuid \<Rightarrow> time \<Rightarrow> websocket_connection \<Rightarrow> bool" where
  "live orgID now r = (wsc_org_id r = orgID \<and> now < wsc_ttl r)"

text \<open>The connections of an organisation, in an order that the server chooses.\<close>

definition live_connections :: "(uuid \<Rightarrow> nat) \<Rightarrow> uuid \<Rightarrow> string list stmt" where
  "live_connections order orgID now d =
     Inr (map (wsc_connection_id \<circ> snd) (order_asc (\<lambda>x. order (fst x))
       (enumerate 0 (filter (live orgID now) (t_websocket_connections d)))), d)"

section \<open>ws\_connect/main.go\<close>

text \<open>The request of a connection; its authorizer context may be of another type than a map.\<close>

record ws_request =
  wq_QueryStringParameters :: "(string \<times> string) list"
  wq_ConnectionID :: string
  wq_Authorizer :: "(string \<times> json) list option"

definition ws_hasFeature :: "string \<Rightarrow> string \<Rightarrow> bool" where
  "ws_hasFeature featuresStr feature = list_ex (\<lambda>f. trim_space f = feature) (split_on (CHR '','') featuresStr)"

definition ws_validateKey :: "string \<Rightarrow> claims io" where
  "ws_validateKey plaintextKey =
     go_bind (asks (\<lambda>E. HashAPIKey (sha256_sum E) plaintextKey)) (\<lambda>hash.
     go_bind (wrap_err ''key not found'' (pool_exec (key_lookup hash))) (\<lambda>k.
     go_bind (ignore_err (pool_exec (key_touch (k_ID k)))) (\<lambda>_.
     ret \<lparr>cl_OrgID = k_OrgID k, cl_KeyID = k_ID k, cl_Scopes = k_Scopes k, cl_PodID = k_PodID k,
          cl_Plan = [], cl_Features = [], cl_SeatLimit = 0\<rparr>)))"

text \<open>\<open>events.APIGatewayProxyResponse{StatusCode: code, Body: text}\<close>\<close>

definition plain :: "int \<Rightarrow> string \<Rightarrow> response" where
  "plain code s = \<lparr>rs_StatusCode = code, rs_Headers = [], rs_Body = VText s, rs_IsBase64Encoded = False\<rparr>"

definition ws_features :: "ws_request \<Rightarrow> string" where
  "ws_features event = (case wq_Authorizer event of None \<Rightarrow> [] | Some m \<Rightarrow> string_at m ''features'')"

definition connection_ttl :: time where
  "connection_ttl = 24 * 3600 * 1000000000"

definition new_connection :: "string \<Rightarrow> uuid \<Rightarrow> time \<Rightarrow> websocket_connection" where
  "new_connection i orgID now =
     \<lparr>wsc_connection_id = i, wsc_org_id = orgID, wsc_connected_at = now, wsc_ttl = now + connection_ttl\<rparr>"

definition ws_connect :: "ws_request \<Rightarrow> handler" where
  "ws_connect event =
     (let token = map_get (wq_QueryStringParameters event) ''token'' in
      if token = [] then respond (plain 401 ''Unauthorized'')
      else handle (ws_validateKey token) (\<lambda>_. respond (plain 401 ''Unauthorized'')) (\<lambda>c.
        if \<not> ws_hasFeature (ws_features event) ''websockets'' then respond (plain 403 ''websockets feature not available on your plan'')
        else handle (go_bind time_Now (\<lambda>now. pool_exec (connection_upsert (new_connection (wq_ConnectionID event) (cl_OrgID c) now))))
          (\<lambda>_. respond (plain 500 ''Internal Server Error'')) (\<lambda>_. respond (plain 200 ''Connected''))))"

section \<open>ws\_disconnect/main.go\<close>

definition ws_disconnect :: "ws_request \<Rightarrow> handler" where
  "ws_disconnect event =
     handle (pool_exec (connection_delete (wq_ConnectionID event)))
       (\<lambda>_. respond (plain 200 ''Disconnected'')) (\<lambda>_. respond (plain 200 ''Disconnected''))"

section \<open>event\_dispatcher\_ws/main.go\<close>

text \<open>A connection to which the push fails, for whatever reason, is removed.\<close>

definition push_to :: "event \<Rightarrow> string \<Rightarrow> unit io" where
  "push_to evt connID =
     go_bind (attempt (PostToConnection connID evt)) (\<lambda>r.
     case r of Inl _ \<Rightarrow> ignore_err (pool_exec (connection_delete connID)) | Inr _ \<Rightarrow> ret ())"

definition push_event :: "event \<Rightarrow> uuid \<Rightarrow> unit io" where
  "push_event evt orgID =
     go_bind (\<lambda>E w. pool_exec (live_connections (scan_order E (w_tick w)) orgID) E w) (\<lambda>connIDs.
     for_each (push_to evt) connIDs)"

definition ws_record :: "sqs_message \<Rightarrow> unit io" where
  "ws_record record =
     (case sm_Event record of
        None \<Rightarrow> ret ()
      | Some evt \<Rightarrow>
          go_bind (asks (\<lambda>E. parse_uuid E (be_OrgID (GetBase evt)))) (\<lambda>p.
          case p of None \<Rightarrow> ret () | Some orgID \<Rightarrow> push_event evt orgID))"

definition ws_dispatcher :: "sqs_message list \<Rightarrow> string list io" where
  "ws_dispatcher records = batch_failures ws_record sm_MessageId records"

section \<open>Who gets an event\<close>

text \<open>Without faults of the database: every connection is tried once, and those where the push failed are removed.\<close>

definition without :: "string set \<Rightarrow> database \<Rightarrow> database" where
  "without gone d = d\<lparr>t_websocket_connections := del_where (\<lambda>r. wsc_connection_id r \<in> gone) (t_websocket_connections d)\<rparr>"

lemma without_simps: "without {} d = d" "without A (without B d) = without (A \<union> B) d"
  by (auto simp: without_def del_where_def conj_commute)

text \<open>The connections of a list whose push fails, each push at its own point \<open>n\<close> of the run (a removal is a point too).\<close>

fun failed_pushes :: "env \<Rightarrow> nat \<Rightarrow> string list \<Rightarrow> string set" where
  "failed_pushes E n [] = {}"
| "failed_pushes E n (i # is) =
     (if ws_post E n i = None then failed_pushes E (Suc n) is else insert i (failed_pushes E (Suc (Suc n)) is))"

lemma failed_pushes_steady:
  assumes "\<And>n i. ws_post E n i = ws_post E 0 i"
  shows "failed_pushes E n is = {i \<in> set is. ws_post E 0 i \<noteq> None}"
proof (induction "is" arbitrary: n)
  case (Cons i js)
  then show ?case using assms [of n i] by auto
qed simp

lemma push_to_run:
  assumes "no_faults E"
  shows "\<exists>w'. push_to evt i E w = (Inr (), w') \<and> w_pushed w' = w_pushed w @ [(i, evt)] \<and>
    w_db w' = (if ws_post E (w_tick w) i = None then w_db w else without {i} (w_db w)) \<and>
    w_tick w' = (if ws_post E (w_tick w) i = None then Suc (w_tick w) else Suc (Suc (w_tick w)))"
proof (cases "ws_post E (w_tick w) i")
  case None
  then show ?thesis by (simp add: push_to_def PostToConnection_def go_bind_def attempt_def ret_run)
next
  case (Some s)
  let ?w = "(tick_world w)\<lparr>w_pushed := w_pushed w @ [(i, evt)]\<rparr>"
  have "pool_exec (connection_delete i) E ?w = (Inr (), (tick_world ?w)\<lparr>w_db := without {i} (w_db w)\<rparr>)"
    using assms by (simp add: pool_exec_eq_Inr no_faults_def connection_delete_def without_def)
  with Some show ?thesis by (simp add: push_to_def PostToConnection_def go_bind_def attempt_def ignore_err_def)
qed

lemma push_all_run:
  assumes "no_faults E"
  shows "\<exists>w'. for_each (push_to evt) is E w = (Inr (), w') \<and> w_pushed w' = w_pushed w @ map (\<lambda>i. (i, evt)) is \<and>
    w_db w' = without (failed_pushes E (w_tick w) is) (w_db w)"
proof (induction "is" arbitrary: w)
  case Nil
  show ?case by (simp add: ret_run without_simps)
next
  case (Cons i js)
  obtain w1 where p: "push_to evt i E w = (Inr (), w1)" "w_pushed w1 = w_pushed w @ [(i, evt)]"
    "w_db w1 = (if ws_post E (w_tick w) i = None then w_db w else without {i} (w_db w))"
    "w_tick w1 = (if ws_post E (w_tick w) i = None then Suc (w_tick w) else Suc (Suc (w_tick w)))"
    using push_to_run [OF assms] by metis
  from Cons.IH [of w1] obtain w' where rest: "for_each (push_to evt) js E w1 = (Inr (), w')"
    "w_pushed w' = w_pushed w1 @ map (\<lambda>i. (i, evt)) js" "w_db w' = without (failed_pushes E (w_tick w1) js) (w_db w1)" by blast
  have "w_db w' = without (failed_pushes E (w_tick w) (i # js)) (w_db w)" using p(3,4) rest(3) by (simp add: without_simps)
  moreover have "for_each (push_to evt) (i # js) E w = (Inr (), w')" using p(1) rest(1) by (simp add: go_bind_def)
  ultimately show ?case using p(2) rest(2) by (intro exI [of _ w']) simp
qed

text \<open>C22. An event is pushed to the live connections of its own organisation, to each of them and to no other, in some
  order; afterwards exactly the connections are gone whose push failed, with whatever error, and nothing else has
  changed in the database.  (The comment in the code and migration 16 speak of the removal of a connection that API Gateway
  reports as gone; a push that is throttled or times out removes a connection that is still open as well.)\<close>

theorem ws_push_targets:
  assumes "no_faults E" and "sm_Event record = Some evt" and "parse_uuid E (be_OrgID (GetBase evt)) = Some orgID"
  shows "\<exists>w' is. ws_record record E w = (Inr (), w') \<and> w_pushed w' = w_pushed w @ map (\<lambda>i. (i, evt)) is \<and>
    mset is = mset (map wsc_connection_id
      (filter (\<lambda>r. wsc_org_id r = orgID \<and> clock E (Suc (w_tick w)) < wsc_ttl r) (t_websocket_connections (w_db w)))) \<and>
    w_db w' = without (failed_pushes E (Suc (w_tick w)) is) (w_db w)"
proof -
  let ?cs = "filter (live orgID (clock E (Suc (w_tick w)))) (t_websocket_connections (w_db w))"
  let ?is = "map (wsc_connection_id \<circ> snd) (order_asc (\<lambda>x. scan_order E (w_tick w) (fst x)) (enumerate 0 ?cs))"
  have "mset ?is = mset (map (wsc_connection_id \<circ> snd) (enumerate 0 ?cs))" by (simp add: order_asc_def mset_map)
  also have "map (wsc_connection_id \<circ> snd) (enumerate 0 ?cs) = map wsc_connection_id (map snd (enumerate 0 ?cs))" by (simp only: map_map)
  finally have "mset ?is = mset (map wsc_connection_id ?cs)" by (simp only: map_snd_enumerate)
  then have m: "mset ?is = mset (map wsc_connection_id
      (filter (\<lambda>r. wsc_org_id r = orgID \<and> clock E (Suc (w_tick w)) < wsc_ttl r) (t_websocket_connections (w_db w))))"
    by (simp only: live_def [abs_def])
  have sel: "pool_exec (live_connections (scan_order E (w_tick w)) orgID) E w = (Inr ?is, tick_world w)"
    using assms(1) by (simp add: pool_exec_eq_Inr live_connections_def no_faults_def)
  from push_all_run [OF assms(1), of evt ?is "tick_world w"] obtain w' where
    "for_each (push_to evt) ?is E (tick_world w) = (Inr (), w')" "w_pushed w' = w_pushed w @ map (\<lambda>i. (i, evt)) ?is"
    "w_db w' = without (failed_pushes E (Suc (w_tick w)) ?is) (w_db w)" by (auto simp del: set_map)
  with sel m assms(2,3) show ?thesis
    by (intro exI [of _ w'] exI [of _ ?is]) (simp add: ws_record_def push_event_def go_bind_def asks_run)
qed

section \<open>Who may connect\<close>

lemma ws_validateKey_same: "ws_validateKey = validateKey"
  by (simp add: fun_eq_iff ws_validateKey_def validateKey_def key_claims_def)

lemma connection_upsert_has:
  assumes "connection_upsert y now d = Inr (u, d')"
  shows "\<exists>x \<in> set (t_websocket_connections d'). wsc_connection_id x = wsc_connection_id y \<and> wsc_ttl x = wsc_ttl y \<and>
    (wsc_org_id x = wsc_org_id y \<or> has_key wsc_connection_id (wsc_connection_id y) (t_websocket_connections d))"
proof (cases "has_key wsc_connection_id (wsc_connection_id y) (t_websocket_connections d)")
  case True
  then obtain r where "r \<in> set (t_websocket_connections d)" "wsc_connection_id r = wsc_connection_id y"
    by (auto simp: has_key_def)
  with True assms show ?thesis
    by (intro bexI [of _ "r\<lparr>wsc_connected_at := wsc_connected_at y, wsc_ttl := wsc_ttl y\<rparr>"])
      (auto simp: connection_upsert_def upd_where_def)
next
  case False
  with assms show ?thesis by (intro bexI [of _ y]) (auto simp: connection_upsert_def)
qed

text \<open>C23. Whoever is connected has shown a key that was not revoked and, at the clock's reading for its lookup, not
  expired, the same that the authorizer accepts, on a plan with the feature; the connection is stored until 24 hours after
  the clock's next reading, under the organisation of the key, except that a connection whose id was already stored
  keeps the organisation it was stored with.\<close>

theorem ws_connect_effect:
  assumes "ws_connect event E w = (resp, w')" and "rs_StatusCode resp = 200"
  shows "\<exists>k. k \<in> set (t_api_keys (w_db w)) \<and>
    k_KeyHash k = HashAPIKey (sha256_sum E) (map_get (wq_QueryStringParameters event) ''token'') \<and>
    k_RevokedAt k = None \<and> (case k_ExpiresAt k of None \<Rightarrow> True | Some t \<Rightarrow> clock E (Suc (w_tick w)) < t) \<and>
    ws_hasFeature (ws_features event) ''websockets'' \<and>
    (\<exists>x \<in> set (t_websocket_connections (w_db w')). wsc_connection_id x = wq_ConnectionID event \<and> wsc_ttl x = clock E (Suc (Suc (w_tick w))) + connection_ttl \<and>
      (wsc_org_id x = k_OrgID k \<or> has_key wsc_connection_id (wq_ConnectionID event) (t_websocket_connections (w_db w))))"
proof -
  let ?token = "map_get (wq_QueryStringParameters event) ''token''"
  from assms obtain c w1 now w2 where v: "validateKey ?token E w = (Inr c, w1)" and f: "ws_hasFeature (ws_features event) ''websockets''"
    and ins: "pool_exec (connection_upsert (new_connection (wq_ConnectionID event) (cl_OrgID c) now)) E w2 = (Inr (), w')" and w2: "w_db w2 = w_db w1"
    and now: "now = clock E (w_tick w1)"
    by (auto simp: ws_connect_def handle_def plain_def respond_def Let_def ws_validateKey_same go_bind_eq_Inr time_Now_def
        split: if_splits prod.splits sum.splits)
  from v obtain k where k: "k \<in> set (t_api_keys (w_db w))" "key_usable (clock E (Suc (w_tick w))) (HashAPIKey (sha256_sum E) ?token) k" "c = key_claims k"
    and n: "w_tick w1 = Suc (Suc (w_tick w))"
    by (rule validateKey_success)
  have conns: "t_websocket_connections (w_db w1) = t_websocket_connections (w_db w)"
  proof -
    have "keeps_db (\<lambda>d. t_websocket_connections d = t_websocket_connections (w_db w)) (validateKey ?token)"
    proof -
      have "stmt_keeps Q (key_lookup h)" for Q h unfolding key_lookup_def[abs_def] by (simp add: stmt_keeps_def query_row_def split: sum.splits)
      moreover have "stmt_keeps (\<lambda>d. t_websocket_connections d = t_websocket_connections (w_db w)) (key_touch i)" for i
        by (simp add: stmt_keeps_def key_touch_def)
      ultimately show ?thesis unfolding validateKey_def by (intro keeps_intros)
    qed
    from keeps_dbD [OF this, of w E] v show ?thesis by simp
  qed
  from ins have "\<exists>now' d'. connection_upsert (new_connection (wq_ConnectionID event) (cl_OrgID c) now) now' (w_db w2) = Inr ((), d') \<and> w_db w' = d'"
    by (auto simp: pool_exec_eq_Inr)
  then obtain x where
    "x \<in> set (t_websocket_connections (w_db w'))" "wsc_connection_id x = wq_ConnectionID event" "wsc_ttl x = now + connection_ttl"
    "wsc_org_id x = cl_OrgID c \<or> has_key wsc_connection_id (wq_ConnectionID event) (t_websocket_connections (w_db w2))"
    using connection_upsert_has [of "new_connection (wq_ConnectionID event) (cl_OrgID c) now"] by (fastforce simp: new_connection_def)
  with k f w2 conns now n show ?thesis by (auto simp: key_claims_def key_usable_def)
qed

definition demo_sockets :: world where
  "demo_sockets = demo_key_world\<lparr>w_db := (w_db demo_key_world)\<lparr>t_websocket_connections :=
     [new_connection ''c1'' 1 0, new_connection ''gone'' 1 0, new_connection ''c2'' 2 0]\<rparr>\<rparr>"

definition demo_push :: sqs_message where
  "demo_push = \<lparr>sm_MessageId = ''m'', sm_Event = Some (LabelAppliedEvent
     \<lparr>be_ID = ''1'', be_Type = ''label.applied'', be_OrgID = ''1'', be_OccurredAt = 0, be_CorrelationID = []\<rparr> 8 11 ''todo'')\<rparr>"

theorem ws_push_targets_witness:
  "\<exists>w'. ws_record demo_push demo_env demo_sockets = (Inr (), w') \<and> set (map fst (w_pushed w')) = {''c1'', ''gone''} \<and>
     w_db w' = without {''gone''} (w_db demo_sockets)"
proof -
  have "no_faults demo_env" by (simp add: no_faults_def)
  moreover have "sm_Event demo_push = Some (the (sm_Event demo_push))"
    "parse_uuid demo_env (be_OrgID (GetBase (the (sm_Event demo_push)))) = Some 1" by code_simp+
  ultimately obtain w' js where r: "ws_record demo_push demo_env demo_sockets = (Inr (), w')"
    "w_pushed w' = w_pushed demo_sockets @ map (\<lambda>i. (i, the (sm_Event demo_push))) js"
    "w_db w' = without (failed_pushes demo_env (Suc (w_tick demo_sockets)) js) (w_db demo_sockets)"
    and m: "mset js = mset (map wsc_connection_id (filter (\<lambda>r. wsc_org_id r = 1 \<and> clock demo_env (Suc (w_tick demo_sockets)) < wsc_ttl r)
      (t_websocket_connections (w_db demo_sockets))))"
    using ws_push_targets [of demo_env demo_push _ 1 demo_sockets] by blast
  have "set (map wsc_connection_id (filter (\<lambda>r. wsc_org_id r = 1 \<and> clock demo_env (Suc (w_tick demo_sockets)) < wsc_ttl r)
      (t_websocket_connections (w_db demo_sockets)))) = {''c1'', ''gone''}"
    by code_simp
  with m have js: "set js = {''c1'', ''gone''}" by (metis mset_eq_setD)
  have "failed_pushes demo_env n js = {''gone''}" for n
    by (subst failed_pushes_steady) (auto simp: js demo_env_def)
  moreover have "w_pushed demo_sockets = []" by code_simp
  ultimately show ?thesis using r js by (intro exI [of _ w']) (simp add: comp_def)
qed

definition demo_connect :: ws_request where
  "demo_connect = \<lparr>wq_QueryStringParameters = [(''token'', ''k'')], wq_ConnectionID = ''c3'',
     wq_Authorizer = Some [(''features'', JStr ''webhooks, websockets'')]\<rparr>"

theorem ws_connect_effect_witness:
  "\<exists>x \<in> set (t_websocket_connections (w_db (snd (ws_connect demo_connect demo_env demo_sockets)))). wsc_connection_id x = ''c3'' \<and>
     (\<exists>k \<in> set (t_api_keys (w_db demo_sockets)). wsc_org_id x = k_OrgID k)"
proof -
  have ok: "rs_StatusCode (fst (ws_connect demo_connect demo_env demo_sockets)) = 200" by code_simp
  have new: "\<not> has_key wsc_connection_id (wq_ConnectionID demo_connect) (t_websocket_connections (w_db demo_sockets))" by code_simp
  have "wq_ConnectionID demo_connect = ''c3''" by (simp add: demo_connect_def)
  with ws_connect_effect [OF prod.collapse [symmetric] ok] new show ?thesis by metis
qed

end
