(* ===== verification/Key_Lifecycle.thy ===== *)
theory Key_Lifecycle
  imports Authorizer
begin

text \<open>
  The life of an API key across the two programs that share the table of keys: \<open>lambdas/auth\<close> creates and revokes
  it, the authorizer accepts it or not; and what \<open>lambdas/orgs\<close> does to it by deleting its pod.
\<close>

lemma insertKey_success:
  assumes "insertKey orgID name scopes podID expiresAt E w = (Inr (key, plaintext), w')"
  shows "k_KeyHash key = HashAPIKey (sha256_sum E) plaintext \<and> k_OrgID key = orgID \<and> k_PodID key = podID \<and>
    k_ExpiresAt key = expiresAt \<and> k_RevokedAt key = None \<and> scopes = Some (k_Scopes key) \<and>
    \<not> has_key k_ID (k_ID key) (t_api_keys (w_db w)) \<and> \<not> has_key k_KeyHash (k_KeyHash key) (t_api_keys (w_db w)) \<and>
    t_api_keys (w_db w') = t_api_keys (w_db w) @ [key]"
proof -
  from assms obtain keyHash displayPrefix w1 rnd where
    gen: "generate_key E w = (Inr (plaintext, keyHash, displayPrefix), w1)" and
    rest: "pool_exec (key_insert \<lparr>k_ID = new_uuid E (w_tick w1), k_OrgID = orgID, k_Name = name, k_KeyPrefix = displayPrefix,
        k_KeyHash = keyHash, k_Scopes = [], k_PodID = podID, k_LastUsedAt = None, k_ExpiresAt = expiresAt, k_RevokedAt = None,
        k_CreatedAt = clock E (Suc (w_tick w1))\<rparr> scopes) E (tick_world (tick_world w1)) = (Inr key, w')"
    by (auto simp: insertKey_def go_success Let_def uuid_New_def time_Now_def)
  obtain rnd w2 where rnd: "rand_Read 32 E w = (rnd, w2)" by (rule prod.exhaust)
  then have "w_db w2 = w_db w" by (auto simp: rand_Read_def external_def split: option.splits)
  moreover from gen rnd have "GenerateAPIKey (sha256_sum E) rnd = Inr (plaintext, keyHash, displayPrefix) \<and> w1 = w2"
    by (cases "GenerateAPIKey (sha256_sum E) rnd") (auto simp: generate_key_def go_bind_def attempt_def asks_run go_run)
  then have "w1 = w2" and "keyHash = HashAPIKey (sha256_sum E) plaintext"
    by (auto simp: GenerateAPIKey_def HashAPIKey_def Let_def split: sum.splits)
  ultimately show ?thesis
    using rest by (auto simp: pool_exec_eq_Inr key_insert_def require_eq_Inr or_empty_def)
qed

lemma validateKey_refused:
  assumes "\<And>k. k \<in> set (t_api_keys (w_db w)) \<Longrightarrow> k_KeyHash k = HashAPIKey (sha256_sum E) token \<Longrightarrow> k_RevokedAt k \<noteq> None"
  shows "\<exists>e w'. validateKey token E w = (Inl e, w')"
proof -
  obtain r w' where r: "validateKey token E w = (r, w')" by (rule prod.exhaust)
  show ?thesis
  proof (cases r)
    case (Inr c)
    with r have "validateKey token E w = (Inr c, w')" by simp
    then obtain k where "k \<in> set (t_api_keys (w_db w))" "key_usable (clock E (Suc (w_tick w))) (HashAPIKey (sha256_sum E) token) k"
      by (rule validateKey_success)
    with assms [of k] show ?thesis by (simp add: key_usable_def)
  qed (use r in simp)
qed

lemma revokeKey_run:
  assumes "no_faults E" "key \<in> set (t_api_keys (w_db w))" "k_RevokedAt key = None"
  shows "\<exists>w' now. revokeKey (k_OrgID key) (k_ID key) E w = (Inr (), w') \<and>
    t_api_keys (w_db w') = upd_where (key_hit (k_OrgID key) (k_ID key)) (\<lambda>r. r\<lparr>k_RevokedAt := Some now\<rparr>) (t_api_keys (w_db w))"
proof -
  have "filter (key_hit (k_OrgID key) (k_ID key)) (t_api_keys (w_db w)) \<noteq> []"
    using assms(2,3) by (auto simp: filter_empty_conv key_hit_def)
  then show ?thesis
    unfolding revokeKey_def
    by (subst WithOrgTx_run [OF assms(1)])
      (auto simp: go_bind_def wrap_err_def tx_exec_run [OF assms(1)] key_revoke_def fail_if_run)
qed

text \<open>C36. A new key is good for what it was created with: the authorizer takes the text that its creation returned, up to
  the expiry, as the claims of the organisation, scopes and pod of the creation, and once the key is revoked, which
  succeeds, the same text is refused, at any time.\<close>

theorem key_lifecycle:
  assumes faultless: "no_faults E"
    and run: "insertKey orgID name scopes podID expiresAt E w = (Inr (key, plaintext), w1)"
    and unexpired: "case expiresAt of None \<Rightarrow> True | Some t \<Rightarrow> clock E (Suc (w_tick w1)) < t"
  shows "(\<exists>c w2. validateKey plaintext E w1 = (Inr c, w2) \<and> cl_OrgID c = orgID \<and> cl_KeyID c = k_ID key \<and>
      Some (cl_Scopes c) = scopes \<and> cl_PodID c = podID) \<and>
    (\<exists>w2. revokeKey orgID (k_ID key) E w1 = (Inr (), w2) \<and> (\<exists>e w3. validateKey plaintext E w2 = (Inl e, w3)))"
proof
  note key = insertKey_success [OF run]
  have keys: "key \<in> set (t_api_keys (w_db w1))"
    and alone: "\<And>r. r \<in> set (t_api_keys (w_db w1)) \<Longrightarrow> k_KeyHash r = k_KeyHash key \<Longrightarrow> r = key"
    using key unfolding has_key_def by auto (metis imageI)
  have "key_usable (clock E (Suc (w_tick w1))) (HashAPIKey (sha256_sum E) plaintext) key"
    using key unexpired by (simp add: key_usable_def)
  from validateKey_run [OF faultless keys this alone] key
  show "\<exists>c w2. validateKey plaintext E w1 = (Inr c, w2) \<and> cl_OrgID c = orgID \<and> cl_KeyID c = k_ID key \<and>
      Some (cl_Scopes c) = scopes \<and> cl_PodID c = podID"
    by (auto simp: key_claims_def)
  from revokeKey_run [OF faultless keys] key obtain w2 now where run2: "revokeKey orgID (k_ID key) E w1 = (Inr (), w2)" and
    rows: "t_api_keys (w_db w2) = upd_where (key_hit orgID (k_ID key)) (\<lambda>r. r\<lparr>k_RevokedAt := Some now\<rparr>) (t_api_keys (w_db w1))"
    by auto
  have "k_RevokedAt r \<noteq> None" if "r \<in> set (t_api_keys (w_db w2))" "k_KeyHash r = HashAPIKey (sha256_sum E) plaintext" for r
  proof -
    from that(1) rows obtain q where q: "q \<in> set (t_api_keys (w_db w1))"
      and r: "r = (if key_hit orgID (k_ID key) q then q\<lparr>k_RevokedAt := Some now\<rparr> else q)" by (auto simp: upd_where_def)
    have "key_hit orgID (k_ID key) key" using key by (simp add: key_hit_def)
    moreover have "k_KeyHash q = k_KeyHash key" using that(2) key by (simp add: r split: if_splits)
    with alone q have "q = key" by blast
    ultimately show ?thesis by (simp add: r)
  qed
  then have "\<exists>e w3. validateKey plaintext E w2 = (Inl e, w3)" by (rule validateKey_refused)
  with run2 show "\<exists>w2. revokeKey orgID (k_ID key) E w1 = (Inr (), w2) \<and> (\<exists>e w3. validateKey plaintext E w2 = (Inl e, w3))"
    by blast
qed

theorem key_lifecycle_witness:
  "\<exists>key plaintext w1. insertKey 1 ''n'' (Some [''inbox:read'']) None None demo_env demo_key_world = (Inr (key, plaintext), w1) \<and>
    (\<exists>c w2. validateKey plaintext demo_env w1 = (Inr c, w2) \<and> cl_OrgID c = 1 \<and> cl_KeyID c = k_ID key \<and>
      Some (cl_Scopes c) = Some [''inbox:read''] \<and> cl_PodID c = None) \<and>
    (\<exists>w2. revokeKey 1 (k_ID key) demo_env w1 = (Inr (), w2) \<and> (\<exists>e w3. validateKey plaintext demo_env w2 = (Inl e, w3)))"
proof -
  let ?r = "insertKey 1 ''n'' (Some [''inbox:read'']) None None demo_env demo_key_world"
  have "\<not> isl (fst ?r)" by code_simp
  then obtain key plaintext where "fst ?r = Inr (key, plaintext)" by (cases "fst ?r") auto
  then have r: "?r = (Inr (key, plaintext), snd ?r)" by (metis prod.collapse)
  have "no_faults demo_env" by (simp add: no_faults_def)
  note life = key_lifecycle [OF this r, unfolded option.case, OF TrueI]
  show ?thesis by (rule exI [of _ key], rule exI [of _ plaintext], rule exI [of _ "snd ?r"]) (intro conjI r life [THEN conjunct1] life [THEN conjunct2])
qed

text \<open>C37. Deleting a pod widens its keys: a key that could only act on the deleted pod is afterwards accepted as a key
  without a pod, which may act on every pod and on the inboxes of the whole organisation.\<close>

theorem pod_delete_widens_keys:
  assumes "no_faults E" and "k \<in> set (t_api_keys (w_db w))" and "k_PodID k = Some podID"
    and "\<And>r. r \<in> set (t_api_keys (w_db w)) \<Longrightarrow> k_KeyHash r = k_KeyHash k \<Longrightarrow> r = k"
    and "k_KeyHash k = HashAPIKey (sha256_sum E) token" and "k_RevokedAt k = None" and "k_ExpiresAt k = None"
    and "pod \<in> set (t_pods (w_db w))" and "p_ID pod = podID" and "p_OrgID pod = k_OrgID k"
  shows "(\<exists>c w1. validateKey token E w = (Inr c, w1) \<and> (\<forall>p. CanAccessPod c p \<longleftrightarrow> p = podID)) \<and>
    (\<exists>w1. removePod (k_OrgID k) podID E w = (Inr (), w1) \<and>
       (\<exists>c w2. validateKey token E w1 = (Inr c, w2) \<and> cl_OrgID c = k_OrgID k \<and> (\<forall>p. CanAccessPod c p)))"
proof
  have usable: "key_usable now (HashAPIKey (sha256_sum E) token) k" for now
    using assms(5-7) by (simp add: key_usable_def)
  from validateKey_run [OF assms(1,2) usable assms(4)] assms(3)
  show "\<exists>c w1. validateKey token E w = (Inr c, w1) \<and> (\<forall>p. CanAccessPod c p \<longleftrightarrow> p = podID)"
    by (auto simp: key_claims_def CanAccessPod_def)
  let ?k = "k\<lparr>k_PodID := None\<rparr>"
  let ?gone = "\<lambda>i. i \<in> set (map p_ID (filter (pod_hit (k_OrgID k) podID) (t_pods (w_db w))))"
  have gone: "?gone podID" using assms(8-10) by (auto simp: pod_hit_def)
  define w1 where "w1 = snd (removePod (k_OrgID k) podID E w)"
  have "filter (pod_hit (k_OrgID k) podID) (t_pods (w_db w)) \<noteq> []"
    using assms(8-10) by (auto simp: filter_empty_conv pod_hit_def)
  then have run: "removePod (k_OrgID k) podID E w = (Inr (), w1)"
    and rows: "t_api_keys (w_db w1) = upd_where (\<lambda>r. refers ?gone (k_PodID r)) (\<lambda>r. r\<lparr>k_PodID := None\<rparr>) (t_api_keys (w_db w))"
    using assms(1) unfolding w1_def
    by (simp_all add: removePod_def go_bind_def wrap_err_def fail_if_run pool_exec_def external_def run_stmt_def no_faults_def
        pod_delete_def Let_def pod_cascade_def)
  have "?k \<in> set (t_api_keys (w_db w1))"
    unfolding rows upd_where_def using assms(2,3) gone by (auto simp: refers_def intro!: image_eqI [of _ _ k])
  moreover have "r = ?k" if r: "r \<in> set (t_api_keys (w_db w1))" "k_KeyHash r = k_KeyHash ?k" for r
  proof -
    from r(1) rows obtain q where "q \<in> set (t_api_keys (w_db w))"
      "r = (if refers ?gone (k_PodID q) then q\<lparr>k_PodID := None\<rparr> else q)" by (auto simp: upd_where_def)
    with assms(3) assms(4) [of q] r(2) gone show ?thesis by (auto simp: refers_def split: if_splits)
  qed
  moreover have "key_usable now (HashAPIKey (sha256_sum E) token) ?k" for now using usable by (simp add: key_usable_def)
  ultimately obtain w2 where "validateKey token E w1 = (Inr (key_claims ?k), w2)"
    using validateKey_run [OF assms(1), of ?k w1 token] by blast
  then show "\<exists>w1. removePod (k_OrgID k) podID E w = (Inr (), w1) \<and>
       (\<exists>c w2. validateKey token E w1 = (Inr c, w2) \<and> cl_OrgID c = k_OrgID k \<and> (\<forall>p. CanAccessPod c p))"
    using run by (intro exI conjI) (assumption, auto simp: key_claims_def CanAccessPod_def)
qed

theorem pod_delete_widens_keys_witness:
  "(\<exists>c w1. validateKey ''k'' demo_env demo_key_world = (Inr c, w1) \<and> (\<forall>p. CanAccessPod c p \<longleftrightarrow> p = 13)) \<and>
    (\<exists>w1. removePod 1 13 demo_env demo_key_world = (Inr (), w1) \<and>
       (\<exists>c w2. validateKey ''k'' demo_env w1 = (Inr c, w2) \<and> cl_OrgID c = 1 \<and> (\<forall>p. CanAccessPod c p)))"
  using pod_delete_widens_keys [of demo_env "demo_key (Some 13)" demo_key_world 13 "''k''" demo_pod]
  by (simp add: no_faults_def demo_key_world_def demo_key_def demo_pod_def HashAPIKey_def demo_env_def)

end
