(* ===== verification/Tools.thy ===== *)
theory Tools
  imports Key_Lifecycle
begin

text \<open>
  The command-line tools: \<open>tools/migrate/main.go\<close>, and \<open>tools/bootstrap/main.go\<close>, the tool that creates the first organisation and a key for its administration, and the
  key it prints as the authorizer sees it. The program's flags are the arguments; \<open>log.Fatal\<close> is the error, and the
  printed organisation and key are the result. The tool has a copy of the key generator of \<open>pkg/auth\<close>.
\<close>

section \<open>migrate\<close>

text \<open>The migration library is the parameter \<open>lib\<close>, over its own state; a step forward is a positive number. The result is the line
  the tool prints, or the error of \<open>log.Fatal\<close>, and the library's state when it was opened.\<close>

record 's migrate_lib =
  ml_New :: "string \<Rightarrow> string \<Rightarrow> go_error + 's"
  ml_Up :: "'s \<Rightarrow> go_error option \<times> 's"
  ml_Steps :: "int \<Rightarrow> 's \<Rightarrow> go_error option \<times> 's"
  ml_Version :: "'s \<Rightarrow> go_error + (nat \<times> bool)"
  ml_Force :: "int \<Rightarrow> 's \<Rightarrow> go_error option \<times> 's"

definition ErrNoChange :: go_error where
  "ErrNoChange = Errorf ''no change''"

definition fmt_bool :: "bool \<Rightarrow> string" where
  "fmt_bool b = (if b then ''true'' else ''false'')"

definition migrate_main :: "'s migrate_lib \<Rightarrow> string \<Rightarrow> string \<Rightarrow> int \<Rightarrow> string \<Rightarrow> (go_error + string) \<times> 's option" where
  "migrate_main lib dbURL direction steps migsPath =
     (if dbURL = [] then (Inl (Errorf ''DATABASE_URL required''), None)
      else case ml_New lib migsPath dbURL of
        Inl e \<Rightarrow> (Inl (Wrap ''create migrate'' e), None)
      | Inr m \<Rightarrow>
          if direction = ''up'' then
            (case ml_Up lib m of (err, m) \<Rightarrow>
               (case err of Some e \<Rightarrow> if e \<noteq> ErrNoChange then Inl (Wrap ''migrate up'' e) else Inr ''migrations applied''
                | None \<Rightarrow> Inr ''migrations applied'', Some m))
          else if direction = ''down'' then
            (let n = (if steps = 0 then 1 else steps);
                 msg = ''rolled back '' @ itoa n @ '' migration(s)''
             in case ml_Steps lib (- n) m of (err, m) \<Rightarrow>
               (case err of Some e \<Rightarrow> if e \<noteq> ErrNoChange then Inl (Wrap ''migrate down'' e) else Inr msg | None \<Rightarrow> Inr msg, Some m))
          else if direction = ''version'' then
            (case ml_Version lib m of
               Inl e \<Rightarrow> (Inl (Wrap ''version'' e), Some m)
             | Inr (v, dirty) \<Rightarrow> (Inr (''version: '' @ itoa (int v) @ '', dirty: '' @ fmt_bool dirty), Some m))
          else if direction = ''force'' then
            (case ml_Force lib steps m of (err, m) \<Rightarrow>
               (case err of Some e \<Rightarrow> Inl (Wrap ''force'' e) | None \<Rightarrow> Inr (''forced version '' @ itoa steps), Some m))
          else (Inl (Errorf (''unknown command: '' @ direction)), Some m))"

text \<open>What a rollback does, for a library whose steps move the number \<open>ver\<close> of applied migrations within the migrations there are: the
  number of steps asked for, one when none is given, and forwards when the number is negative.\<close>

lemma migrate_down_moves:
  assumes law: "\<And>n s. ver (snd (ml_Steps lib n s)) = max 0 (min available (ver s + n))"
    and "dbURL \<noteq> []" and "ml_New lib migsPath dbURL = Inr m"
  shows "\<exists>m'. snd (migrate_main lib dbURL ''down'' steps migsPath) = Some m' \<and>
    ver m' = max 0 (min available (ver m - (if steps = 0 then 1 else steps)))"
proof -
  obtain err m' where step: "ml_Steps lib (- (if steps = 0 then 1 else steps)) m = (err, m')" by (rule prod.exhaust)
  with assms(2,3) have "snd (migrate_main lib dbURL ''down'' steps migsPath) = Some m'"
    by (cases "steps = 0") (simp_all add: migrate_main_def Let_def)
  with law [of "- (if steps = 0 then 1 else steps)" m] step show ?thesis by auto
qed

section \<open>bootstrap\<close>

text \<open>The insert leaves plan, settings and times to the defaults of migration 1.\<close>

definition org_insert :: "uuid \<Rightarrow> string \<Rightarrow> string \<Rightarrow> unit stmt" where
  "org_insert i name slug now d = require
     [(\<not> has_key o_ID i (t_organizations d), ''23505''),
      (\<not> has_key o_Slug slug (t_organizations d), ''23505'')]
     ((), d\<lparr>t_organizations := t_organizations d @
       [\<lparr>o_ID = i, o_Name = name, o_Slug = slug, o_Plan = ''free'', o_Settings = [], o_CreatedAt = now, o_UpdatedAt = now\<rparr>]\<rparr>)"

definition bootstrap_keyPrefix :: string where
  "bootstrap_keyPrefix = ''am_live_''"

definition bootstrap_generateKey :: "(string \<times> string \<times> string) io" where
  "bootstrap_generateKey =
     go_bind (wrap_err ''generate random bytes'' (rand_Read 32)) (\<lambda>b. go_bind (asks sha256_sum) (\<lambda>sha256.
     let plaintext = bootstrap_keyPrefix @ b64_raw_url b;
         hash = hex_encode (sha256 plaintext);
         displayPrefix = (if 16 \<le> length plaintext then take 16 plaintext else plaintext)
     in ret (plaintext, hash, displayPrefix)))"

definition bootstrap_scopes :: "string list" where
  "bootstrap_scopes = [''org:admin'', ''pod:admin'', ''inbox:read'', ''inbox:write'', ''webhook:read'', ''webhook:write'',
     ''draft:read'', ''draft:write'', ''search:read'']"

definition bootstrap :: "string \<Rightarrow> string \<Rightarrow> string \<Rightarrow> string \<Rightarrow> (uuid \<times> string) io" where
  "bootstrap dbURL orgName orgSlug keyName =
     go_bind (fail_if (dbURL = []) (Errorf ''DATABASE_URL required'')) (\<lambda>_.
     go_bind uuid_New (\<lambda>orgID.
     go_bind (wrap_err ''create organization'' (pool_exec (org_insert orgID orgName orgSlug))) (\<lambda>_.
     go_bind (wrap_err ''generate api key'' bootstrap_generateKey) (\<lambda>(plaintext, hash, displayPrefix).
     go_bind uuid_New (\<lambda>keyID. go_bind time_Now (\<lambda>now.
     go_bind (wrap_err ''create api key'' (pool_exec (key_insert
       \<lparr>k_ID = keyID, k_OrgID = orgID, k_Name = keyName, k_KeyPrefix = displayPrefix, k_KeyHash = hash, k_Scopes = [],
        k_PodID = None, k_LastUsedAt = None, k_ExpiresAt = None, k_RevokedAt = None, k_CreatedAt = now\<rparr>
       (Some bootstrap_scopes)))) (\<lambda>_.
     ret (orgID, plaintext))))))))"

section \<open>What it does\<close>

lemma bootstrap_generateKey_eq: "bootstrap_generateKey = generate_key"
proof (intro ext)
  fix E w
  obtain r w1 where "rand_Read 32 E w = (r, w1)" by (rule prod.exhaust)
  then show "bootstrap_generateKey E w = generate_key E w"
    by (cases r) (simp_all add: bootstrap_generateKey_def generate_key_def GenerateAPIKey_def bootstrap_keyPrefix_def
        keyPrefix_def go_bind_def wrap_err_def attempt_def asks_run go_run Let_def throw_def ret_def)
qed

lemma bootstrap_scopes_all: "bootstrap_scopes = AllScopes"
  by (simp add: bootstrap_scopes_def AllScopes_def)

lemma generate_key_success:
  assumes "generate_key E w = (Inr (plaintext, hash, shown), w')"
  shows "hash = HashAPIKey (sha256_sum E) plaintext \<and> w_db w' = w_db w \<and>
    w_tick w' = Suc (w_tick w)"
proof -
  obtain r w1 where r: "rand_Read 32 E w = (r, w1)" by (rule prod.exhaust)
  then have "w_db w1 = w_db w \<and> w_tick w1 = Suc (w_tick w)"
    by (auto simp: rand_Read_def external_def tick_world_def split: option.splits)
  with assms r show ?thesis
    by (cases r) (auto simp: generate_key_def GenerateAPIKey_def HashAPIKey_def go_bind_def attempt_def asks_run go_run
        Let_def throw_def ret_def split: sum.splits)
qed

lemma bootstrap_success:
  assumes "bootstrap dbURL orgName slug keyName E w = (Inr (orgID, plaintext), w')"
  shows "dbURL \<noteq> [] \<and> \<not> has_key o_Slug slug (t_organizations (w_db w)) \<and>
    (\<exists>t. t_organizations (w_db w') = t_organizations (w_db w) @
       [\<lparr>o_ID = orgID, o_Name = orgName, o_Slug = slug, o_Plan = ''free'', o_Settings = [], o_CreatedAt = t, o_UpdatedAt = t\<rparr>]) \<and>
    (\<exists>k. t_api_keys (w_db w') = t_api_keys (w_db w) @ [k] \<and> \<not> has_key k_KeyHash (k_KeyHash k) (t_api_keys (w_db w)) \<and>
       k_KeyHash k = HashAPIKey (sha256_sum E) plaintext \<and> k_OrgID k = orgID \<and> k_PodID k = None \<and> k_ExpiresAt k = None \<and>
       k_RevokedAt k = None \<and> k_Scopes k = AllScopes)"
  using assms
  by (auto simp: bootstrap_def go_success bootstrap_generateKey_eq uuid_New_def time_Now_def pool_exec_eq_Inr
      org_insert_def key_insert_def require_eq_Inr or_empty_def bootstrap_scopes_all dest!: generate_key_success)

text \<open>C38. The tool does what it is run for: when it succeeds, the organisation is new, with a slug of its own, the free plan and
  no settings, and the key it prints is, at any later time, accepted by the authorizer as a key of this organisation
  with every scope and no restriction to a pod. No row of another organisation or key changes.\<close>

theorem bootstrap_key_works:
  assumes faultless: "no_faults E"
    and run: "bootstrap dbURL orgName slug keyName E w = (Inr (orgID, plaintext), w')"
  shows "\<not> has_key o_Slug slug (t_organizations (w_db w)) \<and>
    (\<exists>r. t_organizations (w_db w') = t_organizations (w_db w) @ [r] \<and> o_ID r = orgID \<and> o_Name r = orgName \<and> o_Slug r = slug \<and>
       o_Plan r = ''free'') \<and>
    (\<exists>k. t_api_keys (w_db w') = t_api_keys (w_db w) @ [k]) \<and>
    (\<forall>w1. t_api_keys (w_db w1) = t_api_keys (w_db w') \<longrightarrow>
       (\<exists>c w2. validateKey plaintext E w1 = (Inr c, w2) \<and> cl_OrgID c = orgID \<and> (\<forall>s. HasScope c s) \<and> (\<forall>p. CanAccessPod c p)))"
proof -
  note res = bootstrap_success [OF run]
  then obtain k where k: "t_api_keys (w_db w') = t_api_keys (w_db w) @ [k]"
    "\<not> has_key k_KeyHash (k_KeyHash k) (t_api_keys (w_db w))" "k_KeyHash k = HashAPIKey (sha256_sum E) plaintext" "k_OrgID k = orgID"
    "k_PodID k = None" "k_ExpiresAt k = None" "k_RevokedAt k = None" "k_Scopes k = AllScopes" by blast
  have "\<exists>c w2. validateKey plaintext E w1 = (Inr c, w2) \<and> cl_OrgID c = orgID \<and> (\<forall>s. HasScope c s) \<and> (\<forall>p. CanAccessPod c p)"
    if same: "t_api_keys (w_db w1) = t_api_keys (w_db w')" for w1
  proof -
    have "\<exists>w2. validateKey plaintext E w1 = (Inr (key_claims k), w2)"
      using k same by (intro validateKey_run [OF faultless]) (auto simp: key_usable_def has_key_def image_iff)
    with k show ?thesis by (auto simp: key_claims_def HasScope_iff CanAccessPod_def AllScopes_def)
  qed
  with res k(1) show ?thesis by auto
qed

theorem bootstrap_key_works_witness:
  "\<exists>orgID plaintext w'. bootstrap ''postgres://'' ''My Org'' ''my-org'' ''bootstrap'' demo_env demo_key_world = (Inr (orgID, plaintext), w') \<and>
    (\<exists>c w2. validateKey plaintext demo_env w' = (Inr c, w2) \<and> cl_OrgID c = orgID \<and> (\<forall>s. HasScope c s) \<and> (\<forall>p. CanAccessPod c p))"
proof -
  let ?r = "bootstrap ''postgres://'' ''My Org'' ''my-org'' ''bootstrap'' demo_env demo_key_world"
  have "\<not> isl (fst ?r)" by code_simp
  then obtain orgID plaintext where "fst ?r = Inr (orgID, plaintext)" by (cases "fst ?r") auto
  then have r: "?r = (Inr (orgID, plaintext), snd ?r)" by (metis prod.collapse)
  have "no_faults demo_env" by (simp add: no_faults_def)
  from bootstrap_key_works [OF this r] show ?thesis using r by blast
qed

text \<open>The tool is not atomic: when anything fails after the first statement, here the insert of the key, the organisation
  stays without a key, and running the tool again with the same slug fails at the organisation, whatever else holds,
  and changes nothing.\<close>

lemma bootstrap_leaves_org:
  assumes url: "dbURL \<noteq> []"
    and fresh: "\<not> has_key o_ID (new_uuid E (w_tick w)) (t_organizations (w_db w))"
      "\<not> has_key o_Slug slug (t_organizations (w_db w))"
    and ok: "fault E (Suc (w_tick w)) = None" "fault E (Suc (Suc (w_tick w))) = None"
    and failing: "fault E (w_tick w + 5) = Some s"
  shows "fst (bootstrap dbURL orgName slug keyName E w) = Inl (Wrap ''create api key'' (ExternalError s)) \<and>
    (let w1 = snd (bootstrap dbURL orgName slug keyName E w)
     in t_api_keys (w_db w1) = t_api_keys (w_db w) \<and> has_key o_Slug slug (t_organizations (w_db w1)) \<and>
        (\<forall>E2 w2 name2 key2. w_db w2 = w_db w1 \<longrightarrow>
          isl (fst (bootstrap dbURL name2 slug key2 E2 w2)) \<and> w_db (snd (bootstrap dbURL name2 slug key2 E2 w2)) = w_db w2))"
proof -
  have again: "isl (fst (bootstrap dbURL name2 slug key2 E2 w2)) \<and> w_db (snd (bootstrap dbURL name2 slug key2 E2 w2)) = w_db w2"
    if "has_key o_Slug slug (t_organizations (w_db w2))" for E2 w2 name2 key2
    using url that
    by (auto simp: bootstrap_def go_bind_def fail_if_run uuid_New_def wrap_err_def pool_exec_def external_def run_stmt_def
        org_insert_def require.simps tick_world_def split: option.splits)
  have five: "w_tick w + 5 = Suc (Suc (Suc (Suc (Suc (w_tick w)))))" by simp
  have "fst (bootstrap dbURL orgName slug keyName E w) = Inl (Wrap ''create api key'' (ExternalError s)) \<and>
     t_api_keys (w_db (snd (bootstrap dbURL orgName slug keyName E w))) = t_api_keys (w_db w) \<and>
     has_key o_Slug slug (t_organizations (w_db (snd (bootstrap dbURL orgName slug keyName E w))))"
    using assms
    by (simp add: bootstrap_def go_bind_def fail_if_run uuid_New_def time_Now_def wrap_err_def pool_exec_def external_def run_stmt_def
        org_insert_def require.simps tick_world_def bootstrap_generateKey_eq generate_key_def attempt_def rand_Read_def asks_run
        GenerateAPIKey_def go_run five has_key_def Let_def)
  with again show ?thesis by (simp add: Let_def)
qed

definition demo_key_failure :: env where
  "demo_key_failure = demo_env\<lparr>fault := (\<lambda>t. if t = w_tick demo_key_world + 5 then Some ''connection reset'' else None)\<rparr>"

lemma bootstrap_leaves_org_at_demo:
  "(let w1 = snd (bootstrap ''postgres://'' ''My Org'' ''my-org'' ''bootstrap'' demo_key_failure demo_key_world)
    in t_api_keys (w_db w1) = t_api_keys (w_db demo_key_world) \<and> has_key o_Slug ''my-org'' (t_organizations (w_db w1)) \<and>
       isl (fst (bootstrap ''postgres://'' ''My Org'' ''my-org'' ''bootstrap'' demo_env w1)))"
proof -
  have "\<not> has_key o_ID (new_uuid demo_key_failure (w_tick demo_key_world)) (t_organizations (w_db demo_key_world))" by code_simp
  moreover have "\<not> has_key o_Slug ''my-org'' (t_organizations (w_db demo_key_world))" by code_simp
  moreover have "fault demo_key_failure (w_tick demo_key_world + 5) = Some ''connection reset''" by (simp add: demo_key_failure_def)
  moreover have "fault demo_key_failure (Suc (w_tick demo_key_world)) = None" "fault demo_key_failure (Suc (Suc (w_tick demo_key_world))) = None"
    by (simp_all add: demo_key_failure_def)
  ultimately have "(let w1 = snd (bootstrap ''postgres://'' ''My Org'' ''my-org'' ''bootstrap'' demo_key_failure demo_key_world)
     in t_api_keys (w_db w1) = t_api_keys (w_db demo_key_world) \<and> has_key o_Slug ''my-org'' (t_organizations (w_db w1)) \<and>
        (\<forall>E2 w2 name2 key2. w_db w2 = w_db w1 \<longrightarrow>
          isl (fst (bootstrap ''postgres://'' name2 ''my-org'' key2 E2 w2)) \<and>
          w_db (snd (bootstrap ''postgres://'' name2 ''my-org'' key2 E2 w2)) = w_db w2))"
    by (intro bootstrap_leaves_org [THEN conjunct2]) simp_all
  then show ?thesis unfolding Let_def by blast
qed

end
