(* ===== verification/Schema.thy ===== *)
theory Schema
  imports Api Webhook_Dispatcher Inbound_Delivery Outbound_Delivery Ses_Events Domains Search Web_Sockets Tools
begin

text \<open>
  The type of the database: what the keys, CHECK and UNIQUE constraints and foreign keys of the migrations say of the
  tables at any moment, and that every statement of the program keeps it, the cascades of the deletions included.
\<close>

section \<open>The constraints\<close>

text \<open>\<open>refs xs keys\<close>: each reference that is not NULL names a key.\<close>

definition refs :: "'k option list \<Rightarrow> 'k list \<Rightarrow> bool" where
  "refs xs keys = list_all (\<lambda>x. case x of None \<Rightarrow> True | Some k \<Rightarrow> k \<in> set keys) xs"

text \<open>The values of a CHECK and of a NOT NULL column.\<close>

definition among :: "'a list \<Rightarrow> 'a list \<Rightarrow> bool" where
  "among xs allowed = list_all (\<lambda>x. x \<in> set allowed) xs"

definition lacks :: "'a list \<Rightarrow> 'a \<Rightarrow> bool" where
  "lacks xs x = list_all (\<lambda>y. y \<noteq> x) xs"

definition keys_ok :: "database \<Rightarrow> bool" where
  "keys_ok d =
     (distinct (map o_ID (t_organizations d)) \<and> distinct (map p_ID (t_pods d)) \<and>
      distinct (map ib_ID (t_inboxes d)) \<and> distinct (map tr_id (t_threads d)) \<and> distinct (map mr_id (t_messages d)) \<and>
      distinct (map at_ID (t_attachments d)) \<and> distinct (map lb_ID (t_labels d)) \<and> distinct (map dr_id (t_drafts d)) \<and>
      distinct (map wh_ID (t_webhooks d)) \<and> distinct (map wd_ID (t_webhook_deliveries d)) \<and>
      distinct (map k_ID (t_api_keys d)) \<and> distinct (map dc_ID (t_domain_configs d)) \<and>
      distinct (map wsc_connection_id (t_websocket_connections d)))"

definition unique_ok :: "database \<Rightarrow> bool" where
  "unique_ok d =
     (distinct (map o_Slug (t_organizations d)) \<and>
      distinct (map (\<lambda>r. (p_OrgID r, p_Slug r)) (t_pods d)) \<and> distinct (map ib_Email (t_inboxes d)) \<and>
      distinct (map (\<lambda>r. (lb_OrgID r, lb_Name r)) (t_labels d)) \<and>
      distinct (map (\<lambda>r. (tl_ThreadID r, tl_LabelID r)) (t_thread_labels d)) \<and>
      distinct (map k_KeyHash (t_api_keys d)) \<and> distinct (map dc_Domain (t_domain_configs d)))"

definition checks_ok :: "database \<Rightarrow> bool" where
  "checks_ok d =
     (among (map ib_Status (t_inboxes d)) inbox_statuses \<and> among (map tr_status (t_threads d)) thread_statuses \<and>
      among (map mr_direction (t_messages d)) message_directions \<and> among (map mr_status (t_messages d)) message_statuses \<and>
      lacks (map (\<lambda>a. (at_MessageID a, at_DraftID a)) (t_attachments d)) (None, None) \<and>
      among (map dr_review_status (t_drafts d)) review_statuses \<and> lacks (map wh_Events (t_webhooks d)) None \<and>
      among (map wd_Status (t_webhook_deliveries d)) delivery_statuses \<and>
      among (map dc_Status (t_domain_configs d)) domain_statuses \<and> lacks (map dc_PodID (t_domain_configs d)) None)"

definition org_refs_ok :: "database \<Rightarrow> bool" where
  "org_refs_ok d =
     (let orgs = map o_ID (t_organizations d)
      in refs (map (\<lambda>r. Some (p_OrgID r)) (t_pods d)) orgs \<and> refs (map (\<lambda>r. Some (ib_OrgID r)) (t_inboxes d)) orgs \<and>
         refs (map (\<lambda>r. Some (tr_org_id r)) (t_threads d)) orgs \<and> refs (map (\<lambda>r. Some (mr_org_id r)) (t_messages d)) orgs \<and>
         refs (map (\<lambda>r. Some (at_OrgID r)) (t_attachments d)) orgs \<and> refs (map (\<lambda>r. Some (lb_OrgID r)) (t_labels d)) orgs \<and>
         refs (map (\<lambda>r. Some (dr_org_id r)) (t_drafts d)) orgs \<and> refs (map (\<lambda>r. Some (wh_OrgID r)) (t_webhooks d)) orgs \<and>
         refs (map (\<lambda>r. Some (k_OrgID r)) (t_api_keys d)) orgs \<and> refs (map (\<lambda>r. Some (dc_OrgID r)) (t_domain_configs d)) orgs)"

definition pod_refs_ok :: "database \<Rightarrow> bool" where
  "pod_refs_ok d =
     (let pods = map p_ID (t_pods d)
      in refs (map ib_PodID (t_inboxes d)) pods \<and> refs (map wh_PodID (t_webhooks d)) pods \<and>
         refs (map k_PodID (t_api_keys d)) pods \<and> refs (map dc_PodID (t_domain_configs d)) pods)"

definition mail_refs_ok :: "database \<Rightarrow> bool" where
  "mail_refs_ok d =
     (let inboxes = map ib_ID (t_inboxes d); threads = map tr_id (t_threads d); messages = map mr_id (t_messages d);
          drafts = map dr_id (t_drafts d)
      in refs (map (\<lambda>r. Some (tr_inbox_id r)) (t_threads d)) inboxes \<and>
         refs (map (\<lambda>r. Some (mr_inbox_id r)) (t_messages d)) inboxes \<and>
         refs (map (\<lambda>r. Some (mr_thread_id r)) (t_messages d)) threads \<and>
         refs (map at_MessageID (t_attachments d)) messages \<and> refs (map at_DraftID (t_attachments d)) drafts \<and>
         refs (map (\<lambda>r. Some (tl_ThreadID r)) (t_thread_labels d)) threads \<and>
         refs (map (\<lambda>r. Some (tl_LabelID r)) (t_thread_labels d)) (map lb_ID (t_labels d)) \<and>
         refs (map (\<lambda>r. Some (dr_inbox_id r)) (t_drafts d)) inboxes \<and> refs (map dr_thread_id (t_drafts d)) threads \<and>
         refs (map dr_message_id (t_drafts d)) messages \<and> refs (map wh_InboxID (t_webhooks d)) inboxes \<and>
         refs (map (\<lambda>r. Some (wd_WebhookID r)) (t_webhook_deliveries d)) (map wh_ID (t_webhooks d)))"

definition schema_ok :: "database \<Rightarrow> bool" where
  "schema_ok d = (keys_ok d \<and> unique_ok d \<and> checks_ok d \<and> org_refs_ok d \<and> pod_refs_ok d \<and> mail_refs_ok d)"

lemmas schema_defs = schema_ok_def keys_ok_def unique_ok_def checks_ok_def org_refs_ok_def pod_refs_ok_def mail_refs_ok_def Let_def

section \<open>References and updates\<close>

named_theorems schema_simps

lemma refs_simps [schema_simps]:
  "refs [] ks = True" "refs (x # xs) ks = ((case x of None \<Rightarrow> True | Some k \<Rightarrow> k \<in> set ks) \<and> refs xs ks)"
  "refs (xs @ ys) ks = (refs xs ks \<and> refs ys ks)"
  by (simp_all add: refs_def)

lemma among_simps [schema_simps]:
  "among [] ok = True" "among (x # xs) ok = (x \<in> set ok \<and> among xs ok)" "among (xs @ ys) ok = (among xs ok \<and> among ys ok)"
  by (simp_all add: among_def)

lemma lacks_simps [schema_simps]:
  "lacks [] x = True" "lacks (y # ys) x = (y \<noteq> x \<and> lacks ys x)" "lacks (xs @ ys) x = (lacks xs x \<and> lacks ys x)"
  by (simp_all add: lacks_def)

lemma refs_iff: "refs xs ks \<longleftrightarrow> (\<forall>k. Some k \<in> set xs \<longrightarrow> k \<in> set ks)"
  by (fastforce simp: refs_def list_all_iff split: option.splits)

lemma refs_more [schema_simps]: "refs xs ks \<Longrightarrow> refs xs (ks @ ks')"
  by (auto simp: refs_iff)

lemma del_where_simps [schema_simps]:
  "refs (map f rs) ks \<Longrightarrow> refs (map f (del_where p rs)) ks" "among (map g rs) ok \<Longrightarrow> among (map g (del_where p rs)) ok"
  "lacks (map h rs) x \<Longrightarrow> lacks (map h (del_where p rs)) x" "distinct (map i rs) \<Longrightarrow> distinct (map i (del_where p rs))"
  by (auto simp: refs_iff among_def lacks_def list_all_iff del_where_def distinct_map_filter)

section \<open>Insertions\<close>

lemma stmt_keepsI: "(\<And>now d x d'. Q d \<Longrightarrow> st now d = Inr (x, d') \<Longrightarrow> Q d') \<Longrightarrow> stmt_keeps Q st"
  by (auto simp: stmt_keeps_def)

lemmas insert_simps = require_eq_Inr has_key_def schema_defs schema_simps

lemma schema_org_insert [keeps_intros]: "stmt_keeps schema_ok (org_insert i name slug)"
  by (rule stmt_keepsI) (auto simp: org_insert_def insert_simps)

lemma schema_pod_insert [keeps_intros]: "stmt_keeps schema_ok (pod_insert r)"
  by (rule stmt_keepsI) (simp add: pod_insert_def insert_simps split: option.splits)

lemma schema_inbox_insert [keeps_intros]: "stmt_keeps schema_ok (inbox_insert r)"
  by (rule stmt_keepsI) (simp add: inbox_insert_def insert_simps split: option.splits)

lemma schema_thread_insert [keeps_intros]: "stmt_keeps schema_ok (thread_insert r)"
  by (rule stmt_keepsI) (simp add: thread_insert_def insert_simps split: option.splits)

lemma schema_message_insert [keeps_intros]: "stmt_keeps schema_ok (message_insert r)"
  by (rule stmt_keepsI) (simp add: message_insert_def insert_simps split: option.splits)

lemma schema_attachment_insert [keeps_intros]: "stmt_keeps schema_ok (attachment_insert r)"
  by (rule stmt_keepsI) (simp add: attachment_insert_def insert_simps split: option.splits)

lemma schema_label_insert [keeps_intros]: "stmt_keeps schema_ok (label_insert r)"
  by (rule stmt_keepsI) (simp add: label_insert_def insert_simps split: option.splits)

lemma schema_thread_label_insert [keeps_intros]: "stmt_keeps schema_ok (thread_label_insert t l)"
  by (rule stmt_keepsI) (auto simp: thread_label_insert_def insert_simps split: if_splits)

lemma schema_draft_insert [keeps_intros]: "dr_message_id r = None \<Longrightarrow> stmt_keeps schema_ok (draft_insert r)"
  by (rule stmt_keepsI) (simp add: draft_insert_def insert_simps split: option.splits)

lemma schema_webhook_insert [keeps_intros]: "stmt_keeps schema_ok (webhook_insert r)"
  by (rule stmt_keepsI) (simp add: webhook_insert_def insert_simps split: option.splits)

lemma schema_delivery_insert [keeps_intros]: "stmt_keeps schema_ok (delivery_insert r)"
  by (rule stmt_keepsI) (simp add: delivery_insert_def insert_simps split: option.splits)

lemma schema_key_insert [keeps_intros]: "stmt_keeps schema_ok (key_insert r scopes)"
  by (rule stmt_keepsI) (simp add: key_insert_def insert_simps split: option.splits)

lemma schema_domain_insert [keeps_intros]: "stmt_keeps schema_ok (domain_insert r)"
  by (rule stmt_keepsI) (simp add: domain_insert_def insert_simps split: option.splits)

section \<open>Updates of columns without constraints\<close>

lemmas update_simps = require_eq_Inr schema_defs

lemma schema_updates [keeps_intros]:
  "stmt_keeps schema_ok (org_rename i name)" "stmt_keeps schema_ok (pod_update org p name desc settings)"
  "stmt_keeps schema_ok (key_touch i)" "stmt_keeps schema_ok (key_revoke org i)"
  "stmt_keeps schema_ok (thread_incr t now' snippet)" "stmt_keeps schema_ok (participants_merge merge t ps)"
  by (rule stmt_keepsI, clarsimp simp: org_rename_def pod_update_def pod_set_def key_touch_def key_revoke_def thread_incr_def
      participants_merge_def update_simps split: option.splits)+

lemma schema_embedding_update [keeps_intros]: "stmt_keeps schema_ok (embedding_update i v)"
  by (rule stmt_keepsI) (clarsimp simp: embedding_update_def update_simps split: option.splits if_splits)

lemma schema_connection_upsert [keeps_intros]: "stmt_keeps schema_ok (connection_upsert x)"
  by (rule stmt_keepsI) (clarsimp simp: connection_upsert_def has_key_def update_simps split: if_splits)

lemma schema_message_update [keeps_intros]: "stmt_keeps schema_ok (message_update org i patch)"
  by (rule stmt_keepsI) (clarsimp simp: message_update_def message_set_def update_simps split: list.splits)

section \<open>Updates of constrained columns\<close>

lemma among_upd:
  assumes "among (map g rs) ok" "\<And>r. r \<in> set rs \<Longrightarrow> p r \<Longrightarrow> g r \<in> set ok \<Longrightarrow> g (f r) \<in> set ok"
  shows "among (map g (upd_where p f rs)) ok"
  using assms by (auto simp: among_def list_all_iff in_upd_where)

lemma lacks_upd:
  assumes "lacks (map g rs) x" "\<And>r. r \<in> set rs \<Longrightarrow> p r \<Longrightarrow> g r \<noteq> x \<Longrightarrow> g (f r) \<noteq> x"
  shows "lacks (map g (upd_where p f rs)) x"
  using assms by (force simp: lacks_def list_all_iff upd_where_def)

lemma refs_upd:
  assumes "refs (map g rs) ks" "\<And>r k. r \<in> set rs \<Longrightarrow> p r \<Longrightarrow> g (f r) = Some k \<Longrightarrow> k \<in> set ks \<or> g r = Some k"
  shows "refs (map g (upd_where p f rs)) ks"
proof -
  have "k \<in> set ks" if k: "g r = Some k" and r: "r \<in> set (upd_where p f rs)" for r k
  proof -
    from r obtain r0 where r0: "r0 \<in> set rs" "r = (if p r0 then f r0 else r0)" by (auto simp: in_upd_where)
    from r0(1) assms(1) have "g r0 = Some k \<Longrightarrow> k \<in> set ks" by (force simp: refs_iff)
    with r0 k assms(2) show ?thesis by (cases "p r0") auto
  qed
  then show ?thesis by (auto simp: refs_iff)
qed

lemma schema_inbox_update [keeps_intros]: "stmt_keeps schema_ok (inbox_update org i patch)"
  by (rule stmt_keepsI)
    (clarsimp simp: inbox_update_def inbox_set_def update_simps among_upd supplied_def split: list.splits option.splits)

lemma schema_thread_update [keeps_intros]: "stmt_keeps schema_ok (thread_update org i patch)"
  by (rule stmt_keepsI)
    (clarsimp simp: thread_update_def thread_set_def update_simps among_upd supplied_def split: list.splits option.splits)

lemma schema_domain_update [keeps_intros]: "stmt_keeps schema_ok (domain_update_status org i status t)"
  by (rule stmt_keepsI)
    (auto simp: domain_update_status_def domain_set_def update_simps filter_empty_conv intro!: among_upd)

lemma schema_message_set_status [keeps_intros]: "stmt_keeps schema_ok (message_set_status org i status)"
  by (rule stmt_keepsI) (auto simp: message_set_status_def update_simps filter_empty_conv intro!: among_upd)

lemma schema_status_update [keeps_intros]: "stmt_keeps schema_ok (status_update i status)"
  by (rule stmt_keepsI) (auto simp: status_update_def update_simps intro!: among_upd)

lemma schema_sent_at_update [keeps_intros]: "stmt_keeps schema_ok (sent_at_update i t)"
  by (rule stmt_keepsI)
    (auto simp: sent_at_update_def advance_status_def message_statuses_def update_simps intro!: among_upd)

lemma schema_draft_update [keeps_intros]: "stmt_keeps schema_ok (draft_update E org i patch)"
  by (rule stmt_keepsI)
    (auto simp: draft_update_def draft_set_def supplied_def has_key_def update_simps split: list.splits option.splits
      intro!: among_upd refs_upd)

lemma schema_webhook_update [keeps_intros]: "stmt_keeps schema_ok (webhook_update org i columns)"
  by (rule stmt_keepsI) (auto simp: webhook_update_def webhook_set_def update_simps intro!: lacks_upd split: list.splits)

lemma schema_label_update [keeps_intros]: "stmt_keeps schema_ok (label_update org i patch)"
proof (rule stmt_keepsI)
  fix now d r d' assume ok: "schema_ok d" and upd: "label_update org i patch now d = Inr (r, d')"
  then have "label_names_unique d" by (simp add: schema_defs label_names_unique_def)
  with upd label_update_unique [of org i patch] have "label_names_unique d'" by (auto simp: stmt_keeps_def)
  moreover from upd obtain p where "d' = d\<lparr>t_labels := upd_where p (label_set patch now) (t_labels d)\<rparr>"
    unfolding label_update_eq_Inr by blast
  ultimately show "schema_ok d'" using ok by (simp add: label_names_unique_def label_set_def schema_defs)
qed

lemma schema_header_update [keeps_intros]:
  assumes "\<And>now r. mr_id (f now r) = mr_id r" "\<And>now r. mr_org_id (f now r) = mr_org_id r"
    "\<And>now r. mr_inbox_id (f now r) = mr_inbox_id r" "\<And>now r. mr_thread_id (f now r) = mr_thread_id r"
    "\<And>now r. mr_direction (f now r) = mr_direction r"
  shows "stmt_keeps schema_ok (header_update n header f)"
  by (rule stmt_keepsI)
    (auto simp: header_update_def with_header_def update_simps assms split: if_splits sum.splits intro!: among_upd)

lemma schema_delivery_update [keeps_intros]:
  assumes "\<And>now r. wd_ID (f now r) = wd_ID r" "\<And>now r. wd_WebhookID (f now r) = wd_WebhookID r"
    "\<And>now r. wd_Status (f now r) \<in> set delivery_statuses"
  shows "stmt_keeps schema_ok (delivery_update i f)"
  by (rule stmt_keepsI) (auto simp: delivery_update_def update_simps assms intro!: among_upd)

lemma schema_webhook_touch [keeps_intros]:
  assumes "\<And>now r. wh_ID (f now r) = wh_ID r" "\<And>now r. wh_OrgID (f now r) = wh_OrgID r" "\<And>now r. wh_PodID (f now r) = wh_PodID r"
    "\<And>now r. wh_InboxID (f now r) = wh_InboxID r" "\<And>now r. wh_Events (f now r) = wh_Events r"
  shows "stmt_keeps schema_ok (webhook_touch i f)"
  by (rule stmt_keepsI) (clarsimp simp: webhook_touch_def update_simps assms)

lemma schema_link_attachments [keeps_intros]: "stmt_keeps schema_ok (link_draft_attachments i m)"
  by (rule stmt_keepsI)
    (auto simp: link_draft_attachments_def attachments_link_def has_key_def update_simps intro!: refs_upd lacks_upd)

lemma schema_counted [keeps_intros]: "stmt_keeps Q st \<Longrightarrow> stmt_keeps Q (counted rows st)"
  by (fastforce simp: stmt_keeps_def counted_def split: sum.splits)

section \<open>Deletions\<close>

text \<open>References of the rows that stay, when the rows that refer to a deleted one go or are cleared.\<close>

lemma refs_del_target:
  assumes "refs (map f rs) (map k ts)" "\<And>r t. r \<in> set rs \<Longrightarrow> t \<in> set ts \<Longrightarrow> f r = Some (k t) \<Longrightarrow> \<not> p t"
  shows "refs (map f rs) (map k (del_where p ts))"
  using assms by (force simp: refs_iff)

lemma schema_leaf_deletes [keeps_intros]:
  "stmt_keeps schema_ok (thread_label_delete t l)" "stmt_keeps schema_ok (delete_draft_attachments org i)"
  "stmt_keeps schema_ok (domain_delete org i)" "stmt_keeps schema_ok (connection_delete conn)"
  by (rule stmt_keepsI, clarsimp simp: thread_label_delete_def delete_draft_attachments_def domain_delete_def connection_delete_def schema_defs schema_simps)+

lemma schema_label_delete [keeps_intros]: "stmt_keeps schema_ok (label_delete org i)"
  by (rule stmt_keepsI)
    (auto simp: label_delete_def schema_defs schema_simps intro!: refs_del_target)

lemma schema_draft_delete [keeps_intros]: "stmt_keeps schema_ok (draft_delete org i)"
  by (rule stmt_keepsI)
    (auto simp: draft_delete_def schema_defs schema_simps intro!: refs_del_target)

lemma schema_webhook_delete [keeps_intros]: "stmt_keeps schema_ok (webhook_delete org i)"
  by (rule stmt_keepsI)
    (auto simp: webhook_delete_def schema_defs schema_simps intro!: refs_del_target)

text \<open>Deleting a pod.\<close>

lemma refs_map: "refs (map f rs) ks \<longleftrightarrow> (\<forall>r \<in> set rs. \<forall>k. f r = Some k \<longrightarrow> k \<in> set ks)"
  by (force simp: refs_iff)

lemma kept_key: "i \<in> set (map k ts) \<Longrightarrow> (\<And>t. t \<in> set ts \<Longrightarrow> p t \<Longrightarrow> k t \<noteq> i) \<Longrightarrow> i \<in> set (map k (del_where p ts))"
  by (auto simp del: set_map simp: set_map [of k])

lemma refs_kept:
  assumes "refs (map f rs) (map k ts)" "\<And>r i. r \<in> set rs \<Longrightarrow> \<not> q r \<Longrightarrow> f r = Some i \<Longrightarrow> \<not> gone i"
    "\<And>t. t \<in> set ts \<Longrightarrow> p t \<Longrightarrow> gone (k t)"
  shows "refs (map f (del_where q rs)) (map k (del_where p ts))"
  unfolding refs_map
proof (intro ballI allI impI)
  fix r i assume r: "r \<in> set (del_where q rs)" "f r = Some i"
  then have "r \<in> set rs" "\<not> gone i" using assms(2) [of r i] by simp_all
  with r(2) assms(1,3) show "i \<in> set (map k (del_where p ts))" by (intro kept_key) (auto simp: refs_map)
qed

lemma refs_cascade:
  assumes "refs (map f rs) (map k ts)" "\<And>t. t \<in> set ts \<Longrightarrow> p t \<Longrightarrow> gone (k t)"
  shows "refs (map f (del_where (\<lambda>r. refers gone (f r)) rs)) (map k (del_where p ts))"
  using assms(1) by (rule refs_kept [where gone = gone]) (simp_all add: refers_def assms(2))

lemma refs_unlink:
  assumes "refs (map f rs) (map k ts)" "\<And>r. q r \<Longrightarrow> f (g r) = unlink gone (f r)" "\<And>r. refers gone (f r) \<Longrightarrow> q r"
    "\<And>t. t \<in> set ts \<Longrightarrow> p t \<Longrightarrow> gone (k t)"
  shows "refs (map f (upd_where q g rs)) (map k (del_where p ts))"
  unfolding refs_map
proof (intro ballI allI impI)
  fix r i assume r: "r \<in> set (upd_where q g rs)" "f r = Some i"
  then obtain r0 where r0: "r0 \<in> set rs" "r = (if q r0 then g r0 else r0)" by (auto simp: in_upd_where)
  with r(2) assms(2,3) [of r0] have "f r0 = Some i \<and> \<not> gone i"
    by (cases "f r0"; cases "q r0") (auto simp: unlink_def refers_def split: if_splits)
  with r0(1) assms(1,4) show "i \<in> set (map k (del_where p ts))" by (intro kept_key) (auto simp: refs_map)
qed

lemma refs_clear:
  assumes "refs (map f rs) (map k ts)" "\<And>r. f (g r) = None" "\<And>t. t \<in> set ts \<Longrightarrow> p t \<Longrightarrow> gone (k t)"
  shows "refs (map f (upd_where (\<lambda>r. refers gone (f r)) g rs)) (map k (del_where p ts))"
  using assms(1) by (rule refs_unlink [where gone = gone])
    (auto simp: assms(2,3) refers_def unlink_def split: option.splits)

lemma schema_pod_delete [keeps_intros]: "stmt_keeps schema_ok (pod_delete org i)"
proof (rule stmt_keepsI)
  fix now d n d' assume ok: "schema_ok d" and "pod_delete org i now d = Inr (n, d')"
  moreover define gone where "gone = (\<lambda>j. j \<in> set (map p_ID (filter (pod_hit org i) (t_pods d))))"
  ultimately have d': "d' = (pod_cascade gone now d)\<lparr>t_pods := del_where (pod_hit org i) (t_pods d)\<rparr>"
    by (auto simp: pod_delete_def Let_def)
  have "gone (p_ID t)" if "t \<in> set (t_pods d)" "pod_hit org i t" for t
    unfolding gone_def using that by simp
  with ok show "schema_ok d'"
    unfolding d' pod_cascade_def by (simp add: schema_defs schema_simps refs_clear refs_cascade)
qed

text \<open>Deleting an inbox: its threads, the messages of either, its drafts, and the attachments and labels of those.\<close>

definition gone_threads :: "(uuid \<Rightarrow> bool) \<Rightarrow> database \<Rightarrow> uuid \<Rightarrow> bool" where
  "gone_threads gone d i = (\<exists>t \<in> set (t_threads d). tr_id t = i \<and> gone (tr_inbox_id t))"

definition gone_messages :: "(uuid \<Rightarrow> bool) \<Rightarrow> database \<Rightarrow> uuid \<Rightarrow> bool" where
  "gone_messages gone d i = (\<exists>m \<in> set (t_messages d). mr_id m = i \<and> (gone (mr_inbox_id m) \<or> gone_threads gone d (mr_thread_id m)))"

definition gone_drafts :: "(uuid \<Rightarrow> bool) \<Rightarrow> database \<Rightarrow> uuid \<Rightarrow> bool" where
  "gone_drafts gone d i = (\<exists>r \<in> set (t_drafts d). dr_id r = i \<and> gone (dr_inbox_id r))"

lemma gone_row:
  "t \<in> set (t_threads d) \<Longrightarrow> \<not> gone_threads gone d (tr_id t) \<Longrightarrow> \<not> gone (tr_inbox_id t)"
  "m \<in> set (t_messages d) \<Longrightarrow> \<not> gone_messages gone d (mr_id m) \<Longrightarrow> \<not> gone (mr_inbox_id m)"
  "m \<in> set (t_messages d) \<Longrightarrow> \<not> gone_messages gone d (mr_id m) \<Longrightarrow> \<not> gone_threads gone d (mr_thread_id m)"
  "r \<in> set (t_drafts d) \<Longrightarrow> \<not> gone_drafts gone d (dr_id r) \<Longrightarrow> \<not> gone (dr_inbox_id r)"
  by (auto simp: gone_threads_def gone_messages_def gone_drafts_def)

lemma inbox_cascade_rows:
  "inbox_cascade gone now d =
     (let gt = gone_threads gone d; gm = gone_messages gone d
      in d\<lparr>t_threads := del_where (\<lambda>t. gt (tr_id t)) (t_threads d),
           t_messages := del_where (\<lambda>m. gm (mr_id m)) (t_messages d),
           t_attachments := del_where (\<lambda>a. refers gm (at_MessageID a) \<or> refers (gone_drafts gone d) (at_DraftID a)) (t_attachments d),
           t_thread_labels := del_where (\<lambda>l. gt (tl_ThreadID l)) (t_thread_labels d),
           t_drafts := upd_where (\<lambda>r. refers gt (dr_thread_id r) \<or> refers gm (dr_message_id r))
             (\<lambda>r. r\<lparr>dr_thread_id := unlink gt (dr_thread_id r), dr_message_id := unlink gm (dr_message_id r), dr_updated_at := now\<rparr>)
             (del_where (\<lambda>r. gone_drafts gone d (dr_id r)) (t_drafts d)),
           t_webhooks := upd_where (\<lambda>h. refers gone (wh_InboxID h)) (\<lambda>h. h\<lparr>wh_InboxID := None, wh_UpdatedAt := now\<rparr>) (t_webhooks d)\<rparr>)"
  by (simp add: inbox_cascade_def Let_def gone_threads_def [abs_def] gone_messages_def [abs_def] gone_drafts_def [abs_def])

lemma schema_inbox_cascade:
  assumes ok: "mail_refs_ok d" and hits: "\<And>t. t \<in> set (t_inboxes d) \<Longrightarrow> hit t \<Longrightarrow> gone (ib_ID t)"
  shows "mail_refs_ok ((inbox_cascade gone now d)\<lparr>t_inboxes := del_where hit (t_inboxes d)\<rparr>)"
proof -
  note kept = refs_kept [where k = ib_ID and gone = gone] refs_kept [where k = tr_id and gone = "gone_threads gone d"]
    refs_kept [where k = mr_id and gone = "gone_messages gone d"] refs_kept [where k = dr_id and gone = "gone_drafts gone d"]
    refs_unlink [where k = tr_id and gone = "gone_threads gone d"] refs_unlink [where k = mr_id and gone = "gone_messages gone d"]
    refs_clear [where gone = gone]
  note rows = ok [unfolded mail_refs_ok_def Let_def] gone_row hits
  show ?thesis
    unfolding mail_refs_ok_def inbox_cascade_rows Let_def
    by (simp add: rows schema_simps del: set_map; intro conjI kept; simp add: rows schema_simps refers_def;
      use gone_row in blast)
qed

lemma schema_inbox_delete [keeps_intros]: "stmt_keeps schema_ok (inbox_delete org i)"
proof (rule stmt_keepsI)
  fix now d n d' assume ok: "schema_ok d" and "inbox_delete org i now d = Inr (n, d')"
  moreover define hit where "hit = (\<lambda>r :: inbox. ib_OrgID r = org \<and> ib_ID r = i)"
  moreover define gone where "gone = (\<lambda>j. j \<in> set (map ib_ID (filter hit (t_inboxes d))))"
  ultimately have d': "d' = (inbox_cascade gone now d)\<lparr>t_inboxes := del_where hit (t_inboxes d)\<rparr>"
    by (auto simp: inbox_delete_def Let_def)
  have "gone (ib_ID t)" if "t \<in> set (t_inboxes d)" "hit t" for t unfolding gone_def using that by simp
  with ok have "mail_refs_ok d'" unfolding d' by (intro schema_inbox_cascade) (simp_all add: schema_ok_def)
  moreover have "keys_ok d'" "unique_ok d'" "checks_ok d'" "org_refs_ok d'" "pod_refs_ok d'"
    using ok unfolding d' inbox_cascade_rows Let_def by (simp_all add: schema_defs schema_simps)
  ultimately show "schema_ok d'" by (simp add: schema_ok_def)
qed

end
