(* ===== verification/Tenants.thy ===== *)
theory Tenants
  imports Schema Draft_Lifecycle Message_Sending
begin

text \<open>
  What PostgreSQL does not check: a thread and a message belong to the organisation of their inbox, and a message to that of
  its thread.  The foreign keys are on the ids alone, so it is the lookups of the services, with the organisation of the
  caller, that keep the tenants apart.  Here: the invariant, every statement but the two insertions of mails keeps it, and so
  do the three operations that insert mails, because of what they have looked up.
\<close>

section \<open>The invariant\<close>

definition tenants_apart :: "database \<Rightarrow> bool" where
  "tenants_apart d =
     (let inboxes = map (\<lambda>i. (ib_ID i, ib_OrgID i)) (t_inboxes d); threads = map (\<lambda>t. (tr_id t, tr_org_id t)) (t_threads d)
      in among (map (\<lambda>t. (tr_inbox_id t, tr_org_id t)) (t_threads d)) inboxes \<and>
         among (map (\<lambda>m. (mr_inbox_id m, mr_org_id m)) (t_messages d)) inboxes \<and>
         among (map (\<lambda>m. (mr_thread_id m, mr_org_id m)) (t_messages d)) threads)"

lemma among_map: "among (map f xs) ks \<longleftrightarrow> (\<forall>x \<in> set xs. f x \<in> set ks)"
  by (simp add: among_def list_all_iff)

lemma tenants_apart_iff:
  "tenants_apart d \<longleftrightarrow>
     (\<forall>t \<in> set (t_threads d). \<exists>i \<in> set (t_inboxes d). ib_ID i = tr_inbox_id t \<and> ib_OrgID i = tr_org_id t) \<and>
     (\<forall>m \<in> set (t_messages d). (\<exists>i \<in> set (t_inboxes d). ib_ID i = mr_inbox_id m \<and> ib_OrgID i = mr_org_id m) \<and>
        (\<exists>t \<in> set (t_threads d). tr_id t = mr_thread_id m \<and> tr_org_id t = mr_org_id m))"
  by (auto simp: tenants_apart_def among_map Let_def image_iff) (metis prod.inject)+

definition database_ok :: "database \<Rightarrow> bool" where
  "database_ok d = (schema_ok d \<and> tenants_apart d)"

lemma kept_both [keeps_intros]: "stmt_keeps schema_ok st \<Longrightarrow> stmt_keeps tenants_apart st \<Longrightarrow> stmt_keeps database_ok st"
  by (auto simp: stmt_keeps_def database_ok_def)

lemma keeps_db_both: "keeps_db schema_ok m \<Longrightarrow> keeps_db tenants_apart m \<Longrightarrow> keeps_db database_ok m"
  by (auto simp: keeps_db_iff database_ok_def)

section \<open>Statements\<close>

text \<open>Most statements do not touch the keys of inboxes, threads and messages.\<close>

lemmas apart_simps = tenants_apart_def Let_def require_eq_Inr

lemma apart_inserts [keeps_intros]:
  "stmt_keeps tenants_apart (org_insert i name slug)" "stmt_keeps tenants_apart (pod_insert p)"
  "stmt_keeps tenants_apart (attachment_insert a)" "stmt_keeps tenants_apart (label_insert l)"
  "stmt_keeps tenants_apart (draft_insert r)" "stmt_keeps tenants_apart (webhook_insert h)"
  "stmt_keeps tenants_apart (delivery_insert x)" "stmt_keeps tenants_apart (key_insert k scopes)"
  "stmt_keeps tenants_apart (domain_insert c)"
  by (rule stmt_keepsI, clarsimp simp: org_insert_def pod_insert_def attachment_insert_def label_insert_def draft_insert_def
      webhook_insert_def delivery_insert_def key_insert_def domain_insert_def apart_simps)+

lemma apart_thread_label_insert [keeps_intros]: "stmt_keeps tenants_apart (thread_label_insert t l)"
  by (rule stmt_keepsI) (auto simp: thread_label_insert_def apart_simps split: if_splits)

lemma apart_inbox_insert [keeps_intros]: "stmt_keeps tenants_apart (inbox_insert r)"
  by (rule stmt_keepsI) (auto simp: inbox_insert_def apart_simps among_map)

lemma apart_updates [keeps_intros]:
  "stmt_keeps tenants_apart (org_rename i name)" "stmt_keeps tenants_apart (pod_update org p name desc settings)"
  "stmt_keeps tenants_apart (key_touch i)" "stmt_keeps tenants_apart (key_revoke org i)"
  "stmt_keeps tenants_apart (thread_incr t now' snippet)" "stmt_keeps tenants_apart (participants_merge merge t ps)"
  "stmt_keeps tenants_apart (connection_upsert x)" "stmt_keeps tenants_apart (status_update i status)"
  "stmt_keeps tenants_apart (sent_at_update i t')" "stmt_keeps tenants_apart (message_set_status org i status)"
  "stmt_keeps tenants_apart (domain_update_status org i status t'')" "stmt_keeps tenants_apart (link_draft_attachments i m)"
  by (rule stmt_keepsI, clarsimp simp: org_rename_def pod_update_def key_touch_def key_revoke_def thread_incr_def
      participants_merge_def connection_upsert_def status_update_def sent_at_update_def message_set_status_def
      domain_update_status_def link_draft_attachments_def apart_simps split: option.splits)+

lemma apart_embedding_update [keeps_intros]: "stmt_keeps tenants_apart (embedding_update i v)"
  by (rule stmt_keepsI) (clarsimp simp: embedding_update_def apart_simps split: option.splits if_splits)

lemma apart_patches [keeps_intros]:
  "stmt_keeps tenants_apart (message_update org i mp)" "stmt_keeps tenants_apart (inbox_update org i ip)"
  "stmt_keeps tenants_apart (thread_update org i tp)" "stmt_keeps tenants_apart (draft_update E org i dp)"
  "stmt_keeps tenants_apart (webhook_update org i columns)"
  by (rule stmt_keepsI, clarsimp simp: message_update_def message_set_def inbox_update_def inbox_set_def thread_update_def thread_set_def
      draft_update_def webhook_update_def apart_simps split: list.splits)+

lemma apart_label_update [keeps_intros]: "stmt_keeps tenants_apart (label_update org i lp)"
  by (rule stmt_keepsI) (auto simp: label_update_eq_Inr apart_simps)

lemma apart_header_update [keeps_intros]:
  assumes "\<And>now r. mr_org_id (f now r) = mr_org_id r" "\<And>now r. mr_inbox_id (f now r) = mr_inbox_id r"
    "\<And>now r. mr_thread_id (f now r) = mr_thread_id r"
  shows "stmt_keeps tenants_apart (header_update n header f)"
  by (rule stmt_keepsI) (clarsimp simp: header_update_eq_Inr tenants_apart_def Let_def assms)

lemma apart_webhook_updates [keeps_intros]:
  "stmt_keeps tenants_apart (delivery_update i f)" "stmt_keeps tenants_apart (webhook_touch i g)"
  by (rule stmt_keepsI, clarsimp simp: delivery_update_def webhook_touch_def apart_simps)+

lemma apart_deletes [keeps_intros]:
  "stmt_keeps tenants_apart (thread_label_delete t l)" "stmt_keeps tenants_apart (delete_draft_attachments org i)"
  "stmt_keeps tenants_apart (domain_delete org i)" "stmt_keeps tenants_apart (connection_delete conn)"
  "stmt_keeps tenants_apart (label_delete org i)" "stmt_keeps tenants_apart (draft_delete org i)"
  "stmt_keeps tenants_apart (webhook_delete org i)"
  by (rule stmt_keepsI, clarsimp simp: thread_label_delete_def delete_draft_attachments_def domain_delete_def connection_delete_def
      label_delete_def draft_delete_def webhook_delete_def apart_simps)+

lemma apart_pod_delete [keeps_intros]: "stmt_keeps tenants_apart (pod_delete org i)"
  by (rule stmt_keepsI) (auto simp: pod_delete_def pod_cascade_def tenants_apart_def Let_def)

text \<open>The rows that stay when an inbox goes are those of the other inboxes.\<close>

lemma apart_inbox_delete [keeps_intros]: "stmt_keeps tenants_apart (inbox_delete org i)"
proof (rule stmt_keepsI)
  fix now d n d' assume ok: "tenants_apart d" and "inbox_delete org i now d = Inr (n, d')"
  moreover define hit where "hit = (\<lambda>r :: inbox. ib_OrgID r = org \<and> ib_ID r = i)"
  moreover define gone where "gone = (\<lambda>j. j \<in> set (map ib_ID (filter hit (t_inboxes d))))"
  ultimately have d': "d' = (inbox_cascade gone now d)\<lparr>t_inboxes := del_where hit (t_inboxes d)\<rparr>"
    by (auto simp: inbox_delete_def Let_def)
  have kept: "r \<in> set (t_inboxes d')" if "r \<in> set (t_inboxes d)" "\<not> gone (ib_ID r)" for r
    using that by (auto simp: d' inbox_cascade_rows Let_def gone_def)
  have threads: "t \<in> set (t_threads d') \<longleftrightarrow> t \<in> set (t_threads d) \<and> \<not> gone_threads gone d (tr_id t)" for t
    by (auto simp: d' inbox_cascade_rows Let_def)
  have messages: "m \<in> set (t_messages d') \<longleftrightarrow> m \<in> set (t_messages d) \<and> \<not> gone_messages gone d (mr_id m)" for m
    by (auto simp: d' inbox_cascade_rows Let_def)
  show "tenants_apart d'"
    unfolding tenants_apart_iff
  proof (intro conjI ballI)
    fix t assume "t \<in> set (t_threads d')"
    then show "\<exists>i \<in> set (t_inboxes d'). ib_ID i = tr_inbox_id t \<and> ib_OrgID i = tr_org_id t"
      using ok kept gone_row(1) [of t d gone] unfolding threads tenants_apart_iff by metis
  next
    fix m assume m: "m \<in> set (t_messages d')"
    then show "\<exists>i \<in> set (t_inboxes d'). ib_ID i = mr_inbox_id m \<and> ib_OrgID i = mr_org_id m"
      using ok kept gone_row(2) [of m d gone] unfolding messages tenants_apart_iff by metis
    from m ok obtain t where "t \<in> set (t_threads d)" "tr_id t = mr_thread_id m" "tr_org_id t = mr_org_id m"
      unfolding messages tenants_apart_iff by metis
    moreover from this have "t \<in> set (t_threads d')" using m gone_row(3) [of m d gone] by (simp add: threads messages)
    ultimately show "\<exists>t \<in> set (t_threads d'). tr_id t = mr_thread_id m \<and> tr_org_id t = mr_org_id m" by blast
  qed
qed

section \<open>Mails\<close>

text \<open>A mail that is stored with the inbox it was looked up for, in a thread of its organisation or a new one of the inbox.\<close>

definition thread_keys :: "thread_row list \<Rightarrow> (uuid \<times> uuid \<times> uuid) list" where
  "thread_keys = map (\<lambda>t. (tr_id t, tr_inbox_id t, tr_org_id t))"

lemma thread_keys_simps:
  "(\<And>t. tr_id (f t) = tr_id t \<and> tr_inbox_id (f t) = tr_inbox_id t \<and> tr_org_id (f t) = tr_org_id t) \<Longrightarrow>
   thread_keys (upd_where p f ts) = thread_keys ts"
  "thread_keys (ts @ ts') = thread_keys ts @ thread_keys ts'" "thread_keys [t] = [(tr_id t, tr_inbox_id t, tr_org_id t)]"
  by (simp_all add: thread_keys_def)

lemma thread_keys_counted: "thread_keys (Thread_Store.counted i t sn now ts) = thread_keys ts"
  unfolding Thread_Store.counted_def by (rule thread_keys_simps) simp

lemma tenants_apart_stored:
  assumes ok: "tenants_apart d" and ib: "ib \<in> set (t_inboxes d)" "mr_inbox_id m = ib_ID ib" "mr_org_id m = ib_OrgID ib"
    and d': "t_inboxes d' = t_inboxes d" "t_messages d' = t_messages d @ [m]"
    and threads: "thread_keys (t_threads d') = thread_keys (t_threads d) \<and>
        (\<exists>t \<in> set (t_threads d). tr_id t = mr_thread_id m \<and> tr_org_id t = mr_org_id m) \<or>
      thread_keys (t_threads d') = thread_keys (t_threads d) @ [(mr_thread_id m, ib_ID ib, ib_OrgID ib)]"
  shows "tenants_apart d'"
proof -
  have key: "(\<exists>b. (i, b, c) \<in> set (thread_keys ts)) \<longleftrightarrow> (\<exists>t \<in> set ts. tr_id t = i \<and> tr_org_id t = c)" for i c ts
    by (force simp: thread_keys_def)
  have apart: "tenants_apart x \<longleftrightarrow>
      (\<forall>(i, b, c) \<in> set (thread_keys (t_threads x)). \<exists>r \<in> set (t_inboxes x). ib_ID r = b \<and> ib_OrgID r = c) \<and>
      (\<forall>m \<in> set (t_messages x). (\<exists>r \<in> set (t_inboxes x). ib_ID r = mr_inbox_id m \<and> ib_OrgID r = mr_org_id m) \<and>
        (\<exists>b. (mr_thread_id m, b, mr_org_id m) \<in> set (thread_keys (t_threads x))))" for x
    unfolding tenants_apart_iff key by (simp add: thread_keys_def)
  from threads show ?thesis
  proof
    assume "thread_keys (t_threads d') = thread_keys (t_threads d) \<and>
        (\<exists>t \<in> set (t_threads d). tr_id t = mr_thread_id m \<and> tr_org_id t = mr_org_id m)"
    moreover from this have "\<exists>b. (mr_thread_id m, b, mr_org_id m) \<in> set (thread_keys (t_threads d))" unfolding key by blast
    ultimately show ?thesis using ok ib d' unfolding apart by auto
  next
    assume "thread_keys (t_threads d') = thread_keys (t_threads d) @ [(mr_thread_id m, ib_ID ib, ib_OrgID ib)]"
    with ok ib d' show ?thesis unfolding apart by auto
  qed
qed

section \<open>The three operations that store mails\<close>

lemma Approve_schema: "keeps_db schema_ok (DraftService_Approve s c i note)"
  unfolding DraftService_Approve_def approve_body_def approve_thread_def generateMessageID_def Let_def
    DraftStore_Update_def ThreadStore_Create_def MessageStore_Create_def MessageStore_LinkDraftAttachments_def
    ThreadStore_IncrMessageCount_def
  by (intro keeps_intros approve_publish_db)+

lemma Approve_kept [keeps_intros]: "keeps_db database_ok (DraftService_Approve s c i note)"
proof (rule keeps_db_both [OF Approve_schema])
  show "keeps_db tenants_apart (DraftService_Approve s c i note)"
    unfolding keeps_db_iff
  proof (intro allI impI)
    fix E and w :: world assume ok: "tenants_apart (w_db w)"
    have "leaves tenants_apart (DraftService_Approve s c i note) E w"
    proof (rule DraftService_Approve_leaves [where P = tenants_apart, OF ok])
      fix w1 x w2 now assume body: "approve_body s c i note now E w1 = (Inr x, w2)" and w1: "w_db w1 = w_db w"
      from approve_body_success [OF body, unfolded w1] obtain r ib t ths msgID header where
        ib: "ib \<in> set (t_inboxes (w_db w))" "ib_ID ib = dr_inbox_id r" "ib_OrgID ib = cl_OrgID c"
        and t: "(\<exists>tr \<in> set (t_threads (w_db w)). dr_thread_id r = Some (tr_id tr) \<and> tr_org_id tr = cl_OrgID c \<and>
            t = scanThread tr \<and> ths = t_threads (w_db w)) \<or>
          (th_OrgID t = cl_OrgID c \<and> th_InboxID t = dr_inbox_id r \<and> ths = t_threads (w_db w) @ [thread_insert_row t])"
        and db: "w_db w2 = approved_tables E c r note now ib (th_ID t) msgID header ths (w_now w1) (w_db w)" by metis
      define m where "m = message_insert_row (approved_message c (scanDraft E r) ib (th_ID t) msgID header
        (draft_attachments (cl_OrgID c) (dr_id r) (w_db w) \<noteq> []) now)"
      have m: "mr_inbox_id m = dr_inbox_id r" "mr_org_id m = cl_OrgID c" "mr_thread_id m = th_ID t"
        by (simp_all add: m_def message_insert_row_def approved_message_def scanDraft_def)
      show "tenants_apart (w_db w2)"
        by (rule tenants_apart_stored [OF ok ib(1), of m])
          (use t in \<open>auto simp: db approved_tables_def m_def [symmetric] m ib thread_keys_simps thread_keys_counted Let_def scanThread_def thread_insert_row_def\<close>)
    qed
    then show "tenants_apart (w_db (snd (DraftService_Approve s c i note E w)))" by (simp add: leaves_def)
  qed
qed

lemma Send_schema: "keeps_db schema_ok (MessageService_Send s c ib req)"
  unfolding MessageService_Send_def send_body_def send_thread_def send_upload_def send_event_def generateMessageID_def Let_def
    ThreadStore_Create_def MessageStore_Create_def MessageStore_CreateAttachment_def ThreadStore_IncrMessageCount_def
  by (intro keeps_intros)

lemma keeps_of_result [keeps_intros]: "keeps_db Q (of_result r)"
  by (cases r) (simp_all add: keeps_db_iff of_result_def go_run)

lemma Send_leaves:
  assumes "P (w_db w)"
    and "\<And>w1 x w2 now msgID ups. send_body s c inboxID req now msgID ups E w1 = (Inr x, w2) \<Longrightarrow> w_db w1 = w_db w \<Longrightarrow> P (w_db w2)"
  shows "leaves P (MessageService_Send s c inboxID req) E w"
proof -
  have up: "keeps_db Q (collect (send_upload s (cl_OrgID c) msgID) (sr_Attachments req))" for Q msgID
    unfolding send_upload_def Let_def by (intro keeps_intros)
  have ev: "keeps_db Q (go_bind (send_event s req msg ups) (\<lambda>_. ret msg))" for Q msg ups
    unfolding send_event_def by (intro keeps_intros)
  show ?thesis
    unfolding MessageService_Send_def
    by (intro leaves_bind leaves_then leaves_wrap leaves_OrgTx up ev keeps_intros) (simp_all add: assms(1), blast intro: assms(2))
qed

lemma Send_kept [keeps_intros]: "keeps_db database_ok (MessageService_Send s c inboxID req)"
proof (rule keeps_db_both [OF Send_schema])
  show "keeps_db tenants_apart (MessageService_Send s c inboxID req)"
    unfolding keeps_db_iff leaves_def [symmetric]
  proof (intro allI impI)
    fix E and w :: world assume ok: "tenants_apart (w_db w)"
    show "leaves tenants_apart (MessageService_Send s c inboxID req) E w"
    proof (rule Send_leaves [where P = tenants_apart, OF ok])
      fix w1 msg w2 now msgID ups
      assume body: "send_body s c inboxID req now msgID ups E w1 = (Inr msg, w2)" and w1: "w_db w1 = w_db w"
      from send_body_success [OF body, unfolded w1] obtain ib t irt refs header ths where
        ib: "ib \<in> set (t_inboxes (w_db w))" "ib_ID ib = inboxID" "ib_OrgID ib = cl_OrgID c"
        and msg: "msg = sent_message c inboxID req ib (th_ID t) msgID header irt refs (ups \<noteq> []) now"
        and t: "threaded c inboxID req ib (w_db w) t irt refs ths"
        and db: "w_db w2 = (w_db w)\<lparr>t_threads := Thread_Store.counted (th_ID t) now (snippetFrom (sr_BodyText req)) (w_now w1) ths,
          t_messages := t_messages (w_db w) @ [message_insert_row msg],
          t_attachments := t_attachments (w_db w) @ map (sent_attachment (cl_OrgID c) msgID now) ups\<rparr>" by metis
      note m = sent_message_row [of c inboxID req ib "th_ID t" msgID header irt refs "ups \<noteq> []" now, folded msg]
      show "tenants_apart (w_db w2)"
        by (rule tenants_apart_stored [OF ok ib(1), of "message_insert_row msg"])
          (use t in \<open>auto simp: db m ib thread_keys_simps thread_keys_counted threaded_def scanThread_def thread_insert_row_def
            split: option.splits\<close>)
    qed
  qed
qed

text \<open>The mails that arrive: the inbox is looked up by the address alone, the thread in the organisation of that inbox.\<close>

lemma store_inbound_schema: "keeps_db schema_ok (store_inbound ib parsed p sn now i)"
  unfolding store_inbound_def find_thread_def thread_for_def Let_def EmailStore_CreateThread_def EmailStore_CreateMessage_def
    EmailStore_CreateAttachment_def EmailStore_MergeThreadParticipants_def EmailStore_IncrThreadMessageCount_def
  by (intro keeps_intros)

lemma apart_inbound:
  assumes effect: "inbound_effect E ib key parsed d m d'" and ok: "tenants_apart d" and ib: "ib \<in> set (t_inboxes d)"
  shows "tenants_apart d'"
proof -
  from effect obtain T as now snippet where d': "d' = d\<lparr>t_threads := T, t_messages := t_messages d @ [m], t_attachments := t_attachments d @ as\<rparr>"
    and m: "mr_org_id m = ib_OrgID ib" "mr_inbox_id m = ib_ID ib"
    and split: "if \<exists>t. replies_in ib parsed d t
         then (buildParticipants parsed = [] \<or> jsonb_merge E \<noteq> None) \<and>
           (\<exists>t g. replies_in ib parsed d t \<and> mr_thread_id m = tr_id t \<and> T = upd_where (\<lambda>x. tr_id x = tr_id t) g (t_threads d) \<and>
              (\<forall>x. thread_grown now snippet x (g x)))
         else (\<exists>t. T = t_threads d @ [t] \<and> mr_thread_id m = tr_id t \<and> tr_id t \<notin> set (map tr_id (t_threads d)) \<and>
              tr_org_id t = ib_OrgID ib \<and> tr_inbox_id t = ib_ID ib \<and> tr_message_count t = 1 \<and>
              tr_status t = ''open'' \<and> \<not> tr_is_read t \<and> tr_last_message_at t = Some now)"
    unfolding inbound_effect_def by (elim exE conjE) (rule that)
  from split have T: "(\<exists>t g. replies_in ib parsed d t \<and> mr_thread_id m = tr_id t \<and> T = upd_where (\<lambda>x. tr_id x = tr_id t) g (t_threads d) \<and>
        (\<forall>x. thread_grown now snippet x (g x))) \<or>
      (\<exists>t. T = t_threads d @ [t] \<and> mr_thread_id m = tr_id t \<and> tr_org_id t = ib_OrgID ib \<and> tr_inbox_id t = ib_ID ib)"
    by (cases "\<exists>t. replies_in ib parsed d t") (simp_all only: if_True if_False, blast+)
  from T have "thread_keys T = thread_keys (t_threads d) \<and> (\<exists>t \<in> set (t_threads d). tr_id t = mr_thread_id m \<and> tr_org_id t = mr_org_id m) \<or>
      thread_keys T = thread_keys (t_threads d) @ [(mr_thread_id m, ib_ID ib, ib_OrgID ib)]"
  proof (elim disjE exE conjE)
    fix t g assume t: "replies_in ib parsed d t" "mr_thread_id m = tr_id t" "T = upd_where (\<lambda>x. tr_id x = tr_id t) g (t_threads d)"
      and g: "\<forall>x. thread_grown now snippet x (g x)"
    have "thread_keys T = thread_keys (t_threads d)"
      unfolding t(3) using thread_grown_keys [OF spec [OF g]] by (intro thread_keys_simps) simp
    with t(1,2) m(1) show ?thesis by (auto simp: replies_in_def)
  next
    fix t assume "T = t_threads d @ [t]" "mr_thread_id m = tr_id t" "tr_org_id t = ib_OrgID ib" "tr_inbox_id t = ib_ID ib"
    then show ?thesis by (simp add: thread_keys_simps)
  qed
  then show ?thesis by (intro tenants_apart_stored [OF ok ib m(2,1)]) (simp_all add: d')
qed

lemma processForRecipient_kept [keeps_intros]: "keeps_db database_ok (processForRecipient cfg key raw parsed rcpt)"
proof (rule keeps_db_both)
  have "keeps_db schema_ok (deliver_to cfg key raw parsed ib)" for ib
    unfolding deliver_to_def Let_def by (intro keeps_intros uploads_keep_db store_inbound_schema)
  then show "keeps_db schema_ok (processForRecipient cfg key raw parsed rcpt)"
    unfolding processForRecipient_def by (intro keeps_intros)
next
  have "tenants_apart (w_db w')" if ok: "tenants_apart (w_db w)" and run: "processForRecipient cfg key raw parsed rcpt E w = (r, w')" for E w r w'
  proof -
    obtain x w1 where g: "EmailStore_GetInboxByAddress (ea_Email rcpt) E w = (x, w1)" by (rule prod.exhaust)
    note G = GetInboxByAddress_result [OF g]
    show ?thesis
    proof (cases x)
      case (Inl e)
      with run g have "w' = w1" by (auto simp: processForRecipient_def go_bind_def attempt_def ret_run throw_run split: if_splits)
      with G ok show ?thesis by simp
    next
      case (Inr ib)
      with run g have "deliver_to cfg key raw parsed ib E w1 = (r, w')" by (simp add: processForRecipient_def go_bind_def attempt_def)
      then show ?thesis
      proof (cases rule: deliver_to_cases)
        case 1
        with G ok show ?thesis by simp
      next
        case (2 m)
        from G Inr have db: "w_db w1 = w_db w" and ib: "ib \<in> set (t_inboxes (w_db w))" by (auto simp: inboxes_of_def)
        from 2(2) [unfolded db] ok ib show ?thesis by (rule apart_inbound)
      qed
    qed
  qed
  then show "keeps_db tenants_apart (processForRecipient cfg key raw parsed rcpt)"
    unfolding keeps_db_iff by (metis prod.collapse)
qed

end
