(* ===== verification/Services_Typed.thy ===== *)
theory Services_Typed
  imports Tenants
begin

text \<open>
  Every operation of the services and stores keeps the schema and the tenants apart, whatever the environment does and
  however the operation ends: the statements of its transactions do, or it is one of the three that store mails.
\<close>

lemma keeps_at_world:
  "(\<And>E w. keeps_db Q (m E w)) \<Longrightarrow> keeps_db Q (\<lambda>E w. m E w E w)"
  by (simp add: keeps_db_iff)

section \<open>Stores\<close>

lemma draft_store_typed [keeps_intros]:
  "keeps_db database_ok (DraftStore_Create draft)" "keeps_db database_ok (DraftStore_Update org i p)"
  "keeps_db database_ok (DraftStore_Delete org i)"
proof -
  have "dr_message_id (draft_insert_row E draft) = None" for E by (simp add: draft_insert_row_def)
  then have "keeps_db database_ok (wrap_err ''insert draft'' (tx_exec (draft_insert (draft_insert_row E draft))))" for E
    by (intro keeps_intros)
  then show "keeps_db database_ok (DraftStore_Create draft)"
    by (simp add: DraftStore_Create_def keeps_db_iff go_bind_def asks_run)
  show "keeps_db database_ok (DraftStore_Update org i p)" "keeps_db database_ok (DraftStore_Delete org i)"
    unfolding DraftStore_Update_def DraftStore_Delete_def by (intro keeps_intros)+
qed

lemma inbox_store_typed [keeps_intros]:
  "keeps_db database_ok (InboxStore_Create ib)" "keeps_db database_ok (InboxStore_Update org i p)"
  "keeps_db database_ok (InboxStore_Delete org i)"
  unfolding InboxStore_Create_def InboxStore_Update_def InboxStore_Delete_def by (intro keeps_intros)+

lemma thread_store_typed [keeps_intros]:
  "keeps_db database_ok (ThreadStore_Update org i p)"
  "keeps_db database_ok (ThreadStore_IncrMessageCount i now sn)" "keeps_db database_ok (ThreadStore_ApplyLabel i l)"
  "keeps_db database_ok (ThreadStore_RemoveLabel i l)"
  unfolding ThreadStore_Update_def ThreadStore_IncrMessageCount_def ThreadStore_ApplyLabel_def
    ThreadStore_RemoveLabel_def by (intro keeps_intros)+

lemma message_store_typed [keeps_intros]:
  "keeps_db database_ok (MessageStore_UpdateStatus org i st)"
  "keeps_db database_ok (MessageStore_UpdateMessage org i mp)" "keeps_db database_ok (MessageStore_CreateAttachment a)"
  "keeps_db database_ok (MessageStore_CreateDraftAttachment a)" "keeps_db database_ok (MessageStore_LinkDraftAttachments i j)"
  "keeps_db database_ok (MessageStore_DeleteDraftAttachments org i)"
  unfolding MessageStore_UpdateStatus_def MessageStore_UpdateMessage_def MessageStore_CreateAttachment_def
    MessageStore_CreateDraftAttachment_def MessageStore_LinkDraftAttachments_def MessageStore_DeleteDraftAttachments_def
  by (intro keeps_intros)+

lemma label_store_typed [keeps_intros]:
  "keeps_db database_ok (LabelStore_Create l)" "keeps_db database_ok (LabelStore_Update org i p)"
  "keeps_db database_ok (LabelStore_Delete org i)"
  unfolding LabelStore_Create_def LabelStore_Update_def LabelStore_GetByID_def LabelStore_Delete_def label_select_def by (intro keeps_intros)+

lemma email_store_typed [keeps_intros]:
  "keeps_db database_ok (EmailStore_CreateAttachment a)" "keeps_db database_ok (EmailStore_MergeThreadParticipants i ps)"
  "keeps_db database_ok (EmailStore_IncrThreadMessageCount i now sn)" "keeps_db database_ok (EmailStore_UpdateMessageStatus i st)"
  "keeps_db database_ok (EmailStore_UpdateMessageSentAt i now)"
  unfolding EmailStore_CreateAttachment_def EmailStore_MergeThreadParticipants_def EmailStore_IncrThreadMessageCount_def EmailStore_UpdateMessageStatus_def
    EmailStore_UpdateMessageSentAt_def
  by (intro keeps_intros)+

lemma webhook_store_typed [keeps_intros]:
  "keeps_db database_ok (CreateWebhook h)" "keeps_db database_ok (UpdateWebhook h)" "keeps_db database_ok (DeleteWebhook i org)"
  "keeps_db database_ok (CreateDelivery x)" "keeps_db database_ok (MarkSuccess x)" "keeps_db database_ok (MarkFailed x n)"
  unfolding CreateWebhook_def UpdateWebhook_def DeleteWebhook_def CreateDelivery_def MarkSuccess_def MarkFailed_def Let_def
  by (intro keeps_intros; simp add: set_success_def set_failed_def delivery_statuses_def)+

lemma domain_store_typed [keeps_intros]:
  "keeps_db database_ok (DomainStore_Create x)" "keeps_db database_ok (DomainStore_UpdateStatus org i st t)"
  "keeps_db database_ok (DomainStore_Delete org i)" "keeps_db Q (DomainStore_GetByID org i)" "keeps_db Q (DomainStore_List org)"
  unfolding DomainStore_Create_def DomainStore_UpdateStatus_def DomainStore_Delete_def DomainStore_GetByID_def DomainStore_List_def
  by (intro keeps_intros)+

section \<open>Services\<close>

lemma draft_service_typed [keeps_intros]:
  "keeps_db database_ok (DraftService_Create s c req)" "keeps_db database_ok (DraftService_Update s c i ureq)"
  "keeps_db database_ok (DraftService_Delete s c i)" "keeps_db database_ok (DraftService_Approve s c i note)"
  "keeps_db database_ok (DraftService_Reject s c i note)" "keeps_db Q (DraftService_Get s c i)" "keeps_db Q (DraftService_List s c i n cur)"
  unfolding DraftService_Create_def DraftService_Update_def update_body_def DraftService_Delete_def DraftService_Reject_def reject_body_def DraftService_Get_def DraftService_List_def
    create_draft_attachment_def Let_def
  by (intro keeps_intros)+

lemma message_service_typed [keeps_intros]:
  "keeps_db database_ok (MessageService_UpdateMessage s c i p)" "keeps_db database_ok (MessageService_Send s c ib req)"
  "keeps_db database_ok (MessageService_ReplyAll s c ib i rr)" "keeps_db database_ok (MessageService_Forward s c ib i fr)"
  unfolding MessageService_UpdateMessage_def MessageService_ReplyAll_def MessageService_Forward_def Let_def
  by (intro keeps_intros)+

lemma thread_service_typed [keeps_intros]:
  "keeps_db database_ok (ThreadService_UpdateStatus s c i st)" "keeps_db database_ok (ThreadService_MarkRead s c i b)"
  "keeps_db database_ok (ThreadService_MarkStarred s c i b)" "keeps_db database_ok (ThreadService_ApplyLabel s c i l)"
  "keeps_db database_ok (ThreadService_RemoveLabel s c i l)"
  unfolding ThreadService_UpdateStatus_def update_status_body_def ThreadService_MarkRead_def ThreadService_MarkStarred_def
    ThreadService_ApplyLabel_def ThreadService_RemoveLabel_def Let_def
  by (intro keeps_intros)+

lemma inbox_service_typed [keeps_intros]:
  "keeps_db database_ok (InboxService_Create s c req)" "keeps_db database_ok (InboxService_Update s c i ureq)"
  "keeps_db database_ok (InboxService_Delete s c i)"
  unfolding InboxService_Create_def create_checks_def create_inbox_def check_seats_def InboxService_Update_def InboxService_Delete_def Let_def
  by (intro keeps_intros)+

lemma label_service_typed [keeps_intros]:
  "keeps_db database_ok (LabelService_Create c req)" "keeps_db database_ok (LabelService_Update c i ureq)"
  "keeps_db database_ok (LabelService_Delete c i)"
  unfolding LabelService_Create_def LabelService_Update_def LabelService_Delete_def Let_def
  by (intro keeps_intros)+

end
