(* ===== verification/Programs_Typed.thy ===== *)
theory Programs_Typed
  imports Services_Typed
begin

text \<open>The queue workers, the scheduler, the authorizer, the licence renewal and the administration keep the schema and
  the tenants apart.\<close>

lemma keeps_batch [keeps_intros]: "(\<And>r. keeps_db Q (f r)) \<Longrightarrow> keeps_db Q (batch_failures f key rs)"
proof (induction rs)
  case (Cons r rs)
  show ?case unfolding batch_failures.simps by (intro keeps_intros Cons)
qed (simp only: batch_failures.simps keeps_intros)

section \<open>The mail pipeline\<close>

lemma inbound_typed [keeps_intros]: "keeps_db database_ok (inbound_handler cfg keys)"
  unfolding inbound_handler_def processS3Object_def by (intro keeps_intros)

lemma keeps_download_all [keeps_intros]: "keeps_db Q (download_all b as)"
proof (induction as)
  case (Cons a as)
  show ?case unfolding download_all.simps by (intro keeps_intros Cons)
qed (simp only: download_all.simps keeps_intros)

lemma keeps_buildMIME [keeps_intros]: "keeps_db Q (buildMIME msg tos ccs t h atts)"
  unfolding buildMIME_def writeBodyPart_def Let_def by (intro keeps_intros)

lemma outbound_typed [keeps_intros]: "keeps_db database_ok (outbound_handler cfg records)"
proof -
  have fin: "keeps_db database_ok (finish_send p org i msg t h atts now e)" for p org i msg t h atts now e
    unfolding finish_send_def by (intro keeps_intros)
  have load: "keeps_db database_ok (load_message org i)" for org i
    unfolding load_message_def by (intro keeps_intros)
  have body: "keeps_db database_ok (body_or b k inline)" for b k inline
    unfolding body_or_def by (intro keeps_intros)
  have atts: "keeps_db database_ok (load_attachments b org i msg)" for b org i msg
    unfolding load_attachments_def by (intro keeps_intros)
  have "keeps_db database_ok (send_message cfg org i job)" for org i job
    unfolding send_message_def by (intro keeps_intros fin load body atts)
  then have "keeps_db database_ok (outbound_record cfg r)" for r
    unfolding outbound_record_def by (intro keeps_intros)
  then show ?thesis unfolding outbound_handler_def by (rule keeps_batch)
qed

lemma update_by_header_typed:
  assumes "\<And>n. stmt_keeps database_ok (header_update n header f)" "\<And>a b. keeps_db database_ok (follow a b)"
  shows "keeps_db database_ok (update_by_header cfg header f follow)"
proof -
  have "keeps_db database_ok (\<lambda>E w. pool_exec (header_update (any_row E (w_tick w)) header f) E w)"
    by (rule keeps_at_world) (intro keeps_db_pool_exec assms)
  then show ?thesis unfolding update_by_header_def by (intro keeps_intros assms(2))
qed

lemma ses_typed [keeps_intros]: "keeps_db database_ok (ses_handler cfg records)"
proof -
  have f: "stmt_keeps database_ok (header_update n header (set_status st))" "stmt_keeps database_ok (header_update n header confirm_delivery)"
    for n header st
    by (intro kept_both schema_header_update apart_header_update; simp add: set_status_def confirm_delivery_def)+
  have "keeps_db database_ok (ses_processRecord cfg r)" for r
    unfolding ses_processRecord_def Let_def
    by (intro keeps_db_option keeps_db_if keeps_db_ctl update_by_header_typed f keeps_db_publishers)
  then show ?thesis unfolding ses_handler_def by (rule keeps_batch)
qed

section \<open>Webhooks and the scheduler\<close>

lemma dispatcher_typed [keeps_intros]: "keeps_db database_ok (webhook_dispatcher encKey records)"
proof -
  have "keeps_db database_ok (record_outcome x now r)" for x now r
    using webhook_store_typed [THEN keeps_db_ignore, THEN keeps_dbD]
    by (auto simp: keeps_db_iff record_outcome_def Let_def split: prod.splits)
  moreover have "keeps_db Q (deliver wh payload)" for Q wh payload
    by (simp add: keeps_db_iff deliver_def http_Do_def split: option.splits)
  ultimately show ?thesis
    unfolding webhook_dispatcher_def dispatch_record_def dispatch_to_def Let_def by (intro keeps_intros)
qed

lemma scheduler_typed [keeps_intros]: "keeps_db database_ok (scheduler_handler s)"
proof -
  have due: "stmt_keeps Q (due_drafts order)" for Q order by (simp add: stmt_keeps_def due_drafts_def)
  have "keeps_db database_ok (\<lambda>E w. pool_exec (due_drafts (scan_order E (w_tick w))) E w)"
    by (rule keeps_at_world) (intro keeps_db_pool_exec due)
  moreover have "keeps_db database_ok (approve_scheduled s x)" for x
    unfolding approve_scheduled_def by (intro keeps_db_prod keeps_db_ignore draft_service_typed)
  ultimately show ?thesis
    unfolding scheduler_handler_def by (intro keeps_db_bind keeps_db_for_each)
qed

section \<open>Administration\<close>

lemma keeps_found_or [keeps_intros]: "keeps_db Q m \<Longrightarrow> keeps_db Q (found_or missing p m)"
  unfolding found_or_def by (intro keeps_intros)

lemma orgs_typed [keeps_intros]:
  "keeps_db Q (fetchOrg org)" "keeps_db database_ok (updateOrg org name)" "keeps_db Q (fetchPods org)" "keeps_db database_ok (insertPod pod)"
  "keeps_db Q (fetchPod org i)" "keeps_db database_ok (updatePod org i name desc settings)" "keeps_db database_ok (removePod org i)"
  unfolding fetchOrg_def updateOrg_def fetchPods_def insertPod_def fetchPod_def updatePod_def removePod_def org_select_def pod_select_def
  by (intro keeps_intros)+

lemma keeps_rand [keeps_intros]: "keeps_db Q (rand_Read n)"
  unfolding rand_Read_def by (intro keeps_db_external) (simp add: keeps_db_iff)

lemma keys_typed [keeps_intros]:
  "keeps_db Q (fetchKeys org n cur)" "keeps_db database_ok (insertKey org name scopes pod t)" "keeps_db Q (fetchKey org i)"
  "keeps_db database_ok (revokeKey org i)"
proof -
  have "stmt_keeps Q (key_page E org n parts)" for Q E org n parts
    by (auto simp: stmt_keeps_def key_page_def split: sum.splits)
  then show "keeps_db Q (fetchKeys org n cur)"
    unfolding fetchKeys_def Let_def by (intro keeps_intros)
  show "keeps_db database_ok (insertKey org name scopes pod t)" "keeps_db Q (fetchKey org i)" "keeps_db database_ok (revokeKey org i)"
    unfolding insertKey_def generate_key_def fetchKey_def revokeKey_def key_select_def Let_def by (intro keeps_intros)+
qed

lemma domains_typed [keeps_intros]:
  "keeps_db database_ok (DomainService_Register s c req)" "keeps_db Q (DomainService_List c)" "keeps_db Q (DomainService_Get c i)"
  "keeps_db database_ok (DomainService_Verify s c i)" "keeps_db database_ok (DomainService_Delete s c i)"
  unfolding DomainService_Register_def save_domain_def ses_done_def DomainService_List_def DomainService_Verify_def
    verification_attributes_def refresh_status_def new_status_def current_records_def DomainService_Delete_def DomainService_Get_def Let_def
  by (intro keeps_intros)+

lemma keeps_key_lookup [keeps_intros]: "stmt_keeps Q (key_lookup hash)"
  unfolding key_lookup_def[abs_def] by (simp add: stmt_keeps_def query_row_def split: sum.splits)

lemma authorizer_typed [keeps_intros]:
  "keeps_db database_ok (authorizer_handler server event st)" "keeps_db database_ok (refresh_handler cfg)"
  unfolding authorizer_handler_def validateKey_def checkLicense_def license_token_def revocationCheck_def refresh_handler_def
    handleTrialActivation_def post_def writeSSM_def Let_def
  by (intro keeps_intros)+

section \<open>Search, embeddings, web sockets and the tools\<close>

lemma search_typed [keeps_intros]: "keeps_db Q (run_mode emb mode org q i n cur)"
  unfolding run_mode_def by (intro keeps_intros)

lemma embedder_typed [keeps_intros]: "keeps_db database_ok (embedder_handler cfg records)"
  unfolding embedder_handler_def embed_record_def embed_text_def SetEmbedding_def by (intro keeps_intros)

lemma ws_dispatcher_typed [keeps_intros]: "keeps_db database_ok (ws_dispatcher records)"
proof -
  have live: "stmt_keeps Q (live_connections order org)" for Q order org by (simp add: stmt_keeps_def live_connections_def)
  have push: "keeps_db Q (PostToConnection i evt)" for Q i evt
    by (simp add: keeps_db_iff PostToConnection_def split: option.split)
  have sel: "keeps_db database_ok (\<lambda>E w. pool_exec (live_connections (scan_order E (w_tick w)) org) E w)" for org
    by (rule keeps_at_world) (intro keeps_db_pool_exec live)
  have "keeps_db database_ok (push_event evt org)" for evt org
    unfolding push_event_def push_to_def
    by (rule keeps_db_bind [OF sel]) (intro keeps_intros push)
  then show ?thesis
    unfolding ws_dispatcher_def ws_record_def by (intro keeps_intros)
qed

lemma validateKey_typed [keeps_intros]: "keeps_db database_ok (validateKey key)"
  unfolding validateKey_def by (intro keeps_intros)

lemma bootstrap_typed [keeps_intros]: "keeps_db database_ok (bootstrap url org slug key)"
  unfolding bootstrap_def bootstrap_generateKey_eq generate_key_def Let_def by (intro keeps_intros)

end
