(* ===== verification/System.thy ===== *)
theory System
  imports Programs_Typed
begin

text \<open>
  The system as a whole: every Lambda function of the repository that works on the database, and the tool that creates
  the first organisation, as one step, the runs of
  the system as sequences of such steps in any order, with any requests, queue records and answers of the
  environment, and the schema of the database, with the tenants apart, as an invariant of all of them.
\<close>

section \<open>Handlers\<close>

text \<open>\<open>answers_keep Q h\<close>: whatever the handler answers, it leaves a database with \<open>Q\<close> when it finds one.\<close>

definition answers_keep :: "(database \<Rightarrow> bool) \<Rightarrow> handler \<Rightarrow> bool" where
  "answers_keep Q h \<longleftrightarrow> (\<forall>E w. Q (w_db w) \<longrightarrow> Q (w_db (snd (h E w))))"

named_theorems answer_intros

lemma answers_keep_nothing: "changes_nothing h \<Longrightarrow> answers_keep Q h"
  by (simp add: answers_keep_def changes_nothing_def)

lemma answers_keep_respond [answer_intros]:
  "answers_keep Q (respond r)" "answers_keep Q (error_text code e)" "answers_keep Q (cursor_error e)"
  "answers_keep Q (missing_or_500 missing failed e)" "answers_keep Q (keys_cursor_error e)"
  by (simp_all add: answers_keep_def respond_def error_text_def cursor_error_def missing_or_500_def keys_cursor_error_def)

lemma answers_keep_handle [answer_intros]:
  assumes "keeps_db Q m" and "\<And>e. answers_keep Q (f e)" and "\<And>x. answers_keep Q (g x)"
  shows "answers_keep Q (handle m f g)"
  unfolding answers_keep_def
proof (intro allI impI)
  fix E and w :: world assume q: "Q (w_db w)"
  obtain r w1 where m: "m E w = (r, w1)" by (rule prod.exhaust)
  with keeps_dbD [OF assms(1) q, of E] have "Q (w_db w1)" by simp
  with m assms(2,3) show "Q (w_db (snd (handle m f g E w)))" by (cases r) (simp_all add: handle_def answers_keep_def)
qed

lemma answers_keep_cases [answer_intros]:
  "(b \<Longrightarrow> answers_keep Q h) \<Longrightarrow> (\<not> b \<Longrightarrow> answers_keep Q h') \<Longrightarrow> answers_keep Q (if b then h else h')"
  "(\<And>a b. answers_keep Q (k a b)) \<Longrightarrow> answers_keep Q (case p of (a, b) \<Rightarrow> k a b)"
  "answers_keep Q h \<Longrightarrow> (\<And>v. answers_keep Q (f v)) \<Longrightarrow> answers_keep Q (case opt of None \<Rightarrow> h | Some v \<Rightarrow> f v)"
  by (simp_all split: prod.split option.split)

lemma answers_keep_guards [answer_intros]:
  "answers_keep Q h \<Longrightarrow> answers_keep Q (require_scope c s h)"
  "(\<And>r. answers_keep Q (b r)) \<Longrightarrow> answers_keep Q (with_body d event zero b)"
  "(\<And>r. answers_keep Q (b r)) \<Longrightarrow> answers_keep Q (with_required d event zero missing what b)"
  "(\<And>i. answers_keep Q (k i)) \<Longrightarrow> answers_keep Q (with_pod_id event k)"
  "(\<And>i. answers_keep Q (k i)) \<Longrightarrow> answers_keep Q (with_key_id event k)"
  "(\<And>i. answers_keep Q (k i)) \<Longrightarrow> answers_keep Q (with_domain_id event k)"
  by (auto simp: answers_keep_def require_scope_def respond_def with_body_def with_required_def with_pod_id_def
      with_key_id_def with_domain_id_def split: option.split)

lemma answers_keep_claims: "(\<And>c E. answers_keep Q (\<lambda>_. h c E)) \<Longrightarrow> answers_keep Q (with_claims event h)"
  by (auto simp: answers_keep_def with_claims_def split: sum.split)

lemma answers_keep_caller: "(\<And>c. answers_keep Q (h c)) \<Longrightarrow> answers_keep Q (with_claims event h)"
  by (rule answers_keep_claims) (simp add: answers_keep_def)

section \<open>The API keeps the schema and the tenants apart\<close>

lemma drafts_typed: "answers_keep database_ok (drafts_handler s event)"
proof -
  have path: "answers_keep database_ok (draft_in_path s c i j k)" if "\<And>x. answers_keep database_ok (k x)" for c i j k
    unfolding draft_in_path_def by (intro answer_intros that draft_service_typed)
  have "answers_keep database_ok (drafts_collection s event c i)" "answers_keep database_ok (drafts_item s event c i j)"
    "answers_keep database_ok (drafts_review s event c i j fld DraftService_Approve)"
    "answers_keep database_ok (drafts_review s event c i j fld DraftService_Reject)" for c i j fld
    unfolding drafts_collection_def drafts_item_def drafts_review_def by (intro answer_intros path draft_service_typed)+
  then show ?thesis
    unfolding drafts_handler_def by (intro answers_keep_claims) (simp add: answers_keep_def Let_def respond_def)
qed

lemma messages_typed: "answers_keep database_ok (messages_handler s event)"
proof -
  note ops = message_service_typed keeps_db_MessageService_Get message_reads_service
  have path: "answers_keep database_ok (message_in_path s c i j what k)" if "\<And>x. answers_keep database_ok (k x)" for c i j what k
    unfolding message_in_path_def by (intro answer_intros that ops)
  have "answers_keep database_ok (messages_collection s event c i)" "answers_keep database_ok (messages_item s event c i j)"
    "answers_keep database_ok (messages_raw s event c i j)" "answers_keep database_ok (messages_attachment s event c i j l)"
    "answers_keep database_ok (messages_reply_all s event c i j l)" "answers_keep database_ok (messages_forward s event c i j l)"
    "answers_keep database_ok (messages_send s event c i)" for c i j l
    unfolding messages_collection_def messages_item_def messages_raw_def messages_attachment_def
      messages_reply_all_def messages_forward_def messages_send_def
    by (intro answer_intros path ops)+
  then show ?thesis
    unfolding messages_handler_def by (intro answers_keep_claims) (simp add: answers_keep_def Let_def respond_def)
qed

lemma threads_typed: "answers_keep database_ok (threads_handler s event)"
proof -
  note ops = thread_service_typed thread_reads_service label_service_typed
  have path: "answers_keep database_ok (thread_in_path s c i j k)" if "\<And>x. answers_keep database_ok (k x)" for c i j k
    unfolding thread_in_path_def by (intro answer_intros that ops)
  have step: "answers_keep database_ok (patch_step f opr u k)"
    if "\<And>v. keeps_db database_ok (opr v)" "\<And>x. answers_keep database_ok (k x)" for f :: "'v option" and opr u k
    unfolding patch_step_def by (intro answer_intros that)
  have patch: "answers_keep database_ok (patch_thread s c i req)" for c i req
    unfolding patch_thread_def by (intro step ops answer_intros)
  have create: "answers_keep database_ok (label_create_error e)" for e
    unfolding label_create_error_def by (intro answer_intros)
  have "answers_keep database_ok (threads_collection s event c q)" "answers_keep database_ok (threads_item s event c i j)"
    "answers_keep database_ok (thread_label_item s event c i j l)" "answers_keep database_ok (labels_collection event c)"
    "answers_keep database_ok (labels_item event c l)" for c q i j l
    unfolding threads_collection_def threads_item_def thread_label_item_def labels_collection_def labels_item_def
    by (intro answer_intros path patch create ops)+
  then show ?thesis
    unfolding threads_handler_def by (intro answers_keep_claims) (simp add: answers_keep_def Let_def respond_def)
qed

lemma inboxes_typed: "answers_keep database_ok (inboxes_handler s event)"
proof -
  note ops = inbox_service_typed inbox_reads_service answers_keep_nothing [OF nothing_inbox_create_error]
  have "answers_keep database_ok (inboxes_collection s event c pod)" "answers_keep database_ok (inboxes_item s event c i)" for c pod i
    unfolding inboxes_collection_def inboxes_item_def by (intro answer_intros ops)+
  then show ?thesis
    unfolding inboxes_handler_def
    by (intro answers_keep_claims) (simp add: answers_keep_def respond_def split: option.splits)
qed

lemma webhooks_typed: "answers_keep database_ok (webhooks_handler encKey event)"
proof -
  note ops = webhook_store_typed webhook_reads keeps_db_new_webhook keeps_db_Encrypt
  have patch: "keeps_db database_ok (patched_webhook req hook)" for req hook
    unfolding patched_webhook_def by (intro keeps_db_bind keeps_db_source webhook_store_typed)
  have create: "answers_keep database_ok (create_webhook encKey c req)" for c req
    unfolding create_webhook_def store_webhook_def by (intro answer_intros ops)
  have "answers_keep database_ok (webhooks_route encKey event c i)" for c i
    unfolding webhooks_route_def webhooks_collection_def webhooks_item_def webhook_deliveries_def
    by (intro answer_intros create patch ops)
  then show ?thesis
    unfolding webhooks_handler_def by (intro answers_keep_claims) (simp add: answers_keep_def respond_def)
qed

lemma orgs_handler_typed: "answers_keep database_ok (orgs_handler event)"
proof -
  have new: "keeps_db database_ok (go_bind (new_pod c req) (\<lambda>pod. go_bind (insertPod pod) (\<lambda>_. ret pod)))" for c req
    unfolding new_pod_def by (intro keeps_db_bind keeps_db_ctl keeps_db_source orgs_typed)
  show ?thesis
    unfolding orgs_handler_def getOrg_def patchOrg_def listPods_def createPod_def getPod_def patchPod_def deletePod_def
    by (intro answers_keep_caller answer_intros orgs_typed new)
qed

lemma keys_handler_typed: "answers_keep database_ok (keys_handler event)"
  unfolding keys_handler_def listKeys_def createKey_def getKey_def deleteKey_def
  by (intro answers_keep_caller answer_intros keys_typed)

lemma domains_handler_typed: "answers_keep database_ok (domains_handler s event)"
  unfolding domains_handler_def domains_collection_def domains_item_def domains_verify_def
  by (intro answers_keep_caller answer_intros domains_typed)

lemma search_handler_typed: "answers_keep database_ok (search_handler emb event)"
proof -
  have i: "answers_keep database_ok (with_inbox_id event k)" if "\<And>x. answers_keep database_ok (k x)" for k
    using that by (simp add: answers_keep_def with_inbox_id_def respond_def Let_def split: option.split)
  show ?thesis
    unfolding search_handler_def Let_def by (intro answers_keep_caller answer_intros i search_typed)
qed

lemma ws_connection_typed:
  "answers_keep database_ok (ws_connect event)" "answers_keep database_ok (ws_disconnect event)"
  unfolding ws_connect_def ws_disconnect_def ws_validateKey_same Let_def
  by (intro answer_intros keeps_intros)+

section \<open>Runs of the system\<close>

text \<open>One invocation of one of the Lambda functions, with its configuration and what it is given.\<close>

datatype invocation =
    ApiCall api request
  | OrgsCall request
  | KeysCall request
  | DomainsCall domain_service request
  | EmailInbound inbound_worker "string list"
  | EmailOutbound outbound_worker "job_message list"
  | SesEvents ses_worker "ses_record list"
  | WebhookDispatcher "string option" "sqs_message list"
  | Scheduler draft_service
  | Authorizer string authorizer_event license_state
  | LicenseRefresh refresh_config
  | SearchCall "embedder_client option" request
  | Embedding embedder_worker "sqs_message list"
  | SocketConnect ws_request
  | SocketDisconnect ws_request
  | SocketDispatcher "sqs_message list"
  | Bootstrap string string string string

fun invoke :: "invocation \<Rightarrow> env \<Rightarrow> world \<Rightarrow> world" where
  "invoke (ApiCall a event) E w = snd (api_handler a event E w)"
| "invoke (OrgsCall event) E w = snd (orgs_handler event E w)"
| "invoke (KeysCall event) E w = snd (keys_handler event E w)"
| "invoke (DomainsCall s event) E w = snd (domains_handler s event E w)"
| "invoke (EmailInbound cfg keys) E w = snd (inbound_handler cfg keys E w)"
| "invoke (EmailOutbound cfg jobs) E w = snd (outbound_handler cfg jobs E w)"
| "invoke (SesEvents cfg records) E w = snd (ses_handler cfg records E w)"
| "invoke (WebhookDispatcher encKey records) E w = snd (webhook_dispatcher encKey records E w)"
| "invoke (Scheduler s) E w = snd (scheduler_handler s E w)"
| "invoke (Authorizer server event st) E w = snd (authorizer_handler server event st E w)"
| "invoke (LicenseRefresh cfg) E w = snd (refresh_handler cfg E w)"
| "invoke (SearchCall emb event) E w = snd (search_handler emb event E w)"
| "invoke (Embedding cfg records) E w = snd (embedder_handler cfg records E w)"
| "invoke (SocketConnect event) E w = snd (ws_connect event E w)"
| "invoke (SocketDisconnect event) E w = snd (ws_disconnect event E w)"
| "invoke (SocketDispatcher records) E w = snd (ws_dispatcher records E w)"
| "invoke (Bootstrap dbURL org slug key) E w = snd (bootstrap dbURL org slug key E w)"

lemma api_typed: "answers_keep database_ok (api_handler a event)"
  by (cases a) (simp_all add: drafts_typed messages_typed threads_typed inboxes_typed webhooks_typed)

lemma invoke_typed:
  assumes "database_ok (w_db w)"
  shows "database_ok (w_db (invoke i E w))"
  using assms api_typed orgs_handler_typed keys_handler_typed domains_handler_typed inbound_typed outbound_typed ses_typed
    dispatcher_typed scheduler_typed authorizer_typed search_handler_typed embedder_typed ws_connection_typed
    ws_dispatcher_typed bootstrap_typed
  by (cases i) (simp_all add: answers_keep_def keeps_db_iff)

text \<open>A step is any invocation in any environment; \<open>system_runs\<close> are finite sequences of steps.\<close>

inductive system_step :: "world \<Rightarrow> world \<Rightarrow> bool" where
  invoked: "system_step w (invoke i E w)"

inductive_cases system_stepE: "system_step w w'"

abbreviation system_runs :: "world \<Rightarrow> world \<Rightarrow> bool" where
  "system_runs \<equiv> system_step\<^sup>*\<^sup>*"

text \<open>C6. Tenants stay apart in the whole system: from a database that keeps its schema and where every thread and message
  belongs to the organisation of its inbox, and every message to that of its thread, no sequence of invocations of the Lambda
  functions and the bootstrap tool, whatever requests, mails, notifications and answers they get and wherever one of them
  fails, leads to a database where one of these does not hold.  PostgreSQL guarantees the schema; that no mail is put
  into an inbox or a thread of another organisation it does not check: the lookups of the services do.\<close>

theorem tenants_stay_apart:
  assumes "system_runs w w'" and "database_ok (w_db w)"
  shows "database_ok (w_db w') \<and>
    (\<forall>t \<in> set (t_threads (w_db w')). \<exists>i \<in> set (t_inboxes (w_db w')). ib_ID i = tr_inbox_id t \<and> ib_OrgID i = tr_org_id t) \<and>
    (\<forall>m \<in> set (t_messages (w_db w')).
       (\<exists>i \<in> set (t_inboxes (w_db w')). ib_ID i = mr_inbox_id m \<and> ib_OrgID i = mr_org_id m) \<and>
       (\<exists>t \<in> set (t_threads (w_db w')). tr_id t = mr_thread_id m \<and> tr_org_id t = mr_org_id m))"
proof -
  have "database_ok (w_db w')"
    using assms by (induction rule: rtranclp_induct) (auto elim!: system_stepE intro: invoke_typed)
  then show ?thesis by (simp add: database_ok_def tenants_apart_iff)
qed

text \<open>From a database with a pod to which a key and a webhook belong: an approval over HTTP, the deletion of the pod,
  and a run of the scheduler.\<close>

definition demo_system :: world where
  "demo_system = demo_world\<lparr>w_db := demo_db\<lparr>t_pods := [demo_pod], t_api_keys := [demo_key (Some 13)],
     t_webhooks := [demo_webhook\<lparr>wh_Events := Some [], wh_PodID := Some 13\<rparr>]\<rparr>\<rparr>"

definition demo_pod_delete :: request where
  "demo_pod_delete = demo_request ''/v1/pods/{podId}'' ''DELETE'' [(''podId'', ''1111111111111'')] ''org:admin'' JNull"

definition demo_end :: world where
  "demo_end = invoke (Scheduler demo_draft_service) demo_env (invoke (OrgsCall demo_pod_delete) demo_env
     (invoke (ApiCall (DraftsApi demo_draft_service) (demo_approve ''111'' ''draft:write'')) demo_env demo_system))"

theorem tenants_stay_apart_witness:
  "database_ok (w_db demo_end) \<and> map (\<lambda>m. (mr_inbox_id m, mr_org_id m)) (t_messages (w_db demo_end)) = [(3, 1), (3, 1)]"
proof -
  have "system_runs demo_system demo_end"
    unfolding demo_end_def
    by (rule rtranclp.rtrancl_into_rtrancl [OF rtranclp.rtrancl_into_rtrancl [OF rtranclp.rtrancl_into_rtrancl]])
      (rule rtranclp.rtrancl_refl system_step.invoked)+
  moreover have "database_ok (w_db demo_system)" by code_simp
  moreover have "map (\<lambda>m. (mr_inbox_id m, mr_org_id m)) (t_messages (w_db demo_end)) = [(3, 1), (3, 1)]" by code_simp
  ultimately show ?thesis using tenants_stay_apart by blast
qed

end
