(* ===== verification/Event_Codec.thy ===== *)
theory Event_Codec
  imports Requests Demo
begin

text \<open>
  \<open>pkg/events/marshal.go\<close>: the JSON of the domain events and its decoding by the type member of the envelope.  What
  encoding/json does with the struct tags of \<open>types.go\<close> and \<open>email_events.go\<close> is written out: embedded structs are
  flattened, members with \<open>omitempty\<close> are left out when they are empty, and the text of a string is made valid UTF-8.
\<close>

section \<open>The text of a string in JSON\<close>

text \<open>The length of the UTF-8 sequence that a string begins with, by the table of \<open>utf8.DecodeRuneInString\<close>; zero when its first
  byte begins none.\<close>

definition between :: "nat \<Rightarrow> nat \<Rightarrow> char \<Rightarrow> bool" where
  "between lo hi c = (lo \<le> (of_char c :: nat) \<and> (of_char c :: nat) \<le> hi)"

fun rune_len :: "string \<Rightarrow> nat" where
  "rune_len [] = 0"
| "rune_len (c # cs) = (
     if between 0 0x7F c then 1
     else if between 0xC2 0xDF c then (case cs of c1 # _ \<Rightarrow> if between 0x80 0xBF c1 then 2 else 0 | _ \<Rightarrow> 0)
     else if between 0xE0 0xEF c then (case cs of
         c1 # c2 # _ \<Rightarrow> if between (if c = CHR 0xE0 then 0xA0 else 0x80) (if c = CHR 0xED then 0x9F else 0xBF) c1 \<and> between 0x80 0xBF c2
           then 3 else 0
       | _ \<Rightarrow> 0)
     else if between 0xF0 0xF4 c then (case cs of
         c1 # c2 # c3 # _ \<Rightarrow> if between (if c = CHR 0xF0 then 0x90 else 0x80) (if c = CHR 0xF4 then 0x8F else 0xBF) c1 \<and>
           between 0x80 0xBF c2 \<and> between 0x80 0xBF c3 then 4 else 0
       | _ \<Rightarrow> 0)
     else 0)"

text \<open>U+FFFD, which \<open>json.Marshal\<close> writes for every byte that is not part of a valid sequence.\<close>

definition replacement_char :: string where
  "replacement_char = [CHR 0xEF, CHR 0xBF, CHR 0xBD]"

fun json_text :: "string \<Rightarrow> string" where
  "json_text [] = []"
| "json_text (c # cs) =
     (case rune_len (c # cs) of 0 \<Rightarrow> replacement_char @ json_text cs | Suc n \<Rightarrow> c # take n cs @ json_text (drop n cs))"

fun valid_text :: "string \<Rightarrow> bool" where
  "valid_text [] = True"
| "valid_text (c # cs) = (case rune_len (c # cs) of 0 \<Rightarrow> False | Suc n \<Rightarrow> valid_text (drop n cs))"

lemma json_text_valid: "valid_text s \<Longrightarrow> json_text s = s"
  by (induction s rule: valid_text.induct) (simp_all del: rune_len.simps split: nat.splits)

lemma json_text_Nil [simp]: "json_text s = [] \<longleftrightarrow> s = []"
  by (cases s) (simp_all add: replacement_char_def del: rune_len.simps split: nat.split)

lemma json_text_types [simp]:
  "json_text EventMessageReceived = EventMessageReceived" "json_text EventMessageSent = EventMessageSent"
  "json_text EventMessageBounced = EventMessageBounced" "json_text EventMessageEngagement = EventMessageEngagement"
  "json_text EventThreadCreated = EventThreadCreated" "json_text EventThreadStatusChanged = EventThreadStatusChanged"
  "json_text EventDraftCreated = EventDraftCreated" "json_text EventDraftApproved = EventDraftApproved"
  "json_text EventDraftRejected = EventDraftRejected" "json_text EventInboxCreated = EventInboxCreated"
  "json_text EventLabelApplied = EventLabelApplied"
  by code_simp+

section \<open>Codecs\<close>

text \<open>The contract of an encoder and a decoder: what is encoded is not null and is decoded again, from the zero
  value, up to \<open>norm\<close>, for the values in \<open>ok\<close>.\<close>

locale json_codec =
  fixes enc :: "'a \<Rightarrow> json" and dec :: "json \<Rightarrow> 'a \<Rightarrow> 'a option" and zero :: 'a and ok :: "'a \<Rightarrow> bool"
    and norm :: "'a \<Rightarrow> 'a"
  assumes dec_enc: "ok x \<Longrightarrow> dec (enc x) zero = Some (norm x)" and enc_not_null: "enc x \<noteq> JNull"
begin

lemma elems: "list_all ok xs \<Longrightarrow> dec_elems dec zero (map enc xs) = Some (map norm xs)"
  by (induction xs) (simp_all add: dec_enc)

lemma slice: "list_all ok xs \<Longrightarrow> dec_slice dec zero (JArr (map enc xs)) = Some (Some (map norm xs))"
  by (simp add: dec_slice_def elems)

lemma pointer: "ok x \<Longrightarrow> dec_ptr dec zero (enc x) None = Some (Some (norm x))"
  by (simp add: dec_ptr_def enc_not_null dec_enc)

end

definition enc_string :: "string \<Rightarrow> json" where
  "enc_string s = JStr (json_text s)"

definition enc_uuid :: "env \<Rightarrow> uuid \<Rightarrow> json" where
  "enc_uuid E u = JStr (fmt_uuid E u)"

definition enc_time :: "env \<Rightarrow> time \<Rightarrow> json" where
  "enc_time E t = JStr (fmt_time E t)"

definition dec_int64 :: "json \<Rightarrow> int \<Rightarrow> int option" where
  "dec_int64 v cur = (case v of JNum n \<Rightarrow> if in_int64 n then Some n else None | JNull \<Rightarrow> Some cur | _ \<Rightarrow> None)"

interpretation strings: json_codec enc_string dec_string "[]" "\<lambda>_. True" json_text
  by unfold_locales (simp_all add: enc_string_def dec_string_def)

interpretation uuids: json_codec "enc_uuid E" "dec_uuid E" uuid_Nil "\<lambda>u. parse_uuid E (fmt_uuid E u) = Some u" id for E
  by unfold_locales (simp_all add: enc_uuid_def dec_uuid_def)

interpretation times: json_codec "enc_time E" "dec_time E" zero_time "\<lambda>t. parse_time E (fmt_time E t) = Some t" id for E
  by unfold_locales (simp_all add: enc_time_def dec_time_def)

interpretation integers: json_codec JNum dec_int64 0 in_int64 id
  by unfold_locales (simp_all add: dec_int64_def)

interpretation bools: json_codec JBool dec_bool False "\<lambda>_. True" id
  by unfold_locales (simp_all add: dec_bool_def)

section \<open>Members\<close>

lemma member_names [simp]:
  "to_lower ''id'' = ''id''" "to_lower ''type'' = ''type''" "to_lower ''org_id'' = ''org_id''" "to_lower ''occurred_at'' = ''occurred_at''"
  "to_lower ''correlation_id'' = ''correlation_id''" "to_lower ''data'' = ''data''" "to_lower ''email'' = ''email''" "to_lower ''name'' = ''name''"
  "to_lower ''filename'' = ''filename''" "to_lower ''content_type'' = ''content_type''" "to_lower ''size_bytes'' = ''size_bytes''" "to_lower ''content_id'' = ''content_id''"
  "to_lower ''inline'' = ''inline''" "to_lower ''message_id'' = ''message_id''" "to_lower ''inbox_id'' = ''inbox_id''" "to_lower ''thread_id'' = ''thread_id''"
  "to_lower ''direction'' = ''direction''" "to_lower ''status'' = ''status''" "to_lower ''subject'' = ''subject''" "to_lower ''from'' = ''from''"
  "to_lower ''to'' = ''to''" "to_lower ''cc'' = ''cc''" "to_lower ''bcc'' = ''bcc''" "to_lower ''reply_to'' = ''reply_to''"
  "to_lower ''body_text'' = ''body_text''" "to_lower ''body_html'' = ''body_html''" "to_lower ''preview'' = ''preview''" "to_lower ''headers'' = ''headers''"
  "to_lower ''attachments'' = ''attachments''" "to_lower ''sent_at'' = ''sent_at''" "to_lower ''received_at'' = ''received_at''" "to_lower ''created_at'' = ''created_at''"
  "to_lower ''updated_at'' = ''updated_at''" "to_lower ''raw_s3_key'' = ''raw_s3_key''" "to_lower ''bounce_code'' = ''bounce_code''" "to_lower ''bounce_reason'' = ''bounce_reason''"
  "to_lower ''engagement_type'' = ''engagement_type''" "to_lower ''link_url'' = ''link_url''" "to_lower ''ip_address'' = ''ip_address''" "to_lower ''user_agent'' = ''user_agent''"
  "to_lower ''first_message_id'' = ''first_message_id''" "to_lower ''old_status'' = ''old_status''" "to_lower ''new_status'' = ''new_status''" "to_lower ''draft_id'' = ''draft_id''"
  "to_lower ''reason'' = ''reason''" "to_lower ''email_address'' = ''email_address''" "to_lower ''pod_id'' = ''pod_id''" "to_lower ''label_id'' = ''label_id''"
  "to_lower ''label_name'' = ''label_name''"
  by code_simp+

text \<open>A string member with \<open>omitempty\<close>.\<close>

definition opt :: "string \<Rightarrow> string \<Rightarrow> (string \<times> json) list" where
  "opt k s = (if s = [] then [] else [(k, enc_string s)])"

lemma dec_members_append:
  "dec_members f (xs @ ys) r = (case dec_members f xs r of None \<Rightarrow> None | Some r' \<Rightarrow> dec_members f ys r')"
  by (induction f xs r rule: dec_members.induct) (auto split: option.splits)

text \<open>An optional member of a value whose field is still empty.\<close>

lemma dec_opt:
  assumes "f (to_lower k) (enc_string s) r = Some r'" and "s = [] \<Longrightarrow> r' = r"
  shows "dec_members f (opt k s) r = Some r'"
  using assms by (simp add: opt_def)

text \<open>A struct with an embedded struct: \<open>f\<close> decodes the members of the embedded one, \<open>extra\<close> are the others.\<close>

definition flat :: "(string \<Rightarrow> json \<Rightarrow> 'a \<Rightarrow> 'a option) \<Rightarrow> (string \<times> (json \<Rightarrow> 'b \<Rightarrow> 'b option)) list \<Rightarrow> string \<Rightarrow> json
    \<Rightarrow> 'a \<times> 'b \<Rightarrow> ('a \<times> 'b) option" where
  "flat f extra name v = (\<lambda>(a, b).
     case map_of extra name of
       Some d \<Rightarrow> map_option (Pair a) (d v b)
     | None \<Rightarrow> map_option (\<lambda>a. (a, b)) (f name v a))"

lemma flat_members:
  "list_all (\<lambda>m. map_of extra (to_lower (fst m)) = None) ms \<Longrightarrow>
   dec_members (flat f extra) ms (a, b) = map_option (\<lambda>a. (a, b)) (dec_members f ms a)"
proof (induction ms arbitrary: a)
  case (Cons m ms)
  obtain k v where "m = (k, v)" by (rule prod.exhaust)
  with Cons show ?case by (cases "f (to_lower k) v a") (simp_all add: flat_def)
qed simp

section \<open>Addresses, attachments and headers\<close>

definition address_members :: "email_address \<Rightarrow> (string \<times> json) list" where
  "address_members a = (''email'', enc_string (ea_Email a)) # opt ''name'' (ea_Name a)"

definition enc_address :: "email_address \<Rightarrow> json" where
  "enc_address a = JObj (address_members a)"

definition attachment_members :: "attachment_info \<Rightarrow> (string \<times> json) list" where
  "attachment_members a =
     [(''id'', enc_string (ai_ID a)), (''filename'', enc_string (ai_Filename a)), (''content_type'', enc_string (ai_ContentType a)),
      (''size_bytes'', JNum (ai_SizeBytes a))] @ opt ''content_id'' (ai_ContentID a) @
     (if ai_Inline a then [(''inline'', JBool True)] else [])"

definition enc_attachment :: "attachment_info \<Rightarrow> json" where
  "enc_attachment a = JObj (attachment_members a)"

definition dec_attachment_info :: "json \<Rightarrow> attachment_info \<Rightarrow> attachment_info option" where
  "dec_attachment_info = dec_struct (\<lambda>name v r.
     if name = ''id'' then map_option (\<lambda>x. r\<lparr>ai_ID := x\<rparr>) (dec_string v (ai_ID r))
     else if name = ''filename'' then map_option (\<lambda>x. r\<lparr>ai_Filename := x\<rparr>) (dec_string v (ai_Filename r))
     else if name = ''content_type'' then map_option (\<lambda>x. r\<lparr>ai_ContentType := x\<rparr>) (dec_string v (ai_ContentType r))
     else if name = ''size_bytes'' then map_option (\<lambda>x. r\<lparr>ai_SizeBytes := x\<rparr>) (dec_int64 v (ai_SizeBytes r))
     else if name = ''content_id'' then map_option (\<lambda>x. r\<lparr>ai_ContentID := x\<rparr>) (dec_string v (ai_ContentID r))
     else if name = ''inline'' then map_option (\<lambda>x. r\<lparr>ai_Inline := x\<rparr>) (dec_bool v (ai_Inline r))
     else Some r)"

definition zero_attachment_info :: attachment_info where
  "zero_attachment_info = \<lparr>ai_ID = [], ai_Filename = [], ai_ContentType = [], ai_SizeBytes = 0, ai_ContentID = [], ai_Inline = False\<rparr>"

text \<open>A \<open>map[string][]string\<close>: a later entry replaces an earlier one with its key.\<close>

definition put_entry :: "string \<Rightarrow> 'v \<Rightarrow> (string \<times> 'v) list \<Rightarrow> (string \<times> 'v) list" where
  "put_entry k v m = filter (\<lambda>e. fst e \<noteq> k) m @ [(k, v)]"

fun dec_entries :: "(string \<times> json) list \<Rightarrow> (string \<times> string list) list \<Rightarrow> (string \<times> string list) list option" where
  "dec_entries [] m = Some m"
| "dec_entries ((k, v) # ms) m =
     (case dec_slice dec_string [] v of None \<Rightarrow> None | Some vs \<Rightarrow> dec_entries ms (put_entry k (or_empty vs) m))"

definition dec_headers :: "json \<Rightarrow> (string \<times> string list) list \<Rightarrow> (string \<times> string list) list option" where
  "dec_headers v cur = (case v of JNull \<Rightarrow> Some [] | JObj ms \<Rightarrow> dec_entries ms cur | _ \<Rightarrow> None)"

definition enc_headers :: "(string \<times> string list) list \<Rightarrow> json" where
  "enc_headers m = JObj (map (\<lambda>(k, vs). (json_text k, JArr (map enc_string vs))) m)"

text \<open>What is read back: the same with valid texts.\<close>

definition read_address :: "email_address \<Rightarrow> email_address" where
  "read_address a = \<lparr>ea_Email = json_text (ea_Email a), ea_Name = json_text (ea_Name a)\<rparr>"

definition read_attachment :: "attachment_info \<Rightarrow> attachment_info" where
  "read_attachment a = \<lparr>ai_ID = json_text (ai_ID a), ai_Filename = json_text (ai_Filename a), ai_ContentType = json_text (ai_ContentType a),
     ai_SizeBytes = ai_SizeBytes a, ai_ContentID = json_text (ai_ContentID a), ai_Inline = ai_Inline a\<rparr>"

definition read_headers :: "(string \<times> string list) list \<Rightarrow> (string \<times> string list) list" where
  "read_headers m = map (\<lambda>(k, vs). (json_text k, map json_text vs)) m"

interpretation addresses: json_codec enc_address dec_address zero_address "\<lambda>_. True" read_address
  by unfold_locales
    (simp_all add: enc_string_def read_address_def enc_address_def address_members_def opt_def dec_address_def dec_struct_def dec_string_def zero_address_def)

interpretation attachment_infos: json_codec enc_attachment dec_attachment_info zero_attachment_info "\<lambda>a. in_int64 (ai_SizeBytes a)" read_attachment
  by unfold_locales
    (simp_all add: enc_string_def read_attachment_def enc_attachment_def attachment_members_def opt_def dec_attachment_info_def dec_struct_def dec_string_def dec_int64_def
      dec_bool_def zero_attachment_info_def)

lemma dec_entries_enc:
  "distinct (map fst (m0 @ read_headers m)) \<Longrightarrow>
   dec_entries (map (\<lambda>(k, vs). (json_text k, JArr (map enc_string vs))) m) m0 = Some (m0 @ read_headers m)"
proof (induction m arbitrary: m0)
  case (Cons x m)
  obtain k vs where x: "x = (k, vs)" by (rule prod.exhaust)
  have "dec_slice dec_string [] (JArr (map enc_string vs)) = Some (Some (map json_text vs))" by (rule strings.slice) (simp add: list_all_iff)
  moreover have "filter (\<lambda>e. fst e \<noteq> json_text k) m0 = m0"
    using Cons.prems by (intro filter_True) (force simp: x read_headers_def)
  ultimately show ?case
    using Cons.IH [of "m0 @ [(json_text k, map json_text vs)]"] Cons.prems by (simp add: x put_entry_def or_empty_def read_headers_def)
qed (simp add: read_headers_def)

interpretation header_maps: json_codec enc_headers dec_headers "[]" "\<lambda>m. distinct (map fst (read_headers m))" read_headers
  by unfold_locales (simp_all add: enc_headers_def dec_headers_def dec_entries_enc)

section \<open>The envelope and the payload\<close>

definition base_members :: "env \<Rightarrow> base_event \<Rightarrow> (string \<times> json) list" where
  "base_members E b =
     [(''id'', enc_string (be_ID b)), (''type'', enc_string (be_Type b)), (''org_id'', enc_string (be_OrgID b)),
      (''occurred_at'', enc_time E (be_OccurredAt b))] @ opt ''correlation_id'' (be_CorrelationID b)"

definition base_field :: "env \<Rightarrow> string \<Rightarrow> json \<Rightarrow> base_event \<Rightarrow> base_event option" where
  "base_field E name v r = (
     if name = ''id'' then map_option (\<lambda>x. r\<lparr>be_ID := x\<rparr>) (dec_string v (be_ID r))
     else if name = ''type'' then map_option (\<lambda>x. r\<lparr>be_Type := x\<rparr>) (dec_string v (be_Type r))
     else if name = ''org_id'' then map_option (\<lambda>x. r\<lparr>be_OrgID := x\<rparr>) (dec_string v (be_OrgID r))
     else if name = ''occurred_at'' then map_option (\<lambda>x. r\<lparr>be_OccurredAt := x\<rparr>) (dec_time E v (be_OccurredAt r))
     else if name = ''correlation_id'' then map_option (\<lambda>x. r\<lparr>be_CorrelationID := x\<rparr>) (dec_string v (be_CorrelationID r))
     else Some r)"

definition read_base :: "base_event \<Rightarrow> base_event" where
  "read_base b = \<lparr>be_ID = json_text (be_ID b), be_Type = json_text (be_Type b), be_OrgID = json_text (be_OrgID b),
     be_OccurredAt = be_OccurredAt b, be_CorrelationID = json_text (be_CorrelationID b)\<rparr>"

lemma read_type: "be_Type (read_base b) = json_text (be_Type b)"
  by (simp add: read_base_def)

definition zero_base :: base_event where
  "zero_base = \<lparr>be_ID = [], be_Type = [], be_OrgID = [], be_OccurredAt = zero_time, be_CorrelationID = []\<rparr>"

definition opt_time :: "env \<Rightarrow> string \<Rightarrow> time option \<Rightarrow> (string \<times> json) list" where
  "opt_time E k t = (case t of None \<Rightarrow> [] | Some x \<Rightarrow> [(k, enc_time E x)])"

definition payload_members :: "env \<Rightarrow> message_payload \<Rightarrow> (string \<times> json) list" where
  "payload_members E p =
     [(''id'', enc_string (mp_ID p)), (''message_id'', enc_string (mp_MessageID p)), (''inbox_id'', enc_uuid E (mp_InboxID p)),
      (''thread_id'', enc_uuid E (mp_ThreadID p)), (''direction'', enc_string (mp_Direction p)), (''status'', enc_string (mp_Status p)),
      (''subject'', enc_string (mp_Subject p)), (''from'', enc_address (mp_From p)),
      (''to'', JArr (map enc_address (mp_To p))), (''cc'', JArr (map enc_address (mp_Cc p))), (''bcc'', JArr (map enc_address (mp_Bcc p)))] @
     opt ''reply_to'' (mp_ReplyTo p) @ opt ''body_text'' (mp_BodyText p) @ opt ''body_html'' (mp_BodyHTML p) @ opt ''preview'' (mp_Preview p) @
     (if mp_Headers p = [] then [] else [(''headers'', enc_headers (mp_Headers p))]) @
     [(''attachments'', JArr (map enc_attachment (mp_Attachments p)))] @
     opt_time E ''sent_at'' (mp_SentAt p) @ opt_time E ''received_at'' (mp_ReceivedAt p) @
     [(''created_at'', enc_time E (mp_CreatedAt p)), (''updated_at'', enc_time E (mp_UpdatedAt p))]"

definition payload_field :: "env \<Rightarrow> string \<Rightarrow> json \<Rightarrow> message_payload \<Rightarrow> message_payload option" where
  "payload_field E name v r = (
     if name = ''id'' then map_option (\<lambda>x. r\<lparr>mp_ID := x\<rparr>) (dec_string v (mp_ID r))
     else if name = ''message_id'' then map_option (\<lambda>x. r\<lparr>mp_MessageID := x\<rparr>) (dec_string v (mp_MessageID r))
     else if name = ''inbox_id'' then map_option (\<lambda>x. r\<lparr>mp_InboxID := x\<rparr>) (dec_uuid E v (mp_InboxID r))
     else if name = ''thread_id'' then map_option (\<lambda>x. r\<lparr>mp_ThreadID := x\<rparr>) (dec_uuid E v (mp_ThreadID r))
     else if name = ''direction'' then map_option (\<lambda>x. r\<lparr>mp_Direction := x\<rparr>) (dec_string v (mp_Direction r))
     else if name = ''status'' then map_option (\<lambda>x. r\<lparr>mp_Status := x\<rparr>) (dec_string v (mp_Status r))
     else if name = ''subject'' then map_option (\<lambda>x. r\<lparr>mp_Subject := x\<rparr>) (dec_string v (mp_Subject r))
     else if name = ''from'' then map_option (\<lambda>x. r\<lparr>mp_From := x\<rparr>) (dec_address v (mp_From r))
     else if name = ''to'' then map_option (\<lambda>x. r\<lparr>mp_To := x\<rparr>) (map_option or_empty (dec_addresses v))
     else if name = ''cc'' then map_option (\<lambda>x. r\<lparr>mp_Cc := x\<rparr>) (map_option or_empty (dec_addresses v))
     else if name = ''bcc'' then map_option (\<lambda>x. r\<lparr>mp_Bcc := x\<rparr>) (map_option or_empty (dec_addresses v))
     else if name = ''reply_to'' then map_option (\<lambda>x. r\<lparr>mp_ReplyTo := x\<rparr>) (dec_string v (mp_ReplyTo r))
     else if name = ''body_text'' then map_option (\<lambda>x. r\<lparr>mp_BodyText := x\<rparr>) (dec_string v (mp_BodyText r))
     else if name = ''body_html'' then map_option (\<lambda>x. r\<lparr>mp_BodyHTML := x\<rparr>) (dec_string v (mp_BodyHTML r))
     else if name = ''preview'' then map_option (\<lambda>x. r\<lparr>mp_Preview := x\<rparr>) (dec_string v (mp_Preview r))
     else if name = ''headers'' then map_option (\<lambda>x. r\<lparr>mp_Headers := x\<rparr>) (dec_headers v (mp_Headers r))
     else if name = ''attachments'' then map_option (\<lambda>x. r\<lparr>mp_Attachments := x\<rparr>) (map_option or_empty (dec_slice dec_attachment_info zero_attachment_info v))
     else if name = ''sent_at'' then map_option (\<lambda>x. r\<lparr>mp_SentAt := x\<rparr>) (dec_ptr (dec_time E) zero_time v (mp_SentAt r))
     else if name = ''received_at'' then map_option (\<lambda>x. r\<lparr>mp_ReceivedAt := x\<rparr>) (dec_ptr (dec_time E) zero_time v (mp_ReceivedAt r))
     else if name = ''created_at'' then map_option (\<lambda>x. r\<lparr>mp_CreatedAt := x\<rparr>) (dec_time E v (mp_CreatedAt r))
     else if name = ''updated_at'' then map_option (\<lambda>x. r\<lparr>mp_UpdatedAt := x\<rparr>) (dec_time E v (mp_UpdatedAt r))
     else Some r)"

definition zero_payload :: message_payload where
  "zero_payload = \<lparr>mp_ID = [], mp_MessageID = [], mp_InboxID = uuid_Nil, mp_ThreadID = uuid_Nil, mp_Direction = [], mp_Status = [],
     mp_Subject = [], mp_From = zero_address, mp_To = [], mp_Cc = [], mp_Bcc = [], mp_ReplyTo = [], mp_BodyText = [], mp_BodyHTML = [],
     mp_Preview = [], mp_Headers = [], mp_Attachments = [], mp_SentAt = None, mp_ReceivedAt = None, mp_CreatedAt = zero_time,
     mp_UpdatedAt = zero_time\<rparr>"

section \<open>Marshal and Unmarshal\<close>

text \<open>The members of the data structs beside an embedded payload, and of those without one.\<close>

definition str_member :: "string \<Rightarrow> ((string \<Rightarrow> string) \<Rightarrow> 'b \<Rightarrow> 'b) \<Rightarrow> string \<times> (json \<Rightarrow> 'b \<Rightarrow> 'b option)" where
  "str_member k upd = (k, \<lambda>v b. case v of JStr s \<Rightarrow> Some (upd (\<lambda>_. s) b) | JNull \<Rightarrow> Some b | _ \<Rightarrow> None)"

definition uuid_member :: "env \<Rightarrow> string \<Rightarrow> ((uuid \<Rightarrow> uuid) \<Rightarrow> 'b \<Rightarrow> 'b) \<Rightarrow> string \<times> (json \<Rightarrow> 'b \<Rightarrow> 'b option)" where
  "uuid_member E k upd = (k, \<lambda>v b. case v of JStr s \<Rightarrow> map_option (\<lambda>u. upd (\<lambda>_. u) b) (parse_uuid E s) | JNull \<Rightarrow> Some b | _ \<Rightarrow> None)"

definition table_field :: "(string \<times> (json \<Rightarrow> 'b \<Rightarrow> 'b option)) list \<Rightarrow> string \<Rightarrow> json \<Rightarrow> 'b \<Rightarrow> 'b option" where
  "table_field fs name v b = (case map_of fs name of None \<Rightarrow> Some b | Some d \<Rightarrow> d v b)"

text \<open>The decoders of the data structs, into tuples of their fields in the order of the structs.\<close>

definition received_data :: "env \<Rightarrow> json \<Rightarrow> message_payload \<times> string \<Rightarrow> (message_payload \<times> string) option" where
  "received_data E = dec_struct (flat (payload_field E) [str_member ''raw_s3_key'' (\<lambda>f. f)])"

definition sent_data :: "env \<Rightarrow> json \<Rightarrow> message_payload \<Rightarrow> message_payload option" where
  "sent_data E = dec_struct (payload_field E)"

definition bounced_data :: "env \<Rightarrow> json \<Rightarrow> message_payload \<times> string \<times> string \<Rightarrow> (message_payload \<times> string \<times> string) option" where
  "bounced_data E = dec_struct (flat (payload_field E) [str_member ''bounce_code'' apfst, str_member ''bounce_reason'' apsnd])"

definition engagement_data :: "env \<Rightarrow> json \<Rightarrow> message_payload \<times> string \<times> string \<times> string \<times> string
    \<Rightarrow> (message_payload \<times> string \<times> string \<times> string \<times> string) option" where
  "engagement_data E = dec_struct (flat (payload_field E)
     [str_member ''engagement_type'' apfst, str_member ''link_url'' (\<lambda>f. apsnd (apfst f)),
      str_member ''ip_address'' (\<lambda>f. apsnd (apsnd (apfst f))), str_member ''user_agent'' (\<lambda>f. apsnd (apsnd (apsnd f)))])"

definition thread_created_data :: "env \<Rightarrow> json \<Rightarrow> uuid \<times> uuid \<times> string \<times> string \<Rightarrow> (uuid \<times> uuid \<times> string \<times> string) option" where
  "thread_created_data E = dec_struct (table_field
     [uuid_member E ''thread_id'' apfst, uuid_member E ''inbox_id'' (\<lambda>f. apsnd (apfst f)),
      str_member ''subject'' (\<lambda>f. apsnd (apsnd (apfst f))), str_member ''first_message_id'' (\<lambda>f. apsnd (apsnd (apsnd f)))])"

definition thread_status_data :: "env \<Rightarrow> json \<Rightarrow> uuid \<times> uuid \<times> string \<times> string \<Rightarrow> (uuid \<times> uuid \<times> string \<times> string) option" where
  "thread_status_data E = dec_struct (table_field
     [uuid_member E ''thread_id'' apfst, uuid_member E ''inbox_id'' (\<lambda>f. apsnd (apfst f)),
      str_member ''old_status'' (\<lambda>f. apsnd (apsnd (apfst f))), str_member ''new_status'' (\<lambda>f. apsnd (apsnd (apsnd f)))])"

definition draft_data :: "env \<Rightarrow> json \<Rightarrow> uuid \<times> uuid \<times> uuid \<Rightarrow> (uuid \<times> uuid \<times> uuid) option" where
  "draft_data E = dec_struct (table_field
     [uuid_member E ''draft_id'' apfst, uuid_member E ''thread_id'' (\<lambda>f. apsnd (apfst f)), uuid_member E ''inbox_id'' (\<lambda>f. apsnd (apsnd f))])"

definition draft_rejected_data :: "env \<Rightarrow> json \<Rightarrow> uuid \<times> uuid \<times> uuid \<times> string \<Rightarrow> (uuid \<times> uuid \<times> uuid \<times> string) option" where
  "draft_rejected_data E = dec_struct (table_field
     [uuid_member E ''draft_id'' apfst, uuid_member E ''thread_id'' (\<lambda>f. apsnd (apfst f)),
      uuid_member E ''inbox_id'' (\<lambda>f. apsnd (apsnd (apfst f))), str_member ''reason'' (\<lambda>f. apsnd (apsnd (apsnd f)))])"

definition inbox_created_data :: "env \<Rightarrow> json \<Rightarrow> uuid \<times> string \<times> uuid \<Rightarrow> (uuid \<times> string \<times> uuid) option" where
  "inbox_created_data E = dec_struct (table_field
     [uuid_member E ''inbox_id'' apfst, str_member ''email_address'' (\<lambda>f. apsnd (apfst f)), uuid_member E ''pod_id'' (\<lambda>f. apsnd (apsnd f))])"

definition label_applied_data :: "env \<Rightarrow> json \<Rightarrow> uuid \<times> uuid \<times> string \<Rightarrow> (uuid \<times> uuid \<times> string) option" where
  "label_applied_data E = dec_struct (table_field
     [uuid_member E ''thread_id'' apfst, uuid_member E ''label_id'' (\<lambda>f. apsnd (apfst f)), str_member ''label_name'' (\<lambda>f. apsnd (apsnd f))])"

text \<open>\<open>json.Unmarshal(data, &e)\<close> for an event struct: the embedded envelope and the data.\<close>

definition dec_event :: "env \<Rightarrow> (json \<Rightarrow> 'd \<Rightarrow> 'd option) \<Rightarrow> 'd \<Rightarrow> (base_event \<Rightarrow> 'd \<Rightarrow> event) \<Rightarrow> json \<Rightarrow> go_error + event" where
  "dec_event E dd zero mk v =
     (case dec_struct (flat (base_field E) [(''data'', dd)]) v (zero_base, zero) of
        None \<Rightarrow> Inl (Errorf ''json: cannot unmarshal'')
      | Some (b, x) \<Rightarrow> Inr (mk b x))"

definition Unmarshal :: "env \<Rightarrow> json option \<Rightarrow> go_error + event" where
  "Unmarshal E data =
     (case data of
        None \<Rightarrow> Inl (Wrap ''unmarshal base event'' (Errorf ''invalid JSON''))
      | Some v \<Rightarrow>
          (case dec_struct (base_field E) v zero_base of
             None \<Rightarrow> Inl (Wrap ''unmarshal base event'' (Errorf ''json: cannot unmarshal''))
           | Some base \<Rightarrow>
               (let t = be_Type base in
                if t = EventMessageReceived then dec_event E (received_data E) (zero_payload, []) (\<lambda>b (p, k). MessageReceivedEvent b p k) v
                else if t = EventMessageSent then dec_event E (sent_data E) zero_payload MessageSentEvent v
                else if t = EventMessageBounced then
                  dec_event E (bounced_data E) (zero_payload, [], []) (\<lambda>b (p, c, r). MessageBouncedEvent b p c r) v
                else if t = EventMessageEngagement then
                  dec_event E (engagement_data E) (zero_payload, [], [], [], []) (\<lambda>b (p, e, l, i, a). MessageEngagementEvent b p e l i a) v
                else if t = EventThreadCreated then
                  dec_event E (thread_created_data E) (uuid_Nil, uuid_Nil, [], []) (\<lambda>b (th, i, s, m). ThreadCreatedEvent b th i s m) v
                else if t = EventThreadStatusChanged then
                  dec_event E (thread_status_data E) (uuid_Nil, uuid_Nil, [], []) (\<lambda>b (th, i, old, new). ThreadStatusChangedEvent b th i old new) v
                else if t = EventDraftCreated then
                  dec_event E (draft_data E) (uuid_Nil, uuid_Nil, uuid_Nil) (\<lambda>b (d, th, i). DraftCreatedEvent b d th i) v
                else if t = EventDraftApproved then
                  dec_event E (draft_data E) (uuid_Nil, uuid_Nil, uuid_Nil) (\<lambda>b (d, th, i). DraftApprovedEvent b d th i) v
                else if t = EventDraftRejected then
                  dec_event E (draft_rejected_data E) (uuid_Nil, uuid_Nil, uuid_Nil, []) (\<lambda>b (d, th, i, r). DraftRejectedEvent b d th i r) v
                else if t = EventInboxCreated then
                  dec_event E (inbox_created_data E) (uuid_Nil, [], uuid_Nil) (\<lambda>b (i, a, p). InboxCreatedEvent b i a p) v
                else if t = EventLabelApplied then
                  dec_event E (label_applied_data E) (uuid_Nil, uuid_Nil, []) (\<lambda>b (th, l, n). LabelAppliedEvent b th l n) v
                else Inl (Errorf (''unknown event type: '' @ t)))))"

text \<open>The members of the data of an event, as its struct tags say.\<close>

fun data_members :: "env \<Rightarrow> event \<Rightarrow> (string \<times> json) list" where
  "data_members E (MessageReceivedEvent b p k) = payload_members E p @ opt ''raw_s3_key'' k"
| "data_members E (MessageSentEvent b p) = payload_members E p"
| "data_members E (MessageBouncedEvent b p c r) = payload_members E p @ opt ''bounce_code'' c @ opt ''bounce_reason'' r"
| "data_members E (MessageEngagementEvent b p t l i a) =
     payload_members E p @ [(''engagement_type'', enc_string t)] @ opt ''link_url'' l @ opt ''ip_address'' i @ opt ''user_agent'' a"
| "data_members E (ThreadCreatedEvent b th i s m) =
     [(''thread_id'', enc_uuid E th), (''inbox_id'', enc_uuid E i), (''subject'', enc_string s), (''first_message_id'', enc_string m)]"
| "data_members E (ThreadStatusChangedEvent b th i old new) =
     [(''thread_id'', enc_uuid E th), (''inbox_id'', enc_uuid E i), (''old_status'', enc_string old), (''new_status'', enc_string new)]"
| "data_members E (DraftCreatedEvent b d th i) = [(''draft_id'', enc_uuid E d), (''thread_id'', enc_uuid E th), (''inbox_id'', enc_uuid E i)]"
| "data_members E (DraftApprovedEvent b d th i) = [(''draft_id'', enc_uuid E d), (''thread_id'', enc_uuid E th), (''inbox_id'', enc_uuid E i)]"
| "data_members E (DraftRejectedEvent b d th i r) =
     [(''draft_id'', enc_uuid E d), (''thread_id'', enc_uuid E th), (''inbox_id'', enc_uuid E i), (''reason'', enc_string r)]"
| "data_members E (InboxCreatedEvent b i a p) = [(''inbox_id'', enc_uuid E i), (''email_address'', enc_string a), (''pod_id'', enc_uuid E p)]"
| "data_members E (LabelAppliedEvent b th l n) = [(''thread_id'', enc_uuid E th), (''label_id'', enc_uuid E l), (''label_name'', enc_string n)]"

definition Marshal :: "env \<Rightarrow> event \<Rightarrow> json" where
  "Marshal E e = JObj (base_members E (GetBase e) @ [(''data'', JObj (data_members E e))])"

section \<open>The round trip\<close>

text \<open>What the code relies on of the texts of ids and times.\<close>

definition texts_parse :: "env \<Rightarrow> bool" where
  "texts_parse E \<longleftrightarrow> (\<forall>u. parse_uuid E (fmt_uuid E u) = Some u) \<and> (\<forall>t. parse_time E (fmt_time E t) = Some t)"

text \<open>An event has the type of its struct; a size is a 64-bit integer and headers are a map, also after their names were
  made valid.\<close>

definition payload_wf :: "message_payload \<Rightarrow> bool" where
  "payload_wf p = (distinct (map fst (read_headers (mp_Headers p))) \<and> list_all (\<lambda>a. in_int64 (ai_SizeBytes a)) (mp_Attachments p))"

text \<open>An event as the consumers read it: every text made valid.\<close>

definition read_payload :: "message_payload \<Rightarrow> message_payload" where
  "read_payload p = p\<lparr>mp_ID := json_text (mp_ID p), mp_MessageID := json_text (mp_MessageID p), mp_Direction := json_text (mp_Direction p),
     mp_Status := json_text (mp_Status p), mp_Subject := json_text (mp_Subject p), mp_From := read_address (mp_From p),
     mp_To := map read_address (mp_To p), mp_Cc := map read_address (mp_Cc p), mp_Bcc := map read_address (mp_Bcc p),
     mp_ReplyTo := json_text (mp_ReplyTo p), mp_BodyText := json_text (mp_BodyText p), mp_BodyHTML := json_text (mp_BodyHTML p),
     mp_Preview := json_text (mp_Preview p), mp_Headers := read_headers (mp_Headers p),
     mp_Attachments := map read_attachment (mp_Attachments p)\<rparr>"

fun read_event :: "event \<Rightarrow> event" where
  "read_event (MessageReceivedEvent b p k) = MessageReceivedEvent (read_base b) (read_payload p) (json_text k)"
| "read_event (MessageSentEvent b p) = MessageSentEvent (read_base b) (read_payload p)"
| "read_event (MessageBouncedEvent b p c r) = MessageBouncedEvent (read_base b) (read_payload p) (json_text c) (json_text r)"
| "read_event (MessageEngagementEvent b p t l i a) =
     MessageEngagementEvent (read_base b) (read_payload p) (json_text t) (json_text l) (json_text i) (json_text a)"
| "read_event (ThreadCreatedEvent b th i s m) = ThreadCreatedEvent (read_base b) th i (json_text s) (json_text m)"
| "read_event (ThreadStatusChangedEvent b th i old new) = ThreadStatusChangedEvent (read_base b) th i (json_text old) (json_text new)"
| "read_event (DraftCreatedEvent b d th i) = DraftCreatedEvent (read_base b) d th i"
| "read_event (DraftApprovedEvent b d th i) = DraftApprovedEvent (read_base b) d th i"
| "read_event (DraftRejectedEvent b d th i r) = DraftRejectedEvent (read_base b) d th i (json_text r)"
| "read_event (InboxCreatedEvent b i a p) = InboxCreatedEvent (read_base b) i (json_text a) p"
| "read_event (LabelAppliedEvent b th l n) = LabelAppliedEvent (read_base b) th l (json_text n)"

text \<open>The texts of an event.\<close>

definition base_texts :: "base_event \<Rightarrow> string list" where
  "base_texts b = [be_ID b, be_Type b, be_OrgID b, be_CorrelationID b]"

definition payload_texts :: "message_payload \<Rightarrow> string list" where
  "payload_texts p = [mp_ID p, mp_MessageID p, mp_Direction p, mp_Status p, mp_Subject p, mp_ReplyTo p, mp_BodyText p, mp_BodyHTML p,
     mp_Preview p] @ concat (map (\<lambda>a. [ea_Email a, ea_Name a]) (mp_From p # mp_To p @ mp_Cc p @ mp_Bcc p)) @
     concat (map (\<lambda>(k, vs). k # vs) (mp_Headers p)) @
     concat (map (\<lambda>a. [ai_ID a, ai_Filename a, ai_ContentType a, ai_ContentID a]) (mp_Attachments p))"

fun event_texts :: "event \<Rightarrow> string list" where
  "event_texts (MessageReceivedEvent b p k) = base_texts b @ payload_texts p @ [k]"
| "event_texts (MessageSentEvent b p) = base_texts b @ payload_texts p"
| "event_texts (MessageBouncedEvent b p c r) = base_texts b @ payload_texts p @ [c, r]"
| "event_texts (MessageEngagementEvent b p t l i a) = base_texts b @ payload_texts p @ [t, l, i, a]"
| "event_texts (ThreadCreatedEvent b th i s m) = base_texts b @ [s, m]"
| "event_texts (ThreadStatusChangedEvent b th i old new) = base_texts b @ [old, new]"
| "event_texts (DraftCreatedEvent b d th i) = base_texts b"
| "event_texts (DraftApprovedEvent b d th i) = base_texts b"
| "event_texts (DraftRejectedEvent b d th i r) = base_texts b @ [r]"
| "event_texts (InboxCreatedEvent b i a p) = base_texts b @ [a]"
| "event_texts (LabelAppliedEvent b th l n) = base_texts b @ [n]"

lemma list_all_concat: "list_all P (concat xss) = list_all (list_all P) xss"
  by (auto simp: list_all_iff)

lemma read_valid:
  "list_all valid_text (base_texts b) \<Longrightarrow> read_base b = b" "list_all valid_text (payload_texts p) \<Longrightarrow> read_payload p = p"
proof -
  show "list_all valid_text (base_texts b) \<Longrightarrow> read_base b = b" by (simp add: base_texts_def read_base_def json_text_valid)
  assume v: "list_all valid_text (payload_texts p)"
  define as where "as = mp_From p # mp_To p @ mp_Cc p @ mp_Bcc p"
  have parts: "list_all (list_all valid_text) (map (\<lambda>a. [ea_Email a, ea_Name a]) as)"
    "list_all (list_all valid_text) (map (\<lambda>(k, vs). k # vs) (mp_Headers p))"
    "list_all (list_all valid_text) (map (\<lambda>a. [ai_ID a, ai_Filename a, ai_ContentType a, ai_ContentID a]) (mp_Attachments p))"
    using v unfolding payload_texts_def list_all_append list_all_concat as_def by blast+
  have all: "\<forall>a\<in>set as. valid_text (ea_Email a) \<and> valid_text (ea_Name a)"
    "\<forall>(k, vs)\<in>set (mp_Headers p). valid_text k \<and> list_all valid_text vs"
    "\<forall>a\<in>set (mp_Attachments p). valid_text (ai_ID a) \<and> valid_text (ai_Filename a) \<and> valid_text (ai_ContentType a) \<and> valid_text (ai_ContentID a)"
    using parts unfolding list.pred_map list_all_iff [of _ as] list_all_iff [of _ "mp_Headers p"] list_all_iff [of _ "mp_Attachments p"]
    by (simp_all add: split_def)
  have a: "read_address a = a" if "a \<in> set as" for a
    using bspec [OF all(1) that] by (simp add: read_address_def json_text_valid)
  have t: "read_attachment a = a" if "a \<in> set (mp_Attachments p)" for a
    using bspec [OF all(3) that] by (simp add: read_attachment_def json_text_valid)
  have "(json_text k, map json_text vs) = (k, vs)" if "(k, vs) \<in> set (mp_Headers p)" for k vs
    using bspec [OF all(2) that] by (auto simp: json_text_valid list_all_iff intro!: map_idI)
  then have h: "read_headers (mp_Headers p) = mp_Headers p" unfolding read_headers_def by (intro map_idI) auto
  have "map read_address xs = xs" if "set xs \<subseteq> set as" for xs
    using that a by (intro map_idI) blast
  then have "read_address (mp_From p) = mp_From p" "map read_address (mp_To p) = mp_To p"
    "map read_address (mp_Cc p) = mp_Cc p" "map read_address (mp_Bcc p) = mp_Bcc p"
    using a by (auto simp: as_def)
  moreover have "map read_attachment (mp_Attachments p) = mp_Attachments p" using t by (intro map_idI)
  ultimately show "read_payload p = p"
    using v h by (simp add: read_payload_def payload_texts_def json_text_valid)
qed

lemma read_event_valid: "list_all valid_text (event_texts e) \<Longrightarrow> read_event e = e"
  by (cases e) (simp_all add: read_valid json_text_valid)

fun event_wf :: "event \<Rightarrow> bool" where
  "event_wf (MessageReceivedEvent b p k) = (be_Type b = EventMessageReceived \<and> payload_wf p)"
| "event_wf (MessageSentEvent b p) = (be_Type b = EventMessageSent \<and> payload_wf p)"
| "event_wf (MessageBouncedEvent b p c r) = (be_Type b = EventMessageBounced \<and> payload_wf p)"
| "event_wf (MessageEngagementEvent b p t l i a) = (be_Type b = EventMessageEngagement \<and> payload_wf p)"
| "event_wf (ThreadCreatedEvent b th i s m) = (be_Type b = EventThreadCreated)"
| "event_wf (ThreadStatusChangedEvent b th i old new) = (be_Type b = EventThreadStatusChanged)"
| "event_wf (DraftCreatedEvent b d th i) = (be_Type b = EventDraftCreated)"
| "event_wf (DraftApprovedEvent b d th i) = (be_Type b = EventDraftApproved)"
| "event_wf (DraftRejectedEvent b d th i r) = (be_Type b = EventDraftRejected)"
| "event_wf (InboxCreatedEvent b i a p) = (be_Type b = EventInboxCreated)"
| "event_wf (LabelAppliedEvent b th l n) = (be_Type b = EventLabelApplied)"

lemma base_members_dec:
  assumes "texts_parse E"
  shows "dec_members (base_field E) (base_members E b) zero_base = Some (read_base b)"
  using assms by (simp add: enc_string_def read_base_def base_members_def base_field_def dec_string_def times.dec_enc [of E] texts_parse_def zero_base_def
      dec_members_append dec_opt)

lemma dec_optional:
  assumes "f (to_lower k) v r = Some r'" and "c \<Longrightarrow> r' = r"
  shows "dec_members f (if c then [] else [(k, v)]) r = Some r'"
  using assms by simp

lemma dec_opt_time:
  assumes "\<And>x. t = Some x \<Longrightarrow> f (to_lower k) (enc_time E x) r = Some r'" and "t = None \<Longrightarrow> r' = r"
  shows "dec_members f (opt_time E k t) r = Some r'"
  using assms by (cases t) (simp_all add: opt_time_def)

lemma payload_members_dec:
  assumes "texts_parse E" and "payload_wf p"
  shows "dec_members (payload_field E) (payload_members E p) zero_payload = Some (read_payload p)"
proof -
  note laws = assms [unfolded texts_parse_def payload_wf_def]
  have times: "dec_time E (enc_time E t) zero_time = Some t" "dec_ptr (dec_time E) zero_time (enc_time E t) None = Some (Some t)" for t
    using laws by (simp_all add: times.dec_enc times.pointer)
  have uuids: "dec_uuid E (enc_uuid E u) uuid_Nil = Some u" for u using laws by (simp add: uuids.dec_enc)
  have addrs: "dec_addresses (JArr (map enc_address xs)) = Some (Some (map read_address xs))" for xs
    unfolding dec_addresses_def by (rule addresses.slice) (simp add: list_all_iff)
  have atts: "dec_slice dec_attachment_info zero_attachment_info (JArr (map enc_attachment (mp_Attachments p))) = Some (Some (map read_attachment (mp_Attachments p)))"
    using laws by (intro attachment_infos.slice) simp
  have heads: "dec_headers (enc_headers (mp_Headers p)) [] = Some (read_headers (mp_Headers p))" using laws by (intro header_maps.dec_enc) simp
  have t: "dec_members (payload_field E) (opt_time E ''sent_at'' x) r = Some (r\<lparr>mp_SentAt := x\<rparr>)" if "mp_SentAt r = None" for x r
    using that times by (intro dec_opt_time) (simp_all add: payload_field_def)
  have t': "dec_members (payload_field E) (opt_time E ''received_at'' x) r = Some (r\<lparr>mp_ReceivedAt := x\<rparr>)" if "mp_ReceivedAt r = None" for x r
    using that times by (intro dec_opt_time) (simp_all add: payload_field_def)
  have h: "dec_members (payload_field E) (if mp_Headers p = [] then [] else [(''headers'', enc_headers (mp_Headers p))]) r = Some (r\<lparr>mp_Headers := read_headers (mp_Headers p)\<rparr>)"
    if "mp_Headers r = []" for r
    using that heads by (intro dec_optional) (simp_all add: payload_field_def read_headers_def)
  have o: "mp_ReplyTo r = [] \<Longrightarrow> dec_members (payload_field E) (opt ''reply_to'' x) r = Some (r\<lparr>mp_ReplyTo := json_text x\<rparr>)"
    "mp_BodyText r = [] \<Longrightarrow> dec_members (payload_field E) (opt ''body_text'' x) r = Some (r\<lparr>mp_BodyText := json_text x\<rparr>)"
    "mp_BodyHTML r = [] \<Longrightarrow> dec_members (payload_field E) (opt ''body_html'' x) r = Some (r\<lparr>mp_BodyHTML := json_text x\<rparr>)"
    "mp_Preview r = [] \<Longrightarrow> dec_members (payload_field E) (opt ''preview'' x) r = Some (r\<lparr>mp_Preview := json_text x\<rparr>)" for x r
    by (rule dec_opt; simp add: payload_field_def dec_string_def enc_string_def)+
  show ?thesis
    unfolding payload_members_def zero_payload_def
    by (simp add: read_payload_def enc_string_def payload_field_def dec_string_def times uuids addrs atts heads addresses.dec_enc or_empty_def o t t' h dec_members_append)
qed

text \<open>The envelope and the data of an encoded event.\<close>

lemma dec_event_enc:
  assumes "texts_parse E" and "dd (JObj ms) zero = Some x"
  shows "dec_event E dd zero mk (JObj (base_members E b @ [(''data'', JObj ms)])) = Inr (mk (read_base b) x)"
proof -
  have "dec_members (flat (base_field E) [(''data'', dd)]) (base_members E b) (zero_base, zero) =
      map_option (\<lambda>a. (a, zero)) (dec_members (base_field E) (base_members E b) zero_base)"
    by (rule flat_members) (simp add: base_members_def opt_def)
  with assms show ?thesis
    by (simp add: dec_event_def dec_struct_def base_members_dec dec_members_append flat_def)
qed

lemma envelope_dec:
  "texts_parse E \<Longrightarrow> dec_struct (base_field E) (JObj (base_members E b @ [(''data'', v)])) zero_base = Some (read_base b)"
  by (simp add: dec_struct_def dec_members_append base_members_dec) (simp add: base_field_def)

lemma payload_flat:
  assumes "texts_parse E" and "payload_wf p"
    and "list_all (\<lambda>k. map_of extra k = None) (map (to_lower \<circ> fst) (payload_members E p))"
  shows "dec_members (flat (payload_field E) extra) (payload_members E p) (zero_payload, x) = Some (read_payload p, x)"
  using flat_members [of extra "payload_members E p" "payload_field E" zero_payload x] assms
  by (simp add: payload_members_dec list_all_iff)

definition payload_keys :: "string list" where
  "payload_keys = [''id'', ''message_id'', ''inbox_id'', ''thread_id'', ''direction'', ''status'', ''subject'', ''from'', ''to'', ''cc'', ''bcc'',
     ''reply_to'', ''body_text'', ''body_html'', ''preview'', ''headers'', ''attachments'', ''sent_at'', ''received_at'', ''created_at'', ''updated_at'']"

lemma payload_names: "set (map (to_lower \<circ> fst) (payload_members E p)) \<subseteq> set payload_keys"
  by (auto simp: payload_keys_def payload_members_def opt_def opt_time_def split: option.splits if_splits)

text \<open>The data of an event with a payload: the members beside the payload's come after them.\<close>

lemma payload_data:
  assumes "texts_parse E" and "payload_wf p" and "list_all (\<lambda>k. k \<notin> fst ` set extra) payload_keys"
    and "dec_members (flat (payload_field E) extra) ms (read_payload p, x) = Some y"
  shows "dec_struct (flat (payload_field E) extra) (JObj (payload_members E p @ ms)) (zero_payload, x) = Some y"
proof -
  have "list_all (\<lambda>k. map_of extra k = None) (map (to_lower \<circ> fst) (payload_members E p))"
    using assms(3) payload_names [of E p] unfolding list_all_iff map_of_eq_None_iff by blast
  from payload_flat [OF assms(1,2) this, of x] assms(4) show ?thesis by (simp add: dec_struct_def dec_members_append)
qed

lemma payload_events_dec:
  assumes "texts_parse E" and "payload_wf p"
  shows "received_data E (JObj (payload_members E p @ opt ''raw_s3_key'' k)) (zero_payload, []) = Some (read_payload p, json_text k)"
    "sent_data E (JObj (payload_members E p)) zero_payload = Some (read_payload p)"
    "bounced_data E (JObj (payload_members E p @ opt ''bounce_code'' c @ opt ''bounce_reason'' r)) (zero_payload, [], []) = Some (read_payload p, json_text c, json_text r)"
    "engagement_data E (JObj (payload_members E p @ [(''engagement_type'', enc_string t)] @ opt ''link_url'' l @ opt ''ip_address'' i @
      opt ''user_agent'' a)) (zero_payload, [], [], [], []) = Some (read_payload p, json_text t, json_text l, json_text i, json_text a)"
proof -
  show "sent_data E (JObj (payload_members E p)) zero_payload = Some (read_payload p)"
    using assms by (simp add: sent_data_def dec_struct_def payload_members_dec)
  show "received_data E (JObj (payload_members E p @ opt ''raw_s3_key'' k)) (zero_payload, []) = Some (read_payload p, json_text k)"
    unfolding received_data_def using assms
    by (rule payload_data) (auto simp: payload_keys_def str_member_def flat_def opt_def enc_string_def)
  show "bounced_data E (JObj (payload_members E p @ opt ''bounce_code'' c @ opt ''bounce_reason'' r)) (zero_payload, [], []) = Some (read_payload p, json_text c, json_text r)"
    unfolding bounced_data_def using assms
    by (rule payload_data) (auto simp: payload_keys_def str_member_def flat_def opt_def enc_string_def)
  show "engagement_data E (JObj (payload_members E p @ [(''engagement_type'', enc_string t)] @ opt ''link_url'' l @ opt ''ip_address'' i @
      opt ''user_agent'' a)) (zero_payload, [], [], [], []) = Some (read_payload p, json_text t, json_text l, json_text i, json_text a)"
    unfolding engagement_data_def using assms
    by (rule payload_data) (auto simp: payload_keys_def str_member_def flat_def opt_def enc_string_def)
qed

lemma plain_events_dec:
  assumes "texts_parse E"
  shows "thread_created_data E (JObj [(''thread_id'', enc_uuid E th), (''inbox_id'', enc_uuid E i), (''subject'', enc_string s),
      (''first_message_id'', enc_string m)]) (uuid_Nil, uuid_Nil, [], []) = Some (th, i, json_text s, json_text m)"
    "thread_status_data E (JObj [(''thread_id'', enc_uuid E th), (''inbox_id'', enc_uuid E i), (''old_status'', enc_string old),
      (''new_status'', enc_string new)]) (uuid_Nil, uuid_Nil, [], []) = Some (th, i, json_text old, json_text new)"
    "draft_data E (JObj [(''draft_id'', enc_uuid E d), (''thread_id'', enc_uuid E th), (''inbox_id'', enc_uuid E i)])
      (uuid_Nil, uuid_Nil, uuid_Nil) = Some (d, th, i)"
    "draft_rejected_data E (JObj [(''draft_id'', enc_uuid E d), (''thread_id'', enc_uuid E th), (''inbox_id'', enc_uuid E i),
      (''reason'', enc_string r)]) (uuid_Nil, uuid_Nil, uuid_Nil, []) = Some (d, th, i, json_text r)"
    "inbox_created_data E (JObj [(''inbox_id'', enc_uuid E i), (''email_address'', enc_string a), (''pod_id'', enc_uuid E p)])
      (uuid_Nil, [], uuid_Nil) = Some (i, json_text a, p)"
    "label_applied_data E (JObj [(''thread_id'', enc_uuid E th), (''label_id'', enc_uuid E l), (''label_name'', enc_string n)])
      (uuid_Nil, uuid_Nil, []) = Some (th, l, json_text n)"
  using assms unfolding thread_created_data_def thread_status_data_def draft_data_def draft_rejected_data_def inbox_created_data_def
    label_applied_data_def
  by (simp_all add: dec_struct_def table_field_def uuid_member_def str_member_def enc_uuid_def enc_string_def texts_parse_def)

text \<open>C17. What the consumers read of an event: \<open>Unmarshal\<close> gives, of what \<open>Marshal\<close> writes of an event of any of the eleven
  kinds, the same event with every text made valid UTF-8; an event whose texts are all valid is read back exactly as it was
  published.  (A preview that was cut inside a character, or a body of raw bytes, is not.)\<close>

theorem Unmarshal_Marshal:
  assumes "texts_parse E" and "event_wf e"
  shows "Unmarshal E (Some (Marshal E e)) = Inr (read_event e) \<and>
    (list_all valid_text (event_texts e) \<longrightarrow> Unmarshal E (Some (Marshal E e)) = Inr e)"
proof -
  have "Unmarshal E (Some (Marshal E e)) = Inr (read_event e)"
    using assms payload_events_dec [OF assms(1)] plain_events_dec [OF assms(1)]
    by (cases e) (simp_all add: Unmarshal_def Marshal_def envelope_dec dec_event_enc read_type del: json_text.simps)
  with read_event_valid [of e] show ?thesis by simp
qed

text \<open>A text of 199 letters and an umlaut: its preview is cut between the two bytes of the umlaut.\<close>

definition demo_received :: "string \<Rightarrow> event" where
  "demo_received text = MessageReceivedEvent
     \<lparr>be_ID = ''1'', be_Type = ''message.received'', be_OrgID = ''1'', be_OccurredAt = 3, be_CorrelationID = []\<rparr>
     (MessagePayloadFromModel unary (scanMessage demo_message) [] [] (BuildPreview text 200) [demo_attachment]) ''raw''"

definition demo_umlaut :: string where
  "demo_umlaut = replicate 199 (CHR ''a'') @ [CHR 0xC3, CHR 0xA4]"

theorem Unmarshal_Marshal_witness:
  "Unmarshal demo_env (Some (Marshal demo_env (demo_received ''text''))) = Inr (demo_received ''text'') \<and>
   Unmarshal demo_env (Some (Marshal demo_env (demo_received demo_umlaut))) = Inr (read_event (demo_received demo_umlaut)) \<and>
   read_event (demo_received demo_umlaut) \<noteq> demo_received demo_umlaut"
proof -
  have "read_unary_int (unary_int t) = Some t" for t using demo_codec by (auto simp: cursor_codec_def demo_env_def)
  then have E: "texts_parse demo_env" by (simp add: texts_parse_def demo_env_def unary_def)
  have wf: "event_wf (demo_received ''text'')" "event_wf (demo_received demo_umlaut)" by code_simp+
  have v: "list_all valid_text (event_texts (demo_received ''text''))" by code_simp
  have "read_event (demo_received demo_umlaut) \<noteq> demo_received demo_umlaut" by code_simp
  with Unmarshal_Marshal [OF E wf(1)] Unmarshal_Marshal [OF E wf(2)] v show ?thesis by blast
qed

end
