(* ===== verification/Startup.thy ===== *)
theory Startup
  imports Config Search License Ses_Events Email_Inbound Email_Outbound Api Webhook_Dispatcher Domains
begin

text \<open>
  The start of every function of \<open>lambdas\<close>: what its \<open>init\<close> makes of the process's environment, the database driver and
  the AWS SDK before the first request, as the configuration that its handler is modelled with, or the error that ends
  the process. Constructors that only make a client of the SDK are not shown.
\<close>

section \<open>What a process finds\<close>

record ('r, 'p, 'a) platform =
  pf_getenv :: getenv
  pf_driver :: "('r, 'p) pool_driver"
  pf_aws :: "(string \<times> string \<times> string) option \<Rightarrow> go_error + 'a"

definition start_then :: "go_error + 'x \<Rightarrow> ('x \<Rightarrow> go_error + 'y) \<Rightarrow> go_error + 'y" where
  "start_then r f = (case r of Inl e \<Rightarrow> Inl e | Inr x \<Rightarrow> f x)"

lemma start_then_eq_Inr: "start_then r f = Inr y \<longleftrightarrow> (\<exists>x. r = Inr x \<and> f x = Inr y)"
  by (simp add: start_then_def split: sum.split)

text \<open>The pool of a function: a configuration made on the spot, where the life and the idle time of a connection are the zero values.\<close>

definition function_config :: "getenv \<Rightarrow> 32 word \<Rightarrow> DatabaseConfig" where
  "function_config getenv limit =
     \<lparr>dbc_URL = getenv ''DATABASE_URL'', dbc_MaxConns = limit, dbc_MinConns = 1, dbc_MaxConnLifetime = 0, dbc_MaxConnIdleTime = 0\<rparr>"

definition InitDB :: "('r, 'p, 'a) platform \<Rightarrow> go_error + 'p" where
  "InitDB P = fst (Connect (pf_driver P) (function_config (pf_getenv P) 5))"

text \<open>The authorizer and the functions of the web sockets open a smaller pool.\<close>

definition small_InitDB :: "('r, 'p, 'a) platform \<Rightarrow> go_error + 'p" where
  "small_InitDB P = fst (Connect (pf_driver P) (function_config (pf_getenv P) 3))"

definition authorizer_init :: "('r, 'p, 'a) platform \<Rightarrow> go_error + 'p" where
  "authorizer_init P = small_InitDB P"

definition ws_connect_init :: "('r, 'p, 'a) platform \<Rightarrow> go_error + 'p" where
  "ws_connect_init P = small_InitDB P"

definition ws_disconnect_init :: "('r, 'p, 'a) platform \<Rightarrow> go_error + 'p" where
  "ws_disconnect_init P = small_InitDB P"

text \<open>The dispatcher of the web sockets: the address of the push API, when one is set.\<close>

definition ws_dispatcher_init :: "('r, 'p, 'a) platform \<Rightarrow> go_error + string option" where
  "ws_dispatcher_init P =
     start_then (InitDB P) (\<lambda>_. start_then (pf_aws P None) (\<lambda>_.
     let wsEndpoint = pf_getenv P ''APIGW_WEBSOCKET_ENDPOINT'' in Inr (if wsEndpoint \<noteq> [] then Some wsEndpoint else None)))"

section \<open>The queues and the buckets\<close>

definition NewPublisher :: "getenv \<Rightarrow> publisher" where
  "NewPublisher getenv =
     \<lparr>webhookDeliveryURL = getenv ''WEBHOOK_DELIVERY_QUEUE_URL'', wsDispatchURL = getenv ''WS_DISPATCH_QUEUE_URL'',
      embedderURL = getenv ''EMBEDDER_QUEUE_URL'', emailOutboundURL = getenv ''EMAIL_OUTBOUND_QUEUE_URL''\<rparr>"

definition start_publisher :: "('r, 'p, 'a) platform \<Rightarrow> go_error + publisher" where
  "start_publisher P = start_then (pf_aws P None) (\<lambda>_. Inr (NewPublisher (pf_getenv P)))"

definition start_bucket :: "('r, 'p, 'a) platform \<Rightarrow> string \<Rightarrow> go_error + string" where
  "start_bucket P var = start_then (NewFromAWS (pf_aws P) (pf_getenv P var)) (\<lambda>client. Inr (s3_bucket client))"

section \<open>The mail API\<close>

definition NewDraftService :: "publisher \<Rightarrow> publisher \<Rightarrow> string option \<Rightarrow> draft_service" where
  "NewDraftService eventProducer outboundProducer attachmentsS3 =
     \<lparr>ds_eventProducer = eventProducer, ds_outboundProducer = outboundProducer, ds_attachmentsS3 = attachmentsS3\<rparr>"

definition NewMessageService :: "publisher \<Rightarrow> publisher \<Rightarrow> string option \<Rightarrow> string option \<Rightarrow> message_service" where
  "NewMessageService outboundProducer eventPublisher attachmentsS3 emailsS3 =
     \<lparr>ms_outboundProducer = outboundProducer, ms_eventPublisher = eventPublisher, ms_attachmentsS3 = attachmentsS3,
      ms_emailsS3 = emailsS3\<rparr>"

definition NewInboxService :: "publisher \<Rightarrow> string \<Rightarrow> inbox_service" where
  "NewInboxService producer mailDomain = \<lparr>is_producer = producer, is_mailDomain = mailDomain\<rparr>"

definition drafts_init :: "('r, 'p, 'a) platform \<Rightarrow> go_error + draft_service" where
  "drafts_init P =
     start_then (InitDB P) (\<lambda>_. start_then (start_publisher P) (\<lambda>pub.
     start_then (start_bucket P ''S3_BUCKET_ATTACHMENTS'') (\<lambda>attachments.
     Inr (NewDraftService pub pub (Some attachments)))))"

definition scheduler_init :: "('r, 'p, 'a) platform \<Rightarrow> go_error + draft_service" where
  "scheduler_init P =
     start_then (InitDB P) (\<lambda>_. start_then (start_publisher P) (\<lambda>pub. Inr (NewDraftService pub pub None)))"

definition messages_init :: "('r, 'p, 'a) platform \<Rightarrow> go_error + message_service" where
  "messages_init P =
     start_then (InitDB P) (\<lambda>_. start_then (start_publisher P) (\<lambda>pub.
     start_then (start_bucket P ''S3_BUCKET_ATTACHMENTS'') (\<lambda>attachments.
     start_then (start_bucket P ''S3_BUCKET_EMAILS'') (\<lambda>emails.
     Inr (NewMessageService pub pub (Some attachments) (Some emails))))))"

definition threads_init :: "('r, 'p, 'a) platform \<Rightarrow> go_error + publisher" where
  "threads_init P = start_then (InitDB P) (\<lambda>_. start_publisher P)"

definition inboxes_init :: "('r, 'p, 'a) platform \<Rightarrow> go_error + inbox_service" where
  "inboxes_init P =
     start_then (InitDB P) (\<lambda>_. start_then (start_publisher P) (\<lambda>pub. Inr (NewInboxService pub (pf_getenv P ''MAIL_DOMAIN''))))"

definition domains_init :: "('r, 'p, 'a) platform \<Rightarrow> go_error + domain_service" where
  "domains_init P =
     start_then (InitDB P) (\<lambda>_. start_then (pf_aws P None) (\<lambda>_.
     Inr \<lparr>dms_ruleSetName = pf_getenv P ''SES_RULE_SET_NAME'', dms_s3Bucket = pf_getenv P ''S3_BUCKET_EMAILS'',
          dms_awsRegion = pf_getenv P ''AWS_REGION''\<rparr>))"

section \<open>Webhooks\<close>

text \<open>Both functions read the key of the header values from the same variable; without it there is no key.\<close>

definition encryption_key :: "getenv \<Rightarrow> go_error + string option" where
  "encryption_key getenv =
     (let keyHex = getenv ''WEBHOOK_ENCRYPTION_KEY'' in
      if keyHex \<noteq> [] then start_then (KeyFromHex keyHex) (\<lambda>key. Inr (Some key)) else Inr None)"

definition webhooks_init :: "('r, 'p, 'a) platform \<Rightarrow> go_error + string option" where
  "webhooks_init P = start_then (InitDB P) (\<lambda>_. encryption_key (pf_getenv P))"

definition dispatcher_init :: "('r, 'p, 'a) platform \<Rightarrow> go_error + string option" where
  "dispatcher_init P = start_then (InitDB P) (\<lambda>_. encryption_key (pf_getenv P))"

section \<open>The mail pipeline\<close>

definition inbound_init :: "('r, 'p, 'a) platform \<Rightarrow> go_error + inbound_worker" where
  "inbound_init P =
     start_then (InitDB P) (\<lambda>_. start_then (start_bucket P ''S3_BUCKET_EMAILS'') (\<lambda>emails.
     start_then (start_publisher P) (\<lambda>pub. Inr \<lparr>iw_emailsS3 = emails, iw_publisher = pub\<rparr>)))"

definition outbound_init :: "('r, 'p, 'a) platform \<Rightarrow> go_error + outbound_worker" where
  "outbound_init P =
     start_then (InitDB P) (\<lambda>_. start_then (start_bucket P ''S3_BUCKET_EMAILS'') (\<lambda>emails.
     start_then (start_bucket P ''S3_BUCKET_ATTACHMENTS'') (\<lambda>attachments.
     start_then (start_publisher P) (\<lambda>pub.
     Inr \<lparr>ow_emailsS3 = emails, ow_attachmentsS3 = attachments, ow_publisher = pub,
          ow_SES_CONFIGURATION_SET = pf_getenv P ''SES_CONFIGURATION_SET''\<rparr>))))"

text \<open>Without a database URL the function starts without anything; without its bucket it goes on without the bodies.\<close>

definition ses_init :: "('r, 'p, 'a) platform \<Rightarrow> go_error + ses_worker" where
  "ses_init P =
     (if pf_getenv P ''DATABASE_URL'' = [] then Inr \<lparr>sw_pool = False, sw_publisher = None, sw_emailsS3 = None\<rparr>
      else start_then (InitDB P) (\<lambda>_.
        let emails = (case start_bucket P ''S3_BUCKET_EMAILS'' of Inl e \<Rightarrow> None | Inr b \<Rightarrow> Some b)
        in start_then (start_publisher P) (\<lambda>pub. Inr \<lparr>sw_pool = True, sw_publisher = Some pub, sw_emailsS3 = emails\<rparr>)))"

section \<open>Search, embeddings and licences\<close>

definition embedder_dims :: "getenv \<Rightarrow> int" where
  "embedder_dims getenv =
     (let s = getenv ''EMBEDDER_DIMS'' in if s \<noteq> [] then (case atoi s of Some d \<Rightarrow> if 0 < d then d else 0 | None \<Rightarrow> 0) else 0)"

definition search_init :: "('r, 'p, 'a) platform \<Rightarrow> go_error + embedder_client option" where
  "search_init P =
     start_then (InitDB P) (\<lambda>_.
     let getenv = pf_getenv P; u = getenv ''EMBEDDER_URL'' in
     Inr (if u \<noteq> [] then Some (Embedder_New u (getenv ''EMBEDDER_MODEL'') (getenv ''EMBEDDER_API_KEY'') (embedder_dims getenv)) else None))"

definition embedder_init :: "('r, 'p, 'a) platform \<Rightarrow> go_error + embedder_worker" where
  "embedder_init P =
     start_then (InitDB P) (\<lambda>_. start_then (start_bucket P ''S3_BUCKET_EMAILS'') (\<lambda>emails.
     let getenv = pf_getenv P in
     Inr \<lparr>ew_bucket = emails,
          ew_client = Embedder_New (getenv ''EMBEDDER_URL'') (getenv ''EMBEDDER_MODEL'') (getenv ''EMBEDDER_API_KEY'') (embedder_dims getenv)\<rparr>))"

definition licenseServerURL :: "getenv \<Rightarrow> string" where
  "licenseServerURL getenv = getEnv getenv ''LICENSE_SERVER_URL'' ''https://license.agent-mx.cc''"

definition ssmTokenPath :: "getenv \<Rightarrow> string" where
  "ssmTokenPath getenv = getEnv getenv ''SSM_LICENSE_TOKEN_PATH'' ''/ngx/license-token''"

definition refresh_settings :: "getenv \<Rightarrow> refresh_config" where
  "refresh_settings getenv = \<lparr>rc_server = licenseServerURL getenv, rc_ssmTokenPath = ssmTokenPath getenv\<rparr>"

section \<open>What holds of a started deployment\<close>

lemmas init_defs = drafts_init_def scheduler_init_def messages_init_def threads_init_def inboxes_init_def webhooks_init_def
  dispatcher_init_def inbound_init_def outbound_init_def

text \<open>Functions started in the same environment publish to the same queues and agree on the buckets.\<close>

lemma started_together:
  assumes "messages_init P = Inr m" and "inbound_init P = Inr i" and "outbound_init P = Inr out"
  shows "drafts_init P = Inr (NewDraftService (ms_eventPublisher m) (ms_outboundProducer m) (ms_attachmentsS3 m)) \<and>
    ow_publisher out = ms_eventPublisher m \<and> iw_publisher i = ms_eventPublisher m \<and>
    Some (iw_emailsS3 i) = ms_emailsS3 m \<and> Some (ow_emailsS3 out) = ms_emailsS3 m \<and> Some (ow_attachmentsS3 out) = ms_attachmentsS3 m"
  using assms by (auto simp: init_defs start_then_eq_Inr NewMessageService_def NewDraftService_def start_publisher_def start_then_def
      split: sum.splits)

text \<open>The functions open their pool with the limits they name and, whatever the driver's defaults for the URL are, with connections of no
  life and no idle time.\<close>

lemma functions_pool:
  assumes "InitDB P = Inr pool"
  shows "pd_Ping (pf_driver P) pool = None \<and> (\<exists>poolCfg defaults.
    pd_ParseConfig (pf_driver P) (pf_getenv P ''DATABASE_URL'') = Inr defaults \<and> pd_NewWithConfig (pf_driver P) poolCfg = Inr pool \<and>
    pc_rest poolCfg = pc_rest defaults \<and> pc_MaxConns poolCfg = 5 \<and> pc_MinConns poolCfg = 1 \<and>
    pc_MaxConnLifetime poolCfg = 0 \<and> pc_MaxConnIdleTime poolCfg = 0)"
  using assms by (auto simp: InitDB_def Connect_def function_config_def Let_def split: sum.splits option.splits)

lemma create_webhook_stores:
  assumes "create_webhook encKey c req E w = (resp, w')" and "rs_StatusCode resp = 201" and "auth_header_of req = Some (name, val)"
  shows "\<exists>key n h. encKey = Some key \<and> aes_key_ok key \<and> t_webhooks (w_db w') = t_webhooks (w_db w) @ [h] \<and>
    wh_OrgID h = cl_OrgID c \<and> wh_AuthHeaderName h = Some name \<and> wh_AuthHeaderValue h = [] \<and>
    wh_AuthHeaderValueEnc h = rand_bytes E n nonce_size @ gcm_seal E key (rand_bytes E n nonce_size) val"
proof -
  note h = handle_def respond_def error_text_def JSON_def Error_def
  from assms obtain hook w1 key enc w2 where new: "new_webhook c req E w = (Inr hook, w1)" and key: "encKey = Some key"
    and enc: "Encrypt key val E w1 = (Inr enc, w2)"
    and store: "store_webhook (hook\<lparr>wh_AuthHeaderName := Some name, wh_AuthHeaderValueEnc := enc\<rparr>) E w2 = (resp, w')"
    by (auto simp: create_webhook_def h split: prod.splits sum.splits option.splits)
  from new have hook: "wh_OrgID hook = cl_OrgID c" "w_db w1 = w_db w"
    by (auto simp: new_webhook_def go_success uuid_New_def time_Now_def)
  from Encrypt_success [OF enc] obtain n where n: "aes_key_ok key" "w_db w2 = w_db w1"
    "enc = rand_bytes E n nonce_size @ gcm_seal E key (rand_bytes E n nonce_size) val" by blast
  from store assms(2) have "\<exists>hook'. CreateWebhook (hook\<lparr>wh_AuthHeaderName := Some name, wh_AuthHeaderValueEnc := enc\<rparr>) E w2 = (Inr hook', w')"
    by (auto simp: store_webhook_def h split: prod.splits sum.splits)
  with hook n key show ?thesis
    by (auto simp: CreateWebhook_def go_success pool_exec_eq_Inr webhook_insert_def require_eq_Inr)
qed

lemma decrypts_what_was_stored:
  assumes "gcm_law E" and "aes_key_ok key"
  shows "Decrypt E key (rand_bytes E n nonce_size @ gcm_seal E key (rand_bytes E n nonce_size) val) = Inr val"
  using assms by (simp add: Decrypt_def gcm_law_def)

text \<open>C29. The header of a webhook survives the two functions that handle it: when the creation of a webhook with a header is answered with
  201, the row that is stored has the name and not the value, and a dispatcher that was started in the same environment sends
  exactly the requested value under that name (in canonical form) with every event to this webhook.\<close>

theorem webhook_header_roundtrip:
  assumes started: "webhooks_init P = Inr encKey" "dispatcher_init P = Inr encKey'"
    and created: "create_webhook encKey c req E w = (resp, w')" "rs_StatusCode resp = 201" "auth_header_of req = Some (name, val)"
    and law: "gcm_law E"
  shows "\<exists>h. t_webhooks (w_db w') = t_webhooks (w_db w) @ [h] \<and> wh_OrgID h = cl_OrgID c \<and> wh_AuthHeaderValue h = [] \<and>
    (\<forall>payload v. (canonical_key name, v) \<in> set (hr_Header (delivery_request E (with_auth_value E encKey' (scanWebhook h)) payload)) \<longleftrightarrow> v = val)"
proof -
  from created(3) have val: "val \<noteq> []" by (auto simp: auth_header_of_def split: option.splits if_splits)
  from started have same: "encKey' = encKey" by (auto simp: init_defs start_then_eq_Inr)
  from create_webhook_stores [OF created] obtain key n h where key: "encKey = Some key" "aes_key_ok key"
    and h: "t_webhooks (w_db w') = t_webhooks (w_db w) @ [h]" "wh_OrgID h = cl_OrgID c" "wh_AuthHeaderName h = Some name"
      "wh_AuthHeaderValue h = []" and enc: "wh_AuthHeaderValueEnc h = rand_bytes E n nonce_size @ gcm_seal E key (rand_bytes E n nonce_size) val"
    by blast
  have "rand_bytes E n nonce_size \<noteq> []" using law by (auto simp: gcm_law_def nonce_size_def dest: arg_cong [where f = length])
  then have "with_auth_value E encKey' (scanWebhook h) = (scanWebhook h)\<lparr>wh_AuthHeaderValue := val\<rparr>"
    using decrypts_what_was_stored [OF law key(2)] by (simp add: with_auth_value_def same key(1) scanWebhook_def enc)
  with h val show ?thesis
    by (intro exI [of _ h]) (auto simp: delivery_request_def scanWebhook_def header_set_def Let_def)
qed

definition demo_platform :: "(unit, unit, unit) platform" where
  "demo_platform =
     \<lparr>pf_getenv = (\<lambda>var. if var = ''WEBHOOK_ENCRYPTION_KEY'' then demo_key else []),
      pf_driver = \<lparr>pd_ParseConfig = (\<lambda>_. Inr \<lparr>pc_MaxConns = 4, pc_MinConns = 0, pc_MaxConnLifetime = seconds 3600,
          pc_MaxConnIdleTime = seconds 1800, pc_rest = ()\<rparr>), pd_NewWithConfig = (\<lambda>_. Inr ()), pd_Ping = (\<lambda>_. None)\<rparr>,
      pf_aws = (\<lambda>_. Inr ())\<rparr>"

definition demo_header_request :: create_webhook_request where
  "demo_header_request = \<lparr>cw_URL = ''http://h'', cw_Events = Some [], cw_Secret = [],
     cw_AuthHeader = Some [(''name'', ''x-token''), (''value'', ''secret'')]\<rparr>"

theorem webhook_header_roundtrip_witness:
  "\<exists>h. t_webhooks (w_db (snd (create_webhook (Some (replicate 32 (CHR ''k''))) (demo_claims 1) demo_header_request demo_env demo_world))) =
       t_webhooks (w_db demo_world) @ [h] \<and> wh_AuthHeaderValue h = [] \<and>
     (''X-Token'', ''secret'') \<in> set (hr_Header (delivery_request demo_env
       (with_auth_value demo_env (Some (replicate 32 (CHR ''k''))) (scanWebhook h)) ''{}''))"
proof -
  let ?k = "Some (replicate 32 (CHR ''k'')) :: string option"
  let ?r = "create_webhook ?k (demo_claims 1) demo_header_request demo_env demo_world"
  have "KeyFromHex demo_key = Inr (replicate 32 (CHR ''k''))" "demo_key \<noteq> []" by code_simp+
  then have start: "webhooks_init demo_platform = Inr ?k" "dispatcher_init demo_platform = Inr ?k"
    by (simp_all add: init_defs InitDB_def Connect_def demo_platform_def function_config_def start_then_def encryption_key_def Let_def)
  have run: "?r = (fst ?r, snd ?r)" by simp
  have code: "rs_StatusCode (fst ?r) = 201" by code_simp
  have hdr: "auth_header_of demo_header_request = Some (''x-token'', ''secret'')" by code_simp
  have law: "gcm_law demo_env" by (simp add: gcm_law_def demo_env_def)
  have "canonical_key ''x-token'' = ''X-Token''" by code_simp
  with webhook_header_roundtrip [OF start run code hdr law] show ?thesis by metis
qed

end
