(* ===== verification/Review_Machine.thy ===== *)
theory Review_Machine
  imports Draft_Review
begin

text \<open>
  The abstract review machine of a draft and the refinement: every sequence of calls of the draft service, with the
  successes and failures they had, is one of its runs.
\<close>

section \<open>The machine\<close>

text \<open>The states are the review statuses, and \<open>None\<close> for no draft.  The actions are the calls; \<open>subject\<close> is the draft
  that a call changes.\<close>

fun subject :: "draft_op \<Rightarrow> uuid option" where
  "subject (DCreate req) = None"
| "subject (DGet i) = None"
| "subject (DList i n cur) = None"
| "subject (DUpdate i req) = Some i"
| "subject (DDelete i) = Some i"
| "subject (DApprove i nt) = Some i"
| "subject (DReject i nt) = Some i"

text \<open>What a successful call does to the draft \<open>i\<close>: only a pending draft is edited, approved or rejected.\<close>

inductive accepted :: "uuid \<Rightarrow> draft_op \<Rightarrow> string option \<Rightarrow> string option \<Rightarrow> bool" where
  submit: "accepted i (DCreate req) None (Some ''pending'')"
| edit: "accepted i (DUpdate i req) (Some ''pending'') (Some ''pending'')"
| approve: "accepted i (DApprove i nt) (Some ''pending'') (Some ''approved'')"
| reject: "accepted i (DReject i nt) (Some ''pending'') (Some ''rejected'')"
| discard: "accepted i (DDelete i) (Some st) None"
| other: "subject k \<noteq> Some i \<Longrightarrow> accepted i k st st"

inductive_cases accepted_SomeE: "accepted i k (Some st) st'"
inductive_cases accepted_decisionE: "accepted i (DApprove i nt) st st'" "accepted i (DReject i nt) st st'"

text \<open>A run over calls and whether they succeeded; a failed call is no move.\<close>

inductive review_run :: "uuid \<Rightarrow> (draft_op \<times> bool) list \<Rightarrow> string option \<Rightarrow> string option \<Rightarrow> bool" where
  finished: "review_run i [] st st"
| refused: "review_run i ls st st' \<Longrightarrow> review_run i ((k, False) # ls) st st'"
| moved: "accepted i k st st1 \<Longrightarrow> review_run i ls st1 st' \<Longrightarrow> review_run i ((k, True) # ls) st st'"

text \<open>The successful decisions about a draft.\<close>

definition decides :: "uuid \<Rightarrow> draft_op \<times> bool \<Rightarrow> bool" where
  "decides i l = (case l of (DApprove j nt, True) \<Rightarrow> j = i | (DReject j nt, True) \<Rightarrow> j = i | _ \<Rightarrow> False)"

lemma decides_iff: "decides i (k, ok) \<longleftrightarrow> ok \<and> (\<exists>nt. k = DApprove i nt \<or> k = DReject i nt)"
  by (cases ok; cases k) (auto simp: decides_def)

lemma decided_stays:
  assumes "review_run i ls (Some st) st'" and "st \<in> {''approved'', ''rejected''}" and "(DDelete i, True) \<notin> set ls"
  shows "st' = Some st \<and> filter (decides i) ls = []"
  using assms
proof (induction i ls "Some st" st' rule: review_run.induct)
  case (moved i k st1 ls st')
  then have "st1 = Some st \<and> \<not> decides i (k, True)"
    by (auto elim!: accepted_SomeE simp: decides_iff)
  with moved show ?case by auto
qed (auto simp: decides_iff)

lemma decided_once:
  assumes "review_run i ls st st'" and "(DDelete i, True) \<notin> set ls"
  shows "length (filter (decides i) ls) \<le> 1"
  using assms
proof (induction rule: review_run.induct)
  case (moved i k st st1 ls st')
  show ?case
  proof (cases "decides i (k, True)")
    case True
    then obtain nt where "k = DApprove i nt \<or> k = DReject i nt" by (auto simp: decides_iff)
    with moved(1) have "\<exists>s \<in> {''approved'', ''rejected''}. st1 = Some s" by (auto elim: accepted_decisionE)
    then obtain s where "s \<in> {''approved'', ''rejected''}" "st1 = Some s" by blast
    with decided_stays [of i ls s st'] moved(2,4) True show ?thesis by simp
  qed (use moved in simp)
qed (simp_all add: decides_iff)

section \<open>Every call of the service is a move\<close>

lemma fst_outcome_None: "fst (outcome rw) = None \<longleftrightarrow> (\<exists>x. fst rw = Inr x)"
  by (cases rw) (auto simp: outcome_def split: sum.splits)

lemma Update_success:
  assumes "DraftService_Update s c j req E w = (Inr x, w')"
  obtains now ups w1 w2 where "update_body c j req now ups E w1 = (Inr x, w2)" "w_db w1 = w_db w" "w_db w' = w_db w2"
proof -
  from assms obtain u wa now wb ups wc where
    a: "for_each check_addresses [nil_slice (ur_To req), nil_slice (ur_Cc req), nil_slice (ur_Bcc req)] E w = (Inr u, wa)" and
    b: "time_Now E wa = (Inr now, wb)" and
    c: "(case ur_Attachments req of None \<Rightarrow> ret [] | Some atts \<Rightarrow> uploadAttachments s (cl_OrgID c) j ''drafts'' atts) E wb = (Inr ups, wc)" and
    tx: "WithOrgTx (cl_OrgID c) (update_body c j req now ups) E wc = (Inr x, w')"
    unfolding DraftService_Update_def by (auto simp only: go_bind_eq_Inr wrap_err_eq_Inr)
  have "keeps_db Q (case ur_Attachments req of None \<Rightarrow> ret [] | Some atts \<Rightarrow> uploadAttachments s (cl_OrgID c) j ''drafts'' atts)" for Q
    by (intro keeps_intros)
  then have "w_db wc = w_db wb" using c by (rule keeps_db_same)
  moreover have "w_db wb = w_db wa" using b by (auto simp: time_Now_eq_Inr)
  moreover have "w_db wa = w_db w" by (rule keeps_db_same [OF keeps_db_checks(2) a])
  ultimately show thesis using tx by (elim WithOrgTx_success) (auto intro: that)
qed

lemma Reject_success:
  assumes "DraftService_Reject s c j nt E w = (Inr x, w')"
  obtains now w1 w2 where "reject_body s c j nt now E w1 = (Inr x, w2)" "w_db w1 = w_db w" "w_db w' = w_db w2"
proof -
  from assms have "WithOrgTx (cl_OrgID c) (reject_body s c j nt (clock E (w_tick w))) E (tick_world w) = (Inr x, w')"
    by (simp add: DraftService_Reject_def go_success time_Now_eq_Inr)
  then show thesis by (rule WithOrgTx_success) (auto intro: that)
qed

lemma Delete_success:
  assumes "DraftService_Delete s c j E w = (Inr u, w')"
  obtains now n where "draft_delete (cl_OrgID c) j now (w_db w) = Inr (n, w_db w')" "n \<noteq> 0"
proof -
  from assms obtain w1 w2 where "DraftStore_Delete (cl_OrgID c) j E w1 = (Inr (), w2)" "w_db w1 = w_db w" "w' = end_tx w w2"
    unfolding DraftService_Delete_def wrap_err_eq_Inr by (auto elim: WithOrgTx_success)
  then show thesis using that by (auto simp: DraftStore_Delete_def go_success tx_exec_eq_Inr)
qed

text \<open>A guarded patch moves the draft it names from pending.\<close>

lemma accepted_patch:
  assumes "draft_keys d" "draft_select org j now d = Inr (r, d)" "dr_review_status r = ''pending''"
    "t_drafts d' = patched E org j p now' (t_drafts d)"
    and "subject k = Some j" "accepted j k (Some ''pending'') (Some (supplied (dp_ReviewStatus p) ''pending''))"
  shows "accepted i k (status_of i d) (status_of i d')"
  using status_patched(1) [OF assms(1-4)] status_patched(2) [OF assms(1-4), of i] assms(5,6)
  by (cases "i = j") (auto intro: accepted.other)

lemma accepted_insert:
  assumes "draft_insert r now d = Inr ((), d')" "dr_review_status r = ''pending''"
  shows "accepted i (DCreate req) (status_of i d) (status_of i d')"
proof -
  have fresh: "status_of (dr_id r) d = None" and d': "t_drafts d' = t_drafts d @ [r]"
    using assms by (auto simp: draft_insert_eq_Inr status_of_None)
  then have e: "filter (\<lambda>x. dr_id x = dr_id r) (t_drafts d) = []"
    by (simp add: status_of_def split: list.splits)
  show ?thesis
  proof (cases "i = dr_id r")
    case True
    then have "status_of i d' = Some ''pending''" using e assms(2) by (simp add: status_of_def d')
    then show ?thesis using fresh True by (auto intro: accepted.submit)
  next
    case False
    then have "status_of i d' = status_of i d" by (simp add: status_of_def d')
    then show ?thesis by (auto intro: accepted.other)
  qed
qed

lemma accepted_delete:
  assumes "draft_keys d" "draft_delete org j now d = Inr (n, d')" "n \<noteq> 0"
  shows "accepted i (DDelete j) (status_of i d) (status_of i d')"
proof -
  let ?hit = "\<lambda>x. dr_org_id x = org \<and> dr_id x = j"
  have f: "filter (\<lambda>x. dr_id x = i) (t_drafts d') = filter (\<lambda>x. \<not> ?hit x) (filter (\<lambda>x. dr_id x = i) (t_drafts d))"
    using assms(2) by (auto simp: draft_delete_def Let_def del_where_def conj_commute)
  show ?thesis
  proof (cases "i = j")
    case True
    from assms(2,3) have "filter ?hit (t_drafts d) \<noteq> []" by (auto simp: draft_delete_def Let_def)
    then obtain r where r: "r \<in> set (t_drafts d)" "?hit r" by (auto simp: filter_empty_conv)
    then have u: "filter (\<lambda>x. dr_id x = i) (t_drafts d) = [r]"
      using filter_key_unique [of dr_id "t_drafts d" r] assms(1) True by (simp add: draft_keys_def)
    with f r have "status_of i d' = None" "status_of i d = Some (dr_review_status r)" by (simp_all add: status_of_def)
    with True show ?thesis by (auto intro: accepted.discard)
  next
    case False
    have "filter (\<lambda>x. \<not> ?hit x) (filter (\<lambda>x. dr_id x = i) rs) = filter (\<lambda>x. dr_id x = i) rs" for rs :: "draft_row list"
      using False by (induction rs) auto
    with f have "status_of i d' = status_of i d" by (simp only: status_of_def)
    with False show ?thesis by (auto intro: accepted.other)
  qed
qed

lemma draft_call_accepted:
  assumes "draft_keys (w_db w)" and "fst (draft_call E s (c, k) w) = None"
  shows "accepted i k (status_of i (w_db w)) (status_of i (w_db (snd (draft_call E s (c, k) w))))"
proof (cases k)
  case (DCreate req)
  have stutter: "accepted i (DCreate req) st st" for st by (rule accepted.other) simp
  have atts: "status_of i (d\<lparr>t_attachments := as\<rparr>) = status_of i d" for d as by (simp add: status_of_def)
  show ?thesis
    unfolding DCreate
    by (rule draft_call_leaves [where P = "\<lambda>d. accepted i (DCreate req) (status_of i (w_db w)) (status_of i d)"])
      (auto intro: stutter accepted_insert simp: atts)
next
  case (DUpdate j req)
  with assms(2) obtain x w' where run: "DraftService_Update s c j req E w = (Inr x, w')"
    by (cases "DraftService_Update s c j req E w") (auto simp: fst_outcome_None)
  from Update_success [OF run] obtain now ups w1 w2 where
    "update_body c j req now ups E w1 = (Inr x, w2)" "w_db w1 = w_db w" "w_db w' = w_db w2" by blast
  with update_body_success [of c j req now ups E w1 x w2] show ?thesis
    unfolding DUpdate by (auto simp: run intro!: accepted_patch [OF assms(1)] accepted.edit)
next
  case (DApprove j nt)
  with assms(2) obtain x w' where run: "DraftService_Approve s c j nt E w = (Inr x, w')"
    by (cases "DraftService_Approve s c j nt E w") (auto simp: fst_outcome_None)
  from Approve_success [OF run] obtain now w1 w2 where
    body: "approve_body s c j nt now E w1 = (Inr x, w2)" and db: "w_db w1 = w_db w" "w_db w' = w_db w2" by blast
  show ?thesis
    unfolding DApprove using db
    by (rule_tac approve_body_success [OF body])
      (auto simp: run approved_tables_drafts intro!: accepted_patch [OF assms(1)] accepted.approve)
next
  case (DReject j nt)
  with assms(2) obtain x w' where run: "DraftService_Reject s c j nt E w = (Inr x, w')"
    by (cases "DraftService_Reject s c j nt E w") (auto simp: fst_outcome_None)
  from Reject_success [OF run] obtain now w1 w2 where
    "reject_body s c j nt now E w1 = (Inr x, w2)" "w_db w1 = w_db w" "w_db w' = w_db w2" by blast
  with reject_body_success [of s c j nt now E w1 x w2] show ?thesis
    unfolding DReject by (auto simp: run intro!: accepted_patch [OF assms(1)] accepted.reject)
next
  case (DDelete j)
  with assms(2) obtain w' where run: "DraftService_Delete s c j E w = (Inr (), w')"
    by (cases "DraftService_Delete s c j E w") (auto simp: fst_outcome_None)
  from Delete_success [OF run] obtain now n where "draft_delete (cl_OrgID c) j now (w_db w) = Inr (n, w_db w')" "n \<noteq> 0" by blast
  from accepted_delete [OF assms(1) this] show ?thesis by (simp add: DDelete run)
qed (simp_all add: draft_reads_db accepted.other)

section \<open>The refinement\<close>

text \<open>The calls of a run with their successes.\<close>

fun draft_log :: "env \<Rightarrow> draft_service \<Rightarrow> (claims \<times> draft_op) list \<Rightarrow> world \<Rightarrow> (draft_op \<times> bool) list" where
  "draft_log E s [] w = []"
| "draft_log E s ((c, k) # calls) w =
     (case draft_call E s (c, k) w of (e, w') \<Rightarrow> (k, e = None) # draft_log E s calls w')"

lemma draft_call_rolls_back: "fst (draft_call E s (c, k) w) = Some e \<Longrightarrow> w_db (snd (draft_call E s (c, k) w)) = w_db w"
  by (cases k) (simp_all only: draft_call.simps rolls_back_outcome draft_ops_roll_back)

lemma draft_log_run:
  assumes "draft_keys (w_db w)"
  shows "review_run i (draft_log E s calls w) (status_of i (w_db w)) (status_of i (w_db (draft_calls E s calls w)))"
  using assms
proof (induction calls arbitrary: w)
  case (Cons call calls)
  obtain c k where call: "call = (c, k)" by (rule prod.exhaust)
  obtain e w1 where run: "draft_call E s (c, k) w = (e, w1)" by (rule prod.exhaust)
  have rest: "review_run i (draft_log E s calls w1) (status_of i (w_db w1)) (status_of i (w_db (draft_calls E s calls w1)))"
    using Cons.IH [of w1] draft_call_keys [OF Cons.prems, of E s c k] run by simp
  show ?case
  proof (cases e)
    case None
    with draft_call_accepted [OF Cons.prems, of E s c k i] rest show ?thesis
      by (simp add: call run) (rule review_run.moved)
  next
    case (Some err)
    with draft_call_rolls_back [of E s c k w err] rest show ?thesis
      by (simp add: call run review_run.refused)
  qed
qed (simp add: review_run.finished)

text \<open>C1. Every sequence of draft calls, by whomever and however each of them ends, is a run of the review machine: a
  successful creation makes a draft pending, a successful edit finds and leaves it pending, a successful approval or
  rejection finds it pending and decides it, a successful deletion removes it, and every other call and every failed one
  leaves its status alone.  So, as long as it is not deleted, a draft is decided at most once.\<close>

theorem draft_calls_refine_review:
  assumes "draft_keys (w_db w)"
  shows "review_run i (draft_log E s calls w) (status_of i (w_db w)) (status_of i (w_db (draft_calls E s calls w))) \<and>
    ((DDelete i, True) \<notin> set (draft_log E s calls w) \<longrightarrow> length (filter (decides i) (draft_log E s calls w)) \<le> 1)"
  using draft_log_run [OF assms] decided_once by blast

theorem draft_calls_refine_review_witness:
  "map snd (draft_log demo_env demo_draft_service [(demo_claims 1, DApprove 5 ''ok''), (demo_claims 1, DReject 5 ''no'')] demo_world)
     = [True, False] \<and>
   review_run 5 [(DApprove 5 ''ok'', True), (DReject 5 ''no'', False)] (Some ''pending'') (status_of 5 (w_db (draft_calls demo_env demo_draft_service
     [(demo_claims 1, DApprove 5 ''ok''), (demo_claims 1, DReject 5 ''no'')] demo_world)))"
proof -
  let ?calls = "[(demo_claims 1, DApprove 5 ''ok''), (demo_claims 1, DReject 5 ''no'')]"
  have log: "draft_log demo_env demo_draft_service ?calls demo_world = [(DApprove 5 ''ok'', True), (DReject 5 ''no'', False)]"
    by code_simp
  have st: "status_of 5 (w_db demo_world) = Some ''pending''" by (simp add: status_of_def demo_db_def demo_draft_def)
  have "draft_keys (w_db demo_world)" by (simp add: draft_keys_def demo_db_def demo_draft_def)
  from draft_calls_refine_review [OF this, of 5 demo_env demo_draft_service ?calls] show ?thesis
    unfolding log st by simp
qed

end
