(* ===== verification/Spec2Isabelle.thy ===== *)
theory Spec2Isabelle
  imports System Event_Codec Startup Review_Machine
begin

text \<open>
  Verification development for nGX, the self-hosted e-mail infrastructure in this repository: an API
  over inboxes, threads, messages, drafts, labels, webhooks, domains and API keys, kept in PostgreSQL, S3 and SQS.

  \<^bold>\<open>The program.\<close>  Every function of the deployment is a Lambda.  A request passes the authorizer
  (\<open>lambdas/authorizer\<close>) and reaches a handler (\<open>lambdas/*/main.go\<close>), which extracts the
  caller's claims, checks a scope and calls a service (\<open>services/inbox/service\<close>).  A service
  validates the request, uploads attachments, and runs one transaction
  (\<open>pkg/db\<close>) of store operations (\<open>services/inbox/store\<close>); then it publishes
  events (\<open>pkg/events\<close>, \<open>pkg/sqs\<close>).  The queues drive the workers: outbound jobs become mails handed to
  SES, received mails become messages, notifications of SES update the messages, and events are posted to webhooks,
  pushed to web sockets and used to embed the messages for the search.  A scheduler approves due drafts, and a refresh
  job renews the licence token that the authorizer checks.  Two command-line tools set an installation up.

  \<^bold>\<open>The theories\<close>, from the bottom.  Shared vocabulary and access paths:

  \<^item> \<open>Prelude\<close>: the computation type of the code (environment, world in; error or result, world
    out) with its rules, the lifting of invariants, and lists as tables.
  \<^item> \<open>Go_Strings\<close>: the functions of Go's strings, strconv, base64 and hex the code uses.
  \<^item> \<open>Models\<close>, \<open>Events\<close>: \<open>pkg/models\<close> and \<open>pkg/events\<close>.
  \<^item> \<open>Mime\<close>: \<open>pkg/mime\<close>, the parser of received mails; it returns on every input.
  \<^item> \<open>Database\<close>: the tables, statements, transactions and session settings, the object store, the
    queues, HTTP and SES.  Every call that leaves the process may fail.  Lemmas: a transaction that reports an
    error has changed no table; what a committed transaction says about its body.  \<open>Footprints\<close>: which parts of
    the world a computation cannot touch.
  \<^item> \<open>Pagination\<close>: \<open>pkg/pagination\<close>; the locale \<open>keyset_list\<close>, the contract of a
    listing, under which following the cursors visits every row once.
  \<^item> \<open>Auth\<close>: \<open>pkg/auth\<close> and the request helpers of \<open>lambdas/shared\<close>.  \<open>Requests\<close>: request bodies and the
    guards that handlers share, and honest answers: an error answer means that nothing has changed.
  \<^item> \<open>Crypto\<close>: \<open>pkg/crypto\<close>, over AES-GCM as a parameter.
  \<^item> \<open>Event_Codec\<close>: \<open>pkg/events/marshal.go\<close>, the JSON of the events, over the locale \<open>json_codec\<close>, the contract of an
    encoder and a decoder; what is published is what the consumers read, up to bytes that are not valid UTF-8.
  \<^item> \<open>Tables\<close>: the locales \<open>org_rows\<close> and \<open>org_table\<close>, the contract of a table whose rows belong to an
    organisation, under which a foreign row can be neither seen nor changed.

  The mail API:

  \<^item> \<open>Draft_Store\<close>, \<open>Inbox_Store\<close>, \<open>Thread_Store\<close>, \<open>Message_Store\<close>, \<open>Label_Store\<close>: one store each
    (\<open>services/inbox/store/*_store.go\<close>), with the constraints, triggers and cascades of
    \<open>migrations/\<close>, and the interpretation of the contracts on its statements.
  \<^item> \<open>Outbound\<close>: what sending a message and approving a draft share.
  \<^item> \<open>Draft_Service\<close>, \<open>Message_Service\<close>, \<open>Thread_Service\<close>, \<open>Inbox_Service\<close>, \<open>Label_Service\<close>: one
    service each (\<open>services/inbox/service/*_service.go\<close>), every operation.
  \<^item> \<open>Demo\<close>: a small concrete deployment at which properties are applied.
  \<^item> \<open>Draft_Lifecycle\<close>: what each call of the draft service does to the tables, and that decided drafts are frozen.
  \<^item> \<open>Draft_Review\<close>, \<open>Message_Sending\<close>: effects, refusals, atomicity, isolation and paging of drafts and
    messages.  \<open>Review_Machine\<close>: the review state machine, its steps labelled by calls and their success; every
    sequence of calls is one of its runs, so a draft is decided at most once.  The corresponding properties of threads, inboxes and labels are in their service's theory.
  \<^item> \<open>Draft_Handler\<close> (with the scheduler), \<open>Message_Handler\<close>, \<open>Thread_Handler\<close>, \<open>Inbox_Handler\<close>: the HTTP handlers
    (\<open>lambdas/{drafts,scheduler_drafts,messages,threads,inboxes}/main.go\<close>), every route.  \<open>Api\<close>: all of them
    under one dispatcher, with what holds of every error answer.

  Webhooks:

  \<^item> \<open>Webhook_Store\<close>, \<open>Webhook_Deliveries\<close>: \<open>services/webhook-service/store\<close>; back-off times and the states of
    a delivery.
  \<^item> \<open>Webhook_Handler\<close>, \<open>Webhook_Secrets\<close>: \<open>lambdas/webhooks\<close>; no answer depends on a stored secret.
  \<^item> \<open>Webhook_Dispatcher\<close>: \<open>lambdas/event_dispatcher_webhook\<close>; who is called with what, and the log of it.

  The mail pipeline:

  \<^item> \<open>Email_Store\<close>: \<open>services/email-pipeline/store\<close>.
  \<^item> \<open>Email_Inbound\<close>, \<open>Inbound_Delivery\<close>: \<open>lambdas/email_inbound\<close> and what a received mail leaves in the database.
  \<^item> \<open>Email_Outbound\<close>, \<open>Outbound_Delivery\<close>: \<open>lambdas/email_outbound\<close>, the mail that leaves, and what is recorded.
  \<^item> \<open>Ses_Events\<close>: \<open>lambdas/ses_events\<close>, the notifications of SES.

  Administration:

  \<^item> \<open>Orgs\<close>, \<open>Keys\<close>: \<open>lambdas/orgs\<close> and \<open>lambdas/auth\<close>.
  \<^item> \<open>License\<close>, \<open>Authorizer\<close>: \<open>lambdas/authorizer\<close> and \<open>lambdas/license_refresh\<close>.  \<open>Key_Lifecycle\<close>: the life of a
    key across the handler that creates it and the authorizer that accepts it.
  \<^item> \<open>Domains\<close>: \<open>services/domains\<close> and \<open>lambdas/domains\<close>.
  \<^item> \<open>Tools\<close>: \<open>tools/bootstrap\<close>, whose key the authorizer accepts, and \<open>tools/migrate\<close>.
  \<^item> \<open>Config\<close>: \<open>pkg/config\<close> with its numbers at their width, the opening of the pool (\<open>pkg/db/db.go\<close>), the clients of
    \<open>pkg/s3\<close>, and \<open>pkg/validate\<close>.  \<open>Startup\<close>: what the functions' \<open>init\<close> makes of the environment, and that functions
    started in the same environment fit together, from the header of a webhook to the requests that carry it.

  Search and push:

  \<^item> \<open>Embedder\<close>: \<open>pkg/embedder\<close>, \<open>services/embedder\<close> and \<open>lambdas/embedder\<close>; what the worker changes.
  \<^item> \<open>Search\<close>: \<open>lambdas/search\<close>; what a search can show, and what its cursors lose.
  \<^item> \<open>Web_Sockets\<close>: \<open>lambdas/ws_connect\<close>, \<open>lambdas/ws_disconnect\<close> and \<open>lambdas/event_dispatcher_ws\<close>; who may connect and
    who gets an event.

  The whole:

  \<^item> \<open>Schema\<close>: keys, constraints and foreign keys of the database as one predicate, kept by every statement.
    \<open>Tenants\<close>: what the database does not check, that threads and messages stay in their organisation; every
    statement keeps it but the insertions of mails, and the operations that use these because of what they look up.
    \<open>Services_Typed\<close>, \<open>Programs_Typed\<close>: both, for every store, service and program.  \<open>System\<close>: invocations of the
    programs as the steps of one system, and both as an invariant of its runs.

  \<^bold>\<open>Correspondence.\<close>  A definition has the name of the Go function, with the type as prefix
  (\<open>DraftStore_Create\<close>).  A struct is a record; a pointer or a slice that may be nil is an option
  where the code distinguishes nil.  A Go function with an error result is a computation of type
  \<open>io\<close>; \<open>if err != nil { return ... }\<close> is \<open>go_bind\<close>, \<open>fmt.Errorf("...: %w", err)\<close> is
  \<open>wrap_err\<close>, a discarded error is \<open>ignore_err\<close>.  A handler answers and leaves a world, with no error result
  of its own.  A SQL statement is a function on the tables that
  either fails or gives a result and new tables.  The record \<open>env\<close> holds what the code takes from
  outside: new UUIDs, the clock, random bytes, the outcome of external calls, cryptography, and the parsers and printers of
  third-party packages and of the server.

  \<^bold>\<open>Bounds.\<close>  The walk over pages uses fuel; one more than the number of rows is proved to be
  enough.  The MIME parser recurses into parts that the library hands out, on fuel of one more than the length of
  the body, which is proved to be enough.  All other recursions end by their structure or a measure.

  \<^bold>\<open>Simplifications.\<close>  Strings are lists of bytes, and \<open>strings.ToLower\<close> and \<open>strings.TrimSpace\<close>
  act on ASCII.  Times are not rounded to the precision of the database.  Concurrent transactions, and invocations
  outside the seat check of \<open>Inbox_Service\<close>, are run one
  after the other; the seat check counts outside the transaction that it guards, so there the checks and insertions of several
  instances are steps of their own.  Row-level security policies are not applied: the statements' own WHERE clauses are
  what is verified.  JSON columns hold values instead of text, request bodies are parsed JSON, and a queue record is
  what \<open>Unmarshal\<close> (in \<open>Event_Codec\<close>) makes of it.  The vector index is taken to be exact, and ranks and distances are
  compared as codes whose order is the numbers'.  A push, a mail or a web request counts as made even when it is answered
  by an error.  PostgreSQL's refusal of a text that is not valid UTF-8 is not modelled (what \<open>json.Marshal\<close> makes of one
  is, in \<open>Event_Codec\<close>), integer columns are unbounded, and the texts of some decoding errors are shortened.

  \<^bold>\<open>Not modelled.\<close>  The construction of the AWS clients beyond its settings, and the reading of the public key that
  licences are verified with; logging; the parsing of command-line flags; the Kafka producer, SMTP and telemetry that
  \<open>pkg/config\<close> still has settings for, which are not in the repository; and the deployment (\<open>terraform\<close>, \<open>scripts\<close>), which is
  no code of the program.
\<close>

end
